(* ===== verification/Go_Values.thy ===== *)
theory Go_Values
  imports Go_Prelude
begin

text \<open>
  Dynamic Go values. A \<^verbatim>\<open>map[string]any\<close> is an association list with distinct keys
  (Go fixes no order of a map, and every function below reads it by key or treats all entries
  alike); a map field of a struct that may be nil is an option. \<^verbatim>\<open>json.Number\<close> keeps its
  literal. JSON decoding with \<^verbatim>\<open>UseNumber\<close>, which every service does, yields only the
  constructors that \<open>json_norm\<close> returns.
\<close>

section \<open>Values\<close>

text \<open>A finite floating-point number is \<open>m * 2 ^ e\<close>.\<close>

datatype gofloat = FNaN | FInf bool | FFin int int

datatype gov =
    GNil
  | GBool bool
  | GStr string
  | GInt int            \<comment> \<open>the signed integer kinds, in range of int64\<close>
  | GUint int           \<comment> \<open>the unsigned integer kinds, in range of uint64\<close>
  | GFloat64 gofloat
  | GFloat32 gofloat
  | GNum string         \<comment> \<open>json.Number, its literal\<close>
  | GNumF gofloat       \<comment> \<open>json.Number, the literal printed for a float that is not a small integer\<close>
  | GStrs "string list" \<comment> \<open>[]string\<close>
  | GList "gov list"    \<comment> \<open>[]any\<close>
  | GObj "(string \<times> gov) list"

type_synonym gomap = "(string \<times> gov) list"

text \<open>Reading a nil map, or a key that is absent, gives nil.\<close>

definition mget :: "gomap \<Rightarrow> string \<Rightarrow> gov" where
  "mget m k = (case map_of m k of None \<Rightarrow> GNil | Some v \<Rightarrow> v)"

definition mlen :: "gomap \<Rightarrow> nat" where
  "mlen m = length (remdups (map fst m))"

definition mset_key :: "string \<Rightarrow> gov \<Rightarrow> gomap \<Rightarrow> gomap" where
  "mset_key k v m = (k, v) # filter (\<lambda>p. fst p \<noteq> k) m"

definition opt_map :: "gomap option \<Rightarrow> gomap" where
  "opt_map m = (case m of None \<Rightarrow> [] | Some kvs \<Rightarrow> kvs)"

lemma opt_map_simps [simp]: "opt_map None = []" "opt_map (Some m) = m"
  by (simp_all add: opt_map_def)

lemma mget_Nil [simp]: "mget [] k = GNil"
  by (simp add: mget_def)

lemma mget_Cons [simp]: "mget ((k', v) # m) k = (if k = k' then v else mget m k)"
  by (simp add: mget_def)

lemma map_of_filter_neq: "k \<noteq> j \<Longrightarrow> map_of (filter (\<lambda>p. fst p \<noteq> k) m) j = map_of m j"
  by (induction m) auto

lemma mget_mset_key [simp]: "mget (mset_key k v m) j = (if j = k then v else mget m j)"
  by (simp add: mget_def mset_key_def map_of_filter_neq)

lemma mlen_distinct: "distinct (map fst m) \<Longrightarrow> mlen m = length m"
  by (simp add: mlen_def distinct_remdups_id)

text \<open>The type assertions \<^verbatim>\<open>v.(string)\<close> and \<^verbatim>\<open>v.(map[string]any)\<close>.\<close>

fun as_str :: "gov \<Rightarrow> string option" where
  "as_str (GStr s) = Some s"
| "as_str _ = None"

fun as_obj :: "gov \<Rightarrow> gomap option" where
  "as_obj (GObj m) = Some m"
| "as_obj _ = None"

text \<open>\<^verbatim>\<open>s, _ := v.(string)\<close>: the zero value when the assertion fails.\<close>

definition str_of :: "gov \<Rightarrow> string" where
  "str_of v = (case as_str v of None \<Rightarrow> [] | Some s \<Rightarrow> s)"

lemma str_of_GStr [simp]: "str_of (GStr s) = s"
  by (simp add: str_of_def)

lemma as_str_eq_Some [simp]: "as_str v = Some s \<longleftrightarrow> v = GStr s"
  by (cases v) auto

lemma as_obj_eq_Some [simp]: "as_obj v = Some m \<longleftrightarrow> v = GObj m"
  by (cases v) auto

section \<open>Integers out of dynamic values\<close>

definition pow_dvd :: "nat \<Rightarrow> int \<Rightarrow> bool" where
  "pow_dvd k m \<longleftrightarrow> m mod 2 ^ k = 0"

text \<open>The integer a finite float denotes, if it is one.\<close>

fun float_int :: "gofloat \<Rightarrow> int option" where
  "float_int (FFin m e) =
     (if 0 \<le> e then Some (m * 2 ^ nat e)
      else if pow_dvd (nat (- e)) m then Some (m div 2 ^ nat (- e)) else None)"
| "float_int _ = None"

text \<open>The literal \<^verbatim>\<open>encoding/json\<close> prints: for an integer below \<open>2 ^ 53\<close> its decimal digits.\<close>

definition float_json :: "gofloat \<Rightarrow> gov option" where
  "float_json f =
     (case f of
        FFin m e \<Rightarrow>
          (case float_int f of
             Some n \<Rightarrow> if \<bar>n\<bar> < 9007199254740992 then Some (GNum (show_int n)) else Some (GNumF f)
           | None \<Rightarrow> Some (GNumF f))
      | _ \<Rightarrow> None)"

section \<open>JSON normal form\<close>

text \<open>The JSON number grammar: an optional minus, digits without a leading zero, an optional
  fraction, an optional exponent.\<close>

definition drop_digits :: "string \<Rightarrow> string" where
  "drop_digits s = dropWhile is_digit s"

definition valid_exp :: "string \<Rightarrow> bool" where
  "valid_exp s \<longleftrightarrow>
     (case s of [] \<Rightarrow> True
      | c # t \<Rightarrow>
          (c = CHR ''e'' \<or> c = CHR ''E'') \<and>
          (let u = (if has_prefix t ''+'' \<or> has_prefix t ''-'' then drop 1 t else t)
           in u \<noteq> [] \<and> list_all is_digit u))"

definition valid_frac :: "string \<Rightarrow> bool" where
  "valid_frac s \<longleftrightarrow>
     (if has_prefix s ''.'' then
        (case drop 1 s of [] \<Rightarrow> False | d # t \<Rightarrow> is_digit d \<and> valid_exp (drop_digits t))
      else valid_exp s)"

definition valid_number :: "string \<Rightarrow> bool" where
  "valid_number s \<longleftrightarrow>
     (let t = (if has_prefix s ''-'' then drop 1 s else s)
      in case t of
           [] \<Rightarrow> False
         | d # u \<Rightarrow>
             if d = CHR ''0'' then valid_frac u
             else is_digit d \<and> valid_frac (drop_digits u))"

text \<open>
  Marshalling a value and decoding it with \<^verbatim>\<open>UseNumber\<close>: the value that comes back, or
  None where marshalling fails (a float that is not finite, an invalid literal). A number outside
  the range of its kind is no Go value and has no normal form either. The empty
  literal is printed as 0. Object keys come out sorted, as the encoder writes them.
\<close>

fun json_norm :: "gov \<Rightarrow> gov option"
  and json_norms :: "gov list \<Rightarrow> gov list option"
  and json_norm_kvs :: "(string \<times> gov) list \<Rightarrow> (string \<times> gov) list option" where
  "json_norm GNil = Some GNil"
| "json_norm (GBool b) = Some (GBool b)"
| "json_norm (GStr s) = Some (GStr s)"
| "json_norm (GInt n) = (if int64_range n then Some (GNum (show_int n)) else None)"
| "json_norm (GUint n) = (if 0 \<le> n \<and> n < 2 ^ 64 then Some (GNum (show_int n)) else None)"
| "json_norm (GFloat64 f) = float_json f"
| "json_norm (GFloat32 f) = float_json f"
| "json_norm (GNum s) = (if s = [] then Some (GNum ''0'') else if valid_number s then Some (GNum s) else None)"
| "json_norm (GNumF f) = Some (GNumF f)"
| "json_norm (GStrs xs) = Some (GList (map GStr xs))"
| "json_norm (GList vs) = map_option GList (json_norms vs)"
| "json_norm (GObj kvs) = map_option (\<lambda>kvs'. GObj (sort_key fst kvs')) (json_norm_kvs kvs)"
| "json_norms [] = Some []"
| "json_norms (v # vs) =
     (case json_norm v of None \<Rightarrow> None
      | Some v' \<Rightarrow> map_option ((#) v') (json_norms vs))"
| "json_norm_kvs [] = Some []"
| "json_norm_kvs ((k, v) # kvs) =
     (case json_norm v of None \<Rightarrow> None
      | Some v' \<Rightarrow> map_option ((#) (k, v')) (json_norm_kvs kvs))"

lemma dropWhile_digits [simp]: "list_all is_digit s \<Longrightarrow> drop_digits s = []"
  by (induction s) (simp_all add: drop_digits_def)

lemma show_nat_leading_zero: "show_nat n = CHR ''0'' # u \<Longrightarrow> u = []"
proof (induction n arbitrary: u rule: show_nat.induct)
  case (1 n)
  show ?case
  proof (cases "n < 10")
    case True
    with "1.prems" show ?thesis by (simp add: show_nat.simps [of n])
  next
    case False
    obtain c w where cw: "show_nat (n div 10) = c # w"
      using show_nat_nonempty [of "n div 10"] by (cases "show_nat (n div 10)") auto
    with "1.prems" False have "c = CHR ''0''" by (simp add: show_nat.simps [of n])
    with "1.IH" False cw have "show_nat (n div 10) = ''0''" by simp
    then have "read_nat (show_nat (n div 10)) = 0" by (simp add: read_nat_def digit_val_def)
    with False show ?thesis by simp
  qed
qed

lemma valid_number_show_nat: "valid_number (show_nat n)"
  using show_nat_nonempty [of n] show_nat_digits [of n] show_nat_no_sign [of n] show_nat_leading_zero [of n]
  by (cases "show_nat n") (auto simp: valid_number_def valid_frac_def has_prefix_def valid_exp_def)

lemma valid_number_show_int [simp]: "valid_number (show_int n)"
proof (cases "n < 0")
  case True
  have "valid_number (CHR ''-'' # show_nat m) = valid_number (show_nat m)" for m
    using show_nat_no_sign [of m] by (simp add: valid_number_def has_prefix_def [of "CHR ''-'' # _"])
  with True show ?thesis by (simp add: show_int_def valid_number_show_nat)
qed (simp add: show_int_def valid_number_show_nat)

lemma valid_number_zero: "valid_number ''0''"
  by (simp add: valid_number_def valid_frac_def valid_exp_def has_prefix_def)

lemma show_int_nonempty [simp]: "show_int n \<noteq> []"
  by (simp add: show_int_def)

lemma json_norms_strs [simp]: "json_norms (map GStr xs) = Some (map GStr xs)"
  by (induction xs) simp_all

text \<open>Normal forms are fixed points: a stored value read back is the stored value.\<close>

lemma json_norm_kvs_eq: "json_norm_kvs kvs = Some kvs \<longleftrightarrow> (\<forall>(k, v) \<in> set kvs. json_norm v = Some v)"
  by (induction kvs) (auto split: option.splits)

lemma json_norm_idem_aux:
  "json_norm v = Some v' \<Longrightarrow> json_norm v' = Some v'"
  "json_norms vs = Some vs' \<Longrightarrow> json_norms vs' = Some vs'"
  "json_norm_kvs kvs = Some kvs' \<Longrightarrow> json_norm_kvs kvs' = Some kvs'"
proof (induction v and vs and kvs arbitrary: v' and vs' and kvs' rule: json_norm_json_norms_json_norm_kvs.induct)
  case (12 kvs)
  then obtain kvs1 where k: "json_norm_kvs kvs = Some kvs1" "v' = GObj (sort_key fst kvs1)" by auto
  with 12 have "json_norm_kvs kvs1 = Some kvs1" by simp
  then have "json_norm_kvs (sort_key fst kvs1) = Some (sort_key fst kvs1)"
    by (simp add: json_norm_kvs_eq)
  with k show ?case by (simp add: sort_key_id_if_sorted)
qed (auto simp: float_json_def valid_number_zero split: option.splits gofloat.splits if_splits)

lemmas json_norm_idem = json_norm_idem_aux(1)

text \<open>What is read out of a normal form is the normal form of what was there.\<close>

lemma map_of_filter_key: "map_of (filter (\<lambda>p. fst p = k) m) k = map_of m k"
  by (induction m) auto

lemma map_of_sort_key [simp]: "map_of (sort_key fst m) k = map_of m k"
  using map_of_filter_key [of k "sort_key fst m"] map_of_filter_key [of k m] sort_key_stable [of fst k m] by simp

lemma mget_sort_key [simp]: "mget (sort_key fst m) k = mget m k"
  by (simp add: mget_def)

lemma json_norm_kvs_get: "json_norm_kvs m = Some m' \<Longrightarrow> json_norm (mget m k) = Some (mget m' k)"
  by (induction m arbitrary: m') (auto split: option.splits)

lemma json_norm_kvs_keys: "json_norm_kvs m = Some m' \<Longrightarrow> map fst m' = map fst m"
  by (induction m arbitrary: m') (auto split: option.splits)

lemma json_norm_kvs_defined: "json_norm_kvs m \<noteq> None \<longleftrightarrow> (\<forall>(k, v) \<in> set m. json_norm v \<noteq> None)"
  by (induction m) (auto split: option.splits)

lemma json_norm_kvs_values: "json_norm_kvs m = Some m' \<Longrightarrow> (k, v') \<in> set m' \<Longrightarrow> \<exists>v. (k, v) \<in> set m \<and> json_norm v = Some v'"
  by (induction m arbitrary: m') (auto split: option.splits, blast+)

lemma json_norm_obj:
  "json_norm (GObj m) = Some v \<longleftrightarrow> (\<exists>m'. json_norm_kvs m = Some m' \<and> v = GObj (sort_key fst m'))"
  by auto

lemma mlen_sort_key [simp]: "mlen (sort_key fst m) = mlen m"
  by (simp add: mlen_def length_remdups_card_conv)

lemma json_norm_obj_get: "json_norm (GObj m) = Some (GObj m') \<Longrightarrow> json_norm (mget m k) = Some (mget m' k)"
  by (auto simp: json_norm_kvs_get)

lemma json_norm_obj_len: "json_norm (GObj m) = Some (GObj m') \<Longrightarrow> mlen m' = mlen m"
  by (metis gov.inject(11) json_norm_kvs_keys json_norm_obj mlen_def mlen_sort_key)

lemma json_norm_as_str: "json_norm v = Some v' \<Longrightarrow> as_str v' = as_str v"
  by (cases v) (auto simp: float_json_def split: option.splits gofloat.splits if_splits)

lemma json_norm_as_obj: "json_norm v = Some v' \<Longrightarrow> as_obj v' = None \<longleftrightarrow> as_obj v = None"
  by (cases v) (auto simp: float_json_def split: option.splits gofloat.splits if_splits)

end
