(* ===== verification/Go_Time.thy ===== *)
theory Go_Time
  imports Go_Prelude "HOL-Library.Monad_Syntax"
begin

text \<open>
  The part of package \<^verbatim>\<open>time\<close> the services use. An instant is the number of
  nanoseconds since the zero time of Go (1 January of year 1, UTC), so \<^verbatim>\<open>IsZero\<close> is
  equality with 0 and \<^verbatim>\<open>After\<close>, \<^verbatim>\<open>Before\<close> are the order of the integers. A parsed
  time also carries the offset of its zone in seconds, which its calendar fields depend on.
\<close>

type_synonym instant = int

definition ns_per_sec :: int where "ns_per_sec = 1000000000"
definition ns_per_day :: int where "ns_per_day = 86400 * 1000000000"

section \<open>The calendar\<close>

definition leap :: "int \<Rightarrow> bool" where
  "leap y \<longleftrightarrow> y mod 4 = 0 \<and> (y mod 100 \<noteq> 0 \<or> y mod 400 = 0)"

definition days_in_month :: "int \<Rightarrow> int \<Rightarrow> int" where
  "days_in_month y m =
     (if m = 2 then (if leap y then 29 else 28)
      else if m = 4 \<or> m = 6 \<or> m = 9 \<or> m = 11 then 30 else 31)"

definition days_before_year :: "int \<Rightarrow> int" where
  "days_before_year y = 365 * (y - 1) + (y - 1) div 4 - (y - 1) div 100 + (y - 1) div 400"

definition days_before_month :: "int \<Rightarrow> int \<Rightarrow> int" where
  "days_before_month y m =
     (let l = (if leap y then 1 else 0 :: int)
      in if m = 1 then 0 else if m = 2 then 31 else if m = 3 then 59 + l else if m = 4 then 90 + l
         else if m = 5 then 120 + l else if m = 6 then 151 + l else if m = 7 then 181 + l
         else if m = 8 then 212 + l else if m = 9 then 243 + l else if m = 10 then 273 + l
         else if m = 11 then 304 + l else if m = 12 then 334 + l else 365 + l)"

text \<open>Days since 1 January of year 1. The day may exceed the month, as in \<^verbatim>\<open>time.Date\<close>.\<close>

definition days_of :: "int \<Rightarrow> int \<Rightarrow> int \<Rightarrow> int" where
  "days_of y m d = days_before_year y + days_before_month y m + (d - 1)"

definition year_of_days :: "int \<Rightarrow> int" where
  "year_of_days n =
     (let q = n div 146097; r = n mod 146097;
          c = min 3 (r div 36524); r2 = r - c * 36524;
          p = r2 div 1461; r3 = r2 mod 1461;
          k = min 3 (r3 div 365)
      in 400 * q + 100 * c + 4 * p + k + 1)"

definition yday_of_days :: "int \<Rightarrow> int" where
  "yday_of_days n = n - days_before_year (year_of_days n)"

definition month_of_days :: "int \<Rightarrow> int" where
  "month_of_days n =
     (let y = year_of_days n; d = yday_of_days n
      in if d < days_before_month y 2 then 1 else if d < days_before_month y 3 then 2
         else if d < days_before_month y 4 then 3 else if d < days_before_month y 5 then 4
         else if d < days_before_month y 6 then 5 else if d < days_before_month y 7 then 6
         else if d < days_before_month y 8 then 7 else if d < days_before_month y 9 then 8
         else if d < days_before_month y 10 then 9 else if d < days_before_month y 11 then 10
         else if d < days_before_month y 12 then 11 else 12)"

definition day_of_days :: "int \<Rightarrow> int" where
  "day_of_days n = yday_of_days n - days_before_month (year_of_days n) (month_of_days n) + 1"

lemma days_before_year_cycles:
  assumes "0 \<le> c" "c \<le> 3" "0 \<le> p" "p \<le> 24" "0 \<le> k" "k \<le> 3"
  shows "days_before_year (400 * q + 100 * c + 4 * p + k + 1) = 146097 * q + 36524 * c + 1461 * p + 365 * k"
proof -
  have "(400 * q + 100 * c + 4 * p + k) div 4 = 100 * q + 25 * c + p"
    by (rule int_div_pos_eq [where r = k]) (use assms in auto)
  moreover have "(400 * q + 100 * c + 4 * p + k) div 100 = 4 * q + c"
    by (rule int_div_pos_eq [where r = "4 * p + k"]) (use assms in auto)
  moreover have "(400 * q + 100 * c + 4 * p + k) div 400 = q"
    by (rule int_div_pos_eq [where r = "100 * c + 4 * p + k"]) (use assms in auto)
  ultimately show ?thesis by (simp add: days_before_year_def)
qed

lemma div_pred:
  fixes y b :: int
  assumes "0 < b"
  shows "y div b = (y - 1) div b + (if y mod b = 0 then 1 else 0)"
proof (cases "y mod b = 0")
  case True
  then have "y = b * (y div b)" by (simp add: mod_eq_0_iff_dvd)
  then have "y - 1 = b * (y div b - 1) + (b - 1)" by (simp add: right_diff_distrib)
  then have "(y - 1) div b = y div b - 1"
    by (rule int_div_pos_eq) (use assms in auto)
  with True show ?thesis by simp
next
  case False
  have "y - 1 = b * (y div b) + (y mod b - 1)" by simp
  then have "(y - 1) div b = y div b"
    by (rule int_div_pos_eq)
      (use False pos_mod_bound [OF assms, of y] pos_mod_sign [OF assms, of y] in linarith)+
  with False show ?thesis by simp
qed

lemma days_before_year_Suc: "days_before_year (y + 1) = days_before_year y + 365 + (if leap y then 1 else 0)"
proof -
  have sub: "y mod 400 = 0 \<Longrightarrow> y mod 100 = 0" "y mod 100 = 0 \<Longrightarrow> y mod 4 = 0"
    using mod_mod_cancel [of 100 400 y] mod_mod_cancel [of 4 100 y] by simp_all
  obtain a b c where abc: "(y - 1) div 4 = a" "(y - 1) div 100 = b" "(y - 1) div 400 = c" by blast
  obtain P Q R where pqr: "(y mod 4 = 0) = P" "(y mod 100 = 0) = Q" "(y mod 400 = 0) = R" by blast
  have divs: "y div 4 = a + (if P then 1 else 0)" "y div 100 = b + (if Q then 1 else 0)"
    "y div 400 = c + (if R then 1 else 0)"
    using div_pred [of 4 y] div_pred [of 100 y] div_pred [of 400 y] unfolding abc pqr by simp_all
  have new: "days_before_year (y + 1) = 365 * y + y div 4 - y div 100 + y div 400"
    by (simp add: days_before_year_def)
  have old: "days_before_year y = 365 * (y - 1) + a - b + c"
    by (simp only: days_before_year_def abc)
  have leap: "leap y = (P \<and> (\<not> Q \<or> R))" by (simp only: leap_def pqr)
  from sub have "R \<longrightarrow> Q" "Q \<longrightarrow> P" unfolding pqr by simp_all
  then show ?thesis unfolding new old leap divs by (cases P; cases Q; cases R; simp)
qed

lemma days_before_year_strict: "y < z \<Longrightarrow> days_before_year y + 365 \<le> days_before_year z"
proof (induction "nat (z - y - 1)" arbitrary: z)
  case 0
  then have "z = y + 1" by simp
  then show ?case by (simp add: days_before_year_Suc)
next
  case (Suc n)
  then have "y < z - 1" "n = nat (z - 1 - y - 1)" by simp_all
  from Suc.hyps(1) [OF this(2,1)] show ?case
    using days_before_year_Suc [of "z - 1"] by (simp split: if_splits)
qed

lemma year_of_days_bounds:
  "days_before_year (year_of_days n) \<le> n \<and> n < days_before_year (year_of_days n + 1)"
proof -
  define q r where "q = n div 146097" and "r = n mod 146097"
  define c where "c = min 3 (r div 36524)"
  define r2 where "r2 = r - c * 36524"
  define p r3 where "p = r2 div 1461" and "r3 = r2 mod 1461"
  define k where "k = min 3 (r3 div 365)"
  define y where "y = 400 * q + 100 * c + 4 * p + k + 1"
  have y: "year_of_days n = y"
    by (simp add: year_of_days_def Let_def y_def k_def p_def r3_def r2_def c_def r_def q_def)
  have n: "n = 146097 * q + r" "0 \<le> r" "r < 146097" by (simp_all add: q_def r_def)
  have c: "0 \<le> c" "c \<le> 3" using n by (auto simp: c_def)
  have r2: "0 \<le> r2" "r2 < 36524 \<or> c = 3 \<and> r2 = 36524"
    using n by (auto simp: r2_def c_def min_def)
  have r3: "r2 = 1461 * p + r3" "0 \<le> r3" "r3 < 1461" by (simp_all add: p_def r3_def)
  have p: "0 \<le> p" "p \<le> 24" using r2 r3 by linarith+
  have k: "0 \<le> k" "k \<le> 3" using r3 by (auto simp: k_def)
  have rest: "0 \<le> r3 - 365 * k" "r3 - 365 * k < 365 \<or> k = 3 \<and> r3 = 1460"
    using r3 by (auto simp: k_def min_def)
  have base: "days_before_year y = 146097 * q + 36524 * c + 1461 * p + 365 * k"
    unfolding y_def by (rule days_before_year_cycles) (use c p k in auto)
  have yday: "n - days_before_year y = r3 - 365 * k" using n r3 base by (simp add: r2_def)
  moreover have "leap y" if "k = 3" "r3 = 1460"
  proof (cases "p = 24")
    case True
    with r2 r3 that have "c = 3" by linarith
    with that True have "y = 400 * (q + 1)" by (simp add: y_def)
    then show ?thesis by (simp add: leap_def)
  next
    case False
    with p have "p \<le> 23" by simp
    with that have y': "y = 400 * q + 100 * c + (4 * p + 4)" "0 < 4 * p + 4" "4 * p + 4 < 100"
      using p by (auto simp: y_def)
    have "y mod 100 = 4 * p + 4"
      by (rule int_mod_pos_eq [where q = "4 * q + c"]) (use y' in auto)
    moreover have "y mod 4 = 0" using y'(1) by simp
    ultimately show ?thesis using p by (simp add: leap_def)
  qed
  ultimately have "n < days_before_year (y + 1)"
    using rest by (auto simp: days_before_year_Suc)
  with yday rest show ?thesis by (simp add: y)
qed

lemma year_of_days_unique:
  assumes "days_before_year y \<le> n" "n < days_before_year (y + 1)"
  shows "year_of_days n = y"
proof (rule ccontr)
  assume "year_of_days n \<noteq> y"
  then consider "year_of_days n + 1 \<le> y" | "y + 1 \<le> year_of_days n" by linarith
  then show False
  proof cases
    case 1
    then have "days_before_year (year_of_days n + 1) \<le> days_before_year y"
      using days_before_year_strict [of "year_of_days n + 1" y] by (cases "year_of_days n + 1 = y") auto
    with assms year_of_days_bounds [of n] show ?thesis by simp
  next
    case 2
    then have "days_before_year (y + 1) \<le> days_before_year (year_of_days n)"
      using days_before_year_strict [of "y + 1" "year_of_days n"] by (cases "year_of_days n = y + 1") auto
    with assms year_of_days_bounds [of n] show ?thesis by simp
  qed
qed

text \<open>A calendar date, taken to a day number and back.\<close>

definition valid_date :: "int \<Rightarrow> int \<Rightarrow> int \<Rightarrow> bool" where
  "valid_date y m d \<longleftrightarrow> 1 \<le> m \<and> m \<le> 12 \<and> 1 \<le> d \<and> d \<le> days_in_month y m"

lemma month_cases: "1 \<le> m \<Longrightarrow> m \<le> 12 \<Longrightarrow>
    m = 1 \<or> m = 2 \<or> m = 3 \<or> m = 4 \<or> m = 5 \<or> m = 6 \<or> m = 7 \<or> m = 8 \<or> m = 9 \<or> m = 10 \<or> m = 11 \<or> m = (12::int)"
  by presburger

lemma yday_range:
  assumes "valid_date y m d"
  shows "0 \<le> days_before_month y m + (d - 1) \<and> days_before_month y m + (d - 1) < 365 + (if leap y then 1 else 0)"
  using assms month_cases [of m] by (auto simp: valid_date_def days_before_month_def days_in_month_def)

lemma year_of_days_of: "valid_date y m d \<Longrightarrow> year_of_days (days_of y m d) = y"
  by (rule year_of_days_unique)
    (use yday_range [of y m d] in \<open>auto simp: days_of_def days_before_year_Suc\<close>)

lemma yday_of_days_of: "valid_date y m d \<Longrightarrow> yday_of_days (days_of y m d) = days_before_month y m + (d - 1)"
  by (simp add: yday_of_days_def year_of_days_of) (simp add: days_of_def)

lemma month_of_days_of:
  assumes v: "valid_date y m d"
  shows "month_of_days (days_of y m d) = m"
proof -
  from v have m: "1 \<le> m" "m \<le> 12" and d: "1 \<le> d" "d \<le> days_in_month y m"
    by (simp_all add: valid_date_def)
  from month_cases [OF m] d show ?thesis
    unfolding month_of_days_def Let_def year_of_days_of [OF v] yday_of_days_of [OF v]
    by (elim disjE; cases "leap y"; simp add: days_before_month_def days_in_month_def)
qed

lemma day_of_days_of: "valid_date y m d \<Longrightarrow> day_of_days (days_of y m d) = d"
  by (simp add: day_of_days_def year_of_days_of yday_of_days_of month_of_days_of)

lemma yday_of_days_bounds: "0 \<le> yday_of_days n \<and> yday_of_days n < 365 + (if leap (year_of_days n) then 1 else 0)"
  using year_of_days_bounds [of n] by (auto simp: yday_of_days_def days_before_year_Suc)

lemma civil_valid: "valid_date (year_of_days n) (month_of_days n) (day_of_days n)"
  using yday_of_days_bounds [of n]
  by (cases "leap (year_of_days n)"; simp add: valid_date_def month_of_days_def day_of_days_def Let_def days_before_month_def days_in_month_def)

lemma days_of_civil: "days_of (year_of_days n) (month_of_days n) (day_of_days n) = n"
  by (simp add: days_of_def day_of_days_def yday_of_days_def)

end
