(* ===== verification/Go_RFC3339.thy ===== *)
theory Go_RFC3339
  imports Go_Time
begin

text \<open>
  The text of times: \<^verbatim>\<open>time.Parse(time.RFC3339, s)\<close> with the leniency the general parser
  has (a one-digit hour, a fraction the layout does not name), and
  \<^verbatim>\<open>t.UTC().Format(time.RFC3339Nano)\<close>.
\<close>

section \<open>Parsing\<close>

definition get_num :: "nat \<Rightarrow> string \<Rightarrow> (nat \<times> string) option" where
  "get_num k s =
     (if k \<le> length s \<and> list_all is_digit (take k s) then Some (read_nat (take k s), drop k s) else None)"

definition get_hour :: "string \<Rightarrow> (nat \<times> string) option" where
  "get_hour s = (case get_num 2 s of Some r \<Rightarrow> Some r | None \<Rightarrow> get_num 1 s)"

definition expect :: "char \<Rightarrow> string \<Rightarrow> string option" where
  "expect c s = (case s of [] \<Rightarrow> None | x # t \<Rightarrow> if x = c then Some t else None)"

definition get_frac :: "string \<Rightarrow> nat \<times> string" where
  "get_frac s =
     (case s of
        p # d # t \<Rightarrow>
          if (p = CHR ''.'' \<or> p = CHR '','') \<and> is_digit d then
            (let ds = take 9 (takeWhile is_digit (d # t))
             in (read_nat ds * 10 ^ (9 - length ds), dropWhile is_digit (d # t)))
          else (0, s)
      | _ \<Rightarrow> (0, s))"

definition get_zone :: "string \<Rightarrow> (int \<times> string) option" where
  "get_zone s =
     (case s of [] \<Rightarrow> None
      | c # t \<Rightarrow>
          if c = CHR ''Z'' then Some (0, t)
          else do {
            (hh, t) \<leftarrow> get_num 2 t;
            t \<leftarrow> expect CHR '':'' t;
            (mm, t) \<leftarrow> get_num 2 t;
            if hh > 24 \<or> mm > 60 then None
            else if c = CHR ''+'' then Some (int (3600 * hh + 60 * mm), t)
            else if c = CHR ''-'' then Some (- int (3600 * hh + 60 * mm), t)
            else None
          })"

definition clock_ns :: "int \<Rightarrow> int \<Rightarrow> int \<Rightarrow> int \<Rightarrow> int" where
  "clock_ns h mi sec ns = (3600 * h + 60 * mi + sec) * ns_per_sec + ns"

definition date_ns :: "int \<Rightarrow> int \<Rightarrow> int \<Rightarrow> int \<Rightarrow> int \<Rightarrow> int \<Rightarrow> int \<Rightarrow> instant" where
  "date_ns y m d h mi sec ns = days_of y m d * ns_per_day + clock_ns h mi sec ns"

text \<open>The result is the instant and the zone offset the text gave.\<close>

definition parse_rfc3339 :: "string \<Rightarrow> (instant \<times> int) option" where
  "parse_rfc3339 s = do {
     (y, s) \<leftarrow> get_num 4 s;   s \<leftarrow> expect CHR ''-'' s;
     (mo, s) \<leftarrow> get_num 2 s;  s \<leftarrow> expect CHR ''-'' s;
     (d, s) \<leftarrow> get_num 2 s;   s \<leftarrow> expect CHR ''T'' s;
     (h, s) \<leftarrow> get_hour s;    s \<leftarrow> expect CHR '':'' s;
     (mi, s) \<leftarrow> get_num 2 s;  s \<leftarrow> expect CHR '':'' s;
     (sec, s) \<leftarrow> get_num 2 s;
     (let (ns, s) = get_frac s in do {
        (off, s) \<leftarrow> get_zone s;
        if s = [] \<and> h < 24 \<and> mi < 60 \<and> sec < 60 \<and> valid_date (int y) (int mo) (int d)
        then Some (date_ns (int y) (int mo) (int d) (int h) (int mi) (int sec) (int ns) - off * ns_per_sec, off)
        else None
     })
   }"

definition time_valid :: "string \<Rightarrow> bool" where
  "time_valid s \<longleftrightarrow> parse_rfc3339 s \<noteq> None"

definition time_of :: "string \<Rightarrow> instant" where
  "time_of s = (case parse_rfc3339 s of None \<Rightarrow> 0 | Some (t, off) \<Rightarrow> t)"

section \<open>Calendar fields of an instant\<close>

definition day_number :: "instant \<Rightarrow> int" where "day_number t = t div ns_per_day"
definition time_year :: "instant \<Rightarrow> int" where "time_year t = year_of_days (day_number t)"
definition time_month :: "instant \<Rightarrow> int" where "time_month t = month_of_days (day_number t)"
definition time_day :: "instant \<Rightarrow> int" where "time_day t = day_of_days (day_number t)"
definition time_clock :: "instant \<Rightarrow> int" where "time_clock t = t mod ns_per_day"
definition time_hour :: "instant \<Rightarrow> int" where "time_hour t = time_clock t div (3600 * ns_per_sec)"
definition time_minute :: "instant \<Rightarrow> int" where "time_minute t = time_clock t div (60 * ns_per_sec) mod 60"
definition time_second :: "instant \<Rightarrow> int" where "time_second t = time_clock t div ns_per_sec mod 60"
definition time_nanos :: "instant \<Rightarrow> int" where "time_nanos t = time_clock t mod ns_per_sec"

lemma time_clock_range: "0 \<le> time_clock t" "time_clock t < ns_per_day"
  by (simp_all add: time_clock_def ns_per_day_def)

lemma time_clock_split:
  "time_clock t = clock_ns (time_hour t) (time_minute t) (time_second t) (time_nanos t)"
proof -
  define c where "c = time_clock t"
  have s: "c = ns_per_sec * (c div ns_per_sec) + c mod ns_per_sec" by simp
  have m: "c div ns_per_sec = 60 * (c div ns_per_sec div 60) + c div ns_per_sec mod 60" by simp
  have h: "c div ns_per_sec div 60 = 60 * (c div ns_per_sec div 60 div 60) + c div ns_per_sec div 60 mod 60" by simp
  have d1: "c div (60 * ns_per_sec) = c div ns_per_sec div 60"
    by (metis mult.commute zdiv_zmult2_eq zero_le_numeral)
  have d2: "c div (3600 * ns_per_sec) = c div ns_per_sec div 60 div 60"
    using zdiv_zmult2_eq [of 60 "c div ns_per_sec" 60] zdiv_zmult2_eq [of 3600 c ns_per_sec]
    by (simp add: mult.commute)
  have "c div ns_per_sec =
    3600 * (c div ns_per_sec div 60 div 60) + 60 * (c div ns_per_sec div 60 mod 60) + c div ns_per_sec mod 60"
    using m h by linarith
  with s show ?thesis
    unfolding time_hour_def time_minute_def time_second_def time_nanos_def clock_ns_def c_def [symmetric] d1 d2
    by (metis mult.commute)
qed

lemma time_fields_range:
  "0 \<le> time_hour t" "time_hour t < 24" "0 \<le> time_minute t" "time_minute t < 60"
  "0 \<le> time_second t" "time_second t < 60" "0 \<le> time_nanos t" "time_nanos t < 1000000000"
  using time_clock_range [of t]
  by (auto simp: time_hour_def time_minute_def time_second_def time_nanos_def ns_per_sec_def ns_per_day_def)

lemma time_fields_date:
  "date_ns (time_year t) (time_month t) (time_day t) (time_hour t) (time_minute t) (time_second t) (time_nanos t) = t"
  by (simp add: date_ns_def time_year_def time_month_def time_day_def days_of_civil
      time_clock_split [symmetric])
    (simp add: day_number_def time_clock_def)

lemma clock_ns_range:
  assumes "0 \<le> h" "h < 24" "0 \<le> mi" "mi < 60" "0 \<le> sec" "sec < 60" "0 \<le> ns" "ns < 1000000000"
  shows "0 \<le> clock_ns h mi sec ns" "clock_ns h mi sec ns < ns_per_day"
  using assms by (simp_all add: clock_ns_def ns_per_sec_def ns_per_day_def)

lemma day_number_date_ns:
  assumes "0 \<le> h" "h < 24" "0 \<le> mi" "mi < 60" "0 \<le> sec" "sec < 60" "0 \<le> ns" "ns < 1000000000"
  shows "day_number (date_ns y m d h mi sec ns) = days_of y m d"
  using clock_ns_range [OF assms]
  by (simp add: day_number_def date_ns_def div_pos_pos_trivial ns_per_day_def)

section \<open>Formatting\<close>

fun pad_nat :: "nat \<Rightarrow> nat \<Rightarrow> string" where
  "pad_nat 0 n = []"
| "pad_nat (Suc w) n = pad_nat w (n div 10) @ [digit_char (n mod 10)]"

lemma pad_nat_length [simp]: "length (pad_nat w n) = w"
  by (induction w arbitrary: n) auto

lemma pad_nat_digits [simp]: "list_all is_digit (pad_nat w n)"
  by (induction w arbitrary: n) auto

lemma read_pad_nat [simp]: "n < 10 ^ w \<Longrightarrow> read_nat (pad_nat w n) = n"
proof (induction w arbitrary: n)
  case 0
  then show ?case by (simp add: read_nat_def)
next
  case (Suc w)
  then have "n div 10 < 10 ^ w" by simp
  with Suc.IH have "read_nat (pad_nat w (n div 10)) = n div 10" by blast
  then show ?case by (simp add: read_nat_snoc)
qed

text \<open>The fraction without its trailing zeros, and nothing at all for a whole second.\<close>

fun frac_digits :: "nat \<Rightarrow> nat \<Rightarrow> string" where
  "frac_digits 0 n = []"
| "frac_digits (Suc w) n = (if n mod 10 = 0 then frac_digits w (n div 10) else pad_nat (Suc w) n)"

definition frac_text :: "nat \<Rightarrow> string" where
  "frac_text n = (if n = 0 then [] else CHR ''.'' # frac_digits 9 n)"

definition local_text :: "instant \<Rightarrow> string" where
  "local_text t =
     pad_nat 4 (nat (time_year t)) @ ''-'' @ pad_nat 2 (nat (time_month t)) @ ''-'' @
     pad_nat 2 (nat (time_day t)) @ ''T'' @ pad_nat 2 (nat (time_hour t)) @ '':'' @
     pad_nat 2 (nat (time_minute t)) @ '':'' @ pad_nat 2 (nat (time_second t)) @
     frac_text (nat (time_nanos t))"

definition zone_text :: "int \<Rightarrow> string" where
  "zone_text z =
     (if z = 0 then ''Z''
      else (if z < 0 then ''-'' else ''+'') @ pad_nat 2 (nat (\<bar>z\<bar> div 3600)) @ '':'' @ pad_nat 2 (nat (\<bar>z\<bar> div 60 mod 60)))"

text \<open>A time in a zone: the instant, and the zone's offset from UTC in seconds.\<close>

type_synonym zoned_time = "instant \<times> int"

definition local_clock :: "zoned_time \<Rightarrow> instant" where
  "local_clock t = fst t + snd t * ns_per_sec"

definition format_zoned :: "zoned_time \<Rightarrow> string" where
  "format_zoned t = local_text (local_clock t) @ zone_text (snd t)"

definition format_rfc3339nano :: "instant \<Rightarrow> string" where
  "format_rfc3339nano t = local_text t @ ''Z''"

lemma get_num_pad [simp]: "n < 10 ^ w \<Longrightarrow> get_num w (pad_nat w n @ s) = Some (n, s)"
  by (simp add: get_num_def)

lemma get_hour_pad [simp]: "n < 100 \<Longrightarrow> get_hour (pad_nat 2 n @ s) = Some (n, s)"
  using get_num_pad [of n 2 s] by (simp add: get_hour_def)

lemma expect_Cons [simp]: "expect c (c # s) = Some s"
  by (simp add: expect_def)

lemma frac_digits_read:
  assumes "0 < n" "n < 10 ^ w"
  shows "\<exists>ds. frac_digits w n = ds \<and> ds \<noteq> [] \<and> length ds \<le> w \<and> list_all is_digit ds \<and>
           read_nat ds * 10 ^ (w - length ds) = n"
  using assms
proof (induction w arbitrary: n)
  case 0
  then show ?case by simp
next
  case (Suc w)
  show ?case
  proof (cases "n mod 10 = 0")
    case True
    with Suc.prems have "0 < n div 10" "n div 10 < 10 ^ w" by auto
    from Suc.IH [OF this] obtain ds where
      ds: "frac_digits w (n div 10) = ds" "ds \<noteq> []" "length ds \<le> w" "list_all is_digit ds"
        "read_nat ds * 10 ^ (w - length ds) = n div 10" by blast
    have "read_nat ds * 10 ^ (Suc w - length ds) = 10 * (read_nat ds * 10 ^ (w - length ds))"
      using ds(3) by (simp add: Suc_diff_le)
    also have "\<dots> = n" using ds(5) True by auto
    finally show ?thesis using ds True by auto
  next
    case False
    with Suc.prems read_pad_nat [of n "Suc w"] show ?thesis by (auto simp del: read_pad_nat)
  qed
qed

text \<open>What follows the fraction: text that does not begin with a digit, a point or a comma.\<close>

definition zone_start :: "string \<Rightarrow> bool" where
  "zone_start s \<longleftrightarrow> (case s of [] \<Rightarrow> False | c # t \<Rightarrow> \<not> is_digit c \<and> c \<noteq> CHR ''.'' \<and> c \<noteq> CHR '','')"

lemma takeWhile_digits: "list_all is_digit ds \<Longrightarrow> zone_start s \<Longrightarrow> takeWhile is_digit (ds @ s) = ds"
  by (induction ds) (auto simp: zone_start_def split: list.splits)

lemma dropWhile_digits_zone: "list_all is_digit ds \<Longrightarrow> zone_start s \<Longrightarrow> dropWhile is_digit (ds @ s) = s"
  by (induction ds) (auto simp: zone_start_def split: list.splits)

lemma get_frac_text:
  assumes "n < 10 ^ 9" "zone_start s"
  shows "get_frac (frac_text n @ s) = (n, s)"
proof (cases "n = 0")
  case True
  then show ?thesis using assms(2)
    by (auto simp: frac_text_def get_frac_def zone_start_def split: list.splits)
next
  case False
  with assms(1) frac_digits_read [of n 9] obtain ds where
    ds: "frac_digits 9 n = ds" "ds \<noteq> []" "length ds \<le> 9" "list_all is_digit ds"
      "read_nat ds * 10 ^ (9 - length ds) = n" by auto
  then obtain d t where dt: "ds = d # t" by (cases ds) auto
  with ds(4) have "is_digit d" by simp
  moreover have "takeWhile is_digit (d # t @ s) = ds" "dropWhile is_digit (d # t @ s) = s"
    using takeWhile_digits [OF ds(4) assms(2)] dropWhile_digits_zone [OF ds(4) assms(2)] dt by simp_all
  ultimately show ?thesis
    using ds(3,5) False dt ds(1) unfolding frac_text_def get_frac_def by (simp add: Let_def)
qed

text \<open>The offset is a whole number of minutes, less than a day.\<close>

definition zone_ok :: "int \<Rightarrow> bool" where
  "zone_ok z \<longleftrightarrow> \<bar>z\<bar> < 86400 \<and> z mod 60 = 0"

lemma zone_start_text: "zone_start (zone_text z)"
  by (simp add: zone_start_def zone_text_def is_digit_def)

lemma abs_mod_60: "z mod 60 = 0 \<Longrightarrow> \<bar>z\<bar> mod 60 = (0::int)"
  by presburger

lemma div_3600: "60 * k div 3600 = k div (60::int)"
proof -
  have "60 * k div (60 * 60) = k div 60" by (rule div_mult_mult1) simp
  then show ?thesis by simp
qed

lemma hours_minutes:
  assumes "a mod 60 = 0"
  shows "3600 * (a div 3600) + 60 * (a div 60 mod 60) = (a::int)"
proof -
  define k where "k = a div 60"
  have a: "a = 60 * k" using assms mult_div_mod_eq [of 60 a] by (simp add: k_def)
  have d: "a div 60 = k" "a div 3600 = k div 60" using a div_3600 [of k] by simp_all
  have "60 * (k div 60) + k mod 60 = k" by simp
  then show ?thesis unfolding d using a by linarith
qed

lemma hm_bounds:
  assumes "0 \<le> (a::int)" "a < 86400"
  shows "0 \<le> a div 3600" "a div 3600 < 24" "0 \<le> a div 60 mod 60" "a div 60 mod 60 < 60"
  using assms pos_imp_zdiv_nonneg_iff [of 3600 a] int_div_less_self [of a 3600]
  by (simp_all add: div_less_iff_less_mult)

definition hm_text :: "int \<Rightarrow> string" where
  "hm_text a = pad_nat 2 (nat (a div 3600)) @ '':'' @ pad_nat 2 (nat (a div 60 mod 60))"

lemma get_zone_hm:
  assumes "0 \<le> a" "a < 86400" "a mod 60 = 0"
  shows "get_zone (CHR ''+'' # hm_text a) = Some (a, [])" "get_zone (CHR ''-'' # hm_text a) = Some (- a, [])"
proof -
  define h where "h = a div 3600"
  define m where "m = a div 60 mod 60"
  have b: "0 \<le> h" "h < 24" "0 \<le> m" "m < 60" and s: "3600 * h + 60 * m = a"
    using hm_bounds [OF assms(1,2)] hours_minutes [OF assms(3)] by (simp_all add: h_def m_def)
  have t: "hm_text a = pad_nat 2 (nat h) @ CHR '':'' # pad_nat 2 (nat m) @ []"
    by (simp add: hm_text_def h_def m_def)
  show "get_zone (CHR ''+'' # hm_text a) = Some (a, [])" "get_zone (CHR ''-'' # hm_text a) = Some (- a, [])"
    using b s unfolding t get_zone_def by (simp_all add: not_less nat_le_iff nat_less_iff get_num_pad del: append_Nil2)
qed

lemma get_zone_text:
  assumes "zone_ok z"
  shows "get_zone (zone_text z) = Some (z, [])"
proof -
  have a: "0 \<le> \<bar>z\<bar>" "\<bar>z\<bar> < 86400" "\<bar>z\<bar> mod 60 = 0"
    using assms abs_mod_60 by (auto simp: zone_ok_def)
  have t: "zone_text z = (if z = 0 then ''Z'' else if z < 0 then CHR ''-'' # hm_text \<bar>z\<bar> else CHR ''+'' # hm_text \<bar>z\<bar>)"
    by (simp add: zone_text_def hm_text_def)
  show ?thesis
    using get_zone_hm [OF a] by (auto simp: t get_zone_def [of "''Z''"] abs_if)
qed

lemma parse_local:
  assumes "0 \<le> time_year t" "time_year t \<le> 9999" and "zone_ok z"
  shows "parse_rfc3339 (local_text t @ zone_text z) = Some (t - z * ns_per_sec, z)"
proof -
  have v: "valid_date (time_year t) (time_month t) (time_day t)"
    by (simp add: time_year_def time_month_def time_day_def civil_valid)
  have md: "1 \<le> time_month t" "time_month t \<le> 12" "1 \<le> time_day t" "time_day t \<le> 31"
    using v by (auto simp: valid_date_def days_in_month_def split: if_splits)
  show ?thesis
    unfolding local_text_def parse_rfc3339_def
    using assms md v time_fields_range [of t] time_fields_date [of t]
      get_frac_text [OF _ zone_start_text, of "nat (time_nanos t)" z]
    by (simp add: nat_less_iff get_zone_text)
qed

definition zoned_ok :: "zoned_time \<Rightarrow> bool" where
  "zoned_ok t \<longleftrightarrow> 0 \<le> time_year (local_clock t) \<and> time_year (local_clock t) \<le> 9999 \<and> zone_ok (snd t)"

theorem parse_format_zoned: "zoned_ok t \<Longrightarrow> parse_rfc3339 (format_zoned t) = Some t"
  unfolding format_zoned_def zoned_ok_def by (simp add: parse_local) (simp add: local_clock_def)

theorem parse_format_time:
  assumes "0 \<le> time_year t" "time_year t \<le> 9999"
  shows "parse_rfc3339 (format_rfc3339nano t) = Some (t, 0)"
  using parse_local [OF assms, of 0] by (simp add: format_rfc3339nano_def zone_text_def zone_ok_def)

end
