(* ===== verification/Go_Hash.thy ===== *)
theory Go_Hash
  imports Go_Values Go_RFC3339
begin

text \<open>
  Digests and the JSON of times. SHA-256 stays abstract: the hex digest of a byte string, and
  the hex digest of the JSON text of a normal form. No lemma about a store assumes that digests
  never collide.
\<close>

record hashing =
  hx_bytes :: "string \<Rightarrow> string"
  hx_json :: "gov \<Rightarrow> string"

text \<open>\<^verbatim>\<open>time.Time\<close> marshals to its RFC 3339 text in its own zone; a year that needs more
  than four digits, or an offset of a day and more, is refused.\<close>

definition time_json :: "zoned_time \<Rightarrow> gov option" where
  "time_json t = (if zoned_ok t then Some (GStr (format_zoned t)) else None)"

text \<open>\<^verbatim>\<open>t.UnixNano()\<close>: nanoseconds since 1970, where the instants count from year 1.\<close>

definition unix_epoch :: instant where
  "unix_epoch = days_of 1970 1 1 * ns_per_day"

definition unix_nano :: "instant \<Rightarrow> int" where
  "unix_nano t = t - unix_epoch"

definition join :: "string \<Rightarrow> string list \<Rightarrow> string" where
  "join sep xs = (case xs of [] \<Rightarrow> [] | x # ys \<Rightarrow> x @ concat (map (\<lambda>y. sep @ y) ys))"

end
