(* ===== verification/Ledger_Types.thy ===== *)
theory Ledger_Types
  imports Go_Hash
begin

text \<open>
  The data of the Ledger service and its pure rules, after
  \<^verbatim>\<open>services/ledger/internal/ledger/types.go\<close>: receipts, reviews and review policies,
  the validation of every kind of input, the review gate, and what a reader may see of a receipt.
\<close>

section \<open>Errors, hashing\<close>

datatype ledger_error =
    ErrIdempotencyConflict | ErrReceiptNotFound | ErrContinuationNotFound | ErrContinuationIneligible
  | ErrInvalidReceiptInput | ErrInvalidReceiptQuery | ErrArtifactNotFound | ErrInvalidArtifactInput
  | ErrReviewNotFound | ErrInvalidReviewInput | ErrReviewPolicyNotFound | ErrInvalidReviewPolicyInput
  | ErrInvalidReviewGateInput | ErrInvalidReceiptRetentionInput | ErrReceiptRetentionShortening
  | ErrReceiptRetentionActive | ErrReceiptLegalHold | ErrInvalidReconciliationInput
  | ErrMarshal            \<comment> \<open>json.Marshal failed while hashing\<close>
  | PanicTypeAssertion    \<comment> \<open>an unchecked type assertion on a stored result\<close>

definition hashJSON :: "hashing \<Rightarrow> gov \<Rightarrow> string option" where
  "hashJSON hx v = map_option (hx_json hx) (json_norm v)"

definition evidenceID :: "hashing \<Rightarrow> string \<Rightarrow> string \<Rightarrow> string" where
  "evidenceID hx prefix key = prefix @ ''-'' @ take 16 (hx_bytes hx key)"

section \<open>Records\<close>

record exec_identity =
  ei_organizationId :: string
  ei_workspaceId :: string
  ei_projectId :: string
  ei_taskId :: string
  ei_jobId :: string

record receipt_input =
  ri_type :: string
  ri_status :: string
  ri_surface :: string
  ri_accountId :: string
  ri_organizationId :: string
  ri_workspaceId :: string
  ri_projectId :: string
  ri_taskId :: string
  ri_requestId :: string
  ri_approvalId :: string
  ri_jobId :: string
  ri_artifactId :: string
  ri_reviewId :: string
  ri_continuationId :: string
  ri_actor :: "gomap option"
  ri_plan :: "gomap option"
  ri_execution :: "gomap option"
  ri_environment :: "gomap option"
  ri_inputRefs :: "gomap option"
  ri_outputRefs :: "gomap option"
  ri_reviewerChecks :: "gomap option"
  ri_cost :: "gomap option"
  ri_owner :: "gomap option"
  ri_continuation :: "gomap option"
  ri_supersedesReceiptId :: string
  ri_idempotencyKey :: string

record redaction =
  pr_appliedAt :: instant
  pr_reason :: string
  pr_eligible :: bool

record receipt_retention =
  rt_retainUntil :: zoned_time
  rt_legalHold :: bool
  rt_privacyRedaction :: "redaction option"

record receipt = receipt_input +
  rc_receiptId :: string
  rc_createdAt :: instant
  rc_retention :: receipt_retention
  rc_replayed :: bool

record retention_input =
  rn_receiptId :: string
  rn_retainUntil :: zoned_time
  rn_legalHold :: bool
  rn_idempotencyKey :: string

record privacy_input =
  pd_receiptId :: string
  pd_reason :: string
  pd_idempotencyKey :: string

record retention_result =
  rr_receiptId :: string
  rr_retention :: receipt_retention
  rr_replayed :: bool

record receipt_cursor =
  cu_createdAt :: instant
  cu_receiptId :: string

record receipt_query =
  q_accountId :: string
  q_organizationId :: string
  q_workspaceId :: string
  q_projectId :: string
  q_taskId :: string
  q_jobId :: string
  q_type :: string
  q_status :: string
  q_cursor :: string
  q_limit :: int

record receipt_page =
  pg_receipts :: "receipt list"
  pg_nextCursor :: string
  pg_hasMore :: bool

record artifact_input =
  ai_organizationId :: string
  ai_workspaceId :: string
  ai_projectId :: string
  ai_taskId :: string
  ai_jobId :: string
  ai_digest :: string
  ai_mediaType :: string
  ai_sizeBytes :: int
  ai_storageRef :: string
  ai_idempotencyKey :: string

record artifact = artifact_input +
  af_artifactId :: string
  af_receiptId :: string
  af_createdAt :: instant
  af_replayed :: bool

record review_input =
  vi_organizationId :: string
  vi_workspaceId :: string
  vi_projectId :: string
  vi_taskId :: string
  vi_jobId :: string
  vi_reviewerRef :: string
  vi_reviewerVersion :: string
  vi_inputArtifactDigests :: "string list"
  vi_checks :: "gomap option"
  vi_decision :: string
  vi_idempotencyKey :: string

record review = review_input +
  vw_reviewId :: string
  vw_receiptId :: string
  vw_createdAt :: instant
  vw_replayed :: bool

record required_reviewer =
  rq_reviewerRef :: string
  rq_reviewerVersion :: string

record policy_input = exec_identity +
  pi_version :: string
  pi_requiredReviewers :: "required_reviewer list"
  pi_supersedesPolicyId :: string
  pi_idempotencyKey :: string

record review_policy = policy_input +
  po_policyId :: string
  po_status :: string
  po_createdAt :: instant
  po_replayed :: bool

record policy_query = exec_identity +
  pq_status :: string

record gate_input = exec_identity +
  gi_reviewIds :: "string list"

record gate_evidence =
  ge_reviewerRef :: string
  ge_requiredVersion :: string
  ge_reviewId :: string
  ge_actualVersion :: string

record gate_result =
  gr_policyId :: string
  gr_policyVersion :: string
  gr_status :: string
  gr_continuationEligible :: bool
  gr_missing :: "gate_evidence list"
  gr_pending :: "gate_evidence list"
  gr_rejected :: "gate_evidence list"
  gr_versionMismatches :: "gate_evidence list"

record reconciliation_input =
  rx_report :: "gomap option"
  rx_idempotencyKey :: string

record reconciliation_result =
  rs_id :: string
  rs_status :: string
  rs_report :: "gomap option"
  rs_blockNewWorkspaces :: bool
  rs_reason :: string
  rs_createdAt :: instant
  rs_replayed :: bool

definition artifactReceiptType :: string where "artifactReceiptType = ''artifact.manifest.v1''"
definition reviewReceiptType :: string where "reviewReceiptType = ''review.result.v1''"

section \<open>Identities and references\<close>

definition opaque_char :: "char \<Rightarrow> bool" where
  "opaque_char c \<longleftrightarrow>
     (let n = (of_char c :: nat)
      in (97 \<le> n \<and> n \<le> 122) \<or> (65 \<le> n \<and> n \<le> 90) \<or> (48 \<le> n \<and> n \<le> 57) \<or> c \<in> set ''._:-'')"

text \<open>The loop over runes: a rune outside ASCII is refused, and so is each of its bytes here.\<close>

definition isOpaqueReference :: "string \<Rightarrow> bool" where
  "isOpaqueReference v \<longleftrightarrow> v \<noteq> [] \<and> length v \<le> 255 \<and> list_all opaque_char v"

definition validExecutionIdentity :: "exec_identity \<Rightarrow> bool" where
  "validExecutionIdentity i \<longleftrightarrow>
     ei_organizationId i \<noteq> [] \<and> ei_workspaceId i \<noteq> [] \<and> ei_projectId i \<noteq> [] \<and> ei_taskId i \<noteq> [] \<and> ei_jobId i \<noteq> []"

definition identity_of :: "'a exec_identity_scheme \<Rightarrow> exec_identity" where
  "identity_of i = exec_identity.truncate i"

definition sameExecutionIdentity :: "exec_identity \<Rightarrow> exec_identity \<Rightarrow> bool" where
  "sameExecutionIdentity l r \<longleftrightarrow> l = r"

definition executionIdentityFromReceipt :: "'a receipt_input_scheme \<Rightarrow> exec_identity" where
  "executionIdentityFromReceipt r =
     \<lparr>ei_organizationId = ri_organizationId r, ei_workspaceId = ri_workspaceId r,
      ei_projectId = ri_projectId r, ei_taskId = ri_taskId r, ei_jobId = ri_jobId r\<rparr>"

definition executionIdentityFromReview :: "'a review_input_scheme \<Rightarrow> exec_identity" where
  "executionIdentityFromReview v =
     \<lparr>ei_organizationId = vi_organizationId v, ei_workspaceId = vi_workspaceId v,
      ei_projectId = vi_projectId v, ei_taskId = vi_taskId v, ei_jobId = vi_jobId v\<rparr>"

section \<open>Values read out of JSON\<close>

text \<open>\<^verbatim>\<open>json.Number.Int64\<close> ignoring its error: 0 for text that is no integer, the nearest
  bound for one out of range.\<close>

definition number_int64 :: "string \<Rightarrow> int" where
  "number_int64 s =
     (let neg = has_prefix s ''-'';
          body = (if neg \<or> has_prefix s ''+'' then drop 1 s else s);
          n = (if neg then - int (read_nat body) else int (read_nat body))
      in if body \<noteq> [] \<and> list_all is_digit body then max min_int64 (min max_int64 n) else 0)"

fun float_trunc :: "gofloat \<Rightarrow> int" where
  "float_trunc (FFin m e) =
     (let n = (if 0 \<le> e then m * 2 ^ nat e else sgn m * (\<bar>m\<bar> div 2 ^ nat (- e)))
      in if int64_range n then n else min_int64)"
| "float_trunc _ = min_int64"

fun int64Value :: "gov \<Rightarrow> int" where
  "int64Value (GInt n) = n"
| "int64Value (GFloat64 f) = float_trunc f"
| "int64Value (GNum s) = number_int64 s"
| "int64Value _ = 0"

definition stringValue :: "gov \<Rightarrow> string" where
  "stringValue v = str_of v"

fun stringSlice :: "gov \<Rightarrow> string list" where
  "stringSlice (GStrs xs) = xs"
| "stringSlice (GList vs) = List.map_filter as_str vs"
| "stringSlice _ = []"

definition float_exact :: "int \<Rightarrow> gofloat \<Rightarrow> int option" where
  "float_exact bound f =
     (case float_int f of None \<Rightarrow> None | Some n \<Rightarrow> if \<bar>n\<bar> \<le> bound then Some n else None)"

fun integerValue :: "gov \<Rightarrow> int option" where
  "integerValue (GNum s) = parse_int64 s"
| "integerValue (GInt n) = Some n"
| "integerValue (GUint n) = (if n > max_int64 then None else Some n)"
| "integerValue (GFloat64 f) = float_exact (2 ^ 53 - 1) f"
| "integerValue (GFloat32 f) = float_exact (2 ^ 24 - 1) f"
| "integerValue _ = None"

section \<open>Forbidden keys\<close>

definition forbidden_keys :: "string list" where
  "forbidden_keys =
     [''apikey'', ''admintoken'', ''rawsub2apiresponse'', ''rawproviderresponse'', ''rawcredential'',
      ''credential'', ''password'', ''token'', ''secret'', ''signedurl'', ''presignedurl'', ''objectkey'',
      ''kubeconfig'']"

fun containsForbiddenJSONKey :: "gov \<Rightarrow> bool"
  and forbidden_in_list :: "gov list \<Rightarrow> bool"
  and forbidden_in_obj :: "(string \<times> gov) list \<Rightarrow> bool" where
  "containsForbiddenJSONKey (GObj kvs) = forbidden_in_obj kvs"
| "containsForbiddenJSONKey (GList vs) = forbidden_in_list vs"
| "containsForbiddenJSONKey _ = False"
| "forbidden_in_list [] = False"
| "forbidden_in_list (v # vs) = (containsForbiddenJSONKey v \<or> forbidden_in_list vs)"
| "forbidden_in_obj [] = False"
| "forbidden_in_obj ((k, v) # kvs) =
     (go_lower k \<in> set forbidden_keys \<or> containsForbiddenJSONKey v \<or> forbidden_in_obj kvs)"

definition normalizedJSONValue :: "gov \<Rightarrow> gov option" where
  "normalizedJSONValue v = json_norm v"

definition containsForbiddenReceiptKey :: "gov \<Rightarrow> bool" where
  "containsForbiddenReceiptKey v =
     (case normalizedJSONValue v of None \<Rightarrow> True | Some n \<Rightarrow> containsForbiddenJSONKey n)"

text \<open>A map field marshals to null when nil.\<close>

definition field_json :: "gomap option \<Rightarrow> gov" where
  "field_json m = (case m of None \<Rightarrow> GNil | Some kvs \<Rightarrow> GObj kvs)"

text \<open>The JSON object of a \<^verbatim>\<open>ReceiptInput\<close>, by its field tags; the idempotency key is never part of it.\<close>

definition receipt_input_json :: "'a receipt_input_scheme \<Rightarrow> gomap" where
  "receipt_input_json r =
     [(''type'', GStr (ri_type r)), (''status'', GStr (ri_status r)), (''surface'', GStr (ri_surface r))]
     @ (if ri_accountId r = [] then [] else [(''accountId'', GStr (ri_accountId r))]) @
     [(''organizationId'', GStr (ri_organizationId r)), (''workspaceId'', GStr (ri_workspaceId r)),
      (''projectId'', GStr (ri_projectId r)), (''taskId'', GStr (ri_taskId r)), (''requestId'', GStr (ri_requestId r)),
      (''approvalId'', GStr (ri_approvalId r)), (''jobId'', GStr (ri_jobId r)), (''artifactId'', GStr (ri_artifactId r)),
      (''reviewId'', GStr (ri_reviewId r)), (''continuationId'', GStr (ri_continuationId r)),
      (''actor'', field_json (ri_actor r)), (''plan'', field_json (ri_plan r)), (''execution'', field_json (ri_execution r)),
      (''environment'', field_json (ri_environment r)), (''inputRefs'', field_json (ri_inputRefs r)),
      (''outputRefs'', field_json (ri_outputRefs r)), (''reviewerChecks'', field_json (ri_reviewerChecks r)),
      (''cost'', field_json (ri_cost r)), (''owner'', field_json (ri_owner r)),
      (''continuation'', field_json (ri_continuation r)), (''supersedesReceiptId'', GStr (ri_supersedesReceiptId r))]"

end
