(* ===== verification/Go_Base64.thy ===== *)
theory Go_Base64
  imports Go_Prelude
begin

text \<open>
  \<^verbatim>\<open>base64.RawURLEncoding\<close>: three bytes become four letters of the URL alphabet, an end of
  one or two bytes becomes two or three letters, and nothing is padded. Decoding skips line breaks
  anywhere, refuses every other letter and a lone last one, and does not look at the bits an end
  leaves over.
\<close>

section \<open>The alphabet\<close>

definition b64_alphabet :: string where
  "b64_alphabet = ''ABCDEFGHIJKLMNOPQRSTUVWXYZabcdefghijklmnopqrstuvwxyz0123456789-_''"

definition b64_char :: "nat \<Rightarrow> char" where
  "b64_char n = b64_alphabet ! n"

definition b64_val :: "char \<Rightarrow> nat option" where
  "b64_val c = (let i = length (takeWhile (\<lambda>x. x \<noteq> c) b64_alphabet) in if i < 64 then Some i else None)"

definition line_break :: "char \<Rightarrow> bool" where
  "line_break c \<longleftrightarrow> c = CHR 0x0A \<or> c = CHR 0x0D"

lemma b64_letters: "n < 64 \<Longrightarrow> b64_val (b64_char n) = Some n \<and> \<not> line_break (b64_char n)"
proof -
  have "list_all (\<lambda>n. b64_val (b64_char n) = Some n \<and> \<not> line_break (b64_char n)) [0..<64]" by code_simp
  then show "n < 64 \<Longrightarrow> ?thesis" by (simp add: list_all_iff)
qed

section \<open>Bytes in groups of six bits\<close>

fun sextets :: "nat list \<Rightarrow> nat list" where
  "sextets [] = []"
| "sextets [a] = [a div 4, a mod 4 * 16]"
| "sextets [a, b] = [a div 4, a mod 4 * 16 + b div 16, b mod 16 * 4]"
| "sextets (a # b # c # s) =
     [a div 4, a mod 4 * 16 + b div 16, b mod 16 * 4 + c div 64, c mod 64] @ sextets s"

fun octets :: "nat list \<Rightarrow> nat list option" where
  "octets [] = Some []"
| "octets [x] = None"
| "octets [x, y] = Some [x * 4 + y div 16]"
| "octets [x, y, z] = Some [x * 4 + y div 16, y mod 16 * 16 + z div 4]"
| "octets (x # y # z # w # s) =
     map_option (\<lambda>t. [x * 4 + y div 16, y mod 16 * 16 + z div 4, z mod 4 * 64 + w] @ t) (octets s)"

definition b64_encode :: "string \<Rightarrow> string" where
  "b64_encode s = map b64_char (sextets (map of_char s))"

definition b64_decode :: "string \<Rightarrow> string option" where
  "b64_decode s =
     Option.bind (those (map b64_val (filter (\<lambda>c. \<not> line_break c) s))) (\<lambda>xs. map_option (map char_of) (octets xs))"

section \<open>The round trip\<close>

lemma group_small:
  fixes a b :: nat
  shows "b < 16 \<Longrightarrow> a mod 4 * 16 + b < 64" "b < 4 \<Longrightarrow> a mod 16 * 4 + b < 64"
proof -
  have "a mod 4 \<le> 3" "a mod 16 \<le> 15" by (simp_all add: less_Suc_eq_le [symmetric])
  then show "b < 16 \<Longrightarrow> a mod 4 * 16 + b < 64" "b < 4 \<Longrightarrow> a mod 16 * 4 + b < 64" by linarith+
qed

lemma sextets_small: "list_all (\<lambda>a. a < 256) s \<Longrightarrow> list_all (\<lambda>x. x < 64) (sextets s)"
proof (induction s rule: sextets.induct)
  case (4 a b c s)
  then have "b div 16 < 16" "c div 64 < 4" by (simp_all add: div_less_iff_less_mult)
  with 4 show ?case by (simp add: group_small div_less_iff_less_mult)
qed (auto simp: div_less_iff_less_mult group_small group_small(1) [of 0, simplified])

lemma regroup:
  fixes a b :: nat
  shows "b < 16 \<Longrightarrow> (a * 16 + b) div 16 = a" "b < 16 \<Longrightarrow> (a * 16 + b) mod 16 = b"
    "b < 4 \<Longrightarrow> (a * 4 + b) div 4 = a" "b < 4 \<Longrightarrow> (a * 4 + b) mod 4 = b"
  by simp_all

lemma octets_sextets: "list_all (\<lambda>a. a < 256) s \<Longrightarrow> octets (sextets s) = Some s"
proof (induction s rule: sextets.induct)
  case (4 a b c s)
  have "x div 16 < 16" "x div 64 < 4" if "x < 256" for x :: nat using that by simp_all
  with 4 show ?case by (simp add: regroup)
qed (auto simp: regroup)

lemma those_map: "list_all (\<lambda>x. f (g x) = Some x) xs \<Longrightarrow> those (map f (map g xs)) = Some xs"
  by (induction xs) auto

theorem b64_roundtrip: "b64_decode (b64_encode s) = Some s"
proof -
  let ?b = "map of_char s :: nat list"
  have b: "list_all (\<lambda>a. a < 256) ?b" by (simp add: list_all_iff)
  have x: "list_all (\<lambda>x. b64_val (b64_char x) = Some x \<and> \<not> line_break (b64_char x)) (sextets ?b)"
    using sextets_small [OF b] b64_letters by (auto simp: list_all_iff)
  have "filter (\<lambda>c. \<not> line_break c) (b64_encode s) = b64_encode s"
    using x by (auto simp: b64_encode_def list_all_iff filter_id_conv)
  moreover have "those (map b64_val (b64_encode s)) = Some (sextets ?b)"
    unfolding b64_encode_def using x by (intro those_map) (auto simp: list_all_iff)
  ultimately show ?thesis
    by (simp add: b64_decode_def octets_sextets [OF b] comp_def)
qed

lemma b64_encode_Nil [simp]: "b64_encode s = [] \<longleftrightarrow> s = []"
  by (cases "map of_char s :: nat list" rule: sextets.cases) (auto simp: b64_encode_def)

end
