(* ===== verification/Ledger_Rules.thy ===== *)
theory Ledger_Rules
  imports Ledger_Types Go_Base64
begin

text \<open>
  The pure rules of the Ledger, the second half of
  \<^verbatim>\<open>services/ledger/internal/ledger/types.go\<close>: what is a valid artifact, review, review
  policy, receipt (with the rules of the billing, wallet and key rotation receipts) and
  reconciliation report; the review gate; what a reader may see of a receipt's continuation; and
  the conversions between receipts and the artifacts and reviews they carry.
  A validator returns None for a nil error.
\<close>

section \<open>Artifacts, reviews, policies\<close>

definition validateArtifactInput :: "artifact_input \<Rightarrow> ledger_error option" where
  "validateArtifactInput i =
     (if ai_organizationId i = [] \<or> ai_workspaceId i = [] \<or> ai_projectId i = [] \<or> ai_taskId i = [] \<or>
         ai_jobId i = [] \<or> ai_digest i = [] \<or> ai_mediaType i = [] \<or> ai_sizeBytes i < 0 \<or>
         ai_idempotencyKey i = [] \<or> \<not> isOpaqueReference (ai_storageRef i)
      then Some ErrInvalidArtifactInput else None)"

definition review_decisions :: "string list" where
  "review_decisions = [''accepted'', ''pending'', ''rejected'']"

definition validateReviewInput :: "review_input \<Rightarrow> ledger_error option" where
  "validateReviewInput i =
     (if vi_organizationId i = [] \<or> vi_workspaceId i = [] \<or> vi_projectId i = [] \<or> vi_taskId i = [] \<or>
         vi_jobId i = [] \<or> \<not> isOpaqueReference (vi_reviewerRef i) \<or> \<not> isOpaqueReference (vi_reviewerVersion i) \<or>
         vi_inputArtifactDigests i = [] \<or> mlen (opt_map (vi_checks i)) = 0 \<or> vi_idempotencyKey i = [] \<or>
         vi_decision i \<notin> set review_decisions \<or> containsForbiddenReceiptKey (field_json (vi_checks i))
      then Some ErrInvalidReviewInput else None)"

definition reviewReceiptStatus :: "string \<Rightarrow> string" where
  "reviewReceiptStatus decision =
     (if decision = ''rejected'' then ''review_blocked''
      else if decision = ''pending'' then ''review_required''
      else ''completed'')"

text \<open>The loop over the required reviewers, with the set of references seen so far.\<close>

fun reviewers_valid :: "string set \<Rightarrow> required_reviewer list \<Rightarrow> bool" where
  "reviewers_valid seen [] = True"
| "reviewers_valid seen (r # rs) =
     (if \<not> isOpaqueReference (rq_reviewerRef r) \<or> \<not> isOpaqueReference (rq_reviewerVersion r) then False
      else if rq_reviewerRef r \<in> seen then False
      else reviewers_valid (insert (rq_reviewerRef r) seen) rs)"

definition validateReviewPolicyInput :: "policy_input \<Rightarrow> ledger_error option" where
  "validateReviewPolicyInput i =
     (if \<not> validExecutionIdentity (identity_of i) \<or> \<not> isOpaqueReference (pi_version i) \<or> pi_idempotencyKey i = [] \<or>
         pi_requiredReviewers i = [] \<or>
         (pi_supersedesPolicyId i \<noteq> [] \<and> \<not> isOpaqueReference (pi_supersedesPolicyId i))
      then Some ErrInvalidReviewPolicyInput
      else if reviewers_valid {} (pi_requiredReviewers i) then None
      else Some ErrInvalidReviewPolicyInput)"

section \<open>The review gate\<close>

text \<open>The local variables of the inner loop of \<^verbatim>\<open>evaluateReviewGate\<close>.\<close>

record gate_scan =
  sc_mismatch :: "review option"
  sc_pending :: "review option"
  sc_rejected :: "review option"
  sc_accepted :: bool

definition scan_start :: gate_scan where
  "scan_start = \<lparr>sc_mismatch = None, sc_pending = None, sc_rejected = None, sc_accepted = False\<rparr>"

definition scan_review :: "exec_identity \<Rightarrow> required_reviewer \<Rightarrow> review \<Rightarrow> gate_scan \<Rightarrow> gate_scan" where
  "scan_review ident required v sc =
     (if vi_reviewerRef v \<noteq> rq_reviewerRef required \<or> \<not> sameExecutionIdentity ident (executionIdentityFromReview v) then sc
      else if vi_reviewerVersion v \<noteq> rq_reviewerVersion required then
        (if sc_mismatch sc = None then sc\<lparr>sc_mismatch := Some v\<rparr> else sc)
      else if vi_decision v = ''accepted'' then sc\<lparr>sc_accepted := True\<rparr>
      else if vi_decision v = ''pending'' then sc\<lparr>sc_pending := Some v\<rparr>
      else if vi_decision v = ''rejected'' then sc\<lparr>sc_rejected := Some v\<rparr>
      else sc)"

definition scan_reviews :: "exec_identity \<Rightarrow> required_reviewer \<Rightarrow> review list \<Rightarrow> gate_scan" where
  "scan_reviews ident required vs = fold (scan_review ident required) vs scan_start"

definition gate_evidence_for :: "required_reviewer \<Rightarrow> review option \<Rightarrow> gate_evidence" where
  "gate_evidence_for required ov =
     \<lparr>ge_reviewerRef = rq_reviewerRef required, ge_requiredVersion = rq_reviewerVersion required,
      ge_reviewId = (case ov of None \<Rightarrow> [] | Some v \<Rightarrow> vw_reviewId v),
      ge_actualVersion = (case ov of None \<Rightarrow> [] | Some v \<Rightarrow> vi_reviewerVersion v)\<rparr>"

definition gate_step :: "exec_identity \<Rightarrow> review list \<Rightarrow> required_reviewer \<Rightarrow> gate_result \<Rightarrow> gate_result" where
  "gate_step ident vs required g =
     (let sc = scan_reviews ident required vs; ev = gate_evidence_for required
      in if sc_rejected sc \<noteq> None then g\<lparr>gr_rejected := gr_rejected g @ [ev (sc_rejected sc)]\<rparr>
         else if sc_accepted sc then g
         else if sc_pending sc \<noteq> None then g\<lparr>gr_pending := gr_pending g @ [ev (sc_pending sc)]\<rparr>
         else if sc_mismatch sc \<noteq> None then g\<lparr>gr_versionMismatches := gr_versionMismatches g @ [ev (sc_mismatch sc)]\<rparr>
         else g\<lparr>gr_missing := gr_missing g @ [ev None]\<rparr>)"

definition gate_start :: "review_policy \<Rightarrow> gate_result" where
  "gate_start p =
     \<lparr>gr_policyId = po_policyId p, gr_policyVersion = pi_version p, gr_status = ''accepted'',
      gr_continuationEligible = True, gr_missing = [], gr_pending = [], gr_rejected = [], gr_versionMismatches = []\<rparr>"

definition gate_finish :: "gate_result \<Rightarrow> gate_result" where
  "gate_finish g =
     (if gr_rejected g \<noteq> [] \<or> gr_versionMismatches g \<noteq> [] then
        g\<lparr>gr_status := ''review_blocked'', gr_continuationEligible := False\<rparr>
      else if gr_missing g \<noteq> [] \<or> gr_pending g \<noteq> [] then
        g\<lparr>gr_status := ''review_required'', gr_continuationEligible := False\<rparr>
      else g)"

definition evaluateReviewGate :: "review_policy \<Rightarrow> review list \<Rightarrow> gate_result" where
  "evaluateReviewGate p vs =
     gate_finish (fold (gate_step (identity_of p) vs) (pi_requiredReviewers p) (gate_start p))"

section \<open>Reading receipts\<close>

text \<open>The gate as the reader gets it: a result with a nil error, or an error.\<close>

definition receiptForRead :: "receipt \<Rightarrow> (ledger_error, gate_result) res \<Rightarrow> receipt" where
  "receiptForRead r gate =
     (if ri_continuation r = None \<and> ri_continuationId r = [] then r
      else if validExecutionIdentity (executionIdentityFromReceipt r) \<and>
              (case gate of Inl _ \<Rightarrow> False | Inr g \<Rightarrow> gr_continuationEligible g) then r
      else r\<lparr>ri_continuationId := [], ri_continuation := None\<rparr>)"

definition artifactFromReceipt :: "receipt \<Rightarrow> artifact" where
  "artifactFromReceipt r =
     (let out = mget (opt_map (ri_outputRefs r))
      in \<lparr>ai_organizationId = ri_organizationId r, ai_workspaceId = ri_workspaceId r, ai_projectId = ri_projectId r,
          ai_taskId = ri_taskId r, ai_jobId = ri_jobId r, ai_digest = stringValue (out ''digest''),
          ai_mediaType = stringValue (out ''mediaType''), ai_sizeBytes = int64Value (out ''sizeBytes''),
          ai_storageRef = stringValue (out ''storageRef''), ai_idempotencyKey = [],
          af_artifactId = ri_artifactId r, af_receiptId = rc_receiptId r, af_createdAt = rc_createdAt r,
          af_replayed = rc_replayed r\<rparr>)"

definition reviewFromReceipt :: "receipt \<Rightarrow> review" where
  "reviewFromReceipt r =
     (let c = mget (opt_map (ri_reviewerChecks r))
      in \<lparr>vi_organizationId = ri_organizationId r, vi_workspaceId = ri_workspaceId r, vi_projectId = ri_projectId r,
          vi_taskId = ri_taskId r, vi_jobId = ri_jobId r, vi_reviewerRef = stringValue (c ''reviewerRef''),
          vi_reviewerVersion = stringValue (c ''reviewerVersion''),
          vi_inputArtifactDigests = stringSlice (c ''inputArtifactDigests''), vi_checks = as_obj (c ''checks''),
          vi_decision = stringValue (c ''decision''), vi_idempotencyKey = [],
          vw_reviewId = ri_reviewId r, vw_receiptId = rc_receiptId r, vw_createdAt = rc_createdAt r,
          vw_replayed = rc_replayed r\<rparr>)"

definition finalizeReceiptContinuation :: "receipt \<Rightarrow> receipt" where
  "finalizeReceiptContinuation r =
     (if ri_continuationId r = [] \<and> opt_map (ri_continuation r) = [] then r
      else
        let c = opt_map (ri_continuation r);
            cid = first_non_empty [str_of (mget c ''continuationId''), ri_continuationId r,
                                   ''continuation-'' @ rc_receiptId r]
        in r\<lparr>ri_continuationId := cid, ri_continuation := Some (mset_key ''continuationId'' (GStr cid) c)\<rparr>)"

definition continuationFromReceipt :: "receipt \<Rightarrow> (ledger_error, gomap) res" where
  "continuationFromReceipt r =
     (let c = opt_map (ri_continuation r);
          cid = first_non_empty [str_of (mget c ''continuationId''), ri_continuationId r]
      in if cid = [] then Err ErrContinuationNotFound
         else Ok (mset_key ''taskId'' (GStr (ri_taskId r))
                   (mset_key ''projectId'' (GStr (ri_projectId r))
                     (mset_key ''receiptId'' (GStr (rc_receiptId r))
                       (mset_key ''continuationId'' (GStr cid) c)))))"

section \<open>Receipts\<close>

definition opaque_str :: "gov \<Rightarrow> bool" where
  "opaque_str v \<longleftrightarrow> (case as_str v of None \<Rightarrow> False | Some s \<Rightarrow> isOpaqueReference s)"

definition int_where :: "gov \<Rightarrow> (int \<Rightarrow> bool) \<Rightarrow> bool" where
  "int_where v P \<longleftrightarrow> (case integerValue v of None \<Rightarrow> False | Some n \<Rightarrow> P n)"

definition rfc3339_str :: "gov \<Rightarrow> bool" where
  "rfc3339_str v \<longleftrightarrow> (case as_str v of None \<Rightarrow> False | Some s \<Rightarrow> parse_rfc3339 s \<noteq> None)"

definition validBillingCost :: "gomap \<Rightarrow> bool" where
  "validBillingCost cost \<longleftrightarrow>
     list_all (\<lambda>k. opaque_str (mget cost k)) [''pricingVersion'', ''sub2apiRedeemCode'', ''resourceType'', ''resourceId''] \<and>
     list_all (\<lambda>k. rfc3339_str (mget cost k)) [''periodStart'', ''paidThrough''] \<and>
     list_all (\<lambda>k. int_where (mget cost k) (\<lambda>n. n \<ge> 0)) [''monthlyPriceCnyCents'', ''chargeUsdMicros''] \<and>
     int_where (mget cost ''sub2apiUserId'') (\<lambda>n. n > 0)"

definition workspace_cost_fields :: "string \<Rightarrow> nat" where
  "workspace_cost_fields ty =
     (if ty = ''billing.workspace_purchased.v1'' then 12
      else if ty = ''billing.workspace_renewed.v1'' then 12
      else if ty = ''billing.workspace_expired.v1'' then 9
      else if ty = ''billing.workspace_refunded.v1'' then 13 else 0)"

definition period_ordered :: "gov \<Rightarrow> gov \<Rightarrow> bool" where
  "period_ordered s p \<longleftrightarrow>
     (case (as_str s, as_str p) of
        (Some st, Some pt) \<Rightarrow>
          (case (parse_rfc3339 st, parse_rfc3339 pt) of (Some (t, _), Some (u, _)) \<Rightarrow> t < u | _ \<Rightarrow> False)
      | _ \<Rightarrow> False)"

definition workspace_components_valid :: "gomap \<Rightarrow> int \<Rightarrow> bool" where
  "workspace_components_valid components tot \<longleftrightarrow>
     (case (as_obj (mget components ''compute''), as_obj (mget components ''storage'')) of
        (Some compute, Some storage) \<Rightarrow>
          mlen compute = 3 \<and> mlen storage = 4 \<and>
          mget compute ''resourceType'' = GStr ''compute'' \<and> mget storage ''resourceType'' = GStr ''storage'' \<and>
          list_all (\<lambda>c. opaque_str (mget c ''resourceId'')) [compute, storage] \<and>
          (case (integerValue (mget compute ''chargeUsdMicros''), integerValue (mget storage ''chargeUsdMicros''),
                 integerValue (mget storage ''sizeGb'')) of
             (Some cc, Some sc, Some gb) \<Rightarrow>
               \<not> (cc \<le> 0 \<or> sc \<le> 0 \<or> gb \<le> 0 \<or> cc > max_int64 - sc \<or> cc + sc \<noteq> tot)
           | _ \<Rightarrow> False)
      | _ \<Rightarrow> False)"

definition validWorkspaceBillingCost :: "gomap \<Rightarrow> string \<Rightarrow> bool" where
  "validWorkspaceBillingCost cost ty \<longleftrightarrow>
     \<not> (mlen cost \<noteq> workspace_cost_fields ty \<or> mget cost ''currency'' \<noteq> GStr ''USD'' \<or>
        mget cost ''billingUnit'' \<noteq> GStr ''calendar_month'' \<or> mget cost ''resourceType'' \<noteq> GStr ''workspace'') \<and>
     list_all (\<lambda>k. opaque_str (mget cost k)) [''priceVersion'', ''resourceId''] \<and>
     period_ordered (mget cost ''periodStart'') (mget cost ''paidThrough'') \<and>
     (case (integerValue (mget cost ''totalUsdMicros''), as_obj (mget cost ''components'')) of
        (Some tot, Some components) \<Rightarrow>
          tot > 0 \<and> mlen components = 2 \<and> workspace_components_valid components tot \<and>
          (if ty = ''billing.workspace_expired.v1'' then True
           else
             int_where (mget cost ''sub2apiUserId'') (\<lambda>n. n > 0) \<and> opaque_str (mget cost ''sub2apiRedeemCode'') \<and>
             (if ty = ''billing.workspace_purchased.v1'' \<or> ty = ''billing.workspace_renewed.v1''
              then int_where (mget cost ''postChargeBalanceUsdMicros'') (\<lambda>n. n \<ge> 0)
              else int_where (mget cost ''refundUsdMicros'') (\<lambda>n. n = tot) \<and> opaque_str (mget cost ''sub2apiRefundCode'')))
      | _ \<Rightarrow> False)"

definition validWalletAdjustmentReceipt :: "'a receipt_input_scheme \<Rightarrow> bool" where
  "validWalletAdjustmentReceipt r \<longleftrightarrow>
     (let actor = opt_map (ri_actor r); execution = opt_map (ri_execution r); owner = opt_map (ri_owner r);
          refs = opt_map (ri_inputRefs r); n = (\<lambda>m. mlen (opt_map m))
      in \<not> (ri_status r \<noteq> ''completed'' \<or> ri_surface r \<noteq> ''control_plane'' \<or> ri_accountId r = [] \<or> ri_workspaceId r \<noteq> [] \<or>
            ri_organizationId r \<noteq> [] \<or> ri_projectId r \<noteq> [] \<or> ri_taskId r \<noteq> [] \<or> ri_approvalId r \<noteq> [] \<or> ri_jobId r \<noteq> [] \<or>
            ri_artifactId r \<noteq> [] \<or> ri_reviewId r \<noteq> [] \<or> ri_continuationId r \<noteq> [] \<or> ri_supersedesReceiptId r \<noteq> [] \<or>
            ri_requestId r = [] \<or> mlen actor \<noteq> 1 \<or> mlen execution \<noteq> 3 \<or> mlen owner \<noteq> 1 \<or> n (ri_plan r) \<noteq> 0 \<or>
            n (ri_environment r) \<noteq> 0 \<or> n (ri_outputRefs r) \<noteq> 0 \<or> n (ri_reviewerChecks r) \<noteq> 0 \<or> n (ri_cost r) \<noteq> 0 \<or>
            n (ri_continuation r) \<noteq> 0) \<and>
         (case as_str (mget execution ''operationId'') of None \<Rightarrow> False
          | Some op \<Rightarrow> isOpaqueReference op \<and> ri_requestId r = op) \<and>
         int_where (mget execution ''amountUsdMicros'') (\<lambda>a. a > 0) \<and>
         opaque_str (mget actor ''userId'') \<and>
         mget owner ''accountId'' = GStr (ri_accountId r) \<and>
         opaque_str (mget refs ''balanceHistoryRef'') \<and>
         (case as_str (mget execution ''kind'') of None \<Rightarrow> False
          | Some kind \<Rightarrow>
              if kind = ''recharge'' \<or> kind = ''debit'' then
                mlen refs = 1 \<and> as_str (mget refs ''relatedOperationId'') = None
              else if kind = ''business_refund'' then
                mlen refs = 2 \<and> opaque_str (mget refs ''relatedOperationId'')
              else False))"

definition nonblank_str :: "gov \<Rightarrow> bool" where
  "nonblank_str v \<longleftrightarrow> (case as_str v of None \<Rightarrow> False | Some s \<Rightarrow> trim_space s \<noteq> [])"

definition validWorkspaceGatewayKeyRotationReceipt :: "'a receipt_input_scheme \<Rightarrow> bool" where
  "validWorkspaceGatewayKeyRotationReceipt r \<longleftrightarrow>
     (let execution = opt_map (ri_execution r); out = opt_map (ri_outputRefs r); owner = opt_map (ri_owner r)
      in \<not> (ri_status r \<noteq> ''completed'' \<or> ri_surface r \<noteq> ''control_plane'' \<or> ri_accountId r = [] \<or>
            mlen execution \<noteq> 3 \<or> mlen out \<noteq> 1 \<or> mlen owner \<noteq> 1) \<and>
         nonblank_str (mget execution ''operationId'') \<and>
         (case (integerValue (mget execution ''oldKeyId''), integerValue (mget execution ''newKeyId'')) of
            (Some old, Some new) \<Rightarrow> old > 0 \<and> new > 0 \<and> old \<noteq> new
          | _ \<Rightarrow> False) \<and>
         nonblank_str (mget out ''secretFingerprint'') \<and> nonblank_str (mget owner ''userId''))"

definition allowed_receipt_status :: "string list" where
  "allowed_receipt_status =
     [''planned'', ''approved'', ''running'', ''completed'', ''failed'', ''timed_out'', ''cancelled'',
      ''review_required'', ''review_blocked'']"

definition retired_billing_types :: "string list" where
  "retired_billing_types =
     [''billing.resource_purchased.v1'', ''billing.resource_renewed.v1'', ''billing.resource_expired.v1'',
      ''billing.resource_refunded.v1'', ''billing.charge_review_required.v1'']"

definition workspace_billing_types :: "string list" where
  "workspace_billing_types =
     [''billing.workspace_purchased.v1'', ''billing.workspace_renewed.v1'', ''billing.workspace_expired.v1'',
      ''billing.workspace_refunded.v1'']"

definition billingCostValid :: "'a receipt_input_scheme \<Rightarrow> bool" where
  "billingCostValid r \<longleftrightarrow>
     (let ty = ri_type r; cost = opt_map (ri_cost r)
      in if has_prefix ty ''billing.'' \<and> has_suffix ty ''.v1'' then
           (if ty \<in> set retired_billing_types then False
            else if ty = ''billing.reconciliation.v1'' then validBillingCost cost
            else if ty \<in> set workspace_billing_types then
              validWorkspaceBillingCost cost ty \<and> mget cost ''resourceId'' = GStr (ri_workspaceId r)
            else False)
         else True)"

definition validateReceiptInput :: "receipt_input \<Rightarrow> ledger_error option" where
  "validateReceiptInput r =
     (if ri_type r = [] \<or> ri_status r = [] \<or> ri_surface r = [] \<or> ri_idempotencyKey r = [] \<or>
         ri_workspaceId r = [] \<and> ri_type r \<noteq> ''gateway.wallet_adjustment.v1''
      then Some ErrInvalidReceiptInput
      else if (ri_continuationId r \<noteq> [] \<or> mlen (opt_map (ri_continuation r)) > 0) \<and>
              \<not> validExecutionIdentity (executionIdentityFromReceipt r)
      then Some ErrInvalidReceiptInput
      else
        let rotationEvidenceValid =
              (ri_type r \<noteq> ''workspace.gateway_key_rotated.v1'' \<or> validWorkspaceGatewayKeyRotationReceipt r);
            walletAdjustmentValid = (ri_type r \<noteq> ''gateway.wallet_adjustment.v1'' \<or> validWalletAdjustmentReceipt r)
        in if ri_status r \<notin> set allowed_receipt_status \<or> containsForbiddenReceiptKey (GObj (receipt_input_json r)) \<or>
              \<not> billingCostValid r \<or> \<not> rotationEvidenceValid \<or> \<not> walletAdjustmentValid
           then Some ErrInvalidReceiptInput else None)"

section \<open>Reconciliation reports\<close>

definition reconciliationExceptionCodes :: "string list" where
  "reconciliationExceptionCodes =
     [''billing_operation_invalid'', ''sub2api_balance_history_unavailable'', ''sub2api_charge_missing'',
      ''sub2api_charge_mismatch'', ''fabric_operations_unavailable'', ''fabric_operation_missing'',
      ''fabric_operation_mismatch'', ''ledger_receipts_unavailable'', ''ledger_receipt_missing'',
      ''ledger_receipt_mismatch'']"

text \<open>The resource an exception names, as the key of \<^verbatim>\<open>exceptionResources\<close>.\<close>

definition exception_resource :: "gov \<Rightarrow> string option" where
  "exception_resource v =
     (case as_obj v of None \<Rightarrow> None
      | Some e \<Rightarrow>
          (case (as_str (mget e ''resourceType''), as_str (mget e ''resourceId''), as_str (mget e ''code'')) of
             (Some ty, Some rid, Some code) \<Rightarrow>
               if ty \<notin> set [''compute'', ''storage'', ''workspace''] \<or> \<not> isOpaqueReference rid \<or>
                  code \<notin> set reconciliationExceptionCodes
               then None else Some (ty @ [CHR 0x00] @ rid)
           | _ \<Rightarrow> None))"

fun exception_resources :: "gov list \<Rightarrow> string list option" where
  "exception_resources [] = Some []"
| "exception_resources (v # vs) =
     (case exception_resource v of None \<Rightarrow> None
      | Some k \<Rightarrow> map_option ((#) k) (exception_resources vs))"

fun as_list :: "gov \<Rightarrow> gov list option" where
  "as_list (GList vs) = Some vs"
| "as_list _ = None"

definition report_counts_valid :: "gomap \<Rightarrow> nat \<Rightarrow> (int \<times> int) option" where
  "report_counts_valid counts nexc =
     (case (integerValue (mget counts ''billingOperations''), integerValue (mget counts ''matched''),
            integerValue (mget counts ''exceptions'')) of
        (Some checked, Some matched, Some exceptionCount) \<Rightarrow>
          if checked < 0 \<or> matched < 0 \<or> exceptionCount < 0 \<or> matched > checked \<or> exceptionCount \<noteq> int nexc
          then None
          else if list_all (\<lambda>kv. int_where (snd kv) (\<lambda>n. n \<ge> 0)) counts then Some (checked, matched) else None
      | _ \<Rightarrow> None)"

definition validateReconciliationReport :: "gomap option \<Rightarrow> ledger_error option" where
  "validateReconciliationReport report =
     (case normalizedJSONValue (field_json report) of
        Some (GObj normalized) \<Rightarrow>
          if containsForbiddenJSONKey (GObj normalized) then Some ErrInvalidReconciliationInput
          else
            (case (as_str (mget normalized ''id''), as_str (mget normalized ''status''),
                   as_obj (mget (opt_map report) ''counts''), as_list (mget normalized ''exceptions'')) of
               (Some rid, Some status, Some counts, Some exceptions) \<Rightarrow>
                 if trim_space rid = [] \<or> status \<notin> set [''ok'', ''mismatch''] then Some ErrInvalidReconciliationInput
                 else
                   (case (report_counts_valid counts (length exceptions), exception_resources exceptions) of
                      (Some (checked, matched), Some keys) \<Rightarrow>
                        if checked - matched \<noteq> int (length (remdups keys)) \<or>
                           (status = ''ok'' \<and> exceptions \<noteq> []) \<or> (status = ''mismatch'' \<and> exceptions = [])
                        then Some ErrInvalidReconciliationInput else None
                    | _ \<Rightarrow> Some ErrInvalidReconciliationInput)
             | _ \<Rightarrow> Some ErrInvalidReconciliationInput)
      | _ \<Rightarrow> Some ErrInvalidReconciliationInput)"

definition validateReconciliationInput :: "reconciliation_input \<Rightarrow> ledger_error option" where
  "validateReconciliationInput i =
     (if trim_space (rx_idempotencyKey i) = [] \<or> validateReconciliationReport (rx_report i) \<noteq> None
      then Some ErrInvalidReconciliationInput else None)"

definition validateReconciliationResult :: "reconciliation_result \<Rightarrow> ledger_error option" where
  "validateReconciliationResult r =
     (if validateReconciliationReport (rs_report r) \<noteq> None then Some ErrInvalidReconciliationInput
      else
        let rid = str_of (mget (opt_map (rs_report r)) ''id''); status = str_of (mget (opt_map (rs_report r)) ''status'')
        in if rs_id r \<noteq> rid \<or> rs_status r \<noteq> status \<or> rs_blockNewWorkspaces r \<noteq> (status = ''mismatch'') \<or>
              rs_reason r \<noteq> ''operator_reconciliation''
           then Some ErrInvalidReconciliationInput else None)"

section \<open>Queries and cursors\<close>

text \<open>
  The cursor text is unpadded URL base64 of the JSON of a \<^verbatim>\<open>receiptCursor\<close>. The
  JSON of the library is a parameter: marshalling gives None where it fails (a year above 9999), and
  so does unmarshalling. The code ignores a failed marshalling and encodes the empty payload.
\<close>

record cursor_json =
  cj_marshal :: "receipt_cursor \<Rightarrow> string option"
  cj_unmarshal :: "string \<Rightarrow> receipt_cursor option"

definition DefaultReceiptPageSize :: int where "DefaultReceiptPageSize = 50"
definition MaxReceiptPageSize :: int where "MaxReceiptPageSize = 100"

definition no_cursor :: receipt_cursor where
  "no_cursor = \<lparr>cu_createdAt = 0, cu_receiptId = []\<rparr>"

definition normalizeReceiptQuery ::
  "cursor_json \<Rightarrow> receipt_query \<Rightarrow> (ledger_error, receipt_query \<times> receipt_cursor) res" where
  "normalizeReceiptQuery cj q =
     (let q = (if q_limit q = 0 then q\<lparr>q_limit := DefaultReceiptPageSize\<rparr> else q)
      in if q_limit q < 1 \<or> q_limit q > MaxReceiptPageSize then Err ErrInvalidReceiptQuery
         else if q_cursor q = [] then Ok (q, no_cursor)
         else
           (case b64_decode (q_cursor q) of None \<Rightarrow> Err ErrInvalidReceiptQuery
            | Some payload \<Rightarrow>
                (case cj_unmarshal cj payload of None \<Rightarrow> Err ErrInvalidReceiptQuery
                 | Some c \<Rightarrow>
                     if cu_createdAt c = 0 \<or> cu_receiptId c = [] then Err ErrInvalidReceiptQuery else Ok (q, c))))"

definition encodeReceiptCursor :: "cursor_json \<Rightarrow> receipt \<Rightarrow> string" where
  "encodeReceiptCursor cj r =
     b64_encode (case cj_marshal cj \<lparr>cu_createdAt = rc_createdAt r, cu_receiptId = rc_receiptId r\<rparr> of
                   None \<Rightarrow> [] | Some payload \<Rightarrow> payload)"

section \<open>Forbidden keys, field by field\<close>

lemma forbidden_in_obj_iff:
  "forbidden_in_obj m \<longleftrightarrow> (\<exists>(k, v) \<in> set m. go_lower k \<in> set forbidden_keys \<or> containsForbiddenJSONKey v)"
  by (induction m) auto

lemma json_norm_kvs_ex:
  "json_norm_kvs m = Some m' \<Longrightarrow>
   (\<exists>(k, v) \<in> set m'. P k v) \<longleftrightarrow> (\<exists>(k, v) \<in> set m. P k (the (json_norm v)))"
proof (induction m arbitrary: m')
  case (Cons p m)
  obtain k v where p: "p = (k, v)" by (cases p)
  with Cons.prems obtain v' z where "json_norm v = Some v'" "json_norm_kvs m = Some z" "m' = (k, v') # z"
    by (auto split: option.splits)
  with Cons.IH [of z] p show ?case by simp
qed simp

lemma forbidden_obj:
  "containsForbiddenReceiptKey (GObj m) \<longleftrightarrow>
     (\<exists>(k, v) \<in> set m. go_lower k \<in> set forbidden_keys \<or> containsForbiddenReceiptKey v)"
proof (cases "json_norm_kvs m")
  case None
  then obtain k v where kv: "(k, v) \<in> set m" "json_norm v = None" using json_norm_kvs_defined [of m] by auto
  then have "containsForbiddenReceiptKey v" by (simp add: containsForbiddenReceiptKey_def normalizedJSONValue_def)
  with kv(1) None show ?thesis by (auto simp: containsForbiddenReceiptKey_def normalizedJSONValue_def)
next
  case (Some m')
  then have d: "json_norm v \<noteq> None" if "(k, v) \<in> set m" for k v
    using that json_norm_kvs_defined [of m] by auto
  have "containsForbiddenReceiptKey (GObj m) \<longleftrightarrow>
      (\<exists>(k, v) \<in> set m'. go_lower k \<in> set forbidden_keys \<or> containsForbiddenJSONKey v)"
    using Some by (simp add: containsForbiddenReceiptKey_def normalizedJSONValue_def forbidden_in_obj_iff)
  also have "\<dots> \<longleftrightarrow> (\<exists>(k, v) \<in> set m. go_lower k \<in> set forbidden_keys \<or> containsForbiddenJSONKey (the (json_norm v)))"
    by (rule json_norm_kvs_ex [OF Some])
  also have "\<dots> \<longleftrightarrow> (\<exists>(k, v) \<in> set m. go_lower k \<in> set forbidden_keys \<or> containsForbiddenReceiptKey v)"
  proof (intro bex_cong refl)
    fix p assume p: "p \<in> set m"
    obtain k v where kv: "p = (k, v)" by (cases p)
    with p d obtain v' where "json_norm v = Some v'" by blast
    then show "(case p of (k, v) \<Rightarrow> go_lower k \<in> set forbidden_keys \<or> containsForbiddenJSONKey (the (json_norm v))) =
               (case p of (k, v) \<Rightarrow> go_lower k \<in> set forbidden_keys \<or> containsForbiddenReceiptKey v)"
      by (simp add: kv containsForbiddenReceiptKey_def normalizedJSONValue_def)
  qed
  finally show ?thesis .
qed

lemma forbidden_scalar [simp]:
  "\<not> containsForbiddenReceiptKey GNil" "\<not> containsForbiddenReceiptKey (GStr s)" "\<not> containsForbiddenReceiptKey (GBool b)"
  "\<not> containsForbiddenReceiptKey (GInt n) \<longleftrightarrow> int64_range n"
  by (simp_all add: containsForbiddenReceiptKey_def normalizedJSONValue_def)

lemma receipt_field_names:
  "list_all (\<lambda>k. go_lower k \<notin> set forbidden_keys)
     [''type'', ''status'', ''surface'', ''accountId'', ''organizationId'', ''workspaceId'', ''projectId'', ''taskId'',
      ''requestId'', ''approvalId'', ''jobId'', ''artifactId'', ''reviewId'', ''continuationId'', ''actor'', ''plan'',
      ''execution'', ''environment'', ''inputRefs'', ''outputRefs'', ''reviewerChecks'', ''cost'', ''owner'',
      ''continuation'', ''supersedesReceiptId'']"
  by code_simp

text \<open>A receipt carries a forbidden key exactly when one of its map fields does.\<close>

lemma forbidden_receipt:
  "containsForbiddenReceiptKey (GObj (receipt_input_json r)) \<longleftrightarrow>
     list_ex (\<lambda>m. containsForbiddenReceiptKey (field_json m))
       [ri_actor r, ri_plan r, ri_execution r, ri_environment r, ri_inputRefs r, ri_outputRefs r, ri_reviewerChecks r,
        ri_cost r, ri_owner r, ri_continuation r]"
  using receipt_field_names by (simp add: forbidden_obj receipt_input_json_def)

end
