(* ===== verification/Ledger_Gate.thy ===== *)
theory Ledger_Gate
  imports Ledger_Rules
begin

text \<open>
  What the review gate promises, stated over the set of reviews: every required reviewer has a
  verdict that depends on which reviews exist and not on their order, and the gate is the sum of
  the verdicts. \<open>evaluateReviewGate\<close> refines it.
\<close>

section \<open>Verdicts\<close>

datatype verdict = VAccepted | VRejected | VPending | VMismatch | VMissing

definition speaks_for :: "exec_identity \<Rightarrow> required_reviewer \<Rightarrow> review \<Rightarrow> bool" where
  "speaks_for ident q v \<longleftrightarrow> vi_reviewerRef v = rq_reviewerRef q \<and> ident = executionIdentityFromReview v"

definition decided :: "exec_identity \<Rightarrow> required_reviewer \<Rightarrow> string \<Rightarrow> review list \<Rightarrow> bool" where
  "decided ident q d vs \<longleftrightarrow>
     list_ex (\<lambda>v. speaks_for ident q v \<and> vi_reviewerVersion v = rq_reviewerVersion q \<and> vi_decision v = d) vs"

definition other_version :: "exec_identity \<Rightarrow> required_reviewer \<Rightarrow> review list \<Rightarrow> bool" where
  "other_version ident q vs \<longleftrightarrow>
     list_ex (\<lambda>v. speaks_for ident q v \<and> vi_reviewerVersion v \<noteq> rq_reviewerVersion q) vs"

definition reviewer_verdict :: "exec_identity \<Rightarrow> review list \<Rightarrow> required_reviewer \<Rightarrow> verdict" where
  "reviewer_verdict ident vs q =
     (if decided ident q ''rejected'' vs then VRejected
      else if decided ident q ''accepted'' vs then VAccepted
      else if decided ident q ''pending'' vs then VPending
      else if other_version ident q vs then VMismatch
      else VMissing)"

definition gate_status_of :: "verdict list \<Rightarrow> string" where
  "gate_status_of ds =
     (if VRejected \<in> set ds \<or> VMismatch \<in> set ds then ''review_blocked''
      else if VMissing \<in> set ds \<or> VPending \<in> set ds then ''review_required''
      else ''accepted'')"

lemma decided_set: "set vs = set ws \<Longrightarrow> decided ident q d vs = decided ident q d ws"
  by (simp add: decided_def list_ex_iff)

lemma other_version_set: "set vs = set ws \<Longrightarrow> other_version ident q vs = other_version ident q ws"
  by (simp add: other_version_def list_ex_iff)

lemma reviewer_verdict_set: "set vs = set ws \<Longrightarrow> reviewer_verdict ident vs = reviewer_verdict ident ws"
  by (intro ext) (simp only: reviewer_verdict_def decided_set [of vs ws] other_version_set [of vs ws])

section \<open>The scan computes the verdict\<close>

lemma scan_review_speaks:
  "scan_review ident q v sc =
     (if \<not> speaks_for ident q v then sc
      else if vi_reviewerVersion v \<noteq> rq_reviewerVersion q then
        (if sc_mismatch sc = None then sc\<lparr>sc_mismatch := Some v\<rparr> else sc)
      else if vi_decision v = ''accepted'' then sc\<lparr>sc_accepted := True\<rparr>
      else if vi_decision v = ''pending'' then sc\<lparr>sc_pending := Some v\<rparr>
      else if vi_decision v = ''rejected'' then sc\<lparr>sc_rejected := Some v\<rparr>
      else sc)"
  by (simp only: scan_review_def speaks_for_def sameExecutionIdentity_def de_Morgan_conj)

lemma scan_accepted:
  "sc_accepted (fold (scan_review ident q) vs sc) \<longleftrightarrow> sc_accepted sc \<or> decided ident q ''accepted'' vs"
  by (induction vs arbitrary: sc) (simp_all add: decided_def scan_review_speaks)

lemma scan_rejected:
  "sc_rejected (fold (scan_review ident q) vs sc) = None \<longleftrightarrow> sc_rejected sc = None \<and> \<not> decided ident q ''rejected'' vs"
  by (induction vs arbitrary: sc) (simp_all add: decided_def scan_review_speaks)

lemma scan_pending:
  "sc_pending (fold (scan_review ident q) vs sc) = None \<longleftrightarrow> sc_pending sc = None \<and> \<not> decided ident q ''pending'' vs"
  by (induction vs arbitrary: sc) (simp_all add: decided_def scan_review_speaks)

lemma scan_mismatch:
  "sc_mismatch (fold (scan_review ident q) vs sc) = None \<longleftrightarrow> sc_mismatch sc = None \<and> \<not> other_version ident q vs"
  by (induction vs arbitrary: sc) (simp_all add: other_version_def scan_review_speaks)

lemma scan_flags:
  "sc_accepted (scan_reviews ident q vs) \<longleftrightarrow> decided ident q ''accepted'' vs"
  "sc_rejected (scan_reviews ident q vs) = None \<longleftrightarrow> \<not> decided ident q ''rejected'' vs"
  "sc_pending (scan_reviews ident q vs) = None \<longleftrightarrow> \<not> decided ident q ''pending'' vs"
  "sc_mismatch (scan_reviews ident q vs) = None \<longleftrightarrow> \<not> other_version ident q vs"
  by (simp_all only: scan_reviews_def scan_accepted scan_rejected scan_pending scan_mismatch)
    (simp_all add: scan_start_def)

lemma gate_evidence_ref [simp]: "ge_reviewerRef (gate_evidence_for q ov) = rq_reviewerRef q"
  by (simp add: gate_evidence_for_def)

definition gate_bucket :: "verdict \<Rightarrow> gate_result \<Rightarrow> gate_evidence list" where
  "gate_bucket d g =
     (case d of VRejected \<Rightarrow> gr_rejected g | VPending \<Rightarrow> gr_pending g | VMismatch \<Rightarrow> gr_versionMismatches g
      | VMissing \<Rightarrow> gr_missing g | VAccepted \<Rightarrow> [])"

lemma gate_step_bucket:
  "d \<noteq> VAccepted \<Longrightarrow>
   map ge_reviewerRef (gate_bucket d (gate_step ident vs q g)) =
     map ge_reviewerRef (gate_bucket d g) @ (if reviewer_verdict ident vs q = d then [rq_reviewerRef q] else [])"
  by (cases d) (simp_all only: gate_step_def reviewer_verdict_def gate_bucket_def Let_def scan_flags not_not
    split: if_splits, simp_all)

lemma gate_step_rest [simp]:
  "gr_status (gate_step ident vs q g) = gr_status g"
  "gr_continuationEligible (gate_step ident vs q g) = gr_continuationEligible g"
  "gr_policyId (gate_step ident vs q g) = gr_policyId g"
  "gr_policyVersion (gate_step ident vs q g) = gr_policyVersion g"
  by (simp_all add: gate_step_def Let_def)

lemma gate_fold_rest [simp]:
  "gr_status (fold (gate_step ident vs) qs g) = gr_status g"
  "gr_continuationEligible (fold (gate_step ident vs) qs g) = gr_continuationEligible g"
  "gr_policyId (fold (gate_step ident vs) qs g) = gr_policyId g"
  "gr_policyVersion (fold (gate_step ident vs) qs g) = gr_policyVersion g"
  by (induction qs arbitrary: g) simp_all

lemma gate_fold_bucket:
  "d \<noteq> VAccepted \<Longrightarrow>
   map ge_reviewerRef (gate_bucket d (fold (gate_step ident vs) qs g)) =
     map ge_reviewerRef (gate_bucket d g) @
     map rq_reviewerRef (filter (\<lambda>q. reviewer_verdict ident vs q = d) qs)"
  by (induction qs arbitrary: g) (simp_all add: gate_step_bucket)

lemma gate_finish_rest [simp]:
  "gate_bucket d (gate_finish g) = gate_bucket d g"
  "gr_policyId (gate_finish g) = gr_policyId g" "gr_policyVersion (gate_finish g) = gr_policyVersion g"
  by (simp_all add: gate_finish_def gate_bucket_def split: verdict.splits)

lemma gate_start_bucket [simp]: "gate_bucket d (gate_start p) = []"
  by (simp add: gate_bucket_def gate_start_def split: verdict.splits)

lemma gate_fold_empty:
  assumes "d \<noteq> VAccepted"
  shows "gate_bucket d (fold (gate_step ident vs) qs (gate_start p)) = [] \<longleftrightarrow>
           d \<notin> set (map (reviewer_verdict ident vs) qs)"
proof -
  have "gate_bucket d (fold (gate_step ident vs) qs (gate_start p)) = [] \<longleftrightarrow>
        filter (\<lambda>q. reviewer_verdict ident vs q = d) qs = []"
    using gate_fold_bucket [OF assms, of ident vs qs "gate_start p"]
    by (metis append_Nil gate_start_bucket list.map_disc_iff map_is_Nil_conv)
  then show ?thesis by (auto simp: filter_empty_conv)
qed

lemma gate_finish_status:
  assumes "gr_status g = ''accepted''" "gr_continuationEligible g"
    and "\<And>d. d \<noteq> VAccepted \<Longrightarrow> gate_bucket d g = [] \<longleftrightarrow> d \<notin> set ds"
  shows "gr_status (gate_finish g) = gate_status_of ds"
    "gr_continuationEligible (gate_finish g) \<longleftrightarrow> gate_status_of ds = ''accepted''"
  using assms(3) [of VRejected] assms(3) [of VMismatch] assms(3) [of VMissing] assms(3) [of VPending] assms(1,2)
  by (auto simp: gate_finish_def gate_status_of_def gate_bucket_def)

lemma gate_status_accepted: "gate_status_of ds = ''accepted'' \<longleftrightarrow> (\<forall>d \<in> set ds. d = VAccepted)"
  unfolding gate_status_of_def by (auto intro: verdict.exhaust)

lemma gate_refines:
  fixes p :: review_policy and vs :: "review list"
  defines "g \<equiv> evaluateReviewGate p vs"
  defines "ds \<equiv> map (reviewer_verdict (identity_of p) vs) (pi_requiredReviewers p)"
  shows "gr_status g = gate_status_of ds"
    and "gr_continuationEligible g \<longleftrightarrow> gate_status_of ds = ''accepted''"
    and "d \<noteq> VAccepted \<Longrightarrow> map ge_reviewerRef (gate_bucket d g) =
           map rq_reviewerRef (filter (\<lambda>q. reviewer_verdict (identity_of p) vs q = d) (pi_requiredReviewers p))"
    and "gr_policyId g = po_policyId p" and "gr_policyVersion g = pi_version p"
proof -
  let ?f = "fold (gate_step (identity_of p) vs) (pi_requiredReviewers p) (gate_start p)"
  have s: "gr_status ?f = ''accepted''" "gr_continuationEligible ?f"
    by (simp_all add: gate_start_def)
  have e: "gate_bucket d ?f = [] \<longleftrightarrow> d \<notin> set ds" if "d \<noteq> VAccepted" for d
    using gate_fold_empty [OF that, of "identity_of p" vs "pi_requiredReviewers p" p] by (simp add: ds_def)
  show "gr_status g = gate_status_of ds"
    unfolding g_def evaluateReviewGate_def by (rule gate_finish_status(1) [OF s e])
  show "gr_continuationEligible g \<longleftrightarrow> gate_status_of ds = ''accepted''"
    unfolding g_def evaluateReviewGate_def by (rule gate_finish_status(2) [OF s e])
  show "map ge_reviewerRef (gate_bucket d g) =
        map rq_reviewerRef (filter (\<lambda>q. reviewer_verdict (identity_of p) vs q = d) (pi_requiredReviewers p))"
    if "d \<noteq> VAccepted"
    using gate_fold_bucket [OF that, of "identity_of p" vs "pi_requiredReviewers p" "gate_start p"]
    by (simp add: g_def evaluateReviewGate_def)
  show "gr_policyId g = po_policyId p" "gr_policyVersion g = pi_version p"
    by (simp_all add: g_def evaluateReviewGate_def) (simp_all add: gate_start_def)
qed

lemma verdict_accepted:
  "reviewer_verdict ident vs q = VAccepted \<longleftrightarrow>
     decided ident q ''accepted'' vs \<and> \<not> decided ident q ''rejected'' vs"
  by (simp add: reviewer_verdict_def)

text \<open>Who a list of evidence names: the reviewers of a verdict, in the order of the policy.\<close>

definition named_with :: "verdict \<Rightarrow> review_policy \<Rightarrow> review list \<Rightarrow> string list" where
  "named_with d p vs =
     map rq_reviewerRef (filter (\<lambda>q. reviewer_verdict (identity_of p) vs q = d) (pi_requiredReviewers p))"

text \<open>C16: the gate opens exactly when every required reviewer, in the required version and for the
  identity of the policy, accepted and none rejected. The status says whether it is open, and the
  four lists of evidence, of the rejected, the pending, the missing and those of another version,
  name exactly the reviewers of their verdict in the order of the policy.\<close>

theorem review_gate_decides:
  "gr_continuationEligible (evaluateReviewGate p vs) =
     list_all (\<lambda>q. decided (identity_of p) q ''accepted'' vs \<and> \<not> decided (identity_of p) q ''rejected'' vs)
       (pi_requiredReviewers p) \<and>
   gr_status (evaluateReviewGate p vs) =
     gate_status_of (map (reviewer_verdict (identity_of p) vs) (pi_requiredReviewers p)) \<and>
   map ge_reviewerRef (gr_rejected (evaluateReviewGate p vs)) = named_with VRejected p vs \<and>
   map ge_reviewerRef (gr_pending (evaluateReviewGate p vs)) = named_with VPending p vs \<and>
   map ge_reviewerRef (gr_missing (evaluateReviewGate p vs)) = named_with VMissing p vs \<and>
   map ge_reviewerRef (gr_versionMismatches (evaluateReviewGate p vs)) = named_with VMismatch p vs"
  using gate_refines(1,2) [of p vs] gate_refines(3) [of VRejected p vs] gate_refines(3) [of VMissing p vs]
    gate_refines(3) [of VPending p vs] gate_refines(3) [of VMismatch p vs]
  by (simp add: gate_bucket_def gate_status_accepted verdict_accepted list_all_iff named_with_def)

text \<open>C17: what the gate decides does not depend on the order in which the store's maps hand it the
  reviews, nor on a review that is handed over twice: the status, whether the continuation is
  eligible, and which reviewers each of the four lists of evidence names. (Which of several reviews
  of one reviewer an entry cites, its identifier and version, does depend on the order.)\<close>

theorem review_gate_order_independent:
  assumes "set vs = set ws"
  shows "gr_status (evaluateReviewGate p vs) = gr_status (evaluateReviewGate p ws) \<and>
    gr_continuationEligible (evaluateReviewGate p vs) = gr_continuationEligible (evaluateReviewGate p ws) \<and>
    map ge_reviewerRef (gr_rejected (evaluateReviewGate p vs)) = map ge_reviewerRef (gr_rejected (evaluateReviewGate p ws)) \<and>
    map ge_reviewerRef (gr_pending (evaluateReviewGate p vs)) = map ge_reviewerRef (gr_pending (evaluateReviewGate p ws)) \<and>
    map ge_reviewerRef (gr_missing (evaluateReviewGate p vs)) = map ge_reviewerRef (gr_missing (evaluateReviewGate p ws)) \<and>
    map ge_reviewerRef (gr_versionMismatches (evaluateReviewGate p vs)) =
      map ge_reviewerRef (gr_versionMismatches (evaluateReviewGate p ws))"
  using gate_refines(1,2) [of p vs] gate_refines(1,2) [of p ws]
    gate_refines(3) [of VPending p vs] gate_refines(3) [of VPending p ws]
    gate_refines(3) [of VMismatch p vs] gate_refines(3) [of VMismatch p ws]
    gate_refines(3) [of VRejected p vs] gate_refines(3) [of VRejected p ws]
    gate_refines(3) [of VMissing p vs] gate_refines(3) [of VMissing p ws]
  by (simp add: gate_bucket_def reviewer_verdict_set [OF assms])

definition sample_policy :: review_policy where
  "sample_policy =
     \<lparr>ei_organizationId = ''o'', ei_workspaceId = ''w'', ei_projectId = ''p'', ei_taskId = ''t'', ei_jobId = ''j'',
      pi_version = ''1'', pi_requiredReviewers = [\<lparr>rq_reviewerRef = ''alice'', rq_reviewerVersion = ''v1''\<rparr>],
      pi_supersedesPolicyId = [], pi_idempotencyKey = [], po_policyId = ''review-policy-1'', po_status = ''active'',
      po_createdAt = 1, po_replayed = False\<rparr>"

definition sample_review :: "string \<Rightarrow> string \<Rightarrow> review" where
  "sample_review rid decision =
     \<lparr>vi_organizationId = ''o'', vi_workspaceId = ''w'', vi_projectId = ''p'', vi_taskId = ''t'', vi_jobId = ''j'',
      vi_reviewerRef = ''alice'', vi_reviewerVersion = ''v1'', vi_inputArtifactDigests = [''d''], vi_checks = None,
      vi_decision = decision, vi_idempotencyKey = [], vw_reviewId = rid, vw_receiptId = ''receipt_000001'',
      vw_createdAt = 1, vw_replayed = False\<rparr>"

lemma review_gate_order_witness:
  "gr_status (evaluateReviewGate sample_policy [sample_review ''a'' ''accepted'', sample_review ''b'' ''rejected'']) =
   gr_status (evaluateReviewGate sample_policy [sample_review ''b'' ''rejected'', sample_review ''a'' ''accepted''])"
  using review_gate_order_independent
    [of "[sample_review ''a'' ''accepted'', sample_review ''b'' ''rejected'']"
      "[sample_review ''b'' ''rejected'', sample_review ''a'' ''accepted'']" sample_policy]
  by auto

end
