(* ===== verification/Idempotent_Command.thy ===== *)
theory Idempotent_Command
  imports Go_Prelude
begin

text \<open>
  The contract every mutating command of the services shares: a command carries an idempotency
  key and the service keeps, under that key, the hash of the payload that was accepted. The
  store has other commands too; \<open>step\<close> is any transition it makes. A command also reads its
  environment (the clock, the order of a range loop); \<open>admits\<close> says which environments occur. The client of the contract
  is a caller that retries: it proves once that a retry after success changes nothing however
  late it comes, that a key is never bound to a second payload, and that any number of
  deliveries of a command leaves what the first success left.
\<close>

locale idempotent_command =
  fixes run :: "'t \<Rightarrow> 'i \<Rightarrow> 's \<Rightarrow> ('e, 'r) res \<times> 's"
    and key :: "'i \<Rightarrow> 'k"
    and seen :: "'k \<Rightarrow> 's \<Rightarrow> string option"
    and hash :: "'i \<Rightarrow> string option"
    and accepts :: "'i \<Rightarrow> bool"
    and inv :: "'s \<Rightarrow> bool"
    and step :: "'s \<Rightarrow> 's \<Rightarrow> bool"
    and admits :: "'t \<Rightarrow> 's \<Rightarrow> bool"
    and conflict :: 'e
  assumes ok_seen: "inv s \<Longrightarrow> admits t s \<Longrightarrow> run t i s = (Ok r, s') \<Longrightarrow>
                    accepts i \<and> hash i \<noteq> None \<and> seen (key i) s' = hash i \<and> inv s'"
    and hit: "inv s \<Longrightarrow> accepts i \<Longrightarrow> hash i = Some h \<Longrightarrow> seen (key i) s = Some h \<Longrightarrow> \<exists>r. run t i s = (Ok r, s)"
    and miss: "inv s \<Longrightarrow> accepts i \<Longrightarrow> hash i = Some h \<Longrightarrow> seen (key i) s = Some h' \<Longrightarrow> h \<noteq> h' \<Longrightarrow>
                 run t i s = (Err conflict, s)"
    and sticky: "inv s \<Longrightarrow> step s s' \<Longrightarrow> seen k s = Some h \<Longrightarrow> seen k s' = Some h"
    and inv_step: "inv s \<Longrightarrow> step s s' \<Longrightarrow> inv s'"
begin

lemma inv_steps: "step\<^sup>*\<^sup>* s s' \<Longrightarrow> inv s \<Longrightarrow> inv s'"
  by (induction rule: rtranclp_induct) (simp_all add: inv_step)

lemma sticky_steps: "step\<^sup>*\<^sup>* s s' \<Longrightarrow> inv s \<Longrightarrow> seen k s = Some h \<Longrightarrow> seen k s' = Some h"
  by (induction rule: rtranclp_induct) (auto intro: sticky inv_steps)

text \<open>A retry after success, however late, answers without touching the state.\<close>

lemma retry_keeps:
  assumes "inv s" and "admits t s" and "run t i s = (Ok r, s1)" and "step\<^sup>*\<^sup>* s1 s2"
  shows "\<exists>r'. run t' i s2 = (Ok r', s2)"
proof -
  from ok_seen [OF assms(1-3)] obtain h where h: "accepts i" "hash i = Some h" "seen (key i) s1 = Some h" "inv s1"
    by auto
  from hit [OF inv_steps [OF assms(4) h(4)] h(1,2) sticky_steps [OF assms(4) h(4,3)]] show ?thesis by blast
qed

text \<open>Once a key is bound, the same key with another payload is refused for good.\<close>

lemma rebind_refused:
  assumes "inv s" and "admits t s" and "run t i s = (Ok r, s1)" and "step\<^sup>*\<^sup>* s1 s2"
    and "key j = key i" and "accepts j" and "hash j = Some h'" and "hash j \<noteq> hash i"
  shows "run t' j s2 = (Err conflict, s2)"
proof -
  from ok_seen [OF assms(1-3)] obtain h where h: "hash i = Some h" "seen (key i) s1 = Some h" "inv s1" by auto
  have "seen (key j) s2 = Some h" using sticky_steps [OF assms(4) h(3,2)] assms(5) by simp
  then show ?thesis using miss [OF inv_steps [OF assms(4) h(3)] assms(6,7)] h(1) assms(7,8) by auto
qed

fun deliver :: "'t list \<Rightarrow> 'i \<Rightarrow> 's \<Rightarrow> 's" where
  "deliver [] i s = s"
| "deliver (t # ts) i s = deliver ts i (snd (run t i s))"

text \<open>Any number of deliveries of one command leaves what the first success left.\<close>

lemma redelivery:
  assumes "inv s" and "admits t s" and "run t i s = (Ok r, s')"
  shows "deliver us i s' = s'"
proof (induction us)
  case Nil
  then show ?case by simp
next
  case (Cons u us)
  from retry_keeps [OF assms rtranclp.rtrancl_refl, of u] have "snd (run u i s') = s'" by auto
  with Cons.IH show ?case by simp
qed

end

text \<open>A command that fails leaves no trace, so it may be repeated until it succeeds.\<close>

locale atomic_command = idempotent_command +
  assumes fail_keeps: "run t i s = (Err e, s') \<Longrightarrow> s' = s"
begin

lemma failures_keep:
  assumes "\<forall>t \<in> set ts. \<exists>e. fst (run t i s) = Err e"
  shows "deliver ts i s = s"
  using assms
proof (induction ts)
  case (Cons t ts)
  then obtain e where "fst (run t i s) = Err e" by auto
  then have "snd (run t i s) = s" using fail_keeps [of t i s e "snd (run t i s)"] by (simp add: prod_eq_iff)
  with Cons show ?case by simp
qed simp

end

end
