(* ===== verification/Ledger_Store.thy ===== *)
theory Ledger_Store
  imports Ledger_Rules Idempotent_Command
begin

text \<open>
  The Ledger's store, after \<^verbatim>\<open>services/ledger/internal/ledger/memory_store.go\<close>. Every method
  holds the store's mutex from its first access to its return, so a method is a function of the
  state. The clock readings a method takes are its first argument. Where a method ranges over a
  map, the order the runtime chooses is an argument as well: a list of the map's keys.
\<close>

section \<open>State\<close>

text \<open>The dynamic type of \<^verbatim>\<open>idempotencyRecord.result\<close>.\<close>

datatype idem_result =
    ResReceiptId string
  | ResRetention retention_result
  | ResPolicy review_policy
  | ResReconciliation reconciliation_result

record idempotencyRecord =
  ir_payloadHash :: string
  ir_result :: idem_result

record ledger_store =
  ls_idempotency :: "string \<rightharpoonup> idempotencyRecord"
  ls_reconciliationIdempotency :: "string \<rightharpoonup> idempotencyRecord"
  ls_reviewPolicyIdempotency :: "string \<rightharpoonup> idempotencyRecord"
  ls_receipts :: "string \<rightharpoonup> receipt"
  ls_reviewPolicies :: "string \<rightharpoonup> review_policy"
  ls_nextID :: nat

definition NewMemoryStore :: ledger_store where
  "NewMemoryStore =
     \<lparr>ls_idempotency = Map.empty, ls_reconciliationIdempotency = Map.empty, ls_reviewPolicyIdempotency = Map.empty,
      ls_receipts = Map.empty, ls_reviewPolicies = Map.empty, ls_nextID = 0\<rparr>"

section \<open>Copies through JSON\<close>

definition clone_field :: "gomap option \<Rightarrow> gomap option option" where
  "clone_field m =
     (case m of None \<Rightarrow> Some None
      | Some kvs \<Rightarrow> (case json_norm (GObj kvs) of None \<Rightarrow> None | Some v \<Rightarrow> Some (as_obj v)))"

definition clone_retention :: "receipt_retention \<Rightarrow> receipt_retention option" where
  "clone_retention rt =
     (if (fst (rt_retainUntil rt) = 0 \<or> zoned_ok (rt_retainUntil rt)) \<and>
         (case rt_privacyRedaction rt of None \<Rightarrow> True | Some p \<Rightarrow> zoned_ok (pr_appliedAt p, 0))
      then Some (if fst (rt_retainUntil rt) = 0 then rt\<lparr>rt_retainUntil := (0, 0)\<rparr> else rt)
      else None)"

definition zero_retention :: receipt_retention where
  "zero_retention = \<lparr>rt_retainUntil = (0, 0), rt_legalHold = False, rt_privacyRedaction = None\<rparr>"

definition zero_receipt_input :: receipt_input where
  "zero_receipt_input =
     \<lparr>ri_type = [], ri_status = [], ri_surface = [], ri_accountId = [], ri_organizationId = [], ri_workspaceId = [],
      ri_projectId = [], ri_taskId = [], ri_requestId = [], ri_approvalId = [], ri_jobId = [], ri_artifactId = [],
      ri_reviewId = [], ri_continuationId = [], ri_actor = None, ri_plan = None, ri_execution = None,
      ri_environment = None, ri_inputRefs = None, ri_outputRefs = None, ri_reviewerChecks = None, ri_cost = None,
      ri_owner = None, ri_continuation = None, ri_supersedesReceiptId = [], ri_idempotencyKey = []\<rparr>"

definition mk_receipt :: "receipt_input \<Rightarrow> string \<Rightarrow> instant \<Rightarrow> receipt" where
  "mk_receipt i rid now =
     receipt_input.extend i
       (receipt.fields rid now zero_retention False)"

definition zero_receipt :: receipt where
  "zero_receipt = mk_receipt zero_receipt_input [] 0"

text \<open>What decoding the marshalled receipt gives, None when it does not marshal.\<close>

definition clone_receipt_opt :: "receipt \<Rightarrow> receipt option" where
  "clone_receipt_opt r = do {
     actor \<leftarrow> clone_field (ri_actor r); plan \<leftarrow> clone_field (ri_plan r); execution \<leftarrow> clone_field (ri_execution r);
     environment \<leftarrow> clone_field (ri_environment r); inputRefs \<leftarrow> clone_field (ri_inputRefs r);
     outputRefs \<leftarrow> clone_field (ri_outputRefs r); checks \<leftarrow> clone_field (ri_reviewerChecks r);
     cost \<leftarrow> clone_field (ri_cost r); owner \<leftarrow> clone_field (ri_owner r);
     continuation \<leftarrow> clone_field (ri_continuation r);
     created \<leftarrow> time_json (rc_createdAt r, 0); retention \<leftarrow> clone_retention (rc_retention r);
     Some (r\<lparr>ri_actor := actor, ri_plan := plan, ri_execution := execution, ri_environment := environment,
             ri_inputRefs := inputRefs, ri_outputRefs := outputRefs, ri_reviewerChecks := checks, ri_cost := cost,
             ri_owner := owner, ri_continuation := continuation, ri_idempotencyKey := [], rc_retention := retention\<rparr>)
   }"

text \<open>When marshalling fails nothing is decoded and the copy is the zero value.\<close>

definition clone_receipt :: "receipt \<Rightarrow> receipt" where
  "clone_receipt r = (case clone_receipt_opt r of None \<Rightarrow> zero_receipt | Some r' \<Rightarrow> r')"

definition clone_retention_result :: "retention_result \<Rightarrow> retention_result" where
  "clone_retention_result r =
     (case clone_retention (rr_retention r) of
        None \<Rightarrow> \<lparr>rr_receiptId = [], rr_retention = zero_retention, rr_replayed = False\<rparr>
      | Some rt \<Rightarrow> r\<lparr>rr_retention := rt\<rparr>)"

definition clone_report :: "gomap option \<Rightarrow> gomap option" where
  "clone_report m = (case clone_field m of None \<Rightarrow> None | Some m' \<Rightarrow> m')"

definition clone_reconciliation :: "reconciliation_result \<Rightarrow> reconciliation_result" where
  "clone_reconciliation r =
     (case (clone_field (rs_report r), time_json (rs_createdAt r, 0)) of
        (Some m, Some _) \<Rightarrow> r\<lparr>rs_report := m\<rparr>
      | _ \<Rightarrow> \<lparr>rs_id = [], rs_status = [], rs_report = None, rs_blockNewWorkspaces = False, rs_reason = [],
              rs_createdAt = 0, rs_replayed = False\<rparr>)"

section \<open>Receipts\<close>

text \<open>\<^verbatim>\<open>fmt.Sprintf("%s_%06d", prefix, n)\<close> for the incremented counter.\<close>

definition pad6 :: "nat \<Rightarrow> string" where
  "pad6 n = replicate (6 - length (show_nat n)) (CHR ''0'') @ show_nat n"

definition newID :: "string \<Rightarrow> ledger_store \<Rightarrow> string \<times> ledger_store" where
  "newID prefix s = (prefix @ ''_'' @ pad6 (Suc (ls_nextID s)), s\<lparr>ls_nextID := Suc (ls_nextID s)\<rparr>)"

definition hash_receipt_input :: "hashing \<Rightarrow> receipt_input \<Rightarrow> string option" where
  "hash_receipt_input hx i = hashJSON hx (GObj (receipt_input_json (i\<lparr>ri_idempotencyKey := []\<rparr>)))"

definition RecordReceipt ::
  "hashing \<Rightarrow> instant \<Rightarrow> receipt_input \<Rightarrow> ledger_store \<Rightarrow> (ledger_error, receipt) res \<times> ledger_store" where
  "RecordReceipt hx now i s =
     (case validateReceiptInput i of Some e \<Rightarrow> (Err e, s)
      | None \<Rightarrow>
     (case hash_receipt_input hx i of None \<Rightarrow> (Err ErrMarshal, s)
      | Some payloadHash \<Rightarrow>
     (case ls_idempotency s (ri_idempotencyKey i) of
        Some existing \<Rightarrow>
          if ir_payloadHash existing \<noteq> payloadHash then (Err ErrIdempotencyConflict, s)
          else (case ir_result existing of
                  ResReceiptId rid \<Rightarrow>
                    (case ls_receipts s rid of None \<Rightarrow> (Err ErrReceiptNotFound, s)
                     | Some r \<Rightarrow> (Ok ((clone_receipt r)\<lparr>rc_replayed := True\<rparr>), s))
                | _ \<Rightarrow> (Err PanicTypeAssertion, s))
      | None \<Rightarrow>
          let (rid, s) = newID ''receipt'' s;
              r = (mk_receipt i rid now)\<lparr>ri_idempotencyKey := []\<rparr>;
              r = clone_receipt (finalizeReceiptContinuation r);
              s = s\<lparr>ls_receipts := (ls_receipts s)(rc_receiptId r \<mapsto> r)\<rparr>;
              s = s\<lparr>ls_idempotency := (ls_idempotency s)
                      (ri_idempotencyKey i \<mapsto> \<lparr>ir_payloadHash = payloadHash, ir_result = ResReceiptId (rc_receiptId r)\<rparr>)\<rparr>
          in (Ok (clone_receipt r), s))))"

text \<open>The gate of an identity: the first active policy the range loop meets.\<close>

definition active_for :: "exec_identity \<Rightarrow> review_policy \<Rightarrow> bool" where
  "active_for ident p \<longleftrightarrow> po_status p = ''active'' \<and> sameExecutionIdentity (identity_of p) ident"

text \<open>The two orders of the range loops, over policies and over receipts.\<close>

type_synonym orders = "string list \<times> string list"

definition evaluateReviewGateLocked ::
  "orders \<Rightarrow> gate_input \<Rightarrow> ledger_store \<Rightarrow> (ledger_error, gate_result) res" where
  "evaluateReviewGateLocked ord i s =
     (if \<not> validExecutionIdentity (identity_of i) then Err ErrInvalidReviewGateInput
      else
        case find (active_for (identity_of i)) (range_values (fst ord) (ls_reviewPolicies s)) of
          None \<Rightarrow> Err ErrReviewPolicyNotFound
        | Some active \<Rightarrow>
            if po_policyId active = [] then Err ErrReviewPolicyNotFound
            else Ok (evaluateReviewGate active
                       (map reviewFromReceipt
                         (filter (\<lambda>r. ri_reviewId r \<in> set (gi_reviewIds i) \<and> ri_type r = reviewReceiptType)
                           (range_values (snd ord) (ls_receipts s))))))"

definition gate_input_of :: "exec_identity \<Rightarrow> string list \<Rightarrow> gate_input" where
  "gate_input_of ident ids = exec_identity.extend ident (gate_input.fields ids)"

definition receipt_gate :: "orders \<Rightarrow> receipt \<Rightarrow> ledger_store \<Rightarrow> (ledger_error, gate_result) res" where
  "receipt_gate ord r s =
     evaluateReviewGateLocked ord
       (gate_input_of (executionIdentityFromReceipt r) (stringSlice (mget (opt_map (ri_continuation r)) ''reviewIds''))) s"

definition Receipt :: "orders \<Rightarrow> string \<Rightarrow> ledger_store \<Rightarrow> (ledger_error, receipt) res" where
  "Receipt ord rid s =
     (case ls_receipts s rid of None \<Rightarrow> Err ErrReceiptNotFound
      | Some r \<Rightarrow> Ok (receiptForRead (clone_receipt r) (receipt_gate ord r s)))"

section \<open>Retention and privacy\<close>

definition retention_key :: "string \<Rightarrow> string" where "retention_key k = ''receipt-retention:'' @ k"
definition privacy_key :: "string \<Rightarrow> string" where "privacy_key k = ''receipt-privacy:'' @ k"

definition hash_retention_input :: "hashing \<Rightarrow> retention_input \<Rightarrow> string option" where
  "hash_retention_input hx i =
     (case time_json (rn_retainUntil i) of None \<Rightarrow> None
      | Some t \<Rightarrow> hashJSON hx (GObj [(''receiptId'', GStr (rn_receiptId i)), (''retainUntil'', t),
                                   (''legalHold'', GBool (rn_legalHold i))]))"

definition retention_input_ok :: "retention_input \<Rightarrow> bool" where
  "retention_input_ok i \<longleftrightarrow>
     \<not> (rn_receiptId i = [] \<or> rn_idempotencyKey i = [] \<or> (fst (rn_retainUntil i) = 0 \<and> \<not> rn_legalHold i))"

text \<open>What both commands do with a key that was seen before.\<close>

definition replay_retention :: "string \<Rightarrow> idempotencyRecord \<Rightarrow> (ledger_error, retention_result) res" where
  "replay_retention payloadHash existing =
     (if ir_payloadHash existing \<noteq> payloadHash then Err ErrIdempotencyConflict
      else case ir_result existing of
             ResRetention rr \<Rightarrow> Ok ((clone_retention_result rr)\<lparr>rr_replayed := True\<rparr>)
           | _ \<Rightarrow> Err PanicTypeAssertion)"

definition store_retention ::
  "string \<Rightarrow> string \<Rightarrow> string \<Rightarrow> receipt \<Rightarrow> ledger_store \<Rightarrow> (ledger_error, retention_result) res \<times> ledger_store" where
  "store_retention key payloadHash rid r s =
     (let r = clone_receipt r;
          s = s\<lparr>ls_receipts := (ls_receipts s)(rid \<mapsto> r)\<rparr>;
          rr = \<lparr>rr_receiptId = rc_receiptId r, rr_retention = rc_retention r, rr_replayed = False\<rparr>;
          s = s\<lparr>ls_idempotency := (ls_idempotency s)
                  (key \<mapsto> \<lparr>ir_payloadHash = payloadHash, ir_result = ResRetention (clone_retention_result rr)\<rparr>)\<rparr>
      in (Ok (clone_retention_result rr), s))"

definition UpdateReceiptRetention ::
  "hashing \<Rightarrow> retention_input \<Rightarrow> ledger_store \<Rightarrow> (ledger_error, retention_result) res \<times> ledger_store" where
  "UpdateReceiptRetention hx i s =
     (if \<not> retention_input_ok i then (Err ErrInvalidReceiptRetentionInput, s)
      else
     (case hash_retention_input hx i of None \<Rightarrow> (Err ErrMarshal, s)
      | Some payloadHash \<Rightarrow>
     (case ls_idempotency s (retention_key (rn_idempotencyKey i)) of
        Some existing \<Rightarrow> (replay_retention payloadHash existing, s)
      | None \<Rightarrow>
     (case ls_receipts s (rn_receiptId i) of None \<Rightarrow> (Err ErrReceiptNotFound, s)
      | Some r \<Rightarrow>
          let old = rt_retainUntil (rc_retention r); new = rn_retainUntil i
          in if fst new \<noteq> 0 \<and> fst old \<noteq> 0 \<and> fst new < fst old then (Err ErrReceiptRetentionShortening, s)
             else
               let rt = rc_retention r;
                   rt = (if fst new > fst old then rt\<lparr>rt_retainUntil := new\<rparr> else rt);
                   rt = rt\<lparr>rt_legalHold := rt_legalHold rt \<or> rn_legalHold i\<rparr>
               in store_retention (retention_key (rn_idempotencyKey i)) payloadHash (rn_receiptId i)
                    (r\<lparr>rc_retention := rt\<rparr>) s))))"

definition hash_privacy_input :: "hashing \<Rightarrow> privacy_input \<Rightarrow> string option" where
  "hash_privacy_input hx i =
     hashJSON hx (GObj [(''receiptId'', GStr (pd_receiptId i)), (''reason'', GStr (pd_reason i))])"

definition privacy_input_ok :: "privacy_input \<Rightarrow> bool" where
  "privacy_input_ok i \<longleftrightarrow> pd_receiptId i \<noteq> [] \<and> pd_reason i \<noteq> [] \<and> pd_idempotencyKey i \<noteq> []"

definition redact :: "instant \<Rightarrow> string \<Rightarrow> receipt \<Rightarrow> receipt" where
  "redact at reason r =
     (if rt_privacyRedaction (rc_retention r) = None then
        r\<lparr>ri_actor := None, ri_owner := None, ri_continuation := None,
          rc_retention := (rc_retention r)
            \<lparr>rt_privacyRedaction := Some \<lparr>pr_appliedAt = at, pr_reason = reason, pr_eligible = True\<rparr>\<rparr>\<rparr>
      else r)"

text \<open>The two clock readings: for the retention check, and for the evidence.\<close>

definition PrivacyDeleteReceipt ::
  "hashing \<Rightarrow> instant \<times> instant \<Rightarrow> privacy_input \<Rightarrow> ledger_store \<Rightarrow> (ledger_error, retention_result) res \<times> ledger_store" where
  "PrivacyDeleteReceipt hx now i s =
     (if \<not> privacy_input_ok i then (Err ErrInvalidReceiptRetentionInput, s)
      else
     (case hash_privacy_input hx i of None \<Rightarrow> (Err ErrMarshal, s)
      | Some payloadHash \<Rightarrow>
     (case ls_idempotency s (privacy_key (pd_idempotencyKey i)) of
        Some existing \<Rightarrow> (replay_retention payloadHash existing, s)
      | None \<Rightarrow>
     (case ls_receipts s (pd_receiptId i) of None \<Rightarrow> (Err ErrReceiptNotFound, s)
      | Some r \<Rightarrow>
          if rt_legalHold (rc_retention r) then (Err ErrReceiptLegalHold, s)
          else if fst (rt_retainUntil (rc_retention r)) > fst now then (Err ErrReceiptRetentionActive, s)
          else store_retention (privacy_key (pd_idempotencyKey i)) payloadHash (pd_receiptId i)
                 (redact (snd now) (pd_reason i) r) s))))"

section \<open>Copies of what is stored\<close>

text \<open>A receipt as the store holds it: reading it back through JSON changes nothing.\<close>

definition stored_form :: "receipt \<Rightarrow> bool" where
  "stored_form r \<longleftrightarrow> clone_receipt_opt r = Some r"

lemma clone_stored: "stored_form r \<Longrightarrow> clone_receipt r = r"
  by (simp add: stored_form_def clone_receipt_def)

lemma clone_field_Some:
  "clone_field (Some kvs) = Some m' \<longleftrightarrow> (\<exists>kvs'. json_norm (GObj kvs) = Some (GObj kvs') \<and> m' = Some kvs')"
  by (cases "json_norm_kvs kvs") (auto simp: clone_field_def)

lemma clone_field_eq_None: "clone_field m = None \<longleftrightarrow> m \<noteq> None \<and> json_norm_kvs (opt_map m) = None"
proof (cases m)
  case (Some kvs)
  then show ?thesis by (cases "json_norm_kvs kvs") (simp_all add: clone_field_def)
qed (simp add: clone_field_def)

lemma clone_field_idem: "clone_field m = Some m' \<Longrightarrow> clone_field m' = Some m'"
  by (cases m) (auto simp: clone_field_def [of None] clone_field_Some dest: json_norm_idem simp del: json_norm.simps)

lemma clone_field_None [simp]: "clone_field None = Some None"
  by (simp add: clone_field_def)

lemma clone_retention_idem: "clone_retention rt = Some rt' \<Longrightarrow> clone_retention rt' = Some rt'"
  by (auto simp: clone_retention_def split: if_splits)

lemma clone_receipt_opt_stored: "clone_receipt_opt r = Some r' \<Longrightarrow> stored_form r'"
  unfolding clone_receipt_opt_def stored_form_def
  by (auto simp: bind_eq_Some_conv clone_field_idem clone_retention_idem)

text \<open>Every field but the ones JSON normalises is copied as it is.\<close>

lemma clone_receipt_opt_fields:
  assumes "clone_receipt_opt r = Some r'"
  shows "ri_type r' = ri_type r" "ri_status r' = ri_status r" "ri_surface r' = ri_surface r"
    "ri_accountId r' = ri_accountId r" "ri_organizationId r' = ri_organizationId r"
    "ri_workspaceId r' = ri_workspaceId r" "ri_projectId r' = ri_projectId r" "ri_taskId r' = ri_taskId r"
    "ri_requestId r' = ri_requestId r" "ri_approvalId r' = ri_approvalId r" "ri_jobId r' = ri_jobId r"
    "ri_artifactId r' = ri_artifactId r" "ri_reviewId r' = ri_reviewId r" "ri_continuationId r' = ri_continuationId r"
    "ri_supersedesReceiptId r' = ri_supersedesReceiptId r" "ri_idempotencyKey r' = []"
    "rc_receiptId r' = rc_receiptId r" "rc_createdAt r' = rc_createdAt r" "rc_replayed r' = rc_replayed r"
    "clone_field (ri_actor r) = Some (ri_actor r')" "clone_field (ri_plan r) = Some (ri_plan r')"
    "clone_field (ri_execution r) = Some (ri_execution r')" "clone_field (ri_environment r) = Some (ri_environment r')"
    "clone_field (ri_inputRefs r) = Some (ri_inputRefs r')" "clone_field (ri_outputRefs r) = Some (ri_outputRefs r')"
    "clone_field (ri_reviewerChecks r) = Some (ri_reviewerChecks r')" "clone_field (ri_cost r) = Some (ri_cost r')"
    "clone_field (ri_owner r) = Some (ri_owner r')" "clone_field (ri_continuation r) = Some (ri_continuation r')"
    "clone_retention (rc_retention r) = Some (rc_retention r')"
  using assms by (auto simp: clone_receipt_opt_def bind_eq_Some_conv)

lemma stored_form_iff:
  "stored_form r \<longleftrightarrow>
     list_all (\<lambda>m. clone_field m = Some m)
       [ri_actor r, ri_plan r, ri_execution r, ri_environment r, ri_inputRefs r, ri_outputRefs r, ri_reviewerChecks r,
        ri_cost r, ri_owner r, ri_continuation r] \<and>
     ri_idempotencyKey r = [] \<and> zoned_ok (rc_createdAt r, 0) \<and> clone_retention (rc_retention r) = Some (rc_retention r)"
proof
  assume "stored_form r"
  from clone_receipt_opt_fields [OF this [unfolded stored_form_def]] this
  show "list_all (\<lambda>m. clone_field m = Some m)
       [ri_actor r, ri_plan r, ri_execution r, ri_environment r, ri_inputRefs r, ri_outputRefs r, ri_reviewerChecks r,
        ri_cost r, ri_owner r, ri_continuation r] \<and>
     ri_idempotencyKey r = [] \<and> zoned_ok (rc_createdAt r, 0) \<and> clone_retention (rc_retention r) = Some (rc_retention r)"
    by (auto simp: stored_form_def clone_receipt_opt_def bind_eq_Some_conv time_json_def split: if_splits)
next
  assume a: "list_all (\<lambda>m. clone_field m = Some m)
       [ri_actor r, ri_plan r, ri_execution r, ri_environment r, ri_inputRefs r, ri_outputRefs r, ri_reviewerChecks r,
        ri_cost r, ri_owner r, ri_continuation r] \<and>
     ri_idempotencyKey r = [] \<and> zoned_ok (rc_createdAt r, 0) \<and> clone_retention (rc_retention r) = Some (rc_retention r)"
  then show "stored_form r"
    by (simp add: stored_form_def clone_receipt_opt_def time_json_def)
qed

end
