(* ===== verification/Ledger_Evidence.thy ===== *)
theory Ledger_Evidence
  imports Ledger_Store
begin

text \<open>
  The commands and queries of the Ledger's store that build on receipts: pages of receipts,
  continuations behind the review gate, artifacts, reviews, review policies and reconciliations,
  after \<^verbatim>\<open>services/ledger/internal/ledger/memory_store.go\<close>.
\<close>

section \<open>Pages of receipts, newest first\<close>

text \<open>The position of a receipt in a listing. The smaller position is the newer receipt; receipts
  of one instant are ordered by descending identifier.\<close>

datatype receipt_pos = Pos (pos_at: instant) (pos_id: string)

instantiation receipt_pos :: linorder
begin

definition less_eq_receipt_pos :: "receipt_pos \<Rightarrow> receipt_pos \<Rightarrow> bool" where
  "less_eq_receipt_pos a b \<longleftrightarrow> pos_at a > pos_at b \<or> pos_at a = pos_at b \<and> pos_id a \<ge> pos_id b"

definition less_receipt_pos :: "receipt_pos \<Rightarrow> receipt_pos \<Rightarrow> bool" where
  "less_receipt_pos a b \<longleftrightarrow> pos_at a > pos_at b \<or> pos_at a = pos_at b \<and> pos_id a > pos_id b"

instance
  by standard (auto simp: less_eq_receipt_pos_def less_receipt_pos_def receipt_pos.expand)

end

definition receipt_pos_of :: "receipt \<Rightarrow> receipt_pos" where
  "receipt_pos_of r = Pos (rc_createdAt r) (rc_receiptId r)"

definition query_field :: "string \<Rightarrow> string \<Rightarrow> bool" where
  "query_field want have \<longleftrightarrow> want = [] \<or> have = want"

definition query_matches :: "receipt_query \<Rightarrow> receipt \<Rightarrow> bool" where
  "query_matches q r \<longleftrightarrow>
     query_field (q_accountId q) (ri_accountId r) \<and> query_field (q_organizationId q) (ri_organizationId r) \<and>
     query_field (q_workspaceId q) (ri_workspaceId r) \<and> query_field (q_projectId q) (ri_projectId r) \<and>
     query_field (q_taskId q) (ri_taskId r) \<and> query_field (q_jobId q) (ri_jobId r) \<and>
     query_field (q_type q) (ri_type r) \<and> query_field (q_status q) (ri_status r)"

definition after_cursor :: "receipt_cursor \<Rightarrow> receipt \<Rightarrow> bool" where
  "after_cursor c r \<longleftrightarrow>
     cu_createdAt c = 0 \<or>
     \<not> (rc_createdAt r > cu_createdAt c \<or> rc_createdAt r = cu_createdAt c \<and> rc_receiptId r \<ge> cu_receiptId c)"

definition ListReceipts ::
  "cursor_json \<Rightarrow> orders \<Rightarrow> receipt_query \<Rightarrow> ledger_store \<Rightarrow> (ledger_error, receipt_page) res" where
  "ListReceipts cj ord q s =
     (case normalizeReceiptQuery cj q of Inl e \<Rightarrow> Err e
      | Inr (q, cursor) \<Rightarrow>
          let rs = map (\<lambda>r. receiptForRead (clone_receipt r) (receipt_gate ord r s))
                     (filter (\<lambda>r. query_matches q r \<and> after_cursor cursor r) (range_values (snd ord) (ls_receipts s)));
              rs = sort_key receipt_pos_of rs;
              hasMore = (int (length rs) > q_limit q);
              rs = (if hasMore then take (nat (q_limit q)) rs else rs)
          in Ok \<lparr>pg_receipts = rs, pg_nextCursor = (if hasMore then encodeReceiptCursor cj (last rs) else []),
                 pg_hasMore = hasMore\<rparr>)"

section \<open>Continuations\<close>

definition Continuation :: "orders \<Rightarrow> string \<Rightarrow> ledger_store \<Rightarrow> (ledger_error, gomap) res" where
  "Continuation ord rid s =
     (case ls_receipts s rid of None \<Rightarrow> Err ErrReceiptNotFound
      | Some r \<Rightarrow>
     (case continuationFromReceipt r of Inl e \<Rightarrow> Err e
      | Inr c \<Rightarrow>
          let ident = executionIdentityFromReceipt r
          in if \<not> validExecutionIdentity ident then Err ErrContinuationIneligible
             else (case evaluateReviewGateLocked ord (gate_input_of ident (stringSlice (mget c ''reviewIds''))) s of
                     Inl e \<Rightarrow> Err (if e = ErrReviewPolicyNotFound then ErrContinuationIneligible else e)
                   | Inr g \<Rightarrow> if \<not> gr_continuationEligible g then Err ErrContinuationIneligible else Ok c)))"

section \<open>Artifacts and reviews\<close>

definition artifact_receipt_input :: "hashing \<Rightarrow> artifact_input \<Rightarrow> receipt_input" where
  "artifact_receipt_input hx i =
     zero_receipt_input
       \<lparr>ri_type := artifactReceiptType, ri_status := ''completed'', ri_surface := ''ledger'',
        ri_organizationId := ai_organizationId i, ri_workspaceId := ai_workspaceId i, ri_projectId := ai_projectId i,
        ri_taskId := ai_taskId i, ri_jobId := ai_jobId i,
        ri_artifactId := evidenceID hx ''artifact'' (ai_idempotencyKey i),
        ri_outputRefs := Some [(''digest'', GStr (ai_digest i)), (''mediaType'', GStr (ai_mediaType i)),
                               (''sizeBytes'', GInt (ai_sizeBytes i)), (''storageRef'', GStr (ai_storageRef i))],
        ri_idempotencyKey := ai_idempotencyKey i\<rparr>"

definition RecordArtifact ::
  "hashing \<Rightarrow> instant \<Rightarrow> artifact_input \<Rightarrow> ledger_store \<Rightarrow> (ledger_error, artifact) res \<times> ledger_store" where
  "RecordArtifact hx now i s =
     (case validateArtifactInput i of Some e \<Rightarrow> (Err e, s)
      | None \<Rightarrow>
          (case RecordReceipt hx now (artifact_receipt_input hx i) s of
             (Inl e, s) \<Rightarrow> (Err e, s)
           | (Inr r, s) \<Rightarrow> (Ok (artifactFromReceipt r), s)))"

definition Artifact :: "orders \<Rightarrow> string \<Rightarrow> ledger_store \<Rightarrow> (ledger_error, artifact) res" where
  "Artifact ord aid s =
     (case find (\<lambda>r. ri_type r = artifactReceiptType \<and> ri_artifactId r = aid) (range_values (snd ord) (ls_receipts s)) of
        None \<Rightarrow> Err ErrArtifactNotFound | Some r \<Rightarrow> Ok (artifactFromReceipt r))"

definition review_receipt_input :: "hashing \<Rightarrow> review_input \<Rightarrow> receipt_input" where
  "review_receipt_input hx i =
     zero_receipt_input
       \<lparr>ri_type := reviewReceiptType, ri_status := reviewReceiptStatus (vi_decision i), ri_surface := ''ledger'',
        ri_organizationId := vi_organizationId i, ri_workspaceId := vi_workspaceId i, ri_projectId := vi_projectId i,
        ri_taskId := vi_taskId i, ri_jobId := vi_jobId i,
        ri_reviewId := evidenceID hx ''review'' (vi_idempotencyKey i),
        ri_reviewerChecks := Some [(''reviewerRef'', GStr (vi_reviewerRef i)), (''reviewerVersion'', GStr (vi_reviewerVersion i)),
                                   (''inputArtifactDigests'', GStrs (vi_inputArtifactDigests i)),
                                   (''checks'', field_json (vi_checks i)), (''decision'', GStr (vi_decision i))],
        ri_idempotencyKey := vi_idempotencyKey i\<rparr>"

definition RecordReview ::
  "hashing \<Rightarrow> instant \<Rightarrow> review_input \<Rightarrow> ledger_store \<Rightarrow> (ledger_error, review) res \<times> ledger_store" where
  "RecordReview hx now i s =
     (case validateReviewInput i of Some e \<Rightarrow> (Err e, s)
      | None \<Rightarrow>
          (case RecordReceipt hx now (review_receipt_input hx i) s of
             (Inl e, s) \<Rightarrow> (Err e, s)
           | (Inr r, s) \<Rightarrow> (Ok (reviewFromReceipt r), s)))"

definition Review :: "orders \<Rightarrow> string \<Rightarrow> ledger_store \<Rightarrow> (ledger_error, review) res" where
  "Review ord vid s =
     (case find (\<lambda>r. ri_type r = reviewReceiptType \<and> ri_reviewId r = vid) (range_values (snd ord) (ls_receipts s)) of
        None \<Rightarrow> Err ErrReviewNotFound | Some r \<Rightarrow> Ok (reviewFromReceipt r))"

section \<open>Review policies\<close>

definition policy_input_json :: "policy_input \<Rightarrow> gomap" where
  "policy_input_json i =
     [(''organizationId'', GStr (ei_organizationId i)), (''workspaceId'', GStr (ei_workspaceId i)),
      (''projectId'', GStr (ei_projectId i)), (''taskId'', GStr (ei_taskId i)), (''jobId'', GStr (ei_jobId i)),
      (''version'', GStr (pi_version i)),
      (''requiredReviewers'', GList (map (\<lambda>r. GObj [(''reviewerRef'', GStr (rq_reviewerRef r)),
                                                  (''reviewerVersion'', GStr (rq_reviewerVersion r))])
                                       (pi_requiredReviewers i)))] @
     (if pi_supersedesPolicyId i = [] then [] else [(''supersedesPolicyId'', GStr (pi_supersedesPolicyId i))])"

definition hash_policy_input :: "hashing \<Rightarrow> policy_input \<Rightarrow> string option" where
  "hash_policy_input hx i = hashJSON hx (GObj (policy_input_json i))"

definition mk_policy :: "hashing \<Rightarrow> policy_input \<Rightarrow> instant \<Rightarrow> review_policy" where
  "mk_policy hx i now =
     policy_input.extend (i\<lparr>pi_idempotencyKey := []\<rparr>)
       (review_policy.fields (evidenceID hx ''review-policy'' (pi_idempotencyKey i)) ''active'' now False)"

definition store_policy ::
  "hashing \<Rightarrow> instant \<Rightarrow> string \<Rightarrow> policy_input \<Rightarrow> ledger_store \<Rightarrow> (ledger_error, review_policy) res \<times> ledger_store" where
  "store_policy hx now payloadHash i s =
     (let p = mk_policy hx i now;
          m = (ls_reviewPolicies s)(po_policyId p \<mapsto> p);
          m = (if pi_supersedesPolicyId i \<noteq> [] then
                 (case m (pi_supersedesPolicyId i) of
                    Some previous \<Rightarrow> m(po_policyId previous \<mapsto> previous\<lparr>po_status := ''superseded''\<rparr>)
                  | None \<Rightarrow> m)
               else m)
      in (Ok p, s\<lparr>ls_reviewPolicies := m,
                  ls_reviewPolicyIdempotency := (ls_reviewPolicyIdempotency s)
                    (pi_idempotencyKey i \<mapsto> \<lparr>ir_payloadHash = payloadHash, ir_result = ResPolicy p\<rparr>)\<rparr>))"

text \<open>Why a new policy is refused: what it supersedes, or the active policy it would shadow.\<close>

definition policy_obstacle :: "string list \<Rightarrow> policy_input \<Rightarrow> ledger_store \<Rightarrow> ledger_error option" where
  "policy_obstacle ord i s =
     (if pi_supersedesPolicyId i \<noteq> [] then
        (case ls_reviewPolicies s (pi_supersedesPolicyId i) of
           None \<Rightarrow> Some ErrReviewPolicyNotFound
         | Some previous \<Rightarrow>
             if po_status previous \<noteq> ''active'' \<or> \<not> sameExecutionIdentity (identity_of previous) (identity_of i) \<or>
                pi_version previous = pi_version i
             then Some ErrInvalidReviewPolicyInput else None)
      else if list_ex (active_for (identity_of i)) (range_values ord (ls_reviewPolicies s))
           then Some ErrInvalidReviewPolicyInput else None)"

definition CreateReviewPolicy ::
  "hashing \<Rightarrow> instant \<times> string list \<Rightarrow> policy_input \<Rightarrow> ledger_store \<Rightarrow> (ledger_error, review_policy) res \<times> ledger_store" where
  "CreateReviewPolicy hx env i s =
     (case validateReviewPolicyInput i of Some e \<Rightarrow> (Err e, s)
      | None \<Rightarrow>
     (case hash_policy_input hx i of None \<Rightarrow> (Err ErrMarshal, s)
      | Some payloadHash \<Rightarrow>
     (case ls_reviewPolicyIdempotency s (pi_idempotencyKey i) of
        Some existing \<Rightarrow>
          if ir_payloadHash existing \<noteq> payloadHash then (Err ErrIdempotencyConflict, s)
          else (case ir_result existing of
                  ResPolicy p \<Rightarrow>
                    let p = (case ls_reviewPolicies s (po_policyId p) of Some current \<Rightarrow> current | None \<Rightarrow> p)
                    in (Ok (p\<lparr>po_replayed := True\<rparr>), s)
                | _ \<Rightarrow> (Err ErrIdempotencyConflict, s))
      | None \<Rightarrow>
          (case policy_obstacle (snd env) i s of Some e \<Rightarrow> (Err e, s)
           | None \<Rightarrow> store_policy hx (fst env) payloadHash i s))))"

definition ReviewPolicy :: "string \<Rightarrow> ledger_store \<Rightarrow> (ledger_error, review_policy) res" where
  "ReviewPolicy pid s =
     (case ls_reviewPolicies s pid of None \<Rightarrow> Err ErrReviewPolicyNotFound | Some p \<Rightarrow> Ok p)"

definition ListReviewPolicies :: "string list \<Rightarrow> policy_query \<Rightarrow> ledger_store \<Rightarrow> review_policy list" where
  "ListReviewPolicies ord q s =
     sort_key (\<lambda>p. Pos (po_createdAt p) (po_policyId p))
       (filter (\<lambda>p. query_field (ei_organizationId q) (ei_organizationId p) \<and>
                    query_field (ei_workspaceId q) (ei_workspaceId p) \<and> query_field (ei_projectId q) (ei_projectId p) \<and>
                    query_field (ei_taskId q) (ei_taskId p) \<and> query_field (ei_jobId q) (ei_jobId p) \<and>
                    query_field (pq_status q) (po_status p))
          (range_values ord (ls_reviewPolicies s)))"

definition EvaluateReviewGate :: "orders \<Rightarrow> gate_input \<Rightarrow> ledger_store \<Rightarrow> (ledger_error, gate_result) res" where
  "EvaluateReviewGate ord i s = evaluateReviewGateLocked ord i s"

section \<open>Reconciliations\<close>

definition mk_reconciliation :: "reconciliation_input \<Rightarrow> instant \<Rightarrow> reconciliation_result" where
  "mk_reconciliation i now =
     (let rid = str_of (mget (opt_map (rx_report i)) ''id''); status = str_of (mget (opt_map (rx_report i)) ''status'')
      in \<lparr>rs_id = rid, rs_status = status, rs_report = clone_report (rx_report i),
          rs_blockNewWorkspaces = (status = ''mismatch''), rs_reason = ''operator_reconciliation'',
          rs_createdAt = now, rs_replayed = False\<rparr>)"

definition RecordReconciliation ::
  "hashing \<Rightarrow> instant \<Rightarrow> reconciliation_input \<Rightarrow> ledger_store \<Rightarrow> (ledger_error, reconciliation_result) res \<times> ledger_store" where
  "RecordReconciliation hx now i s =
     (case validateReconciliationInput i of Some e \<Rightarrow> (Err e, s)
      | None \<Rightarrow>
     (case hashJSON hx (field_json (rx_report i)) of None \<Rightarrow> (Err ErrMarshal, s)
      | Some payloadHash \<Rightarrow>
     (case ls_reconciliationIdempotency s (rx_idempotencyKey i) of
        Some existing \<Rightarrow>
          if ir_payloadHash existing \<noteq> payloadHash then (Err ErrIdempotencyConflict, s)
          else (case ir_result existing of
                  ResReconciliation rs \<Rightarrow>
                    if validateReconciliationResult rs \<noteq> None then (Err ErrInvalidReconciliationInput, s)
                    else (Ok ((clone_reconciliation rs)\<lparr>rs_replayed := True\<rparr>), s)
                | _ \<Rightarrow> (Err ErrInvalidReconciliationInput, s))
      | None \<Rightarrow>
          let rs = mk_reconciliation i now
          in (Ok (clone_reconciliation rs),
              s\<lparr>ls_reconciliationIdempotency := (ls_reconciliationIdempotency s)
                  (rx_idempotencyKey i \<mapsto> \<lparr>ir_payloadHash = payloadHash,
                     ir_result = ResReconciliation (clone_reconciliation rs)\<rparr>)\<rparr>))))"

end
