(* ===== verification/Ledger_Invariant.thy ===== *)
theory Ledger_Invariant
  imports Ledger_Evidence
begin

text \<open>
  The transitions of the Ledger's store, the well-formedness every transition keeps, and what
  each command does on success.
\<close>

section \<open>Transitions\<close>

text \<open>A clock reading: later than the zero time, and one the JSON encoder can print.\<close>

definition clock_ok :: "instant \<Rightarrow> bool" where
  "clock_ok t \<longleftrightarrow> 0 < t \<and> zoned_ok (t, 0)"

inductive ledger_step :: "hashing \<Rightarrow> ledger_store \<Rightarrow> ledger_store \<Rightarrow> bool" for hx where
  receipt: "clock_ok now \<Longrightarrow> RecordReceipt hx now i s = (x, s') \<Longrightarrow> ledger_step hx s s'"
| retention: "UpdateReceiptRetention hx i s = (x, s') \<Longrightarrow> ledger_step hx s s'"
| privacy: "clock_ok (snd now) \<Longrightarrow> PrivacyDeleteReceipt hx now i s = (x, s') \<Longrightarrow> ledger_step hx s s'"
| artifact: "clock_ok now \<Longrightarrow> RecordArtifact hx now i s = (x, s') \<Longrightarrow> ledger_step hx s s'"
| review: "clock_ok now \<Longrightarrow> RecordReview hx now i s = (x, s') \<Longrightarrow> ledger_step hx s s'"
| policy: "range_order (snd env) (ls_reviewPolicies s) \<Longrightarrow> CreateReviewPolicy hx env i s = (x, s') \<Longrightarrow> ledger_step hx s s'"
| reconciliation: "clock_ok now \<Longrightarrow> RecordReconciliation hx now i s = (x, s') \<Longrightarrow> ledger_step hx s s'"

definition ledger_reachable :: "hashing \<Rightarrow> ledger_store \<Rightarrow> bool" where
  "ledger_reachable hx s \<longleftrightarrow> (ledger_step hx)\<^sup>*\<^sup>* NewMemoryStore s"

text \<open>The commands change the store through three primitives only.\<close>

lemma RecordArtifact_state: "\<exists>j. snd (RecordArtifact hx now i s) = snd (RecordReceipt hx now j s) \<or> snd (RecordArtifact hx now i s) = s"
  by (cases "RecordReceipt hx now (artifact_receipt_input hx i) s")
    (auto simp: RecordArtifact_def split: option.splits sum.splits intro!: exI [of _ "artifact_receipt_input hx i"])

lemma RecordReview_state: "\<exists>j. snd (RecordReview hx now i s) = snd (RecordReceipt hx now j s) \<or> snd (RecordReview hx now i s) = s"
  by (cases "RecordReceipt hx now (review_receipt_input hx i) s")
    (auto simp: RecordReview_def split: option.splits sum.splits intro!: exI [of _ "review_receipt_input hx i"])

section \<open>Recording a receipt\<close>

definition receipt_id :: "nat \<Rightarrow> string" where
  "receipt_id n = ''receipt_'' @ pad6 n"

lemma read_nat_zeros: "read_nat (replicate k (CHR ''0'') @ s) = read_nat s"
proof (induction k)
  case (Suc k)
  have "read_nat (CHR ''0'' # t) = read_nat t" for t
    by (simp add: read_nat_def digit_val_def)
  with Suc show ?case by simp
qed simp

lemma receipt_id_inj: "receipt_id m = receipt_id n \<Longrightarrow> m = n"
  by (simp add: receipt_id_def pad6_def) (metis read_nat_zeros read_show_nat)

definition new_receipt :: "instant \<Rightarrow> receipt_input \<Rightarrow> ledger_store \<Rightarrow> receipt" where
  "new_receipt now i s =
     finalizeReceiptContinuation ((mk_receipt i (receipt_id (Suc (ls_nextID s))) now)\<lparr>ri_idempotencyKey := []\<rparr>)"

definition add_receipt :: "string \<Rightarrow> string \<Rightarrow> receipt \<Rightarrow> ledger_store \<Rightarrow> ledger_store" where
  "add_receipt key h r s =
     s\<lparr>ls_nextID := Suc (ls_nextID s), ls_receipts := (ls_receipts s)(rc_receiptId r \<mapsto> r),
       ls_idempotency := (ls_idempotency s)(key \<mapsto> \<lparr>ir_payloadHash = h, ir_result = ResReceiptId (rc_receiptId r)\<rparr>)\<rparr>"

lemma newID_receipt: "newID ''receipt'' s = (receipt_id (Suc (ls_nextID s)), s\<lparr>ls_nextID := Suc (ls_nextID s)\<rparr>)"
  by (simp add: newID_def receipt_id_def)

lemma RecordReceipt_new:
  assumes "validateReceiptInput i = None" "hash_receipt_input hx i = Some h" "ls_idempotency s (ri_idempotencyKey i) = None"
  shows "RecordReceipt hx now i s =
    (Ok (clone_receipt (clone_receipt (new_receipt now i s))),
     add_receipt (ri_idempotencyKey i) h (clone_receipt (new_receipt now i s)) s)"
  using assms by (simp add: RecordReceipt_def newID_receipt new_receipt_def add_receipt_def Let_def)

lemma RecordReceipt_Err: "RecordReceipt hx now i s = (Err e, s') \<Longrightarrow> s' = s"
  by (auto simp: RecordReceipt_def Let_def split: option.splits if_splits idem_result.splits prod.splits)

lemma RecordReceipt_OkE:
  assumes "RecordReceipt hx now i s = (Ok r, s')"
  obtains h rid r0 where "validateReceiptInput i = None" "hash_receipt_input hx i = Some h"
      "ls_idempotency s (ri_idempotencyKey i) = Some \<lparr>ir_payloadHash = h, ir_result = ResReceiptId rid\<rparr>"
      "ls_receipts s rid = Some r0" "r = (clone_receipt r0)\<lparr>rc_replayed := True\<rparr>" "s' = s"
  | h where "validateReceiptInput i = None" "hash_receipt_input hx i = Some h"
      "ls_idempotency s (ri_idempotencyKey i) = None" "r = clone_receipt (clone_receipt (new_receipt now i s))"
      "s' = add_receipt (ri_idempotencyKey i) h (clone_receipt (new_receipt now i s)) s"
proof -
  obtain h where v: "validateReceiptInput i = None" "hash_receipt_input hx i = Some h"
    using assms by (auto simp: RecordReceipt_def split: option.splits)
  show ?thesis
  proof (cases "ls_idempotency s (ri_idempotencyKey i)")
    case None
    with v assms RecordReceipt_new [OF v None] that(2) show ?thesis by simp
  next
    case (Some rec)
    from v Some assms have e: "ir_payloadHash rec = h"
      by (simp add: RecordReceipt_def split: if_splits)
    with v Some assms obtain rid where rid: "ir_result rec = ResReceiptId rid"
      by (cases "ir_result rec") (simp_all add: RecordReceipt_def)
    with e v Some assms obtain r0 where r0: "ls_receipts s rid = Some r0"
      by (cases "ls_receipts s rid") (simp_all add: RecordReceipt_def)
    with rid e v Some assms have "r = (clone_receipt r0)\<lparr>rc_replayed := True\<rparr>" "s' = s"
      by (simp_all add: RecordReceipt_def)
    note rid e r0 this
    moreover from this have "rec = \<lparr>ir_payloadHash = h, ir_result = ResReceiptId rid\<rparr>" by (cases rec) simp
    ultimately show ?thesis using that(1) v Some by simp
  qed
qed

text \<open>A payload that could be hashed can be copied.\<close>

lemma clone_field_defined: "json_norm (field_json m) \<noteq> None \<Longrightarrow> clone_field m \<noteq> None"
  by (cases m) (auto simp: field_json_def clone_field_eq_None)

lemma clone_field_mset_key:
  assumes "clone_field m \<noteq> None"
  shows "clone_field (Some (mset_key k (GStr v) (opt_map m))) \<noteq> None"
proof -
  have "json_norm_kvs (opt_map m) \<noteq> None" using assms by (cases m) (auto simp: clone_field_eq_None)
  then have "json_norm_kvs (mset_key k (GStr v) (opt_map m)) \<noteq> None"
    unfolding json_norm_kvs_defined by (auto simp: mset_key_def)
  then show ?thesis by (simp add: clone_field_eq_None)
qed

lemma hashed_fields:
  assumes "hash_receipt_input hx i = Some h"
  shows "list_all (\<lambda>m. clone_field m \<noteq> None)
    [ri_actor i, ri_plan i, ri_execution i, ri_environment i, ri_inputRefs i, ri_outputRefs i, ri_reviewerChecks i,
     ri_cost i, ri_owner i, ri_continuation i]"
proof -
  have "json_norm_kvs (receipt_input_json (i\<lparr>ri_idempotencyKey := []\<rparr>)) \<noteq> None"
    using assms by (auto simp: hash_receipt_input_def hashJSON_def)
  then have "list_all (\<lambda>m. json_norm (field_json m) \<noteq> None)
    [ri_actor i, ri_plan i, ri_execution i, ri_environment i, ri_inputRefs i, ri_outputRefs i, ri_reviewerChecks i,
     ri_cost i, ri_owner i, ri_continuation i]"
    unfolding json_norm_kvs_defined receipt_input_json_def by simp
  then show ?thesis by (simp only: list.pred_inject clone_field_defined simp_thms)
qed

lemma mk_receipt_fields [simp]:
  "ri_type (mk_receipt i rid now) = ri_type i" "ri_status (mk_receipt i rid now) = ri_status i"
  "ri_surface (mk_receipt i rid now) = ri_surface i" "ri_accountId (mk_receipt i rid now) = ri_accountId i"
  "ri_organizationId (mk_receipt i rid now) = ri_organizationId i" "ri_workspaceId (mk_receipt i rid now) = ri_workspaceId i"
  "ri_projectId (mk_receipt i rid now) = ri_projectId i" "ri_taskId (mk_receipt i rid now) = ri_taskId i"
  "ri_requestId (mk_receipt i rid now) = ri_requestId i" "ri_approvalId (mk_receipt i rid now) = ri_approvalId i"
  "ri_jobId (mk_receipt i rid now) = ri_jobId i" "ri_artifactId (mk_receipt i rid now) = ri_artifactId i"
  "ri_reviewId (mk_receipt i rid now) = ri_reviewId i" "ri_continuationId (mk_receipt i rid now) = ri_continuationId i"
  "ri_actor (mk_receipt i rid now) = ri_actor i" "ri_plan (mk_receipt i rid now) = ri_plan i"
  "ri_execution (mk_receipt i rid now) = ri_execution i" "ri_environment (mk_receipt i rid now) = ri_environment i"
  "ri_inputRefs (mk_receipt i rid now) = ri_inputRefs i" "ri_outputRefs (mk_receipt i rid now) = ri_outputRefs i"
  "ri_reviewerChecks (mk_receipt i rid now) = ri_reviewerChecks i" "ri_cost (mk_receipt i rid now) = ri_cost i"
  "ri_owner (mk_receipt i rid now) = ri_owner i" "ri_continuation (mk_receipt i rid now) = ri_continuation i"
  "ri_supersedesReceiptId (mk_receipt i rid now) = ri_supersedesReceiptId i"
  "rc_receiptId (mk_receipt i rid now) = rid" "rc_createdAt (mk_receipt i rid now) = now"
  "rc_retention (mk_receipt i rid now) = zero_retention" "rc_replayed (mk_receipt i rid now) = False"
  by (simp_all add: mk_receipt_def receipt_input.defs receipt.defs)

lemma finalize_fields [simp]:
  "ri_type (finalizeReceiptContinuation r) = ri_type r" "ri_status (finalizeReceiptContinuation r) = ri_status r"
  "ri_surface (finalizeReceiptContinuation r) = ri_surface r" "ri_accountId (finalizeReceiptContinuation r) = ri_accountId r"
  "ri_organizationId (finalizeReceiptContinuation r) = ri_organizationId r"
  "ri_workspaceId (finalizeReceiptContinuation r) = ri_workspaceId r"
  "ri_projectId (finalizeReceiptContinuation r) = ri_projectId r" "ri_taskId (finalizeReceiptContinuation r) = ri_taskId r"
  "ri_requestId (finalizeReceiptContinuation r) = ri_requestId r"
  "ri_jobId (finalizeReceiptContinuation r) = ri_jobId r" "ri_artifactId (finalizeReceiptContinuation r) = ri_artifactId r"
  "ri_reviewId (finalizeReceiptContinuation r) = ri_reviewId r" "ri_actor (finalizeReceiptContinuation r) = ri_actor r"
  "ri_plan (finalizeReceiptContinuation r) = ri_plan r" "ri_execution (finalizeReceiptContinuation r) = ri_execution r"
  "ri_environment (finalizeReceiptContinuation r) = ri_environment r" "ri_inputRefs (finalizeReceiptContinuation r) = ri_inputRefs r"
  "ri_outputRefs (finalizeReceiptContinuation r) = ri_outputRefs r"
  "ri_reviewerChecks (finalizeReceiptContinuation r) = ri_reviewerChecks r" "ri_cost (finalizeReceiptContinuation r) = ri_cost r"
  "ri_owner (finalizeReceiptContinuation r) = ri_owner r" "rc_receiptId (finalizeReceiptContinuation r) = rc_receiptId r"
  "rc_createdAt (finalizeReceiptContinuation r) = rc_createdAt r" "rc_retention (finalizeReceiptContinuation r) = rc_retention r"
  "rc_replayed (finalizeReceiptContinuation r) = rc_replayed r"
  by (simp_all add: finalizeReceiptContinuation_def Let_def)

lemma finalize_continuation_clone:
  "clone_field (ri_continuation r) \<noteq> None \<Longrightarrow> clone_field (ri_continuation (finalizeReceiptContinuation r)) \<noteq> None"
  by (simp add: finalizeReceiptContinuation_def Let_def clone_field_mset_key del: not_None_eq)

lemma clone_zero_retention [simp]: "clone_retention zero_retention = Some zero_retention"
  by (simp add: clone_retention_def zero_retention_def)

lemma new_receipt_clones:
  assumes "hash_receipt_input hx i = Some h" "clock_ok now"
  shows "\<exists>r. clone_receipt_opt (new_receipt now i s) = Some r"
proof -
  let ?r = "(mk_receipt i (receipt_id (Suc (ls_nextID s))) now)\<lparr>ri_idempotencyKey := []\<rparr>"
  have "clone_field (ri_continuation (finalizeReceiptContinuation ?r)) \<noteq> None"
    using hashed_fields [OF assms(1)] by (intro finalize_continuation_clone) simp
  with hashed_fields [OF assms(1)] show ?thesis
    unfolding new_receipt_def clone_receipt_opt_def time_json_def
    using assms(2) [unfolded clock_ok_def] by auto
qed

section \<open>How a receipt may change\<close>

definition retention_grows :: "receipt_retention \<Rightarrow> receipt_retention \<Rightarrow> bool" where
  "retention_grows a b \<longleftrightarrow>
     fst (rt_retainUntil a) \<le> fst (rt_retainUntil b) \<and> (rt_legalHold a \<longrightarrow> rt_legalHold b) \<and>
     (rt_privacyRedaction a \<noteq> None \<longrightarrow> rt_privacyRedaction b = rt_privacyRedaction a)"

text \<open>A later version of a receipt: the content is the same, or it was redacted with evidence.\<close>

definition receipt_evolves :: "receipt \<Rightarrow> receipt \<Rightarrow> bool" where
  "receipt_evolves r r' \<longleftrightarrow>
     retention_grows (rc_retention r) (rc_retention r') \<and>
     (r' = r\<lparr>rc_retention := rc_retention r'\<rparr> \<or>
      rt_privacyRedaction (rc_retention r') \<noteq> None \<and>
      r' = r\<lparr>ri_actor := None, ri_owner := None, ri_continuation := None, rc_retention := rc_retention r'\<rparr>)"

lemma retention_grows_refl [simp]: "retention_grows a a"
  by (simp add: retention_grows_def)

lemma retention_grows_trans: "retention_grows a b \<Longrightarrow> retention_grows b c \<Longrightarrow> retention_grows a c"
  by (auto simp: retention_grows_def)

lemma receipt_evolves_refl [simp]: "receipt_evolves r r"
  by (simp add: receipt_evolves_def)

lemma receipt_evolves_trans:
  assumes "receipt_evolves a b" "receipt_evolves b c"
  shows "receipt_evolves a c"
proof -
  define x where "x = rc_retention b"
  define y where "y = rc_retention c"
  have g: "retention_grows (rc_retention a) y" "retention_grows x y"
    using assms retention_grows_trans unfolding receipt_evolves_def x_def y_def by blast+
  consider (k) "b = a\<lparr>rc_retention := x\<rparr>"
    | (r) "rt_privacyRedaction x \<noteq> None"
        "b = a\<lparr>ri_actor := None, ri_owner := None, ri_continuation := None, rc_retention := x\<rparr>"
    using assms(1) unfolding receipt_evolves_def x_def by blast
  then show ?thesis
  proof cases
    case k
    with assms(2) g show ?thesis unfolding receipt_evolves_def y_def by (elim conjE disjE) simp_all
  next
    case r
    have "rt_privacyRedaction y \<noteq> None" using g(2) r(1) by (auto simp: retention_grows_def)
    with assms(2) g r show ?thesis unfolding receipt_evolves_def y_def by (elim conjE disjE) simp_all
  qed
qed

lemma redact_evolves: "receipt_evolves r (redact at reason r)"
  by (simp add: redact_def receipt_evolves_def retention_grows_def)

section \<open>Well-formed stores\<close>

definition receipts_ok :: "ledger_store \<Rightarrow> bool" where
  "receipts_ok s \<longleftrightarrow>
     (\<forall>rid r. ls_receipts s rid = Some r \<longrightarrow>
        stored_form r \<and> rc_receiptId r = rid \<and> \<not> rc_replayed r \<and> 0 < rc_createdAt r \<and> (\<exists>n \<le> ls_nextID s. rid = receipt_id n))"

definition keys_ok :: "ledger_store \<Rightarrow> bool" where
  "keys_ok s \<longleftrightarrow>
     (\<forall>k rec rid. ls_idempotency s k = Some rec \<longrightarrow> ir_result rec = ResReceiptId rid \<longrightarrow> ls_receipts s rid \<noteq> None)"

text \<open>What a transition does to the receipts and their idempotency records: nothing, a new
  receipt under a fresh identifier, or a later version of an existing one.\<close>

inductive receipt_change :: "ledger_store \<Rightarrow> ledger_store \<Rightarrow> bool" where
  same: "ls_receipts s' = ls_receipts s \<Longrightarrow> ls_idempotency s' = ls_idempotency s \<Longrightarrow> ls_nextID s' = ls_nextID s \<Longrightarrow>
    receipt_change s s'"
| added: "ls_idempotency s key = None \<Longrightarrow> stored_form r \<Longrightarrow> \<not> rc_replayed r \<Longrightarrow> 0 < rc_createdAt r \<Longrightarrow>
    rc_receiptId r = receipt_id (Suc (ls_nextID s)) \<Longrightarrow> s' = add_receipt key h r s \<Longrightarrow> receipt_change s s'"
| evolved: "ls_idempotency s key = None \<Longrightarrow> ls_receipts s rid = Some r \<Longrightarrow> receipt_evolves r r' \<Longrightarrow> stored_form r' \<Longrightarrow>
    s' = s\<lparr>ls_receipts := (ls_receipts s)(rid \<mapsto> r'),
           ls_idempotency := (ls_idempotency s)(key \<mapsto> \<lparr>ir_payloadHash = h, ir_result = ResRetention rr\<rparr>)\<rparr> \<Longrightarrow>
    receipt_change s s'"

lemma receipt_change_refl [simp]: "receipt_change s s"
  by (rule same) simp_all

lemma RecordReceipt_change:
  assumes "clock_ok now" "RecordReceipt hx now i s = (x, s')"
  shows "receipt_change s s'"
proof (cases x)
  case (Inl e)
  with assms(2) show ?thesis using RecordReceipt_Err by fastforce
next
  case (Inr r)
  from assms(2) [unfolded Inr] show ?thesis
  proof (cases rule: RecordReceipt_OkE)
    case (2 h)
    from new_receipt_clones [OF 2(2) assms(1)] obtain r1 where
      r1: "clone_receipt_opt (new_receipt now i s) = Some r1" by blast
    then have c: "clone_receipt (new_receipt now i s) = r1" by (simp add: clone_receipt_def)
    show ?thesis
    proof (rule added [OF 2(3)])
      show "stored_form r1" by (rule clone_receipt_opt_stored [OF r1])
      show "\<not> rc_replayed r1" "rc_receiptId r1 = receipt_id (Suc (ls_nextID s))" "0 < rc_createdAt r1"
        using clone_receipt_opt_fields(17-19) [OF r1] assms(1) by (simp_all add: new_receipt_def clock_ok_def)
      show "s' = add_receipt (ri_idempotencyKey i) h r1 s" using 2(5) c by simp
    qed
  qed simp
qed

lemma clone_set_retention:
  assumes "stored_form r" "clone_retention rt = Some rt'"
  shows "clone_receipt (r\<lparr>rc_retention := rt\<rparr>) = r\<lparr>rc_retention := rt'\<rparr>"
    and "stored_form (r\<lparr>rc_retention := rt'\<rparr>)"
  using assms clone_retention_idem [OF assms(2)]
  by (simp_all add: stored_form_iff clone_receipt_def clone_receipt_opt_def time_json_def)

lemma clone_retention_fixed:
  "clone_retention rt = Some rt \<longleftrightarrow>
     (if fst (rt_retainUntil rt) = 0 then rt_retainUntil rt = (0, 0) else zoned_ok (rt_retainUntil rt)) \<and>
     (case rt_privacyRedaction rt of None \<Rightarrow> True | Some p \<Rightarrow> zoned_ok (pr_appliedAt p, 0))"
  by (cases rt) (auto simp: clone_retention_def)

lemma redact_stored:
  assumes "stored_form r" "clock_ok at"
  shows "stored_form (redact at reason r)"
  using assms by (simp add: redact_def stored_form_iff clone_retention_fixed clock_ok_def)

lemma clone_retention_grows: "clone_retention rt = Some rt' \<Longrightarrow> retention_grows rt rt' \<and> retention_grows rt' rt"
  by (auto simp: clone_retention_def retention_grows_def split: if_splits)

text \<open>The retention a successful update writes.\<close>

definition updated_retention :: "retention_input \<Rightarrow> receipt_retention \<Rightarrow> receipt_retention" where
  "updated_retention i rt =
     (let rt1 = (if fst (rn_retainUntil i) > fst (rt_retainUntil rt) then rt\<lparr>rt_retainUntil := rn_retainUntil i\<rparr> else rt)
      in rt1\<lparr>rt_legalHold := rt_legalHold rt1 \<or> rn_legalHold i\<rparr>)"

lemma updated_retention_grows: "retention_grows rt (updated_retention i rt)"
  by (auto simp: updated_retention_def retention_grows_def Let_def)

lemma updated_retention_clones:
  assumes "clone_retention rt = Some rt" "zoned_ok (rn_retainUntil i)"
  shows "\<exists>rt'. clone_retention (updated_retention i rt) = Some rt'"
  using assms by (auto simp: clone_retention_def updated_retention_def Let_def split: if_splits option.splits)

lemma UpdateReceiptRetention_cases:
  assumes "UpdateReceiptRetention hx i s = (x, s')"
  obtains "s' = s"
  | h r where "ls_idempotency s (retention_key (rn_idempotencyKey i)) = None" "hash_retention_input hx i = Some h"
      "ls_receipts s (rn_receiptId i) = Some r"
      "(x, s') = store_retention (retention_key (rn_idempotencyKey i)) h (rn_receiptId i)
                   (r\<lparr>rc_retention := updated_retention i (rc_retention r)\<rparr>) s"
  using assms
  by (auto simp: UpdateReceiptRetention_def updated_retention_def Let_def split: if_splits option.splits)

lemma PrivacyDeleteReceipt_cases:
  assumes "PrivacyDeleteReceipt hx now i s = (x, s')"
  obtains "s' = s"
  | h r where "ls_idempotency s (privacy_key (pd_idempotencyKey i)) = None" "hash_privacy_input hx i = Some h"
      "ls_receipts s (pd_receiptId i) = Some r" "\<not> rt_legalHold (rc_retention r)"
      "fst (rt_retainUntil (rc_retention r)) \<le> fst now"
      "(x, s') = store_retention (privacy_key (pd_idempotencyKey i)) h (pd_receiptId i) (redact (snd now) (pd_reason i) r) s"
  using assms by (auto simp: PrivacyDeleteReceipt_def not_less split: if_splits option.splits)

lemma store_retention_change:
  assumes "(x, s') = store_retention key h rid r1 s"
    and "ls_idempotency s key = None" "ls_receipts s rid = Some r" "receipt_evolves r (clone_receipt r1)"
    and "stored_form (clone_receipt r1)"
  shows "receipt_change s s'"
proof -
  have "\<exists>rr. s' = s\<lparr>ls_receipts := (ls_receipts s)(rid \<mapsto> clone_receipt r1),
     ls_idempotency := (ls_idempotency s)(key \<mapsto> \<lparr>ir_payloadHash = h, ir_result = ResRetention rr\<rparr>)\<rparr>"
    using assms(1) by (auto simp: store_retention_def Let_def)
  with evolved [OF assms(2-5)] show ?thesis by blast
qed

lemma hash_retention_zoned: "hash_retention_input hx i = Some h \<Longrightarrow> zoned_ok (rn_retainUntil i)"
  by (simp add: hash_retention_input_def time_json_def split: if_splits)

lemma UpdateReceiptRetention_change:
  assumes ok: "receipts_ok s" and run: "UpdateReceiptRetention hx i s = (x, s')"
  shows "receipt_change s s'"
  using run
proof (cases rule: UpdateReceiptRetention_cases)
  case (2 h r)
  let ?rt = "updated_retention i (rc_retention r)"
  have r: "stored_form r" using ok 2(3) by (simp add: receipts_ok_def)
  then have "clone_retention (rc_retention r) = Some (rc_retention r)" by (simp add: stored_form_iff)
  from updated_retention_clones [OF this hash_retention_zoned [OF 2(2)]] obtain rt' where
    rt': "clone_retention ?rt = Some rt'" by blast
  note c = clone_set_retention [OF r rt']
  have "retention_grows (rc_retention r) rt'"
    using updated_retention_grows clone_retention_grows [OF rt'] retention_grows_trans by blast
  then have "receipt_evolves r (clone_receipt (r\<lparr>rc_retention := ?rt\<rparr>))"
    unfolding c(1) by (simp add: receipt_evolves_def)
  from store_retention_change [OF 2(4,1,3) this] c show ?thesis by simp
qed simp

lemma PrivacyDeleteReceipt_change:
  assumes ok: "receipts_ok s" and now: "clock_ok (snd now)" and run: "PrivacyDeleteReceipt hx now i s = (x, s')"
  shows "receipt_change s s'"
  using run
proof (cases rule: PrivacyDeleteReceipt_cases)
  case (2 h r)
  have "stored_form r" using ok 2(3) by (simp add: receipts_ok_def)
  note d = redact_stored [OF this now, of "pd_reason i"]
  note c = clone_stored [OF d]
  from store_retention_change [OF 2(6,1,3)] redact_evolves [of r "snd now" "pd_reason i"] d c show ?thesis by simp
qed simp

lemma CreateReviewPolicy_receipts:
  "CreateReviewPolicy hx env i s = (x, s') \<Longrightarrow>
     ls_receipts s' = ls_receipts s \<and> ls_idempotency s' = ls_idempotency s \<and> ls_nextID s' = ls_nextID s \<and>
     ls_reconciliationIdempotency s' = ls_reconciliationIdempotency s"
  by (auto simp: CreateReviewPolicy_def store_policy_def Let_def
      split: option.splits if_splits idem_result.splits)

lemma RecordReconciliation_receipts:
  "RecordReconciliation hx now i s = (x, s') \<Longrightarrow>
     ls_receipts s' = ls_receipts s \<and> ls_idempotency s' = ls_idempotency s \<and> ls_nextID s' = ls_nextID s \<and>
     ls_reviewPolicies s' = ls_reviewPolicies s \<and> ls_reviewPolicyIdempotency s' = ls_reviewPolicyIdempotency s"
  by (auto simp: RecordReconciliation_def Let_def split: option.splits if_splits idem_result.splits)

lemma ledger_step_change: "ledger_step hx s s' \<Longrightarrow> receipts_ok s \<Longrightarrow> receipt_change s s'"
proof (induction rule: ledger_step.induct)
  case (artifact now i s x s')
  with RecordArtifact_state [of hx now i s] RecordReceipt_change show ?case
    by (metis prod.collapse receipt_change_refl snd_conv)
next
  case (review now i s x s')
  with RecordReview_state [of hx now i s] RecordReceipt_change show ?case
    by (metis prod.collapse receipt_change_refl snd_conv)
next
  case (policy env s i x s')
  with CreateReviewPolicy_receipts show ?case by (blast intro: same)
next
  case (reconciliation now i s x s')
  with RecordReconciliation_receipts show ?case by (blast intro: same)
qed (auto intro: RecordReceipt_change UpdateReceiptRetention_change PrivacyDeleteReceipt_change)

text \<open>The invariant is kept, and every earlier receipt and key is still there.\<close>

lemma receipts_ok_change: "receipt_change s s' \<Longrightarrow> receipts_ok s \<Longrightarrow> receipts_ok s'"
proof (induction rule: receipt_change.induct)
  case (same s' s)
  then show ?case by (simp add: receipts_ok_def)
next
  case (added s key r s' h)
  then show ?case unfolding receipts_ok_def add_receipt_def by simp (metis le_Suc_eq order_refl)
next
  case (evolved s key rid r r' s' h rr)
  have "rc_receiptId r' = rc_receiptId r" "rc_replayed r' = rc_replayed r" "rc_createdAt r' = rc_createdAt r"
    using evolved(3) by (auto simp: receipt_evolves_def dest: arg_cong [of _ _ rc_receiptId]
        arg_cong [of _ _ rc_replayed] arg_cong [of _ _ rc_createdAt])
  with evolved show ?case by (auto simp: receipts_ok_def)
qed

lemma keys_ok_change: "receipt_change s s' \<Longrightarrow> keys_ok s \<Longrightarrow> keys_ok s'"
  by (induction rule: receipt_change.induct) (auto simp: keys_ok_def add_receipt_def)

lemma keys_grow: "receipt_change s s' \<Longrightarrow> ls_idempotency s k = Some rec \<Longrightarrow> ls_idempotency s' k = Some rec"
  by (induction rule: receipt_change.induct) (auto simp: add_receipt_def)

lemma receipts_grow:
  assumes "receipt_change s s'" "receipts_ok s" "ls_receipts s rid = Some r"
  shows "\<exists>r'. ls_receipts s' rid = Some r' \<and> receipt_evolves r r'"
  using assms
proof (induction rule: receipt_change.induct)
  case (added s key r1 s' h)
  obtain n where n: "n \<le> ls_nextID s" "rid = receipt_id n"
    using added.prems by (auto simp: receipts_ok_def)
  with added(5) have "rid \<noteq> rc_receiptId r1" using receipt_id_inj by force
  with added show ?case by (simp add: add_receipt_def)
qed auto

text \<open>The two facts as an invariant of any run.\<close>

definition ledger_ok :: "ledger_store \<Rightarrow> bool" where
  "ledger_ok s \<longleftrightarrow> receipts_ok s \<and> keys_ok s"

lemma ledger_ok_step: "ledger_ok s \<Longrightarrow> ledger_step hx s s' \<Longrightarrow> ledger_ok s'"
  using ledger_step_change receipts_ok_change keys_ok_change unfolding ledger_ok_def by blast

lemma ledger_ok_steps: "(ledger_step hx)\<^sup>*\<^sup>* s s' \<Longrightarrow> ledger_ok s \<Longrightarrow> ledger_ok s'"
  by (induction rule: rtranclp_induct) (auto intro: ledger_ok_step)

lemma ledger_ok_new: "ledger_ok NewMemoryStore"
  by (simp add: ledger_ok_def receipts_ok_def keys_ok_def NewMemoryStore_def)

lemma reachable_ok: "ledger_reachable hx s \<Longrightarrow> ledger_ok s"
  unfolding ledger_reachable_def using ledger_ok_new by (rule ledger_ok_steps [rotated])

lemma reachable_steps: "ledger_reachable hx s \<Longrightarrow> (ledger_step hx)\<^sup>*\<^sup>* s s' \<Longrightarrow> ledger_reachable hx s'"
  unfolding ledger_reachable_def by (rule rtranclp_trans)

lemma receipts_grow_steps:
  assumes "(ledger_step hx)\<^sup>*\<^sup>* s s'" "ledger_ok s" "ls_receipts s rid = Some r"
  shows "\<exists>r'. ls_receipts s' rid = Some r' \<and> receipt_evolves r r'"
  using assms(1)
proof (induction rule: rtranclp_induct)
  case base
  with assms(3) show ?case by auto
next
  case (step y z)
  have "receipts_ok y" using ledger_ok_steps [OF step(1) assms(2)] by (simp add: ledger_ok_def)
  with step receipts_grow [OF ledger_step_change [OF step(2)]] show ?case
    by (meson receipt_evolves_trans)
qed

end
