(* ===== verification/Ledger_Commands.thy ===== *)
theory Ledger_Commands
  imports Ledger_Invariant
begin

text \<open>
  The commands of the Ledger's store under their idempotency keys: the interpretations of the
  contract of \<open>Idempotent_Command\<close>, and what the store guarantees about receipts, their
  retention and their redaction.
\<close>

section \<open>Receipts under their keys\<close>

definition receipt_seen :: "string \<Rightarrow> ledger_store \<Rightarrow> string option" where
  "receipt_seen k s =
     (case ls_idempotency s k of None \<Rightarrow> None
      | Some rec \<Rightarrow> (case ir_result rec of ResReceiptId _ \<Rightarrow> Some (ir_payloadHash rec) | _ \<Rightarrow> None))"

definition retention_seen :: "string \<Rightarrow> ledger_store \<Rightarrow> string option" where
  "retention_seen k s =
     (case ls_idempotency s k of None \<Rightarrow> None
      | Some rec \<Rightarrow> (case ir_result rec of ResRetention _ \<Rightarrow> Some (ir_payloadHash rec) | _ \<Rightarrow> None))"

lemma receipt_seen_Some:
  "receipt_seen k s = Some h \<longleftrightarrow>
     (\<exists>rid. ls_idempotency s k = Some \<lparr>ir_payloadHash = h, ir_result = ResReceiptId rid\<rparr>)"
  by (auto simp: receipt_seen_def intro!: exI idempotencyRecord.equality split: option.splits idem_result.splits)

lemma retention_seen_Some:
  "retention_seen k s = Some h \<longleftrightarrow>
     (\<exists>rr. ls_idempotency s k = Some \<lparr>ir_payloadHash = h, ir_result = ResRetention rr\<rparr>)"
  by (auto simp: retention_seen_def intro!: exI idempotencyRecord.equality split: option.splits idem_result.splits)

lemma seen_step:
  assumes "ledger_ok s" "ledger_step hx s s'"
  shows "receipt_seen k s = Some h \<Longrightarrow> receipt_seen k s' = Some h"
    and "retention_seen k s = Some h \<Longrightarrow> retention_seen k s' = Some h"
  using keys_grow [OF ledger_step_change [OF assms(2)]] assms(1)
  by (auto simp: ledger_ok_def receipt_seen_Some retention_seen_Some)

text \<open>A key found with the same hash answers, with another hash it is refused; both without a change.\<close>

lemma RecordReceipt_hit:
  assumes "ledger_ok s" "validateReceiptInput i = None" "hash_receipt_input hx i = Some h"
    and "receipt_seen (ri_idempotencyKey i) s = Some h"
  shows "\<exists>r. RecordReceipt hx now i s = (Ok r, s)"
proof -
  from assms(4) obtain rid where
    k: "ls_idempotency s (ri_idempotencyKey i) = Some \<lparr>ir_payloadHash = h, ir_result = ResReceiptId rid\<rparr>"
    by (auto simp: receipt_seen_Some)
  with assms(1) obtain r where "ls_receipts s rid = Some r" by (fastforce simp: ledger_ok_def keys_ok_def)
  with k assms(2,3) show ?thesis by (simp add: RecordReceipt_def)
qed

lemma RecordReceipt_miss:
  assumes "validateReceiptInput i = None" "hash_receipt_input hx i = Some h"
    and "receipt_seen (ri_idempotencyKey i) s = Some h'" "h \<noteq> h'"
  shows "RecordReceipt hx now i s = (Err ErrIdempotencyConflict, s)"
  using assms by (auto simp: RecordReceipt_def receipt_seen_Some)

lemma RecordReceipt_seen:
  assumes "RecordReceipt hx now i s = (Ok r, s')"
  shows "validateReceiptInput i = None \<and> hash_receipt_input hx i \<noteq> None \<and>
         receipt_seen (ri_idempotencyKey i) s' = hash_receipt_input hx i"
  using assms by (cases rule: RecordReceipt_OkE) (simp_all add: receipt_seen_def add_receipt_def)

interpretation record_receipt: atomic_command
    "RecordReceipt hx" ri_idempotencyKey receipt_seen "hash_receipt_input hx" "\<lambda>i. validateReceiptInput i = None"
    ledger_ok "ledger_step hx" "\<lambda>now s. clock_ok now" ErrIdempotencyConflict for hx
proof unfold_locales
  show "RecordReceipt hx now i s = (Err e, s') \<Longrightarrow> s' = s" for now i s e s'
    by (rule RecordReceipt_Err)
  show "validateReceiptInput i = None \<and> hash_receipt_input hx i \<noteq> None \<and>
        receipt_seen (ri_idempotencyKey i) s' = hash_receipt_input hx i \<and> ledger_ok s'"
    if "ledger_ok s" "clock_ok now" "RecordReceipt hx now i s = (Ok r, s')" for s now i r s'
    using RecordReceipt_seen [OF that(3)] ledger_ok_step [OF that(1) ledger_step.receipt [OF that(2,3)]] by simp
  show "\<exists>r. RecordReceipt hx now i s = (Ok r, s)"
    if "ledger_ok s" "validateReceiptInput i = None" "hash_receipt_input hx i = Some h"
      "receipt_seen (ri_idempotencyKey i) s = Some h" for s i h now
    by (rule RecordReceipt_hit [OF that])
  show "RecordReceipt hx now i s = (Err ErrIdempotencyConflict, s)"
    if "ledger_ok s" "validateReceiptInput i = None" "hash_receipt_input hx i = Some h"
      "receipt_seen (ri_idempotencyKey i) s = Some h'" "h \<noteq> h'" for s i h h' now
    by (rule RecordReceipt_miss [OF that(2-5)])
  show "receipt_seen k s' = Some h" if "ledger_ok s" "ledger_step hx s s'" "receipt_seen k s = Some h" for s s' k h
    by (rule seen_step(1) [OF that])
  show "ledger_ok s'" if "ledger_ok s" "ledger_step hx s s'" for s s'
    by (rule ledger_ok_step [OF that])
qed

section \<open>Retention and redaction under their keys\<close>

lemma store_retention_Ok: "store_retention key h rid r s = (x, s') \<Longrightarrow> \<exists>y. x = Ok y"
  by (auto simp: store_retention_def Let_def)

lemma store_retention_seen: "store_retention key h rid r s = (x, s') \<Longrightarrow> retention_seen key s' = Some h"
  by (auto simp: store_retention_def Let_def retention_seen_Some)

lemma replay_retention_Ok:
  "replay_retention h rec = Ok y \<Longrightarrow> \<exists>rr. rec = \<lparr>ir_payloadHash = h, ir_result = ResRetention rr\<rparr>"
  by (cases "ir_result rec") (auto simp: replay_retention_def intro!: exI idempotencyRecord.equality split: if_splits)

lemma UpdateReceiptRetention_Err: "UpdateReceiptRetention hx i s = (Err e, s') \<Longrightarrow> s' = s"
  by (auto simp: UpdateReceiptRetention_def Let_def dest!: store_retention_Ok split: option.splits if_splits)

lemma UpdateReceiptRetention_seen:
  assumes "UpdateReceiptRetention hx i s = (Ok r, s')"
  shows "retention_input_ok i \<and> hash_retention_input hx i \<noteq> None \<and>
         retention_seen (retention_key (rn_idempotencyKey i)) s' = hash_retention_input hx i"
proof -
  obtain h where h: "retention_input_ok i" "hash_retention_input hx i = Some h"
    using assms by (auto simp: UpdateReceiptRetention_def split: option.splits if_splits)
  with assms show ?thesis
    by (auto simp: UpdateReceiptRetention_def Let_def retention_seen_Some
        dest!: replay_retention_Ok store_retention_seen split: option.splits if_splits)
qed

lemma PrivacyDeleteReceipt_Err: "PrivacyDeleteReceipt hx now i s = (Err e, s') \<Longrightarrow> s' = s"
  by (auto simp: PrivacyDeleteReceipt_def Let_def dest!: store_retention_Ok split: option.splits if_splits)

lemma PrivacyDeleteReceipt_seen:
  assumes "PrivacyDeleteReceipt hx now i s = (Ok r, s')"
  shows "privacy_input_ok i \<and> hash_privacy_input hx i \<noteq> None \<and>
         retention_seen (privacy_key (pd_idempotencyKey i)) s' = hash_privacy_input hx i"
proof -
  obtain h where h: "privacy_input_ok i" "hash_privacy_input hx i = Some h"
    using assms by (auto simp: PrivacyDeleteReceipt_def split: option.splits if_splits)
  with assms show ?thesis
    by (auto simp: PrivacyDeleteReceipt_def Let_def retention_seen_Some
        dest!: replay_retention_Ok store_retention_seen split: option.splits if_splits)
qed

interpretation update_retention: atomic_command
    "\<lambda>u :: unit. UpdateReceiptRetention hx" "\<lambda>i. retention_key (rn_idempotencyKey i)" retention_seen
    "hash_retention_input hx" retention_input_ok ledger_ok "ledger_step hx" "\<lambda>u s. True" ErrIdempotencyConflict for hx
proof unfold_locales
  show "UpdateReceiptRetention hx i s = (Err e, s') \<Longrightarrow> s' = s" for i s e s'
    by (rule UpdateReceiptRetention_Err)
  show "retention_input_ok i \<and> hash_retention_input hx i \<noteq> None \<and>
        retention_seen (retention_key (rn_idempotencyKey i)) s' = hash_retention_input hx i \<and> ledger_ok s'"
    if "ledger_ok s" "True" "UpdateReceiptRetention hx i s = (Ok r, s')" for s i r s'
    using UpdateReceiptRetention_seen [OF that(3)] ledger_ok_step [OF that(1) ledger_step.retention [OF that(3)]] by simp
  show "\<exists>r. UpdateReceiptRetention hx i s = (Ok r, s)"
    if "ledger_ok s" "retention_input_ok i" "hash_retention_input hx i = Some h"
      "retention_seen (retention_key (rn_idempotencyKey i)) s = Some h" for s i h
    using that by (auto simp: UpdateReceiptRetention_def retention_seen_Some replay_retention_def)
  show "UpdateReceiptRetention hx i s = (Err ErrIdempotencyConflict, s)"
    if "ledger_ok s" "retention_input_ok i" "hash_retention_input hx i = Some h"
      "retention_seen (retention_key (rn_idempotencyKey i)) s = Some h'" "h \<noteq> h'" for s i h h'
    using that by (auto simp: UpdateReceiptRetention_def retention_seen_Some replay_retention_def)
  show "retention_seen k s' = Some h" if "ledger_ok s" "ledger_step hx s s'" "retention_seen k s = Some h" for s s' k h
    by (rule seen_step(2) [OF that])
  show "ledger_ok s'" if "ledger_ok s" "ledger_step hx s s'" for s s'
    by (rule ledger_ok_step [OF that])
qed

interpretation privacy_delete: atomic_command
    "PrivacyDeleteReceipt hx" "\<lambda>i. privacy_key (pd_idempotencyKey i)" retention_seen "hash_privacy_input hx"
    privacy_input_ok ledger_ok "ledger_step hx" "\<lambda>now s. clock_ok (snd now)" ErrIdempotencyConflict for hx
proof unfold_locales
  show "PrivacyDeleteReceipt hx now i s = (Err e, s') \<Longrightarrow> s' = s" for now i s e s'
    by (rule PrivacyDeleteReceipt_Err)
  show "privacy_input_ok i \<and> hash_privacy_input hx i \<noteq> None \<and>
        retention_seen (privacy_key (pd_idempotencyKey i)) s' = hash_privacy_input hx i \<and> ledger_ok s'"
    if "ledger_ok s" "clock_ok (snd now)" "PrivacyDeleteReceipt hx now i s = (Ok r, s')" for s now i r s'
    using PrivacyDeleteReceipt_seen [OF that(3)] ledger_ok_step [OF that(1) ledger_step.privacy [OF that(2,3)]] by simp
  show "\<exists>r. PrivacyDeleteReceipt hx now i s = (Ok r, s)"
    if "ledger_ok s" "privacy_input_ok i" "hash_privacy_input hx i = Some h"
      "retention_seen (privacy_key (pd_idempotencyKey i)) s = Some h" for s i h now
    using that by (auto simp: PrivacyDeleteReceipt_def retention_seen_Some replay_retention_def)
  show "PrivacyDeleteReceipt hx now i s = (Err ErrIdempotencyConflict, s)"
    if "ledger_ok s" "privacy_input_ok i" "hash_privacy_input hx i = Some h"
      "retention_seen (privacy_key (pd_idempotencyKey i)) s = Some h'" "h \<noteq> h'" for s i h h' now
    using that by (auto simp: PrivacyDeleteReceipt_def retention_seen_Some replay_retention_def)
  show "retention_seen k s' = Some h" if "ledger_ok s" "ledger_step hx s s'" "retention_seen k s = Some h" for s s' k h
    by (rule seen_step(2) [OF that])
  show "ledger_ok s'" if "ledger_ok s" "ledger_step hx s s'" for s s'
    by (rule ledger_ok_step [OF that])
qed

section \<open>A small store to evaluate\<close>

definition demo_hashing :: hashing where
  "demo_hashing = \<lparr>hx_bytes = (\<lambda>s. s), hx_json = (\<lambda>v. case v of GObj m \<Rightarrow> str_of (mget m ''taskId'') | _ \<Rightarrow> [])\<rparr>"

definition demo_input :: receipt_input where
  "demo_input =
     zero_receipt_input
       \<lparr>ri_type := ''task.note'', ri_status := ''completed'', ri_surface := ''ledger'', ri_workspaceId := ''w1'',
        ri_taskId := ''t1'', ri_actor := Some [(''userId'', GStr ''u1'')], ri_idempotencyKey := ''k1''\<rparr>"

lemma demo_input_valid: "validateReceiptInput demo_input = None"
  by code_simp

lemma demo_input_hash: "hash_receipt_input demo_hashing demo_input = Some ''t1''"
  by code_simp

lemma demo_input_hash': "hash_receipt_input demo_hashing (demo_input\<lparr>ri_taskId := ''t2''\<rparr>) = Some ''t2''"
  by code_simp

lemma demo_input_valid': "validateReceiptInput (demo_input\<lparr>ri_taskId := ''t2''\<rparr>) = None"
  by code_simp

lemma clock_ok_1: "clock_ok 1"
  by code_simp

definition demo_store :: ledger_store where
  "demo_store = snd (RecordReceipt demo_hashing 1 demo_input NewMemoryStore)"

lemma demo_record:
  "RecordReceipt demo_hashing 1 demo_input NewMemoryStore =
     (Ok (clone_receipt (clone_receipt (new_receipt 1 demo_input NewMemoryStore))), demo_store)"
  by (simp add: demo_store_def RecordReceipt_new [OF demo_input_valid demo_input_hash] NewMemoryStore_def)

lemma demo_store_reachable: "ledger_reachable demo_hashing demo_store"
  unfolding ledger_reachable_def
  by (rule r_into_rtranclp) (rule ledger_step.receipt [OF clock_ok_1 demo_record])

lemma new_store_reachable: "ledger_reachable hx NewMemoryStore"
  by (simp add: ledger_reachable_def)

section \<open>What the store guarantees\<close>

lemma RecordReceipt_bound:
  assumes "ledger_ok s" "clock_ok now" "RecordReceipt hx now i s = (Ok r, s1)"
  shows "\<exists>h r0. ls_idempotency s1 (ri_idempotencyKey i) = Some \<lparr>ir_payloadHash = h, ir_result = ResReceiptId (rc_receiptId r)\<rparr> \<and>
           hash_receipt_input hx i = Some h \<and> validateReceiptInput i = None \<and>
           ls_receipts s1 (rc_receiptId r) = Some r0 \<and> stored_form r0 \<and> r = r0\<lparr>rc_replayed := rc_replayed r\<rparr>"
  using assms(3)
proof (cases rule: RecordReceipt_OkE)
  case (1 h rid r0)
  with assms(1) have "stored_form r0" "rc_receiptId r0 = rid" by (auto simp: ledger_ok_def receipts_ok_def)
  with 1 show ?thesis by (simp add: clone_stored)
next
  case (2 h)
  from new_receipt_clones [OF 2(2) assms(2)] obtain r1 where
    r1: "clone_receipt_opt (new_receipt now i s) = Some r1" by blast
  have c: "clone_receipt (new_receipt now i s) = r1" using r1 by (simp add: clone_receipt_def)
  have st: "stored_form r1" by (rule clone_receipt_opt_stored [OF r1])
  show ?thesis using 2 by (simp add: c clone_stored [OF st] st add_receipt_def)
qed

lemma keys_grow_steps:
  assumes "(ledger_step hx)\<^sup>*\<^sup>* s s'" "ledger_ok s" "ls_idempotency s k = Some rec"
  shows "ls_idempotency s' k = Some rec"
  using assms(1)
proof (induction rule: rtranclp_induct)
  case (step y z)
  have "receipts_ok y" using ledger_ok_steps [OF step(1) assms(2)] by (simp add: ledger_ok_def)
  with step keys_grow [OF ledger_step_change [OF step(2)]] show ?case by blast
qed (use assms(3) in simp)

lemma receipt_evolves_id: "receipt_evolves r r' \<Longrightarrow> rc_receiptId r' = rc_receiptId r"
  by (auto simp: receipt_evolves_def dest: arg_cong [of _ _ rc_receiptId])

lemma RecordReceipt_retry_id:
  assumes s: "ledger_reachable hx s" and now: "clock_ok now" and first: "RecordReceipt hx now i s = (Ok r, s1)"
    and later: "(ledger_step hx)\<^sup>*\<^sup>* s1 s2" and again: "RecordReceipt hx now' i s2 = (Ok r', s3)"
  shows "rc_receiptId r' = rc_receiptId r \<and> rc_replayed r'"
proof -
  note ok = reachable_ok [OF s]
  from RecordReceipt_bound [OF ok now first] obtain h r0 where
    b: "ls_idempotency s1 (ri_idempotencyKey i) = Some \<lparr>ir_payloadHash = h, ir_result = ResReceiptId (rc_receiptId r)\<rparr>"
    by blast
  have ok1: "ledger_ok s1" by (rule ledger_ok_step [OF ok ledger_step.receipt [OF now first]])
  note k = keys_grow_steps [OF later ok1 b]
  from again show ?thesis
  proof (cases rule: RecordReceipt_OkE)
    case (1 h' rid r2)
    with k have rid: "rid = rc_receiptId r" by simp
    have "stored_form r2" "rc_receiptId r2 = rid"
      using ledger_ok_steps [OF later ok1] 1(4) by (auto simp: ledger_ok_def receipts_ok_def)
    with 1(5) rid show ?thesis by (simp add: clone_stored)
  next
    case (2 h')
    with k show ?thesis by simp
  qed
qed

text \<open>C18: recording a receipt is idempotent. After a success, and after whatever else the store did
  since, the same input is answered with the same receipt, marked as a replay, and nothing changes.\<close>

theorem receipt_retry:
  assumes "ledger_reachable hx s" and "clock_ok now" and "RecordReceipt hx now i s = (Ok r, s1)"
    and "(ledger_step hx)\<^sup>*\<^sup>* s1 s2"
  shows "\<exists>r'. RecordReceipt hx now' i s2 = (Ok r', s2) \<and> rc_receiptId r' = rc_receiptId r \<and> rc_replayed r'"
  using record_receipt.retry_keeps [OF reachable_ok [OF assms(1)] assms(2-4)] RecordReceipt_retry_id [OF assms]
  by metis

lemma receipt_retry_witness:
  "\<exists>r'. RecordReceipt demo_hashing 2 demo_input demo_store = (Ok r', demo_store) \<and> rc_replayed r'"
  using receipt_retry [OF new_store_reachable clock_ok_1 demo_record rtranclp.rtrancl_refl, of 2] by blast

text \<open>C19: a key is bound to its payload for good. Another valid payload under the same key is refused
  as a conflict in every later store, and leaves it as it was.\<close>

theorem receipt_key_conflict:
  assumes "ledger_reachable hx s" and "clock_ok now" and "RecordReceipt hx now i s = (Ok r, s1)"
    and "(ledger_step hx)\<^sup>*\<^sup>* s1 s2"
    and "ri_idempotencyKey j = ri_idempotencyKey i" and "validateReceiptInput j = None"
    and "hash_receipt_input hx j = Some h'" and "hash_receipt_input hx j \<noteq> hash_receipt_input hx i"
  shows "RecordReceipt hx now' j s2 = (Err ErrIdempotencyConflict, s2)"
  by (rule record_receipt.rebind_refused [OF reachable_ok [OF assms(1)] assms(2-8)])

lemma receipt_key_conflict_witness:
  "RecordReceipt demo_hashing 2 (demo_input\<lparr>ri_taskId := ''t2''\<rparr>) demo_store = (Err ErrIdempotencyConflict, demo_store)"
proof (rule receipt_key_conflict [OF new_store_reachable clock_ok_1 demo_record rtranclp.rtrancl_refl])
  show "hash_receipt_input demo_hashing (demo_input\<lparr>ri_taskId := ''t2''\<rparr>) \<noteq> hash_receipt_input demo_hashing demo_input"
    by (simp add: demo_input_hash demo_input_hash')
qed (simp_all add: demo_input_valid' demo_input_hash')

text \<open>C20: the ledger is append-only. A stored receipt stays under its identifier in every later store,
  and what is there is a later version of it: same content or redacted with evidence, a retention
  that ends no earlier, a legal hold that is never lifted, a redaction that is never undone.\<close>

theorem ledger_append_only:
  assumes "ledger_reachable hx s" and "(ledger_step hx)\<^sup>*\<^sup>* s s'" and "ls_receipts s rid = Some r"
  shows "\<exists>r'. ls_receipts s' rid = Some r' \<and> receipt_evolves r r'"
  by (rule receipts_grow_steps [OF assms(2) reachable_ok [OF assms(1)] assms(3)])

text \<open>C21: a protected receipt is never redacted. Once a receipt is on legal hold, a privacy deletion
  under a new key is refused in every later store, and likewise while its retention runs.\<close>

theorem protected_receipt_not_redacted:
  assumes "ledger_reachable hx s" and "(ledger_step hx)\<^sup>*\<^sup>* s s'" and "ls_receipts s (pd_receiptId i) = Some r"
    and "rt_legalHold (rc_retention r) \<or> fst (rt_retainUntil (rc_retention r)) > fst now"
    and "privacy_input_ok i" and "ls_idempotency s' (privacy_key (pd_idempotencyKey i)) = None"
  shows "fst (PrivacyDeleteReceipt hx now i s') \<in> {Err ErrReceiptLegalHold, Err ErrReceiptRetentionActive} \<and>
         snd (PrivacyDeleteReceipt hx now i s') = s'"
proof -
  from receipts_grow_steps [OF assms(2) reachable_ok [OF assms(1)] assms(3)] obtain r' where
    r': "ls_receipts s' (pd_receiptId i) = Some r'" "retention_grows (rc_retention r) (rc_retention r')"
    by (auto simp: receipt_evolves_def)
  have "rt_legalHold (rc_retention r') \<or> fst (rt_retainUntil (rc_retention r')) > fst now"
    using assms(4) r'(2) by (auto simp: retention_grows_def)
  with r'(1) assms(5,6) show ?thesis
    by (auto simp: PrivacyDeleteReceipt_def hash_privacy_input_def hashJSON_def)
qed

definition demo_hold :: retention_input where
  "demo_hold = \<lparr>rn_receiptId = ''receipt_000001'', rn_retainUntil = (0, 0), rn_legalHold = True, rn_idempotencyKey = ''k2''\<rparr>"

definition demo_held :: ledger_store where
  "demo_held = snd (UpdateReceiptRetention demo_hashing demo_hold demo_store)"

definition demo_deletion :: privacy_input where
  "demo_deletion = \<lparr>pd_receiptId = ''receipt_000001'', pd_reason = ''request'', pd_idempotencyKey = ''k3''\<rparr>"

lemma demo_held_step: "(ledger_step demo_hashing)\<^sup>*\<^sup>* demo_store demo_held"
  unfolding demo_held_def
  by (rule r_into_rtranclp) (rule ledger_step.retention [of demo_hashing demo_hold demo_store, OF surjective_pairing])

lemma demo_held_reachable: "ledger_reachable demo_hashing demo_held"
  by (rule reachable_steps [OF demo_store_reachable demo_held_step])

lemma demo_held_receipt:
  "map_option (\<lambda>r. rt_legalHold (rc_retention r)) (ls_receipts demo_held ''receipt_000001'') = Some True"
  by code_simp

lemma demo_store_receipt: "ls_receipts demo_store ''receipt_000001'' \<noteq> None"
  by code_simp

lemma demo_held_unused: "ls_idempotency demo_held (privacy_key (pd_idempotencyKey demo_deletion)) = None"
  by code_simp

lemma demo_deletion_ok: "privacy_input_ok demo_deletion"
  by code_simp

lemma ledger_append_only_witness:
  "\<exists>r r'. ls_receipts demo_store ''receipt_000001'' = Some r \<and> ls_receipts demo_held ''receipt_000001'' = Some r' \<and>
     receipt_evolves r r'"
proof -
  obtain r where "ls_receipts demo_store ''receipt_000001'' = Some r" using demo_store_receipt by blast
  with ledger_append_only [OF demo_store_reachable demo_held_step this] show ?thesis by blast
qed

lemma protected_receipt_witness:
  "snd (PrivacyDeleteReceipt demo_hashing (3, 3) demo_deletion demo_held) = demo_held"
proof -
  obtain r where r: "ls_receipts demo_held (pd_receiptId demo_deletion) = Some r" "rt_legalHold (rc_retention r)"
    using demo_held_receipt by (auto simp: demo_deletion_def)
  from protected_receipt_not_redacted [OF demo_held_reachable rtranclp.rtrancl_refl r(1) disjI1 [OF r(2)]
      demo_deletion_ok demo_held_unused]
  show ?thesis by simp
qed

end
