(* ===== verification/Ledger_Policies.thy ===== *)
theory Ledger_Policies
  imports Ledger_Invariant Ledger_Gate
begin

text \<open>
  Review policies in the store: one active policy per execution identity, the idempotency of
  their creation, and the gate as the store evaluates it.
\<close>

section \<open>Searches\<close>

lemma find_unique:
  assumes "set xs = set ys" and "\<And>x y. x \<in> set xs \<Longrightarrow> y \<in> set xs \<Longrightarrow> P x \<Longrightarrow> P y \<Longrightarrow> x = y"
  shows "find P xs = find P ys"
proof (cases "\<exists>x \<in> set xs. P x")
  case False
  with assms(1) show ?thesis by (simp add: find_None_iff [THEN iffD2])
next
  case True
  then obtain x where x: "x \<in> set xs" "P x" by blast
  have "find P zs = Some x" if "set zs = set xs" for zs
  proof (cases "find P zs")
    case None
    with x that show ?thesis by (auto simp: find_None_iff)
  next
    case (Some y)
    then have "y \<in> set zs" "P y" by (auto simp: find_Some_iff)
    with assms(2) x that Some show ?thesis by auto
  qed
  with assms(1) show ?thesis by simp
qed

section \<open>One active policy per identity\<close>

definition policies_ok :: "ledger_store \<Rightarrow> bool" where
  "policies_ok s \<longleftrightarrow>
     (\<forall>pid p. ls_reviewPolicies s pid = Some p \<longrightarrow> po_policyId p = pid \<and> pid \<noteq> []) \<and>
     (\<forall>pid p pid' p'. ls_reviewPolicies s pid = Some p \<longrightarrow> ls_reviewPolicies s pid' = Some p' \<longrightarrow>
        po_status p = ''active'' \<longrightarrow> po_status p' = ''active'' \<longrightarrow> identity_of p = identity_of p' \<longrightarrow> pid = pid') \<and>
     (\<forall>k rec. ls_reviewPolicyIdempotency s k = Some rec \<longrightarrow> (\<exists>p. ir_result rec = ResPolicy p))"

lemma mk_policy_fields [simp]:
  "po_policyId (mk_policy hx i now) = evidenceID hx ''review-policy'' (pi_idempotencyKey i)"
  "po_status (mk_policy hx i now) = ''active''" "identity_of (mk_policy hx i now) = identity_of i"
  "pi_version (mk_policy hx i now) = pi_version i"
  by (simp_all add: mk_policy_def identity_of_def exec_identity.defs policy_input.defs review_policy.defs)

lemma identity_of_status [simp]: "identity_of (p\<lparr>po_status := x\<rparr>) = identity_of p"
  by (simp add: identity_of_def exec_identity.defs)

lemma evidenceID_nonempty [simp]: "evidenceID hx prefix key \<noteq> []"
  by (simp add: evidenceID_def)

lemma policy_obstacle_None:
  assumes "range_order ord (ls_reviewPolicies s)" "policy_obstacle ord i s = None"
  shows "if pi_supersedesPolicyId i = [] then
           \<forall>pid p. ls_reviewPolicies s pid = Some p \<longrightarrow> po_status p = ''active'' \<longrightarrow> identity_of p \<noteq> identity_of i
         else \<exists>p. ls_reviewPolicies s (pi_supersedesPolicyId i) = Some p \<and> po_status p = ''active'' \<and>
                  identity_of p = identity_of i \<and> pi_version p \<noteq> pi_version i"
  using assms(2) range_values_set [OF assms(1)]
  by (auto simp: policy_obstacle_def list_ex_iff active_for_def sameExecutionIdentity_def ran_def
      split: option.splits if_splits)

lemma store_policy_ok:
  assumes "policies_ok s" "range_order ord (ls_reviewPolicies s)" "policy_obstacle ord i s = None"
    and "store_policy hx now h i s = (x, s')"
  shows "policies_ok s'"
proof -
  let ?p = "mk_policy hx i now" and ?m = "ls_reviewPolicies s" and ?sid = "pi_supersedesPolicyId i"
  have old: "po_policyId p = pid" "pid \<noteq> []" if "?m pid = Some p" for pid p
    using assms(1) that by (auto simp: policies_ok_def)
  have uniq: "pid = pid'" if "?m pid = Some p" "?m pid' = Some p'" "po_status p = ''active''"
    "po_status p' = ''active''" "identity_of p = identity_of p'" for pid pid' p p'
    using assms(1) that unfolding policies_ok_def by blast
  have idem: "\<exists>p. ir_result rec = ResPolicy p" if "ls_reviewPolicyIdempotency s' k = Some rec" for k rec
    using assms(1,4) that by (auto simp: policies_ok_def store_policy_def Let_def split: if_splits)
  show ?thesis
  proof (cases "?sid = []")
    case True
    have no: "identity_of p \<noteq> identity_of i" if "?m pid = Some p" "po_status p = ''active''" for pid p
      using policy_obstacle_None [OF assms(2,3)] True that by auto
    have m: "ls_reviewPolicies s' = ?m(po_policyId ?p \<mapsto> ?p)"
      using assms(4) True by (auto simp: store_policy_def Let_def)
    show ?thesis
      unfolding policies_ok_def m using idem old uniq no by (auto split: if_splits elim: no [THEN notE] no [THEN not_sym, THEN notE])
  next
    case False
    then obtain q where q: "?m ?sid = Some q" "po_status q = ''active''" "identity_of q = identity_of i"
      using policy_obstacle_None [OF assms(2,3)] by auto
    show ?thesis
    proof (cases "?sid = po_policyId ?p")
      case True
      have m: "ls_reviewPolicies s' = ?m(po_policyId ?p \<mapsto> ?p\<lparr>po_status := ''superseded''\<rparr>)"
        using assms(4) False True by (auto simp: store_policy_def Let_def)
      show ?thesis
        unfolding policies_ok_def m using idem old uniq by (auto split: if_splits)
    next
      case ne: False
      have m: "ls_reviewPolicies s' = ?m(po_policyId ?p \<mapsto> ?p, ?sid \<mapsto> q\<lparr>po_status := ''superseded''\<rparr>)"
        using assms(4) False ne q(1) old [OF q(1)] by (auto simp: store_policy_def Let_def)
      have only: "pid = ?sid" if "?m pid = Some p" "po_status p = ''active''" "identity_of p = identity_of i" for pid p
        using uniq [OF that(1) q(1) that(2) q(2)] that(3) q(3) by simp
      show ?thesis
        unfolding policies_ok_def m using idem old uniq only ne old [OF q(1)] by (auto split: if_splits dest: sym)
    qed
  qed
qed

lemma CreateReviewPolicy_ok:
  assumes "policies_ok s" "range_order (snd env) (ls_reviewPolicies s)" "CreateReviewPolicy hx env i s = (x, s')"
  shows "policies_ok s'"
  using assms store_policy_ok [OF assms(1,2)]
  by (auto simp: CreateReviewPolicy_def Let_def split: option.splits if_splits idem_result.splits)

text \<open>The other commands leave the policies alone.\<close>

lemma RecordReceipt_policies:
  "ls_reviewPolicies (snd (RecordReceipt hx now i s)) = ls_reviewPolicies s \<and>
   ls_reviewPolicyIdempotency (snd (RecordReceipt hx now i s)) = ls_reviewPolicyIdempotency s"
proof (cases "RecordReceipt hx now i s")
  case (Pair x s')
  show ?thesis
  proof (cases x)
    case (Inl e)
    with Pair RecordReceipt_Err show ?thesis by fastforce
  next
    case (Inr r)
    from Pair [unfolded Inr] show ?thesis
      by (cases rule: RecordReceipt_OkE) (simp_all add: Pair add_receipt_def)
  qed
qed

lemma store_retention_policies:
  "ls_reviewPolicies (snd (store_retention key h rid r s)) = ls_reviewPolicies s"
  "ls_reviewPolicyIdempotency (snd (store_retention key h rid r s)) = ls_reviewPolicyIdempotency s"
  by (simp_all add: store_retention_def Let_def)

lemma policies_ok_cong:
  "ls_reviewPolicies s' = ls_reviewPolicies s \<Longrightarrow> ls_reviewPolicyIdempotency s' = ls_reviewPolicyIdempotency s \<Longrightarrow>
   policies_ok s \<Longrightarrow> policies_ok s'"
  by (simp add: policies_ok_def)

definition same_policies :: "ledger_store \<Rightarrow> ledger_store \<Rightarrow> bool" where
  "same_policies s s' \<longleftrightarrow>
     ls_reviewPolicies s' = ls_reviewPolicies s \<and> ls_reviewPolicyIdempotency s' = ls_reviewPolicyIdempotency s"

lemma ledger_step_policies:
  assumes "ledger_step hx s s'"
  obtains "same_policies s s'"
  | env i x where "range_order (snd env) (ls_reviewPolicies s)" "CreateReviewPolicy hx env i s = (x, s')"
  using assms
proof (cases rule: ledger_step.cases)
  case (receipt now i x)
  with RecordReceipt_policies [of hx now i s] that(1) show ?thesis by (simp add: same_policies_def)
next
  case (retention i x)
  then show ?thesis
    by (cases rule: UpdateReceiptRetention_cases)
      (use that(1) store_retention_policies in \<open>auto simp: same_policies_def dest!: arg_cong [of _ _ snd]\<close>)
next
  case (privacy now i x)
  from privacy(2) show ?thesis
    by (cases rule: PrivacyDeleteReceipt_cases)
      (use that(1) store_retention_policies in \<open>auto simp: same_policies_def dest!: arg_cong [of _ _ snd]\<close>)
next
  case (artifact now i x)
  then show ?thesis
    using RecordArtifact_state [of hx now i s] RecordReceipt_policies that(1) by (auto simp: same_policies_def)
next
  case (review now i x)
  then show ?thesis
    using RecordReview_state [of hx now i s] RecordReceipt_policies that(1) by (auto simp: same_policies_def)
next
  case (policy env i x)
  with that(2) show ?thesis by blast
next
  case (reconciliation now i x)
  with RecordReconciliation_receipts that(1) show ?thesis by (auto simp: same_policies_def)
qed

lemma policies_ok_step: "policies_ok s \<Longrightarrow> ledger_step hx s s' \<Longrightarrow> policies_ok s'"
  by (erule ledger_step_policies) (auto simp: same_policies_def intro: policies_ok_cong CreateReviewPolicy_ok)

lemma policies_ok_new: "policies_ok NewMemoryStore"
  by (simp add: policies_ok_def NewMemoryStore_def)

lemma reachable_policies: "ledger_reachable hx s \<Longrightarrow> policies_ok s"
  unfolding ledger_reachable_def
  by (induction rule: rtranclp_induct) (auto intro: policies_ok_new policies_ok_step)

section \<open>Creation under an idempotency key\<close>

definition policy_seen :: "string \<Rightarrow> ledger_store \<Rightarrow> string option" where
  "policy_seen k s = map_option ir_payloadHash (ls_reviewPolicyIdempotency s k)"

lemma store_policy_idempotency:
  "store_policy hx now h i s = (x, s') \<Longrightarrow>
     (\<exists>p. x = Ok p \<and> ls_reviewPolicyIdempotency s' =
        (ls_reviewPolicyIdempotency s)(pi_idempotencyKey i \<mapsto> \<lparr>ir_payloadHash = h, ir_result = ResPolicy p\<rparr>))"
  by (auto simp: store_policy_def Let_def)

lemma CreateReviewPolicy_Err: "CreateReviewPolicy hx env i s = (Err e, s') \<Longrightarrow> s' = s"
  by (auto simp: CreateReviewPolicy_def Let_def dest!: store_policy_idempotency
      split: option.splits if_splits idem_result.splits)

lemma CreateReviewPolicy_seen:
  "CreateReviewPolicy hx env i s = (Ok r, s') \<Longrightarrow>
     validateReviewPolicyInput i = None \<and> hash_policy_input hx i \<noteq> None \<and>
     policy_seen (pi_idempotencyKey i) s' = hash_policy_input hx i"
  by (auto simp: CreateReviewPolicy_def Let_def policy_seen_def dest!: store_policy_idempotency
      split: option.splits if_splits idem_result.splits)

lemma CreateReviewPolicy_grows:
  "CreateReviewPolicy hx env i s = (x, s') \<Longrightarrow> ls_reviewPolicyIdempotency s k = Some rec \<Longrightarrow>
   ls_reviewPolicyIdempotency s' k = Some rec"
  by (auto simp: CreateReviewPolicy_def Let_def dest!: store_policy_idempotency
      split: option.splits if_splits idem_result.splits)

lemma policy_seen_step:
  "ledger_step hx s s' \<Longrightarrow> policy_seen k s = Some h \<Longrightarrow> policy_seen k s' = Some h"
  by (erule ledger_step_policies) (auto simp: policy_seen_def same_policies_def dest: CreateReviewPolicy_grows)

interpretation create_policy: atomic_command
    "CreateReviewPolicy hx" pi_idempotencyKey policy_seen "hash_policy_input hx" "\<lambda>i. validateReviewPolicyInput i = None"
    policies_ok "ledger_step hx" "\<lambda>env s. range_order (snd env) (ls_reviewPolicies s)" ErrIdempotencyConflict for hx
proof unfold_locales
  show "CreateReviewPolicy hx env i s = (Err e, s') \<Longrightarrow> s' = s" for env i s e s'
    by (rule CreateReviewPolicy_Err)
  show "validateReviewPolicyInput i = None \<and> hash_policy_input hx i \<noteq> None \<and>
        policy_seen (pi_idempotencyKey i) s' = hash_policy_input hx i \<and> policies_ok s'"
    if "policies_ok s" "range_order (snd env) (ls_reviewPolicies s)" "CreateReviewPolicy hx env i s = (Ok r, s')"
    for s env i r s'
    using CreateReviewPolicy_seen [OF that(3)] CreateReviewPolicy_ok [OF that] by simp
  show "\<exists>r. CreateReviewPolicy hx env i s = (Ok r, s)"
    if "policies_ok s" "validateReviewPolicyInput i = None" "hash_policy_input hx i = Some h"
      "policy_seen (pi_idempotencyKey i) s = Some h" for s i h env
  proof -
    from that(4) obtain rec where "ls_reviewPolicyIdempotency s (pi_idempotencyKey i) = Some rec" "ir_payloadHash rec = h"
      by (auto simp: policy_seen_def)
    moreover from this that(1) obtain p where "ir_result rec = ResPolicy p"
      unfolding policies_ok_def by blast
    ultimately show ?thesis using that(2,3) by (simp add: CreateReviewPolicy_def Let_def)
  qed
  show "CreateReviewPolicy hx env i s = (Err ErrIdempotencyConflict, s)"
    if "policies_ok s" "validateReviewPolicyInput i = None" "hash_policy_input hx i = Some h"
      "policy_seen (pi_idempotencyKey i) s = Some h'" "h \<noteq> h'" for s i h h' env
    using that by (auto simp: CreateReviewPolicy_def policy_seen_def)
  show "policy_seen k s' = Some h" if "policies_ok s" "ledger_step hx s s'" "policy_seen k s = Some h" for s s' k h
    by (rule policy_seen_step [OF that(2,3)])
  show "policies_ok s'" if "policies_ok s" "ledger_step hx s s'" for s s'
    by (rule policies_ok_step [OF that])
qed

section \<open>The gate over the store\<close>

definition gate_reviews :: "orders \<Rightarrow> string list \<Rightarrow> ledger_store \<Rightarrow> review list" where
  "gate_reviews ord ids s =
     map reviewFromReceipt
       (filter (\<lambda>r. ri_reviewId r \<in> set ids \<and> ri_type r = reviewReceiptType) (range_values (snd ord) (ls_receipts s)))"

lemma gate_reviews_set:
  assumes "range_order (snd ord) (ls_receipts s)" "range_order (snd ord') (ls_receipts s)"
  shows "set (gate_reviews ord ids s) = set (gate_reviews ord' ids s)"
  using assms by (auto simp: gate_reviews_def range_values_set)

lemma evaluateReviewGateLocked_eq:
  "evaluateReviewGateLocked ord i s =
     (if \<not> validExecutionIdentity (identity_of i) then Err ErrInvalidReviewGateInput
      else case find (active_for (identity_of i)) (range_values (fst ord) (ls_reviewPolicies s)) of
             None \<Rightarrow> Err ErrReviewPolicyNotFound
           | Some p \<Rightarrow> if po_policyId p = [] then Err ErrReviewPolicyNotFound
                       else Ok (evaluateReviewGate p (gate_reviews ord (gi_reviewIds i) s)))"
  by (simp only: evaluateReviewGateLocked_def gate_reviews_def)

lemma active_policy_unique:
  assumes "policies_ok s" "p \<in> ran (ls_reviewPolicies s)" "q \<in> ran (ls_reviewPolicies s)"
    and "active_for ident p" "active_for ident q"
  shows "p = q"
proof -
  from assms(2,3) obtain pid qid where a: "ls_reviewPolicies s pid = Some p" "ls_reviewPolicies s qid = Some q"
    by (auto simp: ran_def)
  moreover have "pid = qid"
    using assms(1,4,5) a unfolding policies_ok_def active_for_def sameExecutionIdentity_def by metis
  ultimately show ?thesis by simp
qed

lemma gate_policy_order:
  assumes "policies_ok s" "range_order ks (ls_reviewPolicies s)" "range_order ks' (ls_reviewPolicies s)"
  shows "find (active_for ident) (range_values ks (ls_reviewPolicies s)) =
         find (active_for ident) (range_values ks' (ls_reviewPolicies s))"
  by (rule find_unique) (use assms range_values_set active_policy_unique in blast)+

text \<open>What a caller can tell apart in an answer of the gate.\<close>

definition gate_answer :: "(ledger_error, gate_result) res \<Rightarrow> (ledger_error, string \<times> string \<times> string \<times> bool) res" where
  "gate_answer x = map_sum id (\<lambda>g. (gr_policyId g, gr_policyVersion g, gr_status g, gr_continuationEligible g)) x"

lemma gate_answer_set:
  "set vs = set ws \<Longrightarrow> gate_answer (Ok (evaluateReviewGate p vs)) = gate_answer (Ok (evaluateReviewGate p ws))"
  by (simp add: gate_answer_def gate_refines(1,2,4,5) reviewer_verdict_set [of vs ws])

text \<open>C22: an execution identity never has two active review policies, whatever was created or
  superseded in whatever order.\<close>

theorem one_active_policy:
  assumes "ledger_reachable hx s" and "ls_reviewPolicies s pid = Some p" and "ls_reviewPolicies s qid = Some q"
    and "po_status p = ''active''" and "po_status q = ''active''" and "identity_of p = identity_of q"
  shows "pid = qid"
  using reachable_policies [OF assms(1)] assms(2-6) unfolding policies_ok_def by blast

text \<open>So the gate the store evaluates is a function of its contents: the order in which the runtime
  ranges over policies and receipts does not change the answer.\<close>

theorem gate_is_deterministic:
  assumes "ledger_reachable hx s"
    and "range_order (fst ord) (ls_reviewPolicies s)" and "range_order (snd ord) (ls_receipts s)"
    and "range_order (fst ord') (ls_reviewPolicies s)" and "range_order (snd ord') (ls_receipts s)"
  shows "gate_answer (EvaluateReviewGate ord i s) = gate_answer (EvaluateReviewGate ord' i s)"
  using gate_policy_order [OF reachable_policies [OF assms(1)] assms(2,4)]
    gate_answer_set [OF gate_reviews_set [OF assms(3,5)]]
  unfolding EvaluateReviewGate_def evaluateReviewGateLocked_eq
  by (auto split: option.splits)

section \<open>A store with a superseded policy\<close>

definition demo_policy_hashing :: hashing where
  "demo_policy_hashing = \<lparr>hx_bytes = (\<lambda>s. s), hx_json = (\<lambda>v. case v of GObj m \<Rightarrow> str_of (mget m ''version'') | _ \<Rightarrow> [])\<rparr>"

definition demo_identity :: exec_identity where
  "demo_identity = \<lparr>ei_organizationId = ''o'', ei_workspaceId = ''w'', ei_projectId = ''p'', ei_taskId = ''t'', ei_jobId = ''j''\<rparr>"

definition demo_policy :: "string \<Rightarrow> string \<Rightarrow> string \<Rightarrow> policy_input" where
  "demo_policy version supersedes key =
     exec_identity.extend demo_identity
       (policy_input.fields version [\<lparr>rq_reviewerRef = ''alice'', rq_reviewerVersion = ''v1''\<rparr>] supersedes key)"

definition demo_policies1 :: ledger_store where
  "demo_policies1 = snd (CreateReviewPolicy demo_policy_hashing (1, []) (demo_policy ''1'' [] ''k1'') NewMemoryStore)"

definition demo_policies :: ledger_store where
  "demo_policies =
     snd (CreateReviewPolicy demo_policy_hashing (2, [''review-policy-k1'']) (demo_policy ''2'' ''review-policy-k1'' ''k2'') demo_policies1)"

lemma demo_policies1_dom: "ls_reviewPolicies demo_policies1 = [''review-policy-k1'' \<mapsto> mk_policy demo_policy_hashing (demo_policy ''1'' [] ''k1'') 1]"
proof -
  have "validateReviewPolicyInput (demo_policy ''1'' [] ''k1'') = None" by code_simp
  moreover have "hash_policy_input demo_policy_hashing (demo_policy ''1'' [] ''k1'') = Some ''1''" by code_simp
  moreover have "policy_obstacle [] (demo_policy ''1'' [] ''k1'') NewMemoryStore = None" by code_simp
  moreover have "pi_supersedesPolicyId (demo_policy ''1'' [] ''k1'') = []" by code_simp
  moreover have "evidenceID demo_policy_hashing ''review-policy'' (pi_idempotencyKey (demo_policy ''1'' [] ''k1'')) = ''review-policy-k1''"
    by code_simp
  ultimately show ?thesis
    by (simp add: demo_policies1_def CreateReviewPolicy_def store_policy_def NewMemoryStore_def Let_def)
qed

lemma demo_policies_reachable: "ledger_reachable demo_policy_hashing demo_policies"
proof -
  have "ledger_step demo_policy_hashing NewMemoryStore demo_policies1"
    unfolding demo_policies1_def
    by (rule ledger_step.policy [OF _ surjective_pairing]) (simp add: range_order_def NewMemoryStore_def)
  moreover have "ledger_step demo_policy_hashing demo_policies1 demo_policies"
    unfolding demo_policies_def
    by (rule ledger_step.policy [OF _ surjective_pairing]) (simp add: range_order_def demo_policies1_dom)
  ultimately show ?thesis unfolding ledger_reachable_def by (meson r_into_rtranclp rtranclp_trans)
qed

lemma demo_policies_active:
  "map_option (\<lambda>p. (po_status p, identity_of p)) (ls_reviewPolicies demo_policies ''review-policy-k2'') = Some (''active'', demo_identity)"
  by code_simp

lemma one_active_policy_witness:
  "{pid. \<exists>p. ls_reviewPolicies demo_policies pid = Some p \<and> po_status p = ''active'' \<and> identity_of p = demo_identity} =
   {''review-policy-k2''}"
proof -
  from demo_policies_active obtain p where p: "ls_reviewPolicies demo_policies ''review-policy-k2'' = Some p"
    "po_status p = ''active''" "identity_of p = demo_identity" by auto
  have "pid = ''review-policy-k2''"
    if "ls_reviewPolicies demo_policies pid = Some q" "po_status q = ''active''" "identity_of q = demo_identity" for pid q
    by (rule one_active_policy [OF demo_policies_reachable that(1) p(1) that(2) p(2)]) (simp add: that(3) p(3))
  with p show ?thesis by blast
qed

lemma demo_policies_dom: "dom (ls_reviewPolicies demo_policies) = {''review-policy-k1'', ''review-policy-k2''}"
proof -
  let ?i = "demo_policy ''2'' ''review-policy-k1'' ''k2''"
  have "validateReviewPolicyInput ?i = None" "hash_policy_input demo_policy_hashing ?i = Some ''2''"
    "ls_reviewPolicyIdempotency demo_policies1 (pi_idempotencyKey ?i) = None"
    "policy_obstacle [''review-policy-k1''] ?i demo_policies1 = None" "pi_supersedesPolicyId ?i = ''review-policy-k1''"
    "evidenceID demo_policy_hashing ''review-policy'' (pi_idempotencyKey ?i) = ''review-policy-k2''"
    "evidenceID demo_policy_hashing ''review-policy'' (pi_idempotencyKey (demo_policy ''1'' [] ''k1'')) = ''review-policy-k1''"
    by code_simp+
  then show ?thesis
    by (auto simp: demo_policies_def CreateReviewPolicy_def store_policy_def Let_def demo_policies1_dom)
qed

lemma demo_policies_receipts: "ls_receipts demo_policies = Map.empty"
  using CreateReviewPolicy_receipts [of demo_policy_hashing "(1, [])" "demo_policy ''1'' [] ''k1''" NewMemoryStore, OF surjective_pairing]
    CreateReviewPolicy_receipts [of demo_policy_hashing "(2, [''review-policy-k1''])" "demo_policy ''2'' ''review-policy-k1'' ''k2''" demo_policies1, OF surjective_pairing]
  by (simp add: demo_policies1_def demo_policies_def NewMemoryStore_def)

lemma gate_is_deterministic_witness:
  "gate_answer (EvaluateReviewGate ([''review-policy-k1'', ''review-policy-k2''], []) (exec_identity.extend demo_identity (gate_input.fields [])) demo_policies) =
   gate_answer (EvaluateReviewGate ([''review-policy-k2'', ''review-policy-k1''], []) (exec_identity.extend demo_identity (gate_input.fields [])) demo_policies)"
  by (rule gate_is_deterministic [OF demo_policies_reachable])
    (auto simp: range_order_def demo_policies_dom demo_policies_receipts)

end
