(* ===== verification/Ledger_Pages.thy ===== *)
theory Ledger_Pages
  imports Ledger_Policies Ledger_Commands "HOL-Library.Multiset"
begin

text \<open>
  Reading the Ledger: the pages of a listing follow one another without a gap or a repetition,
  a continuation is shown only behind an open gate, and artifacts and reviews read back as they
  were recorded.
\<close>

section \<open>Sorting by position\<close>

lemma insort_key_map:
  "(\<And>y. y \<in> set ys \<Longrightarrow> f (g y) = f y) \<Longrightarrow> f (g x) = f x \<Longrightarrow>
   insort_key f (g x) (map g ys) = map g (insort_key f x ys)"
  by (induction ys) auto

lemma sort_key_map: "(\<And>x. x \<in> set xs \<Longrightarrow> f (g x) = f x) \<Longrightarrow> sort_key f (map g xs) = map g (sort_key f xs)"
proof (induction xs)
  case (Cons x xs)
  then have "sort_key f (map g xs) = map g (sort_key f xs)" by simp
  moreover have "insort_key f (g x) (map g (sort_key f xs)) = map g (insort_key f x (sort_key f xs))"
    by (rule insort_key_map) (simp_all add: Cons.prems)
  ultimately show ?case by simp
qed simp

lemma sorted_strict:
  assumes "inj_on f (set xs)" "distinct xs"
  shows "sorted_wrt (\<lambda>x y. f x < f y) (sort_key f xs)"
proof -
  have "sorted (map f (sort_key f xs))" by simp
  moreover have "distinct (map f (sort_key f xs))" using assms by (simp add: distinct_map)
  ultimately have "sorted_wrt (<) (map f (sort_key f xs))" by (simp add: strict_sorted_iff)
  then show ?thesis by (simp add: sorted_wrt_map)
qed

lemma filter_after:
  fixes f :: "'a \<Rightarrow> 'b :: linorder"
  assumes "sorted_wrt (\<lambda>x y. f x < f y) xs" "0 < k" "k \<le> length xs"
  shows "filter (\<lambda>x. f (xs ! (k - 1)) < f x) xs = drop k xs"
proof -
  have lt: "f (xs ! i) < f (xs ! j)" if "i < j" "j < length xs" for i j
    using assms(1) that by (simp add: sorted_wrt_iff_nth_less)
  have "\<not> f (xs ! (k - 1)) < f x" if x: "x \<in> set (take k xs)" for x
  proof -
    from x obtain i where i: "i < k" "x = xs ! i" using assms(3) by (auto simp: in_set_conv_nth)
    show ?thesis
    proof (cases "i = k - 1")
      case False
      with i(1) have "i < k - 1" by simp
    with assms(2,3) lt [of i "k - 1"] i(2) show ?thesis by (simp add: less_imp_le not_less)
    qed (use i in simp)
  qed
  then have "filter (\<lambda>x. f (xs ! (k - 1)) < f x) (take k xs) = []" by (simp add: filter_empty_conv)
  moreover have "f (xs ! (k - 1)) < f x" if x: "x \<in> set (drop k xs)" for x
  proof -
    from x obtain i where "i < length xs - k" "x = xs ! (k + i)" by (auto simp: in_set_conv_nth)
    with assms(2) lt [of "k - 1" "k + i"] show ?thesis by simp
  qed
  then have "filter (\<lambda>x. f (xs ! (k - 1)) < f x) (drop k xs) = drop k xs" by (simp add: filter_id_conv)
  ultimately have "filter (\<lambda>x. f (xs ! (k - 1)) < f x) (take k xs @ drop k xs) = drop k xs" by (simp only: filter_append append_Nil)
  then show ?thesis by (simp only: append_take_drop_id)
qed

section \<open>The listing behind the pages\<close>

definition read_receipt :: "orders \<Rightarrow> ledger_store \<Rightarrow> receipt \<Rightarrow> receipt" where
  "read_receipt ord s r = receiptForRead (clone_receipt r) (receipt_gate ord r s)"

definition listing :: "orders \<Rightarrow> receipt_query \<Rightarrow> ledger_store \<Rightarrow> receipt list" where
  "listing ord q s =
     map (read_receipt ord s) (sort_key receipt_pos_of (filter (query_matches q) (range_values (snd ord) (ls_receipts s))))"

lemma read_pos: "stored_form r \<Longrightarrow> receipt_pos_of (read_receipt ord s r) = receipt_pos_of r"
  by (simp add: read_receipt_def clone_stored receiptForRead_def receipt_pos_of_def)

lemma range_values_distinct:
  assumes "range_order ks m" "\<And>k v. m k = Some v \<Longrightarrow> f v = k"
  shows "distinct (range_values ks m)"
proof -
  have "distinct ks" "set ks \<subseteq> dom m" using assms(1) by (auto simp: range_order_def)
  then show ?thesis
  proof (induction ks)
    case (Cons k ks)
    then obtain v where v: "m k = Some v" by auto
    have "v \<notin> set (List.map_filter m ks)"
      using Cons.prems v by (auto simp: map_filter_def) (metis assms(2))
    with Cons v show ?case by (simp add: range_values_def map_filter_simps)
  qed (simp add: range_values_def map_filter_simps)
qed

lemma after_cursor_pos:
  "cu_createdAt c \<noteq> 0 \<Longrightarrow> after_cursor c r \<longleftrightarrow> Pos (cu_createdAt c) (cu_receiptId c) < receipt_pos_of r"
  by (auto simp: after_cursor_def less_receipt_pos_def receipt_pos_of_def not_le)

definition stored_receipts_ok :: "orders \<Rightarrow> ledger_store \<Rightarrow> bool" where
  "stored_receipts_ok ord s \<longleftrightarrow> receipts_ok s \<and> range_order (snd ord) (ls_receipts s)"

lemma stored_receipt:
  assumes "stored_receipts_ok ord s" "r \<in> set (range_values (snd ord) (ls_receipts s))"
  shows "stored_form r" "0 < rc_createdAt r" "rc_receiptId r \<noteq> []" "ls_receipts s (rc_receiptId r) = Some r"
proof -
  obtain rid where rid: "ls_receipts s rid = Some r" using assms by (auto simp: stored_receipts_ok_def range_values_set ran_def)
  have "receipts_ok s" using assms(1) by (simp add: stored_receipts_ok_def)
  with rid obtain n where r: "stored_form r" "rc_receiptId r = rid" "0 < rc_createdAt r" "rid = receipt_id n"
    unfolding receipts_ok_def by blast
  with rid show "stored_form r" "0 < rc_createdAt r" "rc_receiptId r \<noteq> []" "ls_receipts s (rc_receiptId r) = Some r"
    by (simp_all add: receipt_id_def)
qed

lemma stored_distinct: "stored_receipts_ok ord s \<Longrightarrow> distinct (range_values (snd ord) (ls_receipts s))"
  unfolding stored_receipts_ok_def
  by (rule range_values_distinct [of _ _ rc_receiptId]) (auto simp: receipts_ok_def)

lemma stored_inj: "stored_receipts_ok ord s \<Longrightarrow> inj_on receipt_pos_of (set (range_values (snd ord) (ls_receipts s)))"
  by (rule inj_onI) (metis receipt_pos.inject receipt_pos_of_def stored_receipt(4) option.inject)

lemma listing_raw_strict:
  "stored_receipts_ok ord s \<Longrightarrow>
   sorted_wrt (\<lambda>x y. receipt_pos_of x < receipt_pos_of y)
     (sort_key receipt_pos_of (filter (query_matches q) (range_values (snd ord) (ls_receipts s))))"
  by (rule sorted_strict) (auto intro: inj_on_subset [OF stored_inj] simp: stored_distinct)

definition after_index :: "nat \<Rightarrow> receipt list \<Rightarrow> receipt_cursor" where
  "after_index k rs =
     (if k = 0 then no_cursor else \<lparr>cu_createdAt = rc_createdAt (rs ! (k - 1)), cu_receiptId = rc_receiptId (rs ! (k - 1))\<rparr>)"

lemma listing_after:
  assumes ok: "stored_receipts_ok ord s" and k: "k \<le> length (listing ord q s)"
  shows "sort_key receipt_pos_of (map (read_receipt ord s)
           (filter (\<lambda>r. query_matches q r \<and> after_cursor (after_index k (listing ord q s)) r)
             (range_values (snd ord) (ls_receipts s)))) = drop k (listing ord q s)"
proof -
  let ?vs = "range_values (snd ord) (ls_receipts s)" and ?c = "after_index k (listing ord q s)"
  let ?raw = "sort_key receipt_pos_of (filter (query_matches q) ?vs)"
  have st: "stored_form r" if "r \<in> set ?vs" for r using stored_receipt(1) [OF ok that] .
  have "filter (after_cursor ?c) ?raw = drop k ?raw"
  proof (cases "k = 0")
    case True
    then show ?thesis by (simp add: after_index_def no_cursor_def after_cursor_def)
  next
    case False
    have k': "k - 1 < length ?raw" "0 < k" "k \<le> length ?raw" using k False by (auto simp: listing_def)
    define r where "r = ?raw ! (k - 1)"
    have r: "r \<in> set ?vs" using nth_mem [OF k'(1)] by (simp add: r_def)
    have pos: "Pos (cu_createdAt ?c) (cu_receiptId ?c) = receipt_pos_of r"
      using read_pos [OF st [OF r], of ord s] k' False
      by (simp add: after_index_def listing_def r_def receipt_pos_of_def)
    then have "cu_createdAt ?c \<noteq> 0" using stored_receipt(2) [OF ok r] by (simp add: receipt_pos_of_def)
    from after_cursor_pos [OF this] have "after_cursor ?c = (\<lambda>x. receipt_pos_of (?raw ! (k - 1)) < receipt_pos_of x)"
      by (intro ext) (simp add: pos r_def)
    with filter_after [OF listing_raw_strict [OF ok] k'(2,3)] show ?thesis by simp
  qed
  then have "sort_key receipt_pos_of (filter (\<lambda>r. query_matches q r \<and> after_cursor ?c r) ?vs) = drop k ?raw"
    by (simp add: filter_sort filter_filter conj_commute)
  moreover have "sort_key receipt_pos_of (map (read_receipt ord s) xs) = map (read_receipt ord s) (sort_key receipt_pos_of xs)"
    if "set xs \<subseteq> set ?vs" for xs
    using that st by (intro sort_key_map) (auto intro: read_pos)
  ultimately show ?thesis by (simp add: listing_def drop_map)
qed

lemma read_receipt_order:
  assumes "policies_ok s" "range_order (fst ord) (ls_reviewPolicies s)" "range_order (fst ord') (ls_reviewPolicies s)"
    and "range_order (snd ord) (ls_receipts s)" "range_order (snd ord') (ls_receipts s)"
  shows "read_receipt ord s r = read_receipt ord' s r"
proof -
  let ?ident = "executionIdentityFromReceipt r" and ?ids = "stringSlice (mget (opt_map (ri_continuation r)) ''reviewIds'')"
  let ?i = "gate_input_of ?ident ?ids"
  have "gate_answer (evaluateReviewGateLocked ord ?i s) = gate_answer (evaluateReviewGateLocked ord' ?i s)"
    using gate_policy_order [OF assms(1-3)] gate_answer_set [OF gate_reviews_set [OF assms(4,5)]]
    unfolding evaluateReviewGateLocked_eq by (auto split: option.splits)
  moreover have "receiptForRead x g = receiptForRead x g'" if "gate_answer g = gate_answer g'" for x g g'
    using that by (cases g; cases g') (auto simp: receiptForRead_def gate_answer_def)
  ultimately show ?thesis unfolding read_receipt_def receipt_gate_def by blast
qed

lemma listing_order:
  assumes "ledger_reachable hx s" "range_order (fst ord) (ls_reviewPolicies s)" "range_order (fst ord') (ls_reviewPolicies s)"
    and "range_order (snd ord) (ls_receipts s)" "range_order (snd ord') (ls_receipts s)"
  shows "listing ord q s = listing ord' q s"
proof -
  have ok: "stored_receipts_ok u s" if "range_order (snd u) (ls_receipts s)" for u :: orders
    using reachable_ok [OF assms(1)] that by (simp add: stored_receipts_ok_def ledger_ok_def)
  let ?f = "\<lambda>u :: orders. filter (query_matches q) (range_values (snd u) (ls_receipts s))"
  have "mset (?f ord) = mset (?f ord')"
    using stored_distinct [OF ok [OF assms(4)]] stored_distinct [OF ok [OF assms(5)]] assms(4,5)
    by (subst set_eq_iff_mset_eq_distinct [symmetric]) (simp_all add: range_values_set)
  then have "sort_key receipt_pos_of (?f ord) = sort_key receipt_pos_of (?f ord')"
    by (intro sort_key_inj_key_eq) (auto intro: inj_on_subset [OF stored_inj [OF ok [OF assms(4)]]])
  then show ?thesis
    using read_receipt_order [OF reachable_policies [OF assms(1)] assms(2-5)] by (simp add: listing_def)
qed

section \<open>Pages\<close>

text \<open>What the code relies on in the library's JSON: a time of a year up to 9999 and an identifier of
  plain letters are written as this text and read back from it. The receipts of a store have such
  times and identifiers, so it is asked of their cursors only.\<close>

definition cursor_text :: "receipt_cursor \<Rightarrow> string" where
  "cursor_text c =
     ''{\"createdAt\":\"'' @ format_rfc3339nano (cu_createdAt c) @ ''\",\"receiptId\":\"'' @ cu_receiptId c @ ''\"}''"

definition cursor_json_ok :: "cursor_json \<Rightarrow> bool" where
  "cursor_json_ok cj \<longleftrightarrow>
     (\<forall>t n. clock_ok t \<longrightarrow>
        cj_marshal cj \<lparr>cu_createdAt = t, cu_receiptId = receipt_id n\<rparr> =
          Some (cursor_text \<lparr>cu_createdAt = t, cu_receiptId = receipt_id n\<rparr>) \<and>
        cj_unmarshal cj (cursor_text \<lparr>cu_createdAt = t, cu_receiptId = receipt_id n\<rparr>) =
          Some \<lparr>cu_createdAt = t, cu_receiptId = receipt_id n\<rparr>)"

text \<open>The query a client sends for the page after the first \<open>k\<close> receipts.\<close>

definition page_query :: "cursor_json \<Rightarrow> nat \<Rightarrow> receipt list \<Rightarrow> receipt_query \<Rightarrow> receipt_query" where
  "page_query cj k rs q = q\<lparr>q_cursor := (if k = 0 then [] else encodeReceiptCursor cj (rs ! (k - 1)))\<rparr>"

lemma query_matches_cursor [simp]: "query_matches (q\<lparr>q_cursor := c\<rparr>) = query_matches q"
  by (intro ext) (simp add: query_matches_def)

lemma listing_members:
  assumes "stored_receipts_ok ord s" "r \<in> set (listing ord q s)"
  shows "clock_ok (rc_createdAt r)" "\<exists>n. rc_receiptId r = receipt_id n"
proof -
  obtain r0 where r0: "r0 \<in> set (range_values (snd ord) (ls_receipts s))" "r = read_receipt ord s r0"
    using assms(2) by (auto simp: listing_def)
  note st = stored_receipt [OF assms(1) r0(1)]
  have pos: "rc_createdAt r = rc_createdAt r0" "rc_receiptId r = rc_receiptId r0"
    using read_pos [OF st(1)] r0(2) by (simp_all add: receipt_pos_of_def)
  show "clock_ok (rc_createdAt r)" using st(1,2) by (simp add: pos clock_ok_def stored_form_iff)
  show "\<exists>n. rc_receiptId r = receipt_id n"
    using assms(1) st(4) unfolding pos stored_receipts_ok_def receipts_ok_def by blast
qed

lemma issued_cursor:
  assumes "cursor_json_ok cj" "clock_ok (rc_createdAt r)" "\<exists>n. rc_receiptId r = receipt_id n"
  shows "Option.bind (b64_decode (encodeReceiptCursor cj r)) (cj_unmarshal cj) =
           Some \<lparr>cu_createdAt = rc_createdAt r, cu_receiptId = rc_receiptId r\<rparr>"
    "encodeReceiptCursor cj r \<noteq> []"
  using assms by (auto simp: encodeReceiptCursor_def cursor_json_ok_def b64_roundtrip cursor_text_def)

lemma normalize_page_query:
  assumes "cursor_json_ok cj" "stored_receipts_ok ord s" "k \<le> length (listing ord q s)" "1 \<le> q_limit q" "q_limit q \<le> 100"
  shows "normalizeReceiptQuery cj (page_query cj k (listing ord q s) q) =
           Ok (page_query cj k (listing ord q s) q, after_index k (listing ord q s))"
proof (cases "k = 0")
  case False
  let ?r = "listing ord q s ! (k - 1)"
  have "?r \<in> set (listing ord q s)" using False assms(3) by (intro nth_mem) simp
  note r = listing_members [OF assms(2) this]
  obtain payload where p: "b64_decode (encodeReceiptCursor cj ?r) = Some payload"
    "cj_unmarshal cj payload = Some \<lparr>cu_createdAt = rc_createdAt ?r, cu_receiptId = rc_receiptId ?r\<rparr>"
    using issued_cursor(1) [OF assms(1) r] by (auto simp: bind_eq_Some_conv)
  have "rc_createdAt ?r \<noteq> 0" "rc_receiptId ?r \<noteq> []" using r by (auto simp: clock_ok_def receipt_id_def)
  with False assms(4,5) issued_cursor(2) [OF assms(1) r] p show ?thesis
    by (simp add: normalizeReceiptQuery_def page_query_def after_index_def MaxReceiptPageSize_def Let_def)
qed (use assms(4,5) in \<open>simp add: normalizeReceiptQuery_def page_query_def after_index_def MaxReceiptPageSize_def Let_def\<close>)

text \<open>C23: the pages of a listing follow one another without a gap and without a repetition, newest
  receipt first, and the order of the range loop does not show. A page holds at most the limit; it
  has more exactly when receipts are left, and then its cursor is the one of its last receipt.\<close>

theorem list_pages:
  assumes "ledger_reachable hx s" and "cursor_json_ok cj" and "1 \<le> q_limit q" and "q_limit q \<le> 100"
    and "range_order (fst ord) (ls_reviewPolicies s)" and "range_order (snd ord) (ls_receipts s)"
    and "range_order (fst ord') (ls_reviewPolicies s)" and "range_order (snd ord') (ls_receipts s)"
    and "k \<le> length (listing ord' q s)"
  shows "ListReceipts cj ord (page_query cj k (listing ord' q s) q) s =
    (let rs = listing ord' q s; n = k + nat (q_limit q) in
     Ok \<lparr>pg_receipts = take (nat (q_limit q)) (drop k rs),
         pg_nextCursor = (if n < length rs then encodeReceiptCursor cj (rs ! (n - 1)) else []),
         pg_hasMore = (n < length rs)\<rparr>)"
proof -
  have ok: "stored_receipts_ok ord s"
    using reachable_ok [OF assms(1)] assms(6) by (simp add: stored_receipts_ok_def ledger_ok_def)
  have l: "listing ord' q s = listing ord q s" by (rule listing_order [OF assms(1,7,5,8,6)])
  let ?rs = "listing ord q s" and ?L = "nat (q_limit q)"
  note k = assms(9) [unfolded l]
  have q: "q_limit (page_query cj k ?rs q) = q_limit q" "query_matches (page_query cj k ?rs q) = query_matches q"
    by (simp_all add: page_query_def)
  have a: "sort_key receipt_pos_of (map (\<lambda>r. receiptForRead (clone_receipt r) (receipt_gate ord r s))
      (filter (\<lambda>r. query_matches q r \<and> after_cursor (after_index k ?rs) r) (range_values (snd ord) (ls_receipts s)))) = drop k ?rs"
    using listing_after [OF ok k] by (simp add: read_receipt_def [abs_def])
  have more: "int (length (drop k ?rs)) > q_limit q \<longleftrightarrow> k + ?L < length ?rs" using assms(3) by auto
  have last: "last (take ?L (drop k ?rs)) = ?rs ! (k + ?L - 1)" if "k + ?L < length ?rs"
    using that assms(3) by (subst last_conv_nth) (auto simp: min_def)
  have short: "take ?L (drop k ?rs) = drop k ?rs" if "\<not> k + ?L < length ?rs" using that by simp
  show ?thesis
    unfolding ListReceipts_def l normalize_page_query [OF assms(2) ok k assms(3,4)]
    by (simp only: sum.case prod.case q a more Let_def) (simp add: last short)
qed

section \<open>The text of a cursor, read back\<close>

text \<open>The codec restricted to the text of a cursor: this is how the library writes one, and a reader
  of exactly that text.\<close>

definition after_text :: "string \<Rightarrow> string \<Rightarrow> string option" where
  "after_text p s = (if has_prefix s p then Some (drop (length p) s) else None)"

definition read_cursor_text :: "string \<Rightarrow> receipt_cursor option" where
  "read_cursor_text s = do {
     s \<leftarrow> after_text ''{\"createdAt\":\"'' s;
     (t, _) \<leftarrow> parse_rfc3339 (takeWhile (\<lambda>c. c \<noteq> CHR 0x22) s);
     s \<leftarrow> after_text ''\",\"receiptId\":\"'' (dropWhile (\<lambda>c. c \<noteq> CHR 0x22) s);
     if dropWhile (\<lambda>c. c \<noteq> CHR 0x22) s = ''\"}''
     then Some \<lparr>cu_createdAt = t, cu_receiptId = takeWhile (\<lambda>c. c \<noteq> CHR 0x22) s\<rparr> else None
   }"

definition text_json :: cursor_json where
  "text_json =
     \<lparr>cj_marshal = (\<lambda>c. if 0 \<le> time_year (cu_createdAt c) \<and> time_year (cu_createdAt c) \<le> 9999
                       then Some (cursor_text c) else None),
      cj_unmarshal = read_cursor_text\<rparr>"

abbreviation unquoted :: "string \<Rightarrow> bool" where "unquoted \<equiv> list_all (\<lambda>c. c \<noteq> CHR 0x22)"

lemma digits_unquoted: "list_all is_digit s \<Longrightarrow> unquoted s"
  by (auto simp: list_all_iff is_digit_def)

lemma frac_digits_digits: "list_all is_digit (frac_digits w n)"
  by (induction w arbitrary: n) (auto simp del: pad_nat.simps)

lemma time_unquoted: "unquoted (format_rfc3339nano t)"
  by (simp add: format_rfc3339nano_def local_text_def frac_text_def digits_unquoted frac_digits_digits)

lemma receipt_id_unquoted: "unquoted (receipt_id n)"
  by (simp add: receipt_id_def pad6_def digits_unquoted show_nat_digits) (simp add: list_all_iff)

lemma upto_quote: "unquoted u \<Longrightarrow> takeWhile (\<lambda>c. c \<noteq> CHR 0x22) (u @ CHR 0x22 # v) = u"
  "unquoted u \<Longrightarrow> dropWhile (\<lambda>c. c \<noteq> CHR 0x22) (u @ CHR 0x22 # v) = CHR 0x22 # v"
  by (induction u) simp_all

lemma after_text_append [simp]: "after_text p (p @ s) = Some s"
  by (simp add: after_text_def)

lemma read_cursor_text_back:
  assumes "0 \<le> time_year (cu_createdAt c)" "time_year (cu_createdAt c) \<le> 9999" "unquoted (cu_receiptId c)"
  shows "read_cursor_text (cursor_text c) = Some c"
proof -
  have d: "after_text ''\",\"receiptId\":\"'' (CHR 0x22 # '',\"receiptId\":\"'' @ v) = Some v" for v
    using after_text_append [of "''\",\"receiptId\":\"''" v] by simp
  show ?thesis
    unfolding read_cursor_text_def cursor_text_def after_text_append bind.bind_lunit
    using upto_quote [OF time_unquoted] upto_quote [OF assms(3)] parse_format_time [OF assms(1,2)]
      d [of "cu_receiptId c @ ''\"}''"]
    by simp
qed

lemma text_json_ok: "cursor_json_ok text_json"
  by (simp add: cursor_json_ok_def text_json_def clock_ok_def zoned_ok_def local_clock_def read_cursor_text_back
      receipt_id_unquoted)

section \<open>Continuations behind the gate\<close>

definition gate_open :: "orders \<Rightarrow> exec_identity \<Rightarrow> string list \<Rightarrow> ledger_store \<Rightarrow> bool" where
  "gate_open ord ident ids s \<longleftrightarrow>
     validExecutionIdentity ident \<and>
     (case find (active_for ident) (range_values (fst ord) (ls_reviewPolicies s)) of
        None \<Rightarrow> False
      | Some p \<Rightarrow> list_all (\<lambda>q. decided ident q ''accepted'' (gate_reviews ord ids s) \<and>
                               \<not> decided ident q ''rejected'' (gate_reviews ord ids s)) (pi_requiredReviewers p))"

lemma gate_input_of_fields [simp]: "identity_of (gate_input_of ident ids) = ident" "gi_reviewIds (gate_input_of ident ids) = ids"
  by (simp_all add: gate_input_of_def identity_of_def exec_identity.defs gate_input.defs)

lemma eligible_open:
  assumes "evaluateReviewGateLocked ord (gate_input_of ident ids) s = Ok g" "gr_continuationEligible g"
  shows "gate_open ord ident ids s"
proof -
  obtain p where p: "validExecutionIdentity ident" "find (active_for ident) (range_values (fst ord) (ls_reviewPolicies s)) = Some p"
    "g = evaluateReviewGate p (gate_reviews ord ids s)"
    using assms(1) by (auto simp: evaluateReviewGateLocked_eq split: if_splits option.splits)
  then have "identity_of p = ident" by (auto simp: find_Some_iff active_for_def sameExecutionIdentity_def)
  with p assms(2) show ?thesis
    by (simp add: gate_open_def gate_refines(2) gate_status_accepted verdict_accepted list_all_iff)
qed

text \<open>C24: the store hands out a continuation only when the review gate of the receipt's execution
  identity is open for the reviews it names, and it names the receipt it belongs to.\<close>

theorem continuation_needs_open_gate:
  assumes "Continuation ord rid s = Ok c"
  shows "\<exists>r. ls_receipts s rid = Some r \<and>
    gate_open ord (executionIdentityFromReceipt r) (stringSlice (mget (opt_map (ri_continuation r)) ''reviewIds'')) s \<and>
    mget c ''receiptId'' = GStr (rc_receiptId r) \<and> mget c ''taskId'' = GStr (ri_taskId r) \<and> mget c ''continuationId'' \<noteq> GStr []"
proof -
  obtain r where r: "ls_receipts s rid = Some r" "continuationFromReceipt r = Ok c"
    using assms by (auto simp: Continuation_def Let_def split: option.splits sum.splits if_splits)
  then obtain g where g: "evaluateReviewGateLocked ord
      (gate_input_of (executionIdentityFromReceipt r) (stringSlice (mget c ''reviewIds''))) s = Ok g" "gr_continuationEligible g"
    using assms by (auto simp: Continuation_def Let_def split: option.splits sum.splits if_splits)
  have "mget c ''reviewIds'' = mget (opt_map (ri_continuation r)) ''reviewIds''"
    "mget c ''receiptId'' = GStr (rc_receiptId r)" "mget c ''taskId'' = GStr (ri_taskId r)" "mget c ''continuationId'' \<noteq> GStr []"
    using r(2) by (auto simp: continuationFromReceipt_def Let_def split: if_splits)
  with eligible_open [OF g] r(1) show ?thesis by simp
qed

text \<open>Reading a receipt, alone or in a listing, shows its continuation only behind an open gate, and
  hides nothing else.\<close>

theorem reads_hide_continuation:
  assumes "ledger_reachable hx s" and "ls_receipts s rid = Some r0"
  shows "\<exists>r. Receipt ord rid s = Ok r \<and> r = read_receipt ord s r0 \<and>
    r = r0\<lparr>ri_continuationId := ri_continuationId r, ri_continuation := ri_continuation r\<rparr> \<and>
    (ri_continuation r = None \<and> ri_continuationId r = [] \<or>
     gate_open ord (executionIdentityFromReceipt r0) (stringSlice (mget (opt_map (ri_continuation r0)) ''reviewIds'')) s)"
proof -
  have st: "stored_form r0" using reachable_ok [OF assms(1)] assms(2) by (auto simp: ledger_ok_def receipts_ok_def)
  have "ri_continuation (read_receipt ord s r0) = None \<and> ri_continuationId (read_receipt ord s r0) = [] \<or>
     gate_open ord (executionIdentityFromReceipt r0) (stringSlice (mget (opt_map (ri_continuation r0)) ''reviewIds'')) s"
    using eligible_open by (auto simp: read_receipt_def receiptForRead_def receipt_gate_def clone_stored [OF st] split: sum.splits)
  moreover have "read_receipt ord s r0 = r0\<lparr>ri_continuationId := ri_continuationId (read_receipt ord s r0),
      ri_continuation := ri_continuation (read_receipt ord s r0)\<rparr>"
    by (simp add: read_receipt_def receiptForRead_def clone_stored [OF st])
  ultimately show ?thesis using assms(2) by (simp add: Receipt_def read_receipt_def)
qed

definition demo_review :: review_input where
  "demo_review =
     \<lparr>vi_organizationId = ''o'', vi_workspaceId = ''w'', vi_projectId = ''p'', vi_taskId = ''t'', vi_jobId = ''j'',
      vi_reviewerRef = ''alice'', vi_reviewerVersion = ''v1'', vi_inputArtifactDigests = [''d1''],
      vi_checks = Some [(''ok'', GBool True)], vi_decision = ''accepted'', vi_idempotencyKey = ''r1''\<rparr>"

definition demo_continued :: receipt_input where
  "demo_continued =
     zero_receipt_input
       \<lparr>ri_type := ''task.result'', ri_status := ''completed'', ri_surface := ''ledger'', ri_organizationId := ''o'',
        ri_workspaceId := ''w'', ri_projectId := ''p'', ri_taskId := ''t'', ri_jobId := ''j'',
        ri_continuation := Some [(''reviewIds'', GStrs [''review-r1''])], ri_idempotencyKey := ''c1''\<rparr>"

definition demo_open :: ledger_store where
  "demo_open =
     snd (RecordReceipt demo_policy_hashing 4 demo_continued (snd (RecordReview demo_policy_hashing 3 demo_review demo_policies1)))"

lemma demo_open_reachable: "ledger_reachable demo_policy_hashing demo_open"
proof -
  let ?hx = demo_policy_hashing and ?s2 = "snd (RecordReview demo_policy_hashing 3 demo_review demo_policies1)"
  have c: "clock_ok 3" "clock_ok 4" by code_simp+
  have "ledger_step ?hx NewMemoryStore demo_policies1"
    unfolding demo_policies1_def
    by (rule ledger_step.policy [OF _ surjective_pairing]) (simp add: range_order_def NewMemoryStore_def)
  moreover have "ledger_step ?hx demo_policies1 ?s2" by (rule ledger_step.review [OF c(1) surjective_pairing])
  moreover have "ledger_step ?hx ?s2 demo_open"
    unfolding demo_open_def by (rule ledger_step.receipt [OF c(2) surjective_pairing])
  ultimately show ?thesis unfolding ledger_reachable_def by (meson r_into_rtranclp rtranclp_trans)
qed

lemma demo_open_policies: "dom (ls_reviewPolicies demo_open) = {''review-policy-k1''}"
proof -
  have "ls_reviewPolicies demo_open = ls_reviewPolicies demo_policies1"
    using RecordReview_state [of demo_policy_hashing 3 demo_review demo_policies1] RecordReceipt_policies
    by (auto simp: demo_open_def)
  then show ?thesis by (simp add: demo_policies1_dom)
qed

lemma recorded_receipt:
  assumes "validateReceiptInput i = None" "hash_receipt_input hx i = Some h" "ls_idempotency s (ri_idempotencyKey i) = None"
    and "clock_ok now"
  shows "\<exists>r. snd (RecordReceipt hx now i s) = add_receipt (ri_idempotencyKey i) h r s \<and> stored_form r \<and>
    rc_receiptId r = receipt_id (Suc (ls_nextID s)) \<and> rc_createdAt r = now \<and> ri_workspaceId r = ri_workspaceId i"
proof -
  from new_receipt_clones [OF assms(2,4), of s] obtain r where r: "clone_receipt_opt (new_receipt now i s) = Some r" by blast
  have "clone_receipt (new_receipt now i s) = r" using r by (simp add: clone_receipt_def)
  then have "snd (RecordReceipt hx now i s) = add_receipt (ri_idempotencyKey i) h r s"
    using RecordReceipt_new [OF assms(1-3), of now] by simp
  moreover have "rc_receiptId r = receipt_id (Suc (ls_nextID s)) \<and> rc_createdAt r = now \<and> ri_workspaceId r = ri_workspaceId i"
    unfolding clone_receipt_opt_fields [OF r] by (simp add: new_receipt_def)
  ultimately show ?thesis using clone_receipt_opt_stored [OF r] by blast
qed

lemma demo_open_receipts:
  "\<exists>r1 r2. ls_receipts demo_open = [''receipt_000001'' \<mapsto> r1, ''receipt_000002'' \<mapsto> r2] \<and>
     stored_form r1 \<and> rc_receiptId r1 = ''receipt_000001'' \<and> rc_createdAt r1 = 3 \<and> ri_workspaceId r1 = ''w'' \<and>
     stored_form r2 \<and> rc_receiptId r2 = ''receipt_000002'' \<and> rc_createdAt r2 = 4 \<and> ri_workspaceId r2 = ''w''"
proof -
  let ?hx = demo_policy_hashing and ?i = "review_receipt_input demo_policy_hashing demo_review"
  let ?s2 = "snd (RecordReceipt ?hx 3 ?i demo_policies1)"
  have c: "clock_ok 3" "clock_ok 4" by code_simp+
  have id: "receipt_id (Suc 0) = ''receipt_000001''" "receipt_id (Suc (Suc 0)) = ''receipt_000002''" by code_simp+
  have s1: "ls_receipts demo_policies1 = Map.empty" "ls_idempotency demo_policies1 = Map.empty" "ls_nextID demo_policies1 = 0"
    using CreateReviewPolicy_receipts [of ?hx "(1, [])" "demo_policy ''1'' [] ''k1''" NewMemoryStore, OF surjective_pairing]
    by (simp_all add: demo_policies1_def NewMemoryStore_def)
  have v: "validateReviewInput demo_review = None" "validateReceiptInput ?i = None" "validateReceiptInput demo_continued = None"
    by code_simp+
  have "map_option length (hash_receipt_input ?hx ?i) = Some 0" "map_option length (hash_receipt_input ?hx demo_continued) = Some 0"
    by code_simp+
  then obtain h1 h2 where h: "hash_receipt_input ?hx ?i = Some h1" "hash_receipt_input ?hx demo_continued = Some h2" by auto
  have k: "ri_idempotencyKey ?i = ''r1''" "ri_idempotencyKey demo_continued = ''c1''" "ri_workspaceId ?i = ''w''" "ri_workspaceId demo_continued = ''w''"
    by (simp_all add: review_receipt_input_def demo_review_def demo_continued_def)
  have open2: "demo_open = snd (RecordReceipt ?hx 4 demo_continued ?s2)"
    using v(1) by (simp add: demo_open_def RecordReview_def split: prod.splits sum.splits)
  obtain r1 where r1: "?s2 = add_receipt ''r1'' h1 r1 demo_policies1" "stored_form r1" "rc_receiptId r1 = ''receipt_000001''"
    "rc_createdAt r1 = 3" "ri_workspaceId r1 = ''w''"
    using recorded_receipt [OF v(2) h(1), of demo_policies1 3] by (auto simp: s1 c k id)
  have "ls_idempotency ?s2 (ri_idempotencyKey demo_continued) = None" "ls_nextID ?s2 = Suc 0"
    by (simp_all add: r1(1) add_receipt_def s1 k)
  with recorded_receipt [OF v(3) h(2), of ?s2 4] obtain r2 where r2: "demo_open = add_receipt ''c1'' h2 r2 ?s2" "stored_form r2"
    "rc_receiptId r2 = ''receipt_000002''" "rc_createdAt r2 = 4" "ri_workspaceId r2 = ''w''"
    by (auto simp: open2 c k id)
  have "ls_receipts demo_open = [''receipt_000001'' \<mapsto> r1, ''receipt_000002'' \<mapsto> r2]"
    by (simp add: r2(1,3) r1(1,3) add_receipt_def s1)
  with r1(2-) r2(2-) show ?thesis by blast
qed

definition demo_query :: receipt_query where
  "demo_query = \<lparr>q_accountId = [], q_organizationId = [], q_workspaceId = ''w'', q_projectId = [], q_taskId = [], q_jobId = [],
                 q_type = [], q_status = [], q_cursor = [], q_limit = 1\<rparr>"

definition demo_orders :: orders where
  "demo_orders = ([''review-policy-k1''], [''receipt_000001'', ''receipt_000002''])"

definition demo_orders' :: orders where
  "demo_orders' = ([''review-policy-k1''], [''receipt_000002'', ''receipt_000001''])"

lemma demo_open_dom: "dom (ls_receipts demo_open) = {''receipt_000001'', ''receipt_000002''}"
  using demo_open_receipts by (elim exE conjE) (simp add: insert_commute)

lemma demo_listing: "map rc_receiptId (listing demo_orders' demo_query demo_open) = [''receipt_000002'', ''receipt_000001'']"
proof -
  obtain r1 r2 where r: "ls_receipts demo_open = [''receipt_000001'' \<mapsto> r1, ''receipt_000002'' \<mapsto> r2]"
    and r1: "stored_form r1" "rc_receiptId r1 = ''receipt_000001''" "rc_createdAt r1 = 3" "ri_workspaceId r1 = ''w''"
    and r2: "stored_form r2" "rc_receiptId r2 = ''receipt_000002''" "rc_createdAt r2 = 4" "ri_workspaceId r2 = ''w''"
    using demo_open_receipts by blast
  have q: "query_matches demo_query r1" "query_matches demo_query r2"
    by (simp_all add: query_matches_def query_field_def demo_query_def r1 r2)
  have "rc_receiptId (read_receipt ord s r) = rc_receiptId r" if "stored_form r" for ord s r
    using read_pos [OF that, of ord s] by (simp add: receipt_pos_of_def)
  then show ?thesis
    by (simp add: listing_def demo_orders'_def range_values_def map_filter_simps r q receipt_pos_of_def less_eq_receipt_pos_def
        less_receipt_pos_def r1 r2)
qed

text \<open>Two receipts, one to a page: the second page is asked for with the cursor of the first one.\<close>

lemma list_pages_witness:
  "map_sum id (\<lambda>p. (map rc_receiptId (pg_receipts p), pg_hasMore p))
     (ListReceipts text_json demo_orders (page_query text_json 0 (listing demo_orders' demo_query demo_open) demo_query) demo_open)
     = Ok ([''receipt_000002''], True) \<and>
   map_sum id (\<lambda>p. (map rc_receiptId (pg_receipts p), pg_hasMore p))
     (ListReceipts text_json demo_orders (page_query text_json 1 (listing demo_orders' demo_query demo_open) demo_query) demo_open)
     = Ok ([''receipt_000001''], False)"
proof -
  have l: "map rc_receiptId (listing demo_orders' demo_query demo_open) = [''receipt_000002'', ''receipt_000001'']" by (rule demo_listing)
  then have n: "length (listing demo_orders' demo_query demo_open) = 2" by (metis length_map length_Cons list.size(3) numeral_2_eq_2)
  have q: "1 \<le> q_limit demo_query" "q_limit demo_query \<le> 100" "nat (q_limit demo_query) = 1" by (simp_all add: demo_query_def)
  have o: "range_order (fst demo_orders) (ls_reviewPolicies demo_open)" "range_order (snd demo_orders) (ls_receipts demo_open)"
    "range_order (fst demo_orders') (ls_reviewPolicies demo_open)" "range_order (snd demo_orders') (ls_receipts demo_open)"
    by (auto simp: range_order_def demo_orders_def demo_orders'_def demo_open_policies demo_open_dom)
  note page = list_pages [OF demo_open_reachable text_json_ok q(1,2) o]
  show ?thesis
    unfolding page [of 0, OF le0] page [of 1, unfolded n, OF one_le_numeral]
    using l by (simp add: Let_def n q(3) take_map [symmetric] drop_map [symmetric])
qed

lemma demo_open_continuation:
  "map_sum id (\<lambda>c. mget c ''receiptId'')
     (Continuation ([''review-policy-k1''], [''receipt_000002'', ''receipt_000001'']) ''receipt_000002'' demo_open) =
   Ok (GStr ''receipt_000002'')"
  by code_simp

lemma continuation_needs_open_gate_witness:
  "\<exists>r. ls_receipts demo_open ''receipt_000002'' = Some r \<and>
     gate_open ([''review-policy-k1''], [''receipt_000002'', ''receipt_000001'']) (executionIdentityFromReceipt r)
       (stringSlice (mget (opt_map (ri_continuation r)) ''reviewIds'')) demo_open"
proof -
  obtain c where "Continuation ([''review-policy-k1''], [''receipt_000002'', ''receipt_000001'']) ''receipt_000002'' demo_open = Ok c"
    using demo_open_continuation by (cases "Continuation ([''review-policy-k1''], [''receipt_000002'', ''receipt_000001'']) ''receipt_000002'' demo_open") auto
  from continuation_needs_open_gate [OF this] show ?thesis by blast
qed

lemma reads_hide_continuation_witness:
  "\<exists>r. Receipt ([], [''receipt_000001'']) ''receipt_000001'' demo_store = Ok r"
proof -
  obtain r0 where "ls_receipts demo_store ''receipt_000001'' = Some r0" using demo_store_receipt by blast
  from reads_hide_continuation [OF demo_store_reachable this] show ?thesis by blast
qed

section \<open>Artifacts read back\<close>

lemma parse_show [simp]: "int64_range n \<Longrightarrow> integerValue (GNum (show_int n)) = Some n"
  by (simp add: parse_show_int64)

lemma number_int64_show: "int64_range n \<Longrightarrow> number_int64 (show_int n) = n"
  using parse_show_int64 [of n]
  by (auto simp: number_int64_def parse_int64_def Let_def int64_range_def split: if_splits)

lemma json_norm_GInt: "int64_range n \<Longrightarrow> json_norm (GInt n) = Some (GNum (show_int n))"
  by simp

lemma artifact_receipt_valid:
  assumes "validateArtifactInput i = None" "int64_range (ai_sizeBytes i)"
  shows "validateReceiptInput (artifact_receipt_input hx i) = None \<and> (\<exists>h. hash_receipt_input hx (artifact_receipt_input hx i) = Some h)"
proof
  let ?m = "[(''digest'', GStr (ai_digest i)), (''mediaType'', GStr (ai_mediaType i)),
             (''sizeBytes'', GInt (ai_sizeBytes i)), (''storageRef'', GStr (ai_storageRef i))]"
  have "list_all (\<lambda>k. go_lower k \<notin> set forbidden_keys) [''digest'', ''mediaType'', ''sizeBytes'', ''storageRef'']"
    by code_simp
  then have "\<not> containsForbiddenReceiptKey (GObj ?m)" using assms(2) by (simp add: forbidden_obj)
  then have f: "\<not> containsForbiddenReceiptKey (GObj (receipt_input_json (artifact_receipt_input hx i)))"
    by (simp add: forbidden_receipt artifact_receipt_input_def zero_receipt_input_def field_json_def)
  have "has_prefix artifactReceiptType ''billing.'' = False" "''completed'' \<in> set allowed_receipt_status"
    "artifactReceiptType \<noteq> ''workspace.gateway_key_rotated.v1''" "artifactReceiptType \<noteq> ''gateway.wallet_adjustment.v1''"
    "artifactReceiptType \<noteq> []"
    by code_simp+
  with f assms(1) show "validateReceiptInput (artifact_receipt_input hx i) = None"
    by (simp add: validateReceiptInput_def billingCostValid_def validateArtifactInput_def artifact_receipt_input_def
        zero_receipt_input_def mlen_def split: if_splits)
  have "json_norm_kvs (receipt_input_json ((artifact_receipt_input hx i)\<lparr>ri_idempotencyKey := []\<rparr>)) \<noteq> None"
    unfolding json_norm_kvs_defined using assms(2)
    by (simp add: receipt_input_json_def artifact_receipt_input_def zero_receipt_input_def field_json_def)
  then show "\<exists>h. hash_receipt_input hx (artifact_receipt_input hx i) = Some h"
    by (auto simp: hash_receipt_input_def hashJSON_def)
qed

text \<open>An artifact recorded under a fresh key reads back as it was given: the store answers with the
  fields of the input, the identifier derived from the key, and a receipt of its own; the size
  survives the detour through JSON at any value of its type.\<close>

theorem artifact_roundtrip:
  assumes "clock_ok now" and "validateArtifactInput i = None" and "int64_range (ai_sizeBytes i)"
    and "ls_idempotency s (ai_idempotencyKey i) = None"
  shows "fst (RecordArtifact hx now i s) =
    Ok (artifact_input.extend (i\<lparr>ai_idempotencyKey := []\<rparr>)
          (artifact.fields (evidenceID hx ''artifact'' (ai_idempotencyKey i)) (receipt_id (Suc (ls_nextID s))) now False))"
proof -
  let ?ri = "artifact_receipt_input hx i"
  from artifact_receipt_valid [OF assms(2,3)] obtain h where
    v: "validateReceiptInput ?ri = None" "hash_receipt_input hx ?ri = Some h" by blast
  have key: "ri_idempotencyKey ?ri = ai_idempotencyKey i" by (simp add: artifact_receipt_input_def)
  from new_receipt_clones [OF v(2) assms(1), of s] obtain r where r: "clone_receipt_opt (new_receipt now ?ri s) = Some r" by blast
  have c: "clone_receipt (new_receipt now ?ri s) = r" "clone_receipt r = r"
    using r clone_stored [OF clone_receipt_opt_stored [OF r]] by (simp_all add: clone_receipt_def)
  have run: "fst (RecordArtifact hx now i s) = Ok (artifactFromReceipt r)"
    using RecordReceipt_new [OF v, of s now] assms(2,4) key c by (simp add: RecordArtifact_def)
  have out: "ri_outputRefs (new_receipt now ?ri s) =
    Some [(''digest'', GStr (ai_digest i)), (''mediaType'', GStr (ai_mediaType i)),
          (''sizeBytes'', GInt (ai_sizeBytes i)), (''storageRef'', GStr (ai_storageRef i))]"
    by (simp add: new_receipt_def artifact_receipt_input_def)
  then obtain out' where o: "ri_outputRefs r = Some out'"
    "json_norm (GObj [(''digest'', GStr (ai_digest i)), (''mediaType'', GStr (ai_mediaType i)),
          (''sizeBytes'', GInt (ai_sizeBytes i)), (''storageRef'', GStr (ai_storageRef i))]) = Some (GObj out')"
    using clone_receipt_opt_fields(25) [OF r] by (auto simp: clone_field_Some simp del: json_norm.simps)
  note get = json_norm_obj_get [OF o(2)]
  have "mget out' ''digest'' = GStr (ai_digest i)" "mget out' ''mediaType'' = GStr (ai_mediaType i)"
    "mget out' ''sizeBytes'' = GNum (show_int (ai_sizeBytes i))" "mget out' ''storageRef'' = GStr (ai_storageRef i)"
    using get [of "''digest''"] get [of "''mediaType''"] get [of "''sizeBytes''"] get [of "''storageRef''"] assms(3)
    by simp_all
  moreover have "ri_organizationId r = ai_organizationId i" "ri_workspaceId r = ai_workspaceId i"
    "ri_projectId r = ai_projectId i" "ri_taskId r = ai_taskId i" "ri_jobId r = ai_jobId i"
    "ri_artifactId r = evidenceID hx ''artifact'' (ai_idempotencyKey i)" "rc_receiptId r = receipt_id (Suc (ls_nextID s))"
    "rc_createdAt r = now" "\<not> rc_replayed r"
    unfolding clone_receipt_opt_fields [OF r] by (simp_all add: new_receipt_def artifact_receipt_input_def)
  ultimately show ?thesis
    unfolding run artifactFromReceipt_def
    by (simp add: o(1) stringValue_def number_int64_show [OF assms(3)] artifact_input.defs artifact.defs)
qed

definition demo_artifact :: artifact_input where
  "demo_artifact =
     \<lparr>ai_organizationId = ''o'', ai_workspaceId = ''w'', ai_projectId = ''p'', ai_taskId = ''t'', ai_jobId = ''j'',
      ai_digest = ''d'', ai_mediaType = ''text/plain'', ai_sizeBytes = 42, ai_storageRef = ''s3:x'',
      ai_idempotencyKey = ''a1''\<rparr>"

lemma artifact_roundtrip_witness:
  "map_sum id ai_sizeBytes (fst (RecordArtifact demo_hashing 1 demo_artifact NewMemoryStore)) = Ok 42"
proof -
  have "validateArtifactInput demo_artifact = None"
    "int64_range (ai_sizeBytes demo_artifact)"
    by code_simp+
  from artifact_roundtrip [OF clock_ok_1 this, of NewMemoryStore demo_hashing]
  show ?thesis by (simp add: NewMemoryStore_def demo_artifact_def artifact_input.defs artifact.defs)
qed

end
