(* ===== verification/Ledger_Reconcile.thy ===== *)
theory Ledger_Reconcile
  imports Ledger_Policies Ledger_Commands
begin

text \<open>
  Reconciliations in the store, and what the validation of a billing receipt establishes: the
  two places where the Ledger judges amounts of money.
\<close>

section \<open>Integers survive JSON\<close>

lemma float_exact_json:
  assumes "float_exact b f = Some n" "b < 9007199254740992"
  shows "float_json f = Some (GNum (show_int n))" "int64_range n"
proof -
  from assms have n: "float_int f = Some n" "\<bar>n\<bar> \<le> b" by (auto simp: float_exact_def split: option.splits if_splits)
  then show "float_json f = Some (GNum (show_int n))" using assms(2)
    by (cases f) (auto simp: float_json_def split: if_splits)
  show "int64_range n" using n(2) assms(2) by (simp add: int64_range_def max_int64_def min_int64_def) linarith
qed

lemma integerValue_norm:
  assumes "integerValue v = Some n" "json_norm v = Some v'"
  shows "integerValue v' = Some n"
proof (cases v)
  case (GNum s)
  then have "s \<noteq> []" using assms(1) by (auto simp: parse_int64_def Let_def split: if_splits)
  with GNum assms show ?thesis by (auto split: if_splits)
next
  case (GUint m)
  with assms show ?thesis
    by (auto simp: parse_show_int64 int64_range_def min_int64_def split: if_splits)
next
  case (GFloat64 f)
  with assms float_exact_json [of "2 ^ 53 - 1" f n] show ?thesis by (auto simp: parse_show_int64)
next
  case (GFloat32 f)
  with assms float_exact_json [of "2 ^ 24 - 1" f n] show ?thesis by (auto simp: parse_show_int64)
qed (use assms in \<open>auto simp: parse_show_int64 split: if_splits\<close>)

lemma report_counts_clone:
  assumes "report_counts_valid counts k = Some (a, b)" "json_norm (GObj counts) = Some (GObj counts')"
  shows "report_counts_valid counts' k = Some (a, b)"
proof -
  note get = json_norm_obj_get [OF assms(2)]
  from assms(1) obtain e where e: "integerValue (mget counts ''billingOperations'') = Some a"
    "integerValue (mget counts ''matched'') = Some b" "integerValue (mget counts ''exceptions'') = Some e"
    "\<not> (a < 0 \<or> b < 0 \<or> e < 0 \<or> b > a \<or> e \<noteq> int k)" "list_all (\<lambda>kv. int_where (snd kv) (\<lambda>n. n \<ge> 0)) counts"
    by (auto simp: report_counts_valid_def split: option.splits if_splits)
  have i: "integerValue (mget counts' ''billingOperations'') = Some a" "integerValue (mget counts' ''matched'') = Some b"
    "integerValue (mget counts' ''exceptions'') = Some e"
    by (rule integerValue_norm [OF e(1) get] integerValue_norm [OF e(2) get] integerValue_norm [OF e(3) get])+
  have "int_where v' (\<lambda>n. n \<ge> 0)" if kv: "(key, v') \<in> set counts'" for key v'
  proof -
    obtain z where z: "json_norm_kvs counts = Some z" "counts' = sort_key fst z" using assms(2) by auto
    with kv obtain v where v: "(key, v) \<in> set counts" "json_norm v = Some v'"
      using json_norm_kvs_values [of counts z key v'] by auto
    with e(5) obtain n where "integerValue v = Some n" "n \<ge> 0"
      by (auto simp: list_all_iff int_where_def split: option.splits)
    with integerValue_norm [OF _ v(2)] show ?thesis by (simp add: int_where_def)
  qed
  with i e(4) show ?thesis by (auto simp: report_counts_valid_def list_all_iff)
qed

section \<open>Reports survive the copy\<close>

definition report_normal :: "gomap \<Rightarrow> gomap \<Rightarrow> bool" where
  "report_normal counts n \<longleftrightarrow>
     \<not> containsForbiddenJSONKey (GObj n) \<and>
     (case (as_str (mget n ''id''), as_str (mget n ''status''), as_list (mget n ''exceptions'')) of
        (Some rid, Some status, Some exceptions) \<Rightarrow>
          \<not> (trim_space rid = [] \<or> status \<notin> set [''ok'', ''mismatch'']) \<and>
          (case (report_counts_valid counts (length exceptions), exception_resources exceptions) of
             (Some (checked, matched), Some keys) \<Rightarrow>
               \<not> (checked - matched \<noteq> int (length (remdups keys)) \<or>
                  (status = ''ok'' \<and> exceptions \<noteq> []) \<or> (status = ''mismatch'' \<and> exceptions = []))
           | _ \<Rightarrow> False)
      | _ \<Rightarrow> False)"

lemma validateReconciliationReport_iff:
  "validateReconciliationReport m = None \<longleftrightarrow>
     (\<exists>kvs n counts. m = Some kvs \<and> json_norm (GObj kvs) = Some (GObj n) \<and> mget kvs ''counts'' = GObj counts \<and> report_normal counts n)"
proof (cases m)
  case None
  then show ?thesis by (simp add: validateReconciliationReport_def field_json_def normalizedJSONValue_def)
next
  case (Some kvs)
  show ?thesis
  proof (cases "json_norm_kvs kvs")
    case None
    with Some show ?thesis by (simp add: validateReconciliationReport_def field_json_def normalizedJSONValue_def)
  next
    case (Some z)
    show ?thesis
      using \<open>m = Some kvs\<close> Some
      by (auto simp: validateReconciliationReport_def field_json_def normalizedJSONValue_def report_normal_def
          simp del: containsForbiddenJSONKey.simps split: option.splits prod.splits)
  qed
qed

lemma report_clone_valid:
  assumes "validateReconciliationReport m = None" "clone_field m = Some m'"
  shows "validateReconciliationReport m' = None"
proof -
  from assms(1) obtain kvs n counts where r: "m = Some kvs" "json_norm (GObj kvs) = Some (GObj n)"
    "mget kvs ''counts'' = GObj counts" "report_normal counts n"
    unfolding validateReconciliationReport_iff by blast
  have m': "m' = Some n" using assms(2) r(1,2) by (auto simp: clone_field_Some)
  have c: "json_norm (GObj counts) = Some (mget n ''counts'')" using json_norm_obj_get [OF r(2), of "''counts''"] r(3) by simp
  then obtain counts' where c': "mget n ''counts'' = GObj counts'" by (auto dest: sym)
  have "report_normal counts' n"
    using r(4) report_counts_clone [OF _ c [unfolded c']]
    by (auto simp: report_normal_def simp del: containsForbiddenJSONKey.simps split: option.splits prod.splits)
  moreover have "json_norm (GObj n) = Some (GObj n)" by (rule json_norm_idem [OF r(2)])
  ultimately show ?thesis unfolding validateReconciliationReport_iff using m' c' by blast
qed

section \<open>Recording a reconciliation\<close>

definition reconciliations_ok :: "ledger_store \<Rightarrow> bool" where
  "reconciliations_ok s \<longleftrightarrow>
     (\<forall>k rec. ls_reconciliationIdempotency s k = Some rec \<longrightarrow>
        (\<exists>rs. ir_result rec = ResReconciliation rs \<and> validateReconciliationResult rs = None \<and> clone_reconciliation rs = rs))"

definition reconciliation_seen :: "string \<Rightarrow> ledger_store \<Rightarrow> string option" where
  "reconciliation_seen k s = map_option ir_payloadHash (ls_reconciliationIdempotency s k)"

lemma report_clones:
  assumes "validateReconciliationReport m = None"
  obtains m' where "clone_field m = Some m'" "clone_report m = m'"
    "\<And>k. str_of (mget (opt_map m') k) = str_of (mget (opt_map m) k)" "validateReconciliationReport m' = None"
proof -
  from assms obtain kvs n where r: "m = Some kvs" "json_norm (GObj kvs) = Some (GObj n)"
    unfolding validateReconciliationReport_iff by blast
  then have c: "clone_field m = Some (Some n)" by (simp only: clone_field_Some) blast
  have "str_of (mget n k) = str_of (mget kvs k)" for k
    using json_norm_as_str [OF json_norm_obj_get [OF r(2)]] by (simp add: str_of_def)
  with that [of "Some n"] c r(1) report_clone_valid [OF assms c] show ?thesis by (simp add: clone_report_def)
qed

lemma mk_reconciliation_clone:
  assumes "validateReconciliationInput i = None" "clock_ok now"
  shows "clone_reconciliation (mk_reconciliation i now) = mk_reconciliation i now"
    and "validateReconciliationResult (mk_reconciliation i now) = None"
proof -
  have "validateReconciliationReport (rx_report i) = None"
    using assms(1) by (simp add: validateReconciliationInput_def split: if_splits)
  then obtain m' where m: "clone_field (rx_report i) = Some m'" "clone_report (rx_report i) = m'"
    "\<And>k. str_of (mget (opt_map m') k) = str_of (mget (opt_map (rx_report i)) k)" "validateReconciliationReport m' = None"
    by (rule report_clones) blast
  show "clone_reconciliation (mk_reconciliation i now) = mk_reconciliation i now"
    using assms(2) clone_field_idem [OF m(1)]
    by (simp add: clone_reconciliation_def mk_reconciliation_def m(2) time_json_def clock_ok_def Let_def)
  show "validateReconciliationResult (mk_reconciliation i now) = None"
    by (simp add: validateReconciliationResult_def mk_reconciliation_def m Let_def)
qed

lemma mk_reconciliation_valid:
  assumes "validateReconciliationInput i = None" "clock_ok now"
  shows "validateReconciliationResult (clone_reconciliation (mk_reconciliation i now)) = None"
    and "clone_reconciliation (clone_reconciliation (mk_reconciliation i now)) = clone_reconciliation (mk_reconciliation i now)"
  by (simp_all only: mk_reconciliation_clone [OF assms])

lemma validateReconciliationResult_replayed [simp]:
  "validateReconciliationResult (r\<lparr>rs_replayed := b\<rparr>) = validateReconciliationResult r"
  by (simp add: validateReconciliationResult_def Let_def)

lemma validateReconciliationResult_block:
  "validateReconciliationResult r = None \<Longrightarrow> rs_blockNewWorkspaces r = (rs_status r = ''mismatch'')"
  by (simp add: validateReconciliationResult_def Let_def split: if_splits)

lemma RecordReconciliation_Err: "RecordReconciliation hx now i s = (Err e, s') \<Longrightarrow> s' = s"
  by (auto simp: RecordReconciliation_def Let_def split: option.splits if_splits idem_result.splits)

lemma RecordReconciliation_new:
  "RecordReconciliation hx now i s = (x, s') \<Longrightarrow> s' = s \<or>
     (\<exists>h. validateReconciliationInput i = None \<and> ls_reconciliationIdempotency s (rx_idempotencyKey i) = None \<and>
       ls_reconciliationIdempotency s' = (ls_reconciliationIdempotency s)(rx_idempotencyKey i \<mapsto>
         \<lparr>ir_payloadHash = h, ir_result = ResReconciliation (clone_reconciliation (mk_reconciliation i now))\<rparr>))"
  by (auto simp: RecordReconciliation_def Let_def split: option.splits if_splits idem_result.splits)

lemma RecordReceipt_reconciliations:
  "ls_reconciliationIdempotency (snd (RecordReceipt hx now i s)) = ls_reconciliationIdempotency s"
proof (cases "RecordReceipt hx now i s")
  case (Pair x s')
  show ?thesis
  proof (cases x)
    case (Inl e)
    with Pair RecordReceipt_Err show ?thesis by fastforce
  next
    case (Inr r)
    from Pair [unfolded Inr] show ?thesis
      by (cases rule: RecordReceipt_OkE) (simp_all add: Pair add_receipt_def)
  qed
qed

lemma store_retention_reconciliations:
  "(x, s') = store_retention key h rid r s \<Longrightarrow> ls_reconciliationIdempotency s' = ls_reconciliationIdempotency s"
  by (auto simp: store_retention_def Let_def)

lemma ledger_step_reconciliations:
  assumes "ledger_step hx s s'"
  obtains "ls_reconciliationIdempotency s' = ls_reconciliationIdempotency s"
  | now i x where "clock_ok now" "RecordReconciliation hx now i s = (x, s')"
  using assms
proof (cases rule: ledger_step.cases)
  case (receipt now i x)
  with RecordReceipt_reconciliations [of hx now i s] that(1) show ?thesis by simp
next
  case (retention i x)
  then show ?thesis
    by (cases rule: UpdateReceiptRetention_cases) (use that(1) store_retention_reconciliations in blast)+
next
  case (privacy now i x)
  from privacy(2) show ?thesis
    by (cases rule: PrivacyDeleteReceipt_cases) (use that(1) store_retention_reconciliations in blast)+
next
  case (artifact now i x)
  then show ?thesis using RecordArtifact_state [of hx now i s] RecordReceipt_reconciliations that(1) by auto
next
  case (review now i x)
  then show ?thesis using RecordReview_state [of hx now i s] RecordReceipt_reconciliations that(1) by auto
next
  case (policy env i x)
  with CreateReviewPolicy_receipts that(1) show ?thesis by blast
next
  case (reconciliation now i x)
  with that(2) show ?thesis by blast
qed

lemma reconciliations_ok_run:
  assumes "reconciliations_ok s" "clock_ok now" "RecordReconciliation hx now i s = (x, s')"
  shows "reconciliations_ok s'"
  using RecordReconciliation_new [OF assms(3)] assms(1) mk_reconciliation_valid(1) [OF _ assms(2), of i] mk_reconciliation_valid(2) [OF _ assms(2), of i]
  by (auto simp: reconciliations_ok_def split: if_splits)

lemma reconciliations_ok_step: "reconciliations_ok s \<Longrightarrow> ledger_step hx s s' \<Longrightarrow> reconciliations_ok s'"
proof -
  assume ok: "reconciliations_ok s" and "ledger_step hx s s'"
  from this(2) show ?thesis
  proof (cases rule: ledger_step_reconciliations)
    case 1
    with ok show ?thesis by (simp add: reconciliations_ok_def)
  next
    case (2 now i x)
    with ok show ?thesis by (rule reconciliations_ok_run)
  qed
qed

lemma reachable_reconciliations: "ledger_reachable hx s \<Longrightarrow> reconciliations_ok s"
  unfolding ledger_reachable_def
proof (induction rule: rtranclp_induct)
  case base
  show ?case by (simp add: reconciliations_ok_def NewMemoryStore_def)
qed (rule reconciliations_ok_step)

interpretation record_reconciliation: atomic_command
    "RecordReconciliation hx" rx_idempotencyKey reconciliation_seen "\<lambda>i. hashJSON hx (field_json (rx_report i))"
    "\<lambda>i. validateReconciliationInput i = None" reconciliations_ok "ledger_step hx" "\<lambda>now s. clock_ok now"
    ErrIdempotencyConflict for hx
proof unfold_locales
  show "RecordReconciliation hx now i s = (Err e, s') \<Longrightarrow> s' = s" for now i s e s'
    by (rule RecordReconciliation_Err)
  show "validateReconciliationInput i = None \<and> hashJSON hx (field_json (rx_report i)) \<noteq> None \<and>
        reconciliation_seen (rx_idempotencyKey i) s' = hashJSON hx (field_json (rx_report i)) \<and> reconciliations_ok s'"
    if "reconciliations_ok s" "clock_ok now" "RecordReconciliation hx now i s = (Ok r, s')" for s now i r s'
    using that(3) reconciliations_ok_run [OF that]
    by (auto simp: RecordReconciliation_def Let_def reconciliation_seen_def split: option.splits if_splits idem_result.splits)
  show "\<exists>r. RecordReconciliation hx now i s = (Ok r, s)"
    if "reconciliations_ok s" "validateReconciliationInput i = None" "hashJSON hx (field_json (rx_report i)) = Some h"
      "reconciliation_seen (rx_idempotencyKey i) s = Some h" for s i h now
  proof -
    from that(4) obtain rec where r: "ls_reconciliationIdempotency s (rx_idempotencyKey i) = Some rec" "ir_payloadHash rec = h"
      by (auto simp: reconciliation_seen_def)
    with that(1) obtain rs where "ir_result rec = ResReconciliation rs" "validateReconciliationResult rs = None"
      unfolding reconciliations_ok_def by blast
    with r that(2,3) show ?thesis by (simp add: RecordReconciliation_def)
  qed
  show "RecordReconciliation hx now i s = (Err ErrIdempotencyConflict, s)"
    if "reconciliations_ok s" "validateReconciliationInput i = None" "hashJSON hx (field_json (rx_report i)) = Some h"
      "reconciliation_seen (rx_idempotencyKey i) s = Some h'" "h \<noteq> h'" for s i h h' now
    using that by (auto simp: RecordReconciliation_def reconciliation_seen_def)
  show "reconciliation_seen k s' = Some h" if "reconciliations_ok s" "ledger_step hx s s'" "reconciliation_seen k s = Some h" for s s' k h
    using that(2,3) by (elim ledger_step_reconciliations)
      (auto simp: reconciliation_seen_def dest!: RecordReconciliation_new)
  show "reconciliations_ok s'" if "reconciliations_ok s" "ledger_step hx s s'" for s s'
    by (rule reconciliations_ok_step [OF that])
qed

text \<open>C25: a recorded reconciliation is what it claims to be, and stays so. Whatever the store answers for a
  key was accepted by the report's validation, blocks new workspaces exactly when the report found
  a mismatch, and the same report under the same key is answered again in every later store.\<close>

theorem reconciliation_sound:
  assumes "ledger_reachable hx s" and "clock_ok now" and "RecordReconciliation hx now i s = (Ok r, s1)"
    and "(ledger_step hx)\<^sup>*\<^sup>* s1 s2"
  shows "validateReconciliationResult (r\<lparr>rs_replayed := False\<rparr>) = None \<and>
    rs_blockNewWorkspaces r = (rs_status r = ''mismatch'') \<and>
    (\<exists>r'. RecordReconciliation hx now' i s2 = (Ok r', s2))"
proof -
  note ok = reachable_reconciliations [OF assms(1)]
  have v: "validateReconciliationResult (r\<lparr>rs_replayed := False\<rparr>) = None"
  proof (cases "ls_reconciliationIdempotency s (rx_idempotencyKey i)")
    case None
    with assms(3) have "r = clone_reconciliation (mk_reconciliation i now)" "validateReconciliationInput i = None"
      by (auto simp: RecordReconciliation_def Let_def split: option.splits)
    moreover from this(2) have "validateReconciliationResult (clone_reconciliation (mk_reconciliation i now)) = None"
      using assms(2) by (rule mk_reconciliation_valid)
    ultimately show ?thesis by simp
  next
    case (Some rec)
    with ok obtain rs where rs: "ir_result rec = ResReconciliation rs" "validateReconciliationResult rs = None"
      "clone_reconciliation rs = rs"
      unfolding reconciliations_ok_def by blast
    from Some rs assms(3) have "r = rs\<lparr>rs_replayed := True\<rparr>"
      by (auto simp: RecordReconciliation_def split: option.splits if_splits)
    with rs(2) show ?thesis by simp
  qed
  with record_reconciliation.retry_keeps [OF ok assms(2-4)] validateReconciliationResult_block [of r] show ?thesis
    by simp
qed

definition demo_report :: reconciliation_input where
  "demo_report =
     \<lparr>rx_report = Some [(''id'', GStr ''r1''), (''status'', GStr ''mismatch''),
        (''counts'', GObj [(''billingOperations'', GNum ''2''), (''matched'', GNum ''1''), (''exceptions'', GNum ''1'')]),
        (''exceptions'', GList [GObj [(''resourceType'', GStr ''storage''), (''resourceId'', GStr ''vol-1''),
                                    (''code'', GStr ''ledger_receipt_missing'')]])],
      rx_idempotencyKey = ''rec-1''\<rparr>"

lemma reconciliation_sound_witness:
  "\<exists>r s'. RecordReconciliation demo_hashing 1 demo_report NewMemoryStore = (Ok r, s') \<and> rs_blockNewWorkspaces r"
proof -
  have v: "validateReconciliationInput demo_report = None"
    "hashJSON demo_hashing (field_json (rx_report demo_report)) = Some []"
    "rs_status (clone_reconciliation (mk_reconciliation demo_report 1)) = ''mismatch''"
    by code_simp+
  let ?s = "snd (RecordReconciliation demo_hashing 1 demo_report NewMemoryStore)"
  have run: "RecordReconciliation demo_hashing 1 demo_report NewMemoryStore =
    (Ok (clone_reconciliation (mk_reconciliation demo_report 1)), ?s)"
    using v(1,2) by (simp add: RecordReconciliation_def NewMemoryStore_def Let_def)
  from reconciliation_sound [OF new_store_reachable clock_ok_1 run rtranclp.rtrancl_refl] v(3) run show ?thesis by auto
qed

section \<open>Billing receipts\<close>

lemma components_valid_amounts:
  "workspace_components_valid components tot \<Longrightarrow>
   \<exists>compute storage cc sc. mget components ''compute'' = GObj compute \<and> mget components ''storage'' = GObj storage \<and>
     integerValue (mget compute ''chargeUsdMicros'') = Some cc \<and> integerValue (mget storage ''chargeUsdMicros'') = Some sc \<and>
     0 < cc \<and> 0 < sc \<and> cc + sc = tot \<and> tot \<le> max_int64"
  by (auto simp: workspace_components_valid_def split: option.splits)

text \<open>C26: a billing receipt the Ledger accepts adds up. For a purchase, a renewal, an expiry or a refund of
  a workspace, the total is the sum of a positive compute and a positive storage charge and fits
  an int64, the period is not empty, the resource is the workspace of the receipt, a charge leaves
  a balance that is not negative, and a refund gives back exactly the total.\<close>

theorem billing_receipt_adds_up:
  assumes "validateReceiptInput r = None" and "ri_type r \<in> set workspace_billing_types"
  shows "\<exists>cost components compute storage tot cc sc.
    ri_cost r = Some cost \<and> mget cost ''resourceId'' = GStr (ri_workspaceId r) \<and>
    integerValue (mget cost ''totalUsdMicros'') = Some tot \<and> mget cost ''components'' = GObj components \<and>
    mget components ''compute'' = GObj compute \<and> mget components ''storage'' = GObj storage \<and>
    integerValue (mget compute ''chargeUsdMicros'') = Some cc \<and> integerValue (mget storage ''chargeUsdMicros'') = Some sc \<and>
    0 < cc \<and> 0 < sc \<and> tot = cc + sc \<and> tot \<le> max_int64 \<and>
    period_ordered (mget cost ''periodStart'') (mget cost ''paidThrough'') \<and>
    (ri_type r \<in> {''billing.workspace_purchased.v1'', ''billing.workspace_renewed.v1''} \<longrightarrow>
       int_where (mget cost ''postChargeBalanceUsdMicros'') (\<lambda>n. 0 \<le> n)) \<and>
    (ri_type r = ''billing.workspace_refunded.v1'' \<longrightarrow> int_where (mget cost ''refundUsdMicros'') (\<lambda>n. n = tot))"
proof -
  have ty: "has_prefix (ri_type r) ''billing.'' \<and> has_suffix (ri_type r) ''.v1'' \<and> ri_type r \<notin> set retired_billing_types \<and>
      ri_type r \<noteq> ''billing.reconciliation.v1''"
    using assms(2) by (auto simp: workspace_billing_types_def retired_billing_types_def has_prefix_def has_suffix_def)
  have "billingCostValid r" using assms(1) by (simp add: validateReceiptInput_def Let_def split: if_splits)
  with ty assms(2) have v: "validWorkspaceBillingCost (opt_map (ri_cost r)) (ri_type r)"
    and rid: "mget (opt_map (ri_cost r)) ''resourceId'' = GStr (ri_workspaceId r)"
    by (simp_all add: billingCostValid_def Let_def)
  then obtain cost where cost: "ri_cost r = Some cost" by (cases "ri_cost r") (auto simp: validWorkspaceBillingCost_def)
  from v [unfolded cost opt_map_simps] obtain tot components where
    t: "integerValue (mget cost ''totalUsdMicros'') = Some tot" "mget cost ''components'' = GObj components"
      "workspace_components_valid components tot" "period_ordered (mget cost ''periodStart'') (mget cost ''paidThrough'')"
    and e: "if ri_type r = ''billing.workspace_expired.v1'' then True
           else if ri_type r = ''billing.workspace_purchased.v1'' \<or> ri_type r = ''billing.workspace_renewed.v1''
              then int_where (mget cost ''postChargeBalanceUsdMicros'') (\<lambda>n. n \<ge> 0)
              else int_where (mget cost ''refundUsdMicros'') (\<lambda>n. n = tot)"
    by (auto simp: validWorkspaceBillingCost_def split: option.splits if_splits)
  from components_valid_amounts [OF t(3)] t(1,2,4) rid [unfolded cost opt_map_simps] cost e show ?thesis
    by (auto split: if_splits)
qed

definition demo_purchase :: receipt_input where
  "demo_purchase =
     zero_receipt_input
       \<lparr>ri_type := ''billing.workspace_purchased.v1'', ri_status := ''completed'', ri_surface := ''control_plane'',
        ri_workspaceId := ''ws-1'', ri_idempotencyKey := ''k'',
        ri_cost := Some
          [(''currency'', GStr ''USD''), (''billingUnit'', GStr ''calendar_month''), (''resourceType'', GStr ''workspace''),
           (''priceVersion'', GStr ''v1''), (''resourceId'', GStr ''ws-1''),
           (''periodStart'', GStr ''2026-01-31T00:00:00Z''), (''paidThrough'', GStr ''2026-02-28T00:00:00Z''),
           (''totalUsdMicros'', GNum ''30''),
           (''components'', GObj
              [(''compute'', GObj [(''resourceType'', GStr ''compute''), (''resourceId'', GStr ''c-1''), (''chargeUsdMicros'', GNum ''20'')]),
               (''storage'', GObj [(''resourceType'', GStr ''storage''), (''resourceId'', GStr ''s-1''), (''chargeUsdMicros'', GNum ''10''),
                                 (''sizeGb'', GNum ''5'')])]),
           (''sub2apiUserId'', GNum ''7''), (''sub2apiRedeemCode'', GStr ''code-1''), (''postChargeBalanceUsdMicros'', GNum ''0'')]\<rparr>"

lemma demo_purchase_valid: "validateReceiptInput demo_purchase = None"
  by code_simp

lemma billing_receipt_adds_up_witness:
  "\<exists>cost tot. ri_cost demo_purchase = Some cost \<and> integerValue (mget cost ''totalUsdMicros'') = Some tot \<and> tot \<le> max_int64"
  using billing_receipt_adds_up [OF demo_purchase_valid] by (auto simp: demo_purchase_def workspace_billing_types_def)

end
