(* ===== verification/Fabric_Types.thy ===== *)
theory Fabric_Types
  imports Go_Hash
begin

text \<open>
  The data of the Fabric service that its operation log and its jobs use, after
  \<^verbatim>\<open>services/fabric/internal/fabric/types.go\<close>, and the helpers of
  \<^verbatim>\<open>service.go\<close> that build and read log entries.
\<close>

section \<open>Errors and records\<close>

datatype fabric_error =
    ErrJobNotFound | ErrJobIdempotencyConflict | ErrInvalidJobInput | ErrJobStateConflict | ErrJobLeaseMismatch
  | ErrMachineOwnershipConflict | ErrMachineOwnershipNotFound | ErrRuntimeIdempotencyConflict
  | ErrRuntimeOperationNotCurrent | RuntimeOperationNotFound
  | LeaseTokenUnavailable      \<comment> \<open>the random source failed\<close>
  | ErrTransferNotFound | ErrTransferInvalid | ErrTransferChunkConflict | ErrTransferIncomplete
  | ErrTransferDigestMismatch | ErrContentNotFound
  | ContentPublishUnavailable | PublishFailed string

record machine_ownership =
  mo_id :: string
  mo_resourceId :: string
  mo_accountId :: string
  mo_workspaceId :: string
  mo_packageId :: string
  mo_nodePoolId :: string
  mo_machineId :: string
  mo_instanceId :: string
  mo_nodeName :: string
  mo_status :: string
  mo_providerRequestId :: string
  mo_claimedAt :: instant
  mo_releasedAt :: "instant option"

record job_input =
  ji_organizationId :: string
  ji_workspaceId :: string
  ji_projectId :: string
  ji_taskId :: string
  ji_requestId :: string
  ji_approvalId :: string
  ji_environmentRef :: string
  ji_idempotencyKey :: string

record job_claim_input =
  jc_runnerId :: string
  jc_idempotencyKey :: string

record job_heartbeat_input =
  jh_runnerId :: string
  jh_leaseToken :: string
  jh_idempotencyKey :: string

record job_complete_input =
  jd_runnerId :: string
  jd_leaseToken :: string
  jd_artifactIds :: "string list"
  jd_reviewIds :: "string list"
  jd_idempotencyKey :: string

record job_fail_input =
  jf_runnerId :: string
  jf_leaseToken :: string
  jf_errorCode :: string
  jf_idempotencyKey :: string

record job =
  jb_jobId :: string
  jb_organizationId :: string
  jb_workspaceId :: string
  jb_projectId :: string
  jb_taskId :: string
  jb_requestId :: string
  jb_approvalId :: string
  jb_environmentRef :: string
  jb_status :: string
  jb_attempt :: int
  jb_leaseOwner :: string
  jb_leaseExpiresAt :: "instant option"
  jb_leaseToken :: string
  jb_artifactIds :: "string list"
  jb_reviewIds :: "string list"
  jb_errorCode :: string
  jb_createdAt :: instant
  jb_updatedAt :: instant
  jb_replayed :: bool
  jb_leaseTokenHash :: string

definition zero_job :: job where
  "zero_job =
     \<lparr>jb_jobId = [], jb_organizationId = [], jb_workspaceId = [], jb_projectId = [], jb_taskId = [], jb_requestId = [],
      jb_approvalId = [], jb_environmentRef = [], jb_status = [], jb_attempt = 0, jb_leaseOwner = [],
      jb_leaseExpiresAt = None, jb_leaseToken = [], jb_artifactIds = [], jb_reviewIds = [], jb_errorCode = [],
      jb_createdAt = 0, jb_updatedAt = 0, jb_replayed = False, jb_leaseTokenHash = []\<rparr>"

text \<open>The payload of a log entry: none, a job with the hash of its lease token, or another resource.\<close>

datatype op_payload =
    NoPayload
  | JobPayload job string
  | ResourcePayload gomap

record fabric_operation =
  fo_id :: string
  fo_operationId :: string
  fo_callerService :: string
  fo_action :: string
  fo_resourceKind :: string
  fo_resourceId :: string
  fo_accountId :: string
  fo_workspaceId :: string
  fo_provider :: string
  fo_providerRequestId :: string
  fo_idempotencyKey :: string
  fo_requestHash :: string
  fo_payload :: op_payload
  fo_status :: string
  fo_errorCode :: string
  fo_retryable :: bool
  fo_startedAt :: instant
  fo_finishedAt :: instant
  fo_createdAt :: instant

section \<open>Building log entries\<close>

definition hashInput :: "hashing \<Rightarrow> gov \<Rightarrow> string" where
  "hashInput hx v = (case json_norm v of None \<Rightarrow> [] | Some n \<Rightarrow> hx_json hx n)"

definition stableSuffix :: "hashing \<Rightarrow> string list \<Rightarrow> string" where
  "stableSuffix hx vs = hx_bytes hx (join '':'' vs)"

definition fabricID :: "string \<Rightarrow> string \<Rightarrow> instant \<Rightarrow> string" where
  "fabricID prefix owner now = prefix @ ''_'' @ owner @ ''_'' @ show_int (unix_nano now)"

definition newOperation ::
  "hashing \<Rightarrow> string \<Rightarrow> string \<Rightarrow> string \<Rightarrow> string \<Rightarrow> string \<Rightarrow> string \<Rightarrow> string \<Rightarrow> instant \<Rightarrow> fabric_operation" where
  "newOperation hx action kind rid account workspace key requestHash now =
     \<lparr>fo_id = [],
      fo_operationId = ''op_'' @ action @ ''_'' @
        take 12 (stableSuffix hx [first_non_empty [key, rid, account, workspace, show_int (unix_nano now)], kind, action]),
      fo_callerService = ''control-plane'', fo_action = action, fo_resourceKind = kind, fo_resourceId = rid,
      fo_accountId = account, fo_workspaceId = workspace, fo_provider = [], fo_providerRequestId = [],
      fo_idempotencyKey = key, fo_requestHash = requestHash, fo_payload = NoPayload, fo_status = [], fo_errorCode = [],
      fo_retryable = False, fo_startedAt = now, fo_finishedAt = 0, fo_createdAt = 0\<rparr>"

text \<open>\<^verbatim>\<open>fillOperationResource\<close> for a job: the token and its hash leave the stored job, the hash
  goes beside it.\<close>

definition fill_job :: "job \<Rightarrow> fabric_operation \<Rightarrow> fabric_operation" where
  "fill_job j op =
     op\<lparr>fo_resourceId := jb_jobId j, fo_workspaceId := jb_workspaceId j,
        fo_providerRequestId := first_non_empty [fo_providerRequestId op, jb_jobId j],
        fo_payload := JobPayload (j\<lparr>jb_leaseToken := [], jb_leaseTokenHash := []\<rparr>) (jb_leaseTokenHash j)\<rparr>"

text \<open>\<^verbatim>\<open>recordOperation\<close> with a job and no error: the entry it appends.\<close>

definition recorded_job :: "instant \<Rightarrow> fabric_operation \<Rightarrow> job \<Rightarrow> fabric_operation" where
  "recorded_job now base j =
     fill_job j
       (base\<lparr>fo_id := fabricID ''fop'' (first_non_empty [fo_operationId base, fo_resourceId base] @ ''_'' @ jb_status j) now,
             fo_status := jb_status j, fo_createdAt := now,
             fo_finishedAt := (if jb_status j \<noteq> ''started'' then now else fo_finishedAt base)\<rparr>)"

section \<open>Reading log entries\<close>

text \<open>
  \<^verbatim>\<open>json.Unmarshal\<close> of a job into a variable that already holds one. A field with
  \<^verbatim>\<open>omitempty\<close> that was zero when it was marshalled is absent from the text, so the
  variable keeps what it had.
\<close>

definition keep_if_empty :: "'a list \<Rightarrow> 'a list \<Rightarrow> 'a list" where
  "keep_if_empty new old = (if new = [] then old else new)"

definition unmarshal_job :: "job \<Rightarrow> job \<Rightarrow> job" where
  "unmarshal_job old j =
     j\<lparr>jb_environmentRef := keep_if_empty (jb_environmentRef j) (jb_environmentRef old),
       jb_leaseOwner := keep_if_empty (jb_leaseOwner j) (jb_leaseOwner old),
       jb_leaseExpiresAt := (case jb_leaseExpiresAt j of None \<Rightarrow> jb_leaseExpiresAt old | Some t \<Rightarrow> Some t),
       jb_leaseToken := keep_if_empty (jb_leaseToken j) (jb_leaseToken old),
       jb_artifactIds := keep_if_empty (jb_artifactIds j) (jb_artifactIds old),
       jb_reviewIds := keep_if_empty (jb_reviewIds j) (jb_reviewIds old),
       jb_errorCode := keep_if_empty (jb_errorCode j) (jb_errorCode old),
       jb_replayed := (jb_replayed j \<or> jb_replayed old),
       jb_leaseTokenHash := jb_leaseTokenHash old\<rparr>"

text \<open>\<^verbatim>\<open>decodeOperationResource(operation, &job)\<close>. Only a job entry holds a job.\<close>

definition decode_job :: "fabric_operation \<Rightarrow> job \<Rightarrow> job option" where
  "decode_job op old = (case fo_payload op of JobPayload j _ \<Rightarrow> Some (unmarshal_job old j) | _ \<Rightarrow> None)"

definition payload_token_hash :: "fabric_operation \<Rightarrow> string" where
  "payload_token_hash op = (case fo_payload op of JobPayload _ h \<Rightarrow> h | _ \<Rightarrow> [])"

end
