(* ===== verification/Fabric_Jobs.thy ===== *)
theory Fabric_Jobs
  imports Fabric_Types Idempotent_Command
begin

text \<open>
  Jobs of the Fabric service, after \<^verbatim>\<open>services/fabric/internal/fabric/service.go\<close>. The only
  state is the operation log of the memory store: a job is what its log entries decode to. Every
  method holds \<^verbatim>\<open>jobMu\<close> throughout, so it is a function of the log. A method reads the
  clock several times; \<open>ck\<close> gives the readings of one call in their order. The list and append
  operations of the memory store never fail.
\<close>

type_synonym op_log = "fabric_operation list"
type_synonym clock = "nat \<Rightarrow> instant"

section \<open>Reading the log\<close>

definition job_entry :: "string \<Rightarrow> fabric_operation \<Rightarrow> bool" where
  "job_entry jid op \<longleftrightarrow> fo_resourceKind op = ''job'' \<and> fo_resourceId op = jid"

text \<open>The loop of \<^verbatim>\<open>jobLocked\<close>: whether an entry was found, the variable every entry is
  decoded into, and the hash of the lease token of the last entry.\<close>

fun job_scan :: "string \<Rightarrow> op_log \<Rightarrow> bool \<times> job \<times> string \<Rightarrow> bool \<times> job \<times> string" where
  "job_scan jid [] acc = acc"
| "job_scan jid (op # ops) (found, j, h) =
     (if job_entry jid op then
        (case decode_job op j of
           Some j' \<Rightarrow> job_scan jid ops (True, j', payload_token_hash op)
         | None \<Rightarrow> job_scan jid ops (found, j, h))
      else job_scan jid ops (found, j, h))"

definition read_job :: "string \<Rightarrow> op_log \<Rightarrow> job option" where
  "read_job jid log =
     (let (found, j, h) = job_scan jid log (False, zero_job, [])
      in if found then Some (j\<lparr>jb_leaseTokenHash := h\<rparr>) else None)"

definition appendJobTransition ::
  "hashing \<Rightarrow> instant \<Rightarrow> instant \<Rightarrow> string \<Rightarrow> string \<Rightarrow> string \<Rightarrow> job \<Rightarrow> string \<Rightarrow> op_log \<Rightarrow> op_log" where
  "appendJobTransition hx t1 t2 action key requestHash j caller log =
     (let op = newOperation hx action ''job'' (jb_jobId j) [] (jb_workspaceId j) key requestHash t1;
          op = op\<lparr>fo_providerRequestId := jb_jobId j, fo_callerService := caller\<rparr>
      in log @ [recorded_job t2 op j])"

definition lease_expired :: "instant \<Rightarrow> job \<Rightarrow> bool" where
  "lease_expired now j \<longleftrightarrow>
     jb_status j = ''running'' \<and> (case jb_leaseExpiresAt j of None \<Rightarrow> False | Some t \<Rightarrow> \<not> now < t)"

text \<open>\<^verbatim>\<open>jobLocked(ctx, jobID, true)\<close>, readings 0 to 3: a lease that ran out is closed on sight.\<close>

definition jobLocked :: "hashing \<Rightarrow> clock \<Rightarrow> string \<Rightarrow> op_log \<Rightarrow> (fabric_error, job) res \<times> op_log" where
  "jobLocked hx ck jid log =
     (case read_job jid log of None \<Rightarrow> (Err ErrJobNotFound, log)
      | Some j \<Rightarrow>
          if lease_expired (ck 0) j then
            let j = j\<lparr>jb_status := ''timed_out'', jb_errorCode := ''lease_expired'', jb_updatedAt := ck 1\<rparr>
            in (Ok j, appendJobTransition hx (ck 2) (ck 3) ''timeout_job''
                        (''timeout-'' @ jb_jobId j @ ''-'' @ show_int (jb_attempt j))
                        (hashInput hx (GObj [(''jobId'', GStr (jb_jobId j)), (''attempt'', GInt (jb_attempt j))]))
                        j ''runner'' log)
          else (Ok j, log))"

definition Job :: "hashing \<Rightarrow> clock \<Rightarrow> string \<Rightarrow> op_log \<Rightarrow> (fabric_error, job) res \<times> op_log" where
  "Job hx ck jid log = jobLocked hx ck jid log"

text \<open>The scan for an earlier delivery: the first entry of the command under its key decides.\<close>

fun replay_scan :: "(fabric_operation \<Rightarrow> bool) \<Rightarrow> string \<Rightarrow> op_log \<Rightarrow> (fabric_error, job option) res" where
  "replay_scan P requestHash [] = Ok None"
| "replay_scan P requestHash (op # ops) =
     (if \<not> P op then replay_scan P requestHash ops
      else if fo_requestHash op \<noteq> requestHash then Err ErrJobIdempotencyConflict
      else (case decode_job op zero_job of
              Some j \<Rightarrow> Ok (Some (j\<lparr>jb_replayed := True\<rparr>))
            | None \<Rightarrow> replay_scan P requestHash ops))"

definition transition_of :: "string \<Rightarrow> string \<Rightarrow> string \<Rightarrow> fabric_operation \<Rightarrow> bool" where
  "transition_of action jid key op \<longleftrightarrow> job_entry jid op \<and> fo_action op = action \<and> fo_idempotencyKey op = key"

definition replayedJobTransition ::
  "string \<Rightarrow> string \<Rightarrow> string \<Rightarrow> string \<Rightarrow> op_log \<Rightarrow> (fabric_error, job option) res" where
  "replayedJobTransition action jid key requestHash log = replay_scan (transition_of action jid key) requestHash log"

section \<open>Commands\<close>

definition creation_of :: "string \<Rightarrow> fabric_operation \<Rightarrow> bool" where
  "creation_of key op \<longleftrightarrow> fo_resourceKind op = ''job'' \<and> fo_action op = ''create_job'' \<and> fo_idempotencyKey op = key"

definition job_input_ok :: "job_input \<Rightarrow> bool" where
  "job_input_ok i \<longleftrightarrow>
     \<not> (ji_organizationId i = [] \<or> ji_workspaceId i = [] \<or> ji_projectId i = [] \<or> ji_taskId i = [] \<or>
        ji_requestId i = [] \<or> ji_approvalId i = [] \<or> ji_idempotencyKey i = [])"

definition hash_job_input :: "hashing \<Rightarrow> job_input \<Rightarrow> string" where
  "hash_job_input hx i =
     hashInput hx (GObj
       ([(''organizationId'', GStr (ji_organizationId i)), (''workspaceId'', GStr (ji_workspaceId i)),
         (''projectId'', GStr (ji_projectId i)), (''taskId'', GStr (ji_taskId i)), (''requestId'', GStr (ji_requestId i)),
         (''approvalId'', GStr (ji_approvalId i))] @
        (if ji_environmentRef i = [] then [] else [(''environmentRef'', GStr (ji_environmentRef i))])))"

definition job_id_of :: "hashing \<Rightarrow> job_input \<Rightarrow> string" where
  "job_id_of hx i = ''job-'' @ take 16 (stableSuffix hx [ji_idempotencyKey i, ji_requestId i, ji_taskId i])"

definition new_job :: "hashing \<Rightarrow> instant \<Rightarrow> job_input \<Rightarrow> job" where
  "new_job hx now i =
     zero_job\<lparr>jb_jobId := job_id_of hx i, jb_organizationId := ji_organizationId i, jb_workspaceId := ji_workspaceId i,
       jb_projectId := ji_projectId i, jb_taskId := ji_taskId i, jb_requestId := ji_requestId i,
       jb_approvalId := ji_approvalId i, jb_environmentRef := ji_environmentRef i, jb_status := ''queued'',
       jb_attempt := 1, jb_createdAt := now, jb_updatedAt := now\<rparr>"

definition CreateJob :: "hashing \<Rightarrow> clock \<Rightarrow> job_input \<Rightarrow> op_log \<Rightarrow> (fabric_error, job) res \<times> op_log" where
  "CreateJob hx ck i log =
     (if \<not> job_input_ok i then (Err ErrInvalidJobInput, log)
      else
        case replay_scan (creation_of (ji_idempotencyKey i)) (hash_job_input hx i) log of
          Inl e \<Rightarrow> (Err e, log)
        | Inr (Some j) \<Rightarrow> (Ok j, log)
        | Inr None \<Rightarrow>
            let j = new_job hx (ck 0) i;
                op = newOperation hx ''create_job'' ''job'' (jb_jobId j) [] (ji_workspaceId i) (ji_idempotencyKey i)
                       (hash_job_input hx i) (ck 0);
                op = op\<lparr>fo_providerRequestId := jb_jobId j\<rparr>
            in (Ok j, log @ [recorded_job (ck 1) op j]))"

text \<open>What the transitions share: replay, load (closing a lease that ran out), check, change, append.
  The change reads the clock at 4 and the entry at 5 and 6.\<close>

definition job_command ::
  "hashing \<Rightarrow> clock \<Rightarrow> string \<Rightarrow> string \<Rightarrow> string \<Rightarrow> string \<Rightarrow> string \<Rightarrow>
   (job \<Rightarrow> (fabric_error, job) res) \<Rightarrow> op_log \<Rightarrow> (fabric_error, job) res \<times> op_log" where
  "job_command hx ck action jid key requestHash caller change log =
     (case replayedJobTransition action jid key requestHash log of
        Inl e \<Rightarrow> (Err e, log)
      | Inr (Some j) \<Rightarrow> (Ok j, log)
      | Inr None \<Rightarrow>
          (case jobLocked hx ck jid log of
             (Inl e, log) \<Rightarrow> (Err e, log)
           | (Inr j, log) \<Rightarrow>
               (case change j of Inl e \<Rightarrow> (Err e, log)
                | Inr j' \<Rightarrow> (Ok j', appendJobTransition hx (ck 5) (ck 6) action key requestHash j' caller log))))"

definition CancelJob :: "hashing \<Rightarrow> clock \<Rightarrow> string \<Rightarrow> string \<Rightarrow> op_log \<Rightarrow> (fabric_error, job) res \<times> op_log" where
  "CancelJob hx ck jid key log =
     (if key = [] then (Err ErrInvalidJobInput, log)
      else
        let h = hashInput hx (GObj [(''jobId'', GStr jid)])
        in case replayedJobTransition ''cancel_job'' jid key h log of
             Inl e \<Rightarrow> (Err e, log)
           | Inr (Some j) \<Rightarrow> (Ok j, log)
           | Inr None \<Rightarrow>
               (case jobLocked hx ck jid log of
                  (Inl e, log) \<Rightarrow> (Err e, log)
                | (Inr j, log) \<Rightarrow>
                    if jb_status j = ''cancelled'' then (Ok (j\<lparr>jb_replayed := True\<rparr>), log)
                    else if jb_status j \<noteq> ''queued'' \<and> jb_status j \<noteq> ''running'' then (Err ErrJobStateConflict, log)
                    else
                      let j = j\<lparr>jb_status := ''cancelled'', jb_updatedAt := ck 4\<rparr>
                      in (Ok j, appendJobTransition hx (ck 5) (ck 6) ''cancel_job'' key h j ''control-plane'' log)))"

definition lease_time :: int where "lease_time = 30 * ns_per_sec"

definition claim_change :: "hashing \<Rightarrow> instant \<Rightarrow> string option \<Rightarrow> string \<Rightarrow> job \<Rightarrow> (fabric_error, job) res" where
  "claim_change hx now token runner j =
     (if jb_status j \<noteq> ''queued'' then Err ErrJobStateConflict
      else case token of None \<Rightarrow> Err LeaseTokenUnavailable
           | Some tok \<Rightarrow>
               Ok (j\<lparr>jb_status := ''running'', jb_leaseOwner := runner, jb_leaseExpiresAt := Some (now + lease_time),
                     jb_leaseToken := tok, jb_leaseTokenHash := stableSuffix hx [tok], jb_updatedAt := now\<rparr>))"

text \<open>The token is what the random source gives, None when it fails.\<close>

definition ClaimJob ::
  "hashing \<Rightarrow> clock \<Rightarrow> string option \<Rightarrow> string \<Rightarrow> job_claim_input \<Rightarrow> op_log \<Rightarrow> (fabric_error, job) res \<times> op_log" where
  "ClaimJob hx ck token jid i log =
     (if jid = [] \<or> jc_runnerId i = [] \<or> jc_idempotencyKey i = [] then (Err ErrInvalidJobInput, log)
      else job_command hx ck ''claim_job'' jid (jc_idempotencyKey i)
             (hashInput hx (GObj [(''jobId'', GStr jid), (''runnerId'', GStr (jc_runnerId i))])) ''runner''
             (claim_change hx (ck 4) token (jc_runnerId i)) log)"

text \<open>The checks of \<^verbatim>\<open>activeLeasedJob\<close> on the loaded job.\<close>

definition activeLeasedJob :: "hashing \<Rightarrow> string \<Rightarrow> string \<Rightarrow> job \<Rightarrow> fabric_error option" where
  "activeLeasedJob hx runner token j =
     (if jb_status j \<noteq> ''running'' then Some ErrJobStateConflict
      else if jb_leaseOwner j \<noteq> runner \<or> jb_leaseTokenHash j \<noteq> stableSuffix hx [token] then Some ErrJobLeaseMismatch
      else None)"

definition leased_change :: "hashing \<Rightarrow> string \<Rightarrow> string \<Rightarrow> (job \<Rightarrow> job) \<Rightarrow> job \<Rightarrow> (fabric_error, job) res" where
  "leased_change hx runner token f j =
     (case activeLeasedJob hx runner token j of Some e \<Rightarrow> Err e | None \<Rightarrow> Ok (f j))"

definition lease_hash_fields :: "hashing \<Rightarrow> string \<Rightarrow> string \<Rightarrow> string \<Rightarrow> gomap" where
  "lease_hash_fields hx jid runner token =
     [(''jobId'', GStr jid), (''runnerId'', GStr runner), (''leaseTokenHash'', GStr (stableSuffix hx [token]))]"

definition HeartbeatJob ::
  "hashing \<Rightarrow> clock \<Rightarrow> string \<Rightarrow> job_heartbeat_input \<Rightarrow> op_log \<Rightarrow> (fabric_error, job) res \<times> op_log" where
  "HeartbeatJob hx ck jid i log =
     (if jid = [] \<or> jh_runnerId i = [] \<or> jh_leaseToken i = [] \<or> jh_idempotencyKey i = []
      then (Err ErrInvalidJobInput, log)
      else job_command hx ck ''heartbeat_job'' jid (jh_idempotencyKey i)
             (hashInput hx (GObj (lease_hash_fields hx jid (jh_runnerId i) (jh_leaseToken i)))) ''runner''
             (leased_change hx (jh_runnerId i) (jh_leaseToken i)
                (\<lambda>j. j\<lparr>jb_leaseExpiresAt := Some (ck 4 + lease_time), jb_updatedAt := ck 4\<rparr>)) log)"

definition CompleteJob ::
  "hashing \<Rightarrow> clock \<Rightarrow> string \<Rightarrow> job_complete_input \<Rightarrow> op_log \<Rightarrow> (fabric_error, job) res \<times> op_log" where
  "CompleteJob hx ck jid i log =
     (if jid = [] \<or> jd_runnerId i = [] \<or> jd_leaseToken i = [] \<or> jd_artifactIds i = [] \<or> jd_reviewIds i = [] \<or>
         jd_idempotencyKey i = []
      then (Err ErrInvalidJobInput, log)
      else job_command hx ck ''complete_job'' jid (jd_idempotencyKey i)
             (hashInput hx (GObj [(''JobID'', GStr jid), (''RunnerID'', GStr (jd_runnerId i)),
                (''LeaseTokenHash'', GStr (stableSuffix hx [jd_leaseToken i])),
                (''ArtifactIDs'', GStrs (jd_artifactIds i)), (''ReviewIDs'', GStrs (jd_reviewIds i))])) ''runner''
             (leased_change hx (jd_runnerId i) (jd_leaseToken i)
                (\<lambda>j. j\<lparr>jb_status := ''succeeded'', jb_artifactIds := jd_artifactIds i, jb_reviewIds := jd_reviewIds i,
                       jb_errorCode := [], jb_updatedAt := ck 4\<rparr>)) log)"

definition FailJob ::
  "hashing \<Rightarrow> clock \<Rightarrow> string \<Rightarrow> job_fail_input \<Rightarrow> op_log \<Rightarrow> (fabric_error, job) res \<times> op_log" where
  "FailJob hx ck jid i log =
     (if jid = [] \<or> jf_runnerId i = [] \<or> jf_leaseToken i = [] \<or> jf_errorCode i = [] \<or> jf_idempotencyKey i = []
      then (Err ErrInvalidJobInput, log)
      else job_command hx ck ''fail_job'' jid (jf_idempotencyKey i)
             (hashInput hx (GObj (lease_hash_fields hx jid (jf_runnerId i) (jf_leaseToken i) @
                                  [(''errorCode'', GStr (jf_errorCode i))]))) ''runner''
             (leased_change hx (jf_runnerId i) (jf_leaseToken i)
                (\<lambda>j. j\<lparr>jb_status := ''failed'', jb_errorCode := jf_errorCode i, jb_updatedAt := ck 4\<rparr>)) log)"

definition retry_change :: "instant \<Rightarrow> job \<Rightarrow> (fabric_error, job) res" where
  "retry_change now j =
     (if jb_status j \<noteq> ''failed'' \<and> jb_status j \<noteq> ''timed_out'' then Err ErrJobStateConflict
      else Ok (j\<lparr>jb_status := ''queued'', jb_attempt := jb_attempt j + 1, jb_leaseOwner := [], jb_leaseExpiresAt := None,
                 jb_leaseToken := [], jb_leaseTokenHash := [], jb_artifactIds := [], jb_reviewIds := [],
                 jb_errorCode := [], jb_updatedAt := now\<rparr>))"

definition RetryJob :: "hashing \<Rightarrow> clock \<Rightarrow> string \<Rightarrow> string \<Rightarrow> op_log \<Rightarrow> (fabric_error, job) res \<times> op_log" where
  "RetryJob hx ck jid key log =
     (if jid = [] \<or> key = [] then (Err ErrInvalidJobInput, log)
      else job_command hx ck ''retry_job'' jid key (hashInput hx (GObj [(''jobId'', GStr jid)])) ''control-plane''
             (retry_change (ck 4)) log)"

end
