(* ===== verification/Fabric_Job_Facts.thy ===== *)
theory Fabric_Job_Facts
  imports Fabric_Jobs
begin

text \<open>
  What the job log guarantees: the life cycle of a job as an abstract machine that every command
  refines, leases held by one runner at a time, tokens that are never stored, commands that are
  idempotent under their keys, and two ways in which the code falls short.
\<close>

section \<open>Scanning an extended log\<close>

lemma job_scan_append: "job_scan jid (xs @ ys) acc = job_scan jid ys (job_scan jid xs acc)"
proof (induction xs arbitrary: acc)
  case (Cons x xs)
  then show ?case by (cases acc) (simp split: option.split)
qed simp

definition job_var :: "string \<Rightarrow> op_log \<Rightarrow> job" where
  "job_var jid log = fst (snd (job_scan jid log (False, zero_job, [])))"

lemma read_job_snoc:
  "read_job jid (log @ [op]) =
     (if job_entry jid op then
        (case decode_job op (job_var jid log) of
           Some j \<Rightarrow> Some (j\<lparr>jb_leaseTokenHash := payload_token_hash op\<rparr>)
         | None \<Rightarrow> read_job jid log)
      else read_job jid log)"
  by (cases "job_scan jid log (False, zero_job, [])")
    (auto simp: read_job_def job_scan_append job_var_def split: option.splits)

lemma read_job_Nil [simp]: "read_job jid [] = None"
  by (simp add: read_job_def)

lemma replay_scan_append:
  "replay_scan P h (xs @ ys) =
     (case replay_scan P h xs of Inl e \<Rightarrow> Inl e | Inr (Some j) \<Rightarrow> Inr (Some j) | Inr None \<Rightarrow> replay_scan P h ys)"
  by (induction xs) (auto split: option.splits)

section \<open>The entry a command appends\<close>

definition job_op :: "hashing \<Rightarrow> instant \<Rightarrow> instant \<Rightarrow> string \<Rightarrow> string \<Rightarrow> string \<Rightarrow> job \<Rightarrow> string \<Rightarrow> fabric_operation" where
  "job_op hx t1 t2 action key h j caller =
     recorded_job t2
       ((newOperation hx action ''job'' (jb_jobId j) [] (jb_workspaceId j) key h t1)
          \<lparr>fo_providerRequestId := jb_jobId j, fo_callerService := caller\<rparr>) j"

lemma appendJobTransition_eq: "appendJobTransition hx t1 t2 action key h j caller log = log @ [job_op hx t1 t2 action key h j caller]"
  by (simp add: appendJobTransition_def job_op_def Let_def)

lemma job_op_fields [simp]:
  "fo_resourceKind (job_op hx t1 t2 action key h j caller) = ''job''"
  "fo_resourceId (job_op hx t1 t2 action key h j caller) = jb_jobId j"
  "fo_action (job_op hx t1 t2 action key h j caller) = action"
  "fo_idempotencyKey (job_op hx t1 t2 action key h j caller) = key"
  "fo_requestHash (job_op hx t1 t2 action key h j caller) = h"
  "fo_status (job_op hx t1 t2 action key h j caller) = jb_status j"
  "fo_payload (job_op hx t1 t2 action key h j caller) =
     JobPayload (j\<lparr>jb_leaseToken := [], jb_leaseTokenHash := []\<rparr>) (jb_leaseTokenHash j)"
  by (simp_all add: job_op_def recorded_job_def fill_job_def newOperation_def)

lemma read_job_op:
  "read_job jid (log @ [job_op hx t1 t2 action key h j caller]) =
     (if jid = jb_jobId j
      then Some ((unmarshal_job (job_var jid log) (j\<lparr>jb_leaseToken := [], jb_leaseTokenHash := []\<rparr>))
                   \<lparr>jb_leaseTokenHash := jb_leaseTokenHash j\<rparr>)
      else read_job jid log)"
  by (simp add: read_job_snoc job_entry_def decode_job_def payload_token_hash_def)

lemma unmarshal_fixed [simp]:
  "jb_jobId (unmarshal_job old j) = jb_jobId j" "jb_status (unmarshal_job old j) = jb_status j"
  "jb_attempt (unmarshal_job old j) = jb_attempt j" "jb_workspaceId (unmarshal_job old j) = jb_workspaceId j"
  by (simp_all add: unmarshal_job_def)

section \<open>Well-formed logs\<close>

text \<open>A job entry holds a job without its token, under the job's own identifier.\<close>

definition job_entry_ok :: "fabric_operation \<Rightarrow> bool" where
  "job_entry_ok op \<longleftrightarrow>
     (fo_resourceKind op = ''job'' \<longrightarrow>
        (\<exists>j h. fo_payload op = JobPayload j h \<and> jb_jobId j = fo_resourceId op \<and> jb_leaseToken j = []))"

definition log_ok :: "op_log \<Rightarrow> bool" where
  "log_ok log \<longleftrightarrow> (\<forall>op \<in> set log. job_entry_ok op)"

lemma job_op_ok [simp]: "job_entry_ok (job_op hx t1 t2 action key h j caller)"
  by (simp add: job_entry_ok_def)

lemma log_ok_append [simp]: "log_ok (xs @ ys) \<longleftrightarrow> log_ok xs \<and> log_ok ys"
  by (auto simp: log_ok_def)

lemma log_ok_single [simp]: "log_ok [op] \<longleftrightarrow> job_entry_ok op"
  by (simp add: log_ok_def)

lemma job_scan_ok:
  assumes "log_ok log"
  shows "(fst (job_scan jid log (False, zero_job, [])) \<longrightarrow> jb_jobId (job_var jid log) = jid) \<and>
         jb_leaseToken (job_var jid log) = []"
  using assms unfolding job_var_def
proof (induction log rule: rev_induct)
  case Nil
  then show ?case by (simp add: zero_job_def)
next
  case (snoc op log)
  obtain f v h where s: "job_scan jid log (False, zero_job, []) = (f, v, h)" by (cases "job_scan jid log (False, zero_job, [])")
  from snoc have ih: "f \<longrightarrow> jb_jobId v = jid" "jb_leaseToken v = []" by (simp_all add: s)
  from snoc.prems have op: "job_entry_ok op" by simp
  show ?case
  proof (cases "job_entry jid op")
    case True
    with op obtain j g where p: "fo_payload op = JobPayload j g" "jb_jobId j = jid" "jb_leaseToken j = []"
      by (auto simp: job_entry_ok_def job_entry_def)
    with True ih show ?thesis
      by (simp add: job_scan_append s decode_job_def) (simp add: unmarshal_job_def keep_if_empty_def)
  qed (use ih in \<open>simp add: job_scan_append s\<close>)
qed

lemma read_job_id:
  assumes "log_ok log" "read_job jid log = Some j"
  shows "jb_jobId j = jid" "jb_leaseToken j = []"
proof -
  obtain f v h where s: "job_scan jid log (False, zero_job, []) = (f, v, h)" by (cases "job_scan jid log (False, zero_job, [])")
  with assms(2) have "f" "j = v\<lparr>jb_leaseTokenHash := h\<rparr>" by (auto simp: read_job_def split: if_splits)
  with job_scan_ok [OF assms(1), of jid] s show "jb_jobId j = jid" "jb_leaseToken j = []" by (simp_all add: job_var_def)
qed

section \<open>What each command does\<close>

definition timeout_op :: "hashing \<Rightarrow> clock \<Rightarrow> job \<Rightarrow> fabric_operation" where
  "timeout_op hx ck j =
     job_op hx (ck 2) (ck 3) ''timeout_job'' (''timeout-'' @ jb_jobId j @ ''-'' @ show_int (jb_attempt j))
       (hashInput hx (GObj [(''jobId'', GStr (jb_jobId j)), (''attempt'', GInt (jb_attempt j))]))
       (j\<lparr>jb_status := ''timed_out'', jb_errorCode := ''lease_expired'', jb_updatedAt := ck 1\<rparr>) ''runner''"

lemma jobLocked_cases:
  assumes "jobLocked hx ck jid log = (x, log')"
  obtains (none) "read_job jid log = None" "x = Err ErrJobNotFound" "log' = log"
  | (live) j where "read_job jid log = Some j" "\<not> lease_expired (ck 0) j" "x = Ok j" "log' = log"
  | (expired) j where "read_job jid log = Some j" "lease_expired (ck 0) j"
      "x = Ok (j\<lparr>jb_status := ''timed_out'', jb_errorCode := ''lease_expired'', jb_updatedAt := ck 1\<rparr>)"
      "log' = log @ [timeout_op hx ck j]"
  using assms
  by (auto simp: jobLocked_def timeout_op_def appendJobTransition_eq Let_def split: option.splits if_splits)

lemma job_command_cases:
  assumes "job_command hx ck action jid key h caller change log = (x, log')"
  obtains (replay) j where "replayedJobTransition action jid key h log = Ok (Some j)" "x = Ok j" "log' = log"
  | (conflict) e where "replayedJobTransition action jid key h log = Err e" "x = Err e" "log' = log"
  | (none) "replayedJobTransition action jid key h log = Ok None" "read_job jid log = None" "x = Err ErrJobNotFound" "log' = log"
  | (refused) j log1 e where "replayedJobTransition action jid key h log = Ok None" "jobLocked hx ck jid log = (Ok j, log1)"
      "change j = Err e" "x = Err e" "log' = log1"
  | (applied) j j' log1 where "replayedJobTransition action jid key h log = Ok None" "jobLocked hx ck jid log = (Ok j, log1)"
      "change j = Ok j'" "x = Ok j'" "log' = log1 @ [job_op hx (ck 5) (ck 6) action key h j' caller]"
proof -
  consider e where "replayedJobTransition action jid key h log = Err e"
    | j where "replayedJobTransition action jid key h log = Ok (Some j)"
    | "replayedJobTransition action jid key h log = Ok None"
    by (metis option.exhaust sumE)
  then show ?thesis
  proof cases
    case 3
    obtain y log1 where l: "jobLocked hx ck jid log = (y, log1)" by (cases "jobLocked hx ck jid log")
    show ?thesis
    proof (cases y)
      case (Inl e)
      have n: "read_job jid log = None" "e = ErrJobNotFound" "log1 = log"
        using l [unfolded Inl] by (auto elim: jobLocked_cases)
      have "x = Err e" "log' = log1" using 3 assms l [unfolded Inl] by (simp_all add: job_command_def)
      with none [OF 3] n show ?thesis by simp
    next
      case (Inr j)
      show ?thesis
      proof (cases "change j")
        case e: (Inl e)
        have "x = Err e" "log' = log1" using 3 assms l [unfolded Inr] e by (simp_all add: job_command_def)
        with refused [OF 3 l [unfolded Inr] e] show ?thesis by simp
      next
        case j': (Inr j')
        have "x = Ok j'" "log' = log1 @ [job_op hx (ck 5) (ck 6) action key h j' caller]"
          using 3 assms l [unfolded Inr] j' by (simp_all add: job_command_def appendJobTransition_eq)
        with applied [OF 3 l [unfolded Inr] j'] show ?thesis by simp
      qed
    qed
  next
    case (1 e)
    have "x = Err e" "log' = log" using 1 assms by (simp_all add: job_command_def)
    with conflict [OF 1] show ?thesis by simp
  next
    case (2 j)
    have "x = Ok j" "log' = log" using 2 assms by (simp_all add: job_command_def)
    with replay [OF 2] show ?thesis by simp
  qed
qed

section \<open>The life cycle\<close>

text \<open>A job as the life cycle sees it: a status and the number of the attempt, None before creation.\<close>

type_synonym job_phase = "(string \<times> int) option"

definition job_phase_of :: "string \<Rightarrow> op_log \<Rightarrow> job_phase" where
  "job_phase_of jid log = map_option (\<lambda>j. (jb_status j, jb_attempt j)) (read_job jid log)"

text \<open>The phase a command finds: a lease that has run out is closed on sight.\<close>

definition seen_phase :: "instant \<Rightarrow> string \<Rightarrow> op_log \<Rightarrow> job_phase" where
  "seen_phase now jid log =
     map_option (\<lambda>j. (if lease_expired now j then ''timed_out'' else jb_status j, jb_attempt j)) (read_job jid log)"

lemma job_phase_op:
  "job_phase_of jid (log @ [job_op hx t1 t2 action key h j caller]) =
     (if jid = jb_jobId j then Some (jb_status j, jb_attempt j) else job_phase_of jid log)"
  by (simp add: job_phase_of_def read_job_op)

text \<open>A change a command makes to a job that is loaded: it keeps the identifier and makes a move.\<close>

type_synonym job_moves = "job_phase \<Rightarrow> job_phase \<Rightarrow> bool"

definition good_change :: "job_moves \<Rightarrow> (job \<Rightarrow> (fabric_error, job) res) \<Rightarrow> bool" where
  "good_change M change \<longleftrightarrow>
     (\<forall>j j'. change j = Ok j' \<longrightarrow> jb_jobId j' = jb_jobId j \<and>
        M (Some (jb_status j, jb_attempt j)) (Some (jb_status j', jb_attempt j')))"

text \<open>From one status to another within an attempt.\<close>

definition moves_to :: "string \<Rightarrow> string \<Rightarrow> job_moves" where
  "moves_to s s' p q \<longleftrightarrow> (\<exists>n. p = Some (s, n) \<and> q = Some (s', n))"

definition moves_back :: job_moves where
  "moves_back p q \<longleftrightarrow> (\<exists>s n. (s = ''failed'' \<or> s = ''timed_out'') \<and> p = Some (s, n) \<and> q = Some (''queued'', n + 1))"

lemma good_claim: "good_change (moves_to ''queued'' ''running'') (claim_change hx now token runner)"
  by (auto simp: good_change_def moves_to_def claim_change_def split: if_splits option.splits)

lemma good_leased:
  assumes "\<And>j. jb_jobId (f j) = jb_jobId j \<and> jb_attempt (f j) = jb_attempt j \<and> (jb_status j = ''running'' \<longrightarrow> jb_status (f j) = s)"
  shows "good_change (moves_to ''running'' s) (leased_change hx runner token f)"
  unfolding good_change_def
proof (intro allI impI)
  fix j j' assume "leased_change hx runner token f j = Ok j'"
  then have j: "jb_status j = ''running''" "j' = f j"
    by (auto simp: leased_change_def activeLeasedJob_def split: if_splits option.splits)
  show "jb_jobId j' = jb_jobId j \<and> moves_to ''running'' s (Some (jb_status j, jb_attempt j)) (Some (jb_status j', jb_attempt j'))"
    using assms [of j] j by (simp add: moves_to_def)
qed

lemma good_retry: "good_change moves_back (retry_change now)"
  by (auto simp: good_change_def moves_back_def retry_change_def split: if_splits)

lemma good_change_any: "good_change M change \<Longrightarrow> good_change (\<lambda>_ _. True) change"
  by (auto simp: good_change_def)

text \<open>What a command on a job leaves: every other job as it was, and, when it wrote, a refusal what was
  seen and a success a move from there.\<close>

definition job_outcome :: "job_moves \<Rightarrow> instant \<Rightarrow> string \<Rightarrow> op_log \<Rightarrow> (fabric_error, job) res \<Rightarrow> op_log \<Rightarrow> bool" where
  "job_outcome M now jid log x log' \<longleftrightarrow>
     (\<forall>k. k \<noteq> jid \<longrightarrow> job_phase_of k log' = job_phase_of k log) \<and>
     (log' = log \<or>
      (case x of Inl e \<Rightarrow> job_phase_of jid log' = seen_phase now jid log
       | Inr j \<Rightarrow> M (seen_phase now jid log) (job_phase_of jid log')))"

lemma outcome_same [simp]: "job_outcome M now jid log x log"
  by (simp add: job_outcome_def)

lemma jobLocked_seen:
  assumes "jobLocked hx ck jid log = (x, log')" "log_ok log"
  shows "log_ok log'" "k \<noteq> jid \<Longrightarrow> job_phase_of k log' = job_phase_of k log" "log' \<noteq> log \<Longrightarrow> job_phase_of jid log' = seen_phase (ck 0) jid log"
    "x = Ok j \<Longrightarrow> jb_jobId j = jid \<and> seen_phase (ck 0) jid log = Some (jb_status j, jb_attempt j)"
proof -
  have "log_ok log' \<and> (k \<noteq> jid \<longrightarrow> job_phase_of k log' = job_phase_of k log) \<and> (log' \<noteq> log \<longrightarrow> job_phase_of jid log' = seen_phase (ck 0) jid log) \<and>
    (x = Ok j \<longrightarrow> jb_jobId j = jid \<and> seen_phase (ck 0) jid log = Some (jb_status j, jb_attempt j))"
    using assms(1)
  proof (cases rule: jobLocked_cases)
    case (live j)
    with assms(2) read_job_id [OF assms(2)] show ?thesis by (auto simp: seen_phase_def)
  next
    case (expired j)
    have "jb_jobId j = jid" using read_job_id [OF assms(2) expired(1)] by simp
    with expired assms(2) show ?thesis by (auto simp: timeout_op_def job_phase_op seen_phase_def)
  qed (use assms(2) in simp)
  then show "log_ok log'" "k \<noteq> jid \<Longrightarrow> job_phase_of k log' = job_phase_of k log" "log' \<noteq> log \<Longrightarrow> job_phase_of jid log' = seen_phase (ck 0) jid log"
    "x = Ok j \<Longrightarrow> jb_jobId j = jid \<and> seen_phase (ck 0) jid log = Some (jb_status j, jb_attempt j)" by blast+
qed

lemma job_command_moves:
  assumes "job_command hx ck action jid key h caller change log = (x, log')" "good_change M change" "log_ok log"
  shows "job_outcome M (ck 0) jid log x log' \<and> log_ok log'"
  using assms(1)
proof (cases rule: job_command_cases)
  case (refused j log1 e)
  with jobLocked_seen [OF refused(2) assms(3)] show ?thesis by (auto simp: job_outcome_def)
next
  case (applied j j' log1)
  note l = jobLocked_seen [OF applied(2) assms(3)]
  from assms(2) applied(3) have g: "jb_jobId j' = jb_jobId j"
    "M (Some (jb_status j, jb_attempt j)) (Some (jb_status j', jb_attempt j'))"
    unfolding good_change_def by blast+
  with l(1,2) l(4) [OF refl] applied(4,5) show ?thesis by (auto simp: job_outcome_def job_phase_op)
qed (use assms(3) in simp_all)

lemma CreateJob_new:
  assumes "job_input_ok i" and "replay_scan (creation_of (ji_idempotencyKey i)) (hash_job_input hx i) log = Ok None"
  shows "CreateJob hx ck i log = (Ok (new_job hx (ck 0) i),
    log @ [job_op hx (ck 0) (ck 1) ''create_job'' (ji_idempotencyKey i) (hash_job_input hx i) (new_job hx (ck 0) i) ''control-plane''])"
  using assms by (auto simp: CreateJob_def Let_def job_op_def new_job_def newOperation_def)

lemma CreateJob_cases:
  assumes "CreateJob hx ck i log = (x, log')"
  obtains "log' = log"
  | "job_input_ok i" "replay_scan (creation_of (ji_idempotencyKey i)) (hash_job_input hx i) log = Ok None"
    "x = Ok (new_job hx (ck 0) i)"
    "log' = log @ [job_op hx (ck 0) (ck 1) ''create_job'' (ji_idempotencyKey i) (hash_job_input hx i) (new_job hx (ck 0) i) ''control-plane'']"
proof (cases "log' = log")
  case False
  with assms have "job_input_ok i" and r: "replay_scan (creation_of (ji_idempotencyKey i)) (hash_job_input hx i) log = Ok None"
    by (auto simp: CreateJob_def split: if_splits sum.splits option.splits)
  moreover from CreateJob_new [OF this] assms have "x = Ok (new_job hx (ck 0) i)"
    "log' = log @ [job_op hx (ck 0) (ck 1) ''create_job'' (ji_idempotencyKey i) (hash_job_input hx i) (new_job hx (ck 0) i) ''control-plane'']"
    by simp_all
  ultimately show ?thesis by (rule that(2))
qed (rule that(1))

section \<open>Calls\<close>

text \<open>A call of a job method, with what it is given and, for a claim, the token that was drawn.\<close>

datatype job_call =
    Creates job_input
  | Reads string
  | Cancels string string
  | Claims string job_claim_input "string option"
  | Heartbeats string job_heartbeat_input
  | Completes string job_complete_input
  | Fails string job_fail_input
  | Retries string string

fun run_call :: "hashing \<Rightarrow> clock \<Rightarrow> job_call \<Rightarrow> op_log \<Rightarrow> (fabric_error, job) res \<times> op_log" where
  "run_call hx ck (Creates i) log = CreateJob hx ck i log"
| "run_call hx ck (Reads jid) log = Job hx ck jid log"
| "run_call hx ck (Cancels jid key) log = CancelJob hx ck jid key log"
| "run_call hx ck (Claims jid i token) log = ClaimJob hx ck token jid i log"
| "run_call hx ck (Heartbeats jid i) log = HeartbeatJob hx ck jid i log"
| "run_call hx ck (Completes jid i) log = CompleteJob hx ck jid i log"
| "run_call hx ck (Fails jid i) log = FailJob hx ck jid i log"
| "run_call hx ck (Retries jid key) log = RetryJob hx ck jid key log"

fun call_job :: "hashing \<Rightarrow> job_call \<Rightarrow> string" where
  "call_job hx (Creates i) = job_id_of hx i"
| "call_job hx (Reads jid) = jid"
| "call_job hx (Cancels jid key) = jid"
| "call_job hx (Claims jid i token) = jid"
| "call_job hx (Heartbeats jid i) = jid"
| "call_job hx (Completes jid i) = jid"
| "call_job hx (Fails jid i) = jid"
| "call_job hx (Retries jid key) = jid"

text \<open>What a call that succeeds and writes does to its job. \<^verbatim>\<open>CreateJob\<close> does not look for a job
  of the identifier it derives, so a creation queues a job from any phase.\<close>

fun call_move :: "job_call \<Rightarrow> job_moves" where
  "call_move (Creates i) = (\<lambda>p q. q = Some (''queued'', 1))"
| "call_move (Reads jid) = (\<lambda>p q. q = p)"
| "call_move (Cancels jid key) = (\<lambda>p q. moves_to ''queued'' ''cancelled'' p q \<or> moves_to ''running'' ''cancelled'' p q)"
| "call_move (Claims jid i token) = moves_to ''queued'' ''running''"
| "call_move (Heartbeats jid i) = moves_to ''running'' ''running''"
| "call_move (Completes jid i) = moves_to ''running'' ''succeeded''"
| "call_move (Fails jid i) = moves_to ''running'' ''failed''"
| "call_move (Retries jid key) = moves_back"

text \<open>Any call of a job method, and any entry another component logs for another kind of resource.\<close>

inductive job_step :: "hashing \<Rightarrow> op_log \<Rightarrow> op_log \<Rightarrow> bool" for hx where
  call: "run_call hx ck c log = (x, log') \<Longrightarrow> job_step hx log log'"
| other: "fo_resourceKind op \<noteq> ''job'' \<Longrightarrow> job_step hx log (log @ [op])"

lemma call_step: "job_step hx log (snd (run_call hx ck c log))"
  by (rule job_step.call [OF surjective_pairing])

text \<open>The commands after their input checks.\<close>

lemma command_or_same:
  "ClaimJob hx ck token jid ic log = (x, log') \<Longrightarrow> log' = log \<or>
     (\<exists>h. job_command hx ck ''claim_job'' jid (jc_idempotencyKey ic) h ''runner'' (claim_change hx (ck 4) token (jc_runnerId ic)) log = (x, log'))"
  "HeartbeatJob hx ck jid ih log = (x, log') \<Longrightarrow> log' = log \<or>
     (\<exists>h. job_command hx ck ''heartbeat_job'' jid (jh_idempotencyKey ih) h ''runner''
        (leased_change hx (jh_runnerId ih) (jh_leaseToken ih) (\<lambda>j. j\<lparr>jb_leaseExpiresAt := Some (ck 4 + lease_time), jb_updatedAt := ck 4\<rparr>)) log = (x, log'))"
  "CompleteJob hx ck jid dn log = (x, log') \<Longrightarrow> log' = log \<or>
     (\<exists>h. job_command hx ck ''complete_job'' jid (jd_idempotencyKey dn) h ''runner''
        (leased_change hx (jd_runnerId dn) (jd_leaseToken dn)
           (\<lambda>j. j\<lparr>jb_status := ''succeeded'', jb_artifactIds := jd_artifactIds dn, jb_reviewIds := jd_reviewIds dn,
                  jb_errorCode := [], jb_updatedAt := ck 4\<rparr>)) log = (x, log'))"
  "FailJob hx ck jid fl log = (x, log') \<Longrightarrow> log' = log \<or>
     (\<exists>h. job_command hx ck ''fail_job'' jid (jf_idempotencyKey fl) h ''runner''
        (leased_change hx (jf_runnerId fl) (jf_leaseToken fl)
           (\<lambda>j. j\<lparr>jb_status := ''failed'', jb_errorCode := jf_errorCode fl, jb_updatedAt := ck 4\<rparr>)) log = (x, log'))"
  "RetryJob hx ck jid key log = (x, log') \<Longrightarrow> log' = log \<or>
     (\<exists>h. job_command hx ck ''retry_job'' jid key h ''control-plane'' (retry_change (ck 4)) log = (x, log'))"
  by (auto simp: ClaimJob_def HeartbeatJob_def CompleteJob_def FailJob_def RetryJob_def split: if_splits)

lemma CancelJob_moves:
  assumes "CancelJob hx ck jid key log = (x, log')" "log_ok log"
  shows "job_outcome (call_move (Cancels jid key)) (ck 0) jid log x log' \<and> log_ok log'"
proof (cases "log' = log")
  case False
  let ?h = "hashInput hx (GObj [(''jobId'', GStr jid)])"
  obtain y log1 where l: "jobLocked hx ck jid log = (y, log1)" by (cases "jobLocked hx ck jid log")
  note m = jobLocked_seen [OF l assms(2)]
  from False assms(1) l consider (closed) e where "log' = log1" "x = Err e"
    | (again) j where "log' = log1" "y = Ok j" "jb_status j = ''cancelled''"
    | (cancelled) j j' where "y = Ok j" "jb_status j = ''queued'' \<or> jb_status j = ''running''" "x = Ok j'"
        "log' = log1 @ [job_op hx (ck 5) (ck 6) ''cancel_job'' key ?h (j\<lparr>jb_status := ''cancelled'', jb_updatedAt := ck 4\<rparr>) ''control-plane'']"
    by (auto simp: CancelJob_def appendJobTransition_eq Let_def split: if_splits sum.splits option.splits)
  then show ?thesis
  proof cases
    case closed
    with m(1-3) show ?thesis by (auto simp: job_outcome_def)
  next
    case (again j)
    with l False show ?thesis by (auto elim!: jobLocked_cases)
  next
    case (cancelled j)
    with m(1,2) m(4) [OF cancelled(1)] show ?thesis
      by (auto simp: job_outcome_def job_phase_op moves_to_def)
  qed
qed (use assms(2) in simp)

lemma CreateJob_moves:
  assumes "CreateJob hx ck i log = (x, log')" "log_ok log"
  shows "job_outcome (call_move (Creates i)) (ck 0) (job_id_of hx i) log x log' \<and> log_ok log'"
  using assms(1)
proof (cases rule: CreateJob_cases)
  case 2
  with assms(2) show ?thesis by (auto simp: job_outcome_def job_phase_op new_job_def)
qed (use assms(2) in simp)

lemma run_call_moves:
  assumes "run_call hx ck c log = (x, log')" "log_ok log"
  shows "job_outcome (call_move c) (ck 0) (call_job hx c) log x log' \<and> log_ok log'"
proof (cases c)
  case (Creates i)
  with assms CreateJob_moves show ?thesis by simp
next
  case (Reads jid)
  with assms(1) have l: "jobLocked hx ck jid log = (x, log')" by (simp add: Job_def)
  from jobLocked_seen(1-3) [OF l assms(2)] Reads show ?thesis by (cases "log' = log"; cases x) (simp_all add: job_outcome_def)
next
  case (Cancels jid key)
  with assms CancelJob_moves show ?thesis by simp
next
  case (Claims jid i token)
  with assms command_or_same(1) [of hx ck token jid i log x log'] show ?thesis
    by (auto dest!: job_command_moves [OF _ good_claim])
next
  case (Heartbeats jid i)
  with assms command_or_same(2) [of hx ck jid i log x log'] show ?thesis
    by (auto dest!: job_command_moves [OF _ good_leased [where s = "''running''"]])
next
  case (Completes jid i)
  with assms command_or_same(3) [of hx ck jid i log x log'] show ?thesis
    by (auto dest!: job_command_moves [OF _ good_leased [where s = "''succeeded''"]])
next
  case (Fails jid i)
  with assms command_or_same(4) [of hx ck jid i log x log'] show ?thesis
    by (auto dest!: job_command_moves [OF _ good_leased [where s = "''failed''"]])
next
  case (Retries jid key)
  with assms command_or_same(5) [of hx ck jid key log x log'] show ?thesis
    by (auto dest!: job_command_moves [OF _ good_retry])
qed

lemma job_step_log_ok: "job_step hx log log' \<Longrightarrow> log_ok log \<Longrightarrow> log_ok log'"
  by (induction rule: job_step.induct) (auto simp: job_entry_ok_def dest: run_call_moves)

section \<open>Logs only grow\<close>

lemma job_command_extends:
  assumes "job_command hx ck action jid key h caller change log = (x, log')"
  shows "\<exists>ops. log' = log @ ops"
  using assms
proof (cases rule: job_command_cases)
  case (refused j log1 e)
  from refused(2) show ?thesis by (cases rule: jobLocked_cases) (use refused in auto)
next
  case (applied j j' log1)
  from applied(2) show ?thesis by (cases rule: jobLocked_cases) (use applied in auto)
qed auto

lemma CancelJob_extends: "CancelJob hx ck jid key log = (x, log') \<Longrightarrow> \<exists>ops. log' = log @ ops"
  by (cases "jobLocked hx ck jid log")
    (auto simp: CancelJob_def appendJobTransition_eq Let_def split: if_splits sum.splits option.splits elim!: jobLocked_cases)

lemma run_call_extends: "run_call hx ck c log = (x, log') \<Longrightarrow> \<exists>ops. log' = log @ ops"
proof (cases c)
  case (Creates i)
  assume "run_call hx ck c log = (x, log')"
  with Creates have "CreateJob hx ck i log = (x, log')" by simp
  then show ?thesis by (cases rule: CreateJob_cases) auto
next
  case (Reads jid)
  assume "run_call hx ck c log = (x, log')"
  with Reads have "jobLocked hx ck jid log = (x, log')" by (simp add: Job_def)
  then show ?thesis by (cases rule: jobLocked_cases) auto
qed (auto dest: CancelJob_extends job_command_extends dest!: command_or_same)

lemma job_step_extends: "job_step hx log log' \<Longrightarrow> \<exists>ops. log' = log @ ops"
  by (induction rule: job_step.induct) (auto dest: run_call_extends)

lemma job_steps_extend: "(job_step hx)\<^sup>*\<^sup>* log log' \<Longrightarrow> \<exists>ops. log' = log @ ops"
  by (induction rule: rtranclp_induct) (auto dest: job_step_extends)

lemma job_steps_ok: "(job_step hx)\<^sup>*\<^sup>* log log' \<Longrightarrow> log_ok log \<Longrightarrow> log_ok log'"
  by (induction rule: rtranclp_induct) (auto intro: job_step_log_ok)

section \<open>Commands under their keys\<close>

definition seen_hash :: "(fabric_operation \<Rightarrow> bool) \<Rightarrow> op_log \<Rightarrow> string option" where
  "seen_hash P log = map_option fo_requestHash (find P log)"

lemma find_append: "find P (xs @ ys) = (case find P xs of None \<Rightarrow> find P ys | Some x \<Rightarrow> Some x)"
  by (induction xs) auto

lemma seen_hash_extends: "seen_hash P log = Some h \<Longrightarrow> seen_hash P (log @ ops) = Some h"
  by (auto simp: seen_hash_def find_append)

lemma seen_hash_step: "job_step hx log log' \<Longrightarrow> seen_hash P log = Some h \<Longrightarrow> seen_hash P log' = Some h"
  by (auto dest!: job_step_extends simp: seen_hash_extends)

lemma replay_scan_seen:
  assumes "log_ok log" "\<And>op. P op \<Longrightarrow> fo_resourceKind op = ''job''"
  shows "replay_scan P h log =
    (case find P log of None \<Rightarrow> Ok None
     | Some op \<Rightarrow> if fo_requestHash op \<noteq> h then Err ErrJobIdempotencyConflict
                else Ok (map_option (\<lambda>j. j\<lparr>jb_replayed := True\<rparr>) (decode_job op zero_job)))
   \<and> (\<forall>op. find P log = Some op \<longrightarrow> decode_job op zero_job \<noteq> None)"
  using assms(1)
proof (induction log)
  case (Cons op log)
  then have ok: "log_ok log" "job_entry_ok op" by (simp_all add: log_ok_def)
  show ?case
  proof (cases "P op")
    case True
    with assms(2) have "fo_resourceKind op = ''job''" by blast
    with ok(2) obtain j g where "fo_payload op = JobPayload j g" by (auto simp: job_entry_ok_def)
    with True show ?thesis by (auto simp: decode_job_def)
  qed (use Cons.IH [OF ok(1)] in simp)
qed simp

lemma replay_scan_hit:
  assumes "log_ok log" "\<And>op. P op \<Longrightarrow> fo_resourceKind op = ''job''" "seen_hash P log = Some h"
  shows "\<exists>j. replay_scan P h log = Ok (Some j)"
  using replay_scan_seen [OF assms(1), of P h] assms(2,3) by (auto simp: seen_hash_def)

lemma replay_scan_conflict:
  assumes "log_ok log" "\<And>op. P op \<Longrightarrow> fo_resourceKind op = ''job''" "seen_hash P log = Some h'" "h \<noteq> h'"
  shows "replay_scan P h log = Err ErrJobIdempotencyConflict"
  using replay_scan_seen [OF assms(1), of P h] assms(2,3,4) by (auto simp: seen_hash_def)

lemma replay_scan_new:
  assumes "log_ok log" "\<And>op. P op \<Longrightarrow> fo_resourceKind op = ''job''"
  shows "replay_scan P h log = Ok None \<Longrightarrow> find P log = None"
    and "replay_scan P h log = Ok (Some j) \<Longrightarrow> seen_hash P log = Some h"
  using replay_scan_seen [OF assms(1), of P h] assms(2) by (auto simp: seen_hash_def split: option.splits if_splits)

lemma creation_job: "creation_of k op \<Longrightarrow> fo_resourceKind op = ''job''"
  by (simp add: creation_of_def)

lemma transition_job: "transition_of a jid k op \<Longrightarrow> fo_resourceKind op = ''job''"
  by (simp add: transition_of_def job_entry_def)

interpretation create_job: atomic_command
    "CreateJob hx" ji_idempotencyKey "\<lambda>k. seen_hash (creation_of k)" "\<lambda>i. Some (hash_job_input hx i)" job_input_ok
    log_ok "job_step hx" "\<lambda>ck log. True" ErrJobIdempotencyConflict for hx
proof unfold_locales
  show "job_input_ok i \<and> Some (hash_job_input hx i) \<noteq> None \<and>
        seen_hash (creation_of (ji_idempotencyKey i)) log' = Some (hash_job_input hx i) \<and> log_ok log'"
    if ok: "log_ok log" and run: "CreateJob hx ck i log = (Ok j, log')" for log ck i j log'
  proof -
    have v: "job_input_ok i" using run by (auto simp: CreateJob_def split: if_splits)
    from run show ?thesis
    proof (cases rule: CreateJob_cases)
      case 1
      have "\<exists>j'. replay_scan (creation_of (ji_idempotencyKey i)) (hash_job_input hx i) log = Ok (Some j')"
        using run v 1 by (auto simp: CreateJob_def Let_def split: sum.splits option.splits)
      with replay_scan_new(2) [OF ok creation_job] v ok 1 show ?thesis by auto
    next
      case 2
      from replay_scan_new(1) [OF ok creation_job 2(2)] v ok 2(4)
      show ?thesis by (simp add: seen_hash_def find_append creation_of_def)
    qed
  qed
  show "\<exists>j. CreateJob hx ck i log = (Ok j, log)"
    if "log_ok log" "job_input_ok i" "Some (hash_job_input hx i) = Some h"
      "seen_hash (creation_of (ji_idempotencyKey i)) log = Some h" for log i h ck
    using replay_scan_hit [where P = "creation_of (ji_idempotencyKey i)" and h = h and log = log] creation_job that
    by (auto simp: CreateJob_def)
  show "CreateJob hx ck i log = (Err ErrJobIdempotencyConflict, log)"
    if "log_ok log" "job_input_ok i" "Some (hash_job_input hx i) = Some h"
      "seen_hash (creation_of (ji_idempotencyKey i)) log = Some h'" "h \<noteq> h'" for log i h h' ck
    using replay_scan_conflict [OF that(1) creation_job that(4,5)] that(2,3) by (simp add: CreateJob_def)
  show "seen_hash (creation_of k) log' = Some h"
    if "log_ok log" "job_step hx log log'" "seen_hash (creation_of k) log = Some h" for log log' k h
    by (rule seen_hash_step [OF that(2,3)])
  show "log_ok log'" if "log_ok log" "job_step hx log log'" for log log'
    by (rule job_step_log_ok [OF that(2,1)])
  show "log' = log" if "CreateJob hx ck i log = (Err e, log')" for ck i log e log'
    using that by (cases rule: CreateJob_cases) auto
qed

text \<open>The five transitions have one contract: after the check of the input, \<open>job_command\<close> with a
  change that is a move of the life cycle.\<close>

locale job_transition =
  fixes hx :: hashing and action :: string and caller :: string
    and ok :: "'i \<Rightarrow> bool" and jid :: "'i \<Rightarrow> string" and key :: "'i \<Rightarrow> string" and hash :: "'i \<Rightarrow> string"
    and change :: "clock \<times> 'u \<Rightarrow> 'i \<Rightarrow> job \<Rightarrow> (fabric_error, job) res"
  assumes good: "good_change (\<lambda>_ _. True) (change t i)" and not_timeout: "action \<noteq> ''timeout_job''"
begin

definition run :: "clock \<times> 'u \<Rightarrow> 'i \<Rightarrow> op_log \<Rightarrow> (fabric_error, job) res \<times> op_log" where
  "run t i log =
     (if ok i then job_command hx (fst t) action (jid i) (key i) (hash i) caller (change t i) log
      else (Err ErrInvalidJobInput, log))"

lemma run_Ok:
  assumes log: "log_ok log" and r: "run t i log = (Ok j, log')"
  shows "ok i \<and> seen_hash (transition_of action (jid i) (key i)) log' = Some (hash i) \<and> log_ok log'"
proof -
  have v: "ok i" and c: "job_command hx (fst t) action (jid i) (key i) (hash i) caller (change t i) log = (Ok j, log')"
    using r by (auto simp: run_def split: if_splits)
  note lo = job_command_moves [OF c good log, THEN conjunct2]
  from c show ?thesis
  proof (cases rule: job_command_cases)
    case (replay j0)
    with replay_scan_new(2) [OF log transition_job] v lo show ?thesis by (auto simp: replayedJobTransition_def)
  next
    case (applied j0 j1 log1)
    have f: "find (transition_of action (jid i) (key i)) log = None"
      using replay_scan_new(1) [OF log transition_job] applied(1) by (simp add: replayedJobTransition_def)
    have id: "jb_jobId j1 = jid i"
      using jobLocked_seen(4) [OF applied(2) log] good applied(3) unfolding good_change_def by auto
    have "find (transition_of action (jid i) (key i)) log1 = None"
      using applied(2) f not_timeout
      by (cases rule: jobLocked_cases) (auto simp: find_append timeout_op_def transition_of_def)
    with v lo applied(5) id show ?thesis
      by (simp add: seen_hash_def find_append transition_of_def job_entry_def)
  qed simp_all
qed

sublocale idempotent_command run "\<lambda>i. (jid i, key i)" "\<lambda>(jid, k). seen_hash (transition_of action jid k)"
    "\<lambda>i. Some (hash i)" ok log_ok "job_step hx" "\<lambda>t log. True" ErrJobIdempotencyConflict
proof unfold_locales
  show "ok i \<and> Some (hash i) \<noteq> None \<and>
      (case (jid i, key i) of (jid, k) \<Rightarrow> seen_hash (transition_of action jid k)) log' = Some (hash i) \<and> log_ok log'"
    if "log_ok log" "run t i log = (Ok j, log')" for log t i j log'
    using run_Ok [OF that] by simp
  show "\<exists>j. run t i log = (Ok j, log)"
    if "log_ok log" "ok i" "Some (hash i) = Some h"
      "(case (jid i, key i) of (jid, k) \<Rightarrow> seen_hash (transition_of action jid k)) log = Some h" for log i h t
    using replay_scan_hit [where P = "transition_of action (jid i) (key i)" and h = h and log = log] transition_job that
    by (auto simp: run_def job_command_def replayedJobTransition_def)
  show "run t i log = (Err ErrJobIdempotencyConflict, log)"
    if "log_ok log" "ok i" "Some (hash i) = Some h"
      "(case (jid i, key i) of (jid, k) \<Rightarrow> seen_hash (transition_of action jid k)) log = Some h'" "h \<noteq> h'" for log i h h' t
    using replay_scan_conflict [where P = "transition_of action (jid i) (key i)" and h = h and h' = h' and log = log]
      transition_job that
    by (simp add: run_def job_command_def replayedJobTransition_def)
  show "(case k of (jid, k) \<Rightarrow> seen_hash (transition_of action jid k)) log' = Some h"
    if "log_ok log" "job_step hx log log'" "(case k of (jid, k) \<Rightarrow> seen_hash (transition_of action jid k)) log = Some h"
    for log log' k h
    using seen_hash_step [OF that(2)] that(3) by (cases k) simp
  show "log_ok log'" if "log_ok log" "job_step hx log log'" for log log'
    by (rule job_step_log_ok [OF that(2,1)])
qed

end

interpretation claim_job: job_transition hx "''claim_job''" "''runner''"
    "\<lambda>(jid, i). \<not> (jid = [] \<or> jc_runnerId i = [] \<or> jc_idempotencyKey i = [])" fst "\<lambda>(jid, i). jc_idempotencyKey i"
    "\<lambda>(jid, i). hashInput hx (GObj [(''jobId'', GStr jid), (''runnerId'', GStr (jc_runnerId i))])"
    "\<lambda>t (jid, i). claim_change hx (fst t 4) (snd t) (jc_runnerId i)" for hx
  by unfold_locales (auto intro: good_change_any good_claim)

lemma claim_job_run: "claim_job.run hx (ck, token) (jid, i) = ClaimJob hx ck token jid i"
  unfolding claim_job.run_def ClaimJob_def fun_eq_iff by simp

interpretation complete_job: job_transition hx "''complete_job''" "''runner''"
    "\<lambda>(jid, i). \<not> (jid = [] \<or> jd_runnerId i = [] \<or> jd_leaseToken i = [] \<or> jd_artifactIds i = [] \<or> jd_reviewIds i = [] \<or>
         jd_idempotencyKey i = [])" fst "\<lambda>(jid, i). jd_idempotencyKey i"
    "\<lambda>(jid, i). hashInput hx (GObj [(''JobID'', GStr jid), (''RunnerID'', GStr (jd_runnerId i)),
                (''LeaseTokenHash'', GStr (stableSuffix hx [jd_leaseToken i])),
                (''ArtifactIDs'', GStrs (jd_artifactIds i)), (''ReviewIDs'', GStrs (jd_reviewIds i))])"
    "\<lambda>t (jid, i). leased_change hx (jd_runnerId i) (jd_leaseToken i)
                (\<lambda>j. j\<lparr>jb_status := ''succeeded'', jb_artifactIds := jd_artifactIds i, jb_reviewIds := jd_reviewIds i,
                       jb_errorCode := [], jb_updatedAt := fst t 4\<rparr>)" for hx
  by unfold_locales (auto intro!: good_change_any [OF good_leased [where s = "''succeeded''"]])

lemma complete_job_run: "complete_job.run hx (ck, u) (jid, i) = CompleteJob hx ck jid i"
  unfolding complete_job.run_def CompleteJob_def fun_eq_iff by simp

interpretation retry_job: job_transition hx "''retry_job''" "''control-plane''"
    "\<lambda>(jid, k). \<not> (jid = [] \<or> k = [])" fst snd "\<lambda>(jid, k). hashInput hx (GObj [(''jobId'', GStr jid)])"
    "\<lambda>t i. retry_change (fst t 4)" for hx
  by unfold_locales (auto intro: good_change_any good_retry)

lemma retry_job_run: "retry_job.run hx (ck, u) (jid, k) = RetryJob hx ck jid k"
  unfolding retry_job.run_def RetryJob_def fun_eq_iff by simp

end
