(* ===== verification/Fabric_Job_Claims.thy ===== *)
theory Fabric_Job_Claims
  imports Fabric_Job_Facts
begin

text \<open>
  The properties of the job commands, and a concrete run that the witnesses share: a job is
  created, claimed by a runner, failed, retried, claimed and completed. Digests are the identity
  there, so the runs can be evaluated.
\<close>

section \<open>A concrete run\<close>

definition plain_hashing :: hashing where
  "plain_hashing = \<lparr>hx_bytes = (\<lambda>s. s), hx_json = (\<lambda>v. case v of GObj ((k, GStr s) # _) \<Rightarrow> s | _ \<Rightarrow> [])\<rparr>"

definition tick :: "int \<Rightarrow> clock" where
  "tick n = (\<lambda>i. unix_epoch + n)"

definition ex_job :: job_input where
  "ex_job = \<lparr>ji_organizationId = ''o'', ji_workspaceId = ''w'', ji_projectId = ''p'', ji_taskId = ''t'',
     ji_requestId = ''r'', ji_approvalId = ''a'', ji_environmentRef = [], ji_idempotencyKey = ''k''\<rparr>"

definition ex_jid :: string where "ex_jid = job_id_of plain_hashing ex_job"

definition ex_claim :: "string \<Rightarrow> job_claim_input" where
  "ex_claim k = \<lparr>jc_runnerId = ''alice'', jc_idempotencyKey = k\<rparr>"

definition ex_complete :: job_complete_input where
  "ex_complete = \<lparr>jd_runnerId = ''alice'', jd_leaseToken = ''tok2'', jd_artifactIds = [''art''], jd_reviewIds = [''rev''],
     jd_idempotencyKey = ''d1''\<rparr>"

definition ex_fail :: job_fail_input where
  "ex_fail = \<lparr>jf_runnerId = ''alice'', jf_leaseToken = ''tok1'', jf_errorCode = ''oom'', jf_idempotencyKey = ''f1''\<rparr>"

definition log1 :: op_log where "log1 = snd (CreateJob plain_hashing (tick 1) ex_job [])"
definition log2 :: op_log where "log2 = snd (ClaimJob plain_hashing (tick 2) (Some ''tok1'') ex_jid (ex_claim ''c1'') log1)"
definition log3 :: op_log where "log3 = snd (FailJob plain_hashing (tick 3) ex_jid ex_fail log2)"
definition log4 :: op_log where "log4 = snd (RetryJob plain_hashing (tick 4) ex_jid ''r1'' log3)"
definition log5 :: op_log where "log5 = snd (ClaimJob plain_hashing (tick 5) (Some ''tok2'') ex_jid (ex_claim ''c2'') log4)"
definition log6 :: op_log where "log6 = snd (CompleteJob plain_hashing (tick 6) ex_jid ex_complete log5)"

lemma run_steps:
  "job_step plain_hashing [] log1" "job_step plain_hashing log1 log2" "job_step plain_hashing log2 log3"
  "job_step plain_hashing log3 log4" "job_step plain_hashing log4 log5" "job_step plain_hashing log5 log6"
  using call_step [of plain_hashing "[]" "tick 1" "Creates ex_job"]
    call_step [of plain_hashing log1 "tick 2" "Claims ex_jid (ex_claim ''c1'') (Some ''tok1'')"]
    call_step [of plain_hashing log2 "tick 3" "Fails ex_jid ex_fail"] call_step [of plain_hashing log3 "tick 4" "Retries ex_jid ''r1''"]
    call_step [of plain_hashing log4 "tick 5" "Claims ex_jid (ex_claim ''c2'') (Some ''tok2'')"]
    call_step [of plain_hashing log5 "tick 6" "Completes ex_jid ex_complete"]
  by (simp_all add: log1_def log2_def log3_def log4_def log5_def log6_def)

lemma run_reachable:
  "(job_step plain_hashing)\<^sup>*\<^sup>* [] log2" "(job_step plain_hashing)\<^sup>*\<^sup>* log2 log6" "(job_step plain_hashing)\<^sup>*\<^sup>* [] log6"
  "(job_step plain_hashing)\<^sup>*\<^sup>* [] log5"
proof -
  note go = rtranclp.rtrancl_into_rtrancl [where r = "job_step plain_hashing"]
  show a: "(job_step plain_hashing)\<^sup>*\<^sup>* [] log2"
    by (rule go [OF r_into_rtranclp]) (rule run_steps)+
  have b: "(job_step plain_hashing)\<^sup>*\<^sup>* log2 log5"
    by (rule go [OF go [OF r_into_rtranclp]]) (rule run_steps)+
  show c: "(job_step plain_hashing)\<^sup>*\<^sup>* log2 log6" by (rule go [OF b run_steps(6)])
  show "(job_step plain_hashing)\<^sup>*\<^sup>* [] log6" using a c by (rule rtranclp_trans)
  show "(job_step plain_hashing)\<^sup>*\<^sup>* [] log5" using a b by (rule rtranclp_trans)
qed

section \<open>The life cycle\<close>

lemma job_log_reachable: "(job_step hx)\<^sup>*\<^sup>* [] log \<Longrightarrow> log_ok log"
  by (rule job_steps_ok [of hx "[]"]) (simp_all add: log_ok_def)

text \<open>C27: every call of a job method moves its own job only, and in its own way. A lease that has run out
  is closed first, so the call finds the phase \<open>seen_phase\<close>: a running job whose lease is over is
  timed out. A call that is refused leaves that phase. A call that succeeds and writes makes its own
  move from there: a creation queues attempt 1, a claim runs a queued job, a heartbeat keeps a
  running one running, a completion makes a running job succeeded, a failure failed, a cancellation
  a queued or running job cancelled, and a retry queues a failed or timed out job with the next
  attempt. (A creation does so from any phase: the identifier it derives may belong to a job.)\<close>

theorem job_lifecycle:
  assumes "(job_step hx)\<^sup>*\<^sup>* [] log" and "run_call hx ck c log = (x, log')"
  shows "(\<forall>k. k \<noteq> call_job hx c \<longrightarrow> job_phase_of k log' = job_phase_of k log) \<and>
    (log' = log \<or>
     (case x of
        Inl e \<Rightarrow> job_phase_of (call_job hx c) log' = seen_phase (ck 0) (call_job hx c) log
      | Inr j \<Rightarrow> call_move c (seen_phase (ck 0) (call_job hx c) log) (job_phase_of (call_job hx c) log')))"
  using run_call_moves [OF assms(2) job_log_reachable [OF assms(1)]] by (simp add: job_outcome_def)

theorem job_lifecycle_witness:
  "\<exists>n. seen_phase (tick 6 0) ex_jid log5 = Some (''running'', n) \<and> job_phase_of ex_jid log6 = Some (''succeeded'', n)"
proof -
  have "isl (fst (CompleteJob plain_hashing (tick 6) ex_jid ex_complete log5)) = False" and n: "log6 \<noteq> log5"
    by code_simp+
  then obtain j where "run_call plain_hashing (tick 6) (Completes ex_jid ex_complete) log5 = (Ok j, log6)"
    unfolding log6_def run_call.simps by (metis isl_def prod.collapse sumE)
  from job_lifecycle [OF run_reachable(4) this] n show ?thesis by (simp add: moves_to_def)
qed

text \<open>A creation that queued a job between two logs, under a key that was not used before.\<close>

definition created_between :: "string \<Rightarrow> op_log \<Rightarrow> op_log \<Rightarrow> bool" where
  "created_between jid log log' \<longleftrightarrow>
     (\<exists>op \<in> set (drop (length log) log'). fo_action op = ''create_job'' \<and> fo_resourceId op = jid \<and>
        find (creation_of (fo_idempotencyKey op)) log = None)"

lemma created_extends: "created_between jid log y \<Longrightarrow> (job_step hx)\<^sup>*\<^sup>* log y \<Longrightarrow> job_step hx y z \<Longrightarrow> created_between jid log z"
  using job_steps_extend [of hx log y] job_step_extends [of hx y z] unfolding created_between_def by auto

lemma find_extend: "find P (xs @ ys) = None \<Longrightarrow> find P xs = None"
  by (simp add: find_append split: option.splits)

lemma finished_call:
  assumes run: "run_call hx ck c y = (x, z)" and ok: "log_ok y" and y: "job_phase_of jid y = Some (s, n)"
    and s: "s = ''succeeded'' \<or> s = ''cancelled''"
  shows "job_phase_of jid z = Some (s, n) \<or>
    (\<exists>op. z = y @ [op] \<and> fo_action op = ''create_job'' \<and> fo_resourceId op = jid \<and> find (creation_of (fo_idempotencyKey op)) y = None)"
proof -
  have seen: "seen_phase (ck 0) jid y = Some (s, n)"
    using y s by (auto simp: job_phase_of_def seen_phase_def lease_expired_def)
  have out: "job_outcome (call_move c) (ck 0) (call_job hx c) y x z" using run_call_moves [OF run ok] by simp
  show ?thesis
  proof (cases "call_job hx c = jid \<and> (\<exists>i. c = Creates i)")
    case True
    then obtain i where i: "c = Creates i" "job_id_of hx i = jid" by auto
    with run have "CreateJob hx ck i y = (x, z)" by simp
    then show ?thesis
    proof (cases rule: CreateJob_cases)
      case 2
      from replay_scan_new(1) [OF ok creation_job 2(2)] 2(4) i(2) show ?thesis by (simp add: new_job_def)
    qed (use y in simp)
  next
    case False
    then have "call_job hx c = jid \<Longrightarrow> \<not> call_move c (Some (s, n)) q \<or> q = Some (s, n)" for q
      using s by (cases c) (auto simp: moves_to_def moves_back_def)
    with out seen y show ?thesis
      by (cases "call_job hx c = jid"; cases x) (auto simp: job_outcome_def)
  qed
qed

text \<open>C28: a job that succeeded or was cancelled stays so in every later log, whatever calls come after,
  retried, late or out of order, with one exception that the code leaves open: a creation under a
  new key whose derived identifier is the job's own.\<close>

theorem finished_job_stays:
  assumes "(job_step hx)\<^sup>*\<^sup>* [] log" and "(job_step hx)\<^sup>*\<^sup>* log log'"
    and "job_phase_of jid log = Some (s, n)" and "s = ''succeeded'' \<or> s = ''cancelled''"
  shows "job_phase_of jid log' = Some (s, n) \<or>
    (\<exists>op \<in> set (drop (length log) log'). fo_action op = ''create_job'' \<and> fo_resourceId op = jid \<and>
       find (creation_of (fo_idempotencyKey op)) log = None)"
proof -
  have "job_phase_of jid log' = Some (s, n) \<or> created_between jid log log'"
    using assms(2)
  proof (induction rule: rtranclp_induct)
    case (step y z)
    show ?case
    proof (cases "created_between jid log y")
      case True
      with created_extends step.hyps show ?thesis by blast
    next
      case False
      with step.IH have p: "job_phase_of jid y = Some (s, n)" by simp
      obtain ops where y: "y = log @ ops" using job_steps_extend [OF step.hyps(1)] by blast
      from step.hyps(2) show ?thesis
      proof cases
        case (call ck c x)
        from finished_call [OF call job_steps_ok [OF step.hyps(1) job_log_reachable [OF assms(1)]] p assms(4)] show ?thesis
          unfolding y created_between_def by (auto dest: find_extend)
      next
        case (other op)
        with p show ?thesis by (simp add: job_phase_of_def read_job_snoc job_entry_def)
      qed
    qed
  qed (use assms(3) in simp)
  then show ?thesis by (simp add: created_between_def)
qed

definition log7 :: op_log where "log7 = snd (RetryJob plain_hashing (tick 7) ex_jid ''r2'' log6)"

theorem finished_job_stays_witness: "job_phase_of ex_jid log7 = Some (''succeeded'', 2)"
proof -
  have "job_step plain_hashing log6 log7"
    using call_step [of plain_hashing log6 "tick 7" "Retries ex_jid ''r2''"] by (simp add: log7_def)
  moreover have "job_phase_of ex_jid log6 = Some (''succeeded'', 2)" by code_simp
  moreover have "drop (length log6) log7 = []" by code_simp
  ultimately show ?thesis using finished_job_stays [OF run_reachable(3), of log7 ex_jid] by auto
qed

section \<open>Leases\<close>

text \<open>A leased command that leaves a new entry went through the checks of \<open>activeLeasedJob\<close>.\<close>

lemma leased_command_holder:
  assumes "job_command hx ck action jid key h caller (leased_change hx runner token f) log = (Ok j', log')"
    and "log' \<noteq> log"
  shows "\<exists>j. read_job jid log = Some j \<and> jb_status j = ''running'' \<and> \<not> lease_expired (ck 0) j \<and>
           jb_leaseOwner j = runner \<and> jb_leaseTokenHash j = stableSuffix hx [token]"
  using assms(1)
proof (cases rule: job_command_cases)
  case (applied j j1 log1)
  from applied(3) have a: "jb_status j = ''running''" "jb_leaseOwner j = runner" "jb_leaseTokenHash j = stableSuffix hx [token]"
    by (auto simp: leased_change_def activeLeasedJob_def split: option.splits if_splits)
  from applied(2) show ?thesis
  proof (cases rule: jobLocked_cases)
    case (live j0)
    with a show ?thesis by auto
  next
    case (expired j0)
    with a show ?thesis by simp
  qed simp
qed (use assms(2) in simp_all)

text \<open>C29: only the holder of a live lease completes a job. If \<^verbatim>\<open>CompleteJob\<close> succeeds and
  writes, the job was running, its lease had not expired, and the caller gave the runner and the
  token of that lease.\<close>

theorem only_holder_completes:
  assumes "CompleteJob hx ck jid i log = (Ok j', log')" and "log' \<noteq> log"
  shows "\<exists>j. read_job jid log = Some j \<and> jb_status j = ''running'' \<and> \<not> lease_expired (ck 0) j \<and>
           jb_leaseOwner j = jd_runnerId i \<and> jb_leaseTokenHash j = stableSuffix hx [jd_leaseToken i]"
proof -
  from command_or_same(3) [OF assms(1)] assms(2) show ?thesis by (blast dest: leased_command_holder)
qed

theorem only_holder_completes_witness:
  "\<exists>j. read_job ex_jid log5 = Some j \<and> jb_status j = ''running'' \<and> \<not> lease_expired (tick 6 0) j \<and>
     jb_leaseOwner j = ''alice'' \<and> jb_leaseTokenHash j = ''tok2''"
proof -
  have "isl (fst (CompleteJob plain_hashing (tick 6) ex_jid ex_complete log5)) = False" "log6 \<noteq> log5"
    by code_simp+
  then obtain j where "CompleteJob plain_hashing (tick 6) ex_jid ex_complete log5 = (Ok j, log6)" "log6 \<noteq> log5"
    unfolding log6_def by (metis isl_def prod.collapse sumE)
  from only_holder_completes [OF this] show ?thesis
    by (simp add: ex_complete_def stableSuffix_def plain_hashing_def join_def)
qed

text \<open>At most one runner holds a job. While a job is running and its lease has not expired,
  \<^verbatim>\<open>ClaimJob\<close> under a key that was not used for this job before is refused and changes nothing.\<close>

theorem live_lease_not_claimed:
  assumes "read_job jid log = Some j" and "jb_status j = ''running''" and "\<not> lease_expired (ck 0) j"
    and "find (transition_of ''claim_job'' jid (jc_idempotencyKey i)) log = None" and "jid \<noteq> []"
    and "jc_runnerId i \<noteq> []" and "jc_idempotencyKey i \<noteq> []"
  shows "ClaimJob hx ck token jid i log = (Err ErrJobStateConflict, log)"
proof -
  have "replay_scan (transition_of ''claim_job'' jid (jc_idempotencyKey i)) h log = Ok None" for h
    using assms(4) by (induction log) (auto split: if_splits)
  with assms show ?thesis
    by (simp add: ClaimJob_def job_command_def replayedJobTransition_def jobLocked_def claim_change_def)
qed

theorem live_lease_not_claimed_witness:
  "ClaimJob plain_hashing (tick 3) (Some ''tok3'') ex_jid (ex_claim ''c9'') log2 = (Err ErrJobStateConflict, log2)"
proof (rule live_lease_not_claimed)
  show "read_job ex_jid log2 = Some (the (read_job ex_jid log2))" by code_simp
qed (code_simp)+

text \<open>A lease token is never stored: in a reachable log no entry of a job holds one, and reading a
  job gives none back. Only the answer to the claim that drew the token carries it.\<close>

theorem token_not_stored:
  assumes "(job_step hx)\<^sup>*\<^sup>* [] log"
  shows "(\<forall>op \<in> set log. \<forall>j h. fo_payload op = JobPayload j h \<and> fo_resourceKind op = ''job'' \<longrightarrow> jb_leaseToken j = []) \<and>
         (read_job jid log = Some j \<longrightarrow> jb_leaseToken j = [])"
  using job_log_reachable [OF assms] read_job_id [OF job_log_reachable [OF assms], of jid j]
  by (auto simp: log_ok_def job_entry_ok_def)

theorem token_not_stored_witness: "jb_leaseToken (the (read_job ex_jid log2)) = []"
proof -
  have "read_job ex_jid log2 = Some (the (read_job ex_jid log2))" by code_simp
  then show ?thesis using token_not_stored [OF run_reachable(1)] by blast
qed

section \<open>Retries\<close>

text \<open>Creating a job is idempotent. Once \<^verbatim>\<open>CreateJob\<close> has succeeded, the same input
  succeeds at any later time, whatever commands came between, and adds no entry.\<close>

theorem create_job_retry:
  assumes "(job_step hx)\<^sup>*\<^sup>* [] log" and "CreateJob hx ck i log = (Ok j, log')" and "(job_step hx)\<^sup>*\<^sup>* log' later"
  shows "\<exists>j'. CreateJob hx ck' i later = (Ok j', later)"
  by (rule create_job.retry_keeps [OF job_log_reachable [OF assms(1)] TrueI assms(2,3)])

theorem create_job_retry_witness: "\<exists>j. CreateJob plain_hashing (tick 9) ex_job log6 = (Ok j, log6)"
proof (rule create_job_retry)
  show "(job_step plain_hashing)\<^sup>*\<^sup>* [] []" by simp
  show "CreateJob plain_hashing (tick 1) ex_job [] = (Ok (new_job plain_hashing (tick 1 0) ex_job), log1)"
    unfolding log1_def by (simp add: CreateJob_def job_input_ok_def ex_job_def Let_def)
  show "(job_step plain_hashing)\<^sup>*\<^sup>* log1 log6"
    using run_reachable(2) run_steps(2) by (meson converse_rtranclp_into_rtranclp)
qed

lemma replay_scan_token:
  assumes "log_ok log" and "\<And>op. P op \<Longrightarrow> fo_resourceKind op = ''job''" and "replay_scan P h log = Ok (Some j)"
  shows "jb_leaseToken j = [] \<and> jb_replayed j"
  using assms(1,3)
proof (induction log)
  case (Cons op log)
  then have ok: "log_ok log" "job_entry_ok op" by (simp_all add: log_ok_def)
  show ?case
  proof (cases "P op")
    case True
    with assms(2) ok(2) obtain j0 g where "fo_payload op = JobPayload j0 g" "jb_leaseToken j0 = []"
      by (auto simp: job_entry_ok_def)
    with True Cons.prems(2) show ?thesis
      by (auto simp: decode_job_def unmarshal_job_def keep_if_empty_def zero_job_def split: if_splits)
  qed (use Cons.IH [OF ok(1)] Cons.prems(2) in simp)
qed simp

text \<open>A claim that is delivered again after it succeeded is answered from the log: it takes no
  second lease and adds no entry, but the answer has no lease token. A runner that lost the first
  answer can therefore not use the lease it holds, and waits for it to expire.\<close>

theorem claim_retry_without_token:
  assumes "(job_step hx)\<^sup>*\<^sup>* [] log" and "ClaimJob hx ck token jid i log = (Ok j, log')" and "(job_step hx)\<^sup>*\<^sup>* log' later"
  shows "\<exists>j'. ClaimJob hx ck' token' jid i later = (Ok j', later) \<and> jb_replayed j' \<and> jb_leaseToken j' = []"
proof -
  note ok = job_log_reachable [OF assms(1)]
  have tj: "\<And>op. transition_of ''claim_job'' jid (jc_idempotencyKey i) op \<Longrightarrow> fo_resourceKind op = ''job''"
    by (rule transition_job)
  have run: "claim_job.run hx (ck, token) (jid, i) log = (Ok j, log')"
    using assms(2) by (simp only: claim_job_run)
  have seen: "seen_hash (transition_of ''claim_job'' jid (jc_idempotencyKey i)) log' =
      Some (hashInput hx (GObj [(''jobId'', GStr jid), (''runnerId'', GStr (jc_runnerId i))]))" and log': "log_ok log'"
    and acc: "\<not> (jid = [] \<or> jc_runnerId i = [] \<or> jc_idempotencyKey i = [])"
    using claim_job.run_Ok [OF ok run] by simp_all
  note later = job_steps_ok [OF assms(3) log']
  have "seen_hash (transition_of ''claim_job'' jid (jc_idempotencyKey i)) later =
      Some (hashInput hx (GObj [(''jobId'', GStr jid), (''runnerId'', GStr (jc_runnerId i))]))"
    using claim_job.sticky_steps [OF assms(3) log', of "(jid, jc_idempotencyKey i)"] seen by simp
  from replay_scan_hit [where P = "transition_of ''claim_job'' jid (jc_idempotencyKey i)", OF later tj this]
  obtain j' where j': "replay_scan (transition_of ''claim_job'' jid (jc_idempotencyKey i))
      (hashInput hx (GObj [(''jobId'', GStr jid), (''runnerId'', GStr (jc_runnerId i))])) later = Ok (Some j')" by auto
  with acc have "ClaimJob hx ck' token' jid i later = (Ok j', later)"
    unfolding ClaimJob_def by (simp add: job_command_def replayedJobTransition_def)
  with replay_scan_token [where P = "transition_of ''claim_job'' jid (jc_idempotencyKey i)", OF later tj j']
  show ?thesis by simp
qed

theorem claim_retry_without_token_witness:
  "\<exists>j. ClaimJob plain_hashing (tick 9) (Some ''tok9'') ex_jid (ex_claim ''c1'') log2 = (Ok j, log2) \<and>
     jb_replayed j \<and> jb_leaseToken j = []"
proof -
  have "isl (fst (ClaimJob plain_hashing (tick 2) (Some ''tok1'') ex_jid (ex_claim ''c1'') log1)) = False" by code_simp
  then obtain j where "ClaimJob plain_hashing (tick 2) (Some ''tok1'') ex_jid (ex_claim ''c1'') log1 = (Ok j, log2)"
    unfolding log2_def by (metis isl_def prod.collapse sumE)
  then show ?thesis
    by (rule claim_retry_without_token [OF r_into_rtranclp [where r = "job_step plain_hashing", OF run_steps(1)] _
          rtranclp.rtrancl_refl])
qed

section \<open>Where the code falls short\<close>

text \<open>A job that failed, was retried and then completed still reads as failed with the old error
  code: \<^verbatim>\<open>jobLocked\<close> decodes every entry into one variable, and an empty
  \<^verbatim>\<open>errorCode\<close> is omitted from the stored text, so it never clears the old one.\<close>

theorem stale_error_after_success:
  "map_option jb_status (read_job ex_jid log6) = Some ''succeeded'' \<and>
   map_option jb_errorCode (read_job ex_jid log6) = Some ''oom'' \<and>
   (case fst (CompleteJob plain_hashing (tick 6) ex_jid ex_complete log5) of Inr j \<Rightarrow> jb_errorCode j = [] | Inl e \<Rightarrow> False)"
  by (intro conjI; code_simp)

definition ex_job_colon :: "string \<Rightarrow> string \<Rightarrow> job_input" where
  "ex_job_colon key request = ex_job\<lparr>ji_idempotencyKey := key, ji_requestId := request\<rparr>"

lemma same_job_id: "job_id_of hx (ex_job_colon ''a:b'' ''c'') = job_id_of hx (ex_job_colon ''a'' ''b:c'')"
  by (simp add: job_id_of_def stableSuffix_def join_def ex_job_colon_def ex_job_def)

text \<open>Two different creations can name one job. The identifier digests the key, the request and the
  task joined with colons, so a colon inside a value moves the border: for any digest, the second
  creation below gets the identifier of the first and puts a job that is running back in the queue.\<close>

theorem colliding_job_reset:
  assumes "CreateJob hx ck (ex_job_colon ''a:b'' ''c'') [] = (x, l1)"
    and "jid = job_id_of hx (ex_job_colon ''a:b'' ''c'')"
    and "ClaimJob hx ck' (Some tok) jid (ex_claim ''c1'') l1 = (y, l2)"
    and "CreateJob hx ck'' (ex_job_colon ''a'' ''b:c'') l2 = (z, l3)"
  shows "job_phase_of jid l2 = Some (''running'', 1) \<and> job_phase_of jid l3 = Some (''queued'', 1)"
proof -
  have l1: "l1 = [job_op hx (ck 0) (ck 1) ''create_job'' ''a:b'' (hash_job_input hx (ex_job_colon ''a:b'' ''c''))
      (new_job hx (ck 0) (ex_job_colon ''a:b'' ''c'')) ''control-plane'']"
  proof (rule CreateJob_cases [OF assms(1)])
    assume "l1 = []"
    with assms(1) show ?thesis by (simp add: CreateJob_def job_input_ok_def Let_def ex_job_colon_def ex_job_def)
  qed (simp add: ex_job_colon_def)
  have ok2: "job_input_ok (ex_job_colon ''a'' ''b:c'')" by (simp add: job_input_ok_def ex_job_colon_def ex_job_def)
  have ph: "job_phase_of jid l1 = Some (''queued'', 1)"
    unfolding l1 assms(2) using job_phase_op [of _ "[]"] by (simp add: new_job_def)
  then obtain j where r: "read_job jid l1 = Some j" "jb_status j = ''queued''" "jb_attempt j = 1"
    by (auto simp: job_phase_of_def)
  have id: "jid \<noteq> []" unfolding assms(2) job_id_of_def by simp
  have "replay_scan (transition_of ''claim_job'' jid ''c1'') h l1 = Ok None" for h
    unfolding l1 by (simp add: transition_of_def)
  moreover have "jobLocked hx ck' jid l1 = (Ok j, l1)"
    using r by (simp add: jobLocked_def lease_expired_def)
  ultimately obtain h j' where l2: "l2 = l1 @ [job_op hx (ck' 5) (ck' 6) ''claim_job'' ''c1'' h j' ''runner'']"
    and j': "claim_change hx (ck' 4) (Some tok) ''alice'' j = Ok j'"
    using assms(3) id r
    by (auto simp: ClaimJob_def ex_claim_def job_command_def replayedJobTransition_def appendJobTransition_eq claim_change_def)
  have jid: "jb_jobId j = jid"
    using read_job_id(1) [OF _ r(1)] unfolding l1 by simp
  have p2: "job_phase_of jid l2 = Some (''running'', 1)"
  proof -
    have "jb_status j' = ''running''" "jb_attempt j' = jb_attempt j" "jb_jobId j' = jb_jobId j"
      using j' by (auto simp: claim_change_def split: if_splits)
    then show ?thesis unfolding l2 job_phase_op by (simp add: jid r(3))
  qed
  have "replay_scan (creation_of ''a'') h' l2 = Ok None" for h'
    unfolding l2 l1 by (simp add: creation_of_def)
  then have "l3 = l2 @ [job_op hx (ck'' 0) (ck'' 1) ''create_job'' ''a'' (hash_job_input hx (ex_job_colon ''a'' ''b:c''))
      (new_job hx (ck'' 0) (ex_job_colon ''a'' ''b:c'')) ''control-plane'']"
    using assms(4) CreateJob_new [OF ok2, of hx l2 ck''] by (simp add: ex_job_colon_def)
  then have "job_phase_of jid l3 = Some (''queued'', 1)"
    unfolding assms(2) same_job_id by (simp add: job_phase_op) (simp add: new_job_def)
  with p2 show ?thesis by blast
qed

theorem colliding_job_reset_witness:
  "\<exists>l2 l3 jid. job_phase_of jid l2 = Some (''running'', 1) \<and> job_phase_of jid l3 = Some (''queued'', 1)"
  using colliding_job_reset [OF surjective_pairing refl surjective_pairing surjective_pairing] by blast

end
