(* ===== verification/Fabric_Store.thy ===== *)
theory Fabric_Store
  imports Fabric_Types Idempotent_Command
begin

text \<open>
  The operation store in memory, after \<^verbatim>\<open>operation_store.go\<close>: the ownership of machines
  and the log of operations with the claims that guard the calls to the provider. Every method
  holds the store's mutex, so it is a function of the state. A range loop over the ownerships
  visits the keys in an order that is an argument.
\<close>

record op_store =
  os_operation :: "fabric_operation list"
  os_machineOwnerships :: "string \<rightharpoonup> machine_ownership"

definition NewMemoryOperationStore :: op_store where
  "NewMemoryOperationStore = \<lparr>os_operation = [], os_machineOwnerships = Map.empty\<rparr>"

section \<open>Machine ownership\<close>

definition sameMachineOwnershipResource :: "machine_ownership \<Rightarrow> machine_ownership \<Rightarrow> bool" where
  "sameMachineOwnershipResource existing requested \<longleftrightarrow>
     mo_resourceId existing = mo_resourceId requested \<and> mo_accountId existing = mo_accountId requested \<and>
     mo_workspaceId existing = mo_workspaceId requested \<and> mo_packageId existing = mo_packageId requested"

definition sameMachineOwnershipReplay :: "machine_ownership \<Rightarrow> machine_ownership \<Rightarrow> bool" where
  "sameMachineOwnershipReplay existing requested \<longleftrightarrow>
     sameMachineOwnershipResource existing requested \<and> mo_machineId existing = mo_machineId requested \<and>
     mo_instanceId existing = mo_instanceId requested"

definition clashes :: "machine_ownership \<Rightarrow> machine_ownership \<Rightarrow> bool" where
  "clashes candidate requested \<longleftrightarrow>
     mo_machineId candidate = mo_machineId requested \<or>
     (mo_instanceId requested \<noteq> [] \<and> mo_instanceId candidate = mo_instanceId requested)"

fun any_clash :: "string list \<Rightarrow> (string \<rightharpoonup> machine_ownership) \<Rightarrow> string option \<Rightarrow> machine_ownership \<Rightarrow> bool" where
  "any_clash [] m skip r = False"
| "any_clash (k # ks) m skip r =
     ((Some k \<noteq> skip \<and> (case m k of None \<Rightarrow> False | Some c \<Rightarrow> clashes c r)) \<or> any_clash ks m skip r)"

definition ClaimMachine ::
  "string list \<Rightarrow> machine_ownership \<Rightarrow> op_store \<Rightarrow> (fabric_error, machine_ownership \<times> bool) res \<times> op_store" where
  "ClaimMachine ord r s =
     (let m = os_machineOwnerships s
      in case m (mo_resourceId r) of
           Some existing \<Rightarrow>
             if mo_status existing = ''released'' then
               if \<not> sameMachineOwnershipResource existing r then (Err ErrMachineOwnershipConflict, s)
               else if any_clash ord m (Some (mo_resourceId r)) r then (Err ErrMachineOwnershipConflict, s)
               else let r = r\<lparr>mo_id := mo_id existing\<rparr>
                    in (Ok (r, True), s\<lparr>os_machineOwnerships := m(mo_resourceId r \<mapsto> r)\<rparr>)
             else if \<not> sameMachineOwnershipReplay existing r then (Err ErrMachineOwnershipConflict, s)
             else (Ok (existing, False), s)
         | None \<Rightarrow>
             if any_clash ord m None r then (Err ErrMachineOwnershipConflict, s)
             else (Ok (r, True), s\<lparr>os_machineOwnerships := m(mo_resourceId r \<mapsto> r)\<rparr>))"

definition SaveMachineOwnership :: "machine_ownership \<Rightarrow> op_store \<Rightarrow> fabric_error option \<times> op_store" where
  "SaveMachineOwnership r s =
     (if os_machineOwnerships s (mo_resourceId r) = None then (Some ErrMachineOwnershipNotFound, s)
      else (None, s\<lparr>os_machineOwnerships := (os_machineOwnerships s)(mo_resourceId r \<mapsto> r)\<rparr>))"

definition MachineOwnership :: "string \<Rightarrow> op_store \<Rightarrow> (fabric_error, machine_ownership) res" where
  "MachineOwnership rid s =
     (case os_machineOwnerships s rid of None \<Rightarrow> Err ErrMachineOwnershipNotFound | Some r \<Rightarrow> Ok r)"

definition ListMachineOwnerships :: "string list \<Rightarrow> op_store \<Rightarrow> machine_ownership list" where
  "ListMachineOwnerships ord s = List.map_filter (os_machineOwnerships s) ord"

section \<open>Operations and claims\<close>

definition Append :: "fabric_operation \<Rightarrow> op_store \<Rightarrow> op_store" where
  "Append op s = s\<lparr>os_operation := os_operation s @ [op]\<rparr>"

definition sameRuntimeOperationRequest :: "fabric_operation \<Rightarrow> fabric_operation \<Rightarrow> bool" where
  "sameRuntimeOperationRequest existing requested \<longleftrightarrow>
     fo_action existing = fo_action requested \<and> fo_resourceKind existing = fo_resourceKind requested \<and>
     fo_resourceId existing = fo_resourceId requested \<and> fo_accountId existing = fo_accountId requested \<and>
     fo_workspaceId existing = fo_workspaceId requested \<and> fo_idempotencyKey existing = fo_idempotencyKey requested \<and>
     fo_requestHash existing = fo_requestHash requested"

definition live_claim :: "string \<Rightarrow> string \<Rightarrow> fabric_operation \<Rightarrow> bool" where
  "live_claim action key op \<longleftrightarrow> fo_action op = action \<and> fo_idempotencyKey op = key \<and> fo_status op \<noteq> ''rejected''"

text \<open>The loop from the end of the log: the last index below \<open>n\<close> that satisfies \<open>P\<close>.\<close>

fun last_index :: "(fabric_operation \<Rightarrow> bool) \<Rightarrow> fabric_operation list \<Rightarrow> nat \<Rightarrow> nat option" where
  "last_index P ops 0 = None"
| "last_index P ops (Suc n) = (if P (ops ! n) then Some n else last_index P ops n)"

definition ClaimRuntime ::
  "fabric_operation \<Rightarrow> op_store \<Rightarrow> (fabric_error, fabric_operation \<times> bool) res \<times> op_store" where
  "ClaimRuntime op s =
     (let ops = os_operation s
      in case last_index (live_claim (fo_action op) (fo_idempotencyKey op)) ops (length ops) of
           Some i \<Rightarrow>
             let existing = ops ! i
             in if fo_action existing = ''destroy_workspace_runtime'' \<and> fo_status existing = ''failed'' then
                  if \<not> sameRuntimeOperationRequest existing op then (Err ErrRuntimeIdempotencyConflict, s)
                  else let op = op\<lparr>fo_id := fo_id existing\<rparr>
                       in (Ok (op, True), s\<lparr>os_operation := ops[i := op]\<rparr>)
                else (Ok (existing, False), s)
         | None \<Rightarrow> (Ok (op, True), s\<lparr>os_operation := ops @ [op]\<rparr>))"

text \<open>The loop from the start: the first index at or after \<open>n\<close> of an entry with the identifier.\<close>

fun first_index :: "string \<Rightarrow> fabric_operation list \<Rightarrow> nat \<Rightarrow> nat option" where
  "first_index oid [] n = None"
| "first_index oid (op # ops) n = (if fo_id op = oid then Some n else first_index oid ops (Suc n))"

definition ReclaimRuntime ::
  "string \<Rightarrow> instant \<Rightarrow> instant \<Rightarrow> op_store \<Rightarrow> (fabric_error, fabric_operation \<times> bool) res \<times> op_store" where
  "ReclaimRuntime oid prior started s =
     (let ops = os_operation s
      in case first_index oid ops 0 of
           Some i \<Rightarrow>
             let op = ops ! i
             in if fo_status op = ''started'' \<and> fo_startedAt op = prior then
                  let op = op\<lparr>fo_startedAt := started, fo_finishedAt := 0, fo_errorCode := [], fo_retryable := False\<rparr>
                  in (Ok (op, True), s\<lparr>os_operation := ops[i := op]\<rparr>)
                else (Ok (op, False), s)
         | None \<Rightarrow> (Err RuntimeOperationNotFound, s))"

definition SaveRuntime :: "fabric_operation \<Rightarrow> op_store \<Rightarrow> fabric_error option \<times> op_store" where
  "SaveRuntime op s =
     (let ops = os_operation s
      in case first_index (fo_id op) ops 0 of
           Some i \<Rightarrow>
             if fo_status (ops ! i) \<noteq> ''started'' \<or> fo_startedAt (ops ! i) \<noteq> fo_startedAt op
             then (Some ErrRuntimeOperationNotCurrent, s)
             else (None, s\<lparr>os_operation := ops[i := op]\<rparr>)
         | None \<Rightarrow> (Some RuntimeOperationNotFound, s))"

definition runtimeClaimStaleAfter :: int where
  "runtimeClaimStaleAfter = 120 * ns_per_sec"

definition claimRuntimeOperation ::
  "fabric_operation \<Rightarrow> op_store \<Rightarrow> (fabric_error, fabric_operation \<times> bool) res \<times> op_store" where
  "claimRuntimeOperation op s =
     (case ClaimRuntime op s of
        (Inl e, s) \<Rightarrow> (Err e, s)
      | (Inr (stored, claimed), s) \<Rightarrow>
          if claimed \<or> fo_requestHash stored \<noteq> fo_requestHash op \<or> fo_status stored \<noteq> ''started'' \<or>
             fo_startedAt op - fo_startedAt stored < runtimeClaimStaleAfter then (Ok (stored, claimed), s)
          else if fo_action stored \<in> {''create_storage_attachment'', ''create_workspace_runtime'', ''upsert_gateway_secret''}
          then ReclaimRuntime (fo_id stored) (fo_startedAt stored) (fo_startedAt op) s
          else (Ok (stored, False), s))"

end
