(* ===== verification/Fabric_Store_Facts.thy ===== *)
theory Fabric_Store_Facts
  imports Fabric_Store
begin

text \<open>
  What the operation store guarantees: a machine belongs to one resource, a runtime command has
  one claim that is not rejected, and a caller whose claim was taken over cannot write its result.
\<close>

section \<open>Machines\<close>

lemma any_clash_iff:
  "any_clash ks m skip r \<longleftrightarrow> (\<exists>k \<in> set ks. Some k \<noteq> skip \<and> (\<exists>c. m k = Some c \<and> clashes c r))"
  by (induction ks) (auto split: option.splits)

lemma no_clash:
  assumes "range_order ord m" and "\<not> any_clash ord m skip r" and "m k = Some c" and "Some k \<noteq> skip"
  shows "\<not> clashes c r" "\<not> clashes r c"
proof -
  have "k \<in> set ord" using assms(1,3) by (auto simp: range_order_def)
  with assms(2-4) show c: "\<not> clashes c r" by (auto simp: any_clash_iff)
  then show "\<not> clashes r c" by (auto simp: clashes_def)
qed

definition machines_ok :: "op_store \<Rightarrow> bool" where
  "machines_ok s \<longleftrightarrow>
     (\<forall>k r. os_machineOwnerships s k = Some r \<longrightarrow> mo_resourceId r = k) \<and>
     (\<forall>k r k' r'. os_machineOwnerships s k = Some r \<longrightarrow> os_machineOwnerships s k' = Some r' \<longrightarrow> k \<noteq> k' \<longrightarrow> \<not> clashes r r')"

lemma machines_ok_update:
  assumes "machines_ok s" and "mo_resourceId r = k"
    and "\<And>k' c. os_machineOwnerships s k' = Some c \<Longrightarrow> k' \<noteq> k \<Longrightarrow> \<not> clashes c r \<and> \<not> clashes r c"
  shows "machines_ok (s\<lparr>os_machineOwnerships := (os_machineOwnerships s)(k \<mapsto> r)\<rparr>)"
  using assms unfolding machines_ok_def by (auto split: if_splits)

lemma ClaimMachine_ok:
  assumes ok: "machines_ok s" and ord: "range_order ord (os_machineOwnerships s)"
  shows "machines_ok (snd (ClaimMachine ord r s))"
proof (cases "os_machineOwnerships s (mo_resourceId r)")
  case None
  show ?thesis
  proof (cases "any_clash ord (os_machineOwnerships s) None r")
    case False
    with None no_clash [OF ord False] show ?thesis
      by (simp add: ClaimMachine_def machines_ok_update [OF ok])
  qed (use None ok in \<open>simp add: ClaimMachine_def\<close>)
next
  case (Some existing)
  show ?thesis
  proof (cases "mo_status existing = ''released'' \<and> sameMachineOwnershipResource existing r \<and>
      \<not> any_clash ord (os_machineOwnerships s) (Some (mo_resourceId r)) r")
    case True
    then have n: "\<not> any_clash ord (os_machineOwnerships s) (Some (mo_resourceId r)) r" by blast
    have "machines_ok (s\<lparr>os_machineOwnerships := (os_machineOwnerships s)(mo_resourceId r \<mapsto> r\<lparr>mo_id := mo_id existing\<rparr>)\<rparr>)"
      by (rule machines_ok_update [OF ok])
        (use no_clash [OF ord n] in \<open>auto simp: clashes_def\<close>)
    with Some True show ?thesis by (simp add: ClaimMachine_def Let_def)
  next
    case False
    then have "snd (ClaimMachine ord r s) = s" using Some by (auto simp: ClaimMachine_def Let_def)
    with ok show ?thesis by simp
  qed
qed

text \<open>Claims, and the saves of the allocator, which write back an ownership with another status.\<close>

inductive machine_step :: "op_store \<Rightarrow> op_store \<Rightarrow> bool" where
  claim: "range_order ord (os_machineOwnerships s) \<Longrightarrow> machine_step s (snd (ClaimMachine ord r s))"
| save: "os_machineOwnerships s (mo_resourceId r) = Some r0 \<Longrightarrow> mo_machineId r = mo_machineId r0 \<Longrightarrow>
         mo_instanceId r = mo_instanceId r0 \<Longrightarrow> machine_step s (snd (SaveMachineOwnership r s))"
| other: "os_machineOwnerships s' = os_machineOwnerships s \<Longrightarrow> machine_step s s'"

lemma machine_step_ok: "machine_step s s' \<Longrightarrow> machines_ok s \<Longrightarrow> machines_ok s'"
proof (induction rule: machine_step.induct)
  case (save s r r0)
  have "machines_ok (s\<lparr>os_machineOwnerships := (os_machineOwnerships s)(mo_resourceId r \<mapsto> r)\<rparr>)"
  proof (rule machines_ok_update [OF save.prems refl])
    fix k' c assume "os_machineOwnerships s k' = Some c" "k' \<noteq> mo_resourceId r"
    with save have "\<not> clashes c r0" "\<not> clashes r0 c" unfolding machines_ok_def by blast+
    with save(2,3) show "\<not> clashes c r \<and> \<not> clashes r c" by (simp add: clashes_def)
  qed
  with save(1) show ?case by (simp add: SaveMachineOwnership_def)
next
  case (claim ord s r)
  then show ?case by (simp add: ClaimMachine_ok)
qed (simp add: machines_ok_def)

lemma machine_steps_ok: "machine_step\<^sup>*\<^sup>* NewMemoryOperationStore s \<Longrightarrow> machines_ok s"
  by (induction rule: rtranclp_induct) (auto simp: machines_ok_def NewMemoryOperationStore_def dest: machine_step_ok)

text \<open>C30: a machine belongs to one resource. However resources claim machines and the allocator saves
  what it claimed, two ownerships never name one machine or one instance, released ones included.\<close>

theorem machine_exclusive:
  assumes "machine_step\<^sup>*\<^sup>* NewMemoryOperationStore s"
    and "os_machineOwnerships s k = Some r" and "os_machineOwnerships s k' = Some r'" and "k \<noteq> k'"
  shows "mo_machineId r \<noteq> mo_machineId r' \<and> (mo_instanceId r = [] \<or> mo_instanceId r \<noteq> mo_instanceId r')"
  using machine_steps_ok [OF assms(1)] assms(2-) unfolding machines_ok_def clashes_def by metis

definition ex_owner :: "string \<Rightarrow> string \<Rightarrow> machine_ownership" where
  "ex_owner k m = \<lparr>mo_id = ''o'' @ k, mo_resourceId = k, mo_accountId = ''acct'', mo_workspaceId = ''ws'', mo_packageId = ''basic'',
     mo_nodePoolId = ''np'', mo_machineId = m, mo_instanceId = ''ins-'' @ m, mo_nodeName = ''n'', mo_status = ''claimed'',
     mo_providerRequestId = ''req'', mo_claimedAt = 5, mo_releasedAt = None\<rparr>"

definition ex_owned1 :: op_store where "ex_owned1 = snd (ClaimMachine [] (ex_owner ''c1'' ''m1'') NewMemoryOperationStore)"
definition ex_owned2 :: op_store where "ex_owned2 = snd (ClaimMachine [''c1''] (ex_owner ''c2'' ''m2'') ex_owned1)"

lemma ex_owned: "os_machineOwnerships ex_owned1 = [''c1'' \<mapsto> ex_owner ''c1'' ''m1'']"
  "os_machineOwnerships ex_owned2 = [''c1'' \<mapsto> ex_owner ''c1'' ''m1'', ''c2'' \<mapsto> ex_owner ''c2'' ''m2'']"
  by (simp_all add: ex_owned1_def ex_owned2_def ClaimMachine_def NewMemoryOperationStore_def clashes_def ex_owner_def)

theorem machine_exclusive_witness:
  "mo_machineId (ex_owner ''c1'' ''m1'') \<noteq> mo_machineId (ex_owner ''c2'' ''m2'')"
proof -
  have "machine_step NewMemoryOperationStore ex_owned1" unfolding ex_owned1_def
    by (rule machine_step.claim) (simp add: range_order_def NewMemoryOperationStore_def)
  moreover have "machine_step ex_owned1 ex_owned2" unfolding ex_owned2_def
    by (rule machine_step.claim) (simp add: range_order_def ex_owned)
  ultimately have "machine_step\<^sup>*\<^sup>* NewMemoryOperationStore ex_owned2" by (meson rtranclp.simps)
  from machine_exclusive [OF this, of "''c1''" _ "''c2''"] show ?thesis by (simp add: ex_owned)
qed

section \<open>Claims on the log\<close>

lemma last_index_Some:
  "last_index P ops n = Some i \<Longrightarrow> i < n \<and> P (ops ! i) \<and> (\<forall>j. i < j \<and> j < n \<longrightarrow> \<not> P (ops ! j))"
  by (induction n) (auto split: if_splits simp: less_Suc_eq)

lemma last_index_None: "last_index P ops n = None \<longleftrightarrow> (\<forall>i < n. \<not> P (ops ! i))"
  by (induction n) (auto simp: less_Suc_eq)

lemma first_index_shift: "first_index oid ops n = map_option ((+) n) (first_index oid ops 0)"
proof (induction ops arbitrary: n)
  case (Cons op ops)
  from Cons [of "Suc n"] Cons [of 1] show ?case by (cases "first_index oid ops 0") simp_all
qed simp

lemma first_index_Cons:
  "first_index oid (op # ops) 0 = (if fo_id op = oid then Some 0 else map_option Suc (first_index oid ops 0))"
  using first_index_shift [of oid ops "Suc 0"] by (cases "first_index oid ops 0") simp_all

lemma first_index_Some: "first_index oid ops 0 = Some i \<Longrightarrow> i < length ops \<and> fo_id (ops ! i) = oid"
  by (induction ops arbitrary: i) (auto simp: first_index_Cons simp del: first_index.simps(2) split: if_splits)

lemma first_index_append: "first_index oid ops 0 = Some i \<Longrightarrow> first_index oid (ops @ ops2) 0 = Some i"
  by (induction ops arbitrary: i) (auto simp: first_index_Cons simp del: first_index.simps(2) split: if_splits)

lemma first_index_update:
  "j < length ops \<Longrightarrow> fo_id op = fo_id (ops ! j) \<Longrightarrow> first_index oid (ops[j := op]) 0 = first_index oid ops 0"
proof (induction ops arbitrary: j)
  case (Cons x ops)
  then show ?case by (cases j) (simp_all add: first_index_Cons del: first_index.simps(2))
qed simp

lemmas store_defs = ClaimRuntime_def ReclaimRuntime_def SaveRuntime_def claimRuntimeOperation_def Let_def

lemma ClaimRuntime_cases:
  assumes "ClaimRuntime op s = (x, s')"
  obtains (kept) i where "s' = s" "i < length (os_operation s)"
      "live_claim (fo_action op) (fo_idempotencyKey op) (os_operation s ! i)"
      "x = Ok (os_operation s ! i, False) \<or> x = Err ErrRuntimeIdempotencyConflict"
  | (again) i where "i < length (os_operation s)" "live_claim (fo_action op) (fo_idempotencyKey op) (os_operation s ! i)"
      "fo_action (os_operation s ! i) = ''destroy_workspace_runtime''" "fo_status (os_operation s ! i) = ''failed''"
      "x = Ok (op\<lparr>fo_id := fo_id (os_operation s ! i)\<rparr>, True)"
      "s' = s\<lparr>os_operation := (os_operation s)[i := op\<lparr>fo_id := fo_id (os_operation s ! i)\<rparr>]\<rparr>"
  | (new) "\<forall>i < length (os_operation s). \<not> live_claim (fo_action op) (fo_idempotencyKey op) (os_operation s ! i)"
      "x = Ok (op, True)" "s' = s\<lparr>os_operation := os_operation s @ [op]\<rparr>"
proof (cases "last_index (live_claim (fo_action op) (fo_idempotencyKey op)) (os_operation s) (length (os_operation s))")
  case None
  with assms new show ?thesis by (simp add: ClaimRuntime_def last_index_None)
next
  case (Some i)
  note i = last_index_Some [OF Some]
  let ?e = "os_operation s ! i"
  show ?thesis
  proof (cases "fo_action ?e = ''destroy_workspace_runtime'' \<and> fo_status ?e = ''failed''")
    case True
    show ?thesis
    proof (cases "sameRuntimeOperationRequest ?e op")
      case same: True
      have "x = Ok (op\<lparr>fo_id := fo_id ?e\<rparr>, True)" "s' = s\<lparr>os_operation := (os_operation s)[i := op\<lparr>fo_id := fo_id ?e\<rparr>]\<rparr>"
        using assms Some True same by (simp_all add: ClaimRuntime_def Let_def)
      then show ?thesis by (rule again [of i, rotated -2]) (use i True in blast)+
    next
      case False
      have "x = Err ErrRuntimeIdempotencyConflict" "s' = s"
        using assms Some True False by (simp_all add: ClaimRuntime_def Let_def)
      with i show ?thesis by (intro kept [of i]) blast+
    qed
  next
    case False
    then have "x = Ok (?e, False)" "s' = s"
      using assms Some by (auto simp: ClaimRuntime_def Let_def)
    with i show ?thesis by (intro kept [of i]) blast+
  qed
qed

text \<open>What the service does to the log: it claims under a running clock, plainly or with a takeover; it
  saves an entry it claimed, which keeps the entry's action and key (the identifier of a claim is a
  digest of the two); and it appends entries of any kind it logs, for which \<open>logs\<close> is a
  condition. A claim for a destroyed runtime is never taken over.\<close>

inductive claim_step :: "(fabric_operation \<Rightarrow> bool) \<Rightarrow> op_store \<Rightarrow> op_store \<Rightarrow> bool" for logs where
  claim: "claimRuntimeOperation op s = (x, s') \<Longrightarrow> claim_step logs s s'"
| plain: "ClaimRuntime op s = (x, s') \<Longrightarrow> claim_step logs s s'"
| save: "i < length (os_operation s) \<Longrightarrow> first_index (fo_id op) (os_operation s) 0 = Some i \<Longrightarrow>
         fo_action op = fo_action (os_operation s ! i) \<Longrightarrow> fo_idempotencyKey op = fo_idempotencyKey (os_operation s ! i) \<Longrightarrow>
         SaveRuntime op s = (x, s') \<Longrightarrow> claim_step logs s s'"
| log: "logs op \<Longrightarrow> claim_step logs s (Append op s)"



section \<open>One claim\<close>








lemma claim_reclaims:
  assumes "claimRuntimeOperation op s = (x, s')"
  obtains y s1 where "ClaimRuntime op s = (y, s1)" "s' = s1"
  | stored s1 where "ClaimRuntime op s = (Ok (stored, False), s1)" "fo_status stored = ''started''"
      "runtimeClaimStaleAfter \<le> fo_startedAt op - fo_startedAt stored"
      "fo_action stored \<in> {''create_storage_attachment'', ''create_workspace_runtime'', ''upsert_gateway_secret''}"
      "ReclaimRuntime (fo_id stored) (fo_startedAt stored) (fo_startedAt op) s1 = (x, s')"
  using assms that by (auto simp: claimRuntimeOperation_def split: prod.splits sum.splits if_splits)




text \<open>A claim of the action that may be taken over, started at an instant.\<close>

definition ex_claim_op :: "instant \<Rightarrow> fabric_operation" where
  "ex_claim_op t = \<lparr>fo_id = ''fop_1'', fo_operationId = ''op_1'', fo_callerService = ''control-plane'',
     fo_action = ''create_workspace_runtime'', fo_resourceKind = ''workspace_runtime'', fo_resourceId = ''ws'',
     fo_accountId = ''acct'', fo_workspaceId = ''ws'', fo_provider = [], fo_providerRequestId = [],
     fo_idempotencyKey = ''k'', fo_requestHash = ''h'', fo_payload = NoPayload, fo_status = ''started'',
     fo_errorCode = [], fo_retryable = False, fo_startedAt = t, fo_finishedAt = 0, fo_createdAt = t\<rparr>"

definition ex_claimed :: op_store where
  "ex_claimed = NewMemoryOperationStore\<lparr>os_operation := [ex_claim_op 10]\<rparr>"

definition ex_taken :: op_store where
  "ex_taken = ex_claimed\<lparr>os_operation := [(ex_claim_op 10)\<lparr>fo_startedAt := 10 + runtimeClaimStaleAfter\<rparr>]\<rparr>"

lemma ex_claim_found:
  "ClaimRuntime (ex_claim_op t) NewMemoryOperationStore = (Ok (ex_claim_op t, True), NewMemoryOperationStore\<lparr>os_operation := [ex_claim_op t]\<rparr>)"
  "ClaimRuntime (ex_claim_op t) ex_claimed = (Ok (ex_claim_op 10, False), ex_claimed)"
  by (simp_all add: ClaimRuntime_def Let_def ex_claimed_def NewMemoryOperationStore_def live_claim_def ex_claim_op_def)

lemma ex_claims:
  "claimRuntimeOperation (ex_claim_op 10) NewMemoryOperationStore = (Ok (ex_claim_op 10, True), ex_claimed)"
  "claimRuntimeOperation (ex_claim_op (10 + runtimeClaimStaleAfter)) ex_claimed =
     (Ok ((ex_claim_op 10)\<lparr>fo_startedAt := 10 + runtimeClaimStaleAfter\<rparr>, True), ex_taken)"
proof -
  show "claimRuntimeOperation (ex_claim_op 10) NewMemoryOperationStore = (Ok (ex_claim_op 10, True), ex_claimed)"
    by (simp add: claimRuntimeOperation_def ex_claim_found) (simp add: ex_claimed_def)
  show "claimRuntimeOperation (ex_claim_op (10 + runtimeClaimStaleAfter)) ex_claimed =
     (Ok ((ex_claim_op 10)\<lparr>fo_startedAt := 10 + runtimeClaimStaleAfter\<rparr>, True), ex_taken)"
    by (simp add: claimRuntimeOperation_def ex_claim_found Let_def)
      (simp add: ex_claim_op_def ReclaimRuntime_def Let_def ex_claimed_def ex_taken_def)
qed






section \<open>Fencing\<close>

text \<open>The entry of a claim that was started later than \<open>t\<close>, or that is closed.\<close>

definition fenced :: "string \<Rightarrow> instant \<Rightarrow> op_store \<Rightarrow> bool" where
  "fenced oid t s \<longleftrightarrow>
     (\<exists>i. first_index oid (os_operation s) 0 = Some i \<and> t < fo_startedAt (os_operation s ! i) \<and>
          fo_action (os_operation s ! i) \<noteq> ''destroy_workspace_runtime'')"

lemma fenced_refuses:
  assumes "fenced oid t s" and "fo_id op = oid" and "fo_startedAt op = t"
  shows "SaveRuntime op s = (Some ErrRuntimeOperationNotCurrent, s)"
  using assms by (auto simp: fenced_def SaveRuntime_def Let_def)

lemma fenced_update:
  assumes "fenced oid t s" and "j < length (os_operation s)" and "fo_id op = fo_id (os_operation s ! j)"
    and "fo_action op = fo_action (os_operation s ! j)"
    and "first_index oid (os_operation s) 0 = Some j \<Longrightarrow> fo_startedAt (os_operation s ! j) \<le> fo_startedAt op"
  shows "fenced oid t (s\<lparr>os_operation := (os_operation s)[j := op]\<rparr>)"
proof -
  from assms(1) obtain i where i: "first_index oid (os_operation s) 0 = Some i" "t < fo_startedAt (os_operation s ! i)"
    "fo_action (os_operation s ! i) \<noteq> ''destroy_workspace_runtime''" by (auto simp: fenced_def)
  show ?thesis
    unfolding fenced_def
  proof (intro exI conjI)
    show "first_index oid (os_operation (s\<lparr>os_operation := (os_operation s)[j := op]\<rparr>)) 0 = Some i"
      using i assms(2,3) by (simp add: first_index_update)
  qed (use i assms in \<open>auto simp: nth_list_update\<close>)
qed

lemma fenced_snoc: "fenced oid t s \<Longrightarrow> fenced oid t (s\<lparr>os_operation := os_operation s @ [op]\<rparr>)"
proof -
  assume "fenced oid t s"
  then obtain i where i: "first_index oid (os_operation s) 0 = Some i" "t < fo_startedAt (os_operation s ! i)"
    "fo_action (os_operation s ! i) \<noteq> ''destroy_workspace_runtime''" by (auto simp: fenced_def)
  from first_index_append [OF i(1)] first_index_Some [OF i(1)] i(2,3) show ?thesis
    unfolding fenced_def by (intro exI [of _ i]) (simp add: nth_append)
qed

lemma ClaimRuntime_fenced:
  assumes "ClaimRuntime op s = (x, s')" and "fenced oid t s"
  shows "fenced oid t s'"
  using assms(1)
proof (cases rule: ClaimRuntime_cases)
  case (again i)
  have "first_index oid (os_operation s) 0 \<noteq> Some i"
    using assms(2) again(3) by (auto simp: fenced_def)
  then show ?thesis
    unfolding again(6) by (intro fenced_update [OF assms(2) again(1)]) (use again(2) in \<open>simp_all add: live_claim_def\<close>)
qed (use assms(2) fenced_snoc in auto)

lemma ReclaimRuntime_fenced:
  assumes "ReclaimRuntime oid' t0 t1 s = (x, s')" and "t0 < t1" and "fenced oid t s"
  shows "fenced oid t s'"
proof (cases "first_index oid' (os_operation s) 0")
  case (Some i)
  from first_index_Some [OF Some] Some assms show ?thesis
    by (auto simp: ReclaimRuntime_def Let_def fenced_update split: if_splits)
qed (use assms in \<open>simp add: ReclaimRuntime_def\<close>)

lemma claim_step_fenced: "claim_step logs s s' \<Longrightarrow> fenced oid t s \<Longrightarrow> fenced oid t s'"
proof (induction rule: claim_step.induct)
  case (claim op s x s')
  from claim(1) show ?case
  proof (cases rule: claim_reclaims)
    case (1 y s1)
    with ClaimRuntime_fenced claim(2) show ?thesis by blast
  next
    case (2 stored s1)
    have "fo_startedAt stored < fo_startedAt op"
      using 2(3) by (simp add: runtimeClaimStaleAfter_def ns_per_sec_def)
    from ReclaimRuntime_fenced [OF 2(5) this ClaimRuntime_fenced [OF 2(1) claim(2)]] show ?thesis .
  qed
next
  case (save i s op x s')
  have "s' = s \<or> (s' = s\<lparr>os_operation := (os_operation s)[i := op]\<rparr> \<and> fo_startedAt op = fo_startedAt (os_operation s ! i))"
    using save(5) by (auto simp: SaveRuntime_def Let_def save(2) split: if_splits)
  with save(6) fenced_update [OF save(6,1)] save(3) first_index_Some [OF save(2)] show ?case by auto
qed (auto simp: Append_def fenced_snoc intro: ClaimRuntime_fenced)

text \<open>C32: a claim that was taken over is fenced off. Once a second delivery takes over a claim that is
  stale, the first caller, which still holds the old start, can never write its result: its
  \<^verbatim>\<open>SaveRuntime\<close> is refused and changes nothing, in every later state, whatever is
  claimed, saved and appended in between.\<close>

theorem stale_claim_fenced:
  assumes "ClaimRuntime op s = (Ok (old, False), s)" and "claimRuntimeOperation op s = (Ok (op2, True), s2)"
    and "first_index (fo_id old) (os_operation s) 0 = Some i" and "os_operation s ! i = old"
    and "(claim_step (\<lambda>_. True))\<^sup>*\<^sup>* s2 s3" and "fo_id late = fo_id old" and "fo_startedAt late = fo_startedAt old"
  shows "SaveRuntime late s3 = (Some ErrRuntimeOperationNotCurrent, s3)"
proof -
  from assms(1,2) have st: "runtimeClaimStaleAfter \<le> fo_startedAt op - fo_startedAt old"
      "fo_action old \<in> {''create_storage_attachment'', ''create_workspace_runtime'', ''upsert_gateway_secret''}"
    and r: "ReclaimRuntime (fo_id old) (fo_startedAt old) (fo_startedAt op) s = (Ok (op2, True), s2)"
    by (auto simp: claimRuntimeOperation_def split: if_splits)
  have s2: "s2 = s\<lparr>os_operation := (os_operation s)[i := old\<lparr>fo_startedAt := fo_startedAt op, fo_finishedAt := 0,
      fo_errorCode := [], fo_retryable := False\<rparr>]\<rparr>"
    using r assms(3,4) by (auto simp: ReclaimRuntime_def Let_def split: if_splits)
  note i = first_index_Some [OF assms(3)]
  have "fo_startedAt old < fo_startedAt op"
    using st(1) by (simp add: runtimeClaimStaleAfter_def ns_per_sec_def)
  then have "fenced (fo_id old) (fo_startedAt old) s2"
    unfolding fenced_def s2 using i st(2) assms(3,4) by (auto simp: first_index_update)
  with assms(5) have "fenced (fo_id old) (fo_startedAt old) s3"
    by (induction rule: rtranclp_induct) (auto dest: claim_step_fenced)
  from fenced_refuses [OF this assms(6,7)] show ?thesis .
qed

theorem stale_claim_fenced_witness:
  "SaveRuntime ((ex_claim_op 10)\<lparr>fo_status := ''succeeded''\<rparr>) ex_taken = (Some ErrRuntimeOperationNotCurrent, ex_taken)"
  by (rule stale_claim_fenced [where i = 0, OF ex_claim_found(2) ex_claims(2) _ _ rtranclp.rtrancl_refl])
    (simp_all add: ex_claimed_def ex_claim_op_def)

end
