(* ===== verification/Fabric_Transfer.thy ===== *)
theory Fabric_Transfer
  imports Fabric_Types
begin

text \<open>
  Chunked upload of workspace content, after \<^verbatim>\<open>transfer.go\<close> with the store in memory: a
  transfer is created with the digest and size of the whole, its chunks arrive in any order, and
  completing it checks the whole before the content can be read. A Go map from index to chunk is
  an association list here; the code sorts its keys wherever it ranges over it.
\<close>

section \<open>Data\<close>

record transfer_input =
  ti_organizationId :: string
  ti_workspaceId :: string
  ti_projectId :: string
  ti_path :: string
  ti_digest :: string
  ti_size :: int
  ti_idempotencyKey :: string

record transfer =
  tr_transferId :: string
  tr_organizationId :: string
  tr_workspaceId :: string
  tr_projectId :: string
  tr_path :: string
  tr_digest :: string
  tr_size :: int
  tr_chunkSize :: int
  tr_chunkCount :: int
  tr_receivedChunks :: "int list"
  tr_status :: string
  tr_idempotencyKey :: string
  tr_requestHash :: string
  tr_createdAt :: instant
  tr_completedAt :: "instant option"

record transfer_chunk =
  tc_index :: int
  tc_digest :: string
  tc_body :: string

record content =
  co_digest :: string
  co_workspaceId :: string
  co_path :: string
  co_body :: string

record transfer_store =
  ts_sessions :: "string \<rightharpoonup> transfer"
  ts_keys :: "string \<rightharpoonup> string"
  ts_chunks :: "string \<Rightarrow> transfer_chunk list"

definition newMemoryTransferStore :: transfer_store where
  "newMemoryTransferStore = \<lparr>ts_sessions = Map.empty, ts_keys = Map.empty, ts_chunks = (\<lambda>id. [])\<rparr>"

section \<open>The store\<close>

definition receivedIndexes :: "transfer_chunk list \<Rightarrow> int list" where
  "receivedIndexes cs = sort (map tc_index cs)"

text \<open>Sessions are never removed, so a key that is known leads to one.\<close>

definition store_create :: "transfer \<Rightarrow> transfer_store \<Rightarrow> (fabric_error, transfer) res \<times> transfer_store" where
  "store_create t s =
     (case ts_keys s (tr_idempotencyKey t) of
        Some tid \<Rightarrow>
          if tid \<noteq> [] then
            (case ts_sessions s tid of
               Some existing \<Rightarrow> if tr_requestHash existing \<noteq> tr_requestHash t then (Err ErrTransferChunkConflict, s) else (Ok existing, s)
             | None \<Rightarrow> (Err ErrTransferChunkConflict, s))
          else (Ok t, s\<lparr>ts_sessions := (ts_sessions s)(tr_transferId t \<mapsto> t),
                        ts_keys := (ts_keys s)(tr_idempotencyKey t \<mapsto> tr_transferId t)\<rparr>)
      | None \<Rightarrow> (Ok t, s\<lparr>ts_sessions := (ts_sessions s)(tr_transferId t \<mapsto> t),
                        ts_keys := (ts_keys s)(tr_idempotencyKey t \<mapsto> tr_transferId t)\<rparr>))"

definition store_transfer :: "string \<Rightarrow> transfer_store \<Rightarrow> (fabric_error, transfer) res" where
  "store_transfer tid s =
     (case ts_sessions s tid of None \<Rightarrow> Err ErrTransferNotFound
      | Some t \<Rightarrow> Ok (t\<lparr>tr_receivedChunks := receivedIndexes (ts_chunks s tid)\<rparr>))"

definition SaveTransfer :: "transfer \<Rightarrow> transfer_store \<Rightarrow> fabric_error option \<times> transfer_store" where
  "SaveTransfer t s =
     (if ts_sessions s (tr_transferId t) = None then (Some ErrTransferNotFound, s)
      else (None, s\<lparr>ts_sessions := (ts_sessions s)(tr_transferId t \<mapsto> t)\<rparr>))"

definition chunk_at :: "int \<Rightarrow> transfer_chunk list \<Rightarrow> transfer_chunk option" where
  "chunk_at i cs = find (\<lambda>c. tc_index c = i) cs"

definition SaveTransferChunk :: "string \<Rightarrow> transfer_chunk \<Rightarrow> transfer_store \<Rightarrow> fabric_error option \<times> transfer_store" where
  "SaveTransferChunk tid c s =
     (if ts_sessions s tid = None then (Some ErrTransferNotFound, s)
      else case chunk_at (tc_index c) (ts_chunks s tid) of
             Some existing \<Rightarrow> if tc_digest existing \<noteq> tc_digest c then (Some ErrTransferChunkConflict, s) else (None, s)
           | None \<Rightarrow> (None, s\<lparr>ts_chunks := (ts_chunks s)(tid := ts_chunks s tid @ [c])\<rparr>))"

definition ordered_chunks :: "transfer_chunk list \<Rightarrow> transfer_chunk list" where
  "ordered_chunks cs = List.map_filter (\<lambda>i. chunk_at i cs) (receivedIndexes cs)"

definition TransferChunks :: "string \<Rightarrow> transfer_store \<Rightarrow> (fabric_error, transfer_chunk list) res" where
  "TransferChunks tid s =
     (if ts_sessions s tid = None then Err ErrTransferNotFound else Ok (ordered_chunks (ts_chunks s tid)))"

text \<open>The loop over the sessions visits them in the order of the first argument.\<close>

fun store_content :: "string list \<Rightarrow> string \<Rightarrow> string \<Rightarrow> transfer_store \<Rightarrow> (fabric_error, content) res" where
  "store_content [] ws digest s = Err ErrContentNotFound"
| "store_content (tid # ids) ws digest s =
     (case ts_sessions s tid of
        None \<Rightarrow> store_content ids ws digest s
      | Some t \<Rightarrow>
          if tr_status t \<noteq> ''completed'' \<or> tr_workspaceId t \<noteq> ws \<or> tr_digest t \<noteq> digest
          then store_content ids ws digest s
          else Ok \<lparr>co_digest = digest, co_workspaceId = tr_workspaceId t, co_path = tr_path t,
                   co_body = concat (map tc_body (ordered_chunks (ts_chunks s tid)))\<rparr>)"

section \<open>Paths, digests and sizes\<close>

fun split_slash :: "string \<Rightarrow> string list" where
  "split_slash [] = [[]]"
| "split_slash (c # s) =
     (if c = CHR ''/'' then [] # split_slash s
      else case split_slash s of [] \<Rightarrow> [[c]] | w # ws \<Rightarrow> (c # w) # ws)"

text \<open>\<^verbatim>\<open>path.Clean\<close>, one element at a time; the stack holds the elements kept so far, last first.\<close>

fun clean_step :: "bool \<Rightarrow> string list \<Rightarrow> string \<Rightarrow> string list" where
  "clean_step rooted stack e =
     (if e = [] \<or> e = ''.'' then stack
      else if e = ''..'' then
        (case stack of
           [] \<Rightarrow> if rooted then [] else [''..'']
         | t # ts \<Rightarrow> if t = ''..'' then ''..'' # stack else ts)
      else e # stack)"

definition path_clean :: "string \<Rightarrow> string" where
  "path_clean p =
     (let rooted = has_prefix p ''/'';
          body = join ''/'' (rev (foldl (clean_step rooted) [] (split_slash p)))
      in if rooted then ''/'' @ body else if body = [] then ''.'' else body)"

definition is_hex :: "char \<Rightarrow> bool" where
  "is_hex c \<longleftrightarrow> is_digit c \<or> c \<in> set ''abcdefABCDEF''"

definition validDigest :: "string \<Rightarrow> bool" where
  "validDigest d \<longleftrightarrow> length d = 64 \<and> list_all is_hex d"

text \<open>Division of Go rounds toward zero.\<close>

definition go_quot :: "int \<Rightarrow> int \<Rightarrow> int" where
  "go_quot a b = (if a < 0 then - ((- a) div b) else a div b)"

definition chunk_size :: int where "chunk_size = 4194304"

definition chunk_count :: "int \<Rightarrow> int" where
  "chunk_count n = go_quot (wrap64 (wrap64 (n + chunk_size) - 1)) chunk_size"

section \<open>The service\<close>

definition transfer_input_ok :: "transfer_input \<Rightarrow> bool" where
  "transfer_input_ok i \<longleftrightarrow>
     \<not> (ti_organizationId i = [] \<or> ti_workspaceId i = [] \<or> ti_projectId i = [] \<or> ti_idempotencyKey i = [] \<or>
        ti_size i < 0 \<or> \<not> validDigest (ti_digest i) \<or> ti_path i = ''.'' \<or> has_prefix (ti_path i) ''../'' \<or>
        has_prefix (ti_path i) ''/'')"

definition new_transfer :: "hashing \<Rightarrow> instant \<Rightarrow> transfer_input \<Rightarrow> transfer" where
  "new_transfer hx now i =
     \<lparr>tr_transferId = fabricID ''transfer'' (ti_workspaceId i @ ti_digest i) now, tr_organizationId = ti_organizationId i,
      tr_workspaceId = ti_workspaceId i, tr_projectId = ti_projectId i, tr_path = ti_path i,
      tr_digest = go_lower (ti_digest i), tr_size = ti_size i, tr_chunkSize = chunk_size,
      tr_chunkCount = chunk_count (ti_size i), tr_receivedChunks = [], tr_status = ''uploading'',
      tr_idempotencyKey = ti_idempotencyKey i,
      tr_requestHash = hashInput hx (GObj
        [(''organizationId'', GStr (ti_organizationId i)), (''workspaceId'', GStr (ti_workspaceId i)),
         (''projectId'', GStr (ti_projectId i)), (''path'', GStr (ti_path i)), (''digest'', GStr (ti_digest i)),
         (''size'', GInt (ti_size i)), (''chunkSize'', GInt chunk_size)]),
      tr_createdAt = now, tr_completedAt = None\<rparr>"

definition CreateTransfer ::
  "hashing \<Rightarrow> instant \<Rightarrow> transfer_input \<Rightarrow> transfer_store \<Rightarrow> (fabric_error, transfer) res \<times> transfer_store" where
  "CreateTransfer hx now i s =
     (let i = i\<lparr>ti_path := path_clean (trim_space (ti_path i))\<rparr>
      in if \<not> transfer_input_ok i then (Err ErrTransferInvalid, s) else store_create (new_transfer hx now i) s)"

definition chunk_acceptable :: "hashing \<Rightarrow> transfer \<Rightarrow> int \<Rightarrow> string \<Rightarrow> string \<Rightarrow> bool" where
  "chunk_acceptable hx t index body digest \<longleftrightarrow>
     \<not> (tr_status t = ''completed'' \<or> index < 0 \<or> tr_chunkCount t \<le> index \<or> \<not> validDigest digest \<or>
        hx_bytes hx body \<noteq> go_lower digest \<or> tr_chunkSize t < int (length body) \<or>
        (index < tr_chunkCount t - 1 \<and> int (length body) \<noteq> tr_chunkSize t))"

definition PutTransferChunk ::
  "hashing \<Rightarrow> string \<Rightarrow> int \<Rightarrow> string \<Rightarrow> string \<Rightarrow> transfer_store \<Rightarrow> (fabric_error, transfer) res \<times> transfer_store" where
  "PutTransferChunk hx tid index body digest s =
     (case store_transfer tid s of
        Inl e \<Rightarrow> (Err e, s)
      | Inr t \<Rightarrow>
          if \<not> chunk_acceptable hx t index body digest then (Err ErrTransferInvalid, s)
          else case SaveTransferChunk tid \<lparr>tc_index = index, tc_digest = go_lower digest, tc_body = body\<rparr> s of
                 (Some e, s) \<Rightarrow> (Err e, s)
               | (None, s) \<Rightarrow> (store_transfer tid s, s))"

text \<open>The loop of \<^verbatim>\<open>CompleteTransfer\<close> that checks the indexes and appends the bodies.\<close>

fun assemble :: "int \<Rightarrow> transfer_chunk list \<Rightarrow> string \<Rightarrow> string option" where
  "assemble i [] body = Some body"
| "assemble i (c # cs) body = (if tc_index c \<noteq> i then None else assemble (i + 1) cs (body @ tc_body c))"

text \<open>The publisher is the provider, when it can publish; it answers with the text of an error or none.\<close>

type_synonym publisher = "(string \<Rightarrow> string \<Rightarrow> string \<Rightarrow> string option) option"

definition CompleteTransfer ::
  "hashing \<Rightarrow> publisher \<Rightarrow> instant \<Rightarrow> string \<Rightarrow> transfer_store \<Rightarrow> (fabric_error, transfer) res \<times> transfer_store" where
  "CompleteTransfer hx pub now tid s =
     (case store_transfer tid s of
        Inl e \<Rightarrow> (Err e, s)
      | Inr t \<Rightarrow>
          if tr_status t = ''completed'' then (Ok t, s)
          else case TransferChunks tid s of
            Inl e \<Rightarrow> (Err e, s)
          | Inr cs \<Rightarrow>
              if int (length cs) \<noteq> tr_chunkCount t then (Err ErrTransferIncomplete, s)
              else case assemble 0 cs [] of
                None \<Rightarrow> (Err ErrTransferIncomplete, s)
              | Some body \<Rightarrow>
                  if int (length body) \<noteq> tr_size t \<or> hx_bytes hx body \<noteq> tr_digest t then (Err ErrTransferDigestMismatch, s)
                  else case pub of
                    None \<Rightarrow> (Err ContentPublishUnavailable, s)
                  | Some publish \<Rightarrow>
                      (case publish (tr_workspaceId t) (tr_path t) body of
                         Some e \<Rightarrow> (Err (PublishFailed e), s)
                       | None \<Rightarrow>
                           let t = t\<lparr>tr_status := ''completed'', tr_completedAt := Some now, tr_receivedChunks := map tc_index cs\<rparr>
                           in case SaveTransfer t s of (Some e, s) \<Rightarrow> (Err e, s) | (None, s) \<Rightarrow> (Ok t, s)))"

definition Content :: "string list \<Rightarrow> string \<Rightarrow> string \<Rightarrow> transfer_store \<Rightarrow> (fabric_error, content) res" where
  "Content ord ws digest s =
     (if ws = [] \<or> \<not> validDigest digest then Err ErrTransferInvalid else store_content ord ws (go_lower digest) s)"

end
