(* ===== verification/Fabric_Transfer_Facts.thy ===== *)
theory Fabric_Transfer_Facts
  imports Fabric_Transfer
begin

text \<open>
  What an upload guarantees: content that can be read has the digest it is asked for, an upload
  in any order of chunks gives back the bytes, accepted paths stay inside the workspace with one
  exception, and the number of chunks is the rounded-up quotient except near the top of
  \<^verbatim>\<open>int64\<close>.
\<close>

section \<open>Chunks in order\<close>

definition chunks_ok :: "transfer_chunk list \<Rightarrow> bool" where
  "chunks_ok cs \<longleftrightarrow> distinct (map tc_index cs)"

lemma chunk_at_Some: "chunk_at i cs = Some c \<Longrightarrow> c \<in> set cs \<and> tc_index c = i"
  by (auto simp: chunk_at_def find_Some_iff)

lemma chunk_at_None: "chunk_at i cs = None \<longleftrightarrow> i \<notin> tc_index ` set cs"
  by (auto simp: chunk_at_def find_None_iff)

lemma chunk_at_member: "chunks_ok cs \<Longrightarrow> c \<in> set cs \<Longrightarrow> chunk_at (tc_index c) cs = Some c"
  by (induction cs) (auto simp: chunk_at_def chunks_ok_def)

lemma receivedIndexes_set [simp]: "set (receivedIndexes cs) = tc_index ` set cs"
  by (simp add: receivedIndexes_def)

lemma chunks_ok_snoc: "chunks_ok cs \<Longrightarrow> chunk_at (tc_index c) cs = None \<Longrightarrow> chunks_ok (cs @ [c])"
  by (auto simp: chunks_ok_def chunk_at_None)

lemma ordered_map:
  "set is \<subseteq> tc_index ` set cs \<Longrightarrow> List.map_filter (\<lambda>i. chunk_at i cs) is = map (\<lambda>i. the (chunk_at i cs)) is"
  by (induction "is") (auto simp: List.map_filter_simps chunk_at_None split: option.splits)

lemma ordered_chunks_eq: "ordered_chunks cs = map (\<lambda>i. the (chunk_at i cs)) (receivedIndexes cs)"
  by (simp add: ordered_chunks_def ordered_map)

lemma length_ordered [simp]: "length (ordered_chunks cs) = length cs"
  by (simp add: ordered_chunks_eq receivedIndexes_def)

section \<open>Content that is read\<close>

definition whole :: "string \<Rightarrow> transfer_store \<Rightarrow> string" where
  "whole tid s = concat (map tc_body (ordered_chunks (ts_chunks s tid)))"

definition transfers_ok :: "hashing \<Rightarrow> transfer_store \<Rightarrow> bool" where
  "transfers_ok hx s \<longleftrightarrow>
     (\<forall>tid t. ts_sessions s tid = Some t \<longrightarrow> tr_transferId t = tid \<and>
        (tr_status t = ''completed'' \<longrightarrow> hx_bytes hx (whole tid s) = tr_digest t \<and> int (length (whole tid s)) = tr_size t))"

lemma assemble_concat: "assemble i cs body = Some b \<Longrightarrow> b = body @ concat (map tc_body cs)"
proof (induction cs arbitrary: i body)
  case (Cons c cs)
  from Cons.IH [of "i + 1" "body @ tc_body c"] Cons.prems show ?case by (simp split: if_splits)
qed simp

inductive transfer_step :: "hashing \<Rightarrow> transfer_store \<Rightarrow> transfer_store \<Rightarrow> bool" for hx where
  create: "CreateTransfer hx now i s = (x, s') \<Longrightarrow> transfer_step hx s s'"
| put: "PutTransferChunk hx tid index body digest s = (x, s') \<Longrightarrow> transfer_step hx s s'"
| complete: "CompleteTransfer hx pub now tid s = (x, s') \<Longrightarrow> transfer_step hx s s'"

lemma PutTransferChunk_cases:
  assumes "PutTransferChunk hx tid index body digest s = (x, s')"
  obtains "s' = s"
  | t where "ts_sessions s tid = Some t" "tr_status t \<noteq> ''completed''" "chunk_at index (ts_chunks s tid) = None"
      "s' = s\<lparr>ts_chunks := (ts_chunks s)(tid := ts_chunks s tid @ [\<lparr>tc_index = index, tc_digest = go_lower digest, tc_body = body\<rparr>])\<rparr>"
  using assms
  by (auto simp: PutTransferChunk_def store_transfer_def SaveTransferChunk_def chunk_acceptable_def
      split: option.splits sum.splits prod.splits if_splits)

lemma CompleteTransfer_cases:
  assumes "CompleteTransfer hx pub now tid s = (x, s')" and "\<forall>t. ts_sessions s tid = Some t \<longrightarrow> tr_transferId t = tid"
  obtains "s' = s"
  | t u where "ts_sessions s tid = Some t" "tr_status t \<noteq> ''completed''" "s' = s\<lparr>ts_sessions := (ts_sessions s)(tid \<mapsto> u)\<rparr>"
      "tr_transferId u = tid" "tr_digest u = tr_digest t" "tr_size u = tr_size t" "tr_workspaceId u = tr_workspaceId t"
      "int (length (whole tid s)) = tr_size t" "hx_bytes hx (whole tid s) = tr_digest t"
  using assms
  by (auto simp: CompleteTransfer_def store_transfer_def TransferChunks_def SaveTransfer_def Let_def whole_def
      dest!: assemble_concat split: option.splits sum.splits prod.splits if_splits)

lemma transfer_step_ok: "transfer_step hx s s' \<Longrightarrow> transfers_ok hx s \<Longrightarrow> transfers_ok hx s'"
proof (induction rule: transfer_step.induct)
  case (create now i s x s')
  then show ?case
    by (auto simp: CreateTransfer_def store_create_def Let_def transfers_ok_def whole_def new_transfer_def
        split: if_splits option.splits)
next
  case (put tid index body digest s x s')
  from put(1) show ?case
    by (cases rule: PutTransferChunk_cases) (use put(2) in \<open>auto simp: transfers_ok_def whole_def\<close>)
next
  case (complete pub now tid s x s')
  show ?case
    by (rule CompleteTransfer_cases [OF complete(1)]) (use complete(2) in \<open>auto simp: transfers_ok_def whole_def\<close>)
qed

lemma store_content_found:
  "store_content ids ws digest s = Ok c \<Longrightarrow>
     \<exists>tid t. ts_sessions s tid = Some t \<and> tr_status t = ''completed'' \<and> tr_workspaceId t = ws \<and> tr_digest t = digest \<and>
       co_body c = whole tid s \<and> co_workspaceId c = ws \<and> co_digest c = digest"
proof (induction ids)
  case (Cons tid ids)
  show ?case
  proof (cases "\<exists>t. ts_sessions s tid = Some t \<and> tr_status t = ''completed'' \<and> tr_workspaceId t = ws \<and> tr_digest t = digest")
    case True
    with Cons.prems show ?thesis by (intro exI [of _ tid]) (auto simp: whole_def)
  next
    case False
    with Cons.prems have "store_content ids ws digest s = Ok c" by (auto split: option.splits if_splits)
    then show ?thesis by (rule Cons.IH)
  qed
qed simp

lemma transfers_reachable_ok: "(transfer_step hx)\<^sup>*\<^sup>* newMemoryTransferStore s \<Longrightarrow> transfers_ok hx s"
  by (induction rule: rtranclp_induct) (auto simp: transfers_ok_def newMemoryTransferStore_def dest: transfer_step_ok)

lemma finite_sessions: "(transfer_step hx)\<^sup>*\<^sup>* newMemoryTransferStore s \<Longrightarrow> finite (dom (ts_sessions s))"
proof (induction rule: rtranclp_induct)
  case (step s s')
  have "finite (dom (ts_sessions s)) \<Longrightarrow> finite (dom (ts_sessions s'))"
    using step.hyps(2)
    by (cases rule: transfer_step.cases)
      (auto simp: CreateTransfer_def Let_def store_create_def CompleteTransfer_def store_transfer_def TransferChunks_def
        SaveTransfer_def elim!: PutTransferChunk_cases split: option.splits sum.splits prod.splits if_splits)
  with step.IH show ?case by blast
qed (simp add: newMemoryTransferStore_def)

text \<open>C33: content that is read is what was announced. Whatever uploads ran, the body that
  \<^verbatim>\<open>Content\<close> gives for a digest has that digest, and belongs to the workspace it was asked for.\<close>

theorem content_has_digest:
  assumes "(transfer_step hx)\<^sup>*\<^sup>* newMemoryTransferStore s" and "Content ord ws digest s = Ok c"
  shows "hx_bytes hx (co_body c) = go_lower digest \<and> co_workspaceId c = ws"
  using store_content_found [of ord ws "go_lower digest" s c] transfers_reachable_ok [OF assms(1)] assms(2)
  by (auto simp: Content_def transfers_ok_def split: if_splits)

section \<open>Sizes\<close>

lemma wrap64_pred: "wrap64 (wrap64 n - 1) = wrap64 (n - 1)"
  by (simp add: wrap64_def mod_simps)

lemma chunk_count_eq: "0 \<le> n \<Longrightarrow> n + chunk_size - 1 \<le> max_int64 \<Longrightarrow> chunk_count n = (n + chunk_size - 1) div chunk_size"
  by (simp add: chunk_count_def wrap64_pred wrap64_id int64_range_def min_int64_def chunk_size_def go_quot_def)

lemma ceil_div:
  fixes n c :: int
  assumes "0 \<le> n" and "0 < c"
  shows "n \<le> (n + c - 1) div c * c" "((n + c - 1) div c - 1) * c < n" "0 \<le> (n + c - 1) div c"
proof -
  have e: "(n + c - 1) div c * c = n + c - 1 - (n + c - 1) mod c" by (simp add: minus_mod_eq_div_mult)
  from pos_mod_bound [OF assms(2), of "n + c - 1"] show "n \<le> (n + c - 1) div c * c" unfolding e by simp
  from pos_mod_sign [OF assms(2), of "n + c - 1"] show "((n + c - 1) div c - 1) * c < n"
    unfolding left_diff_distrib e by simp
  show "0 \<le> (n + c - 1) div c" using assms by (simp add: pos_imp_zdiv_nonneg_iff)
qed

text \<open>The number of chunks. For a size that leaves room for the rounding in 64 bits, the chunks
  cover the content and none is superfluous; for the larger sizes the sum wraps around and the
  count is negative, so that no chunk of such a transfer is ever accepted.\<close>

theorem chunk_count_covers:
  assumes "0 \<le> n" and "n \<le> max_int64"
  shows "if n + chunk_size - 1 \<le> max_int64
         then n \<le> chunk_count n * chunk_size \<and> (chunk_count n - 1) * chunk_size < n \<and> 0 \<le> chunk_count n
         else chunk_count n < 0"
proof (cases "n + chunk_size - 1 \<le> max_int64")
  case True
  with chunk_count_eq [OF assms(1) True] ceil_div [OF assms(1), of chunk_size] show ?thesis by (simp add: chunk_size_def)
next
  case False
  then have "wrap64 (n + chunk_size - 1) = n + chunk_size - 1 - 2 ^ 64"
    using assms by (simp add: wrap64_def max_int64_def chunk_size_def mod_pos_geq)
  moreover have "n + chunk_size - 1 - 2 ^ 64 \<le> - chunk_size"
    using assms(2) by (simp add: max_int64_def chunk_size_def)
  moreover have "0 < m div chunk_size" if "chunk_size \<le> m" for m
    using that by (simp add: chunk_size_def pos_imp_zdiv_pos_iff)
  ultimately have "chunk_count n < 0"
    by (simp add: chunk_count_def wrap64_pred go_quot_def chunk_size_def)
  with False show ?thesis by simp
qed

theorem chunk_count_covers_witness: "chunk_count 4194305 = 2 \<and> chunk_count max_int64 < 0"
proof
  show "chunk_count 4194305 = 2" by (simp add: chunk_count_def wrap64_def chunk_size_def go_quot_def)
  show "chunk_count max_int64 < 0"
    using chunk_count_covers [of max_int64] by (simp add: max_int64_def chunk_size_def)
qed

section \<open>Upload and read back\<close>

lemma concat_pieces: "concat (map (\<lambda>i. take c (drop (i * c) xs)) [0..<m]) = take (m * c) xs"
proof (induction m)
  case (Suc m)
  have "Suc m * c = m * c + c" by simp
  with Suc show ?case by (simp only: take_add upt_Suc map_append concat_append) simp
qed simp

definition piece :: "string \<Rightarrow> int \<Rightarrow> string" where
  "piece body i = take (nat chunk_size) (drop (nat i * nat chunk_size) body)"

fun upload_all :: "hashing \<Rightarrow> string \<Rightarrow> string \<Rightarrow> int list \<Rightarrow> transfer_store \<Rightarrow> transfer_store option" where
  "upload_all hx tid body [] s = Some s"
| "upload_all hx tid body (i # is) s =
     (case PutTransferChunk hx tid i (piece body i) (hx_bytes hx (piece body i)) s of
        (Inl e, s) \<Rightarrow> None
      | (Inr t, s) \<Rightarrow> upload_all hx tid body is s)"

text \<open>SHA-256 in lower-case hexadecimal.\<close>

definition hex_digests :: "hashing \<Rightarrow> bool" where
  "hex_digests hx \<longleftrightarrow> (\<forall>b. validDigest (hx_bytes hx b) \<and> go_lower (hx_bytes hx b) = hx_bytes hx b)"

definition uploading :: "hashing \<Rightarrow> string \<Rightarrow> transfer \<Rightarrow> string \<Rightarrow> int set \<Rightarrow> transfer_store \<Rightarrow> bool" where
  "uploading hx tid t body got s \<longleftrightarrow>
     ts_sessions s tid = Some t \<and> chunks_ok (ts_chunks s tid) \<and> tc_index ` set (ts_chunks s tid) = got \<and>
     (\<forall>c \<in> set (ts_chunks s tid). tc_body c = piece body (tc_index c) \<and> tc_digest c = hx_bytes hx (piece body (tc_index c)))"

lemma piece_length:
  assumes "0 \<le> i" and "i < n" and "n = (int (length body) + chunk_size - 1) div chunk_size"
  shows "int (length (piece body i)) \<le> chunk_size" "i < n - 1 \<Longrightarrow> int (length (piece body i)) = chunk_size"
proof -
  have cs: "0 < chunk_size" by (simp add: chunk_size_def)
  then show "int (length (piece body i)) \<le> chunk_size" by (simp add: piece_def)
  assume "i < n - 1"
  then have "(i + 1) * chunk_size \<le> (n - 1) * chunk_size" using cs by (intro mult_right_mono) simp_all
  also have "n * chunk_size \<le> int (length body) + chunk_size - 1"
    unfolding assms(3) using ceil_div(2) [of "int (length body)", OF _ cs] by (simp add: left_diff_distrib)
  then have "(n - 1) * chunk_size \<le> int (length body)" by (simp add: left_diff_distrib)
  finally have "(i + 1) * chunk_size \<le> int (length body)" .
  then have "nat ((i + 1) * chunk_size) \<le> length body" by simp
  then have "nat i * nat chunk_size + nat chunk_size \<le> length body"
    using assms(1) cs by (simp add: nat_mult_distrib nat_add_distrib distrib_right)
  then show "int (length (piece body i)) = chunk_size" using cs by (simp add: piece_def)
qed

lemma upload_put:
  assumes up: "uploading hx tid t body got s" and hx: "hex_digests hx" and i: "0 \<le> i" "i < tr_chunkCount t"
    and t: "tr_status t \<noteq> ''completed''" "tr_chunkSize t = chunk_size"
      "tr_chunkCount t = (int (length body) + chunk_size - 1) div chunk_size"
  obtains t' s' where "PutTransferChunk hx tid i (piece body i) (hx_bytes hx (piece body i)) s = (Ok t', s')"
    and "uploading hx tid t body (insert i got) s'" and "ts_sessions s' = ts_sessions s"
proof -
  from up have st: "ts_sessions s tid = Some t" "chunks_ok (ts_chunks s tid)" "tc_index ` set (ts_chunks s tid) = got"
    by (simp_all add: uploading_def)
  from hx have h: "validDigest (hx_bytes hx (piece body i))" "go_lower (hx_bytes hx (piece body i)) = hx_bytes hx (piece body i)"
    by (simp_all add: hex_digests_def)
  note pl = piece_length [OF i t(3)]
  have acc: "chunk_acceptable hx (t\<lparr>tr_receivedChunks := is\<rparr>) i (piece body i) (hx_bytes hx (piece body i))" for "is"
    using i t(1,2) h pl by (auto simp: chunk_acceptable_def)
  show ?thesis
  proof (cases "chunk_at i (ts_chunks s tid)")
    case None
    let ?c = "\<lparr>tc_index = i, tc_digest = hx_bytes hx (piece body i), tc_body = piece body i\<rparr>"
    have "PutTransferChunk hx tid i (piece body i) (hx_bytes hx (piece body i)) s =
        (store_transfer tid (s\<lparr>ts_chunks := (ts_chunks s)(tid := ts_chunks s tid @ [?c])\<rparr>),
         s\<lparr>ts_chunks := (ts_chunks s)(tid := ts_chunks s tid @ [?c])\<rparr>)"
      using st(1) acc None h by (simp add: PutTransferChunk_def store_transfer_def SaveTransferChunk_def)
    moreover have "store_transfer tid (s\<lparr>ts_chunks := (ts_chunks s)(tid := ts_chunks s tid @ [?c])\<rparr>) =
        Ok (t\<lparr>tr_receivedChunks := receivedIndexes (ts_chunks s tid @ [?c])\<rparr>)"
      using st(1) by (simp add: store_transfer_def)
    moreover have "uploading hx tid t body (insert i got) (s\<lparr>ts_chunks := (ts_chunks s)(tid := ts_chunks s tid @ [?c])\<rparr>)"
      using up chunks_ok_snoc [OF st(2), of ?c] None by (auto simp: uploading_def)
    ultimately show ?thesis using that by simp
  next
    case (Some c)
    then have c: "c \<in> set (ts_chunks s tid)" "tc_index c = i" by (auto dest: chunk_at_Some)
    with up have "tc_digest c = hx_bytes hx (piece body i)" by (auto simp: uploading_def)
    then have "PutTransferChunk hx tid i (piece body i) (hx_bytes hx (piece body i)) s = (store_transfer tid s, s)"
      using st(1) acc Some h by (simp add: PutTransferChunk_def store_transfer_def SaveTransferChunk_def)
    moreover have "insert i got = got" using c st(3) by auto
    ultimately show ?thesis using that up st(1) by (simp add: store_transfer_def)
  qed
qed

lemma upload_all_ok:
  assumes "hex_digests hx" and "tr_status t \<noteq> ''completed''" and "tr_chunkSize t = chunk_size"
    and "tr_chunkCount t = (int (length body) + chunk_size - 1) div chunk_size"
    and "\<forall>i \<in> set is. 0 \<le> i \<and> i < tr_chunkCount t" and "uploading hx tid t body got s"
  shows "\<exists>s'. upload_all hx tid body is s = Some s' \<and> uploading hx tid t body (got \<union> set is) s' \<and> ts_sessions s' = ts_sessions s"
  using assms(5,6)
proof (induction "is" arbitrary: got s)
  case (Cons i js)
  then have i: "0 \<le> i" "i < tr_chunkCount t" by simp_all
  obtain t' s1 where s1: "PutTransferChunk hx tid i (piece body i) (hx_bytes hx (piece body i)) s = (Ok t', s1)"
    "uploading hx tid t body (insert i got) s1" "ts_sessions s1 = ts_sessions s"
    by (rule upload_put [OF Cons.prems(2) assms(1) i assms(2-4)])
  from Cons.IH [OF _ s1(2)] Cons.prems(1) s1(1,3) show ?case by auto
qed simp

lemma assemble_all:
  "map tc_index cs = map int [n..<n + length cs] \<Longrightarrow> assemble (int n) cs body = Some (body @ concat (map tc_body cs))"
proof (induction cs arbitrary: n body)
  case (Cons c cs)
  have e: "[n..<n + length (c # cs)] = n # [Suc n..<Suc n + length cs]" by (simp add: upt_conv_Cons del: upt_Suc)
  from Cons.prems [unfolded e] have "tc_index c = int n" "map tc_index cs = map int [Suc n..<Suc n + length cs]"
    by (simp_all del: upt_Suc)
  with Cons.IH [of "Suc n" "body @ tc_body c"] show ?case by (simp add: add.commute)
qed simp

lemma uploaded_whole:
  assumes "uploading hx tid t body {0..<int m} s" and "length body \<le> m * nat chunk_size"
  shows "map tc_index (ordered_chunks (ts_chunks s tid)) = map int [0..<m]" "whole tid s = body"
proof -
  let ?cs = "ts_chunks s tid"
  from assms(1) have u: "chunks_ok ?cs" "tc_index ` set ?cs = {0..<int m}" and b: "\<forall>c \<in> set ?cs. tc_body c = piece body (tc_index c)"
    by (auto simp: uploading_def)
  have r: "receivedIndexes ?cs = map int [0..<m]"
  proof (rule sorted_distinct_set_unique)
    show "sorted (receivedIndexes ?cs)" "distinct (receivedIndexes ?cs)"
      using u(1) by (simp_all add: receivedIndexes_def chunks_ok_def)
    show "sorted (map int [0..<m])" by (simp add: sorted_map sorted_wrt_mono_rel [OF _ sorted_upt])
    show "distinct (map int [0..<m])" by (simp add: distinct_map)
    show "set (receivedIndexes ?cs) = set (map int [0..<m])" using u(2) by (simp add: image_int_atLeastLessThan)
  qed
  have at: "the (chunk_at (int i) ?cs) \<in> set ?cs \<and> tc_index (the (chunk_at (int i) ?cs)) = int i" if "i < m" for i
  proof -
    have "int i \<in> tc_index ` set ?cs" using u(2) that by simp
    then obtain c where "chunk_at (int i) ?cs = Some c" by (cases "chunk_at (int i) ?cs") (auto simp: chunk_at_None)
    with chunk_at_Some [OF this] show ?thesis by simp
  qed
  show "map tc_index (ordered_chunks ?cs) = map int [0..<m]"
    unfolding ordered_chunks_eq r by (simp add: at)
  have "map tc_body (ordered_chunks ?cs) = map (\<lambda>i. take (nat chunk_size) (drop (i * nat chunk_size) body)) [0..<m]"
    unfolding ordered_chunks_eq r using at b by (simp add: piece_def)
  then show "whole tid s = body" using assms(2) by (simp add: whole_def concat_pieces)
qed

lemma store_content_only:
  assumes "tid \<in> set ord" and "ts_sessions s tid = Some t" and "tr_status t = ''completed''" and "tr_workspaceId t = ws"
    and "tr_digest t = digest"
    and "\<forall>k t. ts_sessions s k = Some t \<longrightarrow> k \<noteq> tid \<longrightarrow>
           \<not> (tr_status t = ''completed'' \<and> tr_workspaceId t = ws \<and> tr_digest t = digest)"
  shows "store_content ord ws digest s =
           Ok \<lparr>co_digest = digest, co_workspaceId = ws, co_path = tr_path t, co_body = whole tid s\<rparr>"
  using assms(1)
proof (induction ord)
  case (Cons k ord)
  show ?case
  proof (cases "k = tid")
    case False
    then have "tid \<in> set ord" using Cons.prems by simp
    from Cons.IH [OF this] assms(6) False show ?thesis by (cases "ts_sessions s k") auto
  qed (use assms(2-5) in \<open>simp add: whole_def\<close>)
qed simp

lemma upload_reads_back:
  assumes "hex_digests hx" and "transfer_input_ok (i\<lparr>ti_path := path_clean (trim_space (ti_path i))\<rparr>)"
    and "go_lower (ti_digest i) = hx_bytes hx body" and "ti_size i = int (length body)"
    and "int (length body) + chunk_size - 1 \<le> max_int64"
    and "tid = fabricID ''transfer'' (ti_workspaceId i @ ti_digest i) now"
    and "ts_keys s (ti_idempotencyKey i) = None" and "ts_sessions s tid = None" and "ts_chunks s tid = []"
    and "\<forall>k t. ts_sessions s k = Some t \<longrightarrow> tr_status t = ''completed'' \<longrightarrow> tr_workspaceId t = ti_workspaceId i \<longrightarrow>
           tr_digest t \<noteq> hx_bytes hx body"
    and "set is = {0..<chunk_count (ti_size i)}"
    and "\<forall>ws p b. publish ws p b = None"
  shows "\<exists>t s1 s2 t' s3. CreateTransfer hx now i s = (Ok t, s1) \<and> upload_all hx tid body is s1 = Some s2 \<and>
           CompleteTransfer hx (Some publish) now' tid s2 = (Ok t', s3) \<and>
           (\<forall>ord. range_order ord (ts_sessions s3) \<longrightarrow>
              (\<exists>c. Content ord (ti_workspaceId i) (ti_digest i) s3 = Ok c \<and> co_body c = body))"
proof -
  let ?i = "i\<lparr>ti_path := path_clean (trim_space (ti_path i))\<rparr>"
  let ?t = "new_transfer hx now ?i"
  let ?s1 = "s\<lparr>ts_sessions := (ts_sessions s)(tid \<mapsto> ?t), ts_keys := (ts_keys s)(ti_idempotencyKey i \<mapsto> tid)\<rparr>"
  define m where "m = nat (chunk_count (ti_size i))"
  have L: "0 \<le> int (length body)" by simp
  have cnt: "tr_chunkCount ?t = (int (length body) + chunk_size - 1) div chunk_size"
    using chunk_count_eq [OF L assms(5)] assms(4) by (simp add: new_transfer_def)
  have cs: "0 < chunk_size" by (simp add: chunk_size_def)
  have m: "int m = tr_chunkCount ?t" "length body \<le> m * nat chunk_size"
  proof -
    show im: "int m = tr_chunkCount ?t"
      using ceil_div(3) [OF L cs] cnt by (simp add: m_def new_transfer_def)
    have "int (length body) \<le> int m * chunk_size" using ceil_div(1) [OF L cs] cnt im by simp
    then have "length body \<le> nat (int m * chunk_size)" by simp
    then show "length body \<le> m * nat chunk_size" using cs by (simp add: nat_mult_distrib)
  qed
  have create: "CreateTransfer hx now i s = (Ok ?t, ?s1)"
    using assms(2,6,7) by (simp add: CreateTransfer_def Let_def store_create_def) (simp add: new_transfer_def)
  have up: "uploading hx tid ?t body {} ?s1"
    using assms(9) by (simp add: uploading_def chunks_ok_def)
  have rng: "\<forall>j \<in> set is. 0 \<le> j \<and> j < tr_chunkCount ?t" using assms(11) by (simp add: new_transfer_def)
  have t: "tr_status ?t \<noteq> ''completed''" "tr_chunkSize ?t = chunk_size" by (simp_all add: new_transfer_def)
  from upload_all_ok [OF assms(1) t cnt rng up] obtain s2 where
    s2: "upload_all hx tid body is ?s1 = Some s2" "uploading hx tid ?t body (set is) s2" "ts_sessions s2 = ts_sessions ?s1"
    by auto
  have got: "uploading hx tid ?t body {0..<int m} s2"
    using s2(2) assms(11) m(1) by (simp add: new_transfer_def)
  note w = uploaded_whole [OF got m(2)]
  have len: "length (ts_chunks s2 tid) = m" using arg_cong [OF w(1), of length] by simp
  have as: "assemble 0 (ordered_chunks (ts_chunks s2 tid)) [] = Some body"
    using assemble_all [of "ordered_chunks (ts_chunks s2 tid)" 0 "[]"] w len by (simp add: whole_def)
  have st: "ts_sessions s2 tid = Some ?t" using s2(3) by simp
  let ?u = "?t\<lparr>tr_status := ''completed'', tr_completedAt := Some now', tr_receivedChunks := map tc_index (ordered_chunks (ts_chunks s2 tid))\<rparr>"
  let ?s3 = "s2\<lparr>ts_sessions := (ts_sessions s2)(tid \<mapsto> ?u)\<rparr>"
  have sz: "tr_size ?t = int (length body)" "tr_digest ?t = hx_bytes hx body" "tr_transferId ?t = tid"
    "tr_workspaceId ?t = ti_workspaceId i"
    using assms(3,4,6) by (simp_all add: new_transfer_def)
  have complete: "CompleteTransfer hx (Some publish) now' tid s2 = (Ok ?u, ?s3)"
    using t(1) st sz m(1) len as assms(12)
    by (simp add: CompleteTransfer_def store_transfer_def TransferChunks_def SaveTransfer_def Let_def)
  have "\<exists>c. Content ord (ti_workspaceId i) (ti_digest i) ?s3 = Ok c \<and> co_body c = body"
    if ord: "range_order ord (ts_sessions ?s3)" for ord
  proof -
    have "tid \<in> set ord" using ord by (auto simp: range_order_def)
    moreover have "\<forall>k t. ts_sessions ?s3 k = Some t \<longrightarrow> k \<noteq> tid \<longrightarrow>
        \<not> (tr_status t = ''completed'' \<and> tr_workspaceId t = ti_workspaceId i \<and> tr_digest t = hx_bytes hx body)"
      using assms(10) s2(3) by auto
    ultimately have "store_content ord (ti_workspaceId i) (hx_bytes hx body) ?s3 =
        Ok \<lparr>co_digest = hx_bytes hx body, co_workspaceId = ti_workspaceId i, co_path = tr_path ?u, co_body = whole tid ?s3\<rparr>"
      by (intro store_content_only) (use sz in auto)
    moreover have "whole tid ?s3 = body" using w(2) by (simp add: whole_def)
    ultimately show ?thesis using assms(2,3) by (simp add: Content_def transfer_input_ok_def)
  qed
  with create s2(1) complete show ?thesis by blast
qed

text \<open>C34: what is uploaded is what is read. A transfer created for a body, with all its chunks delivered
  in any order and any number of times, completes, and the content read under the digest is the
  body.\<close>

theorem upload_roundtrip:
  assumes "hex_digests hx" and "transfer_input_ok (i\<lparr>ti_path := path_clean (trim_space (ti_path i))\<rparr>)"
    and "go_lower (ti_digest i) = hx_bytes hx body" and "ti_size i = int (length body)"
    and "int (length body) + chunk_size - 1 \<le> max_int64"
    and "tid = fabricID ''transfer'' (ti_workspaceId i @ ti_digest i) now"
    and "ts_keys s (ti_idempotencyKey i) = None" and "ts_sessions s tid = None" and "ts_chunks s tid = []"
    and "\<forall>k t. ts_sessions s k = Some t \<longrightarrow> tr_status t = ''completed'' \<longrightarrow> tr_workspaceId t = ti_workspaceId i \<longrightarrow>
           tr_digest t \<noteq> hx_bytes hx body"
    and "set is = {0..<chunk_count (ti_size i)}"
    and "\<forall>ws p b. publish ws p b = None"
  shows "\<exists>t s1 s2 t' s3. CreateTransfer hx now i s = (Ok t, s1) \<and> upload_all hx tid body is s1 = Some s2 \<and>
           CompleteTransfer hx (Some publish) now' tid s2 = (Ok t', s3) \<and>
           (\<forall>ord. range_order ord (ts_sessions s3) \<longrightarrow>
              (\<exists>c. Content ord (ti_workspaceId i) (ti_digest i) s3 = Ok c \<and> co_body c = body))"
  by (rule upload_reads_back [OF assms])

definition zero_hashing :: hashing where
  "zero_hashing = \<lparr>hx_bytes = (\<lambda>b. replicate 64 CHR ''0''), hx_json = (\<lambda>v. ''h'')\<rparr>"

definition ex_upload :: transfer_input where
  "ex_upload = \<lparr>ti_organizationId = ''org'', ti_workspaceId = ''ws'', ti_projectId = ''pr'', ti_path = '' docs/./a.txt '',
     ti_digest = replicate 64 CHR ''0'', ti_size = 3, ti_idempotencyKey = ''k''\<rparr>"

definition ex_now :: instant where "ex_now = unix_epoch + 5"

definition ex_tid :: string where
  "ex_tid = fabricID ''transfer'' (ti_workspaceId ex_upload @ ti_digest ex_upload) ex_now"

lemma ex_upload_ok: "transfer_input_ok (ex_upload\<lparr>ti_path := path_clean (trim_space (ti_path ex_upload))\<rparr>)"
  by code_simp

lemma zero_hashing_ok: "hex_digests zero_hashing"
proof -
  have "validDigest (replicate 64 CHR ''0'')" "go_lower (replicate 64 CHR ''0'') = replicate 64 CHR ''0''" by code_simp+
  then show ?thesis by (simp add: hex_digests_def zero_hashing_def)
qed

theorem upload_roundtrip_witness:
  "\<exists>t s1 s2 t' s3. CreateTransfer zero_hashing ex_now ex_upload newMemoryTransferStore = (Ok t, s1) \<and>
     upload_all zero_hashing ex_tid ''abc'' [0, 0] s1 = Some s2 \<and>
     CompleteTransfer zero_hashing (Some (\<lambda>ws p b. None)) 6 ex_tid s2 = (Ok t', s3) \<and>
     (\<forall>ord. range_order ord (ts_sessions s3) \<longrightarrow>
        (\<exists>c. Content ord (ti_workspaceId ex_upload) (ti_digest ex_upload) s3 = Ok c \<and> co_body c = ''abc''))"
proof (rule upload_roundtrip [OF zero_hashing_ok ex_upload_ok])
  have d: "go_lower (replicate 64 CHR ''0'') = replicate 64 CHR ''0''" by code_simp
  show "go_lower (ti_digest ex_upload) = hx_bytes zero_hashing ''abc''"
    by (simp only: ex_upload_def zero_hashing_def transfer_input.simps hashing.simps d)
  show "set [0, 0] = {0..<chunk_count (ti_size ex_upload)}"
    by (simp add: ex_upload_def chunk_count_def wrap64_def go_quot_def chunk_size_def) auto
qed (simp_all add: ex_upload_def ex_tid_def newMemoryTransferStore_def chunk_size_def max_int64_def)

lemma upload_all_steps: "upload_all hx tid body is s = Some s' \<Longrightarrow> (transfer_step hx)\<^sup>*\<^sup>* s s'"
proof (induction "is" arbitrary: s)
  case (Cons i js)
  obtain x s1 where p: "PutTransferChunk hx tid i (piece body i) (hx_bytes hx (piece body i)) s = (x, s1)"
    by (cases "PutTransferChunk hx tid i (piece body i) (hx_bytes hx (piece body i)) s")
  with Cons have "(transfer_step hx)\<^sup>*\<^sup>* s1 s'" by (cases x) simp_all
  with transfer_step.put [OF p] show ?case by (rule converse_rtranclp_into_rtranclp)
qed simp

theorem content_has_digest_witness:
  "\<exists>s ord c. Content ord ''ws'' (ti_digest ex_upload) s = Ok c \<and> co_body c = ''abc'' \<and>
     hx_bytes zero_hashing (co_body c) = go_lower (ti_digest ex_upload)"
proof -
  let ?hx = zero_hashing and ?s0 = newMemoryTransferStore
  have d: "go_lower (replicate 64 CHR ''0'') = replicate 64 CHR ''0''" by code_simp
  have "\<exists>t s1 s2 t' s3. CreateTransfer ?hx ex_now ex_upload ?s0 = (Ok t, s1) \<and>
      upload_all ?hx ex_tid ''abc'' [0] s1 = Some s2 \<and>
      CompleteTransfer ?hx (Some (\<lambda>ws p b. None)) ex_now ex_tid s2 = (Ok t', s3) \<and>
      (\<forall>ord. range_order ord (ts_sessions s3) \<longrightarrow>
         (\<exists>c. Content ord (ti_workspaceId ex_upload) (ti_digest ex_upload) s3 = Ok c \<and> co_body c = ''abc''))"
  proof (rule upload_reads_back [OF zero_hashing_ok ex_upload_ok])
    show "go_lower (ti_digest ex_upload) = hx_bytes zero_hashing ''abc''"
      by (simp only: ex_upload_def zero_hashing_def transfer_input.simps hashing.simps d)
    show "set [0] = {0..<chunk_count (ti_size ex_upload)}"
      by (simp add: ex_upload_def chunk_count_def wrap64_def go_quot_def chunk_size_def) auto
  qed (simp_all add: ex_upload_def ex_tid_def newMemoryTransferStore_def chunk_size_def max_int64_def)
  then obtain t s1 s2 t' s3 where r: "CreateTransfer ?hx ex_now ex_upload ?s0 = (Ok t, s1)"
      "upload_all ?hx ex_tid ''abc'' [0] s1 = Some s2"
      "CompleteTransfer ?hx (Some (\<lambda>ws p b. None)) ex_now ex_tid s2 = (Ok t', s3)"
    and c: "\<forall>ord. range_order ord (ts_sessions s3) \<longrightarrow>
         (\<exists>c. Content ord (ti_workspaceId ex_upload) (ti_digest ex_upload) s3 = Ok c \<and> co_body c = ''abc'')" by blast
  have steps: "(transfer_step ?hx)\<^sup>*\<^sup>* ?s0 s3"
    using transfer_step.create [OF r(1)] upload_all_steps [OF r(2)] transfer_step.complete [OF r(3)]
    by (meson converse_rtranclp_into_rtranclp rtranclp.rtrancl_into_rtrancl)
  have "finite (dom (ts_sessions s3))" 
    using steps by (rule finite_sessions)
  then obtain ord where "range_order ord (ts_sessions s3)" unfolding range_order_def by (metis finite_distinct_list)
  with c obtain c' where "Content ord ''ws'' (ti_digest ex_upload) s3 = Ok c'" "co_body c' = ''abc''"
    by (auto simp: ex_upload_def)
  with content_has_digest [OF steps] show ?thesis by blast
qed

section \<open>Paths\<close>

definition plain_element :: "string \<Rightarrow> bool" where
  "plain_element e \<longleftrightarrow> e \<noteq> [] \<and> e \<noteq> ''.'' \<and> e \<noteq> ''..'' \<and> CHR ''/'' \<notin> set e"

lemma split_slash_nonempty [simp]: "split_slash s \<noteq> []"
  by (cases s) (auto split: list.split)

lemma split_slash_free: "e \<in> set (split_slash s) \<Longrightarrow> CHR ''/'' \<notin> set e"
  by (induction s arbitrary: e) (auto split: list.splits if_splits)

lemma split_join:
  "xs \<noteq> [] \<Longrightarrow> \<forall>x \<in> set xs. CHR ''/'' \<notin> set x \<Longrightarrow> split_slash (join ''/'' xs) = xs"
proof (induction xs)
  case (Cons x xs)
  have word: "split_slash (w @ rest) = (case split_slash rest of v # vs \<Rightarrow> (w @ v) # vs | [] \<Rightarrow> [])"
    if "CHR ''/'' \<notin> set w" for w rest
    using that by (induction w) (auto split: list.split)
  show ?case
  proof (cases xs)
    case Nil
    with word [of x "[]"] Cons.prems show ?thesis by (simp add: join_def)
  next
    case (Cons y ys)
    then have "join ''/'' (x # xs) = x @ ''/'' @ join ''/'' xs" by (simp add: join_def)
    with word [of x "''/'' @ join ''/'' xs"] Cons.IH Cons Cons.prems show ?thesis by simp
  qed
qed simp

definition clean_stack :: "bool \<Rightarrow> string list \<Rightarrow> bool" where
  "clean_stack rooted st \<longleftrightarrow>
     (\<exists>ps n. st = ps @ replicate n ''..'' \<and> (\<forall>p \<in> set ps. plain_element p) \<and> (rooted \<longrightarrow> n = 0))"

lemma clean_step_stack:
  assumes "clean_stack rooted st" and "CHR ''/'' \<notin> set e"
  shows "clean_stack rooted (clean_step rooted st e)"
proof -
  from assms(1) obtain ps n where st: "st = ps @ replicate n ''..''" "\<forall>p \<in> set ps. plain_element p" "rooted \<longrightarrow> n = 0"
    by (auto simp: clean_stack_def)
  consider "e = [] \<or> e = ''.''" | "e = ''..''" "ps = []" | p ps' where "e = ''..''" "ps = p # ps'" | "plain_element e"
    using assms(2) by (cases ps) (auto simp: plain_element_def)
  then show ?thesis
  proof cases
    case 2
    show ?thesis
    proof (cases n)
      case 0
      have "clean_step rooted st e = [] @ replicate (if rooted then 0 else 1) ''..''"
        using 2 st(1) 0 by simp
      then show ?thesis unfolding clean_stack_def
        by (intro exI [of _ "[]"] exI [of _ "if rooted then 0 else 1 :: nat"]) simp
    next
      case (Suc k)
      with 2 st have "clean_step rooted st e = [] @ replicate (Suc (Suc k)) ''..''" "\<not> rooted" by auto
      then show ?thesis unfolding clean_stack_def by (intro exI [of _ "[]"] exI [of _ "Suc (Suc k)"]) simp
    qed
  next
    case (3 p ps')
    then have "clean_step rooted st e = ps' @ replicate n ''..''"
      using st by (auto simp: plain_element_def)
    with st 3 show ?thesis unfolding clean_stack_def by (intro exI [of _ ps'] exI [of _ n]) simp
  next
    case 4
    then have "clean_step rooted st e = (e # ps) @ replicate n ''..''" using st by (simp add: plain_element_def)
    with st 4 show ?thesis unfolding clean_stack_def by (intro exI [of _ "e # ps"] exI [of _ n]) simp
  qed (use assms(1) in simp)
qed

lemma clean_fold: "\<forall>e \<in> set es. CHR ''/'' \<notin> set e \<Longrightarrow> clean_stack rooted st \<Longrightarrow> clean_stack rooted (foldl (clean_step rooted) st es)"
  by (induction es arbitrary: st) (simp_all add: clean_step_stack del: clean_step.simps)

definition path_ok :: "string \<Rightarrow> bool" where
  "path_ok p \<longleftrightarrow> p = ''..'' \<or> (p \<noteq> [] \<and> (\<forall>e \<in> set (split_slash p). plain_element e))"

lemma cleaned_path_ok:
  assumes "p = path_clean raw" and "\<not> has_prefix p ''/''" and "\<not> has_prefix p ''../''" and "p \<noteq> ''.''"
  shows "path_ok p"
proof -
  define st where "st = foldl (clean_step (has_prefix raw ''/'')) [] (split_slash raw)"
  have "clean_stack (has_prefix raw ''/'') st"
    unfolding st_def by (rule clean_fold) (auto dest: split_slash_free simp: clean_stack_def)
  then obtain ps n where "st = ps @ replicate n ''..''" and plain: "\<forall>q \<in> set ps. plain_element q"
    by (auto simp: clean_stack_def)
  then have rev: "rev st = replicate n ''..'' @ rev ps" by simp
  have path: "p = join ''/'' (rev st)" and ne: "join ''/'' (rev st) \<noteq> []"
    using assms by (auto simp: path_clean_def Let_def st_def has_prefix_def split: if_splits)
  show ?thesis
  proof (cases n)
    case 0
    with rev have "rev st = rev ps" by simp
    moreover from this ne have "rev ps \<noteq> []" by (auto simp: join_def)
    moreover have "split_slash (join ''/'' (rev ps)) = rev ps"
      by (rule split_join) (use plain \<open>rev ps \<noteq> []\<close> in \<open>auto simp: plain_element_def\<close>)
    ultimately show ?thesis using plain ne unfolding path_ok_def path by simp
  next
    case (Suc k)
    have "has_prefix (join ''/'' (''..'' # x # xs)) ''../''" for x xs
      by (simp add: join_def has_prefix_def)
    with assms(3) path rev Suc have "replicate k ''..'' @ rev ps = []"
      by (cases "replicate k ''..'' @ rev ps") auto
    with path rev Suc show ?thesis by (simp add: join_def path_ok_def)
  qed
qed

definition paths_ok :: "transfer_store \<Rightarrow> bool" where
  "paths_ok s \<longleftrightarrow> (\<forall>tid t. ts_sessions s tid = Some t \<longrightarrow> path_ok (tr_path t))"

lemma transfer_step_paths: "transfer_step hx s s' \<Longrightarrow> paths_ok s \<Longrightarrow> paths_ok s'"
proof (induction rule: transfer_step.induct)
  case (create now i s x s')
  show ?case
  proof (cases "transfer_input_ok (i\<lparr>ti_path := path_clean (trim_space (ti_path i))\<rparr>)")
    case True
    then have "path_ok (path_clean (trim_space (ti_path i)))"
      by (intro cleaned_path_ok [OF refl]) (simp_all add: transfer_input_ok_def)
    with create True show ?thesis
      by (auto simp: CreateTransfer_def Let_def store_create_def paths_ok_def new_transfer_def split: if_splits option.splits)
  qed (use create in \<open>simp add: CreateTransfer_def Let_def\<close>)
next
  case (put tid index body digest s x s')
  from put(1) show ?case
    by (cases rule: PutTransferChunk_cases) (use put(2) in \<open>auto simp: paths_ok_def\<close>)
next
  case (complete pub now tid s x s')
  then show ?case
    by (auto simp: CompleteTransfer_def store_transfer_def TransferChunks_def SaveTransfer_def Let_def paths_ok_def
        split: option.splits sum.splits prod.splits if_splits)
qed

text \<open>Content stays inside the workspace, with one exception. The path of every transfer, and so of
  every publication, consists of proper names, none of them empty or a dot or two dots, or it is
  exactly two dots: the check for the prefix \<^verbatim>\<open>../\<close> lets the parent directory itself through.\<close>

theorem accepted_path_inside:
  assumes "(transfer_step hx)\<^sup>*\<^sup>* newMemoryTransferStore s" and "ts_sessions s tid = Some t"
  shows "tr_path t = ''..'' \<or> (tr_path t \<noteq> [] \<and> (\<forall>e \<in> set (split_slash (tr_path t)). plain_element e))"
proof -
  from assms(1) have "paths_ok s"
    by (induction rule: rtranclp_induct) (auto simp: paths_ok_def newMemoryTransferStore_def dest: transfer_step_paths)
  with assms(2) show ?thesis by (auto simp: paths_ok_def path_ok_def)
qed

definition ex_parent :: transfer_input where
  "ex_parent = ex_upload\<lparr>ti_path := ''docs/../..''\<rparr>"

theorem accepted_path_inside_witness:
  "\<exists>t. ts_sessions (snd (CreateTransfer zero_hashing ex_now ex_parent newMemoryTransferStore)) ex_tid = Some t \<and>
     tr_path t = ''..'' \<and> (tr_path t = ''..'' \<or> (tr_path t \<noteq> [] \<and> (\<forall>e \<in> set (split_slash (tr_path t)). plain_element e)))"
proof -
  have ok: "transfer_input_ok (ex_parent\<lparr>ti_path := path_clean (trim_space (ti_path ex_parent))\<rparr>)"
    "path_clean (trim_space (ti_path ex_parent)) = ''..''" by code_simp+
  then obtain t where t: "ts_sessions (snd (CreateTransfer zero_hashing ex_now ex_parent newMemoryTransferStore)) ex_tid = Some t"
      "tr_path t = ''..''"
    by (simp add: CreateTransfer_def Let_def store_create_def newMemoryTransferStore_def)
      (simp add: new_transfer_def ex_tid_def ex_parent_def)
  have "(transfer_step zero_hashing)\<^sup>*\<^sup>* newMemoryTransferStore
      (snd (CreateTransfer zero_hashing ex_now ex_parent newMemoryTransferStore))"
    by (rule r_into_rtranclp, rule transfer_step.create [OF surjective_pairing])
  from accepted_path_inside [OF this t(1)] t show ?thesis by blast
qed

end
