(* ===== verification/CP_Values.thy ===== *)
theory CP_Values
  imports Go_Hash
begin

text \<open>
  How the control plane reads its dynamic rows: the helpers of
  \<^verbatim>\<open>services/control-plane/internal/server\<close> (\<^verbatim>\<open>app_state.go\<close>,
  \<^verbatim>\<open>server.go\<close>, \<^verbatim>\<open>auth_accounts.go\<close>, \<^verbatim>\<open>routes_billing.go\<close>,
  \<^verbatim>\<open>renewal_worker.go\<close>). Numbers are read as \<^verbatim>\<open>float64\<close>, so an integer goes
  through the rounding to 53 bits.
\<close>

section \<open>Integers as float64\<close>

text \<open>Rounding to the nearest number with 53 significant bits, ties to even.\<close>

definition round_bits :: "nat \<Rightarrow> int \<Rightarrow> int" where
  "round_bits k m =
     (let q = m div 2 ^ k; r = m mod 2 ^ k
      in (if 2 * r > 2 ^ k \<or> (2 * r = 2 ^ k \<and> odd q) then q + 1 else q) * 2 ^ k)"

fun excess_bits :: "nat \<Rightarrow> int \<Rightarrow> nat" where
  "excess_bits 0 m = 0"
| "excess_bits (Suc n) m = (if m < 9007199254740992 then 0 else Suc (excess_bits n (m div 2)))"

definition to_f64 :: "int \<Rightarrow> int" where
  "to_f64 n = (let m = \<bar>n\<bar>; r = round_bits (excess_bits 64 m) m in if n < 0 then - r else r)"

lemma excess_bits_small: "m < 9007199254740992 \<Longrightarrow> excess_bits n m = 0"
  by (cases n) simp_all

lemma to_f64_small [simp]: "\<bar>n\<bar> < 9007199254740992 \<Longrightarrow> to_f64 n = n"
  by (simp add: to_f64_def Let_def round_bits_def excess_bits_small)

lemma excess_bits_bound: "0 \<le> m \<Longrightarrow> m < 2 ^ (n + 53) \<Longrightarrow> excess_bits n m = 0 \<and> m < 2 ^ 53 \<or>
    2 ^ (52 + excess_bits n m) \<le> m \<and> 0 < excess_bits n m"
proof (induction n arbitrary: m)
  case (Suc n)
  show ?case
  proof (cases "m < 9007199254740992")
    case False
    have half: "a < 2 * x \<Longrightarrow> a div 2 < x" for a x :: int by presburger
    have "m div 2 < 2 ^ (n + 53)" by (rule half) (use Suc.prems(2) in \<open>simp add: power_add\<close>)
    with Suc.IH [of "m div 2"] Suc.prems(1) have
      "excess_bits n (m div 2) = 0 \<or> 2 ^ (52 + excess_bits n (m div 2)) \<le> m div 2" by auto
    moreover have "2 ^ (53 + k) \<le> m" if "2 ^ (52 + k) \<le> m div 2" for k
    proof -
      have "2 * 2 ^ (52 + k) \<le> 2 * (m div 2)" using that by simp
      also have "\<dots> \<le> m" using Suc.prems(1) by simp
      finally show ?thesis by (simp add: power_add)
    qed
    ultimately show ?thesis using False by auto
  qed simp
qed simp

text \<open>A small integer is read only from itself.\<close>

lemma to_f64_inj_small:
  assumes "\<bar>n\<bar> < 9007199254740992" and "to_f64 k = to_f64 n" and "\<bar>k\<bar> < 2 ^ 117"
  shows "k = n"
proof (cases "\<bar>k\<bar> < 9007199254740992")
  case False
  let ?e = "excess_bits 64 \<bar>k\<bar>"
  from excess_bits_bound [of "\<bar>k\<bar>" 64] assms(3) False have e: "2 ^ (52 + ?e) \<le> \<bar>k\<bar>" "0 < ?e" by auto
  have "(2::int) ^ 52 * 2 ^ ?e \<le> \<bar>k\<bar>" using e(1) by (simp add: power_add)
  from zdiv_mono1 [OF this, of "2 ^ ?e"] have q: "2 ^ 52 \<le> \<bar>k\<bar> div 2 ^ ?e" by simp
  have "2 ^ 52 * 2 ^ ?e \<le> round_bits ?e \<bar>k\<bar>"
    unfolding round_bits_def Let_def using q by (intro mult_right_mono) auto
  moreover have "(2::int) ^ 1 \<le> 2 ^ ?e" using e(2) by (intro power_increasing) auto
  ultimately have "2 ^ 53 \<le> round_bits ?e \<bar>k\<bar>"
    using mult_left_mono [of "2 ^ 1" "2 ^ ?e" "2 ^ 52 :: int"] by simp
  then have "2 ^ 53 \<le> \<bar>to_f64 k\<bar>" by (cases "k < 0") (simp_all add: to_f64_def Let_def)
  with assms(1,2) show ?thesis by simp
qed (use assms in simp)

section \<open>Reading fields\<close>

definition first_text :: "string list \<Rightarrow> string" where
  "first_text vs = (case find (\<lambda>v. trim_space v \<noteq> []) vs of None \<Rightarrow> [] | Some v \<Rightarrow> v)"

definition sfield :: "gomap \<Rightarrow> string \<Rightarrow> string" where
  "sfield m k = str_of (mget m k)"

definition stringField :: "gomap \<Rightarrow> string \<Rightarrow> string \<Rightarrow> string" where
  "stringField m k fallback =
     (case mget m k of GStr s \<Rightarrow> if trim_space s \<noteq> [] then s else fallback | _ \<Rightarrow> fallback)"

text \<open>The number a field holds as \<^verbatim>\<open>float64\<close>, the fallback for another type.\<close>

definition numberField :: "gomap \<Rightarrow> string \<Rightarrow> gofloat \<Rightarrow> gofloat" where
  "numberField m k fallback =
     (case mget m k of GFloat64 f \<Rightarrow> f | GInt n \<Rightarrow> FFin (to_f64 n) 0 | _ \<Rightarrow> fallback)"

text \<open>Comparison of two floats for equality, as real numbers.\<close>

fun float_eq :: "gofloat \<Rightarrow> gofloat \<Rightarrow> bool" where
  "float_eq (FFin m e) (FFin n d) =
     (if d \<le> e then m * 2 ^ nat (e - d) = n else m = n * 2 ^ nat (d - e))"
| "float_eq (FInf a) (FInf b) = (a = b)"
| "float_eq _ _ = False"

text \<open>The conversion \<^verbatim>\<open>int64(f)\<close> of a finite float in range drops the fraction.\<close>

fun float_trunc :: "gofloat \<Rightarrow> int" where
  "float_trunc (FFin m e) =
     (if 0 \<le> e then m * 2 ^ nat e else if m < 0 then - ((- m) div 2 ^ nat (- e)) else m div 2 ^ nat (- e))"
| "float_trunc _ = 0"

definition number_int :: "gomap \<Rightarrow> string \<Rightarrow> int \<Rightarrow> int" where
  "number_int m k fallback = float_trunc (numberField m k (FFin fallback 0))"

text \<open>\<^verbatim>\<open>positiveIntegerField\<close>: an integer from 1 to 2 to the 53 minus 1.\<close>

definition positiveIntegerField :: "gomap \<Rightarrow> string \<Rightarrow> int option" where
  "positiveIntegerField m k =
     (case float_int (numberField m k (FFin 0 0)) of
        Some n \<Rightarrow> if 0 < n \<and> n \<le> 9007199254740991 then Some n else None
      | None \<Rightarrow> None)"

definition mapField :: "gomap \<Rightarrow> string \<Rightarrow> gomap" where
  "mapField m k = (case mget m k of GObj kvs \<Rightarrow> kvs | _ \<Rightarrow> [])"

definition requiredNonNegativeInteger :: "gomap \<Rightarrow> string \<Rightarrow> int option" where
  "requiredNonNegativeInteger m k =
     (case mget m k of
        GInt n \<Rightarrow> if 0 \<le> n then Some n else None
      | GFloat64 f \<Rightarrow> (case float_int f of Some n \<Rightarrow> if 0 \<le> n \<and> n < 2 ^ 63 then Some n else None | None \<Rightarrow> None)
      | GNum s \<Rightarrow> (case parse_int64 s of Some n \<Rightarrow> if 0 \<le> n then Some n else None | None \<Rightarrow> None)
      | _ \<Rightarrow> None)"

definition requiredPositiveInteger :: "gomap \<Rightarrow> string \<Rightarrow> int option" where
  "requiredPositiveInteger m k =
     (case requiredNonNegativeInteger m k of Some n \<Rightarrow> if 0 < n then Some n else None | None \<Rightarrow> None)"

definition providerDataValue :: "gomap \<Rightarrow> string \<Rightarrow> string" where
  "providerDataValue m k = sfield (mapField m ''providerData'') k"

definition emptyMergeValue :: "gov \<Rightarrow> bool" where
  "emptyMergeValue v \<longleftrightarrow> v = GNil \<or> v = GStr []"

definition mergeMaps :: "gomap \<Rightarrow> gomap \<Rightarrow> gomap" where
  "mergeMaps base updates =
     fold (\<lambda>(k, v) m. if emptyMergeValue v then m else mset_key k v m) updates base"

definition checkedAddInt64 :: "int \<Rightarrow> int \<Rightarrow> int option" where
  "checkedAddInt64 l r = (if l < 0 \<or> r < 0 \<or> l > max_int64 - r then None else Some (l + r))"

section \<open>Identifiers\<close>

text \<open>SHA-1 in hexadecimal is the argument \<open>sha\<close>; each part is followed by a zero byte.\<close>

definition stableID :: "(string \<Rightarrow> string) \<Rightarrow> string list \<Rightarrow> string" where
  "stableID sha parts = sha (concat (map (\<lambda>p. p @ [CHR 0x00]) parts))"

definition resourceIDForMutation :: "(string \<Rightarrow> string) \<Rightarrow> string \<Rightarrow> string \<Rightarrow> string \<Rightarrow> string" where
  "resourceIDForMutation sha prefix account key = prefix @ ''_'' @ take 18 (stableID sha [prefix, account, key])"

definition workspaceReservedKeyName :: "(string \<Rightarrow> string) \<Rightarrow> string \<Rightarrow> string" where
  "workspaceReservedKeyName sha workspace = ''opl-workspace-'' @ take 12 (stableID sha [workspace])"

section \<open>Facts\<close>

lemma has_prefix_Nil [simp]: "has_prefix [] p \<longleftrightarrow> p = []"
  by (auto simp: has_prefix_def)

lemma strip_one_None: "strip_one ps s = None \<longleftrightarrow> (\<forall>p \<in> set ps. \<not> has_prefix s p)"
  by (auto simp: strip_one_def find_None_iff find_Some_iff split: option.split)

lemma strip_all_done:
  "length s \<le> n \<Longrightarrow> \<forall>p \<in> set ps. p \<noteq> [] \<Longrightarrow> strip_one ps (strip_all n ps s) = None"
proof (induction n arbitrary: s)
  case (Suc n)
  then show ?case using strip_one_shorter [of ps s] by (force split: option.split)
qed (auto simp: strip_one_None)

lemma strip_all_suffix: "\<exists>u. s = u @ strip_all n ps s"
proof (induction n arbitrary: s)
  case (Suc n)
  show ?case
  proof (cases "strip_one ps s")
    case (Some t)
    then obtain p where "s = p @ t"
      by (auto simp: strip_one_def find_Some_iff has_prefix_iff split: option.splits)
    moreover from Suc [of t] obtain u where "t = u @ strip_all n ps t" by blast
    ultimately have "s = (p @ u) @ strip_all (Suc n) ps s" using Some by simp
    then show ?thesis by blast
  qed simp
qed simp

lemma strip_all_None: "strip_one ps s = None \<Longrightarrow> strip_all n ps s = s"
  by (cases n) simp_all

lemma go_spaces_nonempty: "\<forall>p \<in> set go_spaces. p \<noteq> []" "\<forall>p \<in> set (map rev go_spaces). p \<noteq> []"
  by (simp_all add: go_spaces_def)

text \<open>Trimming twice is trimming once.\<close>

lemma trim_trim [simp]: "trim_space (trim_space s) = trim_space s"
proof -
  define l where "l = strip_all (length s) go_spaces s"
  define t where "t = trim_space s"
  have t: "t = rev (strip_all (length l) (map rev go_spaces) (rev l))"
    by (simp add: t_def trim_space_def l_def Let_def)
  from strip_all_suffix [of "rev l" "length l" "map rev go_spaces"] obtain u where "rev l = u @ rev t"
    unfolding t by auto
  then have lt: "l = t @ rev u" by (metis rev_append rev_rev_ident)
  have "strip_one go_spaces l = None"
    unfolding l_def by (rule strip_all_done) (simp_all add: go_spaces_nonempty)
  then have left: "strip_one go_spaces t = None" unfolding lt strip_one_None by (auto simp: has_prefix_iff)
  have right: "strip_one (map rev go_spaces) (rev t) = None"
    unfolding t rev_rev_ident by (rule strip_all_done) (use go_spaces_nonempty(2) in simp_all)
  have "trim_space t = t"
    by (simp add: trim_space_def Let_def strip_all_None [OF left] strip_all_None [OF right])
  then show ?thesis by (simp add: t_def)
qed

lemma checkedAddInt64_Some:
  "checkedAddInt64 l r = Some n \<longleftrightarrow> n = l + r \<and> 0 \<le> l \<and> 0 \<le> r \<and> l + r \<le> max_int64"
  by (auto simp: checkedAddInt64_def)

lemma requiredPositiveInteger_GInt [simp]:
  "mget m k = GInt n \<Longrightarrow> requiredPositiveInteger m k = (if 0 < n then Some n else None)"
  by (simp add: requiredPositiveInteger_def requiredNonNegativeInteger_def)

lemma number_int_GInt: "mget m k = GInt n \<Longrightarrow> \<bar>n\<bar> < 9007199254740992 \<Longrightarrow> number_int m k d = n"
  by (simp add: number_int_def numberField_def)

lemma positiveIntegerField_GInt:
  "mget m k = GInt n \<Longrightarrow> 0 < n \<Longrightarrow> n \<le> 9007199254740991 \<Longrightarrow> positiveIntegerField m k = Some n"
  by (simp add: positiveIntegerField_def numberField_def)

section \<open>Text that survives trimming\<close>

lemma strip_all_keeps_last:
  assumes "s \<noteq> []" and "\<forall>p \<in> set ps. p \<noteq> [] \<and> last s \<notin> set p"
  shows "strip_all n ps s \<noteq> []"
  using assms
proof (induction n arbitrary: s)
  case (Suc n)
  show ?case
  proof (cases "strip_one ps s")
    case None
    with Suc.prems(1) show ?thesis by simp
  next
    case (Some t)
    then obtain p where p: "s = p @ t" "p \<in> set ps"
      by (auto simp: strip_one_def find_Some_iff has_prefix_iff split: option.splits)
    have "t \<noteq> []"
    proof
      assume "t = []"
      with p Suc.prems(2) have "last p \<notin> set p" "p \<noteq> []" by auto
      then show False by simp
    qed
    moreover from this p have "last t = last s" by simp
    ultimately show ?thesis using Suc.IH [of t] Suc.prems(2) Some by simp
  qed
qed simp

lemma trim_keeps:
  assumes "list_all (\<lambda>p. c \<notin> set p) go_spaces"
  shows "trim_space (c # s) \<noteq> []"
proof -
  have "\<forall>p \<in> set go_spaces. \<not> has_prefix (c # s) p"
    using assms go_spaces_nonempty(1) by (auto simp: list_all_iff has_prefix_iff Cons_eq_append_conv)
  then have l: "strip_all (length (c # s)) go_spaces (c # s) = c # s"
    by (intro strip_all_None) (simp add: strip_one_None)
  have "strip_all (length (c # s)) (map rev go_spaces) (rev (c # s)) \<noteq> []"
    by (rule strip_all_keeps_last) (use assms go_spaces_nonempty in \<open>auto simp: list_all_iff\<close>)
  then show ?thesis unfolding trim_space_def Let_def l by simp
qed

end
