(* ===== verification/CP_Pricing.thy ===== *)
theory CP_Pricing
  imports CP_Values
begin

text \<open>
  Prices and quotes, after \<^verbatim>\<open>services/control-plane/internal/server/pricing.go\<close>. Requests and
  quotes are dynamic maps, as in the code; an \<^verbatim>\<open>any\<close> that holds a
  \<^verbatim>\<open>float64\<close> keeps it.
\<close>

section \<open>Catalog\<close>

definition pricingCatalogVersion :: string where "pricingCatalogVersion = ''pilot-usd-2026-07-v1''"
definition pricingCurrency :: string where "pricingCurrency = ''USD''"
definition pricingWalletCurrency :: string where "pricingWalletCurrency = ''USD''"
definition pricingBillingUnit :: string where "pricingBillingUnit = ''calendar_month''"
definition storageBlockGB :: int where "storageBlockGB = 10"
definition storageBlockPriceCNYCents :: int where "storageBlockPriceCNYCents = 1800"
definition storageBlockPriceUSDMicros :: int where "storageBlockPriceUSDMicros = 2580000"
definition maxStorageBlocks :: int where "maxStorageBlocks = max_int64 div storageBlockPriceUSDMicros"
definition maxStorageGB :: int where "maxStorageGB = maxStorageBlocks * storageBlockGB"

datatype pricing_error = ErrInvalidPricingInput | ErrPackageUnavailable

record pricing_package =
  pp_id :: string
  pp_name :: string
  pp_available :: bool
  pp_cpu :: gofloat
  pp_memoryGb :: gofloat
  pp_diskGb :: gofloat
  pp_server :: string
  pp_monthlyPriceCnyCents :: int
  pp_chargeUsdMicros :: int

record pricing_catalog =
  pc_version :: string
  pc_currency :: string
  pc_walletCurrency :: string
  pc_billingUnit :: string
  pc_packages :: "pricing_package list"

definition defaultPricingCatalog :: pricing_catalog where
  "defaultPricingCatalog =
     \<lparr>pc_version = pricingCatalogVersion, pc_currency = pricingCurrency, pc_walletCurrency = pricingWalletCurrency,
      pc_billingUnit = pricingBillingUnit,
      pc_packages =
        [\<lparr>pp_id = ''basic'', pp_name = ''Basic'', pp_available = True, pp_cpu = FFin 2 0, pp_memoryGb = FFin 4 0,
          pp_diskGb = FFin 10 0, pp_server = ''2c4g'', pp_monthlyPriceCnyCents = 35000, pp_chargeUsdMicros = 50000000\<rparr>,
         \<lparr>pp_id = ''pro'', pp_name = ''Pro'', pp_available = True, pp_cpu = FFin 8 0, pp_memoryGb = FFin 16 0,
          pp_diskGb = FFin 100 0, pp_server = ''8c16g'', pp_monthlyPriceCnyCents = 150000, pp_chargeUsdMicros = 214280000\<rparr>]\<rparr>"

definition packageByIDFromCatalog :: "pricing_catalog \<Rightarrow> string \<Rightarrow> pricing_package option" where
  "packageByIDFromCatalog c pid = find (\<lambda>p. pp_id p = pid) (pc_packages c)"

definition packageRow :: "pricing_catalog \<Rightarrow> pricing_package \<Rightarrow> gomap" where
  "packageRow c p =
     [(''id'', GStr (pp_id p)), (''name'', GStr (pp_name p)), (''available'', GBool (pp_available p)),
      (''cpu'', GFloat64 (pp_cpu p)), (''memoryGb'', GFloat64 (pp_memoryGb p)), (''diskGb'', GFloat64 (pp_diskGb p)),
      (''server'', GStr (pp_server p)),
      (''price'', GObj [(''priceVersion'', GStr (pc_version c)), (''currency'', GStr (pc_currency c)),
                      (''displayCurrency'', GStr (pc_currency c)), (''chargeUsdMicros'', GInt (pp_chargeUsdMicros p))])]"

definition packageRows :: "pricing_catalog \<Rightarrow> gomap list" where
  "packageRows c = map (packageRow c) (pc_packages c)"

definition pool_available :: "gov list \<Rightarrow> string \<Rightarrow> bool" where
  "pool_available pools pid \<longleftrightarrow>
     list_ex (\<lambda>raw. let pool = (case raw of GObj m \<Rightarrow> m | _ \<Rightarrow> [])
                    in sfield pool ''packageId'' = pid \<and> mget pool ''available'' = GBool True) pools"

definition packageRowsForComputePools :: "pricing_catalog \<Rightarrow> gov list \<Rightarrow> gomap list" where
  "packageRowsForComputePools c pools =
     map (\<lambda>row. mset_key ''available''
            (GBool (mget row ''available'' = GBool True \<and> pool_available pools (sfield row ''id''))) row)
       (packageRows c)"

definition pricingCatalogDTO :: "pricing_catalog \<Rightarrow> gomap" where
  "pricingCatalogDTO c =
     [(''priceVersion'', GStr (pc_version c)), (''billingUnit'', GStr (pc_billingUnit c)),
      (''displayCurrency'', GStr (pc_currency c)), (''walletCurrency'', GStr (pc_walletCurrency c)),
      (''currency'', GStr (pc_currency c)),
      (''storageSize'', GObj [(''minimumGb'', GInt storageBlockGB), (''stepGb'', GInt storageBlockGB)]),
      (''storagePer10GbMonthly'', GObj [(''priceVersion'', GStr (pc_version c)), (''currency'', GStr (pc_currency c)),
         (''displayCurrency'', GStr (pc_currency c)), (''usdMicros'', GInt storageBlockPriceUSDMicros)]),
      (''packages'', GList (map GObj (packageRows c)))]"

definition pricingCatalogResponse :: "gov list \<Rightarrow> gomap" where
  "pricingCatalogResponse pools =
     mset_key ''packages'' (GList (map GObj (packageRowsForComputePools defaultPricingCatalog pools)))
       (pricingCatalogDTO defaultPricingCatalog)"

section \<open>Quotes\<close>

text \<open>The quote of one resource: the part of \<^verbatim>\<open>pricingPreviewFromCatalog\<close> after its switch to
  workspaces. The size is a \<^verbatim>\<open>float64\<close>; only an integral one in range and a multiple of the
  block passes.\<close>

definition storage_size :: "gomap \<Rightarrow> gofloat" where
  "storage_size input = numberField input ''sizeGb'' (numberField input ''sizeGB'' (FFin 10 0))"

definition storage_size_ok :: "gofloat \<Rightarrow> int option" where
  "storage_size_ok f =
     (case float_int f of
        Some n \<Rightarrow> if n < storageBlockGB \<or> n > maxStorageGB \<or> n mod storageBlockGB \<noteq> 0 then None else Some n
      | None \<Rightarrow> None)"

definition preview_map :: "pricing_catalog \<Rightarrow> string \<Rightarrow> string \<Rightarrow> int \<Rightarrow> int \<Rightarrow> gomap \<Rightarrow> gomap" where
  "preview_map c resourceType pid cents micros extra =
     [(''priceVersion'', GStr (pc_version c)), (''pricingVersion'', GStr (pc_version c)),
      (''resourceType'', GStr resourceType), (''packageId'', GStr pid), (''currency'', GStr (pc_currency c)),
      (''displayCurrency'', GStr (pc_currency c)), (''billingUnit'', GStr (pc_billingUnit c)),
      (''monthlyPriceCnyCents'', GInt cents), (''chargeUsdMicros'', GInt micros),
      (''priceSnapshot'', GObj
         ([(''priceVersion'', GStr (pc_version c)), (''pricingVersion'', GStr (pc_version c)), (''packageId'', GStr pid),
           (''currency'', GStr (pc_currency c)), (''displayCurrency'', GStr (pc_currency c)),
           (''billingUnit'', GStr (pc_billingUnit c)), (''monthlyPriceCnyCents'', GInt cents),
           (''chargeUsdMicros'', GInt micros), (''resourceType'', GStr resourceType)] @ extra))]"

definition resourcePricingPreview :: "pricing_catalog \<Rightarrow> gomap \<Rightarrow> (pricing_error, gomap) res" where
  "resourcePricingPreview c input =
     (let resourceType = first_text [stringField input ''resourceType'' [], ''compute'']
      in if resourceType \<noteq> ''compute'' \<and> resourceType \<noteq> ''storage'' then Err ErrInvalidPricingInput
         else case packageByIDFromCatalog c (first_text [stringField input ''packageId'' [], ''basic'']) of
                None \<Rightarrow> Err ErrInvalidPricingInput
              | Some plan \<Rightarrow>
                  if resourceType = ''storage'' then
                    (case storage_size_ok (storage_size input) of
                       None \<Rightarrow> Err ErrInvalidPricingInput
                     | Some n \<Rightarrow>
                         let blocks = n div storageBlockGB
                         in Ok (preview_map c resourceType (pp_id plan) (blocks * storageBlockPriceCNYCents)
                                  (blocks * storageBlockPriceUSDMicros) [(''sizeGb'', GFloat64 (storage_size input))]))
                  else Ok (preview_map c resourceType (pp_id plan) (pp_monthlyPriceCnyCents plan) (pp_chargeUsdMicros plan) []))"

definition workspacePricingPreview :: "pricing_catalog \<Rightarrow> gomap \<Rightarrow> (pricing_error, gomap) res" where
  "workspacePricingPreview c input =
     (case (mget input ''packageId'', positiveIntegerField input ''sizeGb'') of
        (GStr raw, Some sizeGB) \<Rightarrow>
          (let pid = trim_space raw
           in if pid = [] \<or> (pid = ''basic'' \<and> sizeGB \<noteq> 10) \<or> (pid = ''pro'' \<and> sizeGB \<noteq> 100)
              then Err ErrInvalidPricingInput
              else
                let computeInput = mset_key ''packageId'' (GStr pid) (mset_key ''resourceType'' (GStr ''compute'') input);
                    storageInput = mset_key ''sizeGb'' (GInt sizeGB) (mset_key ''packageId'' (GStr pid)
                                     (mset_key ''resourceType'' (GStr ''storage'') input))
                in case resourcePricingPreview c computeInput of
                     Inl e \<Rightarrow> Err e
                   | Inr compute \<Rightarrow>
                       (case resourcePricingPreview c storageInput of
                          Inl e \<Rightarrow> Err e
                        | Inr storage \<Rightarrow>
                            (case (checkedAddInt64 (number_int compute ''monthlyPriceCnyCents'' 0)
                                     (number_int storage ''monthlyPriceCnyCents'' 0),
                                   checkedAddInt64 (number_int compute ''chargeUsdMicros'' 0)
                                     (number_int storage ''chargeUsdMicros'' 0)) of
                               (Some cents, Some micros) \<Rightarrow>
                                 Ok [(''resourceType'', GStr ''workspace''), (''priceVersion'', GStr (pc_version c)),
                                     (''pricingVersion'', GStr (pc_version c)),
                                     (''packageId'', GStr (sfield compute ''packageId'')),
                                     (''currency'', GStr (pc_currency c)), (''displayCurrency'', GStr (pc_currency c)),
                                     (''billingUnit'', GStr (pc_billingUnit c)), (''compute'', GObj compute),
                                     (''storage'', GObj storage), (''totalMonthlyPriceCnyCents'', GInt cents),
                                     (''totalChargeUsdMicros'', GInt micros)]
                             | _ \<Rightarrow> Err ErrInvalidPricingInput)))
      | _ \<Rightarrow> Err ErrInvalidPricingInput)"

definition pricingPreviewFromCatalog :: "pricing_catalog \<Rightarrow> gomap \<Rightarrow> (pricing_error, gomap) res" where
  "pricingPreviewFromCatalog c input =
     (if first_text [stringField input ''resourceType'' [], ''compute''] = ''workspace''
      then workspacePricingPreview c input else resourcePricingPreview c input)"

section \<open>What a customer sees\<close>

definition pick :: "string list \<Rightarrow> gomap \<Rightarrow> gomap" where
  "pick ks m = map (\<lambda>k. (k, mget m k)) ks"

definition customerPricingSnapshotDTO :: "gomap \<Rightarrow> gomap" where
  "customerPricingSnapshotDTO m =
     pick [''resourceType'', ''priceVersion'', ''packageId'', ''currency'', ''displayCurrency'', ''billingUnit'', ''chargeUsdMicros''] m @
     (case map_of m ''sizeGb'' of None \<Rightarrow> [] | Some v \<Rightarrow> [(''sizeGb'', v)])"

definition customer_fields :: "gomap \<Rightarrow> gomap" where
  "customer_fields m =
     pick [''resourceType'', ''priceVersion'', ''packageId'', ''currency'', ''displayCurrency'', ''billingUnit''] m"

text \<open>The recursion of \<^verbatim>\<open>customerPricingPreviewDTO\<close> follows the nesting of quotes; the first
  argument bounds it. A quote the service makes is nested once.\<close>

fun customerPricingPreviewDTO :: "nat \<Rightarrow> gomap \<Rightarrow> gomap" where
  "customerPricingPreviewDTO 0 m = customer_fields m"
| "customerPricingPreviewDTO (Suc n) m =
     (if sfield m ''resourceType'' = ''workspace'' then
        customer_fields m @
          [(''compute'', GObj (customerPricingPreviewDTO n (mapField m ''compute''))),
           (''storage'', GObj (customerPricingPreviewDTO n (mapField m ''storage''))),
           (''totalChargeUsdMicros'', mget m ''totalChargeUsdMicros'')]
      else
        customer_fields m @
          [(''chargeUsdMicros'', mget m ''chargeUsdMicros''),
           (''priceSnapshot'', GObj (customerPricingSnapshotDTO (mapField m ''priceSnapshot'')))])"

definition pricingPreviewResponse :: "gov list \<Rightarrow> gomap \<Rightarrow> (pricing_error, gomap) res" where
  "pricingPreviewResponse pools input =
     (case (mget input ''resourceType'', mget input ''packageId'') of
        (GStr resourceType, GStr packageID) \<Rightarrow>
          if trim_space packageID = [] \<or> resourceType \<notin> {''compute'', ''storage'', ''workspace''} \<or>
             (resourceType \<noteq> ''compute'' \<and> positiveIntegerField input ''sizeGb'' = None) then Err ErrInvalidPricingInput
          else
            (case pricingPreviewFromCatalog defaultPricingCatalog input of
               Inl e \<Rightarrow> Err e
             | Inr preview \<Rightarrow>
                 if list_ex (\<lambda>row. sfield row ''id'' = packageID \<and> mget row ''available'' \<noteq> GBool True)
                      (packageRowsForComputePools defaultPricingCatalog pools)
                 then Err ErrPackageUnavailable
                 else Ok (customerPricingPreviewDTO 2 preview))
      | _ \<Rightarrow> Err ErrInvalidPricingInput)"

end
