(* ===== verification/CP_Pricing_Facts.thy ===== *)
theory CP_Pricing_Facts
  imports CP_Pricing
begin

text \<open>
  What a quote guarantees: which workspaces can be quoted and at what price, sums that add up
  within 64 bits, and nothing but customer prices in what is shown.
\<close>

section \<open>Words that survive trimming\<close>

lemma trim_words [simp]:
  "trim_space ''compute'' = ''compute''" "trim_space ''storage'' = ''storage''" "trim_space ''basic'' = ''basic''"
  "trim_space ''pro'' = ''pro''"
  by (code_simp | simp)+

lemma first_text_word: "trim_space s \<noteq> [] \<Longrightarrow> first_text (s # ss) = s"
  by (simp add: first_text_def)

lemma first_text_blank: "trim_space s = [] \<Longrightarrow> first_text (s # ss) = first_text ss"
  by (simp add: first_text_def)

section \<open>Single resources\<close>

lemma preview_map_get [simp]:
  "mget (preview_map c r p cents micros extra) ''monthlyPriceCnyCents'' = GInt cents"
  "mget (preview_map c r p cents micros extra) ''chargeUsdMicros'' = GInt micros"
  "sfield (preview_map c r p cents micros extra) ''packageId'' = p"
  by (simp_all add: preview_map_def sfield_def)

lemma packageByID: "packageByIDFromCatalog defaultPricingCatalog p = Some q \<Longrightarrow> p = pp_id q \<and>
    (p = ''basic'' \<and> pp_monthlyPriceCnyCents q = 35000 \<and> pp_chargeUsdMicros q = 50000000 \<or>
     p = ''pro'' \<and> pp_monthlyPriceCnyCents q = 150000 \<and> pp_chargeUsdMicros q = 214280000)"
  by (auto simp: packageByIDFromCatalog_def defaultPricingCatalog_def split: if_splits)

lemma storage_size_ok_range: "storage_size_ok f = Some n \<Longrightarrow> 10 \<le> n \<and> n \<le> maxStorageGB \<and> n mod 10 = 0 \<and> float_int f = Some n"
  by (auto simp: storage_size_ok_def storageBlockGB_def split: option.splits if_splits)

lemma max_sizes: "maxStorageBlocks = 3574950401881" "maxStorageGB = 35749504018810"
  by (simp_all add: maxStorageBlocks_def maxStorageGB_def storageBlockGB_def storageBlockPriceUSDMicros_def max_int64_def)

text \<open>The price of storage stays in 64 bits. Every storage quote is for a multiple of ten from ten up;
  it charges 2.58 dollars for each ten, in micros, and neither the charge nor the price in cents
  exceeds \<^verbatim>\<open>MaxInt64\<close>, for the largest size that is accepted as well.\<close>

theorem storage_quote_bounds:
  assumes "resourcePricingPreview defaultPricingCatalog input = Ok q" and "stringField input ''resourceType'' [] = ''storage''"
  shows "\<exists>n. 10 \<le> n \<and> n mod 10 = 0 \<and> float_int (storage_size input) = Some n \<and>
           mget q ''chargeUsdMicros'' = GInt (n div 10 * 2580000) \<and> n div 10 * 2580000 \<le> max_int64 \<and>
           mget q ''monthlyPriceCnyCents'' = GInt (n div 10 * 1800) \<and> n div 10 * 1800 \<le> max_int64"
proof -
  have rt: "first_text [stringField input ''resourceType'' [], ''compute''] = ''storage''"
    using assms(2) by (simp add: first_text_word)
  obtain plan where "packageByIDFromCatalog defaultPricingCatalog (first_text [stringField input ''packageId'' [], ''basic'']) = Some plan"
    using assms(1) rt by (cases "packageByIDFromCatalog defaultPricingCatalog (first_text [stringField input ''packageId'' [], ''basic''])")
      (simp_all add: resourcePricingPreview_def)
  moreover from this obtain n where n: "storage_size_ok (storage_size input) = Some n"
    using assms(1) rt by (cases "storage_size_ok (storage_size input)") (simp_all add: resourcePricingPreview_def)
  ultimately have q: "q = preview_map defaultPricingCatalog ''storage'' (pp_id plan) (n div 10 * 1800) (n div 10 * 2580000)
      [(''sizeGb'', GFloat64 (storage_size input))]"
    using assms(1) rt by (simp add: resourcePricingPreview_def Let_def storageBlockGB_def storageBlockPriceCNYCents_def
        storageBlockPriceUSDMicros_def)
  note r = storage_size_ok_range [OF n]
  have "n div 10 \<le> 3574950401881"
    using zdiv_mono1 [of n "35749504018810" 10] r by (simp add: max_sizes)
  with r show ?thesis unfolding q by (intro exI [of _ n]) (simp add: max_int64_def)
qed

definition ex_storage_request :: gomap where
  "ex_storage_request = [(''resourceType'', GStr ''storage''), (''packageId'', GStr ''pro''), (''sizeGb'', GInt 35749504018810)]"

theorem storage_quote_bounds_witness:
  "\<exists>q n. resourcePricingPreview defaultPricingCatalog ex_storage_request = Ok q \<and> 10 \<le> n \<and>
     mget q ''chargeUsdMicros'' = GInt (n div 10 * 2580000) \<and> n div 10 * 2580000 \<le> max_int64"
proof -
  have w: "trim_space ''storage'' = ''storage''" "trim_space ''pro'' = ''pro''" by code_simp+
  have st: "storage_size_ok (storage_size ex_storage_request) = Some 35749504018810"
    by (simp add: storage_size_ok_def storage_size_def numberField_def ex_storage_request_def storageBlockGB_def max_sizes)
  have f: "stringField ex_storage_request ''resourceType'' [] = ''storage''" "stringField ex_storage_request ''packageId'' [] = ''pro''"
    using w by (simp_all add: stringField_def ex_storage_request_def)
  have "packageByIDFromCatalog defaultPricingCatalog ''pro'' \<noteq> None"
    by (simp add: packageByIDFromCatalog_def defaultPricingCatalog_def)
  then obtain q where q: "resourcePricingPreview defaultPricingCatalog ex_storage_request = Ok q"
    using st w f by (auto simp: resourcePricingPreview_def Let_def first_text_word)
  from storage_quote_bounds [OF q f(1)] q show ?thesis by blast
qed

section \<open>Workspaces\<close>

definition workspace_quote :: "string \<Rightarrow> int \<Rightarrow> int \<Rightarrow> int \<Rightarrow> int \<Rightarrow> gomap" where
  "workspace_quote pid n computeCents computeMicros totalMicros =
     (let c = defaultPricingCatalog; blocks = n div 10
      in [(''resourceType'', GStr ''workspace''), (''priceVersion'', GStr pricingCatalogVersion),
          (''pricingVersion'', GStr pricingCatalogVersion), (''packageId'', GStr pid), (''currency'', GStr ''USD''),
          (''displayCurrency'', GStr ''USD''), (''billingUnit'', GStr ''calendar_month''),
          (''compute'', GObj (preview_map c ''compute'' pid computeCents computeMicros [])),
          (''storage'', GObj (preview_map c ''storage'' pid (blocks * 1800) (blocks * 2580000) [(''sizeGb'', GFloat64 (FFin n 0))])),
          (''totalMonthlyPriceCnyCents'', GInt (computeCents + blocks * 1800)),
          (''totalChargeUsdMicros'', GInt totalMicros)])"

definition basic_quote :: gomap where "basic_quote = workspace_quote ''basic'' 10 35000 50000000 52580000"
definition pro_quote :: gomap where "pro_quote = workspace_quote ''pro'' 100 150000 214280000 240080000"

lemma resource_part:
  assumes "mget input ''resourceType'' = GStr r" and "mget input ''packageId'' = GStr p" and "trim_space p = p" and "p \<noteq> []"
    and "r = ''compute'' \<or> r = ''storage''"
  shows "resourcePricingPreview c input =
     (case packageByIDFromCatalog c p of
        None \<Rightarrow> Err ErrInvalidPricingInput
      | Some plan \<Rightarrow>
          if r = ''storage'' then
            (case storage_size_ok (storage_size input) of
               None \<Rightarrow> Err ErrInvalidPricingInput
             | Some n \<Rightarrow> Ok (preview_map c r (pp_id plan) (n div 10 * 1800) (n div 10 * 2580000) [(''sizeGb'', GFloat64 (storage_size input))]))
          else Ok (preview_map c r (pp_id plan) (pp_monthlyPriceCnyCents plan) (pp_chargeUsdMicros plan) []))"
proof -
  have "stringField input ''resourceType'' [] = r" "stringField input ''packageId'' [] = p"
    using assms by (auto simp: stringField_def)
  then have "first_text [stringField input ''resourceType'' [], ''compute''] = r"
    "first_text [stringField input ''packageId'' [], ''basic''] = p"
    using assms(3-5) by (auto simp: first_text_word)
  with assms(5) show ?thesis
    by (auto simp: resourcePricingPreview_def Let_def storageBlockGB_def storageBlockPriceCNYCents_def
        storageBlockPriceUSDMicros_def split: option.split)
qed

lemma workspacePricingPreview_eq:
  "workspacePricingPreview defaultPricingCatalog input =
     (case (mget input ''packageId'', positiveIntegerField input ''sizeGb'') of
        (GStr raw, Some n) \<Rightarrow>
          if trim_space raw = ''basic'' \<and> n = 10 then Ok basic_quote
          else if trim_space raw = ''pro'' \<and> n = 100 then Ok pro_quote
          else Err ErrInvalidPricingInput
      | _ \<Rightarrow> Err ErrInvalidPricingInput)"
proof (cases "\<exists>raw n. mget input ''packageId'' = GStr raw \<and> positiveIntegerField input ''sizeGb'' = Some n")
  case False
  then show ?thesis by (auto simp: workspacePricingPreview_def split: gov.split option.split)
next
  case True
  then obtain raw n where i: "mget input ''packageId'' = GStr raw" "positiveIntegerField input ''sizeGb'' = Some n" by blast
  let ?p = "trim_space raw"
  let ?ci = "mset_key ''packageId'' (GStr ?p) (mset_key ''resourceType'' (GStr ''compute'') input)"
  let ?si = "mset_key ''sizeGb'' (GInt n) (mset_key ''packageId'' (GStr ?p) (mset_key ''resourceType'' (GStr ''storage'') input))"
  show ?thesis
  proof (cases "?p = ''basic'' \<and> n = 10 \<or> ?p = ''pro'' \<and> n = 100")
    case True
    have ne: "?p \<noteq> []" using True by auto
    have sz: "storage_size ?si = FFin n 0" using True by (auto simp: storage_size_def numberField_def)
    have ok: "storage_size_ok (FFin n 0) = Some n"
      using True by (auto simp: storage_size_ok_def storageBlockGB_def max_sizes)
    obtain plan where plan: "packageByIDFromCatalog defaultPricingCatalog ?p = Some plan"
      using True by (auto simp: packageByIDFromCatalog_def defaultPricingCatalog_def)
    note pl = packageByID [OF plan]
    define cm where "cm = preview_map defaultPricingCatalog ''compute'' (pp_id plan) (pp_monthlyPriceCnyCents plan) (pp_chargeUsdMicros plan) []"
    define sm where "sm = preview_map defaultPricingCatalog ''storage'' (pp_id plan) (n div 10 * 1800) (n div 10 * 2580000) [(''sizeGb'', GFloat64 (FFin n 0))]"
    have ci: "resourcePricingPreview defaultPricingCatalog ?ci = Ok cm"
      using resource_part [of ?ci "''compute''" ?p] ne plan by (simp add: cm_def)
    have si: "resourcePricingPreview defaultPricingCatalog ?si = Ok sm"
      using resource_part [of ?si "''storage''" ?p] ne plan sz ok by (simp add: sm_def)
    have small: "\<bar>pp_monthlyPriceCnyCents plan\<bar> < 9007199254740992" "\<bar>pp_chargeUsdMicros plan\<bar> < 9007199254740992"
      "\<bar>n div 10 * 1800\<bar> < 9007199254740992" "\<bar>n div 10 * 2580000\<bar> < 9007199254740992"
      using pl True by auto
    have nums: "number_int cm ''monthlyPriceCnyCents'' 0 = pp_monthlyPriceCnyCents plan"
      "number_int cm ''chargeUsdMicros'' 0 = pp_chargeUsdMicros plan"
      "number_int sm ''monthlyPriceCnyCents'' 0 = n div 10 * 1800" "number_int sm ''chargeUsdMicros'' 0 = n div 10 * 2580000"
      using small by (simp_all add: cm_def sm_def number_int_GInt)
    have adds: "checkedAddInt64 (pp_monthlyPriceCnyCents plan) (n div 10 * 1800) = Some (pp_monthlyPriceCnyCents plan + n div 10 * 1800)"
      "checkedAddInt64 (pp_chargeUsdMicros plan) (n div 10 * 2580000) = Some (pp_chargeUsdMicros plan + n div 10 * 2580000)"
      using pl True by (auto simp: checkedAddInt64_def max_int64_def)
    have pid: "sfield cm ''packageId'' = pp_id plan" by (simp add: cm_def)
    have guard: "\<not> (?p = [] \<or> (?p = ''basic'' \<and> n \<noteq> 10) \<or> (?p = ''pro'' \<and> n \<noteq> 100))" using True by auto
    have "workspacePricingPreview defaultPricingCatalog input =
        Ok (workspace_quote (pp_id plan) n (pp_monthlyPriceCnyCents plan) (pp_chargeUsdMicros plan)
              (pp_chargeUsdMicros plan + n div 10 * 2580000))"
      unfolding workspacePricingPreview_def i prod.case gov.case option.case Let_def if_not_P [OF guard] ci si sum.case nums adds pid
      by (simp add: workspace_quote_def cm_def sm_def defaultPricingCatalog_def pricingCurrency_def pricingBillingUnit_def Let_def)
    moreover have "(if ?p = ''basic'' \<and> n = 10 then Ok basic_quote else if ?p = ''pro'' \<and> n = 100 then Ok pro_quote else Err ErrInvalidPricingInput) =
        (Ok (workspace_quote (pp_id plan) n (pp_monthlyPriceCnyCents plan) (pp_chargeUsdMicros plan)
              (pp_chargeUsdMicros plan + n div 10 * 2580000)) :: (pricing_error, gomap) res)"
      using True pl by (auto simp: basic_quote_def pro_quote_def)
    ultimately show ?thesis by (simp add: i)
  next
    case False
    have "workspacePricingPreview defaultPricingCatalog input = Err ErrInvalidPricingInput"
    proof (cases "?p = [] \<or> ?p = ''basic'' \<or> ?p = ''pro''")
      case True
      with False i show ?thesis by (auto simp: workspacePricingPreview_def)
    next
      case other: False
      then have "packageByIDFromCatalog defaultPricingCatalog ?p = None"
        using packageByID [of ?p] by (cases "packageByIDFromCatalog defaultPricingCatalog ?p") auto
      then have "resourcePricingPreview defaultPricingCatalog ?ci = Err ErrInvalidPricingInput"
        using resource_part [of ?ci "''compute''" ?p] other by simp
      with i other show ?thesis by (simp add: workspacePricingPreview_def Let_def)
    qed
    with False i show ?thesis by auto
  qed
qed

text \<open>What a quote charges and says: the total in dollars and in cents, which are the sums of the two
  parts, and the size that is quoted.\<close>

definition quote_adds_up :: "gomap \<Rightarrow> int \<Rightarrow> int \<Rightarrow> int \<Rightarrow> int \<Rightarrow> bool" where
  "quote_adds_up q computeMicros storageMicros computeCents storageCents \<longleftrightarrow>
     number_int (mapField q ''compute'') ''chargeUsdMicros'' 0 = computeMicros \<and>
     number_int (mapField q ''storage'') ''chargeUsdMicros'' 0 = storageMicros \<and>
     number_int q ''totalChargeUsdMicros'' 0 = computeMicros + storageMicros \<and>
     number_int (mapField q ''compute'') ''monthlyPriceCnyCents'' 0 = computeCents \<and>
     number_int (mapField q ''storage'') ''monthlyPriceCnyCents'' 0 = storageCents \<and>
     number_int q ''totalMonthlyPriceCnyCents'' 0 = computeCents + storageCents"

lemma quotes_add_up:
  "quote_adds_up basic_quote 50000000 2580000 35000 1800" "quote_adds_up pro_quote 214280000 25800000 150000 18000"
  by (simp_all add: quote_adds_up_def basic_quote_def pro_quote_def workspace_quote_def Let_def mapField_def number_int_def numberField_def)

lemma trim_empty: "trim_space [] = []"
  by code_simp

text \<open>C35: a workspace is quoted in exactly two sizes. The basic package with ten gigabytes is quoted, at
  50.00 and 2.58 dollars, together 52.58; the pro package with a hundred is quoted, at 214.28 and
  25.80, together 240.08; every other request is refused as invalid. The totals, in dollars and in
  cents, are the sums of the two parts.\<close>

theorem workspace_quotes:
  "workspacePricingPreview defaultPricingCatalog input =
     (if (trim_space (sfield input ''packageId''), positiveIntegerField input ''sizeGb'') = (''basic'', Some 10) then Ok basic_quote
      else if (trim_space (sfield input ''packageId''), positiveIntegerField input ''sizeGb'') = (''pro'', Some 100) then Ok pro_quote
      else Err ErrInvalidPricingInput) \<and>
   sfield basic_quote ''packageId'' = ''basic'' \<and> quote_adds_up basic_quote 50000000 2580000 35000 1800 \<and>
   sfield pro_quote ''packageId'' = ''pro'' \<and> quote_adds_up pro_quote 214280000 25800000 150000 18000"
proof (intro conjI)
  show "workspacePricingPreview defaultPricingCatalog input =
       (if (trim_space (sfield input ''packageId''), positiveIntegerField input ''sizeGb'') = (''basic'', Some 10) then Ok basic_quote
        else if (trim_space (sfield input ''packageId''), positiveIntegerField input ''sizeGb'') = (''pro'', Some 100) then Ok pro_quote
        else Err ErrInvalidPricingInput)"
    unfolding workspacePricingPreview_eq by (cases "mget input ''packageId''") (auto simp: sfield_def str_of_def trim_empty split: option.split)
  show "sfield basic_quote ''packageId'' = ''basic''" "sfield pro_quote ''packageId'' = ''pro''"
    by (simp_all add: basic_quote_def pro_quote_def workspace_quote_def Let_def sfield_def)
qed (rule quotes_add_up)+

definition ex_workspace_request :: "string \<Rightarrow> int \<Rightarrow> gomap" where
  "ex_workspace_request pid n = [(''resourceType'', GStr ''workspace''), (''packageId'', GStr pid), (''sizeGb'', GInt n)]"

lemma trim_pro [simp]: "trim_space '' pro'' = ''pro''" "trim_space ''basic'' = ''basic''"
  by code_simp+

text \<open>The two quotes and two refusals, from requests.\<close>

lemma ex_workspace_quotes:
  "workspacePricingPreview defaultPricingCatalog (ex_workspace_request ''basic'' 10) = Ok basic_quote"
  "workspacePricingPreview defaultPricingCatalog (ex_workspace_request '' pro'' 100) = Ok pro_quote"
  "workspacePricingPreview defaultPricingCatalog (ex_workspace_request ''basic'' 100) = Err ErrInvalidPricingInput"
  "workspacePricingPreview defaultPricingCatalog (ex_workspace_request '' pro'' 10) = Err ErrInvalidPricingInput"
  unfolding workspacePricingPreview_eq by (simp_all add: ex_workspace_request_def positiveIntegerField_def numberField_def)

section \<open>What is shown\<close>

text \<open>All keys of a value, at every depth.\<close>

fun all_keys :: "gov \<Rightarrow> string list" where
  "all_keys (GObj m) = concat (map (\<lambda>(k, v). k # all_keys v) m)"
| "all_keys (GList vs) = concat (map all_keys vs)"
| "all_keys _ = []"

definition shows_cny :: "gomap \<Rightarrow> bool" where
  "shows_cny m \<longleftrightarrow> list_ex (\<lambda>k. k \<in> {''monthlyPriceCnyCents'', ''totalMonthlyPriceCnyCents'', ''priceCny''}) (all_keys (GObj m))"

lemma preview_map_view:
  "extra = [] \<or> extra = [(''sizeGb'', GFloat64 f)] \<Longrightarrow> r \<noteq> ''workspace'' \<Longrightarrow>
     \<not> shows_cny (customerPricingPreviewDTO (Suc n) (preview_map c r p cents micros extra))"
  by (elim disjE) (simp_all add: shows_cny_def preview_map_def customer_fields_def pick_def customerPricingSnapshotDTO_def
      mapField_def sfield_def)

lemma resource_customer_view:
  assumes "resourcePricingPreview c input = Ok q"
  shows "\<not> shows_cny (customerPricingPreviewDTO (Suc n) q)"
  using assms unfolding resourcePricingPreview_def Let_def
  by (auto split: if_splits option.splits simp del: customerPricingPreviewDTO.simps simp: preview_map_view)

lemma quote_customer_view:
  "\<not> shows_cny (customerPricingPreviewDTO 2 basic_quote)" "\<not> shows_cny (customerPricingPreviewDTO 2 pro_quote)"
  by (simp_all add: numeral_2_eq_2 shows_cny_def basic_quote_def pro_quote_def workspace_quote_def preview_map_def customer_fields_def
      pick_def customerPricingSnapshotDTO_def mapField_def sfield_def Let_def)

lemma pricingPreviewFromCatalog_view:
  assumes "pricingPreviewFromCatalog defaultPricingCatalog input = Ok q"
  shows "\<not> shows_cny (customerPricingPreviewDTO 2 q)"
proof (cases "first_text [stringField input ''resourceType'' [], ''compute''] = ''workspace''")
  case True
  with assms have "workspacePricingPreview defaultPricingCatalog input = Ok q" by (simp add: pricingPreviewFromCatalog_def)
  then have "q = basic_quote \<or> q = pro_quote"
    unfolding workspacePricingPreview_eq by (auto split: gov.splits option.splits if_splits)
  then show ?thesis using quote_customer_view by blast
next
  case False
  with assms show ?thesis using resource_customer_view [of _ input q 1] by (simp add: pricingPreviewFromCatalog_def numeral_2_eq_2)
qed

lemma available_plan:
  assumes "pid = ''basic'' \<or> pid = ''pro''"
    and "\<not> list_ex (\<lambda>row. sfield row ''id'' = pid \<and> mget row ''available'' \<noteq> GBool True) (packageRowsForComputePools defaultPricingCatalog pools)"
  shows "pool_available pools pid"
  using assms by (auto simp: packageRowsForComputePools_def packageRows_def packageRow_def defaultPricingCatalog_def sfield_def)

text \<open>A quote for a customer names no price in yuan at any depth, and a package that is named
  without surrounding space is quoted only when a compute pool offers it.\<close>

theorem customer_quote_safe:
  assumes "pricingPreviewResponse pools input = Ok q"
  shows "\<not> shows_cny q \<and> (sfield input ''packageId'' \<in> {''basic'', ''pro''} \<longrightarrow> pool_available pools (sfield input ''packageId''))"
proof -
  obtain rt pid preview where i: "mget input ''resourceType'' = GStr rt" "mget input ''packageId'' = GStr pid"
    and p: "pricingPreviewFromCatalog defaultPricingCatalog input = Ok preview"
    and q: "q = customerPricingPreviewDTO 2 preview"
    and a: "\<not> list_ex (\<lambda>row. sfield row ''id'' = pid \<and> mget row ''available'' \<noteq> GBool True) (packageRowsForComputePools defaultPricingCatalog pools)"
    using assms unfolding pricingPreviewResponse_def by (auto split: gov.splits sum.splits if_splits)
  have "sfield input ''packageId'' = pid" using i by (simp add: sfield_def)
  moreover have "pid = ''basic'' \<or> pid = ''pro'' \<Longrightarrow> pool_available pools pid" by (rule available_plan [OF _ a])
  moreover have "\<not> shows_cny q" unfolding q by (rule pricingPreviewFromCatalog_view [OF p])
  ultimately show ?thesis by auto
qed

definition ex_pools :: "gov list" where
  "ex_pools = [GObj [(''packageId'', GStr ''basic''), (''available'', GBool True)]]"

definition ex_basic_request :: "string \<Rightarrow> gomap" where
  "ex_basic_request pid = [(''resourceType'', GStr ''workspace''), (''packageId'', GStr pid), (''sizeGb'', GInt 10)]"

lemma trim_basic [simp]: "trim_space '' basic'' = ''basic''"
  by code_simp

lemma ex_basic_preview: "trim_space pid = ''basic'' \<Longrightarrow> pricingPreviewFromCatalog defaultPricingCatalog (ex_basic_request pid) = Ok basic_quote"
  by (simp add: pricingPreviewFromCatalog_def first_text_def stringField_def ex_basic_request_def workspacePricingPreview_eq
      positiveIntegerField_def numberField_def) code_simp

lemma ex_basic_answer:
  "trim_space pid = ''basic'' \<Longrightarrow> pricingPreviewResponse pools (ex_basic_request pid) =
     (if list_ex (\<lambda>row. sfield row ''id'' = pid \<and> mget row ''available'' \<noteq> GBool True) (packageRowsForComputePools defaultPricingCatalog pools)
      then Err ErrPackageUnavailable else Ok (customerPricingPreviewDTO 2 basic_quote))"
  using ex_basic_preview [of pid]
  by (simp add: pricingPreviewResponse_def ex_basic_request_def positiveIntegerField_def numberField_def)

theorem customer_quote_safe_witness:
  "pricingPreviewResponse ex_pools (ex_basic_request ''basic'') = Ok (customerPricingPreviewDTO 2 basic_quote) \<and>
   \<not> shows_cny (customerPricingPreviewDTO 2 basic_quote) \<and> pool_available ex_pools ''basic''"
proof -
  have a: "pricingPreviewResponse ex_pools (ex_basic_request ''basic'') = Ok (customerPricingPreviewDTO 2 basic_quote)"
    by (simp add: ex_basic_answer packageRowsForComputePools_def packageRows_def packageRow_def defaultPricingCatalog_def sfield_def
        pool_available_def ex_pools_def)
  from customer_quote_safe [OF a] a show ?thesis by (simp add: ex_basic_request_def sfield_def)
qed

text \<open>The availability check compares the name as it was sent, the quote the trimmed one: with a
  space in front, a package that no pool offers is quoted.\<close>

lemma availability_bypass:
  "pricingPreviewResponse [] (ex_basic_request ''basic'') = Err ErrPackageUnavailable \<and>
   pricingPreviewResponse [] (ex_basic_request '' basic'') = Ok (customerPricingPreviewDTO 2 basic_quote)"
  by (simp add: ex_basic_answer packageRowsForComputePools_def packageRows_def packageRow_def defaultPricingCatalog_def sfield_def
      pool_available_def)

end
