(* ===== verification/CP_Monthly.thy ===== *)
theory CP_Monthly
  imports CP_Pricing
begin

text \<open>
  The rules of monthly billing, after
  \<^verbatim>\<open>services/control-plane/internal/server/monthly_billing.go\<close>: when a provider answer
  confirms a purchase, what counts as prepared, in progress and absent, price snapshots, the
  calendar of billing months and the codes of charges and refunds. Environment variables are a
  record.
\<close>

section \<open>Environment\<close>

record environment =
  NODE_ENV :: string
  OPL_TENCENT_ZONE :: string
  OPL_PRO_COMPUTE_INSTANCE_TYPE :: string
  OPL_BASIC_COMPUTE_INSTANCE_TYPE :: string

definition monthlyComputeLaunchZone :: "environment \<Rightarrow> string" where
  "monthlyComputeLaunchZone env = trim_space (OPL_TENCENT_ZONE env)"

definition monthlyComputeInstanceType :: "environment \<Rightarrow> string \<Rightarrow> string" where
  "monthlyComputeInstanceType env packageID =
     (if packageID = ''pro'' then trim_space (OPL_PRO_COMPUTE_INSTANCE_TYPE env)
      else if packageID = ''basic'' then trim_space (OPL_BASIC_COMPUTE_INSTANCE_TYPE env)
      else [])"

section \<open>Preflight and charge\<close>

record preflight_input =
  pfi_ResourceType :: string
  pfi_PackageID :: string
  pfi_SizeGB :: int
  pfi_Zone :: string

record preflight =
  pf_ResourceType :: string
  pf_PackageID :: string
  pf_SizeGB :: int
  pf_Zone :: string
  pf_NodePoolID :: string
  pf_Available :: bool
  pf_ChargeType :: string
  pf_PeriodMonths :: int
  pf_RenewFlag :: string
  pf_ProviderPriceCNY :: gofloat
  pf_ProviderRequestIDs :: "(string \<times> string) list"

fun float_positive :: "gofloat \<Rightarrow> bool" where
  "float_positive (FFin m e) \<longleftrightarrow> 0 < m"
| "float_positive (FInf neg) \<longleftrightarrow> \<not> neg"
| "float_positive FNaN \<longleftrightarrow> False"

fun float_nan :: "gofloat \<Rightarrow> bool" where
  "float_nan FNaN \<longleftrightarrow> True"
| "float_nan _ \<longleftrightarrow> False"

definition request_id :: "(string \<times> string) list \<Rightarrow> string \<Rightarrow> string" where
  "request_id m k = (case map_of m k of None \<Rightarrow> [] | Some v \<Rightarrow> v)"

text \<open>A price that is no number is not rejected by the comparison.\<close>

definition monthlyPreflightConfirmed :: "preflight_input \<Rightarrow> preflight \<Rightarrow> bool" where
  "monthlyPreflightConfirmed inp r \<longleftrightarrow>
     \<not> (pf_ResourceType r \<noteq> pfi_ResourceType inp \<or> pf_PackageID r \<noteq> pfi_PackageID inp \<or> pf_SizeGB r \<noteq> pfi_SizeGB inp \<or>
        \<not> pf_Available r \<or> pf_ChargeType r \<noteq> ''PREPAID'' \<or> pf_PeriodMonths r \<noteq> 1 \<or>
        pf_RenewFlag r \<noteq> ''NOTIFY_AND_MANUAL_RENEW'' \<or>
        \<not> (float_positive (pf_ProviderPriceCNY r) \<or> float_nan (pf_ProviderPriceCNY r)) \<or>
        trim_space (pfi_Zone inp) = [] \<or> pf_Zone r \<noteq> pfi_Zone inp \<or>
        (pfi_ResourceType inp = ''compute'' \<and> trim_space (pf_NodePoolID r) = [])) \<and>
     list_all (\<lambda>k. trim_space (request_id (pf_ProviderRequestIDs r) k) \<noteq> [])
       (if pfi_ResourceType inp = ''storage'' then [''quota'', ''price''] else [''nodePool'', ''subnets'', ''availability''])"

text \<open>Both sides of the comparison of numbers are rounded to \<^verbatim>\<open>float64\<close>.\<close>

definition monthlyChargeConfirmationMatches :: "gomap \<Rightarrow> string \<Rightarrow> int \<Rightarrow> int \<Rightarrow> bool" where
  "monthlyChargeConfirmationMatches c code userID charge \<longleftrightarrow>
     mlen c = 4 \<and> code \<noteq> [] \<and> 0 < charge \<and> sfield c ''code'' = code \<and>
     float_eq (numberField c ''userId'' (FFin (-1) 0)) (FFin (to_f64 userID) 0) \<and>
     float_eq (numberField c ''chargeUsdMicros'' (FFin (-1) 0)) (FFin (to_f64 charge) 0) \<and>
     sfield c ''status'' = ''used''"

definition monthlyReadbackIdentityMatches :: "gomap \<Rightarrow> string \<Rightarrow> string \<Rightarrow> string \<Rightarrow> bool" where
  "monthlyReadbackIdentityMatches row rid accountID workspaceID \<longleftrightarrow>
     rid = sfield row ''id'' \<and> accountID = sfield row ''accountId'' \<and> workspaceID = sfield row ''workspaceId''"

section \<open>Resources\<close>

definition monthlyResourcePrepared :: "string \<Rightarrow> gomap \<Rightarrow> bool" where
  "monthlyResourcePrepared resourceType row \<longleftrightarrow>
     (let status = sfield row ''status''
      in if resourceType = ''storage''
         then (status = ''available'' \<or> status = ''ready'') \<and> sfield row ''providerResourceId'' \<noteq> []
         else (status = ''running'' \<or> status = ''ready'') \<and>
              first_text [sfield row ''providerResourceId'', sfield row ''instanceId'', sfield row ''cvmInstanceId''] \<noteq> [])"

definition monthlyResourceInProgress :: "gomap \<Rightarrow> bool" where
  "monthlyResourceInProgress row \<longleftrightarrow>
     sfield row ''status'' \<in> {''provisioning'', ''pending'', ''creating''} \<and> sfield row ''providerRequestId'' \<noteq> []"

definition monthlyResourceConfirmedAbsent :: "string \<Rightarrow> gomap \<Rightarrow> bool" where
  "monthlyResourceConfirmedAbsent resourceType row \<longleftrightarrow>
     sfield row ''status'' = ''external_deleted'' \<and> (resourceType = ''compute'' \<or> sfield row ''cbsStatus'' = ''NOT_FOUND'')"

definition monthlyResourceType :: "gomap \<Rightarrow> string" where
  "monthlyResourceType row =
     (let resourceType = sfield row ''resourceType''
      in if resourceType = ''compute'' \<or> resourceType = ''storage'' then resourceType
         else if float_positive (numberField row ''sizeGb'' (FFin 0 0)) then ''storage'' else ''compute'')"

definition monthlyDesiredStatus :: "string \<Rightarrow> string" where
  "monthlyDesiredStatus resourceType = (if resourceType = ''storage'' then ''available'' else ''running'')"

definition monthlyProviderDeadline :: "gomap \<Rightarrow> instant option" where
  "monthlyProviderDeadline row =
     map_option fst (parse_rfc3339 (trim_space (first_text [sfield row ''deadline'', providerDataValue row ''deadline''])))"

text \<open>Midnight, in UTC, of the calendar day that a parsed time shows in its own zone.\<close>

definition local_midnight :: "instant \<times> int \<Rightarrow> instant" where
  "local_midnight t = (let l = fst t + snd t * ns_per_sec in date_ns (time_year l) (time_month l) (time_day l) 0 0 0 0)"

definition monthlyPurchaseReadbackConfirmed :: "environment \<Rightarrow> string \<Rightarrow> gomap \<Rightarrow> gomap \<Rightarrow> bool" where
  "monthlyPurchaseReadbackConfirmed env resourceType row facts \<longleftrightarrow>
     monthlyResourcePrepared resourceType facts \<and> sfield facts ''providerRequestId'' \<noteq> [] \<and>
     (case (monthlyProviderDeadline facts, parse_rfc3339 (sfield row ''periodStart''), parse_rfc3339 (sfield row ''paidThrough'')) of
        (Some deadline, Some periodStart, Some paidThrough) \<Rightarrow>
          (let zone = first_text [sfield facts ''zone'', providerDataValue facts ''zone''];
               chargeType = first_text [sfield facts ''chargeType'', providerDataValue facts ''chargeType''];
               renewFlag = first_text [sfield facts ''renewFlag'', providerDataValue facts ''renewFlag'']
           in deadline > fst periodStart \<and> \<not> deadline < local_midnight paidThrough \<and> zone \<noteq> [] \<and>
              zone = sfield row ''zone'' \<and> chargeType = ''PREPAID'' \<and> renewFlag = ''NOTIFY_AND_MANUAL_RENEW'')
      | _ \<Rightarrow> False) \<and>
     (if resourceType = ''compute'' then
        (let expectedInstanceType = monthlyComputeInstanceType env (sfield row ''packageId'')
         in sfield facts ''providerResourceId'' \<noteq> [] \<and> sfield facts ''packageId'' = sfield row ''packageId'' \<and>
            first_text [sfield facts ''instanceId'', sfield facts ''cvmInstanceId''] \<noteq> [] \<and>
            expectedInstanceType \<noteq> [] \<and> sfield facts ''instanceType'' = expectedInstanceType \<and>
            providerDataValue facts ''instanceType'' = expectedInstanceType)
      else
        has_prefix (sfield facts ''providerResourceId'') ''disk-'' \<and> sfield facts ''diskType'' \<noteq> [] \<and>
        (sfield facts ''cbsStatus'' = ''UNATTACHED'' \<or> sfield facts ''cbsStatus'' = ''ATTACHED'') \<and>
        number_int facts ''sizeGb'' 0 = number_int row ''sizeGb'' 0)"

section \<open>The account's user\<close>

datatype account_error = ErrAccountsUnavailable | ErrSub2APIAccountMappingConflict | ErrMonthlyAccountUnmapped

definition validateSub2APIAccountMapping :: "gomap list \<Rightarrow> gomap \<Rightarrow> bool" where
  "validateSub2APIAccountMapping accounts row \<longleftrightarrow>
     (let userID = number_int row ''sub2apiUserId'' 0
      in userID \<le> 0 \<or>
         \<not> list_ex (\<lambda>a. sfield a ''id'' \<noteq> sfield row ''id'' \<and> number_int a ''sub2apiUserId'' 0 = userID) accounts)"

definition sub2APIUserID :: "gomap list option \<Rightarrow> string \<Rightarrow> (account_error, int) res" where
  "sub2APIUserID listed accountID =
     (case listed of
        None \<Rightarrow> Err ErrAccountsUnavailable
      | Some accounts \<Rightarrow>
          (case find (\<lambda>a. sfield a ''id'' = accountID) accounts of
             None \<Rightarrow> Err ErrMonthlyAccountUnmapped
           | Some account \<Rightarrow>
               (let userID = number_int account ''sub2apiUserId'' 0
                in if 0 < userID then
                     (if validateSub2APIAccountMapping accounts account then Ok userID else Err ErrSub2APIAccountMappingConflict)
                   else Err ErrMonthlyAccountUnmapped)))"

section \<open>Price snapshots\<close>

definition has_key :: "gomap \<Rightarrow> string \<Rightarrow> bool" where
  "has_key m k \<longleftrightarrow> map_of m k \<noteq> None"

definition canonicalMonthlyPriceSnapshotValid :: "gomap \<Rightarrow> bool" where
  "canonicalMonthlyPriceSnapshotValid row \<longleftrightarrow>
     (case (mget row ''priceVersion'', mget row ''priceSnapshot'') of
        (GStr priceVersion, GObj snapshot) \<Rightarrow>
          (let resourceType = sfield row ''resourceType''; packageID = trim_space (sfield row ''packageId'')
           in trim_space priceVersion \<noteq> [] \<and> mget row ''currency'' = GStr pricingCurrency \<and>
              (resourceType = ''compute'' \<or> resourceType = ''storage'') \<and> packageID \<noteq> [] \<and>
              requiredPositiveInteger row ''chargeUsdMicros'' \<noteq> None \<and>
              requiredPositiveInteger row ''chargeUsdMicros'' = requiredPositiveInteger snapshot ''chargeUsdMicros'' \<and>
              mget snapshot ''priceVersion'' = GStr priceVersion \<and> mget snapshot ''currency'' = GStr pricingCurrency \<and>
              mget snapshot ''billingUnit'' = GStr pricingBillingUnit \<and> mget snapshot ''resourceType'' = GStr resourceType \<and>
              mget snapshot ''packageId'' = GStr packageID \<and>
              (if resourceType = ''storage''
               then requiredPositiveInteger row ''sizeGb'' \<noteq> None \<and>
                    requiredPositiveInteger row ''sizeGb'' = requiredPositiveInteger snapshot ''sizeGb''
               else \<not> has_key snapshot ''sizeGb''))
      | _ \<Rightarrow> False)"

text \<open>The row comes back as the code leaves it: with a snapshot filled in where it had none.\<close>

definition monthlyPriceSnapshotAvailable :: "gomap \<Rightarrow> bool \<times> gomap" where
  "monthlyPriceSnapshotAvailable row =
     (if has_key row ''priceVersion'' \<or> has_key row ''currency'' \<or> has_key row ''priceSnapshot''
      then (canonicalMonthlyPriceSnapshotValid row, row)
      else
        (let priceVersion = trim_space (sfield row ''pricingVersion'');
             resourceType = monthlyResourceType row;
             packageID = trim_space (sfield row ''packageId'')
         in case (requiredPositiveInteger row ''monthlyPriceCnyCents'', requiredPositiveInteger row ''chargeUsdMicros'') of
              (Some cents, Some micros) \<Rightarrow>
                if priceVersion = [] \<or> packageID = [] then (False, row)
                else
                  (let base = [(''resourceType'', GStr resourceType), (''priceVersion'', GStr priceVersion),
                               (''packageId'', GStr packageID), (''currency'', GStr pricingCurrency),
                               (''billingUnit'', GStr pricingBillingUnit), (''chargeUsdMicros'', GInt micros)];
                       fill = (\<lambda>snapshot. mset_key ''priceSnapshot'' (GObj snapshot) (mset_key ''currency'' (GStr pricingCurrency)
                                 (mset_key ''priceVersion'' (GStr priceVersion) (mset_key ''resourceType'' (GStr resourceType) row))))
                   in if resourceType = ''storage''
                      then (case requiredPositiveInteger row ''sizeGb'' of
                              None \<Rightarrow> (False, row)
                            | Some sizeGB \<Rightarrow> (True, fill (base @ [(''sizeGb'', GInt sizeGB)])))
                      else (True, fill base))
            | _ \<Rightarrow> (False, row)))"

section \<open>The calendar of billing\<close>

text \<open>The day before the first of the following month is the last day of a month; an anchor
  below 1 counts back from there, as \<^verbatim>\<open>time.Date\<close> normalises it.\<close>

definition nextBillingMonth :: "instant \<Rightarrow> int \<Rightarrow> instant" where
  "nextBillingMonth current anchorDay =
     (let year = time_year current; month = time_month current + 1;
          y = (if month > 12 then year + 1 else year); m = (if month > 12 then 1 else month);
          lastDay = days_in_month y m
      in date_ns y m (if anchorDay > lastDay then lastDay else anchorDay)
           (time_hour current) (time_minute current) (time_second current) (time_nanos current))"

section \<open>Codes\<close>

definition monthlyRedeemCode :: "(string \<Rightarrow> string) \<Rightarrow> string \<Rightarrow> string \<Rightarrow> string" where
  "monthlyRedeemCode sha e operationID =
     ''opl:'' @ take 28 (stableID sha [''sub2api-monthly-charge-v1'', if e = [] then ''local'' else e, operationID])"

definition monthlyRefundCode :: "(string \<Rightarrow> string) \<Rightarrow> string \<Rightarrow> string \<Rightarrow> string" where
  "monthlyRefundCode sha e operationID =
     ''opl:'' @ take 28 (stableID sha [''sub2api-monthly-refund-v1'', if e = [] then ''local'' else e, operationID])"

end
