(* ===== verification/CP_Monthly_Facts.thy ===== *)
theory CP_Monthly_Facts
  imports CP_Monthly
begin

text \<open>
  Facts about monthly billing: the month that is paid for, snapshots that are filled in, and what
  a confirmed charge says.
\<close>

section \<open>The next month\<close>

lemma date_ns_fields:
  assumes "valid_date y m d" and "0 \<le> c" and "c < ns_per_day" and "t = days_of y m d * ns_per_day + c"
  shows "time_year t = y \<and> time_month t = m \<and> time_day t = d \<and> time_clock t = c"
proof -
  have "day_number t = days_of y m d" using assms(2-4) by (simp add: day_number_def ns_per_day_def)
  moreover have "time_clock t = c" using assms(2-4) by (simp add: time_clock_def ns_per_day_def)
  ultimately show ?thesis
    using assms(1) by (simp add: time_year_def time_month_def time_day_def year_of_days_of month_of_days_of day_of_days_of)
qed

lemma time_split: "t = days_of (time_year t) (time_month t) (time_day t) * ns_per_day + time_clock t"
  using time_fields_date [of t] by (simp add: date_ns_def time_clock_split)

lemma time_date_valid: "valid_date (time_year t) (time_month t) (time_day t)"
  by (simp add: time_year_def time_month_def time_day_def civil_valid)

text \<open>The month after one, and how the days of two consecutive months add up.\<close>

definition next_year :: "int \<Rightarrow> int \<Rightarrow> int" where "next_year y m = (if m = 12 then y + 1 else y)"
definition next_month :: "int \<Rightarrow> int" where "next_month m = (if m = 12 then 1 else m + 1)"

lemma days_of_next:
  assumes "1 \<le> m" and "m \<le> 12"
  shows "days_of (next_year y m) (next_month m) d = days_of y m d + days_in_month y m"
  using month_cases [OF assms]
  by (auto simp: days_of_def next_year_def next_month_def days_before_month_def days_in_month_def days_before_year_Suc Let_def)

lemma days_in_month_range: "28 \<le> days_in_month y m \<and> days_in_month y m \<le> 31"
  by (simp add: days_in_month_def)

lemma days_of_day: "days_of y m d = days_of y m 1 + (d - 1)"
  by (simp add: days_of_def)

definition anchor_in :: "int \<Rightarrow> int \<Rightarrow> int \<Rightarrow> int" where
  "anchor_in a y m = (if a > days_in_month y m then days_in_month y m else a)"

lemma nextBillingMonth_split:
  fixes t a
  defines "y \<equiv> next_year (time_year t) (time_month t)" and "m \<equiv> next_month (time_month t)"
  shows "nextBillingMonth t a = days_of y m (anchor_in a y m) * ns_per_day + time_clock t"
proof -
  have "time_month t \<le> 12" using time_date_valid [of t] by (simp add: valid_date_def)
  then show ?thesis
    by (simp add: nextBillingMonth_def Let_def date_ns_def time_clock_split [symmetric] y_def m_def next_year_def next_month_def
        anchor_in_def)
qed

definition on_anchor :: "int \<Rightarrow> instant \<Rightarrow> bool" where
  "on_anchor a t \<longleftrightarrow> time_day t = anchor_in a (time_year t) (time_month t)"

lemma nextBillingMonth_fields:
  assumes "1 \<le> a"
  defines "t' \<equiv> \<lambda>t. nextBillingMonth t a"
  shows "time_year (t' t) = next_year (time_year t) (time_month t) \<and> time_month (t' t) = next_month (time_month t) \<and>
         time_clock (t' t) = time_clock t \<and> on_anchor a (t' t)"
proof -
  define y m where "y = next_year (time_year t) (time_month t)" and "m = next_month (time_month t)"
  have "valid_date y m (anchor_in a y m)"
    using time_date_valid [of t] assms(1) days_in_month_range [of y m] by (auto simp: valid_date_def y_def m_def next_month_def anchor_in_def)
  from date_ns_fields [OF this time_clock_range(1) time_clock_range(2)] nextBillingMonth_split [of t a]
  show ?thesis by (simp add: t'_def y_def m_def on_anchor_def)
qed

lemma nextBillingMonth_length:
  assumes "1 \<le> a" "a \<le> 31" "on_anchor a t"
  shows "28 * ns_per_day \<le> nextBillingMonth t a - t \<and> nextBillingMonth t a - t \<le> 31 * ns_per_day"
proof -
  define y m where "y = time_year t" and "m = time_month t"
  let ?y' = "next_year y m" and ?m' = "next_month m"
  have m: "1 \<le> m" "m \<le> 12" using time_date_valid [of t] by (simp_all add: valid_date_def m_def)
  have "nextBillingMonth t a - t = (days_of ?y' ?m' (anchor_in a ?y' ?m') - days_of y m (anchor_in a y m)) * ns_per_day"
    using nextBillingMonth_split [of t a] time_split [of t] assms(3) by (simp add: y_def m_def on_anchor_def algebra_simps)
  also have "days_of ?y' ?m' (anchor_in a ?y' ?m') - days_of y m (anchor_in a y m) =
      days_in_month y m + anchor_in a ?y' ?m' - anchor_in a y m"
    by (simp add: days_of_next [OF m] days_of_day [of y m "anchor_in a ?y' ?m'"] days_of_day [of y m "anchor_in a y m"])
  finally have d: "nextBillingMonth t a - t = (days_in_month y m + anchor_in a ?y' ?m' - anchor_in a y m) * ns_per_day" .
  have "28 \<le> days_in_month y m + anchor_in a ?y' ?m' - anchor_in a y m \<and>
        days_in_month y m + anchor_in a ?y' ?m' - anchor_in a y m \<le> 31"
    using assms(2) days_in_month_range [of y m] days_in_month_range [of ?y' ?m'] month_cases [OF m]
    by (auto simp: anchor_in_def days_in_month_def next_month_def)
  then show ?thesis unfolding d by (simp add: ns_per_day_def)
qed

text \<open>C36: a billing month. It ends in the next calendar month, at the same time of day and on
  the anchor day, or on the last day of a shorter month, so a later month returns to the anchor. A
  month that starts on the anchor is between 28 and 31 days long.\<close>

theorem billing_month:
  assumes "1 \<le> anchorDay" and "anchorDay \<le> 31"
  shows "on_anchor anchorDay (nextBillingMonth t anchorDay) \<and>
         time_month (nextBillingMonth t anchorDay) = next_month (time_month t) \<and>
         time_year (nextBillingMonth t anchorDay) = next_year (time_year t) (time_month t) \<and>
         time_clock (nextBillingMonth t anchorDay) = time_clock t \<and>
         (on_anchor anchorDay t \<longrightarrow>
            28 * ns_per_day \<le> nextBillingMonth t anchorDay - t \<and> nextBillingMonth t anchorDay - t \<le> 31 * ns_per_day)"
  using nextBillingMonth_fields [OF assms(1), of t] nextBillingMonth_length [OF assms] by blast

text \<open>From January the 31st, through the 29th of February 2024, back to the 31st of March.\<close>

theorem billing_month_witness:
  "let t = date_ns 2024 1 31 9 30 0 0
   in on_anchor 31 t \<and> time_day (nextBillingMonth t 31) = 29 \<and>
      time_day (nextBillingMonth (nextBillingMonth t 31) 31) = 31 \<and>
      28 * ns_per_day \<le> nextBillingMonth t 31 - t \<and> nextBillingMonth t 31 - t \<le> 31 * ns_per_day"
proof -
  have c: "on_anchor 31 (date_ns 2024 1 31 9 30 0 0)" "time_day (nextBillingMonth (date_ns 2024 1 31 9 30 0 0) 31) = 29"
    "time_day (nextBillingMonth (nextBillingMonth (date_ns 2024 1 31 9 30 0 0) 31) 31) = 31"
    by code_simp+
  with billing_month [of 31 "date_ns 2024 1 31 9 30 0 0"] show ?thesis by (simp add: Let_def)
qed

section \<open>Snapshots\<close>

lemma sfield_mset_key [simp]: "sfield (mset_key k v m) j = (if j = k then str_of v else sfield m j)"
  by (simp add: sfield_def)

lemma requiredPositiveInteger_mset_key [simp]:
  "requiredPositiveInteger (mset_key k v m) j =
     (if j = k then requiredPositiveInteger [(k, v)] k else requiredPositiveInteger m j)"
  by (simp add: requiredPositiveInteger_def requiredNonNegativeInteger_def)

lemma requiredPositiveInteger_pos: "requiredPositiveInteger m k = Some n \<Longrightarrow> 0 < n"
  by (auto simp: requiredPositiveInteger_def split: option.splits if_splits)

lemma has_key_mset_key [simp]: "has_key (mset_key k v m) j \<longleftrightarrow> j = k \<or> has_key m j"
  by (auto simp: has_key_def mset_key_def map_of_filter_neq)

lemma canonical_charge: "canonicalMonthlyPriceSnapshotValid row \<Longrightarrow> requiredPositiveInteger row ''chargeUsdMicros'' \<noteq> None"
  unfolding canonicalMonthlyPriceSnapshotValid_def Let_def by (auto split: gov.splits)

text \<open>A resource that has a price snapshot, or to which one was added from its price fields,
  carries one that agrees with it in version, currency, package, amount and size; asking again changes
  nothing.\<close>

theorem price_snapshot_filled:
  assumes "monthlyPriceSnapshotAvailable row = (True, row')"
  shows "canonicalMonthlyPriceSnapshotValid row' \<and> monthlyPriceSnapshotAvailable row' = (True, row') \<and>
         requiredPositiveInteger row' ''chargeUsdMicros'' = requiredPositiveInteger row ''chargeUsdMicros'' \<and>
         requiredPositiveInteger row ''chargeUsdMicros'' \<noteq> None"
proof (cases "has_key row ''priceVersion'' \<or> has_key row ''currency'' \<or> has_key row ''priceSnapshot''")
  case True
  with assms have c: "canonicalMonthlyPriceSnapshotValid row" and r: "row' = row" by (auto simp: monthlyPriceSnapshotAvailable_def)
  with True show ?thesis using canonical_charge [OF c] by (simp add: monthlyPriceSnapshotAvailable_def)
next
  case False
  have rt: "monthlyResourceType row = ''compute'' \<or> monthlyResourceType row = ''storage''"
    by (auto simp: monthlyResourceType_def Let_def)
  have canon: "canonicalMonthlyPriceSnapshotValid row'"
    and charge: "requiredPositiveInteger row' ''chargeUsdMicros'' = requiredPositiveInteger row ''chargeUsdMicros''"
      "requiredPositiveInteger row ''chargeUsdMicros'' \<noteq> None"
    and key: "has_key row' ''priceVersion''"
    using assms False rt unfolding monthlyPriceSnapshotAvailable_def if_not_P [OF False]
    by (auto simp: Let_def canonicalMonthlyPriceSnapshotValid_def has_key_def [of "_ # _"] requiredPositiveInteger_pos
        split: option.splits if_splits)
  from canon key have "monthlyPriceSnapshotAvailable row' = (True, row')" by (simp add: monthlyPriceSnapshotAvailable_def)
  with canon charge show ?thesis by blast
qed

definition ex_legacy_row :: gomap where
  "ex_legacy_row = [(''id'', GStr ''vol_1''), (''pricingVersion'', GStr pricingCatalogVersion), (''packageId'', GStr ''basic''),
     (''monthlyPriceCnyCents'', GInt 1800), (''chargeUsdMicros'', GInt 2580000), (''sizeGb'', GInt 10)]"

theorem price_snapshot_filled_witness:
  "\<exists>row'. monthlyPriceSnapshotAvailable ex_legacy_row = (True, row') \<and> canonicalMonthlyPriceSnapshotValid row' \<and>
     requiredPositiveInteger row' ''chargeUsdMicros'' = Some 2580000"
proof -
  have a: "fst (monthlyPriceSnapshotAvailable ex_legacy_row)" by code_simp
  have b: "requiredPositiveInteger ex_legacy_row ''chargeUsdMicros'' = Some 2580000" by code_simp
  obtain row' where r: "monthlyPriceSnapshotAvailable ex_legacy_row = (True, row')"
    using a by (cases "monthlyPriceSnapshotAvailable ex_legacy_row") simp
  from price_snapshot_filled [OF r] r b show ?thesis by auto
qed

section \<open>Charges\<close>

lemma float_eq_ints [simp]: "float_eq (FFin a 0) (FFin b 0) \<longleftrightarrow> a = b"
  by simp

text \<open>A confirmation whose amounts are integers below two to the 53 names exactly the user and the
  amount that was asked for; from there on the comparison loses digits.\<close>

lemma confirmation_exact:
  assumes "monthlyChargeConfirmationMatches c code userID charge"
    and "mget c ''userId'' = GInt u" and "mget c ''chargeUsdMicros'' = GInt n"
    and "\<bar>userID\<bar> < 9007199254740992" and "\<bar>charge\<bar> < 9007199254740992" and "int64_range u" and "int64_range n"
  shows "u = userID \<and> n = charge \<and> sfield c ''code'' = code \<and> sfield c ''status'' = ''used''"
proof -
  have s: "\<bar>u\<bar> < 2 ^ 117" "\<bar>n\<bar> < 2 ^ 117"
    using assms(6,7) by (auto simp: int64_range_def min_int64_def max_int64_def)
  have e: "to_f64 u = to_f64 userID" "to_f64 n = to_f64 charge"
    using assms(1-3) by (simp_all add: monthlyChargeConfirmationMatches_def numberField_def)
  have "u = userID" by (rule to_f64_inj_small [OF assms(4) e(1) s(1)])
  moreover have "n = charge" by (rule to_f64_inj_small [OF assms(5) e(2) s(2)])
  ultimately show ?thesis using assms(1) by (simp add: monthlyChargeConfirmationMatches_def)
qed

lemma confirmation_loses_digits:
  "monthlyChargeConfirmationMatches
     [(''code'', GStr ''c''), (''userId'', GInt 7), (''chargeUsdMicros'', GInt 9007199254740992), (''status'', GStr ''used'')]
     ''c'' 7 9007199254740993"
  by code_simp

text \<open>No resource is prepared, in progress and absent at once.\<close>

lemma resource_states_exclusive:
  "\<not> (monthlyResourcePrepared r row \<and> monthlyResourceInProgress row)"
  "\<not> (monthlyResourcePrepared r row \<and> monthlyResourceConfirmedAbsent r row)"
  "\<not> (monthlyResourceInProgress row \<and> monthlyResourceConfirmedAbsent r row)"
  by (auto simp: monthlyResourcePrepared_def monthlyResourceInProgress_def monthlyResourceConfirmedAbsent_def Let_def)

lemma confirmed_prepared: "monthlyPurchaseReadbackConfirmed env r row facts \<Longrightarrow> monthlyResourcePrepared r facts"
  by (simp add: monthlyPurchaseReadbackConfirmed_def)

end
