(* ===== verification/CP_Reconcile.thy ===== *)
theory CP_Reconcile
  imports CP_Monthly "HOL-Library.Product_Lexorder" "HOL-Library.AList"
begin

text \<open>
  The billing reconciliation of the control plane, after
  \<^verbatim>\<open>services/control-plane/internal/server/billing_projection.go\<close>: each resource that is
  paid for is compared with the balance history of sub2api, the operation log of Fabric and the
  receipts of the Ledger. What the tables and the three services answer is a record of answers;
  \<open>None\<close> is a failed call. Unmarshalling the text of a renewal is the parameter \<open>unm\<close>.
\<close>

section \<open>What is compared\<close>

record balance_entry =
  be_Code :: string
  be_Type :: string
  be_ValueUSDMicros :: int
  be_Status :: string
  be_UsedBy :: "int option"

record fabric_fact =
  ff_CallerService :: string
  ff_Action :: string
  ff_ResourceKind :: string
  ff_ResourceID :: string
  ff_AccountID :: string
  ff_WorkspaceID :: string
  ff_Provider :: string
  ff_ProviderRequestID :: string
  ff_IdempotencyKey :: string
  ff_RedactedProviderPayload :: gomap
  ff_Status :: string

record ledger_fact =
  lf_ReceiptID :: string
  lf_Type :: string
  lf_Status :: string
  lf_AccountID :: string
  lf_WorkspaceID :: string
  lf_RequestID :: string
  lf_Cost :: gomap

record fact_page =
  fp_Receipts :: "ledger_fact list"
  fp_NextCursor :: string
  fp_HasMore :: bool

record renewal_operation =
  ro_ID :: string
  ro_Status :: string
  ro_RequestHash :: string
  ro_AccountID :: string
  ro_WorkspaceID :: string
  ro_StorageGB :: int
  ro_ComputeID :: string
  ro_StorageID :: string
  ro_PriceVersion :: string
  ro_ComputeUSDMicros :: int
  ro_StorageUSDMicros :: int
  ro_TotalUSDMicros :: int
  ro_PaidThrough :: string
  ro_RenewedThrough :: string
  ro_RedeemCode :: string
  ro_ChargeConfirmation :: gomap
  ro_PostChargeBalanceUSDMicros :: int
  ro_ComputeReadback :: gomap
  ro_StorageReadback :: gomap
  ro_EntitlementCommitted :: bool
  ro_ReceiptID :: string

text \<open>For this record and any that extends it: the reconciliation reads these fields, the renewal
  itself has more of them.\<close>

definition decodeWorkspaceRenewalOperation ::
    "(string \<Rightarrow> 'a renewal_operation_scheme option) \<Rightarrow> gomap \<Rightarrow> 'a renewal_operation_scheme option" where
  "decodeWorkspaceRenewalOperation unm row =
     (case unm (sfield row ''result'') of
        None \<Rightarrow> None
      | Some parsed \<Rightarrow>
          (let op = parsed\<lparr>ro_ID := first_text [sfield row ''operationId'', sfield row ''id''], ro_Status := sfield row ''status''\<rparr>
           in if ro_ID op = [] \<or> ro_Status op = [] \<or> ro_RequestHash op = [] \<or> ro_AccountID op = [] \<or> ro_WorkspaceID op = [] \<or>
                 ro_PaidThrough op = [] then None
              else if list_ex (\<lambda>(field, want). sfield row field \<noteq> [] \<and> sfield row field \<noteq> want)
                        [(''accountId'', ro_AccountID op), (''workspaceId'', ro_WorkspaceID op), (''resourceId'', ro_WorkspaceID op),
                         (''resourceKind'', ''workspace_renewal''), (''action'', ''workspace.renewal'')] then None
              else Some op))"

definition findRecord :: "gomap list \<Rightarrow> string \<Rightarrow> gomap option" where
  "findRecord rows rid = find (\<lambda>row. sfield row ''id'' = rid) rows"

definition workspaceRenewalBillingReconciliationRow :: "gomap \<Rightarrow> renewal_operation \<Rightarrow> gomap" where
  "workspaceRenewalBillingReconciliationRow workspace op =
     [(''id'', GStr (ro_WorkspaceID op)), (''accountId'', GStr (ro_AccountID op)), (''workspaceId'', GStr (ro_WorkspaceID op)),
      (''billingOperationId'', GStr (ro_ID op)), (''sub2apiRedeemCode'', GStr (ro_RedeemCode op)),
      (''chargeUsdMicros'', GInt (ro_TotalUSDMicros op)),
      (''sub2apiUserId'', GInt (number_int (ro_ChargeConfirmation op) ''userId'' 0)),
      (''postChargeBalanceUsdMicros'', GInt (ro_PostChargeBalanceUSDMicros op)),
      (''lastReceiptId'', GStr (ro_ReceiptID op)), (''priceVersion'', GStr (ro_PriceVersion op)),
      (''periodStart'', GStr (ro_PaidThrough op)), (''paidThrough'', GStr (ro_RenewedThrough op)),
      (''computeAllocationId'', GStr (ro_ComputeID op)), (''storageId'', GStr (ro_StorageID op)),
      (''storageGb'', GInt (ro_StorageGB op)),
      (''computeChargeUsdMicros'', GInt (ro_ComputeUSDMicros op)), (''storageChargeUsdMicros'', GInt (ro_StorageUSDMicros op)),
      (''computeProvider'', GStr (sfield (ro_ComputeReadback op) ''provider'')),
      (''computeProviderRequestId'', GStr (sfield (ro_ComputeReadback op) ''providerRequestId'')),
      (''computeProviderResourceId'', GStr (sfield (ro_ComputeReadback op) ''providerResourceId'')),
      (''storageProvider'', GStr (sfield (ro_StorageReadback op) ''provider'')),
      (''storageProviderRequestId'', GStr (sfield (ro_StorageReadback op) ''providerRequestId'')),
      (''storageProviderResourceId'', GStr (sfield (ro_StorageReadback op) ''providerResourceId'')),
      (''workspaceRenewalStatus'', GStr (ro_Status op)), (''workspaceState'', GStr (sfield workspace ''state''))]"

section \<open>Codes of mismatches\<close>

definition validLocalBillingReconciliationFact :: "string \<Rightarrow> gomap \<Rightarrow> bool" where
  "validLocalBillingReconciliationFact resourceType row \<longleftrightarrow>
     (let text = (\<lambda>k. sfield row k \<noteq> []);
          positive = (\<lambda>k. requiredPositiveInteger row k)
      in if resourceType = ''workspace'' then
           text ''id'' \<and> text ''accountId'' \<and> sfield row ''workspaceId'' = sfield row ''id'' \<and> text ''billingOperationId'' \<and>
           text ''sub2apiRedeemCode'' \<and> positive ''sub2apiUserId'' \<noteq> None \<and>
           requiredNonNegativeInteger row ''postChargeBalanceUsdMicros'' \<noteq> None \<and>
           (case (positive ''chargeUsdMicros'', positive ''computeChargeUsdMicros'', positive ''storageChargeUsdMicros'') of
              (Some charge, Some computeCharge, Some storageCharge) \<Rightarrow>
                charge = wrap64 (computeCharge + storageCharge)
            | _ \<Rightarrow> False) \<and>
           text ''priceVersion'' \<and> text ''computeAllocationId'' \<and> text ''storageId'' \<and>
           float_positive (numberField row ''storageGb'' (FFin 0 0)) \<and>
           text ''computeProvider'' \<and> text ''computeProviderRequestId'' \<and> text ''computeProviderResourceId'' \<and>
           text ''storageProvider'' \<and> text ''storageProviderRequestId'' \<and> text ''storageProviderResourceId''
         else
           (resourceType = ''compute'' \<or> resourceType = ''storage'') \<and> text ''id'' \<and> text ''accountId'' \<and> text ''workspaceId'' \<and>
           text ''billingOperationId'' \<and> text ''sub2apiRedeemCode'' \<and> positive ''chargeUsdMicros'' \<noteq> None \<and> text ''provider'' \<and>
           text ''providerRequestId'' \<and> text ''providerResourceId'' \<and> text ''lastReceiptId'')"

definition sub2APIReconciliationCode :: "gomap \<Rightarrow> int \<Rightarrow> balance_entry list \<Rightarrow> string" where
  "sub2APIReconciliationCode row userID history =
     (case filter (\<lambda>e. be_Code e = sfield row ''sub2apiRedeemCode'') history of
        [] \<Rightarrow> ''sub2api_charge_missing''
      | e # rest \<Rightarrow>
          (case requiredNonNegativeInteger row ''chargeUsdMicros'' of
             None \<Rightarrow> ''sub2api_charge_mismatch''
           | Some charge \<Rightarrow>
               if rest \<noteq> [] \<or> be_Type e \<noteq> ''balance'' \<or> be_Status e \<noteq> ''used'' \<or> be_UsedBy e \<noteq> Some userID \<or>
                  be_ValueUSDMicros e \<noteq> - charge
               then ''sub2api_charge_mismatch'' else []))"

definition fabricComponentReconciliationCode ::
    "gomap \<Rightarrow> fabric_fact list \<Rightarrow> string \<Rightarrow> string \<Rightarrow> string \<Rightarrow> string \<Rightarrow> string \<Rightarrow> string \<Rightarrow> string \<Rightarrow> string" where
  "fabricComponentReconciliationCode row operations action kind resourceID key provider requestID providerResourceID =
     (case filter (\<lambda>f. ff_Action f = action \<and> ff_ResourceKind f = kind \<and> ff_ResourceID f = resourceID \<and>
                       ff_IdempotencyKey f = key \<and> ff_Status f = ''succeeded'') operations of
        [] \<Rightarrow> ''fabric_operation_missing''
      | f # rest \<Rightarrow>
          if rest \<noteq> [] \<or> ff_CallerService f \<noteq> ''control-plane'' \<or> ff_AccountID f \<noteq> sfield row ''accountId'' \<or>
             ff_WorkspaceID f \<noteq> sfield row ''workspaceId'' \<or> ff_Provider f \<noteq> provider \<or> ff_ProviderRequestID f \<noteq> requestID \<or>
             sfield (ff_RedactedProviderPayload f) ''providerResourceId'' \<noteq> providerResourceID
          then ''fabric_operation_mismatch'' else [])"

definition fabricReconciliationCode :: "string \<Rightarrow> gomap \<Rightarrow> fabric_fact list \<Rightarrow> string" where
  "fabricReconciliationCode resourceType row operations =
     (let billing = sfield row ''billingOperationId''
      in if resourceType = ''workspace'' then
           (let compute = fabricComponentReconciliationCode row operations ''renew_compute_allocation'' ''compute_allocation''
                            (sfield row ''computeAllocationId'') (billing @ '':compute'') (sfield row ''computeProvider'')
                            (sfield row ''computeProviderRequestId'') (sfield row ''computeProviderResourceId'')
            in if compute \<noteq> [] then compute
               else fabricComponentReconciliationCode row operations ''renew_storage_volume'' ''storage_volume''
                      (sfield row ''storageId'') (billing @ '':storage'') (sfield row ''storageProvider'')
                      (sfield row ''storageProviderRequestId'') (sfield row ''storageProviderResourceId''))
         else
           (let renewal = has_prefix billing ''renewal-'';
                (action, kind) =
                  (if resourceType = ''storage''
                   then (if renewal then ''renew_storage_volume'' else ''create_storage_volume'', ''storage_volume'')
                   else (if renewal then ''renew_compute_allocation'' else ''create_compute_allocation'', ''compute_allocation''))
            in fabricComponentReconciliationCode row operations action kind (sfield row ''id'')
                 (billing @ (if renewal then '':provider-renew'' else '':prepare'')) (sfield row ''provider'')
                 (sfield row ''providerRequestId'') (sfield row ''providerResourceId'')))"

definition same_amount :: "gomap \<Rightarrow> string \<Rightarrow> gomap \<Rightarrow> string \<Rightarrow> bool" where
  "same_amount a k b j \<longleftrightarrow>
     requiredNonNegativeInteger a k \<noteq> None \<and> requiredNonNegativeInteger a k = requiredNonNegativeInteger b j"

definition ledgerReconciliationCode :: "string \<Rightarrow> gomap \<Rightarrow> int \<Rightarrow> ledger_fact list \<Rightarrow> string" where
  "ledgerReconciliationCode resourceType row currentUserID receipts =
     (case filter (\<lambda>f. lf_ReceiptID f = sfield row ''lastReceiptId'') receipts of
        [] \<Rightarrow> ''ledger_receipt_missing''
      | r # rest \<Rightarrow>
          (let cost = lf_Cost r;
               same = (\<lambda>k. sfield cost k = sfield row k)
           in if resourceType = ''workspace'' then
                (let components = mapField cost ''components'';
                     compute = mapField components ''compute''; storage = mapField components ''storage''
                 in if rest = [] \<and> lf_Type r = ''billing.workspace_renewed.v1'' \<and> lf_Status r = ''completed'' \<and>
                       lf_AccountID r = sfield row ''accountId'' \<and> lf_WorkspaceID r = sfield row ''workspaceId'' \<and>
                       lf_RequestID r = sfield row ''billingOperationId'' \<and>
                       sfield cost ''resourceType'' = ''workspace'' \<and> sfield cost ''resourceId'' = sfield row ''id'' \<and>
                       same ''priceVersion'' \<and> sfield cost ''currency'' = pricingCurrency \<and>
                       sfield cost ''billingUnit'' = pricingBillingUnit \<and> same ''sub2apiRedeemCode'' \<and>
                       same_amount cost ''sub2apiUserId'' row ''sub2apiUserId'' \<and>
                       requiredNonNegativeInteger cost ''sub2apiUserId'' = Some currentUserID \<and>
                       same_amount cost ''postChargeBalanceUsdMicros'' row ''postChargeBalanceUsdMicros'' \<and>
                       same ''periodStart'' \<and> same ''paidThrough'' \<and>
                       same_amount cost ''totalUsdMicros'' row ''chargeUsdMicros'' \<and>
                       same_amount compute ''chargeUsdMicros'' row ''computeChargeUsdMicros'' \<and>
                       same_amount storage ''chargeUsdMicros'' row ''storageChargeUsdMicros'' \<and>
                       sfield compute ''resourceType'' = ''compute'' \<and> sfield storage ''resourceType'' = ''storage'' \<and>
                       sfield compute ''resourceId'' = sfield row ''computeAllocationId'' \<and>
                       sfield storage ''resourceId'' = sfield row ''storageId'' \<and>
                       number_int storage ''sizeGb'' (-1) = number_int row ''storageGb'' (-2)
                    then [] else ''ledger_receipt_mismatch'')
              else
                (let expectedType = (if has_prefix (sfield row ''billingOperationId'') ''renewal-''
                                     then ''billing.resource_renewed.v1'' else ''billing.resource_purchased.v1'')
                 in if rest = [] \<and> lf_Type r = expectedType \<and> lf_Status r = ''completed'' \<and>
                       lf_AccountID r = sfield row ''accountId'' \<and> lf_WorkspaceID r = sfield row ''workspaceId'' \<and>
                       lf_RequestID r = sfield row ''billingOperationId'' \<and> sfield cost ''resourceType'' = resourceType \<and>
                       sfield cost ''resourceId'' = sfield row ''id'' \<and> same_amount cost ''chargeUsdMicros'' row ''chargeUsdMicros''
                    then [] else ''ledger_receipt_mismatch'')))"

section \<open>Receipts, page by page\<close>

definition maxReconciliationReceiptPages :: nat where "maxReconciliationReceiptPages = 100"

text \<open>The loop of \<^verbatim>\<open>reconciliationLedgerReceipts\<close>; the first argument is the number of pages
  that may still be read.\<close>

fun receipt_pages ::
    "nat \<Rightarrow> (string \<Rightarrow> fact_page option) \<Rightarrow> string \<Rightarrow> string \<Rightarrow> string set \<Rightarrow> ledger_fact list \<Rightarrow> ledger_fact list option" where
  "receipt_pages 0 pages accountID cursor seen acc = None"
| "receipt_pages (Suc n) pages accountID cursor seen acc =
     (case pages cursor of
        None \<Rightarrow> None
      | Some page \<Rightarrow>
          if list_ex (\<lambda>r. lf_AccountID r \<noteq> accountID) (fp_Receipts page) then None
          else if \<not> fp_HasMore page then Some (acc @ fp_Receipts page)
          else if fp_NextCursor page = [] \<or> fp_NextCursor page \<in> seen then None
          else receipt_pages n pages accountID (fp_NextCursor page) (insert (fp_NextCursor page) seen) (acc @ fp_Receipts page))"

definition reconciliationLedgerReceipts :: "(string \<Rightarrow> string \<Rightarrow> fact_page option) \<Rightarrow> string \<Rightarrow> ledger_fact list option" where
  "reconciliationLedgerReceipts BillingReceipts accountID =
     (if accountID = [] then None
      else receipt_pages maxReconciliationReceiptPages (BillingReceipts accountID) accountID [] {} [])"

section \<open>The report\<close>

record answers =
  an_computes :: "gomap list option"
  an_storages :: "gomap list option"
  an_workspaces :: "gomap list option"
  an_operations :: "gomap list option"
  an_accounts :: "gomap list option"
  an_FabricOperations :: "fabric_fact list option"
  an_BalanceHistory :: "int \<Rightarrow> balance_entry list option"
  an_BillingReceipts :: "string \<Rightarrow> string \<Rightarrow> fact_page option"

type_synonym billing_resource = "string \<times> gomap"
type_synonym billing_exception = "string \<times> string \<times> string"

text \<open>The renewals that hold for a workspace now: the operation with the latest period per
  workspace.\<close>

definition renewal_holds :: "gomap list \<Rightarrow> renewal_operation \<Rightarrow> bool" where
  "renewal_holds workspaces op \<longleftrightarrow>
     (case findRecord workspaces (ro_WorkspaceID op) of
        None \<Rightarrow> False
      | Some workspace \<Rightarrow>
          (ro_Status op = ''active'' \<or> (ro_Status op = ''verifying'' \<and> ro_EntitlementCommitted op)) \<and>
          (case (parse_rfc3339 (sfield workspace ''paidThrough''), parse_rfc3339 (ro_RenewedThrough op)) of
             (Some paid, Some renewed) \<Rightarrow> fst paid = fst renewed
           | _ \<Rightarrow> False))"

definition note_renewal :: "renewal_operation \<Rightarrow> (string \<times> renewal_operation) list \<Rightarrow> (string \<times> renewal_operation) list" where
  "note_renewal op m =
     (case map_of m (ro_WorkspaceID op) of
        Some current \<Rightarrow>
          if ro_PaidThrough current < ro_PaidThrough op then AList.update (ro_WorkspaceID op) op m else m
      | None \<Rightarrow> AList.update (ro_WorkspaceID op) op m)"

definition workspace_renewals :: "(string \<Rightarrow> renewal_operation option) \<Rightarrow> gomap list \<Rightarrow> gomap list \<Rightarrow> (string \<times> renewal_operation) list" where
  "workspace_renewals unm workspaces operations =
     fold (\<lambda>row m. if sfield row ''action'' \<noteq> ''workspace.renewal'' then m
                   else case decodeWorkspaceRenewalOperation unm row of
                          None \<Rightarrow> m
                        | Some op \<Rightarrow> if renewal_holds workspaces op then note_renewal op m else m) operations []"

definition billing_resources ::
    "gomap list \<Rightarrow> (string \<times> renewal_operation) list \<Rightarrow> gomap list \<Rightarrow> gomap list \<Rightarrow> billing_resource list" where
  "billing_resources workspaces renewals computes storages =
     (let active = (\<lambda>child row. sfield row ''billingStatus'' = ''active'' \<and> sfield row ''id'' \<notin> child ` set (map snd renewals))
      in sort_key (\<lambda>(ty, row). (ty, sfield row ''id''))
           (map (\<lambda>(wid, op). (''workspace'', workspaceRenewalBillingReconciliationRow (the (findRecord workspaces wid)) op)) renewals @
            map (Pair ''compute'') (filter (active ro_ComputeID) computes) @
            map (Pair ''storage'') (filter (active ro_StorageID) storages)))"

definition resource_codes :: "answers \<Rightarrow> billing_resource \<Rightarrow> string list" where
  "resource_codes an res =
     (let (ty, row) = res; accountID = sfield row ''accountId'';
          user = sub2APIUserID (an_accounts an) accountID;
          userID = (case user of Inl _ \<Rightarrow> 0 | Inr uid \<Rightarrow> uid);
          history = (case user of Inl _ \<Rightarrow> None | Inr uid \<Rightarrow> an_BalanceHistory an uid)
      in if \<not> validLocalBillingReconciliationFact ty row then [''billing_operation_invalid'']
         else filter (\<lambda>code. code \<noteq> [])
                [case history of None \<Rightarrow> ''sub2api_balance_history_unavailable''
                               | Some h \<Rightarrow> sub2APIReconciliationCode row userID h,
                 case an_FabricOperations an of None \<Rightarrow> ''fabric_operations_unavailable''
                                              | Some ops \<Rightarrow> fabricReconciliationCode ty row ops,
                 case reconciliationLedgerReceipts (an_BillingReceipts an) accountID of None \<Rightarrow> ''ledger_receipts_unavailable''
                                              | Some rs \<Rightarrow> ledgerReconciliationCode ty row userID rs])"

definition billing_exceptions :: "answers \<Rightarrow> billing_resource list \<Rightarrow> billing_exception list" where
  "billing_exceptions an resources =
     concat (map (\<lambda>res. map (\<lambda>code. (fst res, sfield (snd res) ''id'', code)) (resource_codes an res)) resources)"

definition reconciliationReport :: "string \<Rightarrow> nat \<Rightarrow> nat \<Rightarrow> billing_exception list \<Rightarrow> gomap" where
  "reconciliationReport rid checked matched exceptions =
     [(''id'', GStr rid), (''status'', GStr (if exceptions \<noteq> [] then ''mismatch'' else ''ok'')),
      (''counts'', GObj [(''billingOperations'', GInt (int checked)), (''matched'', GInt (int matched)),
                         (''exceptions'', GInt (int (length exceptions)))]),
      (''exceptions'', GList (map (\<lambda>(ty, rid, code).
         GObj [(''resourceType'', GStr ty), (''resourceId'', GStr rid), (''code'', GStr code)]) exceptions))]"

definition report_on :: "answers \<Rightarrow> string \<Rightarrow> billing_resource list \<Rightarrow> gomap" where
  "report_on an rid resources =
     reconciliationReport rid (length resources) (length (filter (\<lambda>res. resource_codes an res = []) resources))
       (sort (billing_exceptions an resources))"

definition billingReconciliationReport ::
    "(string \<Rightarrow> string) \<Rightarrow> (string \<Rightarrow> renewal_operation option) \<Rightarrow> answers \<Rightarrow> string \<Rightarrow> gomap option" where
  "billingReconciliationReport sha unm an key =
     (case (an_computes an, an_storages an, an_workspaces an, an_operations an) of
        (Some computes, Some storages, Some workspaces, Some operations) \<Rightarrow>
          Some (report_on an (''reconciliation-'' @ take 18 (stableID sha [key]))
                  (billing_resources workspaces (workspace_renewals unm workspaces operations) computes storages))
      | _ \<Rightarrow> None)"

end
