(* ===== verification/CP_Reconcile_Facts.thy ===== *)
theory CP_Reconcile_Facts
  imports CP_Reconcile CP_Monthly_Facts
begin

text \<open>
  Facts about the reconciliation: paging through receipts reads exactly the chain of pages, the
  figures of a report fit together, and what happens to renewed workspaces.
\<close>

section \<open>Pages\<close>

text \<open>The pages that follow each other from a cursor, up to the first one that says it is the
  last.\<close>

fun page_chain :: "(string \<Rightarrow> fact_page option) \<Rightarrow> string \<Rightarrow> fact_page list \<Rightarrow> bool" where
  "page_chain pages c [] \<longleftrightarrow> False"
| "page_chain pages c (p # ps) \<longleftrightarrow>
     pages c = Some p \<and> fp_HasMore p = (ps \<noteq> []) \<and> (ps \<noteq> [] \<longrightarrow> page_chain pages (fp_NextCursor p) ps)"

definition cursors_of :: "fact_page list \<Rightarrow> string list" where
  "cursors_of ps = map fp_NextCursor (butlast ps)"

lemma cursors_of_simps [simp]:
  "cursors_of [] = []" "cursors_of [p] = []" "ps \<noteq> [] \<Longrightarrow> cursors_of (p # ps) = fp_NextCursor p # cursors_of ps"
  by (simp_all add: cursors_of_def)

definition of_account :: "string \<Rightarrow> fact_page list \<Rightarrow> bool" where
  "of_account a ps \<longleftrightarrow> (\<forall>p \<in> set ps. \<forall>r \<in> set (fp_Receipts p). lf_AccountID r = a)"

definition good_chain :: "nat \<Rightarrow> (string \<Rightarrow> fact_page option) \<Rightarrow> string \<Rightarrow> string \<Rightarrow> string set \<Rightarrow> fact_page list \<Rightarrow> bool" where
  "good_chain n pages a c seen ps \<longleftrightarrow>
     page_chain pages c ps \<and> length ps \<le> n \<and> of_account a ps \<and> distinct (cursors_of ps) \<and> [] \<notin> set (cursors_of ps) \<and>
     set (cursors_of ps) \<inter> seen = {}"

lemma page_chain_unique: "page_chain pages c ps \<Longrightarrow> page_chain pages c qs \<Longrightarrow> ps = qs"
proof (induction ps arbitrary: c qs)
  case (Cons p ps)
  then obtain q qs' where q: "qs = q # qs'" by (cases qs) auto
  with Cons have "q = p" and h: "(ps \<noteq> []) = (qs' \<noteq> [])" by auto
  moreover from Cons q h \<open>q = p\<close> have "ps = qs'" by (cases "ps = []") auto
  ultimately show ?case using q by simp
qed simp

lemma good_chain_Cons:
  "good_chain (Suc n) pages a c seen ps \<longleftrightarrow>
     (\<exists>p. pages c = Some p \<and> (\<forall>r \<in> set (fp_Receipts p). lf_AccountID r = a) \<and>
          (if fp_HasMore p
           then fp_NextCursor p \<noteq> [] \<and> fp_NextCursor p \<notin> seen \<and>
                (\<exists>qs. ps = p # qs \<and> good_chain n pages a (fp_NextCursor p) (insert (fp_NextCursor p) seen) qs)
           else ps = [p]))"
proof (cases ps)
  case (Cons p qs)
  then show ?thesis
    by (cases qs) (auto simp: good_chain_def of_account_def)
qed (auto simp: good_chain_def)

lemma receipt_pages_eq:
  "receipt_pages n pages a c seen acc = Some rs \<longleftrightarrow>
     (\<exists>ps. good_chain n pages a c seen ps \<and> rs = acc @ concat (map fp_Receipts ps))"
proof (induction n arbitrary: c seen acc)
  case 0
  show ?case by (auto simp: good_chain_def)
next
  case (Suc n)
  show ?case
  proof (cases "pages c")
    case None
    then show ?thesis by (simp add: good_chain_Cons)
  next
    case (Some p)
    then show ?thesis by (auto simp: good_chain_Cons Suc list_ex_iff)
  qed
qed

text \<open>C37: the receipts that are compared are all the receipts the Ledger lists for the account, in
  its order, or the reading fails: exactly when the pages form a chain of at most a hundred that ends,
  no cursor is empty or comes twice, and no receipt belongs to another account.\<close>

theorem receipts_complete:
  "reconciliationLedgerReceipts BillingReceipts accountID = Some receipts \<longleftrightarrow>
     accountID \<noteq> [] \<and>
     (\<exists>ps. page_chain (BillingReceipts accountID) [] ps \<and> length ps \<le> 100 \<and> of_account accountID ps \<and>
           distinct (cursors_of ps) \<and> [] \<notin> set (cursors_of ps) \<and> receipts = concat (map fp_Receipts ps))"
  by (auto simp: reconciliationLedgerReceipts_def receipt_pages_eq good_chain_def maxReconciliationReceiptPages_def)

section \<open>Figures\<close>

definition report_codes :: "string list" where
  "report_codes =
     [''billing_operation_invalid'', ''sub2api_balance_history_unavailable'', ''sub2api_charge_missing'',
      ''sub2api_charge_mismatch'', ''fabric_operations_unavailable'', ''fabric_operation_missing'', ''fabric_operation_mismatch'',
      ''ledger_receipts_unavailable'', ''ledger_receipt_missing'', ''ledger_receipt_mismatch'']"

lemma single_codes:
  "sub2APIReconciliationCode row u h \<in> insert [] (set report_codes)"
  "fabricReconciliationCode ty row ops \<in> insert [] (set report_codes)"
  "ledgerReconciliationCode ty row u rs \<in> insert [] (set report_codes)"
proof -
  show "sub2APIReconciliationCode row u h \<in> insert [] (set report_codes)"
    by (auto simp: sub2APIReconciliationCode_def report_codes_def split: list.split option.split)
  have c: "fabricComponentReconciliationCode row ops a k r i p q v \<in> insert [] (set report_codes)" for a k r i p q v
    by (auto simp: fabricComponentReconciliationCode_def report_codes_def split: list.split)
  show "fabricReconciliationCode ty row ops \<in> insert [] (set report_codes)"
    unfolding fabricReconciliationCode_def Let_def
    by (cases "ty = ''workspace''"; simp only: if_True if_False simp_thms prod.case split: prod.split if_split) (use c in blast)+
  show "ledgerReconciliationCode ty row u rs \<in> insert [] (set report_codes)"
    by (cases "filter (\<lambda>f. lf_ReceiptID f = sfield row ''lastReceiptId'') rs")
      (simp_all add: ledgerReconciliationCode_def Let_def report_codes_def)
qed

lemma resource_codes_known: "set (resource_codes an res) \<subseteq> set report_codes"
proof -
  have opt: "(case x of None \<Rightarrow> d | Some y \<Rightarrow> f y) \<in> insert [] (set report_codes)"
    if "d \<in> set report_codes" "\<And>y. f y \<in> insert [] (set report_codes)" for x :: "'b option" and d f
    using that by (cases x) auto
  show ?thesis
  proof (cases res)
    case (Pair ty row)
    define user where "user = sub2APIUserID (an_accounts an) (sfield row ''accountId'')"
    define u where "u = (case user of Inl _ \<Rightarrow> 0 | Inr uid \<Rightarrow> uid)"
    define c1 where "c1 = (case (case user of Inl _ \<Rightarrow> None | Inr uid \<Rightarrow> an_BalanceHistory an uid) of
        None \<Rightarrow> ''sub2api_balance_history_unavailable'' | Some h \<Rightarrow> sub2APIReconciliationCode row u h)"
    define c2 where "c2 = (case an_FabricOperations an of None \<Rightarrow> ''fabric_operations_unavailable'' | Some ops \<Rightarrow> fabricReconciliationCode ty row ops)"
    define c3 where "c3 = (case reconciliationLedgerReceipts (an_BillingReceipts an) (sfield row ''accountId'') of
        None \<Rightarrow> ''ledger_receipts_unavailable'' | Some rs \<Rightarrow> ledgerReconciliationCode ty row u rs)"
    have "c1 \<in> insert [] (set report_codes)" unfolding c1_def by (rule opt) (simp add: report_codes_def, rule single_codes)
    moreover have "c2 \<in> insert [] (set report_codes)" unfolding c2_def by (rule opt) (simp add: report_codes_def, rule single_codes)
    moreover have "c3 \<in> insert [] (set report_codes)" unfolding c3_def by (rule opt) (simp add: report_codes_def, rule single_codes)
    moreover have "resource_codes an res = (if \<not> validLocalBillingReconciliationFact ty row then [''billing_operation_invalid'']
        else filter (\<lambda>code. code \<noteq> []) [c1, c2, c3])"
      unfolding Pair resource_codes_def Let_def prod.case c1_def c2_def c3_def u_def user_def by (rule refl)
    moreover have "''billing_operation_invalid'' \<in> set report_codes" by (simp add: report_codes_def)
    ultimately show ?thesis by auto
  qed
qed

lemma length_billing_exceptions: "length (billing_exceptions an rs) \<le> 3 * length rs"
proof (induction rs)
  case (Cons r rs)
  have "length (resource_codes an r) \<le> 3"
    by (cases r) (simp add: resource_codes_def Let_def)
  with Cons show ?case by (simp add: billing_exceptions_def)
qed (simp add: billing_exceptions_def)

definition resource_key :: "billing_resource \<Rightarrow> string \<times> string" where
  "resource_key res = (fst res, sfield (snd res) ''id'')"

lemma exception_keys:
  "(\<lambda>(ty, rid, code). (ty, rid)) ` set (billing_exceptions an rs) =
     resource_key ` set (filter (\<lambda>res. resource_codes an res \<noteq> []) rs)"
proof -
  have "resource_key res \<in> (\<lambda>(ty, rid, code). (ty, rid)) ` set (billing_exceptions an rs)"
    if r: "res \<in> set rs" and ne: "resource_codes an res \<noteq> []" for res
  proof -
    obtain c where "c \<in> set (resource_codes an res)" using ne by (cases "resource_codes an res") auto
    with r have "(fst res, sfield (snd res) ''id'', c) \<in> set (billing_exceptions an rs)"
      by (auto simp: billing_exceptions_def)
    then show ?thesis by (force simp: resource_key_def)
  qed
  then show ?thesis
    by (auto simp: billing_exceptions_def resource_key_def)
qed

lemma unmatched_count:
  assumes "distinct (map resource_key rs)"
  shows "length rs - length (filter (\<lambda>res. resource_codes an res = []) rs) =
           card ((\<lambda>(ty, rid, code). (ty, rid)) ` set (billing_exceptions an rs))"
proof -
  have "distinct (map resource_key (filter (\<lambda>res. resource_codes an res \<noteq> []) rs))"
    using assms by (rule distinct_map_filter)
  then have "card (resource_key ` set (filter (\<lambda>res. resource_codes an res \<noteq> []) rs)) =
      length (filter (\<lambda>res. resource_codes an res \<noteq> []) rs)"
    using distinct_card [of "map resource_key (filter (\<lambda>res. resource_codes an res \<noteq> []) rs)"] by simp
  then show ?thesis
    using sum_length_filter_compl [of "\<lambda>res. resource_codes an res = []" rs] by (simp add: exception_keys)
qed

text \<open>A report is ``ok'' exactly when every resource matched.\<close>

lemma report_status:
  "sfield (report_on an rid rs) ''status'' = (if \<forall>res \<in> set rs. resource_codes an res = [] then ''ok'' else ''mismatch'')"
proof -
  have "billing_exceptions an rs = [] \<longleftrightarrow> (\<forall>res \<in> set rs. resource_codes an res = [])"
    by (simp add: billing_exceptions_def)
  moreover have "sort (billing_exceptions an rs) = [] \<longleftrightarrow> billing_exceptions an rs = []"
    by (metis length_0_conv length_sort)
  ultimately show ?thesis by (simp add: report_on_def reconciliationReport_def sfield_def)
qed

section \<open>Renewed workspaces\<close>

text \<open>The Ledger client decodes with \<^verbatim>\<open>UseNumber\<close>, so a cost holds values as JSON decoding
  leaves them.\<close>

definition decoded_cost :: "ledger_fact \<Rightarrow> bool" where
  "decoded_cost r \<longleftrightarrow> (\<exists>m. json_norm (GObj m) = Some (GObj (lf_Cost r)))"

definition decoding_ledger :: "answers \<Rightarrow> bool" where
  "decoding_ledger an \<longleftrightarrow>
     (\<forall>a c page. an_BillingReceipts an a c = Some page \<longrightarrow> (\<forall>r \<in> set (fp_Receipts page). decoded_cost r))"

lemma json_number: "json_norm v = Some w \<Longrightarrow> (case w of GInt n \<Rightarrow> False | GFloat64 f \<Rightarrow> False | _ \<Rightarrow> True)"
  by (cases v) (auto simp: float_json_def split: if_splits gofloat.splits option.splits)

lemma json_norm_mget: "json_norm (GObj m) = Some (GObj m') \<Longrightarrow> json_norm (mget m k) = Some (mget m' k)"
  by (rule json_norm_obj_get)

lemma decoded_field:
  assumes "json_norm (GObj m) = Some (GObj m')"
  shows "\<exists>z. json_norm (GObj z) = Some (GObj (mapField m' k))"
proof (cases "mget m' k")
  case (GObj kvs)
  from json_norm_mget [OF assms, of k] GObj have "json_norm (mget m k) = Some (GObj kvs)" by simp
  then obtain z where "mget m k = GObj z"
    by (cases "mget m k") (auto simp: float_json_def split: if_splits gofloat.splits option.splits)
  with \<open>json_norm (mget m k) = Some (GObj kvs)\<close> GObj show ?thesis by (auto simp: mapField_def simp del: json_norm.simps)
qed (auto simp: mapField_def intro: exI [of _ "[]"])

lemma decoded_number: "json_norm (GObj m) = Some (GObj m') \<Longrightarrow> number_int m' k d = float_trunc (FFin d 0)"
  using json_number [OF json_norm_mget [of m m' k]] by (auto simp: number_int_def numberField_def split: gov.splits)

lemma positive_trunc: "float_positive f \<Longrightarrow> 0 \<le> float_trunc f"
  by (cases f) (auto simp: pos_imp_zdiv_nonneg_iff)

lemma valid_workspace_storage:
  assumes "validLocalBillingReconciliationFact ''workspace'' row"
  shows "0 \<le> number_int row ''storageGb'' d"
proof -
  have "float_positive (numberField row ''storageGb'' (FFin 0 0))"
    using assms by (simp add: validLocalBillingReconciliationFact_def Let_def)
  moreover have "numberField row ''storageGb'' (FFin d 0) = numberField row ''storageGb'' (FFin 0 0) \<or>
      numberField row ''storageGb'' (FFin 0 0) = FFin 0 0"
    by (simp add: numberField_def split: gov.split)
  ultimately show ?thesis using positive_trunc by (auto simp: number_int_def)
qed

lemma renewed_workspace_code:
  assumes "validLocalBillingReconciliationFact ''workspace'' row" and "\<forall>r \<in> set receipts. decoded_cost r"
  shows "ledgerReconciliationCode ''workspace'' row userID receipts \<noteq> []"
proof (cases "filter (\<lambda>f. lf_ReceiptID f = sfield row ''lastReceiptId'') receipts")
  case Nil
  then show ?thesis by (simp add: ledgerReconciliationCode_def)
next
  case (Cons r rest)
  then have "r \<in> set (filter (\<lambda>f. lf_ReceiptID f = sfield row ''lastReceiptId'') receipts)" by (simp only: list.set_intros)
  then have "r \<in> set receipts" by simp
  with assms(2) have "decoded_cost r" by blast
  then obtain m where m: "json_norm (GObj m) = Some (GObj (lf_Cost r))" unfolding decoded_cost_def by blast
  from decoded_field [OF m] obtain z where "json_norm (GObj z) = Some (GObj (mapField (lf_Cost r) ''components''))" by blast
  from decoded_field [OF this] obtain z' where "json_norm (GObj z') = Some (GObj (mapField (mapField (lf_Cost r) ''components'') ''storage''))"
    by blast
  from decoded_number [OF this] have "number_int (mapField (mapField (lf_Cost r) ''components'') ''storage'') ''sizeGb'' (-1) = -1"
    by simp
  with valid_workspace_storage [OF assms(1), of "-2"] Cons show ?thesis
    by (auto simp: ledgerReconciliationCode_def Let_def)
qed

lemma receipts_decoded:
  assumes "\<forall>c page. pages c = Some page \<longrightarrow> (\<forall>r \<in> set (fp_Receipts page). decoded_cost r)"
  shows "page_chain pages c ps \<Longrightarrow> r \<in> set (concat (map fp_Receipts ps)) \<Longrightarrow> decoded_cost r"
proof (induction ps arbitrary: c)
  case (Cons p ps)
  then show ?case using assms by (cases "ps = []") auto
qed simp

lemma renewed_workspace_codes:
  assumes "decoding_ledger an"
  shows "resource_codes an (''workspace'', row) \<noteq> []"
proof (cases "validLocalBillingReconciliationFact ''workspace'' row")
  case True
  define rs where "rs = reconciliationLedgerReceipts (an_BillingReceipts an) (sfield row ''accountId'')"
  have "(case rs of None \<Rightarrow> ''ledger_receipts_unavailable'' | Some l \<Rightarrow> ledgerReconciliationCode ''workspace'' row u l) \<noteq> []" for u
  proof (cases rs)
    case (Some l)
    then obtain ps where p: "page_chain (an_BillingReceipts an (sfield row ''accountId'')) [] ps" "l = concat (map fp_Receipts ps)"
      unfolding rs_def reconciliationLedgerReceipts_def by (auto simp: receipt_pages_eq good_chain_def split: if_splits)
    have "\<forall>c page. an_BillingReceipts an (sfield row ''accountId'') c = Some page \<longrightarrow> (\<forall>r \<in> set (fp_Receipts page). decoded_cost r)"
      using assms by (auto simp: decoding_ledger_def)
    from receipts_decoded [OF this p(1)] p(2) have "\<forall>r \<in> set l. decoded_cost r" by blast
    with Some renewed_workspace_code [OF True] show ?thesis by simp
  qed simp
  with True show ?thesis by (simp add: resource_codes_def Let_def rs_def)
qed (simp add: resource_codes_def)

text \<open>C38: as the Ledger client decodes receipts today, a report that covers a renewed workspace is
  always a mismatch: the size of the storage in a receipt is a \<^verbatim>\<open>json.Number\<close>, which the
  comparison reads as minus one.\<close>

theorem renewed_workspace_mismatch:
  assumes "decoding_ledger an"
    and "an_workspaces an = Some workspaces" and "an_operations an = Some operations"
    and "workspace_renewals unm workspaces operations \<noteq> []"
    and "billingReconciliationReport sha unm an key = Some report"
  shows "sfield report ''status'' = ''mismatch''"
proof -
  obtain computes storages where rep: "report = report_on an (''reconciliation-'' @ take 18 (stableID sha [key]))
      (billing_resources workspaces (workspace_renewals unm workspaces operations) computes storages)"
    using assms(2,3,5) by (auto simp: billingReconciliationReport_def split: option.splits)
  obtain w op rest where "workspace_renewals unm workspaces operations = (w, op) # rest"
    using assms(4) by (cases "workspace_renewals unm workspaces operations") auto
  then have "(''workspace'', workspaceRenewalBillingReconciliationRow (the (findRecord workspaces w)) op)
      \<in> set (billing_resources workspaces (workspace_renewals unm workspaces operations) computes storages)"
    by (simp only: billing_resources_def Let_def set_sort) simp
  moreover note renewed_workspace_codes [where an = an and row = "workspaceRenewalBillingReconciliationRow (the (findRecord workspaces w)) op", OF assms(1)]
  ultimately show ?thesis unfolding rep report_status by auto
qed

definition ex_renewal :: renewal_operation where
  "ex_renewal = \<lparr>ro_ID = [], ro_Status = [], ro_RequestHash = ''h'', ro_AccountID = ''acct-1'', ro_WorkspaceID = ''ws-1'',
     ro_StorageGB = 10, ro_ComputeID = ''ca_1'', ro_StorageID = ''vol_1'', ro_PriceVersion = pricingCatalogVersion,
     ro_ComputeUSDMicros = 50000000, ro_StorageUSDMicros = 2580000, ro_TotalUSDMicros = 52580000,
     ro_PaidThrough = ''2026-07-01T00:00:00Z'', ro_RenewedThrough = ''2026-08-01T00:00:00Z'', ro_RedeemCode = ''opl:1'',
     ro_ChargeConfirmation = [(''userId'', GFloat64 (FFin 7 0))], ro_PostChargeBalanceUSDMicros = 1, ro_ComputeReadback = [],
     ro_StorageReadback = [], ro_EntitlementCommitted = True, ro_ReceiptID = ''receipt-1''\<rparr>"

definition ex_answers :: answers where
  "ex_answers = \<lparr>an_computes = Some [], an_storages = Some [],
     an_workspaces = Some [[(''id'', GStr ''ws-1''), (''paidThrough'', GStr ''2026-08-01T00:00:00Z'')]],
     an_operations = Some [[(''id'', GStr ''renewal-1''), (''action'', GStr ''workspace.renewal''), (''status'', GStr ''active'')]],
     an_accounts = None, an_FabricOperations = None, an_BalanceHistory = (\<lambda>_. None),
     an_BillingReceipts = (\<lambda>_ _. Some \<lparr>fp_Receipts = [], fp_NextCursor = [], fp_HasMore = False\<rparr>)\<rparr>"

theorem renewed_workspace_mismatch_witness:
  "\<exists>report. billingReconciliationReport (\<lambda>_. ''0123456789abcdef0123'') (\<lambda>_. Some ex_renewal) ex_answers ''key'' = Some report \<and>
     sfield report ''status'' = ''mismatch''"
proof -
  have d: "decoding_ledger ex_answers" by (simp add: decoding_ledger_def ex_answers_def)
  have w: "workspace_renewals (\<lambda>_. Some ex_renewal) (the (an_workspaces ex_answers)) (the (an_operations ex_answers)) \<noteq> []"
    by code_simp
  obtain report where r: "billingReconciliationReport (\<lambda>_. ''0123456789abcdef0123'') (\<lambda>_. Some ex_renewal) ex_answers ''key'' = Some report"
    by (simp add: billingReconciliationReport_def ex_answers_def)
  have a: "an_workspaces ex_answers = Some (the (an_workspaces ex_answers))" "an_operations ex_answers = Some (the (an_operations ex_answers))"
    by (simp_all add: ex_answers_def)
  from renewed_workspace_mismatch [OF d a w r] r show ?thesis by blast
qed

end
