(* ===== verification/Reconcile_Contract.thy ===== *)
theory Reconcile_Contract
  imports CP_Reconcile_Facts Ledger_Reconcile
begin

text \<open>
  Between the two services: the report the control plane computes is one the Ledger records.
\<close>

section \<open>Reports\<close>

definition exception_value :: "billing_exception \<Rightarrow> gov" where
  "exception_value e = (case e of (ty, rid, code) \<Rightarrow>
     GObj [(''resourceType'', GStr ty), (''resourceId'', GStr rid), (''code'', GStr code)])"

definition exception_normal :: "billing_exception \<Rightarrow> gov" where
  "exception_normal e = (case e of (ty, rid, code) \<Rightarrow>
     GObj [(''code'', GStr code), (''resourceId'', GStr rid), (''resourceType'', GStr ty)])"

lemma exception_norm: "json_norm (exception_value e) = Some (exception_normal e)"
  by (cases e) (simp add: exception_value_def exception_normal_def)

lemma exceptions_norm: "json_norms (map exception_value es) = Some (map exception_normal es)"
  by (induction es) (simp_all add: exception_norm del: json_norm.simps)

definition good_exception :: "billing_exception \<Rightarrow> bool" where
  "good_exception e \<longleftrightarrow> (case e of (ty, rid, code) \<Rightarrow>
     ty \<in> {''compute'', ''storage'', ''workspace''} \<and> isOpaqueReference rid \<and> code \<in> set report_codes)"

lemma report_codes_accepted: "set report_codes \<subseteq> set reconciliationExceptionCodes"
  by (auto simp: report_codes_def reconciliationExceptionCodes_def)

definition exception_key :: "billing_exception \<Rightarrow> string" where
  "exception_key e = (case e of (ty, rid, code) \<Rightarrow> ty @ [CHR 0x00] @ rid)"

lemma exception_resource_good: "good_exception e \<Longrightarrow> exception_resource (exception_normal e) = Some (exception_key e)"
  using report_codes_accepted by (cases e) (auto simp: good_exception_def exception_resource_def exception_normal_def exception_key_def)

lemma exception_resources_good:
  "\<forall>e \<in> set es. good_exception e \<Longrightarrow> exception_resources (map exception_normal es) = Some (map exception_key es)"
  by (induction es) (simp_all add: exception_resource_good)

lemma exception_key_inj: "inj_on (\<lambda>(ty, rid). ty @ [CHR 0x00] @ rid) ({''compute'', ''storage'', ''workspace''} \<times> UNIV)"
  by (auto simp: inj_on_def)

lemma distinct_exception_keys:
  assumes "\<forall>e \<in> set es. good_exception e"
  shows "length (remdups (map exception_key es)) = card ((\<lambda>(ty, rid, code). (ty, rid)) ` set es)"
proof -
  let ?f = "\<lambda>(ty, rid). ty @ [CHR 0x00] @ rid" and ?g = "\<lambda>(ty, rid, code). (ty, rid)"
  have "exception_key ` set es = ?f ` ?g ` set es"
    by (force simp: exception_key_def image_image)
  moreover have "inj_on ?f (?g ` set es)"
    by (rule inj_on_subset [OF exception_key_inj]) (use assms in \<open>auto simp: good_exception_def\<close>)
  ultimately have "card (exception_key ` set es) = card (?g ` set es)" by (simp add: card_image)
  moreover have "length (remdups (map exception_key es)) = card (exception_key ` set es)"
    by (simp add: length_remdups_card_conv)
  ultimately show ?thesis by simp
qed

definition plain_keys :: "string list" where
  "plain_keys = [''code'', ''resourceId'', ''resourceType'', ''id'', ''status'', ''counts'', ''exceptions'', ''billingOperations'', ''matched'']"

lemma allowed_obj:
  assumes "\<forall>(k, v) \<in> set m. k \<in> set plain_keys \<and> \<not> containsForbiddenJSONKey v"
  shows "\<not> containsForbiddenJSONKey (GObj m)"
proof -
  have "list_all (\<lambda>k. go_lower k \<notin> set forbidden_keys) plain_keys" by code_simp
  with assms show ?thesis by (auto simp: list_all_iff forbidden_in_obj_iff)
qed

lemma exceptions_allowed: "\<not> forbidden_in_list (map exception_normal es)"
proof (induction es)
  case (Cons e es)
  have "\<not> containsForbiddenJSONKey (exception_normal e)"
    by (cases e) (simp only: exception_normal_def prod.case, rule allowed_obj, simp add: plain_keys_def)
  with Cons show ?case by simp
qed simp

definition normal_counts :: "nat \<Rightarrow> nat \<Rightarrow> nat \<Rightarrow> gov" where
  "normal_counts checked matched n =
     GObj [(''billingOperations'', GNum (show_int (int checked))), (''exceptions'', GNum (show_int (int n))),
           (''matched'', GNum (show_int (int matched)))]"

lemma report_norm:
  assumes "int64_range (int checked)" "int64_range (int matched)" "int64_range (int (length es))"
  shows "json_norm (GObj (reconciliationReport rid checked matched es)) =
     Some (GObj [(''counts'', normal_counts checked matched (length es)), (''exceptions'', GList (map exception_normal es)),
                 (''id'', GStr rid), (''status'', GStr (if es \<noteq> [] then ''mismatch'' else ''ok''))])"
proof -
  have l: "(\<lambda>(ty, rid, code). GObj [(''resourceType'', GStr ty), (''resourceId'', GStr rid), (''code'', GStr code)]) = exception_value"
    by (rule ext) (simp add: exception_value_def)
  show ?thesis
    using assms by (simp add: reconciliationReport_def l exceptions_norm normal_counts_def)
qed

lemma report_valid:
  assumes "trim_space rid \<noteq> []" and "int64_range (int checked)" and "int64_range (int (length es))" and "matched \<le> checked"
    and "\<forall>e \<in> set es. good_exception e" and "checked - matched = card ((\<lambda>(ty, rid, code). (ty, rid)) ` set es)"
  shows "validateReconciliationReport (Some (reconciliationReport rid checked matched es)) = None"
proof -
  let ?n = "[(''counts'', normal_counts checked matched (length es)), (''exceptions'', GList (map exception_normal es)),
                 (''id'', GStr rid), (''status'', GStr (if es \<noteq> [] then ''mismatch'' else ''ok''))]"
  let ?c = "[(''billingOperations'', GInt (int checked)), (''matched'', GInt (int matched)), (''exceptions'', GInt (int (length es)))]"
  have m: "int64_range (int matched)" using assms(2,4) by (simp add: int64_range_def min_int64_def)
  have norm: "json_norm (GObj (reconciliationReport rid checked matched es)) = Some (GObj ?n)" by (rule report_norm [OF assms(2) m assms(3)])
  have counts: "mget (reconciliationReport rid checked matched es) ''counts'' = GObj ?c" by (simp add: reconciliationReport_def)
  have valid: "report_counts_valid ?c (length es) = Some (int checked, int matched)"
    using assms(4) by (simp add: report_counts_valid_def int_where_def)
  have "\<not> containsForbiddenJSONKey (normal_counts checked matched (length es))"
    unfolding normal_counts_def by (rule allowed_obj) (simp add: plain_keys_def)
  then have allowed: "\<not> containsForbiddenJSONKey (GObj ?n)"
    using exceptions_allowed [of es] by (intro allowed_obj) (simp add: plain_keys_def)
  have keys: "int checked - int matched = int (length (remdups (map exception_key es)))"
    using assms(4,6) by (simp add: distinct_exception_keys [OF assms(5)])
  have "report_normal ?c ?n"
    unfolding report_normal_def using allowed assms(1) exception_resources_good [OF assms(5)] valid keys by simp
  with norm counts show ?thesis unfolding validateReconciliationReport_iff by blast
qed

lemma card_sort_exceptions: "card (f ` set (sort es)) = card (f ` set es)" by simp

lemma report_on_valid:
  assumes "trim_space rid \<noteq> []" and "int (3 * length rs) \<le> max_int64" and "distinct (map resource_key rs)"
    and "\<forall>res \<in> set rs. fst res \<in> {''compute'', ''storage'', ''workspace''} \<and> isOpaqueReference (sfield (snd res) ''id'')"
  shows "validateReconciliationReport (Some (report_on an rid rs)) = None"
  unfolding report_on_def
proof (rule report_valid)
  show "int64_range (int (length rs))" using assms(2) by (simp add: int64_range_def min_int64_def)
  show "int64_range (int (length (sort (billing_exceptions an rs))))"
    using assms(2) length_billing_exceptions [of an rs] by (simp add: int64_range_def min_int64_def)
  show "\<forall>e \<in> set (sort (billing_exceptions an rs)). good_exception e"
    using assms(4) resource_codes_known by (fastforce simp: billing_exceptions_def good_exception_def)
  show "length rs - length (filter (\<lambda>res. resource_codes an res = []) rs) =
      card ((\<lambda>(ty, rid, code). (ty, rid)) ` set (sort (billing_exceptions an rs)))"
    by (simp add: unmatched_count [OF assms(3)])
qed (use assms(1) in simp_all)

section \<open>What the tables hold\<close>

text \<open>The rows of a table have distinct identifiers, each an opaque reference.\<close>

definition table_ok :: "gomap list \<Rightarrow> bool" where
  "table_ok rows \<longleftrightarrow> distinct (map (\<lambda>row. sfield row ''id'') rows) \<and> (\<forall>row \<in> set rows. isOpaqueReference (sfield row ''id''))"

lemma note_renewal_keys: "distinct (map fst m) \<Longrightarrow> distinct (map fst (note_renewal op m))"
  by (auto simp: note_renewal_def distinct_update split: option.split)

lemma note_renewal_set: "(w, op') \<in> set (note_renewal op m) \<Longrightarrow> (w, op') \<in> set m \<or> w = ro_WorkspaceID op \<and> op' = op"
proof -
  have u: "(w, op') \<in> set (AList.update k v m) \<Longrightarrow> (w, op') \<in> set m \<or> w = k \<and> op' = v" for k v
    by (induction m) (auto split: if_splits)
  show "(w, op') \<in> set (note_renewal op m) \<Longrightarrow> ?thesis"
    using u by (auto simp: note_renewal_def split: option.splits if_splits)
qed

definition renewals_ok :: "gomap list \<Rightarrow> (string \<times> renewal_operation) list \<Rightarrow> bool" where
  "renewals_ok workspaces m \<longleftrightarrow>
     distinct (map fst m) \<and> (\<forall>(w, op) \<in> set m. w = ro_WorkspaceID op \<and> findRecord workspaces w \<noteq> None)"

lemma workspace_renewals_ok: "renewals_ok workspaces (workspace_renewals unm workspaces operations)"
proof -
  have step: "renewals_ok workspaces (note_renewal op m)" if "renewals_ok workspaces m" "renewal_holds workspaces op" for op m
    using that note_renewal_keys [of m op] note_renewal_set [of _ _ op m]
    by (fastforce simp: renewals_ok_def renewal_holds_def split: option.splits)
  have "renewals_ok workspaces m \<Longrightarrow> renewals_ok workspaces
      (fold (\<lambda>row m. if sfield row ''action'' \<noteq> ''workspace.renewal'' then m
                   else case decodeWorkspaceRenewalOperation unm row of
                          None \<Rightarrow> m
                        | Some op \<Rightarrow> if renewal_holds workspaces op then note_renewal op m else m) ops m)" for ops m
    by (induction ops arbitrary: m) (auto split: option.splits intro: step)
  moreover have "renewals_ok workspaces []" by (simp add: renewals_ok_def)
  ultimately show ?thesis unfolding workspace_renewals_def by blast
qed

lemma renewal_row_id [simp]: "sfield (workspaceRenewalBillingReconciliationRow w op) ''id'' = ro_WorkspaceID op"
  by (simp add: workspaceRenewalBillingReconciliationRow_def sfield_def)

lemma findRecord_id: "findRecord rows w = Some row \<Longrightarrow> row \<in> set rows \<and> sfield row ''id'' = w"
  by (auto simp: findRecord_def find_Some_iff)

lemma distinct_rows: "distinct (map (\<lambda>row. sfield row ''id'') rows) \<Longrightarrow> distinct (map (\<lambda>row. resource_key (ty, row)) (filter P rows))"
proof -
  assume "distinct (map (\<lambda>row. sfield row ''id'') rows)"
  then have "distinct (map (\<lambda>row. sfield row ''id'') (filter P rows))" by (rule distinct_map_filter)
  then show ?thesis by (auto simp: distinct_map inj_on_def resource_key_def)
qed

lemma billing_resources_ok:
  assumes "renewals_ok workspaces m" and "table_ok computes" and "table_ok storages" and "table_ok workspaces"
  defines "rs \<equiv> billing_resources workspaces m computes storages"
  shows "distinct (map resource_key rs)"
    and "\<forall>res \<in> set rs. fst res \<in> {''compute'', ''storage'', ''workspace''} \<and> isOpaqueReference (sfield (snd res) ''id'')"
proof -
  define ws where "ws = map (\<lambda>(wid, op). (''workspace'', workspaceRenewalBillingReconciliationRow (the (findRecord workspaces wid)) op)) m"
  obtain P Q where rs: "rs = sort_key (\<lambda>(ty, row). (ty, sfield row ''id''))
      (ws @ map (Pair ''compute'') (filter P computes) @ map (Pair ''storage'') (filter Q storages))"
    by (simp add: rs_def billing_resources_def Let_def ws_def)
  have r: "w = ro_WorkspaceID op \<and> findRecord workspaces w \<noteq> None" if "(w, op) \<in> set m" for w op
    using that assms(1) by (auto simp: renewals_ok_def)
  have "map resource_key ws = map (\<lambda>(w, op). (''workspace'', w)) m"
    using r by (auto simp: ws_def resource_key_def)
  also have "\<dots> = map (Pair ''workspace'') (map fst m)" by auto
  finally have "distinct (map resource_key ws)" using assms(1) by (simp add: renewals_ok_def distinct_map inj_on_def)
  moreover have "distinct (map resource_key (map (Pair ty) (filter R rows)))" if "table_ok rows" for ty R rows
    using distinct_rows [of rows ty R] that by (simp add: table_ok_def comp_def)
  ultimately have "distinct (map resource_key (ws @ map (Pair ''compute'') (filter P computes) @ map (Pair ''storage'') (filter Q storages)))"
    using assms(2,3) by (auto simp: ws_def resource_key_def simp del: map_map)
  then show "distinct (map resource_key rs)"
    unfolding rs by (simp add: distinct_map del: map_append) 
  have "isOpaqueReference w" if "(w, op) \<in> set m" for w op
    using r [OF that] findRecord_id [of workspaces w] assms(4) by (fastforce simp: table_ok_def)
  then show "\<forall>res \<in> set rs. fst res \<in> {''compute'', ''storage'', ''workspace''} \<and> isOpaqueReference (sfield (snd res) ''id'')"
    unfolding rs using assms(2,3) r by (fastforce simp: ws_def table_ok_def)
qed

section \<open>The contract\<close>

lemma sort_key_length [simp]: "length (billing_resources workspaces m computes storages) \<le> length m + length computes + length storages"
  by (simp add: billing_resources_def Let_def) (meson add_mono le_refl length_filter_le)

lemma note_renewal_length: "length (note_renewal op m) \<le> Suc (length m)"
proof -
  have "length (AList.update k v m) \<le> Suc (length m)" for k v
    by (induction m) auto
  then show ?thesis by (auto simp: note_renewal_def split: option.split)
qed

lemma workspace_renewals_length: "length (workspace_renewals unm workspaces operations) \<le> length operations"
proof -
  define f where "f = (\<lambda>row m. if sfield row ''action'' \<noteq> ''workspace.renewal'' then m
                   else case decodeWorkspaceRenewalOperation unm row of
                          None \<Rightarrow> m
                        | Some op \<Rightarrow> if renewal_holds workspaces op then note_renewal op m else m)"
  have step: "length (f row m) \<le> Suc (length m)" for row m
    by (simp add: f_def note_renewal_length split: option.split)
  have "length (fold f ops m) \<le> length ops + length m" for ops m
  proof (induction ops arbitrary: m)
    case (Cons row ops)
    from Cons [of "f row m"] step [of row m] show ?case by simp
  qed simp
  from this [of operations "[]"] show ?thesis by (simp add: workspace_renewals_def f_def)
qed

lemma RecordReconciliation_first:
  assumes "trim_space key \<noteq> []" and "validateReconciliationReport (Some report) = None" and "ls_reconciliationIdempotency s key = None"
    and "clock_ok now"
  shows "\<exists>r s'. RecordReconciliation hx now \<lparr>rx_report = Some report, rx_idempotencyKey = key\<rparr> s = (Ok r, s') \<and>
     rs_status r = sfield report ''status'' \<and> rs_blockNewWorkspaces r = (sfield report ''status'' = ''mismatch'')"
proof -
  have v: "validateReconciliationInput \<lparr>rx_report = Some report, rx_idempotencyKey = key\<rparr> = None"
    using assms(1,2) by (simp add: validateReconciliationInput_def)
  obtain n where n: "json_norm (GObj report) = Some n" using assms(2) unfolding validateReconciliationReport_iff by blast
  then have h: "hashJSON hx (field_json (Some report)) = Some (hx_json hx n)"
    by (simp only: hashJSON_def field_json_def option.case option.map)
  show ?thesis
    using v h assms(3) mk_reconciliation_clone(1) [OF v assms(4)]
    by (simp add: RecordReconciliation_def Let_def) (simp add: mk_reconciliation_def sfield_def Let_def)
qed

text \<open>C39: the report that the control plane computes over tables with proper identifiers is
  accepted by the Ledger the first time its key is used, and comes back with the same status, blocking
  new workspaces exactly when it is a mismatch.\<close>

theorem reconciliation_recorded:
  assumes "billingReconciliationReport sha unm an key = Some report"
    and "an_computes an = Some computes" and "an_storages an = Some storages" and "an_workspaces an = Some workspaces"
    and "an_operations an = Some operations" and "table_ok computes" and "table_ok storages" and "table_ok workspaces"
    and "int (3 * (length operations + length computes + length storages)) \<le> max_int64"
    and "trim_space key \<noteq> []" and "ls_reconciliationIdempotency s key = None"
    and "clock_ok now"
  shows "\<exists>r s'. RecordReconciliation hx now \<lparr>rx_report = Some report, rx_idempotencyKey = key\<rparr> s = (Ok r, s') \<and>
     rs_status r = sfield report ''status'' \<and> rs_blockNewWorkspaces r = (sfield report ''status'' = ''mismatch'')"
proof (rule RecordReconciliation_first [OF assms(10) _ assms(11,12)])
  let ?m = "workspace_renewals unm workspaces operations"
  let ?rs = "billing_resources workspaces ?m computes storages"
  have rep: "report = report_on an (''reconciliation-'' @ take 18 (stableID sha [key])) ?rs"
    using assms(1-5) by (simp add: billingReconciliationReport_def)
  have "list_all (\<lambda>p. CHR ''r'' \<notin> set p) go_spaces" by (simp add: go_spaces_def)
  from trim_keeps [OF this] have rid: "trim_space (''reconciliation-'' @ take 18 (stableID sha [key])) \<noteq> []" by simp
  have "length ?rs \<le> length operations + length computes + length storages"
    using sort_key_length [of workspaces ?m computes storages] workspace_renewals_length [of unm workspaces operations] by linarith
  then have "int (3 * length ?rs) \<le> int (3 * (length operations + length computes + length storages))"
    by (intro of_nat_mono mult_le_mono2)
  with assms(9) have "int (3 * length ?rs) \<le> max_int64" by (rule order_trans [rotated])
  from report_on_valid [OF rid this billing_resources_ok [OF workspace_renewals_ok assms(6-8)], of an]
  show "validateReconciliationReport (Some report) = None" unfolding rep .
qed

theorem reconciliation_recorded_witness:
  "\<exists>report r s'. billingReconciliationReport (\<lambda>_. ''0123456789abcdef0123'') (\<lambda>_. Some ex_renewal) ex_answers ''key'' = Some report \<and>
     RecordReconciliation (\<lparr>hx_bytes = id, hx_json = (\<lambda>_. [])\<rparr>) unix_epoch \<lparr>rx_report = Some report, rx_idempotencyKey = ''key''\<rparr> NewMemoryStore = (Ok r, s') \<and>
     rs_blockNewWorkspaces r = (sfield report ''status'' = ''mismatch'')"
proof -
  obtain report where r: "billingReconciliationReport (\<lambda>_. ''0123456789abcdef0123'') (\<lambda>_. Some ex_renewal) ex_answers ''key'' = Some report"
    by (simp add: billingReconciliationReport_def ex_answers_def)
  have a: "an_computes ex_answers = Some []" "an_storages ex_answers = Some []"
    "an_workspaces ex_answers = Some (the (an_workspaces ex_answers))" "an_operations ex_answers = Some (the (an_operations ex_answers))"
    by (simp_all add: ex_answers_def)
  have t: "table_ok []" "table_ok (the (an_workspaces ex_answers))" by code_simp+
  have n: "int (3 * (length (the (an_operations ex_answers)) + length ([] :: gomap list) + length ([] :: gomap list))) \<le> max_int64"
    by (simp add: ex_answers_def max_int64_def)
  have k: "trim_space ''key'' \<noteq> []" by code_simp
  have e: "ls_reconciliationIdempotency NewMemoryStore ''key'' = None" by (simp add: NewMemoryStore_def)
  have c: "clock_ok unix_epoch" by code_simp
  from reconciliation_recorded [OF r a t(1) t(1) t(2) n k e c, of "\<lparr>hx_bytes = id, hx_json = (\<lambda>_. [])\<rparr>"] r show ?thesis by blast
qed

end
