(* ===== verification/CP_Calls.thy ===== *)
theory CP_Calls
  imports "HOL-Library.State_Monad"
begin

text \<open>
  Computations that call other services: a state monad over the log of all calls, latest first.
  Every answer is a function of the log so far, so a service may answer differently from call to
  call in any way. The rules take a computation apart from the front; they serve every saga of the
  control plane, each with its own type of calls.
\<close>

section \<open>Calls\<close>

type_synonym ('c, 'a) calling = "('c list, 'a) state"

definition ret :: "'a \<Rightarrow> ('c, 'a) calling" where "ret a = State (\<lambda>log. (a, log))"

text \<open>A call: the answer on the log so far, and its entry in the log.\<close>

definition ask :: "('c list \<Rightarrow> 'a) \<Rightarrow> ('a \<Rightarrow> 'c) \<Rightarrow> ('c, 'a) calling" where
  "ask answer entry = State (\<lambda>log. (answer log, entry (answer log) # log))"

section \<open>What holds of every run\<close>

text \<open>Hoare triples over the log; each rule takes a computation apart from the front.\<close>

definition runs :: "('c list \<Rightarrow> bool) \<Rightarrow> ('c, 'a) calling \<Rightarrow> ('a \<Rightarrow> 'c list \<Rightarrow> bool) \<Rightarrow> bool" where
  "runs P m Q \<longleftrightarrow> (\<forall>log. P log \<longrightarrow> (case run_state m log of (a, log') \<Rightarrow> Q a log'))"

lemma runs_ret: "(\<And>log. P log \<Longrightarrow> Q a log) \<Longrightarrow> runs P (ret a) Q"
  by (simp add: runs_def ret_def)

lemma runs_bind: "runs P m R \<Longrightarrow> (\<And>a. runs (R a) (f a) Q) \<Longrightarrow> runs P (m \<bind> f) Q"
  by (fastforce simp: runs_def split: prod.splits)

lemma runs_ask: "(\<And>log. P log \<Longrightarrow> Q (answer log) (entry (answer log) # log)) \<Longrightarrow> runs P (ask answer entry) Q"
  by (simp add: runs_def ask_def)

lemma runs_pre: "runs P' m Q \<Longrightarrow> (\<And>log. P log \<Longrightarrow> P' log) \<Longrightarrow> runs P m Q"
  by (simp add: runs_def)

lemma runs_post: "runs P m Q' \<Longrightarrow> (\<And>a log. Q' a log \<Longrightarrow> Q a log) \<Longrightarrow> runs P m Q"
  by (auto simp: runs_def split: prod.splits)

lemma runs_conj: "runs P m Q \<Longrightarrow> runs P' m Q' \<Longrightarrow> runs (\<lambda>l. P l \<and> P' l) m (\<lambda>a l. Q a l \<and> Q' a l)"
  by (auto simp: runs_def split: prod.splits)

lemma runs_fact: "(A \<Longrightarrow> runs P m Q) \<Longrightarrow> runs (\<lambda>l. A \<and> P l) m Q"
  by (auto simp: runs_def)

lemma runs_if: "(b \<Longrightarrow> runs P m Q) \<Longrightarrow> (\<not> b \<Longrightarrow> runs P n Q) \<Longrightarrow> runs P (if b then m else n) Q"
  by simp

lemma runs_option: "(x = None \<Longrightarrow> runs P m Q) \<Longrightarrow> (\<And>a. x = Some a \<Longrightarrow> runs P (f a) Q) \<Longrightarrow>
    runs P (case x of None \<Rightarrow> m | Some a \<Rightarrow> f a) Q"
  by (cases x) simp_all

lemma runs_sum: "(\<And>e. x = Inl e \<Longrightarrow> runs P (f e) Q) \<Longrightarrow> (\<And>a. x = Inr a \<Longrightarrow> runs P (g a) Q) \<Longrightarrow>
    runs P (case x of Inl e \<Rightarrow> f e | Inr a \<Rightarrow> g a) Q"
  by (cases x) simp_all

lemma runs_prod: "(\<And>a b. x = (a, b) \<Longrightarrow> runs P (f a b) Q) \<Longrightarrow> runs P (case x of (a, b) \<Rightarrow> f a b) Q"
  by (cases x) simp

lemma runs_list: "(x = [] \<Longrightarrow> runs P m Q) \<Longrightarrow> (\<And>a b. x = a # b \<Longrightarrow> runs P (f a b) Q) \<Longrightarrow>
    runs P (case x of [] \<Rightarrow> m | a # b \<Rightarrow> f a b) Q"
  by (cases x) simp_all

lemmas runs_intros = runs_if runs_option runs_sum runs_prod runs_bind

lemma runsD: "runs P m Q \<Longrightarrow> P log \<Longrightarrow> run_state m log = (a, log') \<Longrightarrow> Q a log'"
  by (auto simp: runs_def)

section \<open>What every call satisfies\<close>

text \<open>\<open>does P m Q\<close>: every call of \<open>m\<close> satisfies \<open>P\<close> and its result
  \<open>Q\<close>, whatever is answered.\<close>

definition does :: "('c \<Rightarrow> bool) \<Rightarrow> ('c, 'a) calling \<Rightarrow> ('a \<Rightarrow> bool) \<Rightarrow> bool" where
  "does P m Q \<longleftrightarrow>
     (\<forall>log. Q (fst (run_state m log)) \<and> (\<exists>new. snd (run_state m log) = new @ log \<and> list_all P new))"

lemma run_bind:
  "fst (run_state (m \<bind> f) log) = fst (run_state (f (fst (run_state m log))) (snd (run_state m log)))"
  "snd (run_state (m \<bind> f) log) = snd (run_state (f (fst (run_state m log))) (snd (run_state m log)))"
  by (simp_all split: prod.split)

lemma doesE:
  assumes "does P m Q"
  obtains new where "snd (run_state m log) = new @ log" "list_all P new" "Q (fst (run_state m log))"
  using assms that unfolding does_def by blast

lemma does_ret: "Q a \<Longrightarrow> does P (ret a) Q"
  by (simp add: does_def ret_def)

lemma does_ask: "(\<And>a. P (entry a)) \<Longrightarrow> (\<And>a. Q a) \<Longrightarrow> does P (ask answer entry) Q"
  by (auto simp: does_def ask_def intro: exI [of _ "[_]"])

lemma does_bind:
  assumes "does P m R" and "\<And>a. R a \<Longrightarrow> does P (f a) Q"
  shows "does P (m \<bind> f) Q"
  unfolding does_def
proof (intro allI)
  fix log
  from assms(1) obtain new1 where 1: "snd (run_state m log) = new1 @ log" "list_all P new1" "R (fst (run_state m log))"
    by (rule doesE)
  from assms(2) [OF 1(3)] obtain new2 where 2: "snd (run_state (f (fst (run_state m log))) (snd (run_state m log))) = new2 @ snd (run_state m log)"
    "list_all P new2" "Q (fst (run_state (f (fst (run_state m log))) (snd (run_state m log))))"
    by (rule doesE)
  then have "snd (run_state (m \<bind> f) log) = (new2 @ new1) @ log \<and> list_all P (new2 @ new1)"
    using 1 by (simp add: run_bind del: run_state_bind)
  with 2(3) show "Q (fst (run_state (m \<bind> f) log)) \<and> (\<exists>new. snd (run_state (m \<bind> f) log) = new @ log \<and> list_all P new)"
    unfolding run_bind by blast
qed

lemma does_post: "does P m Q' \<Longrightarrow> (\<And>a. Q' a \<Longrightarrow> Q a) \<Longrightarrow> does P m Q"
  by (auto simp: does_def)

lemma does_weaken: "does P m Q \<Longrightarrow> does P m (\<lambda>_. True)"
  by (auto simp: does_def)

lemma does_calls: "does P m Q \<Longrightarrow> (\<And>c. P c \<Longrightarrow> P' c) \<Longrightarrow> does P' m Q"
  unfolding does_def list_all_iff by metis

lemma does_conj: "does P m Q \<Longrightarrow> does P' m Q' \<Longrightarrow> does (\<lambda>c. P c \<and> P' c) m (\<lambda>a. Q a \<and> Q' a)"
  unfolding does_def list_all_iff by (metis append_same_eq)

lemma does_if: "(b \<Longrightarrow> does P m Q) \<Longrightarrow> (\<not> b \<Longrightarrow> does P n Q) \<Longrightarrow> does P (if b then m else n) Q"
  by simp

lemma does_option: "(x = None \<Longrightarrow> does P m Q) \<Longrightarrow> (\<And>a. x = Some a \<Longrightarrow> does P (f a) Q) \<Longrightarrow>
    does P (case x of None \<Rightarrow> m | Some a \<Rightarrow> f a) Q"
  by (cases x) simp_all

lemma does_sum: "(\<And>e. x = Inl e \<Longrightarrow> does P (f e) Q) \<Longrightarrow> (\<And>a. x = Inr a \<Longrightarrow> does P (g a) Q) \<Longrightarrow>
    does P (case x of Inl e \<Rightarrow> f e | Inr a \<Rightarrow> g a) Q"
  by (cases x) simp_all

lemma does_prod: "(\<And>a b. x = (a, b) \<Longrightarrow> does P (f a b) Q) \<Longrightarrow> does P (case x of (a, b) \<Rightarrow> f a b) Q"
  by (cases x) simp

lemma does_list: "(x = [] \<Longrightarrow> does P m Q) \<Longrightarrow> (\<And>a b. x = a # b \<Longrightarrow> does P (f a b) Q) \<Longrightarrow>
    does P (case x of [] \<Rightarrow> m | a # b \<Rightarrow> f a b) Q"
  by (cases x) simp_all

named_theorems does_rules \<open>rules for operations: what they return\<close>

lemmas does_cases = does_if does_option does_sum does_prod does_list

lemma does_all: "does P m Q \<Longrightarrow> c \<in> set (snd (run_state m [])) \<Longrightarrow> P c"
  by (rule doesE [of P m Q "[]"]) (auto simp: list_all_iff)

definition calls_of :: "('c, 'a) calling \<Rightarrow> 'c set" where
  "calls_of m = set (snd (run_state m []))"

lemma does_calls_of: "does P m Q \<Longrightarrow> c \<in> calls_of m \<Longrightarrow> P c"
  unfolding calls_of_def by (rule does_all)

lemma does_bindI: "does P m (\<lambda>a. does P (f a) Q) \<Longrightarrow> does P (m \<bind> f) Q"
  by (rule does_bind)

text \<open>Calls that only add to the log what a property of logs tolerates keep that property.\<close>

lemma does_runs:
  assumes "does P m Q" and "\<And>c l. P c \<Longrightarrow> I l \<Longrightarrow> I (c # l)"
  shows "runs I m (\<lambda>a l. Q a \<and> I l)"
  unfolding runs_def
proof (intro allI impI)
  fix log
  assume "I log"
  from assms(1) obtain new where new: "snd (run_state m log) = new @ log" "list_all P new" "Q (fst (run_state m log))"
    by (rule doesE)
  have "I (ys @ log)" if "list_all P ys" for ys
    using that by (induction ys) (auto intro: assms(2) simp: \<open>I log\<close>)
  with new show "case run_state m log of (a, log') \<Rightarrow> Q a \<and> I log'"
    by (simp add: case_prod_beta)
qed

section \<open>What is returned\<close>

definition gives :: "('c, 'a) calling \<Rightarrow> ('a \<Rightarrow> bool) \<Rightarrow> bool" where
  "gives m Q \<longleftrightarrow> (\<forall>log. Q (fst (run_state m log)))"

lemma gives_ret: "Q a \<Longrightarrow> gives (ret a) Q"
  by (simp add: gives_def ret_def)

lemma gives_bind: "(\<And>a. gives (f a) Q) \<Longrightarrow> gives (m \<bind> f) Q"
  unfolding gives_def run_bind by blast

lemma gives_bindI: "gives m (\<lambda>a. gives (f a) Q) \<Longrightarrow> gives (m \<bind> f) Q"
  unfolding gives_def run_bind by blast

lemma gives_cases:
  "(b \<Longrightarrow> gives m Q) \<Longrightarrow> (\<not> b \<Longrightarrow> gives n Q) \<Longrightarrow> gives (if b then m else n) Q"
  "(x = None \<Longrightarrow> gives m Q) \<Longrightarrow> (\<And>a. x = Some a \<Longrightarrow> gives (f a) Q) \<Longrightarrow> gives (case x of None \<Rightarrow> m | Some a \<Rightarrow> f a) Q"
  "(\<And>e. y = Inl e \<Longrightarrow> gives (g e) Q) \<Longrightarrow> (\<And>a. y = Inr a \<Longrightarrow> gives (h a) Q) \<Longrightarrow>
     gives (case y of Inl e \<Rightarrow> g e | Inr a \<Rightarrow> h a) Q"
  "(\<And>a b. z = (a, b) \<Longrightarrow> gives (k a b) Q) \<Longrightarrow> gives (case z of (a, b) \<Rightarrow> k a b) Q"
  by (auto split: option.split sum.split prod.split)

lemma bind_eqI: "gives m (\<lambda>a. f a = g a) \<Longrightarrow> m \<bind> f = m \<bind> g"
  unfolding gives_def by (cases m) (simp add: State_Monad.bind_def case_prod_beta)

section \<open>Evaluation\<close>

text \<open>Runs are evaluated from the front; nothing is looked at under a continuation.\<close>

lemma bind_front: "m = m' \<Longrightarrow> State_Monad.bind m f = State_Monad.bind m' f"
  by simp

lemma run_then: "run_state (m \<bind> f) l = (case run_state m l of (a, l') \<Rightarrow> run_state (f a) l')"
  by (simp add: State_Monad.bind_def)

lemma run_front: "m = m' \<Longrightarrow> l = l' \<Longrightarrow> run_state m l = run_state m' l'"
  by simp

lemma case_front: "p = p' \<Longrightarrow> case_prod f p = case_prod f p'"
  by simp

lemma run_ret: "run_state (ret a) l = (a, l)"
  by (simp add: ret_def)

lemma run_ask: "run_state (ask f e) l = (f l, e (f l) # l)"
  by (simp add: ask_def)

lemmas run_calls = run_then run_ret run_ask

end
