(* ===== verification/CP_Launch_Types.thy ===== *)
theory CP_Launch_Types
  imports CP_Reconcile Ledger_Types CP_Calls
begin

text \<open>
  What the launch of a workspace works with, after
  \<^verbatim>\<open>services/control-plane/internal/server/workspace_launch.go\<close> and
  \<^verbatim>\<open>services/control-plane/internal/controlplane/service.go\<close>. A computation is a state
  monad over the log of all calls to the tables and to the three services, latest first. Every
  answer is a function of the log so far, so it may change from call to call in any way; the
  functions together are the record \<open>services\<close>. Locks only serialise launches and are not
  modelled.
\<close>

section \<open>The operation\<close>

record launch_operation =
  lo_ID :: string
  lo_Status :: string
  lo_CreatedAt :: string
  lo_PersistedResult :: string
  lo_SchemaVersion :: int
  lo_RequestHash :: string
  lo_Phase :: string
  lo_AccountID :: string
  lo_OwnerUserID :: string
  lo_WorkspaceID :: string
  lo_Name :: string
  lo_PackageID :: string
  lo_StorageGB :: int
  lo_AutoRenew :: bool
  lo_PriceVersion :: string
  lo_TotalChargeUSDMicros :: int
  lo_PeriodStart :: string
  lo_PaidThrough :: string
  lo_BillingAnchorDay :: int
  lo_ComputeID :: string
  lo_ComputeNodePoolID :: string
  lo_StorageID :: string
  lo_AttachmentID :: string
  lo_AttachmentOperationID :: string
  lo_WorkspaceOperationID :: string
  lo_WorkspaceAPIKeyID :: int
  lo_RedeemCode :: string
  lo_RefundCode :: string
  lo_ChargeAttempted :: bool
  lo_ChargeConfirmation :: "gomap option"
  lo_PreChargeBalanceUSDMicros :: int
  lo_PostChargeBalanceUSDMicros :: int
  lo_PostChargeBalanceKnown :: bool
  lo_RefundAttempted :: bool
  lo_RefundConfirmation :: "gomap option"
  lo_RefundReason :: string
  lo_RefundReceiptID :: string
  lo_LeaseToken :: string
  lo_LeaseExpiresAt :: string
  lo_GatewaySecretRef :: string
  lo_WorkspaceKeyStatus :: string
  lo_WorkspaceKeyFingerprint :: string
  lo_RuntimeID :: string
  lo_RuntimeReady :: bool
  lo_RuntimeServiceName :: string
  lo_RuntimeUsername :: string
  lo_CredentialStatus :: string
  lo_CredentialVersion :: string
  lo_CredentialSecretRef :: string
  lo_URL :: string
  lo_ReceiptID :: string
  lo_ErrorCode :: string

definition workspaceLaunchAction :: string where "workspaceLaunchAction = ''workspace.launch.v2''"
definition workspaceLaunchSchemaVersion :: int where "workspaceLaunchSchemaVersion = 2"

definition isWorkspaceLaunchAction :: "string \<Rightarrow> bool" where
  "isWorkspaceLaunchAction action \<longleftrightarrow> action = workspaceLaunchAction \<or> action = ''workspace.launch''"

definition terminalWorkspaceLaunchStatus :: "string \<Rightarrow> bool" where
  "terminalWorkspaceLaunchStatus status \<longleftrightarrow> status = ''succeeded'' \<or> status = ''refunded'' \<or> status = ''failed''"

section \<open>Messages\<close>

record workspace_key =
  wk_ID :: int
  wk_UserID :: int
  wk_Name :: string
  wk_Key :: string
  wk_Status :: string

record charge_input =
  ci_UserID :: int
  ci_Code :: string
  ci_USDMicros :: int
  ci_Notes :: string

record charge =
  ch_Code :: string
  ch_UserID :: int
  ch_USDMicros :: int
  ch_Status :: string

record compute_input =
  cp_ID :: string
  cp_AccountID :: string
  cp_WorkspaceID :: string
  cp_PackageID :: string
  cp_NodePoolID :: string

record storage_input =
  st_ID :: string
  st_AccountID :: string
  st_WorkspaceID :: string
  st_ComputeID :: string
  st_Zone :: string
  st_SizeGB :: int

record attachment_input =
  at_WorkspaceID :: string
  at_ComputeID :: string
  at_VolumeID :: string

record storage_attachment =
  sa_ID :: string
  sa_WorkspaceID :: string
  sa_ComputeID :: string
  sa_VolumeID :: string
  sa_Status :: string
  sa_Provider :: string
  sa_ProviderAttachmentID :: string
  sa_ProviderRequestID :: string
  sa_MountPath :: string

record secret_input =
  si_AccountID :: string
  si_WorkspaceID :: string
  si_WorkspaceAPIKeyID :: int
  si_Fingerprint :: string
  si_GatewayAPIKey :: string

record secret_result =
  sr_SecretRef :: string
  sr_Version :: string
  sr_Fingerprint :: string

record runtime_input =
  rt_WorkspaceID :: string
  rt_ComputeID :: string
  rt_VolumeID :: string
  rt_ImageID :: string
  rt_GatewaySecretRef :: string

record workspace_runtime =
  wr_ID :: string
  wr_WorkspaceID :: string
  wr_URL :: string
  wr_Status :: string
  wr_ServiceName :: string
  wr_Username :: string
  wr_CredentialStatus :: string
  wr_CredentialVersion :: string
  wr_SecretRef :: string
  wr_Ready :: bool

record provider_truth =
  pt_ComputeState :: string
  pt_StorageState :: string
  pt_Compute :: gomap
  pt_Storage :: gomap

record workspace_projection =
  wp_ID :: string
  wp_AccountID :: string
  wp_OwnerID :: string
  wp_Name :: string
  wp_PackageID :: string
  wp_Provider :: string
  wp_URL :: string
  wp_Status :: string
  wp_ComputeID :: string
  wp_VolumeID :: string
  wp_AttachmentID :: string
  wp_RuntimeID :: string
  wp_RuntimeServiceName :: string
  wp_WorkspaceAPIKeyID :: int
  wp_RuntimeReady :: bool
  wp_RuntimeUsername :: string
  wp_CredentialStatus :: string
  wp_CredentialVersion :: string
  wp_CredentialSecretRef :: string
  wp_ReceiptID :: string

section \<open>Errors\<close>

text \<open>The errors the code tells apart with \<^verbatim>\<open>errors.Is\<close>, and the rest by its text. A
  returned error is the list of the joined ones, empty for nil.\<close>

datatype svc_error =
    ErrSub2APIChargeUnknown
  | ErrMonthlyInsufficientBalance
  | ErrWorkspaceRuntimeIdentityMismatch
  | ErrWorkspaceRuntimeReadbackInvalid
  | ErrWorkspaceActivationConflict
  | ErrWorkspaceLaunchCASConflict
  | ErrWorkspaceLaunchInProgress
  | ErrFabricConflict
  | ErrSub2APIWorkspaceKeyMissing
  | ErrSub2APIWorkspaceKeyAmbiguous
  | ErrStorageVolumeNotFound
  | ErrAccount account_error
  | ErrText string

section \<open>Calls and their answers\<close>

datatype call =
    Read string
  | Claim launch_operation bool
  | Persist launch_operation bool
  | Charge charge_input
  | Refund charge_input
  | CreateKey int string string
  | CreateCompute compute_input string
  | CreateStorage storage_input string
  | CreateAttachment attachment_input string
  | WriteSecret secret_input string
  | CreateRuntime runtime_input string
  | SaveCompute gomap
  | SaveStorage gomap
  | SaveAttachment gomap
  | ActivateWorkspace gomap
  | SaveWorkspace gomap
  | RecordReceiptCall receipt_input

type_synonym calls = "call list"
type_synonym 'a act = "(call, 'a) calling"

record fabric_package =
  fp_ID :: string
  fp_Name :: string
  fp_ComputeProfileID :: string
  fp_Provider :: string
  fp_Available :: bool
  fp_CPU :: int
  fp_MemoryGB :: int
  fp_DiskGB :: int

record services =
  sv_env :: environment
  sv_sha :: "string \<Rightarrow> string"
  sv_sha256 :: "string \<Rightarrow> string"
  sv_marshal :: "launch_operation \<Rightarrow> string"
  sv_unmarshal :: "string \<Rightarrow> launch_operation option"
  sv_encodeBillingState :: "gomap \<Rightarrow> string option"
  sv_acceptedBillingState :: "gomap \<Rightarrow> gomap option"
  sv_workerEnabled :: bool
  sv_now :: "calls \<Rightarrow> instant"
  sv_SessionUser :: "calls \<Rightarrow> gomap option"
  sv_BillingReconciliation :: "calls \<Rightarrow> gomap option"
  sv_FabricCatalog :: "calls \<Rightarrow> (svc_error, fabric_package list) res"
  sv_ListRuntimeOperations :: "calls \<Rightarrow> gomap list option"
  sv_ListUsers :: "calls \<Rightarrow> gomap list option"
  sv_ListAccounts :: "calls \<Rightarrow> string \<Rightarrow> gomap list option"
  sv_ListOrganizations :: "calls \<Rightarrow> gomap list option"
  sv_ListMemberships :: "calls \<Rightarrow> gomap list option"
  sv_ListComputes :: "calls \<Rightarrow> gomap list"
  sv_ListStorages :: "calls \<Rightarrow> gomap list"
  sv_ListAttachments :: "calls \<Rightarrow> string \<Rightarrow> gomap list"
  sv_ListWorkspaces :: "calls \<Rightarrow> gomap list"
  sv_Workspace :: "calls \<Rightarrow> string \<Rightarrow> gomap option"
  sv_ClaimWorkspaceLaunch :: "calls \<Rightarrow> string \<Rightarrow> launch_operation \<Rightarrow> svc_error option"
  sv_PersistWorkspaceLaunch :: "calls \<Rightarrow> string \<Rightarrow> launch_operation \<Rightarrow> svc_error option"
  sv_SaveCompute :: "calls \<Rightarrow> gomap \<Rightarrow> svc_error option"
  sv_SaveStorage :: "calls \<Rightarrow> gomap \<Rightarrow> svc_error option"
  sv_SaveAttachment :: "calls \<Rightarrow> gomap \<Rightarrow> svc_error option"
  sv_ActivateWorkspace :: "calls \<Rightarrow> gomap \<Rightarrow> svc_error option"
  sv_SaveWorkspace :: "calls \<Rightarrow> gomap \<Rightarrow> svc_error option"
  sv_GatewayKeys :: "calls \<Rightarrow> int \<Rightarrow> (svc_error, workspace_key list) res"
  sv_GatewayUserKeys :: "calls \<Rightarrow> int \<Rightarrow> (svc_error, workspace_key list) res"
  sv_CreateGatewayUserKey :: "calls \<Rightarrow> int \<Rightarrow> string \<Rightarrow> string \<Rightarrow> svc_error option \<times> int"
  sv_WorkspaceKey :: "calls \<Rightarrow> int \<Rightarrow> (svc_error, workspace_key) res"
  sv_Balance :: "calls \<Rightarrow> int \<Rightarrow> (svc_error, int) res"
  sv_BalanceHistory :: "calls \<Rightarrow> int \<Rightarrow> (svc_error, balance_entry list) res"
  sv_Charge :: "calls \<Rightarrow> charge_input \<Rightarrow> (svc_error, charge) res"
  sv_Refund :: "calls \<Rightarrow> charge_input \<Rightarrow> (svc_error, charge) res"
  sv_MonthlyPreflight :: "calls \<Rightarrow> preflight_input \<Rightarrow> (svc_error, preflight) res"
  sv_MonthlyProviderTruth :: "calls \<Rightarrow> string \<Rightarrow> string \<Rightarrow> (svc_error, provider_truth) res"
  sv_CreateCompute :: "calls \<Rightarrow> compute_input \<Rightarrow> string \<Rightarrow> svc_error option \<times> gomap"
  sv_CreateStorage :: "calls \<Rightarrow> storage_input \<Rightarrow> string \<Rightarrow> svc_error option \<times> gomap"
  sv_SyncCompute :: "calls \<Rightarrow> string \<Rightarrow> svc_error option \<times> gomap"
  sv_SyncStorage :: "calls \<Rightarrow> string \<Rightarrow> svc_error option \<times> gomap"
  sv_CreateAttachment :: "calls \<Rightarrow> attachment_input \<Rightarrow> string \<Rightarrow> (svc_error, storage_attachment) res"
  sv_WriteSecret :: "calls \<Rightarrow> secret_input \<Rightarrow> string \<Rightarrow> (svc_error, secret_result) res"
  sv_CreateRuntime :: "calls \<Rightarrow> runtime_input \<Rightarrow> string \<Rightarrow> (svc_error, workspace_runtime) res"
  sv_RuntimeStatus :: "calls \<Rightarrow> string \<Rightarrow> (svc_error, workspace_runtime) res"
  sv_RecordReceipt :: "calls \<Rightarrow> receipt_input \<Rightarrow> (svc_error, string) res"

definition peek :: "string \<Rightarrow> (calls \<Rightarrow> 'a) \<Rightarrow> 'a act" where
  "peek what answer = ask answer (\<lambda>_. Read what)"

definition tell :: "call \<Rightarrow> (calls \<Rightarrow> 'a) \<Rightarrow> 'a act" where
  "tell c answer = ask answer (\<lambda>_. c)"

lemma runs_peek: "(\<And>log a. P log \<Longrightarrow> Q a (Read what # log)) \<Longrightarrow> runs P (peek what answer) Q"
  by (simp add: runs_def ask_def peek_def)

lemma runs_tell: "(\<And>log a. P log \<Longrightarrow> Q a (c # log)) \<Longrightarrow> runs P (tell c answer) Q"
  by (simp add: runs_def ask_def tell_def)


end
