(* ===== verification/CP_Launch_Debit.thy ===== *)
theory CP_Launch_Debit
  imports CP_Launch_Types
begin

text \<open>
  The operation row of a launch, its reading and writing, and the debit: everything of
  \<^verbatim>\<open>workspace_launch.go\<close> up to the phase ``debited''.
\<close>

section \<open>Rows\<close>

definition newWorkspaceLaunchOperation ::
    "services \<Rightarrow> instant \<Rightarrow> string \<Rightarrow> string \<Rightarrow> string \<Rightarrow> string \<Rightarrow> int \<Rightarrow> bool \<Rightarrow> string \<Rightarrow> int \<Rightarrow> string \<Rightarrow> launch_operation" where
  "newWorkspaceLaunchOperation sv now accountID ownerUserID name packageID storageGB autoRenew priceVersion charge key =
     (let sha = sv_sha sv;
          operationID = ''workspace-launch-'' @ take 18 (stableID sha [accountID, key])
      in \<lparr>lo_ID = operationID, lo_Status = ''debit_pending'', lo_CreatedAt = format_rfc3339nano now, lo_PersistedResult = [],
          lo_SchemaVersion = workspaceLaunchSchemaVersion,
          lo_RequestHash = stableID sha [''workspace-launch-v2'', accountID, ownerUserID, name, packageID, show_int storageGB,
             if autoRenew then ''true'' else ''false'', priceVersion],
          lo_Phase = ''debit_pending'', lo_AccountID = accountID, lo_OwnerUserID = ownerUserID,
          lo_WorkspaceID = ''ws-'' @ take 18 (stableID sha [''workspace-launch-v2'', accountID, operationID]),
          lo_Name = name, lo_PackageID = packageID, lo_StorageGB = storageGB, lo_AutoRenew = autoRenew,
          lo_PriceVersion = priceVersion, lo_TotalChargeUSDMicros = charge, lo_PeriodStart = format_rfc3339nano now,
          lo_PaidThrough = format_rfc3339nano (nextBillingMonth now (time_day now)), lo_BillingAnchorDay = time_day now,
          lo_ComputeID = resourceIDForMutation sha ''ca'' accountID (operationID @ '':compute''), lo_ComputeNodePoolID = [],
          lo_StorageID = resourceIDForMutation sha ''vol'' accountID (operationID @ '':storage''), lo_AttachmentID = [],
          lo_AttachmentOperationID = operationID @ '':attachment'', lo_WorkspaceOperationID = operationID @ '':workspace'',
          lo_WorkspaceAPIKeyID = 0, lo_RedeemCode = monthlyRedeemCode sha (NODE_ENV (sv_env sv)) operationID,
          lo_RefundCode = monthlyRefundCode sha (NODE_ENV (sv_env sv)) operationID, lo_ChargeAttempted = False,
          lo_ChargeConfirmation = None, lo_PreChargeBalanceUSDMicros = 0, lo_PostChargeBalanceUSDMicros = 0,
          lo_PostChargeBalanceKnown = False, lo_RefundAttempted = False, lo_RefundConfirmation = None, lo_RefundReason = [],
          lo_RefundReceiptID = [], lo_LeaseToken = [], lo_LeaseExpiresAt = [], lo_GatewaySecretRef = [], lo_WorkspaceKeyStatus = [],
          lo_WorkspaceKeyFingerprint = [], lo_RuntimeID = [], lo_RuntimeReady = False, lo_RuntimeServiceName = [],
          lo_RuntimeUsername = [], lo_CredentialStatus = [], lo_CredentialVersion = [], lo_CredentialSecretRef = [], lo_URL = [],
          lo_ReceiptID = [], lo_ErrorCode = []\<rparr>)"

text \<open>The day of a parsed time in its own zone is the anchor of an operation that has none.\<close>

definition fill_launch_period :: "launch_operation \<Rightarrow> launch_operation" where
  "fill_launch_period op =
     (let op = (if lo_PeriodStart op = [] then op\<lparr>lo_PeriodStart := lo_CreatedAt op\<rparr> else op)
      in case parse_rfc3339 (lo_PeriodStart op) of
           None \<Rightarrow> op
         | Some start \<Rightarrow>
             let op = (if lo_BillingAnchorDay op = 0
                       then op\<lparr>lo_BillingAnchorDay := time_day (fst start + snd start * ns_per_sec)\<rparr> else op)
             in if lo_PaidThrough op = []
                then op\<lparr>lo_PaidThrough := format_rfc3339nano (nextBillingMonth (fst start) (lo_BillingAnchorDay op))\<rparr> else op)"

definition decodeWorkspaceLaunchOperation :: "services \<Rightarrow> gomap \<Rightarrow> launch_operation option" where
  "decodeWorkspaceLaunchOperation sv row =
     (case sv_unmarshal sv (sfield row ''result'') of
        None \<Rightarrow> None
      | Some parsed \<Rightarrow>
          (let op = parsed\<lparr>lo_ID := first_text [sfield row ''operationId'', sfield row ''id''], lo_Status := sfield row ''status'',
                 lo_CreatedAt := sfield row ''createdAt'', lo_PersistedResult := sfield row ''result''\<rparr>;
               op = (if lo_RefundCode op = []
                     then op\<lparr>lo_RefundCode := monthlyRefundCode (sv_sha sv) (NODE_ENV (sv_env sv)) (lo_ID op)\<rparr> else op);
               op = fill_launch_period op;
               keyPending = (lo_Phase op = ''key_pending'' \<and> lo_WorkspaceAPIKeyID op = 0)
           in if lo_SchemaVersion op \<noteq> workspaceLaunchSchemaVersion \<or> lo_ID op = [] \<or> lo_Status op = [] \<or> lo_RequestHash op = [] \<or>
                 lo_AccountID op = [] \<or> lo_OwnerUserID op = [] \<or> lo_WorkspaceID op = [] \<or> lo_PriceVersion op = [] \<or>
                 lo_PackageID op = [] \<or> lo_StorageGB op \<le> 0 \<or> lo_TotalChargeUSDMicros op \<le> 0 \<or> lo_WorkspaceAPIKeyID op < 0 \<or>
                 (lo_WorkspaceAPIKeyID op = 0 \<and> \<not> keyPending) \<or> lo_RedeemCode op = [] then None
              else if list_ex (\<lambda>(field, want). sfield row field \<noteq> [] \<and> sfield row field \<noteq> want)
                        [(''accountId'', lo_AccountID op), (''workspaceId'', lo_WorkspaceID op), (''resourceId'', lo_WorkspaceID op),
                         (''resourceKind'', ''workspace_launch''), (''action'', workspaceLaunchAction)] then None
              else Some op))"

definition workspaceLaunchOperationRow :: "services \<Rightarrow> launch_operation \<Rightarrow> gomap" where
  "workspaceLaunchOperationRow sv op =
     [(''id'', GStr (lo_ID op)), (''operationId'', GStr (lo_ID op)), (''accountId'', GStr (lo_AccountID op)),
      (''workspaceId'', GStr (lo_WorkspaceID op)), (''resourceId'', GStr (lo_WorkspaceID op)),
      (''resourceKind'', GStr ''workspace_launch''), (''action'', GStr workspaceLaunchAction), (''status'', GStr (lo_Status op)),
      (''result'', GStr (sv_marshal sv op)), (''computeAllocationId'', GStr (lo_ComputeID op)),
      (''storageId'', GStr (lo_StorageID op)), (''attachmentId'', GStr (lo_AttachmentID op)),
      (''runtimeServiceName'', GStr (lo_RuntimeServiceName op)), (''createdAt'', GStr (lo_CreatedAt op)),
      (''workspaceApiKeyId'', GInt (lo_WorkspaceAPIKeyID op))]"

definition workspaceLaunchClaimIdentityMatches :: "services \<Rightarrow> gomap \<Rightarrow> gomap \<Rightarrow> bool" where
  "workspaceLaunchClaimIdentityMatches sv current desired \<longleftrightarrow>
     (case (decodeWorkspaceLaunchOperation sv current, decodeWorkspaceLaunchOperation sv desired) of
        (Some e, Some n) \<Rightarrow> lo_ID e = lo_ID n \<and> lo_AccountID e = lo_AccountID n \<and> lo_WorkspaceID e = lo_WorkspaceID n \<and>
                            lo_RequestHash e = lo_RequestHash n
      | _ \<Rightarrow> False)"

definition workspaceLaunchResponse :: "services \<Rightarrow> gomap \<Rightarrow> gomap option" where
  "workspaceLaunchResponse sv row =
     map_option (\<lambda>op.
       [(''operationId'', GStr (lo_ID op)), (''status'', GStr (lo_Status op)), (''phase'', GStr (lo_Phase op)),
        (''accountId'', GStr (lo_AccountID op)), (''workspaceId'', GStr (lo_WorkspaceID op)), (''name'', GStr (lo_Name op)),
        (''packageId'', GStr (lo_PackageID op)), (''sizeGb'', GInt (lo_StorageGB op)), (''autoRenew'', GBool (lo_AutoRenew op)),
        (''priceVersion'', GStr (lo_PriceVersion op)), (''currency'', GStr pricingCurrency),
        (''totalChargeUsdMicros'', GInt (lo_TotalChargeUSDMicros op)), (''computeAllocationId'', GStr (lo_ComputeID op)),
        (''storageId'', GStr (lo_StorageID op)), (''attachmentId'', GStr (lo_AttachmentID op)),
        (''workspaceApiKeyId'', GStr (show_int (lo_WorkspaceAPIKeyID op))), (''workspaceKeyStatus'', GStr (lo_WorkspaceKeyStatus op)),
        (''workspaceKeyFingerprint'', GStr (lo_WorkspaceKeyFingerprint op)),
        (''runtimeServiceName'', GStr (lo_RuntimeServiceName op)), (''url'', GStr (lo_URL op)), (''receiptId'', GStr (lo_ReceiptID op)),
        (''errorCode'', GStr (lo_ErrorCode op)), (''createdAt'', mget row ''createdAt''), (''updatedAt'', mget row ''updatedAt'')])
       (decodeWorkspaceLaunchOperation sv row)"

text \<open>The outer option is the failure to read the table; a row of the launch that does not decode is
  an error as well.\<close>

definition workspaceLaunchOperation :: "services \<Rightarrow> string \<Rightarrow> (svc_error, launch_operation option) res act" where
  "workspaceLaunchOperation sv operationID =
     do { rows \<leftarrow> peek ''ListRuntimeOperations'' (sv_ListRuntimeOperations sv);
          ret (case rows of
                 None \<Rightarrow> Err (ErrText ''state_read_failed'')
               | Some rs \<Rightarrow>
                   (case find (\<lambda>row. sfield row ''id'' = operationID \<and> sfield row ''action'' = workspaceLaunchAction) rs of
                      None \<Rightarrow> Ok None
                    | Some row \<Rightarrow> (case decodeWorkspaceLaunchOperation sv row of
                                     None \<Rightarrow> Err (ErrText ''invalid_workspace_launch_operation'')
                                   | Some op \<Rightarrow> Ok (Some op)))) }"

section \<open>Writing\<close>

definition releaseWorkspaceLaunchLease :: "launch_operation \<Rightarrow> launch_operation" where
  "releaseWorkspaceLaunchLease op = op\<lparr>lo_LeaseToken := [], lo_LeaseExpiresAt := []\<rparr>"

definition persistWorkspaceLaunch :: "services \<Rightarrow> launch_operation \<Rightarrow> (svc_error, launch_operation) res act" where
  "persistWorkspaceLaunch sv op =
     do { err \<leftarrow> ask (\<lambda>log. sv_PersistWorkspaceLaunch sv log (lo_PersistedResult op) op) (\<lambda>err. Persist op (err = None));
          ret (case err of None \<Rightarrow> Ok (op\<lparr>lo_PersistedResult := sv_marshal sv op\<rparr>) | Some e \<Rightarrow> Err e) }"

definition errors_of :: "(svc_error, 'a) res \<Rightarrow> svc_error list" where
  "errors_of r = (case r of Inl e \<Rightarrow> [e] | Inr _ \<Rightarrow> [])"

text \<open>The ends of a run: the operation is written without its lease and the errors are joined.\<close>

definition finish_launch :: "services \<Rightarrow> launch_operation \<Rightarrow> svc_error list \<Rightarrow> svc_error list act" where
  "finish_launch sv op causes =
     do { r \<leftarrow> persistWorkspaceLaunch sv (releaseWorkspaceLaunchLease op); ret (causes @ errors_of r) }"

definition retryWorkspaceLaunchDebit :: "services \<Rightarrow> launch_operation \<Rightarrow> string \<Rightarrow> svc_error list \<Rightarrow> svc_error list act" where
  "retryWorkspaceLaunchDebit sv op code cause =
     finish_launch sv (op\<lparr>lo_Status := ''unknown'', lo_Phase := ''debit_pending'', lo_ErrorCode := code\<rparr>)
       (if cause = [] then [ErrText code] else cause)"

definition manualReviewWorkspaceLaunchDebit :: "services \<Rightarrow> launch_operation \<Rightarrow> string \<Rightarrow> svc_error list act" where
  "manualReviewWorkspaceLaunchDebit sv op code =
     finish_launch sv (op\<lparr>lo_Status := ''manual_review'', lo_ErrorCode := code\<rparr>) [ErrText code]"

definition insufficientWorkspaceLaunch :: "services \<Rightarrow> launch_operation \<Rightarrow> (svc_error, launch_operation) res act" where
  "insufficientWorkspaceLaunch sv op =
     persistWorkspaceLaunch sv (releaseWorkspaceLaunchLease
       (op\<lparr>lo_Status := ''insufficient'', lo_Phase := ''debit_pending'', lo_ErrorCode := ''monthly_balance_insufficient''\<rparr>))"

section \<open>Reads\<close>

definition launch_user :: "services \<Rightarrow> string \<Rightarrow> (account_error, int) res act" where
  "launch_user sv accountID =
     do { accounts \<leftarrow> peek ''ListAccounts'' (\<lambda>log. sv_ListAccounts sv log []); ret (sub2APIUserID accounts accountID) }"

definition Sub2APIWorkspaceKeyByID :: "services \<Rightarrow> int \<Rightarrow> int \<Rightarrow> (svc_error, workspace_key) res act" where
  "Sub2APIWorkspaceKeyByID sv userID keyID =
     (if userID \<le> 0 \<or> keyID \<le> 0 then ret (Err ErrSub2APIWorkspaceKeyMissing)
      else do { keys \<leftarrow> peek ''GatewayKeys'' (\<lambda>log. sv_GatewayKeys sv log userID);
                ret (case keys of
                       Inl e \<Rightarrow> Err e
                     | Inr ks \<Rightarrow> (case find (\<lambda>k. wk_ID k = keyID \<and> wk_UserID k = userID) ks of
                                    None \<Rightarrow> Err ErrSub2APIWorkspaceKeyMissing | Some k \<Rightarrow> Ok k)) })"

definition isOperatorUser :: "gomap \<Rightarrow> bool" where
  "isOperatorUser user \<longleftrightarrow> sfield user ''id'' = ''usr-admin'' \<and> sfield user ''accountId'' = ''acct-admin'' \<and>
     sfield user ''email'' = ''admin@medopl.cn'' \<and> sfield user ''role'' = ''admin'' \<and> sfield user ''status'' = ''active''"

definition ownsAccount :: "gomap option \<Rightarrow> gomap \<Rightarrow> bool" where
  "ownsAccount account user \<longleftrightarrow>
     (case account of
        None \<Rightarrow> False
      | Some a \<Rightarrow> sfield a ''id'' \<noteq> [] \<and> sfield user ''accountId'' = sfield a ''id'' \<and>
                  sfield a ''ownerUserId'' = sfield user ''id'' \<and> (sfield user ''role'' = ''owner'' \<or> isOperatorUser user))"

definition ownsActiveAccount :: "gomap option \<Rightarrow> gomap \<Rightarrow> bool" where
  "ownsActiveAccount account user \<longleftrightarrow>
     ownsAccount account user \<and> sfield (opt_map account) ''status'' = ''active'' \<and> sfield user ''status'' = ''active''"

definition membership_active :: "string \<Rightarrow> gomap \<Rightarrow> gomap list \<Rightarrow> gomap list \<Rightarrow> bool" where
  "membership_active accountID user organizations memberships \<longleftrightarrow>
     (case (filter (\<lambda>o'. sfield o' ''billingAccountId'' = accountID) organizations,
            filter (\<lambda>m. sfield m ''accountId'' = accountID \<or> sfield m ''userId'' = sfield user ''id'') memberships) of
        ([organization], [membership]) \<Rightarrow>
          sfield organization ''status'' = ''active'' \<and> sfield membership ''status'' = ''active'' \<and>
          sfield membership ''organizationId'' = sfield organization ''id'' \<and> sfield membership ''accountId'' = accountID \<and>
          sfield membership ''userId'' = sfield user ''id'' \<and> sfield membership ''role'' = ''owner''
      | _ \<Rightarrow> False)"

definition hasActiveCustomerMembership :: "services \<Rightarrow> gomap \<Rightarrow> bool option act" where
  "hasActiveCustomerMembership sv user =
     (let accountID = sfield user ''accountId''
      in do { accounts \<leftarrow> peek ''ListAccounts'' (\<lambda>log. sv_ListAccounts sv log accountID);
              case accounts of
                None \<Rightarrow> ret None
              | Some rows \<Rightarrow>
                  if \<not> ownsActiveAccount (findRecord rows accountID) user then ret (Some False)
                  else do { organizations \<leftarrow> peek ''ListOrganizations'' (sv_ListOrganizations sv);
                            case organizations of
                              None \<Rightarrow> ret None
                            | Some orgs \<Rightarrow>
                                do { memberships \<leftarrow> peek ''ListMemberships'' (sv_ListMemberships sv);
                                     ret (map_option (membership_active accountID user orgs) memberships) } } })"

definition findUserByID :: "services \<Rightarrow> string \<Rightarrow> gomap option option act" where
  "findUserByID sv uid =
     do { users \<leftarrow> peek ''ListUsers'' (sv_ListUsers sv); ret (map_option (\<lambda>us. findRecord us uid) users) }"

section \<open>The debit\<close>

definition launch_charge_input :: "launch_operation \<Rightarrow> int \<Rightarrow> charge_input" where
  "launch_charge_input op userID =
     \<lparr>ci_UserID = userID, ci_Code = lo_RedeemCode op, ci_USDMicros = lo_TotalChargeUSDMicros op,
      ci_Notes = ''OPL Workspace launch '' @ lo_WorkspaceID op\<rparr>"

definition charge_launch :: "services \<Rightarrow> launch_operation \<Rightarrow> int \<Rightarrow> (svc_error, charge) res act" where
  "charge_launch sv op userID =
     (let input = launch_charge_input op userID in tell (Charge input) (\<lambda>log. sv_Charge sv log input))"

definition launch_charge_row :: "launch_operation \<Rightarrow> gomap" where
  "launch_charge_row op = [(''sub2apiRedeemCode'', GStr (lo_RedeemCode op)), (''chargeUsdMicros'', GInt (lo_TotalChargeUSDMicros op))]"

definition charge_code :: "launch_operation \<Rightarrow> int \<Rightarrow> balance_entry list \<Rightarrow> string" where
  "charge_code op userID history = sub2APIReconciliationCode (launch_charge_row op) userID history"

definition charge_confirmation :: "charge \<Rightarrow> gomap" where
  "charge_confirmation c =
     [(''code'', GStr (ch_Code c)), (''userId'', GInt (ch_UserID c)), (''chargeUsdMicros'', GInt (ch_USDMicros c)),
      (''status'', GStr (ch_Status c))]"

text \<open>The charge of an attempt that may have gone through before: a charge the history shows is taken
  as confirmed.\<close>

definition recover_charge :: "services \<Rightarrow> launch_operation \<Rightarrow> int \<Rightarrow> (svc_error list, (svc_error, charge) res) res act" where
  "recover_charge sv op userID =
     do { history \<leftarrow> peek ''BalanceHistory'' (\<lambda>log. sv_BalanceHistory sv log userID);
          let code = (case history of Inl _ \<Rightarrow> ''sub2api_charge_missing'' | Inr h \<Rightarrow> charge_code op userID h);
          if code = ''sub2api_charge_missing'' then do { c \<leftarrow> charge_launch sv op userID; ret (Inr c) }
          else if code \<noteq> [] then do { e \<leftarrow> manualReviewWorkspaceLaunchDebit sv op code; ret (Inl e) }
          else ret (Inr (Ok \<lparr>ch_Code = lo_RedeemCode op, ch_UserID = userID, ch_USDMicros = lo_TotalChargeUSDMicros op,
                            ch_Status = ''used''\<rparr>)) }"

text \<open>The first charge: the balance must exceed the amount, and the attempt is written before the
  charge is made. The operation comes back as it was written.\<close>

definition first_charge ::
    "services \<Rightarrow> launch_operation \<Rightarrow> int \<Rightarrow> (svc_error list, launch_operation \<times> (svc_error, charge) res) res act" where
  "first_charge sv op userID =
     do { balance \<leftarrow> peek ''Balance'' (\<lambda>log. sv_Balance sv log userID);
          case balance of
            Inl e \<Rightarrow> do { errs \<leftarrow> retryWorkspaceLaunchDebit sv op ''sub2api_balance_unavailable'' [e]; ret (Inl errs) }
          | Inr micros \<Rightarrow>
              if micros \<le> lo_TotalChargeUSDMicros op then
                do { r \<leftarrow> insufficientWorkspaceLaunch sv op;
                     ret (Inl (case r of Inl e \<Rightarrow> [e] | Inr _ \<Rightarrow> [ErrMonthlyInsufficientBalance])) }
              else
                do { r \<leftarrow> persistWorkspaceLaunch sv (op\<lparr>lo_PreChargeBalanceUSDMicros := micros, lo_ChargeAttempted := True\<rparr>);
                     case r of
                       Inl e \<Rightarrow> ret (Inl [e])
                     | Inr op' \<Rightarrow> do { c \<leftarrow> charge_launch sv op' userID; ret (Inr (op', c)) } } }"

text \<open>Charging and confirming; the operation comes back with its confirmation written.\<close>

definition obtain_charge :: "services \<Rightarrow> launch_operation \<Rightarrow> int \<Rightarrow> (svc_error list, launch_operation) res act" where
  "obtain_charge sv op userID =
     do { attempt \<leftarrow>
            (if lo_ChargeAttempted op \<or> lo_Status op = ''unknown''
             then do { r \<leftarrow> recover_charge sv op userID; ret (case r of Inl errs \<Rightarrow> Inl errs | Inr c \<Rightarrow> Inr (op, c)) }
             else first_charge sv op userID);
          case attempt of
            Inl errs \<Rightarrow> ret (Inl errs)
          | Inr (op, result) \<Rightarrow>
              (case result of
                 Inl e \<Rightarrow>
                   if e = ErrSub2APIChargeUnknown then
                     do { errs \<leftarrow> retryWorkspaceLaunchDebit sv op ''sub2api_charge_unconfirmed'' [e]; ret (Inl errs) }
                   else if e = ErrMonthlyInsufficientBalance then
                     do { r \<leftarrow> insufficientWorkspaceLaunch sv op; ret (Inl ([e] @ errors_of r)) }
                   else do { errs \<leftarrow> manualReviewWorkspaceLaunchDebit sv op ''sub2api_charge_unconfirmed''; ret (Inl errs) }
               | Inr charge \<Rightarrow>
                   (let confirmation = charge_confirmation charge
                    in if \<not> monthlyChargeConfirmationMatches confirmation (lo_RedeemCode op) userID (lo_TotalChargeUSDMicros op) then
                         do { errs \<leftarrow> manualReviewWorkspaceLaunchDebit sv op ''sub2api_charge_confirmation_invalid''; ret (Inl errs) }
                       else
                         do { r \<leftarrow> persistWorkspaceLaunch sv (op\<lparr>lo_ChargeConfirmation := Some confirmation, lo_ErrorCode := []\<rparr>);
                              ret (case r of Inl e \<Rightarrow> Inl [e] | Inr op' \<Rightarrow> Inr op') })) }"

text \<open>After the charge: the history must show it and the balance must have fallen by exactly its
  amount. A balance is \<^verbatim>\<open>int64\<close>, so the difference wraps around.\<close>

definition confirm_debit :: "services \<Rightarrow> launch_operation \<Rightarrow> int \<Rightarrow> svc_error list act" where
  "confirm_debit sv op userID =
     do { history \<leftarrow> peek ''BalanceHistory'' (\<lambda>log. sv_BalanceHistory sv log userID);
          case history of
            Inl e \<Rightarrow> retryWorkspaceLaunchDebit sv op ''sub2api_charge_history_unavailable'' [e, ErrSub2APIChargeUnknown]
          | Inr h \<Rightarrow>
              if charge_code op userID h = ''sub2api_charge_missing'' then
                retryWorkspaceLaunchDebit sv op ''sub2api_charge_history_unavailable'' [ErrSub2APIChargeUnknown]
              else if charge_code op userID h \<noteq> [] then manualReviewWorkspaceLaunchDebit sv op (charge_code op userID h)
              else
                do { post \<leftarrow> peek ''Balance'' (\<lambda>log. sv_Balance sv log userID);
                     case post of
                       Inl e \<Rightarrow> retryWorkspaceLaunchDebit sv op ''post_charge_balance_unavailable'' [e]
                     | Inr micros \<Rightarrow>
                         (let op = op\<lparr>lo_PostChargeBalanceKnown := True, lo_PostChargeBalanceUSDMicros := micros\<rparr>
                          in if lo_PreChargeBalanceUSDMicros op \<le> lo_TotalChargeUSDMicros op \<or> micros < 0 \<or>
                                micros \<noteq> wrap64 (lo_PreChargeBalanceUSDMicros op - lo_TotalChargeUSDMicros op)
                             then manualReviewWorkspaceLaunchDebit sv op ''post_charge_balance_invalid''
                             else finish_launch sv (op\<lparr>lo_Status := ''debited'', lo_Phase := ''debited'', lo_ErrorCode := []\<rparr>) []) } }"

definition debitWorkspaceLaunch :: "services \<Rightarrow> launch_operation \<Rightarrow> svc_error list act" where
  "debitWorkspaceLaunch sv op =
     do { user \<leftarrow> launch_user sv (lo_AccountID op);
          case user of
            Inl e \<Rightarrow> retryWorkspaceLaunchDebit sv op ''sub2api_account_mapping_required'' [ErrAccount e]
          | Inr userID \<Rightarrow>
              do { key \<leftarrow> Sub2APIWorkspaceKeyByID sv userID (lo_WorkspaceAPIKeyID op);
                   case key of
                     Inl e \<Rightarrow> retryWorkspaceLaunchDebit sv op ''gateway_key_unavailable'' [e]
                   | Inr k \<Rightarrow>
                       if wk_ID k \<noteq> lo_WorkspaceAPIKeyID op \<or> wk_UserID k \<noteq> userID \<or>
                          wk_Name k \<noteq> workspaceReservedKeyName (sv_sha sv) (lo_WorkspaceID op) \<or> wk_Status k \<noteq> ''active''
                       then retryWorkspaceLaunchDebit sv op ''gateway_key_unavailable'' []
                       else
                         do { charged \<leftarrow> (if lo_ChargeConfirmation op = None then obtain_charge sv op userID else ret (Inr op));
                              case charged of Inl errs \<Rightarrow> ret errs | Inr op' \<Rightarrow> confirm_debit sv op' userID } } }"

end
