(* ===== verification/CP_Launch_Fulfil.thy ===== *)
theory CP_Launch_Fulfil
  imports CP_Launch_Debit
begin

text \<open>
  From the phase ``debited'' to the end of a launch: fulfilment phase by phase, the refund, the
  receipts, a whole run and the recovery of a launch under review, after
  \<^verbatim>\<open>workspace_launch.go\<close>; and what the service layer
  (\<^verbatim>\<open>controlplane/service.go\<close>) does around the clients.
\<close>

section \<open>Resource rows\<close>

definition launch_resource_id :: "launch_operation \<Rightarrow> string \<Rightarrow> string" where
  "launch_resource_id op resourceType = (if resourceType = ''storage'' then lo_StorageID op else lo_ComputeID op)"

definition workspaceLaunchResourceRow :: "environment \<Rightarrow> launch_operation \<Rightarrow> string \<Rightarrow> gomap" where
  "workspaceLaunchResourceRow env op resourceType =
     [(''id'', GStr (launch_resource_id op resourceType)), (''accountId'', GStr (lo_AccountID op)),
      (''ownerUserId'', GStr (lo_OwnerUserID op)), (''workspaceId'', GStr (lo_WorkspaceID op)), (''name'', GStr (lo_Name op)),
      (''packageId'', GStr (lo_PackageID op)), (''resourceType'', GStr resourceType),
      (''operationId'', GStr (lo_ID op @ '':'' @ resourceType)), (''status'', GStr ''provisioning''),
      (''desiredStatus'', GStr (monthlyDesiredStatus resourceType)), (''providerStatus'', GStr ''pending''),
      (''autoRenew'', GBool False), (''zone'', GStr (monthlyComputeLaunchZone env))] @
     (if resourceType = ''storage''
      then [(''sizeGb'', GInt (lo_StorageGB op)), (''computeAllocationId'', GStr (lo_ComputeID op))]
      else [(''nodePoolId'', GStr (lo_ComputeNodePoolID op))])"

definition workspaceLaunchResourceIdentityMatches :: "string \<Rightarrow> gomap \<Rightarrow> launch_operation \<Rightarrow> bool" where
  "workspaceLaunchResourceIdentityMatches resourceType facts op \<longleftrightarrow>
     sfield facts ''id'' = launch_resource_id op resourceType \<and> sfield facts ''accountId'' = lo_AccountID op \<and>
     sfield facts ''workspaceId'' = lo_WorkspaceID op"

definition workspaceLaunchProviderExpectation :: "environment \<Rightarrow> launch_operation \<Rightarrow> string \<Rightarrow> gomap" where
  "workspaceLaunchProviderExpectation env op resourceType =
     mset_key ''paidThrough'' (GStr (lo_PaidThrough op))
       (mset_key ''periodStart'' (GStr (lo_PeriodStart op)) (workspaceLaunchResourceRow env op resourceType))"

definition launch_billing_keys :: "string list" where
  "launch_billing_keys =
     [''billingOperationId'', ''billingOperationStartedAt'', ''billingStatus'', ''sub2apiRedeemCode'', ''sub2apiRefundCode'',
      ''priceVersion'', ''currency'', ''billingUnit'', ''pricingVersion'', ''priceSnapshot'', ''monthlyPriceCnyCents'',
      ''chargeUsdMicros'', ''postChargeBalanceUsdMicros'', ''postChargeBalanceKnown'', ''periodStart'', ''paidThrough'',
      ''billingAnchorDay'', ''lastReceiptId'', ''lastBillingError'']"

definition stripWorkspaceLaunchResourceBilling :: "gomap \<Rightarrow> gomap" where
  "stripWorkspaceLaunchResourceBilling row = filter (\<lambda>kv. fst kv \<notin> set launch_billing_keys) row"

section \<open>Price components\<close>

definition workspaceLaunchComponents :: "launch_operation \<Rightarrow> (gomap \<times> int \<times> int) option" where
  "workspaceLaunchComponents op =
     (case workspacePricingPreview defaultPricingCatalog
             [(''packageId'', GStr (lo_PackageID op)), (''sizeGb'', GInt (lo_StorageGB op))] of
        Inl _ \<Rightarrow> None
      | Inr quote \<Rightarrow>
          if sfield quote ''priceVersion'' \<noteq> lo_PriceVersion op then None
          else
            (case (requiredPositiveInteger (mapField quote ''compute'') ''chargeUsdMicros'',
                   requiredPositiveInteger (mapField quote ''storage'') ''chargeUsdMicros'') of
               (Some computePrice, Some storagePrice) \<Rightarrow>
                 if checkedAddInt64 computePrice storagePrice \<noteq> Some (lo_TotalChargeUSDMicros op) then None
                 else Some
                   ([(''compute'', GObj [(''resourceType'', GStr ''compute''), (''resourceId'', GStr (lo_ComputeID op)),
                                         (''chargeUsdMicros'', GInt computePrice)]),
                     (''storage'', GObj [(''resourceType'', GStr ''storage''), (''resourceId'', GStr (lo_StorageID op)),
                                         (''sizeGb'', GInt (lo_StorageGB op)), (''chargeUsdMicros'', GInt storagePrice)])],
                    computePrice, storagePrice)
             | _ \<Rightarrow> None))"

section \<open>Ends of a fulfilment\<close>

definition waitWorkspaceLaunchFulfillment :: "services \<Rightarrow> launch_operation \<Rightarrow> svc_error list act" where
  "waitWorkspaceLaunchFulfillment sv op = finish_launch sv (op\<lparr>lo_Status := ''waiting'', lo_ErrorCode := []\<rparr>) []"

definition retryWorkspaceLaunchFulfillment :: "services \<Rightarrow> launch_operation \<Rightarrow> string \<Rightarrow> svc_error list \<Rightarrow> svc_error list act" where
  "retryWorkspaceLaunchFulfillment sv op code cause =
     finish_launch sv (op\<lparr>lo_Status := ''retryable'', lo_ErrorCode := code\<rparr>) (if cause = [] then [ErrText code] else cause)"

definition manualReviewWorkspaceLaunchFulfillment :: "services \<Rightarrow> launch_operation \<Rightarrow> string \<Rightarrow> svc_error list act" where
  "manualReviewWorkspaceLaunchFulfillment sv op code =
     finish_launch sv (op\<lparr>lo_Status := ''manual_review'', lo_ErrorCode := code\<rparr>) [ErrText code]"

section \<open>Receipts\<close>

definition launch_receipt :: "launch_operation \<Rightarrow> string \<Rightarrow> gomap \<Rightarrow> gomap \<Rightarrow> string \<Rightarrow> receipt_input" where
  "launch_receipt op ty execution cost key =
     \<lparr>ri_type = ty, ri_status = ''completed'', ri_surface = ''control_plane'', ri_accountId = lo_AccountID op,
      ri_organizationId = [], ri_workspaceId = lo_WorkspaceID op, ri_projectId = [], ri_taskId = [], ri_requestId = lo_ID op,
      ri_approvalId = [], ri_jobId = [], ri_artifactId = [], ri_reviewId = [], ri_continuationId = [], ri_actor = None,
      ri_plan = None, ri_execution = Some execution, ri_environment = None, ri_inputRefs = None, ri_outputRefs = None,
      ri_reviewerChecks = None, ri_cost = Some cost,
      ri_owner = Some [(''accountId'', GStr (lo_AccountID op)), (''workspaceId'', GStr (lo_WorkspaceID op)),
                       (''ownerUserId'', GStr (lo_OwnerUserID op))],
      ri_continuation = None, ri_supersedesReceiptId = [], ri_idempotencyKey = key\<rparr>"

definition purchase_receipt :: "launch_operation \<Rightarrow> int \<Rightarrow> gomap \<Rightarrow> receipt_input" where
  "purchase_receipt op userID components =
     launch_receipt op ''billing.workspace_purchased.v1''
       [(''resourceType'', GStr ''workspace''), (''resourceId'', GStr (lo_WorkspaceID op)),
        (''computeAllocationId'', GStr (lo_ComputeID op)), (''storageId'', GStr (lo_StorageID op)),
        (''attachmentId'', GStr (lo_AttachmentID op)), (''workspaceApiKeyId'', GInt (lo_WorkspaceAPIKeyID op)),
        (''workspaceKeyFingerprint'', GStr (lo_WorkspaceKeyFingerprint op)), (''runtimeId'', GStr (lo_RuntimeID op)),
        (''runtimeServiceName'', GStr (lo_RuntimeServiceName op))]
       [(''priceVersion'', GStr (lo_PriceVersion op)), (''currency'', GStr pricingCurrency), (''billingUnit'', GStr pricingBillingUnit),
        (''totalUsdMicros'', GInt (lo_TotalChargeUSDMicros op)), (''sub2apiUserId'', GInt userID),
        (''sub2apiRedeemCode'', GStr (lo_RedeemCode op)),
        (''postChargeBalanceUsdMicros'', GInt (lo_PostChargeBalanceUSDMicros op)), (''periodStart'', GStr (lo_PeriodStart op)),
        (''paidThrough'', GStr (lo_PaidThrough op)), (''resourceType'', GStr ''workspace''),
        (''resourceId'', GStr (lo_WorkspaceID op)), (''components'', GObj components)]
       (lo_ID op @ '':purchase-receipt'')"

definition refund_receipt :: "launch_operation \<Rightarrow> int \<Rightarrow> gomap \<Rightarrow> receipt_input" where
  "refund_receipt op userID components =
     launch_receipt op ''billing.workspace_refunded.v1''
       [(''resourceType'', GStr ''workspace''), (''resourceId'', GStr (lo_WorkspaceID op)), (''reason'', GStr (lo_RefundReason op)),
        (''computeAllocationId'', GStr (lo_ComputeID op)), (''storageId'', GStr (lo_StorageID op)),
        (''refundConfirmation'', GObj (opt_map (lo_RefundConfirmation op)))]
       [(''priceVersion'', GStr (lo_PriceVersion op)), (''currency'', GStr pricingCurrency), (''billingUnit'', GStr pricingBillingUnit),
        (''totalUsdMicros'', GInt (lo_TotalChargeUSDMicros op)), (''sub2apiUserId'', GInt userID),
        (''sub2apiRedeemCode'', GStr (lo_RedeemCode op)), (''sub2apiRefundCode'', GStr (lo_RefundCode op)),
        (''refundUsdMicros'', GInt (lo_TotalChargeUSDMicros op)), (''periodStart'', GStr (lo_PeriodStart op)),
        (''paidThrough'', GStr (lo_PaidThrough op)), (''resourceType'', GStr ''workspace''),
        (''resourceId'', GStr (lo_WorkspaceID op)), (''components'', GObj components)]
       (lo_ID op @ '':refund-receipt'')"

definition RecordMonthlyReceipt :: "services \<Rightarrow> receipt_input \<Rightarrow> (svc_error, string) res act" where
  "RecordMonthlyReceipt sv input = tell (RecordReceiptCall input) (\<lambda>log. sv_RecordReceipt sv log input)"

definition workspaceMatchesLaunch :: "gomap \<Rightarrow> launch_operation \<Rightarrow> bool" where
  "workspaceMatchesLaunch w op \<longleftrightarrow>
     first_text [sfield w ''accountId'', sfield w ''ownerAccountId''] = lo_AccountID op \<and>
     first_text [sfield w ''ownerUserId'', sfield w ''ownerId''] = lo_OwnerUserID op \<and> sfield w ''packageId'' = lo_PackageID op \<and>
     first_text [sfield w ''computeAllocationId'', sfield w ''currentComputeAllocationId''] = lo_ComputeID op \<and>
     sfield w ''storageId'' = lo_StorageID op \<and> number_int w ''workspaceApiKeyId'' 0 = lo_WorkspaceAPIKeyID op \<and>
     first_text [sfield w ''attachmentId'', sfield w ''currentAttachmentId''] = lo_AttachmentID op"

definition recordWorkspaceLaunchPurchaseReceipt :: "services \<Rightarrow> launch_operation \<Rightarrow> svc_error list act" where
  "recordWorkspaceLaunchPurchaseReceipt sv op =
     do { found \<leftarrow> peek ''Workspace'' (\<lambda>log. sv_Workspace sv log (lo_WorkspaceID op));
          let workspace = opt_map found;
          if found = None \<or> \<not> workspaceMatchesLaunch workspace op \<or> sfield workspace ''runtimeId'' \<noteq> lo_RuntimeID op then
            retryWorkspaceLaunchFulfillment sv op ''workspace_launch_projection_unavailable'' [ErrText ''Workspace projection unavailable'']
          else
            do { user \<leftarrow> launch_user sv (lo_AccountID op);
                 case user of
                   Inl e \<Rightarrow> retryWorkspaceLaunchFulfillment sv op ''sub2api_account_mapping_required'' [ErrAccount e]
                 | Inr userID \<Rightarrow>
                     (case workspaceLaunchComponents op of
                        None \<Rightarrow> manualReviewWorkspaceLaunchFulfillment sv op ''workspace_launch_receipt_price_invalid''
                      | Some (components, _) \<Rightarrow>
                          do { receipt \<leftarrow> RecordMonthlyReceipt sv (purchase_receipt op userID components);
                               case receipt of
                                 Inl e \<Rightarrow> retryWorkspaceLaunchFulfillment sv op ''workspace_launch_receipt_retryable'' [e]
                               | Inr rid \<Rightarrow>
                                   if rid = [] then
                                     retryWorkspaceLaunchFulfillment sv op ''workspace_launch_receipt_invalid''
                                       [ErrText ''Ledger purchase receipt ID missing'']
                                   else
                                     (let row = mset_key ''purchaseReceiptId'' (GStr rid) workspace
                                      in do { saved \<leftarrow> tell (SaveWorkspace row) (\<lambda>log. sv_SaveWorkspace sv log row);
                                              case saved of
                                                Some e \<Rightarrow> retryWorkspaceLaunchFulfillment sv op
                                                            ''workspace_launch_receipt_projection_retryable'' [e]
                                              | None \<Rightarrow> finish_launch sv (op\<lparr>lo_ReceiptID := rid, lo_Status := ''succeeded'',
                                                          lo_Phase := ''succeeded'', lo_ErrorCode := []\<rparr>) [] }) }) } }"

definition recordWorkspaceLaunchRefundReceipt :: "services \<Rightarrow> launch_operation \<Rightarrow> int \<Rightarrow> svc_error list act" where
  "recordWorkspaceLaunchRefundReceipt sv op userID =
     (case workspaceLaunchComponents op of
        None \<Rightarrow> manualReviewWorkspaceLaunchFulfillment sv op ''workspace_launch_refund_price_invalid''
      | Some (components, _) \<Rightarrow>
          do { receipt \<leftarrow> RecordMonthlyReceipt sv (refund_receipt op userID components);
               case receipt of
                 Inl e \<Rightarrow> retryWorkspaceLaunchFulfillment sv op ''ledger_refund_receipt_pending'' [e]
               | Inr rid \<Rightarrow>
                   if rid = [] then
                     retryWorkspaceLaunchFulfillment sv op ''ledger_refund_receipt_invalid'' [ErrText ''Ledger refund receipt ID missing'']
                   else finish_launch sv (op\<lparr>lo_RefundReceiptID := rid, lo_ReceiptID := rid, lo_Status := ''refunded'',
                          lo_Phase := ''refunded'', lo_ErrorCode := []\<rparr>) [] })"

section \<open>The refund\<close>

definition launch_refund_input :: "launch_operation \<Rightarrow> int \<Rightarrow> charge_input" where
  "launch_refund_input op userID =
     \<lparr>ci_UserID = userID, ci_Code = lo_RefundCode op, ci_USDMicros = lo_TotalChargeUSDMicros op,
      ci_Notes = ''OPL Workspace launch refund '' @ lo_WorkspaceID op\<rparr>"

definition refund_launch :: "services \<Rightarrow> launch_operation \<Rightarrow> int \<Rightarrow> (svc_error, charge) res act" where
  "refund_launch sv op userID =
     (let input = launch_refund_input op userID in tell (Refund input) (\<lambda>log. sv_Refund sv log input))"

text \<open>\<open>None\<close>: the history shows another refund under the same code.\<close>

definition recover_refund :: "services \<Rightarrow> launch_operation \<Rightarrow> int \<Rightarrow> (svc_error, charge) res option act" where
  "recover_refund sv op userID =
     do { history \<leftarrow> peek ''BalanceHistory'' (\<lambda>log. sv_BalanceHistory sv log userID);
          let matches = (case history of Inl _ \<Rightarrow> [] | Inr h \<Rightarrow> filter (\<lambda>e. be_Code e = lo_RefundCode op) h);
          case matches of
            [] \<Rightarrow> do { r \<leftarrow> refund_launch sv op userID; ret (Some r) }
          | e # others \<Rightarrow>
              ret (if others \<noteq> [] \<or> be_Type e \<noteq> ''balance'' \<or> be_Status e \<noteq> ''used'' \<or> be_UsedBy e \<noteq> Some userID \<or>
                      be_ValueUSDMicros e \<noteq> lo_TotalChargeUSDMicros op then None
                   else Some (Ok \<lparr>ch_Code = lo_RefundCode op, ch_UserID = userID, ch_USDMicros = lo_TotalChargeUSDMicros op,
                                  ch_Status = ''used''\<rparr>)) }"

definition refund_confirmation :: "charge \<Rightarrow> gomap" where
  "refund_confirmation c =
     [(''code'', GStr (ch_Code c)), (''userId'', GInt (ch_UserID c)), (''refundUsdMicros'', GInt (ch_USDMicros c)),
      (''status'', GStr (ch_Status c))]"

definition note_refund :: "string \<Rightarrow> launch_operation \<Rightarrow> launch_operation" where
  "note_refund reason op =
     op\<lparr>lo_Status := ''refund_pending'', lo_Phase := ''refund_pending'', lo_RefundAttempted := True, lo_RefundReason := reason,
        lo_ErrorCode := []\<rparr>"

definition attempt_refund :: "services \<Rightarrow> launch_operation \<Rightarrow> bool \<Rightarrow> int \<Rightarrow> (svc_error, charge) res option act" where
  "attempt_refund sv op recovering userID =
     (if recovering then recover_refund sv op userID else do { r \<leftarrow> refund_launch sv op userID; ret (Some r) })"

text \<open>What follows the answer: an answer for another refund is no confirmation.\<close>

definition settle_refund :: "services \<Rightarrow> launch_operation \<Rightarrow> int \<Rightarrow> (svc_error, charge) res option \<Rightarrow> svc_error list act" where
  "settle_refund sv op userID answer =
     (case answer of
        None \<Rightarrow> manualReviewWorkspaceLaunchFulfillment sv op ''sub2api_refund_mismatch''
      | Some (Inl e) \<Rightarrow> retryWorkspaceLaunchFulfillment sv op ''sub2api_refund_unconfirmed'' [e, ErrSub2APIChargeUnknown]
      | Some (Inr refund) \<Rightarrow>
          if ch_Code refund \<noteq> lo_RefundCode op \<or> ch_UserID refund \<noteq> userID \<or>
             ch_USDMicros refund \<noteq> lo_TotalChargeUSDMicros op \<or> ch_Status refund \<noteq> ''used''
          then retryWorkspaceLaunchFulfillment sv op ''sub2api_refund_unconfirmed'' [ErrSub2APIChargeUnknown]
          else
            do { r \<leftarrow> persistWorkspaceLaunch sv (op\<lparr>lo_RefundConfirmation := Some (refund_confirmation refund)\<rparr>);
                 case r of Inl e \<Rightarrow> ret [e] | Inr op' \<Rightarrow> recordWorkspaceLaunchRefundReceipt sv op' userID })"

definition refundWorkspaceLaunch :: "services \<Rightarrow> launch_operation \<Rightarrow> string \<Rightarrow> svc_error list act" where
  "refundWorkspaceLaunch sv op reason =
     do { user \<leftarrow> launch_user sv (lo_AccountID op);
          case user of
            Inl e \<Rightarrow> manualReviewWorkspaceLaunchFulfillment sv op ''workspace_launch_refund_account_unmapped''
          | Inr userID \<Rightarrow>
              if lo_RefundConfirmation op \<noteq> None then recordWorkspaceLaunchRefundReceipt sv op userID
              else
                do { noted \<leftarrow> (if lo_RefundAttempted op then ret (Inr op) else persistWorkspaceLaunch sv (note_refund reason op));
                     case noted of
                       Inl e \<Rightarrow> ret [e]
                     | Inr op' \<Rightarrow> do { answer \<leftarrow> attempt_refund sv op' (lo_RefundAttempted op) userID; settle_refund sv op' userID answer } } }"

end
