(* ===== verification/CP_Launch_Run.thy ===== *)
theory CP_Launch_Run
  imports CP_Launch_Fulfil
begin

text \<open>
  The steps of fulfilment, whole runs and the recovery of a launch under review, after
  \<^verbatim>\<open>workspace_launch.go\<close>, with the part of \<^verbatim>\<open>controlplane/service.go\<close> they
  go through.
\<close>

section \<open>The service layer\<close>

definition writeGatewaySecretValue ::
    "services \<Rightarrow> string \<Rightarrow> string \<Rightarrow> int \<Rightarrow> workspace_key \<Rightarrow> string \<Rightarrow> (svc_error, secret_result) res act" where
  "writeGatewaySecretValue sv accountID workspaceID userID key idempotencyKey =
     (if accountID = [] \<or> workspaceID = [] \<or> userID \<le> 0 \<or> idempotencyKey = [] \<or> wk_ID key \<le> 0 \<or> wk_UserID key \<noteq> userID \<or>
         wk_Status key \<noteq> ''active'' \<or> wk_Key key = [] then ret (Err (ErrText ''invalid_sub2api_workspace_key''))
      else
        (let fingerprint = ''sha256:'' @ sv_sha256 sv (wk_Key key);
             input = \<lparr>si_AccountID = accountID, si_WorkspaceID = workspaceID, si_WorkspaceAPIKeyID = wk_ID key,
                      si_Fingerprint = fingerprint, si_GatewayAPIKey = wk_Key key\<rparr>;
             k = idempotencyKey @ '':gateway-secret''
         in do { r \<leftarrow> tell (WriteSecret input k) (\<lambda>log. sv_WriteSecret sv log input k);
                 ret (case r of
                        Inl e \<Rightarrow> Err (ErrText ''gateway_secret_write_failed'')
                      | Inr secret \<Rightarrow>
                          if sr_SecretRef secret = [] \<or> sr_Fingerprint secret \<noteq> fingerprint
                          then Err (ErrText ''gateway_secret_write_failed'') else Ok secret) }))"

definition SyncWorkspaceGatewaySecretByID ::
    "services \<Rightarrow> string \<Rightarrow> string \<Rightarrow> int \<Rightarrow> int \<Rightarrow> string \<Rightarrow> string \<Rightarrow> (svc_error, secret_result) res act" where
  "SyncWorkspaceGatewaySecretByID sv accountID workspaceID userID keyID keyName idempotencyKey =
     do { key \<leftarrow> Sub2APIWorkspaceKeyByID sv userID keyID;
          case key of
            Inl e \<Rightarrow> ret (Err e)
          | Inr k \<Rightarrow>
              if keyName = [] \<or> wk_Name k \<noteq> keyName then ret (Err (ErrText ''invalid_sub2api_workspace_key''))
              else writeGatewaySecretValue sv accountID workspaceID userID k idempotencyKey }"

definition SyncWorkspaceGatewaySecret :: "services \<Rightarrow> string \<Rightarrow> string \<Rightarrow> int \<Rightarrow> string \<Rightarrow> (svc_error, secret_result) res act" where
  "SyncWorkspaceGatewaySecret sv accountID workspaceID userID idempotencyKey =
     (if accountID = [] \<or> workspaceID = [] \<or> userID \<le> 0 \<or> idempotencyKey = [] then ret (Err (ErrText ''gateway_secret_write_failed''))
      else do { key \<leftarrow> peek ''WorkspaceKey'' (\<lambda>log. sv_WorkspaceKey sv log userID);
                case key of
                  Inl e \<Rightarrow> ret (Err e)
                | Inr k \<Rightarrow>
                    if wk_Name k \<noteq> ''opl-workspace'' then ret (Err (ErrText ''invalid_sub2api_workspace_key''))
                    else writeGatewaySecretValue sv accountID workspaceID userID k idempotencyKey })"

definition mergeWorkspaceRuntimeReadback ::
    "workspace_runtime \<Rightarrow> workspace_runtime \<Rightarrow> string \<Rightarrow> (svc_error, workspace_runtime) res" where
  "mergeWorkspaceRuntimeReadback created readback workspaceID =
     (if workspaceID = [] \<or> (wr_WorkspaceID created \<noteq> [] \<and> wr_WorkspaceID created \<noteq> workspaceID) \<or>
         wr_WorkspaceID readback \<noteq> workspaceID \<or>
         (wr_ID created \<noteq> [] \<and> wr_ID readback \<noteq> [] \<and> wr_ID created \<noteq> wr_ID readback) \<or>
         (wr_ServiceName created \<noteq> [] \<and> wr_ServiceName readback \<noteq> [] \<and> wr_ServiceName created \<noteq> wr_ServiceName readback)
      then Err ErrWorkspaceRuntimeIdentityMismatch
      else if (wr_Ready readback \<or> wr_Status readback = ''running'') \<and>
              (\<not> wr_Ready readback \<or> wr_Status readback \<noteq> ''running'' \<or> wr_ID readback = [] \<or> wr_URL readback = [] \<or>
               wr_ServiceName readback = [] \<or> wr_Username readback = [] \<or> wr_CredentialStatus readback \<noteq> ''configured'' \<or>
               wr_CredentialVersion readback = [] \<or> wr_SecretRef readback = [])
      then Err ErrWorkspaceRuntimeReadbackInvalid
      else Ok readback)"

definition workspaceRuntimeState :: "string \<Rightarrow> bool \<Rightarrow> string" where
  "workspaceRuntimeState status ready =
     (if ready then (if status = [] then ''running'' else status)
      else if status = [] \<or> status = ''running'' then ''unready'' else status)"

record create_workspace_input =
  cw_WorkspaceID :: string
  cw_AccountID :: string
  cw_Sub2APIUserID :: int
  cw_WorkspaceAPIKeyID :: int
  cw_WorkspaceAPIKeyName :: string
  cw_OwnerID :: string
  cw_Name :: string
  cw_PackageID :: string
  cw_AttachmentID :: string
  cw_ComputeID :: string
  cw_VolumeID :: string
  cw_GatewaySecretRef :: string

definition runtime_projection :: "create_workspace_input \<Rightarrow> workspace_runtime \<Rightarrow> workspace_projection" where
  "runtime_projection i r =
     \<lparr>wp_ID = cw_WorkspaceID i, wp_AccountID = cw_AccountID i, wp_OwnerID = cw_OwnerID i, wp_Name = cw_Name i,
      wp_PackageID = cw_PackageID i, wp_Provider = ''tencent-tke'', wp_URL = wr_URL r,
      wp_Status = workspaceRuntimeState (wr_Status r) (wr_Ready r), wp_ComputeID = cw_ComputeID i, wp_VolumeID = cw_VolumeID i,
      wp_AttachmentID = cw_AttachmentID i, wp_RuntimeID = wr_ID r, wp_RuntimeServiceName = wr_ServiceName r,
      wp_WorkspaceAPIKeyID = cw_WorkspaceAPIKeyID i, wp_RuntimeReady = wr_Ready r, wp_RuntimeUsername = wr_Username r,
      wp_CredentialStatus = wr_CredentialStatus r, wp_CredentialVersion = wr_CredentialVersion r,
      wp_CredentialSecretRef = wr_SecretRef r, wp_ReceiptID = []\<rparr>"

definition PrepareWorkspace :: "services \<Rightarrow> create_workspace_input \<Rightarrow> string \<Rightarrow> (svc_error, workspace_projection) res act" where
  "PrepareWorkspace sv i key =
     (if cw_WorkspaceID i = [] \<or> cw_ComputeID i = [] \<or> cw_VolumeID i = [] \<or> cw_AttachmentID i = []
      then ret (Err (ErrText ''attached_compute_storage_required''))
      else
        do { ref \<leftarrow>
               (if cw_GatewaySecretRef i \<noteq> [] then ret (Ok (cw_GatewaySecretRef i))
                else do { s \<leftarrow> (if 0 < cw_WorkspaceAPIKeyID i
                               then SyncWorkspaceGatewaySecretByID sv (cw_AccountID i) (cw_WorkspaceID i) (cw_Sub2APIUserID i)
                                      (cw_WorkspaceAPIKeyID i) (cw_WorkspaceAPIKeyName i) key
                               else SyncWorkspaceGatewaySecret sv (cw_AccountID i) (cw_WorkspaceID i) (cw_Sub2APIUserID i) key);
                          ret (case s of Inl e \<Rightarrow> Err e | Inr r \<Rightarrow> Ok (sr_SecretRef r)) });
             case ref of
               Inl e \<Rightarrow> ret (Err e)
             | Inr secretRef \<Rightarrow>
                 (let input = \<lparr>rt_WorkspaceID = cw_WorkspaceID i, rt_ComputeID = cw_ComputeID i, rt_VolumeID = cw_VolumeID i,
                               rt_ImageID = ''one-person-lab-app'', rt_GatewaySecretRef = secretRef\<rparr>;
                      k = key @ '':runtime''
                  in do { created \<leftarrow> tell (CreateRuntime input k) (\<lambda>log. sv_CreateRuntime sv log input k);
                          case created of
                            Inl e \<Rightarrow> ret (Err e)
                          | Inr c \<Rightarrow>
                              do { readback \<leftarrow> peek ''RuntimeStatus'' (\<lambda>log. sv_RuntimeStatus sv log (cw_WorkspaceID i));
                                   ret (case readback of
                                          Inl e \<Rightarrow> Err e
                                        | Inr r \<Rightarrow> (case mergeWorkspaceRuntimeReadback c r (cw_WorkspaceID i) of
                                                       Inl e \<Rightarrow> Err e | Inr rt \<Rightarrow> Ok (runtime_projection i rt))) } }) })"

section \<open>One resource\<close>

datatype outcome = Ready | Absent | Waiting | Unknown

definition sync_resource :: "services \<Rightarrow> launch_operation \<Rightarrow> string \<Rightarrow> (svc_error option \<times> gomap) act" where
  "sync_resource sv op resourceType =
     (if resourceType = ''storage'' then peek ''SyncStorage'' (\<lambda>log. sv_SyncStorage sv log (lo_StorageID op))
      else peek ''SyncCompute'' (\<lambda>log. sv_SyncCompute sv log (lo_ComputeID op)))"

definition prepare_resource :: "services \<Rightarrow> launch_operation \<Rightarrow> string \<Rightarrow> (svc_error option \<times> gomap) act" where
  "prepare_resource sv op resourceType =
     (if resourceType = ''storage'' then
        (let input = \<lparr>st_ID = lo_StorageID op, st_AccountID = lo_AccountID op, st_WorkspaceID = lo_WorkspaceID op,
                      st_ComputeID = lo_ComputeID op, st_Zone = monthlyComputeLaunchZone (sv_env sv), st_SizeGB = lo_StorageGB op\<rparr>;
             k = lo_ID op @ '':storage''
         in tell (CreateStorage input k) (\<lambda>log. sv_CreateStorage sv log input k))
      else
        (let input = \<lparr>cp_ID = lo_ComputeID op, cp_AccountID = lo_AccountID op, cp_WorkspaceID = lo_WorkspaceID op,
                      cp_PackageID = lo_PackageID op, cp_NodePoolID = lo_ComputeNodePoolID op\<rparr>;
             k = lo_ID op @ '':compute''
         in tell (CreateCompute input k) (\<lambda>log. sv_CreateCompute sv log input k)))"

definition save_resource :: "services \<Rightarrow> string \<Rightarrow> gomap \<Rightarrow> svc_error option act" where
  "save_resource sv resourceType row =
     (if resourceType = ''storage'' then tell (SaveStorage row) (\<lambda>log. sv_SaveStorage sv log row)
      else tell (SaveCompute row) (\<lambda>log. sv_SaveCompute sv log row))"

definition resource_outcome :: "environment \<Rightarrow> launch_operation \<Rightarrow> string \<Rightarrow> svc_error option \<Rightarrow> svc_error option \<Rightarrow> gomap \<Rightarrow> gomap \<Rightarrow> outcome" where
  "resource_outcome env op resourceType prepareErr readErr facts candidate =
     (if monthlyResourceConfirmedAbsent resourceType candidate then Absent
      else if readErr \<noteq> None then Unknown
      else if monthlyResourceInProgress candidate then (if prepareErr \<noteq> None then Unknown else Waiting)
      else if \<not> monthlyPurchaseReadbackConfirmed env resourceType (workspaceLaunchProviderExpectation env op resourceType) facts
      then Unknown else Ready)"

definition fulfillWorkspaceLaunchResource :: "services \<Rightarrow> launch_operation \<Rightarrow> string \<Rightarrow> (svc_error, outcome) res act" where
  "fulfillWorkspaceLaunchResource sv op resourceType =
     do { (prepareErr, prepared) \<leftarrow> prepare_resource sv op resourceType;
          if prepareErr = None \<and> \<not> workspaceLaunchResourceIdentityMatches resourceType prepared op then ret (Ok Unknown)
          else
            do { (readErr, facts) \<leftarrow> sync_resource sv op resourceType;
                 if \<not> workspaceLaunchResourceIdentityMatches resourceType facts op then ret (Ok Unknown)
                 else
                   (let candidate = stripWorkspaceLaunchResourceBilling
                          (mergeMaps (workspaceLaunchResourceRow (sv_env sv) op resourceType) facts)
                    in do { saved \<leftarrow> save_resource sv resourceType candidate;
                            ret (case saved of
                                   Some e \<Rightarrow> Err e
                                 | None \<Rightarrow> Ok (resource_outcome (sv_env sv) op resourceType prepareErr readErr facts candidate)) }) } }"

definition launch_preflight_inputs :: "environment \<Rightarrow> launch_operation \<Rightarrow> preflight_input list" where
  "launch_preflight_inputs env op =
     [\<lparr>pfi_ResourceType = ''compute'', pfi_PackageID = lo_PackageID op, pfi_SizeGB = 0, pfi_Zone = monthlyComputeLaunchZone env\<rparr>,
      \<lparr>pfi_ResourceType = ''storage'', pfi_PackageID = lo_PackageID op, pfi_SizeGB = lo_StorageGB op, pfi_Zone = monthlyComputeLaunchZone env\<rparr>]"

fun check_preflights :: "services \<Rightarrow> launch_operation \<Rightarrow> preflight_input list \<Rightarrow> (string \<times> svc_error list) option act" where
  "check_preflights sv op [] = ret None"
| "check_preflights sv op (input # inputs) =
     do { result \<leftarrow> peek ''MonthlyPreflight'' (\<lambda>log. sv_MonthlyPreflight sv log input);
          let code = ''fabric_'' @ pfi_ResourceType input @ ''_preflight_failed'';
          case result of
            Inl e \<Rightarrow> ret (Some (code, [e]))
          | Inr r \<Rightarrow>
              if \<not> monthlyPreflightConfirmed input r \<or>
                 (pfi_ResourceType input = ''compute'' \<and> pf_NodePoolID r \<noteq> lo_ComputeNodePoolID op)
              then ret (Some (code, [ErrText code])) else check_preflights sv op inputs }"

definition verifyWorkspaceLaunchPreflight :: "services \<Rightarrow> launch_operation \<Rightarrow> (string \<times> svc_error list) option act" where
  "verifyWorkspaceLaunchPreflight sv op = check_preflights sv op (launch_preflight_inputs (sv_env sv) op)"

text \<open>The readback before activation, one resource after the other; the value is whether all of them
  were confirmed and saved.\<close>

definition current_resource :: "services \<Rightarrow> launch_operation \<Rightarrow> string \<Rightarrow> gomap option act" where
  "current_resource sv op resourceType =
     (if resourceType = ''compute''
      then do { rows \<leftarrow> peek ''ListComputes'' (sv_ListComputes sv); ret (findRecord rows (lo_ComputeID op)) }
      else do { rows \<leftarrow> peek ''ListStorages'' (sv_ListStorages sv); ret (findRecord rows (lo_StorageID op)) })"

fun verify_readbacks :: "services \<Rightarrow> launch_operation \<Rightarrow> string list \<Rightarrow> bool act" where
  "verify_readbacks sv op [] = ret True"
| "verify_readbacks sv op (resourceType # others) =
     do { (readErr, facts) \<leftarrow> sync_resource sv op resourceType;
          if readErr \<noteq> None \<or> \<not> workspaceLaunchResourceIdentityMatches resourceType facts op then ret False
          else
            do { current \<leftarrow> current_resource sv op resourceType;
                 case current of
                   None \<Rightarrow> ret False
                 | Some row \<Rightarrow>
                     if \<not> monthlyPurchaseReadbackConfirmed (sv_env sv) resourceType
                            (workspaceLaunchProviderExpectation (sv_env sv) op resourceType) facts then ret False
                     else
                       do { saved \<leftarrow> save_resource sv resourceType (stripWorkspaceLaunchResourceBilling (mergeMaps row facts));
                            if saved \<noteq> None then ret False else verify_readbacks sv op others } } }"

definition verifyWorkspaceLaunchProviderReadback :: "services \<Rightarrow> launch_operation \<Rightarrow> bool act" where
  "verifyWorkspaceLaunchProviderReadback sv op = verify_readbacks sv op [''compute'', ''storage'']"

section \<open>Attachment\<close>

definition attachmentMatchesLaunch :: "gomap \<Rightarrow> launch_operation \<Rightarrow> bool" where
  "attachmentMatchesLaunch a op \<longleftrightarrow>
     sfield a ''workspaceId'' = lo_WorkspaceID op \<and>
     first_text [sfield a ''computeAllocationId'', sfield a ''computeId''] = lo_ComputeID op \<and>
     first_text [sfield a ''storageId'', sfield a ''volumeId''] = lo_StorageID op"

definition workspaceLaunchAttachment :: "services \<Rightarrow> launch_operation \<Rightarrow> gomap option act" where
  "workspaceLaunchAttachment sv op =
     do { rows \<leftarrow> peek ''ListAttachments'' (\<lambda>log. sv_ListAttachments sv log (lo_AccountID op));
          ret (find (\<lambda>a. sfield a ''operationId'' = lo_AttachmentOperationID op \<and> attachmentMatchesLaunch a op) rows) }"

text \<open>\<^verbatim>\<open>structToMap\<close> of an attachment: empty optional fields are left out.\<close>

definition attachment_map :: "storage_attachment \<Rightarrow> gomap" where
  "attachment_map a =
     [(''id'', GStr (sa_ID a)), (''workspaceId'', GStr (sa_WorkspaceID a)), (''volumeId'', GStr (sa_VolumeID a)),
      (''status'', GStr (sa_Status a)), (''providerRequestId'', GStr (sa_ProviderRequestID a))] @
     filter (\<lambda>kv. snd kv \<noteq> GStr [])
       [(''computeId'', GStr (sa_ComputeID a)), (''provider'', GStr (sa_Provider a)),
        (''providerAttachmentId'', GStr (sa_ProviderAttachmentID a)), (''mountPath'', GStr (sa_MountPath a))]"

definition place_attachment :: "gomap \<Rightarrow> gomap \<Rightarrow> gomap" where
  "place_attachment input row =
     (let row = mset_key ''computeAllocationId'' (GStr (first_text [sfield row ''computeAllocationId'', sfield row ''computeId'',
                  stringField input ''computeAllocationId'' []])) row;
          row = mset_key ''storageId'' (GStr (first_text [sfield row ''storageId'', sfield row ''volumeId'',
                  stringField input ''storageId'' []])) row
      in mset_key ''mountPath'' (GStr (first_text [sfield row ''mountPath'', stringField input ''mountPath'' ''/data''])) row)"

definition attachmentResponse :: "gomap \<Rightarrow> gomap \<Rightarrow> gomap" where
  "attachmentResponse row input =
     (let row = place_attachment input row;
          row = mset_key ''provider'' (GStr (first_text [sfield row ''provider'', ''tencent-tke''])) row
      in mset_key ''status'' (GStr (first_text [sfield row ''status'', ''attached''])) row)"

text \<open>The account of an attachment: its own, or that of its compute, its storage or its workspace.\<close>

definition attachmentAccountID :: "services \<Rightarrow> gomap \<Rightarrow> string act" where
  "attachmentAccountID sv row =
     (let own = first_text [sfield row ''accountId'', sfield row ''ownerAccountId'']
      in if own \<noteq> [] then ret own
         else
           do { computes \<leftarrow> peek ''ListComputes'' (sv_ListComputes sv);
                storages \<leftarrow> peek ''ListStorages'' (sv_ListStorages sv);
                found \<leftarrow> peek ''Workspace'' (\<lambda>log. sv_Workspace sv log (sfield row ''workspaceId''));
                let compute = opt_map (findRecord computes (first_text [sfield row ''computeAllocationId'', sfield row ''computeId'']));
                let storage = opt_map (findRecord storages (first_text [sfield row ''storageId'', sfield row ''volumeId'']));
                let workspace = opt_map found;
                ret (first_text [sfield compute ''accountId'', sfield compute ''ownerAccountId'', sfield storage ''accountId'',
                       sfield storage ''ownerAccountId'', sfield workspace ''accountId'', sfield workspace ''ownerAccountId'']) })"

text \<open>A detached attachment leaves its workspaces, which are suspended unless their data is gone.\<close>

definition cleared_workspace :: "services \<Rightarrow> gomap \<Rightarrow> gomap" where
  "cleared_workspace sv workspace =
     (let row = mset_key ''attachmentId'' (GStr []) (mset_key ''currentAttachmentId'' (GStr []) workspace);
          row = (if sv_acceptedBillingState sv workspace \<noteq> None then mset_key ''autoRenew'' (GBool False) row else row)
      in if sfield row ''state'' \<noteq> ''data_deleted''
         then mset_key ''status'' (GStr ''suspended'') (mset_key ''state'' (GStr ''suspended'') row) else row)"

fun clear_workspaces :: "services \<Rightarrow> string \<Rightarrow> gomap list \<Rightarrow> svc_error option act" where
  "clear_workspaces sv attachmentID [] = ret None"
| "clear_workspaces sv attachmentID (workspace # others) =
     (if sfield workspace ''currentAttachmentId'' = attachmentID \<or> sfield workspace ''attachmentId'' = attachmentID then
        do { saved \<leftarrow> tell (SaveWorkspace (cleared_workspace sv workspace)) (\<lambda>log. sv_SaveWorkspace sv log (cleared_workspace sv workspace));
             case saved of Some e \<Rightarrow> ret (Some e) | None \<Rightarrow> clear_workspaces sv attachmentID others }
      else clear_workspaces sv attachmentID others)"

definition clearWorkspacesForAttachment :: "services \<Rightarrow> string \<Rightarrow> svc_error option act" where
  "clearWorkspacesForAttachment sv attachmentID =
     do { rows \<leftarrow> peek ''ListWorkspaces'' (sv_ListWorkspaces sv); clear_workspaces sv attachmentID rows }"

definition saveAttachmentFact :: "services \<Rightarrow> gomap \<Rightarrow> svc_error option act" where
  "saveAttachmentFact sv body =
     (let row = place_attachment body body
      in do { owner \<leftarrow> attachmentAccountID sv row;
              let row = (if owner \<noteq> []
                         then mset_key ''accountId'' (GStr (first_text [sfield row ''accountId'', owner]))
                                (mset_key ''ownerAccountId'' (GStr owner) row)
                         else row);
              cleared \<leftarrow> (if sfield row ''status'' = ''detached'' then clearWorkspacesForAttachment sv (sfield row ''id'') else ret None);
              case cleared of
                Some e \<Rightarrow> ret (Some e)
              | None \<Rightarrow> tell (SaveAttachment row) (\<lambda>log. sv_SaveAttachment sv log row) })"

definition attach_launch :: "services \<Rightarrow> launch_operation \<Rightarrow> (svc_error list, string) res act" where
  "attach_launch sv op =
     do { existing \<leftarrow> workspaceLaunchAttachment sv op;
          case existing of
            Some a \<Rightarrow> ret (Inr (sfield a ''id''))
          | None \<Rightarrow>
              (let input = \<lparr>at_WorkspaceID = lo_WorkspaceID op, at_ComputeID = lo_ComputeID op, at_VolumeID = lo_StorageID op\<rparr>;
                   k = lo_AttachmentOperationID op
               in do { made \<leftarrow> tell (CreateAttachment input k) (\<lambda>log. sv_CreateAttachment sv log input k);
                       case made of
                         Inl e \<Rightarrow> do { errs \<leftarrow> retryWorkspaceLaunchFulfillment sv op ''workspace_launch_attachment_retryable'' [e]; ret (Inl errs) }
                       | Inr a \<Rightarrow>
                           if sa_ID a = [] \<or> sa_WorkspaceID a \<noteq> lo_WorkspaceID op \<or> sa_ComputeID a \<noteq> lo_ComputeID op \<or>
                              sa_VolumeID a \<noteq> lo_StorageID op \<or> sa_Status a \<noteq> ''attached'' \<or> sa_ProviderRequestID a = [] \<or>
                              sa_ProviderAttachmentID a = [] then
                             do { errs \<leftarrow> manualReviewWorkspaceLaunchFulfillment sv op ''workspace_launch_attachment_identity_mismatch'';
                                  ret (Inl errs) }
                           else
                             (let body = attachmentResponse (attachment_map a)
                                    [(''computeAllocationId'', GStr (lo_ComputeID op)), (''storageId'', GStr (lo_StorageID op)),
                                     (''workspaceId'', GStr (lo_WorkspaceID op))];
                                  body = mset_key ''accountId'' (GStr (lo_AccountID op)) (mset_key ''packageId'' (GStr (lo_PackageID op))
                                    (mset_key ''operationId'' (GStr (lo_AttachmentOperationID op)) body))
                              in do { saved \<leftarrow> saveAttachmentFact sv body;
                                      case saved of
                                        Some e \<Rightarrow> do { errs \<leftarrow> retryWorkspaceLaunchFulfillment sv op
                                                        ''workspace_launch_attachment_persist_retryable'' [e]; ret (Inl errs) }
                                      | None \<Rightarrow> ret (Inr (sa_ID a)) }) }) }"

section \<open>The workspace\<close>

definition workspaceProjectionMatchesLaunch :: "workspace_projection \<Rightarrow> launch_operation \<Rightarrow> bool" where
  "workspaceProjectionMatchesLaunch w op \<longleftrightarrow>
     wp_ID w = lo_WorkspaceID op \<and> wp_AccountID w = lo_AccountID op \<and> wp_OwnerID w = lo_OwnerUserID op \<and>
     wp_PackageID w = lo_PackageID op \<and> wp_ComputeID w = lo_ComputeID op \<and> wp_VolumeID w = lo_StorageID op \<and>
     wp_AttachmentID w = lo_AttachmentID op \<and> wp_WorkspaceAPIKeyID w = lo_WorkspaceAPIKeyID op"

definition workspaceRuntimeAttemptMatches :: "workspace_projection \<Rightarrow> launch_operation \<Rightarrow> bool" where
  "workspaceRuntimeAttemptMatches w op \<longleftrightarrow>
     list_all (\<lambda>(a, b). a = [] \<or> a = b)
       [(lo_RuntimeID op, wp_RuntimeID w), (lo_RuntimeServiceName op, wp_RuntimeServiceName w), (lo_URL op, wp_URL w),
        (lo_CredentialVersion op, wp_CredentialVersion w), (lo_CredentialSecretRef op, wp_CredentialSecretRef w)]"

definition workspaceProjectionConfiguredForLaunch :: "workspace_projection \<Rightarrow> bool" where
  "workspaceProjectionConfiguredForLaunch w \<longleftrightarrow>
     wp_RuntimeID w \<noteq> [] \<and> wp_RuntimeServiceName w \<noteq> [] \<and> wp_URL w \<noteq> [] \<and> wp_CredentialStatus w = ''configured'' \<and>
     wp_CredentialVersion w \<noteq> [] \<and> wp_CredentialSecretRef w \<noteq> []"

definition workspaceProjectionFromLaunch :: "launch_operation \<Rightarrow> workspace_projection" where
  "workspaceProjectionFromLaunch op =
     \<lparr>wp_ID = lo_WorkspaceID op, wp_AccountID = lo_AccountID op, wp_OwnerID = lo_OwnerUserID op, wp_Name = lo_Name op,
      wp_PackageID = lo_PackageID op, wp_Provider = ''tencent-tke'', wp_URL = lo_URL op, wp_Status = ''running'',
      wp_ComputeID = lo_ComputeID op, wp_VolumeID = lo_StorageID op, wp_AttachmentID = lo_AttachmentID op,
      wp_RuntimeID = lo_RuntimeID op, wp_RuntimeServiceName = lo_RuntimeServiceName op,
      wp_WorkspaceAPIKeyID = lo_WorkspaceAPIKeyID op, wp_RuntimeReady = lo_RuntimeReady op,
      wp_RuntimeUsername = lo_RuntimeUsername op, wp_CredentialStatus = lo_CredentialStatus op,
      wp_CredentialVersion = lo_CredentialVersion op, wp_CredentialSecretRef = lo_CredentialSecretRef op, wp_ReceiptID = []\<rparr>"

definition workspaceProjectionRow :: "workspace_projection \<Rightarrow> gomap" where
  "workspaceProjectionRow w =
     (let access = filter (\<lambda>kv. snd kv \<noteq> GStr [])
            [(''account'', GStr (wp_RuntimeUsername w)), (''username'', GStr (wp_RuntimeUsername w)),
             (''credentialStatus'', GStr (wp_CredentialStatus w)), (''credentialVersion'', GStr (wp_CredentialVersion w)),
             (''secretRef'', GStr (wp_CredentialSecretRef w))]
      in [(''id'', GStr (wp_ID w)), (''ownerAccountId'', GStr (wp_AccountID w)), (''ownerUserId'', GStr (wp_OwnerID w)),
          (''accountId'', GStr (wp_AccountID w)), (''name'', GStr (wp_Name w)), (''packageId'', GStr (wp_PackageID w)),
          (''provider'', GStr (wp_Provider w)), (''state'', GStr (wp_Status w)), (''status'', GStr (wp_Status w)),
          (''url'', GStr (wp_URL w)), (''computeAllocationId'', GStr (wp_ComputeID w)),
          (''currentComputeAllocationId'', GStr (wp_ComputeID w)), (''storageId'', GStr (wp_VolumeID w)),
          (''attachmentId'', GStr (wp_AttachmentID w)), (''currentAttachmentId'', GStr (wp_AttachmentID w)),
          (''runtimeId'', GStr (wp_RuntimeID w)),
          (''runtime'', GObj [(''serviceName'', GStr (wp_RuntimeServiceName w)), (''status'', GStr (wp_Status w)),
                              (''ready'', GBool (wp_RuntimeReady w))]),
          (''receiptId'', GStr (wp_ReceiptID w)), (''access'', GObj access)] @
         (if 0 < wp_WorkspaceAPIKeyID w then [(''workspaceApiKeyId'', GInt (wp_WorkspaceAPIKeyID w))] else []))"

definition utc_text :: "instant \<Rightarrow> string" where "utc_text t = format_rfc3339nano t"

text \<open>\<open>Inl\<close>: the code of the review. Validation and the canonical text of a billing state
  (\<^verbatim>\<open>ent_state_store.go\<close>) are the function \<open>sv_encodeBillingState\<close>.\<close>

definition launch_billing_row :: "launch_operation \<Rightarrow> int \<Rightarrow> int \<Rightarrow> instant \<Rightarrow> instant \<Rightarrow> gomap" where
  "launch_billing_row op computePrice storagePrice periodStart paidThrough =
     [(''ownerUserId'', GStr (lo_OwnerUserID op)), (''currentComputeAllocationId'', GStr (lo_ComputeID op)),
      (''autoRenew'', GBool False), (''authorizedBy'', GStr []), (''authorizedAt'', GStr []),
      (''packageId'', GStr (lo_PackageID op)), (''storageGb'', GInt (lo_StorageGB op)),
      (''priceVersion'', GStr (lo_PriceVersion op)), (''currency'', GStr pricingCurrency), (''billingUnit'', GStr pricingBillingUnit),
      (''computeUsdMicros'', GInt computePrice), (''storageUsdMicros'', GInt storagePrice),
      (''totalUsdMicros'', GInt (lo_TotalChargeUSDMicros op)),
      (''periodStart'', GStr (utc_text periodStart)), (''paidThrough'', GStr (utc_text paidThrough)),
      (''nextRenewalAt'', GStr (utc_text (paidThrough - ns_per_day))), (''billingAnchorDay'', GInt (lo_BillingAnchorDay op)),
      (''renewalStatus'', GStr ''active''), (''computeAllocationId'', GStr (lo_ComputeID op)), (''storageId'', GStr (lo_StorageID op))]"

definition launch_billing_state :: "services \<Rightarrow> launch_operation \<Rightarrow> gomap option \<Rightarrow> gomap option \<Rightarrow> (string, gomap) res" where
  "launch_billing_state sv op found_compute found_storage =
     (case (found_compute, found_storage) of
        (Some compute, Some storage) \<Rightarrow>
          if \<not> workspaceLaunchResourceIdentityMatches ''compute'' compute op \<or>
             \<not> workspaceLaunchResourceIdentityMatches ''storage'' storage op then Inl ''workspace_launch_billing_identity_mismatch''
          else if \<not> monthlyPurchaseReadbackConfirmed (sv_env sv) ''compute'' (workspaceLaunchProviderExpectation (sv_env sv) op ''compute'') compute \<or>
             \<not> monthlyPurchaseReadbackConfirmed (sv_env sv) ''storage'' (workspaceLaunchProviderExpectation (sv_env sv) op ''storage'') storage
          then Inl ''workspace_launch_provider_readback_invalid''
          else
            (case workspaceLaunchComponents op of
               None \<Rightarrow> Inl ''workspace_launch_billing_price_mismatch''
             | Some (components, computePrice, storagePrice) \<Rightarrow>
                 (case (parse_rfc3339 (lo_PeriodStart op), parse_rfc3339 (lo_PaidThrough op)) of
                    (Some (periodStart, _), Some (paidThrough, _)) \<Rightarrow>
                      if \<not> paidThrough > periodStart \<or> lo_BillingAnchorDay op < 1 \<or> lo_BillingAnchorDay op > 31
                      then Inl ''workspace_launch_billing_period_mismatch''
                      else if list_ex (\<lambda>row. case monthlyProviderDeadline row of None \<Rightarrow> True | Some d \<Rightarrow> d < paidThrough) [compute, storage]
                      then Inl ''workspace_launch_provider_deadline_invalid''
                      else
                        (let state = launch_billing_row op computePrice storagePrice periodStart paidThrough
                         in if sv_encodeBillingState sv state = None then Inl ''workspace_launch_billing_state_invalid'' else Inr state)
                  | _ \<Rightarrow> Inl ''workspace_launch_billing_period_mismatch''))
      | _ \<Rightarrow> Inl ''workspace_launch_billing_identity_mismatch'')"

definition workspaceLaunchBillingState :: "services \<Rightarrow> launch_operation \<Rightarrow> (string, gomap) res act" where
  "workspaceLaunchBillingState sv op =
     do { computes \<leftarrow> peek ''ListComputes'' (sv_ListComputes sv);
          storages \<leftarrow> peek ''ListStorages'' (sv_ListStorages sv);
          ret (launch_billing_state sv op (findRecord computes (lo_ComputeID op)) (findRecord storages (lo_StorageID op))) }"

definition workspaceBillingStateMatchesLaunch :: "services \<Rightarrow> gomap \<Rightarrow> gomap \<Rightarrow> bool" where
  "workspaceBillingStateMatchesLaunch sv workspace expected \<longleftrightarrow>
     sv_encodeBillingState sv workspace \<noteq> None \<and> sv_encodeBillingState sv workspace = sv_encodeBillingState sv expected"

end
