(* ===== verification/CP_Launch.thy ===== *)
theory CP_Launch
  imports CP_Launch_Run
begin

text \<open>
  The state machine of a launch: one step per phase, whole runs under a lease, the review of a
  launch that got stuck, and the gateway key it starts with, after
  \<^verbatim>\<open>workspace_launch.go\<close> and \<^verbatim>\<open>routes_workspace_launch.go\<close>.
\<close>

section \<open>Steps\<close>

text \<open>A step ends the run with the joined errors or goes on with the operation as written.\<close>

definition advance_launch :: "services \<Rightarrow> launch_operation \<Rightarrow> string \<Rightarrow> (svc_error list, launch_operation) res act" where
  "advance_launch sv op phase =
     do { r \<leftarrow> persistWorkspaceLaunch sv (op\<lparr>lo_Status := ''preparing'', lo_Phase := phase, lo_ErrorCode := []\<rparr>);
          ret (case r of Inl e \<Rightarrow> Inl [e] | Inr op' \<Rightarrow> Inr op') }"

definition stop_launch :: "svc_error list act \<Rightarrow> (svc_error list, launch_operation) res act" where
  "stop_launch m = do { errs \<leftarrow> m; ret (Inl errs) }"

text \<open>An absent compute resource: the charge goes back only when the storage is absent as well.\<close>

definition absent_compute :: "services \<Rightarrow> launch_operation \<Rightarrow> svc_error list act" where
  "absent_compute sv op =
     do { (err, facts) \<leftarrow> peek ''SyncStorage'' (\<lambda>log. sv_SyncStorage sv log (lo_StorageID op));
          case err of
            Some e \<Rightarrow>
              if e = ErrStorageVolumeNotFound then refundWorkspaceLaunch sv op ''fabric_compute_and_storage_confirmed_absent''
              else manualReviewWorkspaceLaunchFulfillment sv op ''fabric_storage_readback_unconfirmed_blocks_refund''
          | None \<Rightarrow>
              if \<not> workspaceLaunchResourceIdentityMatches ''storage'' facts op then
                manualReviewWorkspaceLaunchFulfillment sv op ''fabric_storage_readback_unconfirmed_blocks_refund''
              else if \<not> monthlyResourceConfirmedAbsent ''storage'' facts then
                manualReviewWorkspaceLaunchFulfillment sv op ''fabric_storage_presence_blocks_refund''
              else refundWorkspaceLaunch sv op ''fabric_compute_and_storage_confirmed_absent'' }"

definition resource_step :: "services \<Rightarrow> launch_operation \<Rightarrow> (svc_error list, launch_operation) res act" where
  "resource_step sv op =
     (let resourceType = (if lo_Phase op = ''storage_fulfilling'' then ''storage'' else ''compute'')
      in do { result \<leftarrow> fulfillWorkspaceLaunchResource sv op resourceType;
              case result of
                Inl e \<Rightarrow> ret (Inl [e])
              | Inr outcome \<Rightarrow>
                  (case outcome of
                     Ready \<Rightarrow> advance_launch sv op (if resourceType = ''compute'' then ''storage_fulfilling'' else ''attaching'')
                   | Absent \<Rightarrow>
                       if resourceType = ''compute'' then stop_launch (absent_compute sv op)
                       else stop_launch (manualReviewWorkspaceLaunchFulfillment sv op ''fabric_storage_confirmed_absent_after_compute_created'')
                   | Waiting \<Rightarrow> stop_launch (waitWorkspaceLaunchFulfillment sv op)
                   | Unknown \<Rightarrow> stop_launch (manualReviewWorkspaceLaunchFulfillment sv op
                                   (''fabric_'' @ resourceType @ ''_fulfillment_unconfirmed''))) })"

definition attaching_step :: "services \<Rightarrow> launch_operation \<Rightarrow> (svc_error list, launch_operation) res act" where
  "attaching_step sv op =
     do { attached \<leftarrow> attach_launch sv op;
          case attached of
            Inl errs \<Rightarrow> ret (Inl errs)
          | Inr aid \<Rightarrow> advance_launch sv (op\<lparr>lo_AttachmentID := aid\<rparr>) ''secret_writing'' }"

definition secret_step :: "services \<Rightarrow> launch_operation \<Rightarrow> (svc_error list, launch_operation) res act" where
  "secret_step sv op =
     do { user \<leftarrow> launch_user sv (lo_AccountID op);
          case user of
            Inl e \<Rightarrow> stop_launch (retryWorkspaceLaunchFulfillment sv op ''workspace_launch_account_mapping_unavailable'' [ErrAccount e])
          | Inr userID \<Rightarrow>
              do { secret \<leftarrow> SyncWorkspaceGatewaySecretByID sv (lo_AccountID op) (lo_WorkspaceID op) userID (lo_WorkspaceAPIKeyID op)
                     (workspaceReservedKeyName (sv_sha sv) (lo_WorkspaceID op)) (lo_WorkspaceOperationID op @ '':secret'');
                   case secret of
                     Inl e \<Rightarrow> stop_launch (retryWorkspaceLaunchFulfillment sv op ''workspace_launch_secret_retryable'' [e])
                   | Inr s \<Rightarrow>
                       if sr_SecretRef s = [] \<or> sr_Version s = [] \<or> sr_Fingerprint s = [] then
                         stop_launch (manualReviewWorkspaceLaunchFulfillment sv op ''workspace_launch_secret_readback_invalid'')
                       else advance_launch sv (op\<lparr>lo_GatewaySecretRef := sr_SecretRef s, lo_WorkspaceKeyStatus := ''configured'',
                                                 lo_WorkspaceKeyFingerprint := sr_Fingerprint s\<rparr>) ''runtime_starting'' } }"

definition launch_workspace_input :: "services \<Rightarrow> launch_operation \<Rightarrow> int \<Rightarrow> create_workspace_input" where
  "launch_workspace_input sv op userID =
     \<lparr>cw_WorkspaceID = lo_WorkspaceID op, cw_AccountID = lo_AccountID op, cw_Sub2APIUserID = userID,
      cw_WorkspaceAPIKeyID = lo_WorkspaceAPIKeyID op, cw_WorkspaceAPIKeyName = workspaceReservedKeyName (sv_sha sv) (lo_WorkspaceID op),
      cw_OwnerID = lo_OwnerUserID op, cw_Name = lo_Name op, cw_PackageID = lo_PackageID op, cw_AttachmentID = lo_AttachmentID op,
      cw_ComputeID = lo_ComputeID op, cw_VolumeID = lo_StorageID op, cw_GatewaySecretRef = lo_GatewaySecretRef op\<rparr>"

definition note_runtime :: "workspace_projection \<Rightarrow> launch_operation \<Rightarrow> launch_operation" where
  "note_runtime w op =
     op\<lparr>lo_RuntimeID := wp_RuntimeID w, lo_RuntimeReady := wp_RuntimeReady w, lo_RuntimeServiceName := wp_RuntimeServiceName w,
        lo_RuntimeUsername := wp_RuntimeUsername w, lo_CredentialStatus := wp_CredentialStatus w,
        lo_CredentialVersion := wp_CredentialVersion w, lo_CredentialSecretRef := wp_CredentialSecretRef w, lo_URL := wp_URL w\<rparr>"

definition runtime_step :: "services \<Rightarrow> launch_operation \<Rightarrow> (svc_error list, launch_operation) res act" where
  "runtime_step sv op =
     do { user \<leftarrow> launch_user sv (lo_AccountID op);
          case user of
            Inl e \<Rightarrow> stop_launch (retryWorkspaceLaunchFulfillment sv op ''workspace_launch_account_mapping_unavailable'' [ErrAccount e])
          | Inr userID \<Rightarrow>
              do { prepared \<leftarrow> PrepareWorkspace sv (launch_workspace_input sv op userID) (lo_WorkspaceOperationID op);
                   case prepared of
                     Inl e \<Rightarrow>
                       if e = ErrWorkspaceRuntimeIdentityMismatch then
                         stop_launch (manualReviewWorkspaceLaunchFulfillment sv op ''workspace_launch_runtime_identity_mismatch'')
                       else if e = ErrWorkspaceRuntimeReadbackInvalid then
                         stop_launch (manualReviewWorkspaceLaunchFulfillment sv op ''workspace_launch_runtime_readback_invalid'')
                       else stop_launch (retryWorkspaceLaunchFulfillment sv op ''workspace_launch_runtime_retryable'' [e])
                   | Inr w \<Rightarrow>
                       if \<not> workspaceProjectionMatchesLaunch w op \<or> \<not> workspaceRuntimeAttemptMatches w op then
                         stop_launch (manualReviewWorkspaceLaunchFulfillment sv op ''workspace_launch_runtime_readback_invalid'')
                       else if \<not> wp_RuntimeReady w \<or> wp_Status w \<noteq> ''running'' then
                         stop_launch (waitWorkspaceLaunchFulfillment sv (note_runtime w op))
                       else if \<not> workspaceProjectionConfiguredForLaunch w then
                         stop_launch (manualReviewWorkspaceLaunchFulfillment sv (note_runtime w op) ''workspace_launch_runtime_readback_invalid'')
                       else advance_launch sv (note_runtime w op) ''activating'' } }"

text \<open>The rows a workspace is activated with; billing fields come last and replace the others.\<close>

definition activation_row :: "launch_operation \<Rightarrow> gomap \<Rightarrow> gomap" where
  "activation_row op state =
     fold (\<lambda>(k, v) row. mset_key k v row) state (workspaceProjectionRow (workspaceProjectionFromLaunch op))"

definition activating_step :: "services \<Rightarrow> launch_operation \<Rightarrow> (svc_error list, launch_operation) res act" where
  "activating_step sv op =
     do { verified \<leftarrow> verifyWorkspaceLaunchProviderReadback sv op;
          if \<not> verified then stop_launch (manualReviewWorkspaceLaunchFulfillment sv op ''workspace_launch_provider_readback_invalid'')
          else
            do { billing \<leftarrow> workspaceLaunchBillingState sv op;
                 case billing of
                   Inl code \<Rightarrow> stop_launch (manualReviewWorkspaceLaunchFulfillment sv op code)
                 | Inr state \<Rightarrow>
                     do { existing \<leftarrow> peek ''Workspace'' (\<lambda>log. sv_Workspace sv log (lo_WorkspaceID op));
                          case existing of
                            Some w \<Rightarrow>
                              if \<not> workspaceMatchesLaunch w op \<or> \<not> workspaceBillingStateMatchesLaunch sv w state \<or>
                                 sfield w ''runtimeId'' \<noteq> lo_RuntimeID op
                              then stop_launch (manualReviewWorkspaceLaunchFulfillment sv op ''workspace_launch_activation_identity_mismatch'')
                              else advance_launch sv op ''receipt_pending''
                          | None \<Rightarrow>
                              do { activated \<leftarrow> tell (ActivateWorkspace (activation_row op state))
                                     (\<lambda>log. sv_ActivateWorkspace sv log (activation_row op state));
                                   case activated of
                                     None \<Rightarrow> advance_launch sv op ''receipt_pending''
                                   | Some e \<Rightarrow>
                                       if e = ErrWorkspaceActivationConflict then
                                         stop_launch (manualReviewWorkspaceLaunchFulfillment sv op ''workspace_launch_activation_conflict'')
                                       else stop_launch (retryWorkspaceLaunchFulfillment sv op ''workspace_launch_activation_retryable'' [e]) } } } }"

definition fulfill_step :: "services \<Rightarrow> launch_operation \<Rightarrow> (svc_error list, launch_operation) res act" where
  "fulfill_step sv op =
     (let phase = lo_Phase op
      in if phase = ''debited'' then advance_launch sv op ''compute_fulfilling''
         else if phase = ''compute_fulfilling'' \<or> phase = ''storage_fulfilling'' then resource_step sv op
         else if phase = ''attaching'' then attaching_step sv op
         else if phase = ''secret_writing'' then secret_step sv op
         else if phase = ''runtime_starting'' then runtime_step sv op
         else if phase = ''activating'' then activating_step sv op
         else if phase = ''receipt_pending'' then stop_launch (recordWorkspaceLaunchPurchaseReceipt sv op)
         else if phase = ''refund_pending'' then stop_launch (refundWorkspaceLaunch sv op (lo_RefundReason op))
         else if phase = ''succeeded'' \<or> phase = ''refunded'' then ret (Inl [])
         else stop_launch (manualReviewWorkspaceLaunchFulfillment sv op ''workspace_launch_phase_invalid''))"

text \<open>The loop \<^verbatim>\<open>for range 10\<close>: the first argument counts the rounds that are left.\<close>

fun fulfill_rounds :: "nat \<Rightarrow> services \<Rightarrow> launch_operation \<Rightarrow> svc_error list act" where
  "fulfill_rounds 0 sv op =
     retryWorkspaceLaunchFulfillment sv op ''workspace_launch_transition_limit'' [ErrText ''workspace launch transition limit'']"
| "fulfill_rounds (Suc n) sv op =
     do { r \<leftarrow> fulfill_step sv op; case r of Inl errs \<Rightarrow> ret errs | Inr op' \<Rightarrow> fulfill_rounds n sv op' }"

definition fulfillWorkspaceLaunch :: "services \<Rightarrow> launch_operation \<Rightarrow> svc_error list act" where
  "fulfillWorkspaceLaunch sv op = fulfill_rounds 10 sv op"

section \<open>A run\<close>

definition leaseDuration :: int where "leaseDuration = 5 * 60 * ns_per_sec"

definition resting :: "launch_operation \<Rightarrow> bool" where
  "resting op \<longleftrightarrow> terminalWorkspaceLaunchStatus (lo_Status op) \<or> lo_Status op = ''manual_review''"

definition debit_run :: "services \<Rightarrow> launch_operation \<Rightarrow> svc_error list act" where
  "debit_run sv op =
     do { found \<leftarrow> findUserByID sv (lo_OwnerUserID op);
          case found of
            None \<Rightarrow> retryWorkspaceLaunchDebit sv op ''workspace_launch_owner_state_unavailable'' [ErrText ''state_read_failed'']
          | Some owner \<Rightarrow>
              do { active \<leftarrow>
                     (case owner of
                        None \<Rightarrow> ret (Some False)
                      | Some user \<Rightarrow> if sfield user ''accountId'' = lo_AccountID op then hasActiveCustomerMembership sv user
                                     else ret (Some False));
                   case active of
                     None \<Rightarrow> retryWorkspaceLaunchDebit sv op ''workspace_launch_owner_state_unavailable'' [ErrText ''state_read_failed'']
                   | Some ownerActive \<Rightarrow>
                       if \<not> ownerActive then manualReviewWorkspaceLaunchDebit sv op ''workspace_launch_owner_identity_mismatch''
                       else if \<not> lo_ChargeAttempted op \<and> lo_ChargeConfirmation op = None then
                         do { failed \<leftarrow> verifyWorkspaceLaunchPreflight sv op;
                              case failed of
                                Some (code, errs) \<Rightarrow> retryWorkspaceLaunchDebit sv op code errs
                              | None \<Rightarrow> debitWorkspaceLaunch sv op }
                       else debitWorkspaceLaunch sv op } }"

definition claim_launch :: "services \<Rightarrow> launch_operation \<Rightarrow> (svc_error, launch_operation) res act" where
  "claim_launch sv op =
     do { now \<leftarrow> peek ''now'' (sv_now sv);
          later \<leftarrow> peek ''now'' (sv_now sv);
          let op' = op\<lparr>lo_LeaseToken := stableID (sv_sha sv) [lo_ID op, lo_PersistedResult op, format_rfc3339nano now],
                      lo_LeaseExpiresAt := format_rfc3339nano (later + leaseDuration)\<rparr>;
          err \<leftarrow> ask (\<lambda>log. sv_ClaimWorkspaceLaunch sv log (lo_PersistedResult op) op') (\<lambda>err. Claim op' (err = None));
          ret (case err of Some e \<Rightarrow> Err e | None \<Rightarrow> Ok (op'\<lparr>lo_PersistedResult := sv_marshal sv op'\<rparr>)) }"

definition work_launch :: "services \<Rightarrow> launch_operation \<Rightarrow> svc_error list act" where
  "work_launch sv op =
     do { claimed \<leftarrow> claim_launch sv op;
          case claimed of
            Inl e \<Rightarrow> ret (if e = ErrWorkspaceLaunchCASConflict then [] else [e])
          | Inr op' \<Rightarrow> if lo_Phase op' = ''debit_pending'' then debit_run sv op' else fulfillWorkspaceLaunch sv op' }"

definition run_loaded :: "services \<Rightarrow> launch_operation \<Rightarrow> svc_error list act" where
  "run_loaded sv op =
     (if lo_Phase op = ''key_pending'' then ret []
      else if lo_LeaseExpiresAt op = [] then work_launch sv op
      else
        (case parse_rfc3339 (lo_LeaseExpiresAt op) of
           None \<Rightarrow> manualReviewWorkspaceLaunchDebit sv op ''workspace_launch_lease_invalid''
         | Some (expiresAt, _) \<Rightarrow>
             do { now \<leftarrow> peek ''now'' (sv_now sv);
                  if expiresAt > now then ret [] else work_launch sv op }))"

text \<open>The operation is read, and read again under the lock.\<close>

definition runWorkspaceLaunch :: "services \<Rightarrow> string \<Rightarrow> svc_error list act" where
  "runWorkspaceLaunch sv operationID =
     do { first \<leftarrow> workspaceLaunchOperation sv operationID;
          case first of
            Inl e \<Rightarrow> ret [e]
          | Inr None \<Rightarrow> ret []
          | Inr (Some op0) \<Rightarrow>
              if resting op0 then ret []
              else
                do { second \<leftarrow> workspaceLaunchOperation sv operationID;
                     case second of
                       Inl e \<Rightarrow> ret [e]
                     | Inr None \<Rightarrow> ret []
                     | Inr (Some op) \<Rightarrow> if resting op then ret [] else run_loaded sv op } }"

fun run_rows :: "services \<Rightarrow> gomap list \<Rightarrow> svc_error list act" where
  "run_rows sv [] = ret []"
| "run_rows sv (row # rows) =
     do { errs \<leftarrow> (if sfield row ''action'' \<noteq> workspaceLaunchAction then ret []
                   else case decodeWorkspaceLaunchOperation sv row of
                          None \<Rightarrow> ret [ErrText ''invalid_workspace_launch_operation'']
                        | Some op \<Rightarrow> if resting op then ret [] else runWorkspaceLaunch sv (sfield row ''id''));
          others \<leftarrow> run_rows sv rows;
          ret (errs @ others) }"

definition runWorkspaceLaunchesOnce :: "services \<Rightarrow> svc_error list act" where
  "runWorkspaceLaunchesOnce sv =
     do { rows \<leftarrow> peek ''ListRuntimeOperations'' (sv_ListRuntimeOperations sv);
          case rows of None \<Rightarrow> ret [ErrText ''state_read_failed''] | Some rs \<Rightarrow> run_rows sv rs }"

section \<open>Review\<close>

record resolution_input =
  bi_ResourceType :: string
  bi_ResourceID :: string
  bi_AccountID :: string
  bi_BillingOperationID :: string
  bi_IdempotencyKey :: string
  bi_Reviewer :: string

datatype review_error =
    ErrInvalidBillingReview | ErrBillingReviewNotFound | ErrBillingReviewIdentity | ErrBillingReviewNotPending
  | ErrReview svc_error

definition workspaceLaunchChargeConfirmed :: "launch_operation \<Rightarrow> int \<Rightarrow> bool" where
  "workspaceLaunchChargeConfirmed op userID \<longleftrightarrow>
     lo_ChargeAttempted op \<and> lo_PostChargeBalanceKnown op \<and> lo_PreChargeBalanceUSDMicros op > lo_TotalChargeUSDMicros op \<and>
     lo_PostChargeBalanceUSDMicros op = wrap64 (lo_PreChargeBalanceUSDMicros op - lo_TotalChargeUSDMicros op) \<and>
     monthlyChargeConfirmationMatches (opt_map (lo_ChargeConfirmation op)) (lo_RedeemCode op) userID (lo_TotalChargeUSDMicros op)"

definition workspaceLaunchRecoveryResourceState ::
    "services \<Rightarrow> launch_operation \<Rightarrow> string \<Rightarrow> string \<Rightarrow> gomap \<Rightarrow> (svc_error, string) res act" where
  "workspaceLaunchRecoveryResourceState sv op resourceType state facts =
     (if (state \<noteq> ''ready'' \<and> state \<noteq> ''absent'') \<or> \<not> workspaceLaunchResourceIdentityMatches resourceType facts op \<or>
         (state = ''ready'' \<and> \<not> monthlyPurchaseReadbackConfirmed (sv_env sv) resourceType
            (workspaceLaunchProviderExpectation (sv_env sv) op resourceType) facts) \<or>
         (state = ''absent'' \<and> \<not> monthlyResourceConfirmedAbsent resourceType facts)
      then ret (Ok ''unknown'')
      else
        do { saved \<leftarrow> save_resource sv resourceType
               (stripWorkspaceLaunchResourceBilling (mergeMaps (workspaceLaunchResourceRow (sv_env sv) op resourceType) facts));
             ret (case saved of Some e \<Rightarrow> Err e | None \<Rightarrow> Ok state) })"

definition workspaceLaunchRecoveryResourceStates :: "services \<Rightarrow> launch_operation \<Rightarrow> (svc_error, string \<times> string) res act" where
  "workspaceLaunchRecoveryResourceStates sv op =
     do { answer \<leftarrow> peek ''MonthlyProviderTruth'' (\<lambda>log. sv_MonthlyProviderTruth sv log (lo_ComputeID op) (lo_StorageID op));
          case answer of
            Inl _ \<Rightarrow> ret (Ok (''unknown'', ''unknown''))
          | Inr truth \<Rightarrow>
              do { compute \<leftarrow> workspaceLaunchRecoveryResourceState sv op ''compute'' (pt_ComputeState truth) (pt_Compute truth);
                   case compute of
                     Inl e \<Rightarrow> ret (Err e)
                   | Inr c \<Rightarrow>
                       do { storage \<leftarrow> workspaceLaunchRecoveryResourceState sv op ''storage'' (pt_StorageState truth) (pt_Storage truth);
                            ret (case storage of Inl e \<Rightarrow> Err e | Inr s \<Rightarrow> Ok (c, s)) } } }"

definition workspaceLaunchRecoveryResponse :: "services \<Rightarrow> launch_operation \<Rightarrow> (review_error, gomap) res" where
  "workspaceLaunchRecoveryResponse sv op =
     (case workspaceLaunchResponse sv (workspaceLaunchOperationRow sv op) of
        None \<Rightarrow> Err (ErrReview (ErrText ''invalid_workspace_launch_operation''))
      | Some result \<Rightarrow>
          Ok (mset_key ''allowedActions'' (GStrs (if lo_Status op = ''manual_review'' then [''recover_workspace_launch''] else []))
                (mset_key ''billingOperationId'' (GStr (lo_ID op)) (mset_key ''resourceType'' (GStr ''workspace'') result))))"

definition keepWorkspaceLaunchReview :: "services \<Rightarrow> launch_operation \<Rightarrow> string \<Rightarrow> (review_error, gomap) res act" where
  "keepWorkspaceLaunchReview sv op code =
     do { r \<leftarrow> persistWorkspaceLaunch sv (releaseWorkspaceLaunchLease (op\<lparr>lo_Status := ''manual_review'', lo_ErrorCode := code\<rparr>));
          ret (case r of Inl e \<Rightarrow> Err (ErrReview e) | Inr op' \<Rightarrow> workspaceLaunchRecoveryResponse sv op') }"

definition currentWorkspaceLaunchRecoveryResponse :: "services \<Rightarrow> string \<Rightarrow> (review_error, gomap) res act" where
  "currentWorkspaceLaunchRecoveryResponse sv operationID =
     do { r \<leftarrow> workspaceLaunchOperation sv operationID;
          ret (case r of
                 Inl e \<Rightarrow> Err (ErrReview e)
               | Inr None \<Rightarrow> Err ErrBillingReviewNotFound
               | Inr (Some op) \<Rightarrow> workspaceLaunchRecoveryResponse sv op) }"

definition resume_launch :: "services \<Rightarrow> launch_operation \<Rightarrow> string \<Rightarrow> (review_error, gomap) res act" where
  "resume_launch sv op phase =
     do { r \<leftarrow> persistWorkspaceLaunch sv
            (releaseWorkspaceLaunchLease (op\<lparr>lo_Status := ''preparing'', lo_Phase := phase, lo_ErrorCode := []\<rparr>));
          case r of
            Inl e \<Rightarrow> ret (Err (ErrReview e))
          | Inr op' \<Rightarrow> do { _ \<leftarrow> fulfillWorkspaceLaunch sv op'; currentWorkspaceLaunchRecoveryResponse sv (lo_ID op) } }"

definition review_launch :: "services \<Rightarrow> launch_operation \<Rightarrow> (review_error, gomap) res act" where
  "review_launch sv op =
     do { user \<leftarrow> launch_user sv (lo_AccountID op);
          case user of
            Inl _ \<Rightarrow> keepWorkspaceLaunchReview sv op ''workspace_launch_charge_unconfirmed''
          | Inr userID \<Rightarrow>
              if \<not> workspaceLaunchChargeConfirmed op userID then keepWorkspaceLaunchReview sv op ''workspace_launch_charge_unconfirmed''
              else
                do { states \<leftarrow> workspaceLaunchRecoveryResourceStates sv op;
                     case states of
                       Inl e \<Rightarrow> ret (Err (ErrReview e))
                     | Inr (compute, storage) \<Rightarrow>
                         if compute = ''ready'' \<and> storage = ''absent'' then resume_launch sv op ''storage_fulfilling''
                         else if compute = ''ready'' \<and> storage = ''ready'' then resume_launch sv op ''attaching''
                         else if compute = ''absent'' \<and> storage = ''absent'' then
                           do { _ \<leftarrow> refundWorkspaceLaunch sv op ''fabric_compute_and_storage_confirmed_absent'';
                                currentWorkspaceLaunchRecoveryResponse sv (lo_ID op) }
                         else if compute = ''absent'' \<and> storage = ''ready'' then
                           keepWorkspaceLaunchReview sv op ''workspace_launch_compute_absent_storage_present''
                         else keepWorkspaceLaunchReview sv op ''workspace_launch_provider_state_unknown'' } }"

definition review_pending :: "services \<Rightarrow> launch_operation \<Rightarrow> (review_error, gomap) res act" where
  "review_pending sv op =
     (if lo_Phase op = ''receipt_pending'' then
        do { _ \<leftarrow> recordWorkspaceLaunchPurchaseReceipt sv op; currentWorkspaceLaunchRecoveryResponse sv (lo_ID op) }
      else if lo_Phase op = ''refund_pending'' \<and> lo_RefundConfirmation op \<noteq> None then
        do { user \<leftarrow> launch_user sv (lo_AccountID op);
             case user of
               Inl _ \<Rightarrow> keepWorkspaceLaunchReview sv op ''workspace_launch_refund_account_unmapped''
             | Inr userID \<Rightarrow>
                 do { _ \<leftarrow> recordWorkspaceLaunchRefundReceipt sv op userID; currentWorkspaceLaunchRecoveryResponse sv (lo_ID op) } }
      else review_launch sv op)"

definition recoverWorkspaceLaunchReview :: "services \<Rightarrow> resolution_input \<Rightarrow> (review_error, gomap) res act" where
  "recoverWorkspaceLaunchReview sv i =
     (if bi_ResourceType i \<noteq> ''workspace_launch'' \<or> bi_ResourceID i = [] \<or> bi_ResourceID i \<noteq> bi_BillingOperationID i \<or>
         bi_AccountID i = [] \<or> bi_IdempotencyKey i = [] \<or> bi_Reviewer i = [] then ret (Err ErrInvalidBillingReview)
      else
        do { first \<leftarrow> workspaceLaunchOperation sv (bi_ResourceID i);
             case first of
               Inl e \<Rightarrow> ret (Err (ErrReview e))
             | Inr None \<Rightarrow> ret (Err ErrBillingReviewNotFound)
             | Inr (Some op0) \<Rightarrow>
                 if lo_AccountID op0 \<noteq> bi_AccountID i then ret (Err ErrBillingReviewIdentity)
                 else
                   do { second \<leftarrow> workspaceLaunchOperation sv (bi_ResourceID i);
                        case second of
                          Inl e \<Rightarrow> ret (Err (ErrReview e))
                        | Inr None \<Rightarrow> ret (Err ErrBillingReviewNotFound)
                        | Inr (Some op) \<Rightarrow>
                            if lo_AccountID op \<noteq> bi_AccountID i then ret (Err ErrBillingReviewIdentity)
                            else if terminalWorkspaceLaunchStatus (lo_Status op) then ret (workspaceLaunchRecoveryResponse sv op)
                            else if lo_Status op \<noteq> ''manual_review'' then ret (Err ErrBillingReviewNotPending)
                            else review_pending sv op } })"

section \<open>The gateway key\<close>

definition workspaceKeysNamed :: "workspace_key list \<Rightarrow> string \<Rightarrow> workspace_key list" where
  "workspaceKeysNamed keys name = filter (\<lambda>k. wk_Name k = name) keys"

definition usable_key :: "int \<Rightarrow> workspace_key list \<Rightarrow> workspace_key option" where
  "usable_key userID reserved =
     (case reserved of
        [k] \<Rightarrow> if wk_UserID k = userID \<and> 0 < wk_ID k \<and> wk_Status k = ''active'' then Some k else None
      | _ \<Rightarrow> None)"

definition convergeWorkspaceAPIKey :: "services \<Rightarrow> int \<Rightarrow> string \<Rightarrow> string \<Rightarrow> (svc_error, workspace_key) res act" where
  "convergeWorkspaceAPIKey sv userID workspaceID operationID =
     (let name = workspaceReservedKeyName (sv_sha sv) workspaceID; k = operationID @ '':workspace-key''
      in do { listed \<leftarrow> peek ''GatewayUserKeys'' (\<lambda>log. sv_GatewayUserKeys sv log userID);
              case listed of
                Inl e \<Rightarrow> ret (Err e)
              | Inr keys \<Rightarrow>
                  (case usable_key userID (workspaceKeysNamed keys name) of
                     Some key \<Rightarrow> ret (Ok key)
                   | None \<Rightarrow>
                       if workspaceKeysNamed keys name \<noteq> [] then ret (Err ErrSub2APIWorkspaceKeyAmbiguous)
                       else
                         do { (createErr, createdID) \<leftarrow> tell (CreateKey userID name k) (\<lambda>log. sv_CreateGatewayUserKey sv log userID name k);
                              listed' \<leftarrow> peek ''GatewayUserKeys'' (\<lambda>log. sv_GatewayUserKeys sv log userID);
                              ret (case listed' of
                                     Inl readErr \<Rightarrow> Err (case createErr of Some e \<Rightarrow> e | None \<Rightarrow> readErr)
                                   | Inr keys' \<Rightarrow>
                                       (case usable_key userID (workspaceKeysNamed keys' name) of
                                          None \<Rightarrow> Err ErrSub2APIWorkspaceKeyAmbiguous
                                        | Some key \<Rightarrow> if 0 < createdID \<and> createdID \<noteq> wk_ID key then Err ErrSub2APIWorkspaceKeyAmbiguous
                                                      else Ok key)) }) })"

definition convergeAndPersistWorkspaceLaunchKey :: "services \<Rightarrow> int \<Rightarrow> launch_operation \<Rightarrow> (svc_error, launch_operation) res act" where
  "convergeAndPersistWorkspaceLaunchKey sv userID op =
     do { key \<leftarrow> convergeWorkspaceAPIKey sv userID (lo_WorkspaceID op) (lo_ID op);
          case key of
            Inl e \<Rightarrow> ret (Err e)
          | Inr k \<Rightarrow> persistWorkspaceLaunch sv (op\<lparr>lo_WorkspaceAPIKeyID := wk_ID k, lo_Status := ''debit_pending'',
                       lo_Phase := ''debit_pending'', lo_ErrorCode := []\<rparr>) }"

end
