(* ===== verification/CP_Launch_Rules.thy ===== *)
theory CP_Launch_Rules
  imports CP_Launch
begin

text \<open>
  A calculus for the calls of a launch: \<open>does P m Q\<close> says that every call of \<open>m\<close>
  satisfies \<open>P\<close> and its result \<open>Q\<close>, whatever the services answer. Each operation has
  one rule for what it returns, for any \<open>P\<close> its own calls satisfy.
\<close>

lemma does_peek: "P (Read what) \<Longrightarrow> does P (peek what answer) (\<lambda>_. True)"
  unfolding peek_def by (rule does_ask) simp_all

lemma does_tell: "P c \<Longrightarrow> does P (tell c answer) (\<lambda>_. True)"
  unfolding tell_def by (rule does_ask) simp_all

lemma does_outcome: "(x = Ready \<Longrightarrow> does P a Q) \<Longrightarrow> (x = Absent \<Longrightarrow> does P b Q) \<Longrightarrow> (x = Waiting \<Longrightarrow> does P c Q) \<Longrightarrow>
    (x = Unknown \<Longrightarrow> does P d Q) \<Longrightarrow> does P (case x of Ready \<Rightarrow> a | Absent \<Rightarrow> b | Waiting \<Rightarrow> c | Unknown \<Rightarrow> d) Q"
  by (cases x) simp_all

lemmas does_splits = does_cases does_outcome

section \<open>What persisting returns\<close>

text \<open>The operation that comes back differs only in the text of its last write.\<close>

definition rewritten :: "launch_operation \<Rightarrow> (svc_error, launch_operation) res \<Rightarrow> bool" where
  "rewritten op r \<longleftrightarrow> (case r of Inl _ \<Rightarrow> True | Inr op' \<Rightarrow> (\<exists>t. op' = op\<lparr>lo_PersistedResult := t\<rparr>))"

lemma does_persist: "(\<And>b. P (Persist op b)) \<Longrightarrow> does P (persistWorkspaceLaunch sv op) (rewritten op)"
  unfolding persistWorkspaceLaunch_def
  by (rule does_bind [where R = "\<lambda>_. True"], rule does_ask, simp, simp, rule does_ret) (auto simp: rewritten_def split: option.split)

section \<open>Weakest preconditions\<close>

text \<open>The rules in the form in which they are applied from the front: the postcondition is a
  variable, so \<^verbatim>\<open>intro\<close> takes a computation apart.\<close>

lemma does_peekI: "P (Read what) \<Longrightarrow> (\<And>a. Q a) \<Longrightarrow> does P (peek what answer) Q"
  by (rule does_post, rule does_peek)

lemma does_tellI: "P c \<Longrightarrow> (\<And>a. Q a) \<Longrightarrow> does P (tell c answer) Q"
  by (rule does_post, rule does_tell)

lemma does_persistI [does_rules]:
  "(\<And>b. P (Persist op b)) \<Longrightarrow> (\<And>r. rewritten op r \<Longrightarrow> Q r) \<Longrightarrow> does P (persistWorkspaceLaunch sv op) Q"
  by (rule does_post, rule does_persist)

lemmas does_wp = does_bindI does_ret does_peekI does_tellI does_splits

lemma does_finish [does_rules]:
  "(\<And>b. P (Persist (releaseWorkspaceLaunchLease op) b)) \<Longrightarrow> (\<And>e. Q e) \<Longrightarrow> does P (finish_launch sv op causes) Q"
  unfolding finish_launch_def by (intro does_wp does_rules)

lemma does_launch_user [does_rules]:
  "P (Read ''ListAccounts'') \<Longrightarrow> (\<And>r. Q r) \<Longrightarrow> does P (launch_user sv a) Q"
  unfolding launch_user_def by (intro does_wp)

end
