(* ===== verification/CP_Launch_Facts.thy ===== *)
theory CP_Launch_Facts
  imports CP_Launch_Rules
begin

text \<open>
  What every launch keeps, whatever the services answer: the rules of its operations, the bound on
  its rounds, and the invariant of the operations it writes.
\<close>

section \<open>What a write keeps\<close>

text \<open>Fields no run changes: who the launch is for, what it buys, and the codes of its payments.\<close>

definition launch_identity where
  "launch_identity op =
     (lo_ID op, lo_AccountID op, lo_OwnerUserID op, lo_WorkspaceID op, lo_PackageID op, lo_StorageGB op, lo_PriceVersion op,
      lo_TotalChargeUSDMicros op, lo_RedeemCode op, lo_RefundCode op, lo_ComputeID op, lo_StorageID op)"

definition launch_payment where
  "launch_payment op =
     (lo_ChargeAttempted op, lo_ChargeConfirmation op, lo_PreChargeBalanceUSDMicros op, lo_PostChargeBalanceUSDMicros op,
      lo_PostChargeBalanceKnown op)"

text \<open>The updates of a run, field by field.\<close>

lemma launch_identity_update [simp]:
  "launch_identity (op\<lparr>lo_Status := x0\<rparr>) = launch_identity op"
  "launch_identity (op\<lparr>lo_Phase := x1\<rparr>) = launch_identity op"
  "launch_identity (op\<lparr>lo_PersistedResult := x2\<rparr>) = launch_identity op"
  "launch_identity (op\<lparr>lo_LeaseToken := x3\<rparr>) = launch_identity op"
  "launch_identity (op\<lparr>lo_LeaseExpiresAt := x4\<rparr>) = launch_identity op"
  "launch_identity (op\<lparr>lo_ErrorCode := x5\<rparr>) = launch_identity op"
  "launch_identity (op\<lparr>lo_AttachmentID := x6\<rparr>) = launch_identity op"
  "launch_identity (op\<lparr>lo_GatewaySecretRef := x7\<rparr>) = launch_identity op"
  "launch_identity (op\<lparr>lo_WorkspaceKeyStatus := x8\<rparr>) = launch_identity op"
  "launch_identity (op\<lparr>lo_WorkspaceKeyFingerprint := x9\<rparr>) = launch_identity op"
  "launch_identity (op\<lparr>lo_RuntimeID := x10\<rparr>) = launch_identity op"
  "launch_identity (op\<lparr>lo_RuntimeReady := x11\<rparr>) = launch_identity op"
  "launch_identity (op\<lparr>lo_RuntimeServiceName := x12\<rparr>) = launch_identity op"
  "launch_identity (op\<lparr>lo_RuntimeUsername := x13\<rparr>) = launch_identity op"
  "launch_identity (op\<lparr>lo_CredentialStatus := x14\<rparr>) = launch_identity op"
  "launch_identity (op\<lparr>lo_CredentialVersion := x15\<rparr>) = launch_identity op"
  "launch_identity (op\<lparr>lo_CredentialSecretRef := x16\<rparr>) = launch_identity op"
  "launch_identity (op\<lparr>lo_URL := x17\<rparr>) = launch_identity op"
  "launch_identity (op\<lparr>lo_ReceiptID := x18\<rparr>) = launch_identity op"
  "launch_identity (op\<lparr>lo_RefundAttempted := x19\<rparr>) = launch_identity op"
  "launch_identity (op\<lparr>lo_RefundConfirmation := x20\<rparr>) = launch_identity op"
  "launch_identity (op\<lparr>lo_RefundReason := x21\<rparr>) = launch_identity op"
  "launch_identity (op\<lparr>lo_RefundReceiptID := x22\<rparr>) = launch_identity op"
  "launch_identity (op\<lparr>lo_ChargeAttempted := x23\<rparr>) = launch_identity op"
  "launch_identity (op\<lparr>lo_ChargeConfirmation := x24\<rparr>) = launch_identity op"
  "launch_identity (op\<lparr>lo_PreChargeBalanceUSDMicros := x25\<rparr>) = launch_identity op"
  "launch_identity (op\<lparr>lo_PostChargeBalanceUSDMicros := x26\<rparr>) = launch_identity op"
  "launch_identity (op\<lparr>lo_PostChargeBalanceKnown := x27\<rparr>) = launch_identity op"
  "launch_identity (op\<lparr>lo_WorkspaceAPIKeyID := x28\<rparr>) = launch_identity op"
  by (simp_all add: launch_identity_def)

lemma launch_payment_update [simp]:
  "launch_payment (op\<lparr>lo_Status := x0\<rparr>) = launch_payment op"
  "launch_payment (op\<lparr>lo_Phase := x1\<rparr>) = launch_payment op"
  "launch_payment (op\<lparr>lo_PersistedResult := x2\<rparr>) = launch_payment op"
  "launch_payment (op\<lparr>lo_LeaseToken := x3\<rparr>) = launch_payment op"
  "launch_payment (op\<lparr>lo_LeaseExpiresAt := x4\<rparr>) = launch_payment op"
  "launch_payment (op\<lparr>lo_ErrorCode := x5\<rparr>) = launch_payment op"
  "launch_payment (op\<lparr>lo_AttachmentID := x6\<rparr>) = launch_payment op"
  "launch_payment (op\<lparr>lo_GatewaySecretRef := x7\<rparr>) = launch_payment op"
  "launch_payment (op\<lparr>lo_WorkspaceKeyStatus := x8\<rparr>) = launch_payment op"
  "launch_payment (op\<lparr>lo_WorkspaceKeyFingerprint := x9\<rparr>) = launch_payment op"
  "launch_payment (op\<lparr>lo_RuntimeID := x10\<rparr>) = launch_payment op"
  "launch_payment (op\<lparr>lo_RuntimeReady := x11\<rparr>) = launch_payment op"
  "launch_payment (op\<lparr>lo_RuntimeServiceName := x12\<rparr>) = launch_payment op"
  "launch_payment (op\<lparr>lo_RuntimeUsername := x13\<rparr>) = launch_payment op"
  "launch_payment (op\<lparr>lo_CredentialStatus := x14\<rparr>) = launch_payment op"
  "launch_payment (op\<lparr>lo_CredentialVersion := x15\<rparr>) = launch_payment op"
  "launch_payment (op\<lparr>lo_CredentialSecretRef := x16\<rparr>) = launch_payment op"
  "launch_payment (op\<lparr>lo_URL := x17\<rparr>) = launch_payment op"
  "launch_payment (op\<lparr>lo_ReceiptID := x18\<rparr>) = launch_payment op"
  "launch_payment (op\<lparr>lo_RefundAttempted := x19\<rparr>) = launch_payment op"
  "launch_payment (op\<lparr>lo_RefundConfirmation := x20\<rparr>) = launch_payment op"
  "launch_payment (op\<lparr>lo_RefundReason := x21\<rparr>) = launch_payment op"
  "launch_payment (op\<lparr>lo_RefundReceiptID := x22\<rparr>) = launch_payment op"
  by (simp_all add: launch_payment_def)

lemma launch_identity_eq:
  "launch_identity p = launch_identity op \<Longrightarrow>
     lo_TotalChargeUSDMicros p = lo_TotalChargeUSDMicros op \<and> lo_RedeemCode p = lo_RedeemCode op \<and> lo_RefundCode p = lo_RefundCode op"
  by (simp add: launch_identity_def)

definition paid_phases :: "string set" where
  "paid_phases = {''debited'', ''compute_fulfilling'', ''storage_fulfilling'', ''attaching'', ''secret_writing'', ''runtime_starting'',
     ''activating'', ''receipt_pending'', ''succeeded'', ''refund_pending'', ''refunded''}"

lemma paid_phases [simp]:
  "''debited'' \<in> paid_phases" "''compute_fulfilling'' \<in> paid_phases" "''storage_fulfilling'' \<in> paid_phases"
  "''attaching'' \<in> paid_phases" "''secret_writing'' \<in> paid_phases" "''runtime_starting'' \<in> paid_phases"
  "''activating'' \<in> paid_phases" "''receipt_pending'' \<in> paid_phases" "''succeeded'' \<in> paid_phases"
  "''refund_pending'' \<in> paid_phases" "''refunded'' \<in> paid_phases"
  "''debit_pending'' \<notin> paid_phases" "''key_pending'' \<notin> paid_phases"
  by (simp_all add: paid_phases_def)

definition refunding :: "launch_operation \<Rightarrow> bool" where
  "refunding op \<longleftrightarrow> lo_Phase op = ''refund_pending'' \<or> lo_Phase op = ''refunded''"

text \<open>A refund that was begun leaves only the phases of a refund.\<close>

definition settled :: "launch_operation \<Rightarrow> bool" where
  "settled op \<longleftrightarrow> (lo_RefundAttempted op \<or> lo_RefundConfirmation op \<noteq> None \<longrightarrow> refunding op)"

text \<open>What a write of fulfilment keeps. A review may work on a launch in any phase, and what it keeps is
  weaker: without the flag the phase may also stay what it was, and refunds need not be settled.\<close>

definition fulfils :: "bool \<Rightarrow> launch_operation \<Rightarrow> launch_operation \<Rightarrow> bool" where
  "fulfils strict op p \<longleftrightarrow>
     launch_identity p = launch_identity op \<and> launch_payment p = launch_payment op \<and> lo_RefundConfirmation p \<noteq> Some [] \<and>
     (lo_Phase p \<in> paid_phases \<or> \<not> strict \<and> lo_Phase p = lo_Phase op) \<and> (strict \<longrightarrow> settled p)"

definition fulfil_call :: "bool \<Rightarrow> launch_operation \<Rightarrow> call \<Rightarrow> bool" where
  "fulfil_call s op c \<longleftrightarrow>
     (case c of
        Persist p _ \<Rightarrow> fulfils s op p
      | Claim _ _ \<Rightarrow> False
      | Charge _ \<Rightarrow> False
      | Refund i \<Rightarrow> ci_Code i = lo_RefundCode op \<and> ci_USDMicros i = lo_TotalChargeUSDMicros op
      | _ \<Rightarrow> True)"

lemmas fulfil_defs = fulfils_def settled_def refunding_def

lemma fulfil_call_other [simp]:
  "fulfil_call s op (Read w)" "fulfil_call s op (CreateCompute a k)" "fulfil_call s op (CreateStorage b k)"
  "fulfil_call s op (CreateAttachment d k)" "fulfil_call s op (WriteSecret e k)" "fulfil_call s op (CreateRuntime f k)"
  "fulfil_call s op (SaveCompute r)" "fulfil_call s op (SaveStorage r)" "fulfil_call s op (SaveAttachment r)"
  "fulfil_call s op (ActivateWorkspace r)" "fulfil_call s op (SaveWorkspace r)" "fulfil_call s op (RecordReceiptCall i)"
  "fulfil_call s op (CreateKey u n k)"
  "fulfil_call s op (Persist p ok) \<longleftrightarrow> fulfils s op p" "\<not> fulfil_call s op (Claim p ok)" "\<not> fulfil_call s op (Charge x)"
  by (simp_all add: fulfil_call_def)

lemma fulfils_trans: "fulfils s op p \<Longrightarrow> fulfils s p q \<Longrightarrow> fulfils s op q"
  by (auto simp: fulfils_def)

lemma fulfils_refl:
  "lo_RefundConfirmation op \<noteq> Some [] \<Longrightarrow> (s \<Longrightarrow> lo_Phase op \<in> paid_phases \<and> settled op) \<Longrightarrow> fulfils s op op"
  by (auto simp: fulfils_def)

lemma refund_confirmation_some [simp]: "refund_confirmation c \<noteq> []"
  by (simp add: refund_confirmation_def)

lemma fulfil_call_mono: "fulfils s op p \<Longrightarrow> fulfil_call s p c \<Longrightarrow> fulfil_call s op c"
  by (cases c) (auto simp: fulfil_call_def fulfils_def dest: launch_identity_eq)

lemma fulfils_persisted [simp]: "fulfils s op0 (op\<lparr>lo_PersistedResult := t\<rparr>) = fulfils s op0 op"
  by (simp add: fulfil_defs)

lemma rewritten_simps [simp]:
  "rewritten op (Inl e)" "rewritten op (Inr p) \<longleftrightarrow> (\<exists>t. p = op\<lparr>lo_PersistedResult := t\<rparr>)"
  by (simp_all add: rewritten_def)

section \<open>The rules of the parts\<close>

lemma does_wait [does_rules]:
  "fulfils s op0 op \<Longrightarrow> (\<And>e. Q e) \<Longrightarrow> does (fulfil_call s op0) (waitWorkspaceLaunchFulfillment sv op) Q"
  unfolding waitWorkspaceLaunchFulfillment_def
  by (intro does_rules) (simp_all add: fulfil_defs releaseWorkspaceLaunchLease_def)

lemma does_retry [does_rules]:
  "fulfils s op0 op \<Longrightarrow> (\<And>e. Q e) \<Longrightarrow> does (fulfil_call s op0) (retryWorkspaceLaunchFulfillment sv op code cause) Q"
  unfolding retryWorkspaceLaunchFulfillment_def
  by (intro does_rules) (simp_all add: fulfil_defs releaseWorkspaceLaunchLease_def)

lemma does_manual [does_rules]:
  "fulfils s op0 op \<Longrightarrow> (\<And>e. Q e) \<Longrightarrow> does (fulfil_call s op0) (manualReviewWorkspaceLaunchFulfillment sv op code) Q"
  unfolding manualReviewWorkspaceLaunchFulfillment_def
  by (intro does_rules) (simp_all add: fulfil_defs releaseWorkspaceLaunchLease_def)

lemma does_purchase_receipt [does_rules]:
  assumes "fulfils s op0 op" "s \<Longrightarrow> \<not> lo_RefundAttempted op \<and> lo_RefundConfirmation op = None" "\<And>e. Q e"
  shows "does (fulfil_call s op0) (recordWorkspaceLaunchPurchaseReceipt sv op) Q"
  unfolding recordWorkspaceLaunchPurchaseReceipt_def Let_def RecordMonthlyReceipt_def using assms
  by (intro does_wp does_rules) (auto simp: fulfil_defs releaseWorkspaceLaunchLease_def)

lemma does_refund_receipt [does_rules]:
  assumes "fulfils s op0 op" "\<And>e. Q e"
  shows "does (fulfil_call s op0) (recordWorkspaceLaunchRefundReceipt sv op userID) Q"
  unfolding recordWorkspaceLaunchRefundReceipt_def Let_def RecordMonthlyReceipt_def using assms
  by (intro does_wp does_rules) (auto simp: fulfil_defs releaseWorkspaceLaunchLease_def)

lemma does_refund_call [does_rules]:
  assumes "fulfils s op0 op" "\<And>r. Q r"
  shows "does (fulfil_call s op0) (refund_launch sv op userID) Q"
  unfolding refund_launch_def Let_def using assms
  by (intro does_wp) (auto simp: fulfil_call_def fulfils_def launch_refund_input_def dest: launch_identity_eq)

lemma does_recover_refund [does_rules]:
  assumes "fulfils s op0 op" "\<And>r. Q r"
  shows "does (fulfil_call s op0) (recover_refund sv op userID) Q"
  unfolding recover_refund_def Let_def using assms by (intro does_wp does_rules) simp_all

lemma does_refund [does_rules]:
  assumes op: "fulfils s op0 op" and Q: "\<And>e. Q e"
  shows "does (fulfil_call s op0) (refundWorkspaceLaunch sv op reason) Q"
  unfolding refundWorkspaceLaunch_def attempt_refund_def settle_refund_def note_refund_def using assms
  by (intro does_wp does_rules) (auto simp: fulfil_defs)

section \<open>The rules of the service layer\<close>

lemma does_key [does_rules]: "P (Read ''GatewayKeys'') \<Longrightarrow> (\<And>r. Q r) \<Longrightarrow> does P (Sub2APIWorkspaceKeyByID sv u k) Q"
  unfolding Sub2APIWorkspaceKeyByID_def by (intro does_wp) simp_all

lemma does_write_secret [does_rules]:
  "(\<And>i k. P (WriteSecret i k)) \<Longrightarrow> (\<And>r. Q r) \<Longrightarrow> does P (writeGatewaySecretValue sv a w u key k) Q"
  unfolding writeGatewaySecretValue_def Let_def by (intro does_wp) simp_all

lemma does_sync_by_id [does_rules]:
  "(\<And>r. P (Read r)) \<Longrightarrow> (\<And>i k. P (WriteSecret i k)) \<Longrightarrow> (\<And>r. Q r) \<Longrightarrow>
     does P (SyncWorkspaceGatewaySecretByID sv a w u kid name k) Q"
  unfolding SyncWorkspaceGatewaySecretByID_def by (intro does_wp does_rules) simp_all

lemma does_sync [does_rules]:
  "(\<And>r. P (Read r)) \<Longrightarrow> (\<And>i k. P (WriteSecret i k)) \<Longrightarrow> (\<And>r. Q r) \<Longrightarrow> does P (SyncWorkspaceGatewaySecret sv a w u k) Q"
  unfolding SyncWorkspaceGatewaySecret_def by (intro does_wp does_rules) simp_all

lemma does_prepare_workspace [does_rules]:
  "(\<And>r. P (Read r)) \<Longrightarrow> (\<And>i k. P (WriteSecret i k)) \<Longrightarrow> (\<And>i k. P (CreateRuntime i k)) \<Longrightarrow> (\<And>r. Q r) \<Longrightarrow>
     does P (PrepareWorkspace sv i key) Q"
  unfolding PrepareWorkspace_def Let_def by (intro does_wp does_rules) simp_all

lemma does_sync_resource [does_rules]: "(\<And>r. P (Read r)) \<Longrightarrow> (\<And>r. Q r) \<Longrightarrow> does P (sync_resource sv op ty) Q"
  unfolding sync_resource_def by (intro does_wp) simp_all

lemma does_prepare_resource [does_rules]:
  "(\<And>i k. P (CreateCompute i k)) \<Longrightarrow> (\<And>i k. P (CreateStorage i k)) \<Longrightarrow> (\<And>r. Q r) \<Longrightarrow> does P (prepare_resource sv op ty) Q"
  unfolding prepare_resource_def Let_def by (intro does_wp) simp_all

lemma does_save_resource [does_rules]:
  "(\<And>r. P (SaveCompute r)) \<Longrightarrow> (\<And>r. P (SaveStorage r)) \<Longrightarrow> (\<And>r. Q r) \<Longrightarrow> does P (save_resource sv ty row) Q"
  unfolding save_resource_def by (intro does_wp) simp_all

text \<open>The calls that only provide or record something.\<close>

definition working :: "call \<Rightarrow> bool" where
  "working c \<longleftrightarrow> (case c of Persist _ _ \<Rightarrow> False | Claim _ _ \<Rightarrow> False | Charge _ \<Rightarrow> False | Refund _ \<Rightarrow> False | _ \<Rightarrow> True)"

lemma working_simps [simp]:
  "working (Read w)" "working (CreateCompute a k)" "working (CreateStorage b k)" "working (SaveCompute r)" "working (SaveStorage r)"
  "working (SaveAttachment r)" "working (SaveWorkspace r)" "working (CreateAttachment d k)"
  by (simp_all add: working_def)

lemma working_fulfils [simp]: "working c \<Longrightarrow> fulfil_call s op c"
  by (cases c) (simp_all add: working_def)

lemma does_resource [does_rules]:
  assumes "\<And>c. working c \<Longrightarrow> P c" "\<And>r. Q r" shows "does P (fulfillWorkspaceLaunchResource sv op ty) Q"
  unfolding fulfillWorkspaceLaunchResource_def Let_def using assms by (intro does_wp does_rules) simp_all

lemma does_current [does_rules]: "(\<And>r. P (Read r)) \<Longrightarrow> (\<And>r. Q r) \<Longrightarrow> does P (current_resource sv op ty) Q"
  unfolding current_resource_def by (intro does_wp) simp_all

lemma does_verify [does_rules]:
  assumes "\<And>c. working c \<Longrightarrow> P c" "\<And>r. Q r" shows "does P (verifyWorkspaceLaunchProviderReadback sv op) Q"
proof -
  have "does P (verify_readbacks sv op tys) (\<lambda>_. True)" for tys
    by (induction tys) (auto intro!: does_wp does_rules assms(1))
  then show ?thesis
    unfolding verifyWorkspaceLaunchProviderReadback_def by (rule does_post) (simp add: assms)
qed

lemma does_billing_state [does_rules]: "(\<And>r. P (Read r)) \<Longrightarrow> (\<And>r. Q r) \<Longrightarrow> does P (workspaceLaunchBillingState sv op) Q"
  unfolding workspaceLaunchBillingState_def by (intro does_wp) simp_all

lemma does_attachment_account [does_rules]: "(\<And>r. P (Read r)) \<Longrightarrow> (\<And>r. Q r) \<Longrightarrow> does P (attachmentAccountID sv row) Q"
  unfolding attachmentAccountID_def Let_def by (intro does_wp) simp_all

lemma does_clear_workspaces [does_rules]:
  assumes "\<And>c. working c \<Longrightarrow> P c" "\<And>r. Q r" shows "does P (clearWorkspacesForAttachment sv a) Q"
proof -
  have "does P (clear_workspaces sv a rows) (\<lambda>_. True)" for rows
    by (induction rows) (auto intro!: does_wp assms(1))
  then have "does P (clear_workspaces sv a rows) Q" for rows
    by (rule does_post) (simp add: assms)
  then show ?thesis
    unfolding clearWorkspacesForAttachment_def by (intro does_wp) (simp_all add: assms(1))
qed

lemma does_save_attachment [does_rules]:
  assumes "\<And>c. working c \<Longrightarrow> P c" "\<And>r. Q r" shows "does P (saveAttachmentFact sv body) Q"
  unfolding saveAttachmentFact_def Let_def using assms by (intro does_wp does_rules) simp_all

lemma does_attach [does_rules]:
  assumes "fulfils s op0 op" "\<And>r. Q r" shows "does (fulfil_call s op0) (attach_launch sv op) Q"
  unfolding attach_launch_def workspaceLaunchAttachment_def Let_def using assms by (intro does_wp does_rules) simp_all

section \<open>The rules of the steps\<close>

lemma does_advance [does_rules]:
  assumes "fulfils s op0 op" "\<not> refunding op" "phase \<in> paid_phases" "\<And>e. Q (Inl e)" "\<And>p. fulfils s op0 p \<Longrightarrow> Q (Inr p)"
  shows "does (fulfil_call s op0) (advance_launch sv op phase) Q"
  unfolding advance_launch_def using assms by (intro does_wp does_rules) (auto simp: fulfil_defs split: sum.split)

lemma does_stop [does_rules]: "does P m (\<lambda>e. Q (Inl e)) \<Longrightarrow> does P (stop_launch m) Q"
  unfolding stop_launch_def by (rule does_bindI) (auto intro: does_post does_ret)

lemma does_absent_compute [does_rules]:
  assumes "fulfils s op0 op" "\<And>r. Q r" shows "does (fulfil_call s op0) (absent_compute sv op) Q"
  unfolding absent_compute_def using assms by (intro does_wp does_rules) simp_all

lemma does_resource_step [does_rules]:
  assumes "fulfils s op0 op" "\<not> refunding op" "\<And>e. Q (Inl e)" "\<And>p. fulfils s op0 p \<Longrightarrow> Q (Inr p)"
  shows "does (fulfil_call s op0) (resource_step sv op) Q"
  unfolding resource_step_def Let_def using assms by (intro does_wp does_rules) simp_all

lemma does_attaching_step [does_rules]:
  assumes "fulfils s op0 op" "\<not> refunding op" "\<And>e. Q (Inl e)" "\<And>p. fulfils s op0 p \<Longrightarrow> Q (Inr p)"
  shows "does (fulfil_call s op0) (attaching_step sv op) Q"
  unfolding attaching_step_def using assms by (intro does_wp does_rules) (simp_all add: fulfil_defs)

lemma does_secret_step [does_rules]:
  assumes "fulfils s op0 op" "\<not> refunding op" "\<And>e. Q (Inl e)" "\<And>p. fulfils s op0 p \<Longrightarrow> Q (Inr p)"
  shows "does (fulfil_call s op0) (secret_step sv op) Q"
  unfolding secret_step_def using assms by (intro does_wp does_rules) (simp_all add: fulfil_defs)

lemma fulfils_note_runtime [simp]: "fulfils s op0 (note_runtime w op) = fulfils s op0 op" "refunding (note_runtime w op) = refunding op"
  by (simp_all add: fulfil_defs note_runtime_def)

lemma does_runtime_step [does_rules]:
  assumes "fulfils s op0 op" "\<not> refunding op" "\<And>e. Q (Inl e)" "\<And>p. fulfils s op0 p \<Longrightarrow> Q (Inr p)"
  shows "does (fulfil_call s op0) (runtime_step sv op) Q"
  unfolding runtime_step_def using assms by (intro does_wp does_rules) simp_all

lemma does_activating_step [does_rules]:
  assumes "fulfils s op0 op" "\<not> refunding op" "\<And>e. Q (Inl e)" "\<And>p. fulfils s op0 p \<Longrightarrow> Q (Inr p)"
  shows "does (fulfil_call s op0) (activating_step sv op) Q"
  unfolding activating_step_def using assms by (intro does_wp does_rules) simp_all

lemma does_step:
  assumes "fulfils s op0 op" "\<And>e. Q (Inl e)" "\<And>p. fulfils s op0 p \<Longrightarrow> Q (Inr p)"
  shows "does (fulfil_call s op0) (fulfill_step sv op) Q"
  unfolding fulfill_step_def Let_def using assms by (intro does_wp does_rules) (auto simp: fulfils_def settled_def refunding_def)

lemma does_rounds: "fulfils s op0 op \<Longrightarrow> does (fulfil_call s op0) (fulfill_rounds n sv op) (\<lambda>_. True)"
  by (induction n arbitrary: op) (auto intro!: does_wp does_rules does_step)

lemma does_fulfil [does_rules]:
  assumes "fulfils s op0 op" "\<And>e. Q e" shows "does (fulfil_call s op0) (fulfillWorkspaceLaunch sv op) Q"
  unfolding fulfillWorkspaceLaunch_def using does_rounds [OF assms(1)] by (rule does_post) (simp add: assms(2))

section \<open>Rounds\<close>

text \<open>How many rounds a phase is from the end; every step that goes on lowers it.\<close>

definition phase_rank :: "string \<Rightarrow> nat" where
  "phase_rank phase =
     (if phase = ''debited'' then 8 else if phase = ''compute_fulfilling'' then 7 else if phase = ''storage_fulfilling'' then 6
      else if phase = ''attaching'' then 5 else if phase = ''secret_writing'' then 4 else if phase = ''runtime_starting'' then 3
      else if phase = ''activating'' then 2 else 1)"

definition launch_rank :: "launch_operation \<Rightarrow> nat" where
  "launch_rank op = phase_rank (lo_Phase op)"

lemma launch_rank_bounds: "0 < launch_rank op" "launch_rank op \<le> 8"
  by (simp_all add: launch_rank_def phase_rank_def)

lemma gives_outcome: "(x = Ready \<Longrightarrow> gives a Q) \<Longrightarrow> (x = Absent \<Longrightarrow> gives b Q) \<Longrightarrow> (x = Waiting \<Longrightarrow> gives c Q) \<Longrightarrow>
    (x = Unknown \<Longrightarrow> gives d Q) \<Longrightarrow> gives (case x of Ready \<Rightarrow> a | Absent \<Rightarrow> b | Waiting \<Rightarrow> c | Unknown \<Rightarrow> d) Q"
  by (cases x) simp_all

definition lowers :: "launch_operation \<Rightarrow> (svc_error list, launch_operation) res \<Rightarrow> bool" where
  "lowers op r \<longleftrightarrow> (case r of Inl _ \<Rightarrow> True | Inr op' \<Rightarrow> launch_rank op' < launch_rank op)"

lemma gives_stop: "gives (stop_launch m) (lowers op)"
  unfolding stop_launch_def by (intro gives_bind gives_ret) (simp add: lowers_def)

lemma gives_advance:
  assumes "phase_rank phase < phase_rank (lo_Phase op)"
  shows "gives (advance_launch sv q phase) (lowers op)"
proof -
  have "gives (persistWorkspaceLaunch sv (q\<lparr>lo_Status := ''preparing'', lo_Phase := phase, lo_ErrorCode := []\<rparr>))
          (\<lambda>r. case r of Inl _ \<Rightarrow> True | Inr p \<Rightarrow> lo_Phase p = phase)"
    unfolding persistWorkspaceLaunch_def by (intro gives_bind gives_ret) (simp split: option.split)
  then have "gives (persistWorkspaceLaunch sv (q\<lparr>lo_Status := ''preparing'', lo_Phase := phase, lo_ErrorCode := []\<rparr>))
          (\<lambda>r. lowers op (case r of Inl e \<Rightarrow> Inl [e] | Inr p \<Rightarrow> Inr p))"
    using assms by (auto simp: gives_def lowers_def launch_rank_def split: sum.splits)
  then show ?thesis
    unfolding advance_launch_def gives_def run_bind by (simp add: ret_def)
qed

lemmas gives_rules = gives_bind gives_cases gives_outcome gives_stop

lemma step_lowers: "gives (fulfill_step sv op) (lowers op)"
  unfolding fulfill_step_def Let_def resource_step_def attaching_step_def secret_step_def runtime_step_def activating_step_def
  by (intro gives_rules gives_advance gives_ret) (auto simp: phase_rank_def lowers_def)

lemma rounds_enough: "launch_rank op \<le> n \<Longrightarrow> fulfill_rounds (n + k) sv op = fulfill_rounds n sv op"
proof (induction n arbitrary: op)
  case 0
  then show ?case using launch_rank_bounds(1) [of op] by simp
next
  case (Suc n)
  have "gives (fulfill_step sv op) (\<lambda>r. (case r of Inl errs \<Rightarrow> ret errs | Inr p \<Rightarrow> fulfill_rounds (n + k) sv p) =
                                       (case r of Inl errs \<Rightarrow> ret errs | Inr p \<Rightarrow> fulfill_rounds n sv p))"
    using step_lowers [of sv op] Suc unfolding gives_def lowers_def by (fastforce split: sum.splits)
  then show ?case by (simp add: bind_eqI)
qed

text \<open>C4: Fulfilment never runs into its limit of ten rounds: every step either ends the run or moves the
  launch forward, so eight rounds do as much as any greater number, whatever the services answer.\<close>

theorem launch_rounds_suffice:
  "fulfillWorkspaceLaunch sv op = fulfill_rounds 8 sv op \<and> fulfill_rounds (8 + k) sv op = fulfill_rounds 8 sv op"
  using rounds_enough [of op 8 2 sv] rounds_enough [of op 8 k sv] launch_rank_bounds(2) [of op]
  by (simp add: fulfillWorkspaceLaunch_def)

end
