(* ===== verification/CP_Launch_Debit_Facts.thy ===== *)
theory CP_Launch_Debit_Facts
  imports CP_Launch_Facts
begin

text \<open>
  The debit of a launch: what it writes, what it charges, and in which order.
\<close>

section \<open>What a debit writes\<close>

text \<open>A balance before the charge is only noted with the attempt.\<close>

definition charge_noted :: "launch_operation \<Rightarrow> bool" where
  "charge_noted op \<longleftrightarrow>
     0 < lo_TotalChargeUSDMicros op \<and> (lo_ChargeAttempted op \<or> lo_PreChargeBalanceUSDMicros op = 0) \<and>
     lo_ChargeConfirmation op \<noteq> Some []"

text \<open>A new confirmation names the code and the amount of the launch.\<close>

definition confirmed_for :: "launch_operation \<Rightarrow> launch_operation \<Rightarrow> bool" where
  "confirmed_for op p \<longleftrightarrow>
     lo_ChargeConfirmation p = lo_ChargeConfirmation op \<or>
     (\<exists>m userID. lo_ChargeConfirmation p = Some m \<and>
        monthlyChargeConfirmationMatches m (lo_RedeemCode op) userID (lo_TotalChargeUSDMicros op))"

lemma charge_confirmation_some [simp]: "charge_confirmation c \<noteq> []"
  by (simp add: charge_confirmation_def)

definition launch_refund where
  "launch_refund op = (lo_RefundAttempted op, lo_RefundConfirmation op)"

definition paid :: "launch_operation \<Rightarrow> bool" where
  "paid op \<longleftrightarrow>
     lo_ChargeAttempted op \<and> lo_ChargeConfirmation op \<noteq> None \<and> lo_PostChargeBalanceKnown op \<and>
     lo_PreChargeBalanceUSDMicros op > lo_TotalChargeUSDMicros op \<and>
     lo_PostChargeBalanceUSDMicros op = wrap64 (lo_PreChargeBalanceUSDMicros op - lo_TotalChargeUSDMicros op)"

definition debits :: "launch_operation \<Rightarrow> launch_operation \<Rightarrow> bool" where
  "debits op p \<longleftrightarrow>
     launch_identity p = launch_identity op \<and> launch_refund p = launch_refund op \<and> charge_noted p \<and> confirmed_for op p \<and>
     (lo_Phase p = ''debit_pending'' \<or> lo_Phase p = ''debited'' \<and> paid p)"

definition debit_call :: "launch_operation \<Rightarrow> call \<Rightarrow> bool" where
  "debit_call op c \<longleftrightarrow>
     (case c of
        Persist p _ \<Rightarrow> debits op p
      | Charge i \<Rightarrow> ci_Code i = lo_RedeemCode op \<and> ci_USDMicros i = lo_TotalChargeUSDMicros op
      | Read _ \<Rightarrow> True
      | _ \<Rightarrow> False)"

lemma debit_call_simps [simp]:
  "debit_call op (Read w)" "debit_call op (Persist p ok) \<longleftrightarrow> debits op p"
  "debit_call op (Charge i) \<longleftrightarrow> ci_Code i = lo_RedeemCode op \<and> ci_USDMicros i = lo_TotalChargeUSDMicros op"
  by (simp_all add: debit_call_def)

text \<open>The operation a debit works on: pending and consistent.\<close>

definition debiting :: "launch_operation \<Rightarrow> launch_operation \<Rightarrow> bool" where
  "debiting op0 op \<longleftrightarrow> debits op0 op \<and> lo_Phase op = ''debit_pending''"

lemma launch_refund_update [simp]:
  "launch_refund (op\<lparr>lo_Status := a\<rparr>) = launch_refund op" "launch_refund (op\<lparr>lo_Phase := b\<rparr>) = launch_refund op"
  "launch_refund (op\<lparr>lo_PersistedResult := c\<rparr>) = launch_refund op" "launch_refund (op\<lparr>lo_LeaseToken := d\<rparr>) = launch_refund op"
  "launch_refund (op\<lparr>lo_LeaseExpiresAt := e\<rparr>) = launch_refund op" "launch_refund (op\<lparr>lo_ErrorCode := f\<rparr>) = launch_refund op"
  "launch_refund (op\<lparr>lo_ChargeAttempted := g\<rparr>) = launch_refund op" "launch_refund (op\<lparr>lo_ChargeConfirmation := h\<rparr>) = launch_refund op"
  "launch_refund (op\<lparr>lo_PreChargeBalanceUSDMicros := i\<rparr>) = launch_refund op"
  "launch_refund (op\<lparr>lo_PostChargeBalanceUSDMicros := j\<rparr>) = launch_refund op"
  "launch_refund (op\<lparr>lo_PostChargeBalanceKnown := k\<rparr>) = launch_refund op"
  by (simp_all add: launch_refund_def)

lemmas debit_defs = debiting_def debits_def charge_noted_def confirmed_for_def releaseWorkspaceLaunchLease_def

lemma debiting_persisted [simp]: "debiting op0 (op\<lparr>lo_PersistedResult := t\<rparr>) = debiting op0 op"
  by (auto simp: debit_defs)

lemma debiting_debits: "debiting op0 op \<Longrightarrow> debits op0 op"
  by (simp add: debiting_def)

lemma debiting_confirmed:
  assumes "debiting op0 op" "monthlyChargeConfirmationMatches m (lo_RedeemCode op) u (lo_TotalChargeUSDMicros op)" "m \<noteq> []"
  shows "debiting op0 (op\<lparr>lo_ChargeConfirmation := Some m, lo_ErrorCode := e\<rparr>)"
  using assms by (auto simp: debit_defs dest!: launch_identity_eq)

lemma debiting_noted [simp]:
  "debiting op0 op \<Longrightarrow> debiting op0 (op\<lparr>lo_PreChargeBalanceUSDMicros := m, lo_ChargeAttempted := True\<rparr>)"
  by (auto simp: debit_defs)

lemma does_retry_debit [does_rules]:
  "debiting op0 op \<Longrightarrow> (\<And>e. Q e) \<Longrightarrow> does (debit_call op0) (retryWorkspaceLaunchDebit sv op code cause) Q"
  unfolding retryWorkspaceLaunchDebit_def by (intro does_rules) (simp_all add: debit_defs)

lemma does_manual_debit [does_rules]:
  "debiting op0 op \<Longrightarrow> (\<And>e. Q e) \<Longrightarrow> does (debit_call op0) (manualReviewWorkspaceLaunchDebit sv op code) Q"
  unfolding manualReviewWorkspaceLaunchDebit_def by (intro does_rules) (simp_all add: debit_defs)

lemma does_insufficient [does_rules]:
  "debiting op0 op \<Longrightarrow> (\<And>e. Q e) \<Longrightarrow> does (debit_call op0) (insufficientWorkspaceLaunch sv op) Q"
  unfolding insufficientWorkspaceLaunch_def by (intro does_rules) (simp_all add: debit_defs)

lemma does_charge [does_rules]:
  assumes "debiting op0 op" "\<And>r. Q r" shows "does (debit_call op0) (charge_launch sv op userID) Q"
  unfolding charge_launch_def Let_def using assms
  by (intro does_wp) (auto simp: debit_defs launch_charge_input_def dest: launch_identity_eq)

lemma does_recover_charge [does_rules]:
  assumes "debiting op0 op" "\<And>r. Q r" shows "does (debit_call op0) (recover_charge sv op userID) Q"
  unfolding recover_charge_def Let_def using assms by (intro does_wp does_rules) simp_all

lemma does_first_charge [does_rules]:
  assumes "debiting op0 op" "\<And>e. Q (Inl e)" "\<And>p r. debiting op0 p \<Longrightarrow> Q (Inr (p, r))"
  shows "does (debit_call op0) (first_charge sv op userID) Q"
  unfolding first_charge_def using assms by (intro does_wp does_rules) (auto intro: debiting_debits)

lemma does_obtain_charge [does_rules]:
  assumes "debiting op0 op" "\<And>e. Q (Inl e)" "\<And>p. debiting op0 p \<Longrightarrow> lo_ChargeConfirmation p \<noteq> None \<Longrightarrow> Q (Inr p)"
  shows "does (debit_call op0) (obtain_charge sv op userID) Q"
  unfolding obtain_charge_def Let_def using assms
  by (intro does_wp does_rules)
     (auto simp: debiting_confirmed intro: debiting_debits dest: debiting_confirmed split: sum.splits)

lemma does_confirm [does_rules]:
  assumes "debiting op0 op" "lo_ChargeConfirmation op \<noteq> None" "\<And>e. Q e"
  shows "does (debit_call op0) (confirm_debit sv op userID) Q"
  unfolding confirm_debit_def Let_def using assms
  by (intro does_wp does_rules) (auto simp: debit_defs paid_def)

lemma does_debit [does_rules]:
  assumes "debiting op0 op" "\<And>e. Q e" shows "does (debit_call op0) (debitWorkspaceLaunch sv op) Q"
  unfolding debitWorkspaceLaunch_def using assms by (intro does_wp does_rules) (simp_all split: if_splits)

lemma does_preflight [does_rules]:
  assumes "\<And>r. P (Read r)" "\<And>r. Q r" shows "does P (verifyWorkspaceLaunchPreflight sv op) Q"
proof -
  have "does P (check_preflights sv op inputs) (\<lambda>_. True)" for inputs
    using assms(1) by (induction inputs) (auto simp: Let_def intro!: does_wp)
  then show ?thesis
    unfolding verifyWorkspaceLaunchPreflight_def by (rule does_post) (simp add: assms)
qed

lemma does_membership [does_rules]:
  assumes "\<And>r. P (Read r)" "\<And>r. Q r" shows "does P (hasActiveCustomerMembership sv user) Q"
  unfolding hasActiveCustomerMembership_def Let_def using assms by (intro does_wp)

lemma does_find_user [does_rules]:
  assumes "\<And>r. P (Read r)" "\<And>r. Q r" shows "does P (findUserByID sv u) Q"
  unfolding findUserByID_def using assms by (intro does_wp)

lemma does_debit_run [does_rules]:
  assumes "debiting op0 op" "\<And>e. Q e" shows "does (debit_call op0) (debit_run sv op) Q"
  unfolding debit_run_def using assms by (intro does_wp does_rules) (simp_all split: if_splits)

end
