(* ===== verification/CP_Launch_Admission.thy ===== *)
theory CP_Launch_Admission
  imports CP_Launch
begin

text \<open>
  How a launch comes into being: the handlers of
  \<^verbatim>\<open>routes_workspace_launch.go\<close> with the helpers they answer through. The session of
  the caller is part of the request; an answer is a status with its body.
\<close>

section \<open>Requests and answers\<close>

record launch_request =
  rq_input :: gomap
  rq_idempotencyKey :: string
  rq_accountId :: string
  rq_hasCredential :: bool

datatype reply =
    Fail nat string
  | Body nat gomap
  | Rows nat "gomap list"
  | Unavailable nat string

definition requiredMutationKey :: "launch_request \<Rightarrow> (reply, string) res" where
  "requiredMutationKey r =
     (let key = trim_space (rq_idempotencyKey r) in if key = [] then Inl (Fail 400 ''missing Idempotency-Key'') else Inr key)"

definition sessionUser :: "services \<Rightarrow> gomap option act" where
  "sessionUser sv = peek ''SessionUser'' (sv_SessionUser sv)"

text \<open>A session sees its own account only; a listing has no body to name another.\<close>

definition scopedAccountID :: "services \<Rightarrow> launch_request \<Rightarrow> gomap option \<Rightarrow> (reply, string) res act" where
  "scopedAccountID sv r input =
     do { user \<leftarrow> sessionUser sv;
          ret (case user of
                 None \<Rightarrow> Inl (Fail 401 ''not_authenticated'')
               | Some u \<Rightarrow>
                   (let requested = (case input of None \<Rightarrow> rq_accountId r
                                     | Some i \<Rightarrow> first_text [stringField i ''accountId'' [], rq_accountId r]);
                        sessionAccount = sfield u ''accountId''
                    in if sessionAccount = [] \<or> (requested \<noteq> [] \<and> requested \<noteq> sessionAccount)
                       then Inl (Fail 403 ''account_scope_forbidden'') else Inr sessionAccount)) }"

definition upstream_error :: "svc_error \<Rightarrow> reply" where
  "upstream_error e = (if e = ErrFabricConflict then Fail 409 ''upstream_conflict'' else Fail 502 ''upstream_unavailable'')"

definition gateway_key_error :: "svc_error \<Rightarrow> reply" where
  "gateway_key_error e =
     (if e = ErrSub2APIWorkspaceKeyMissing then Fail 409 ''gateway_key_missing''
      else if e = ErrSub2APIWorkspaceKeyAmbiguous then Fail 409 ''gateway_key_ambiguous'' else upstream_error e)"

definition pricing_error_reply :: "pricing_error \<Rightarrow> reply" where
  "pricing_error_reply e =
     (case e of ErrPackageUnavailable \<Rightarrow> Fail 409 ''package_unavailable'' | ErrInvalidPricingInput \<Rightarrow> Fail 400 ''invalid_pricing_input'')"

definition gatewayUserContext :: "services \<Rightarrow> launch_request \<Rightarrow> (reply, gomap \<times> int) res act" where
  "gatewayUserContext sv r =
     do { user \<leftarrow> sessionUser sv;
          case user of
            None \<Rightarrow> ret (Inl (Fail 401 ''not_authenticated''))
          | Some u \<Rightarrow>
              if \<not> rq_hasCredential r then ret (Inl (Fail 401 ''reauthentication_required''))
              else do { mapped \<leftarrow> launch_user sv (sfield u ''accountId'');
                        ret (case mapped of Inl _ \<Rightarrow> Inl (Unavailable 500 ''sub2api'') | Inr userID \<Rightarrow> Inr (u, userID)) } }"

text \<open>The credential must belong to the account the launch is for.\<close>

definition account_credential :: "services \<Rightarrow> launch_request \<Rightarrow> string \<Rightarrow> (reply, int) res act" where
  "account_credential sv r accountID =
     do { context \<leftarrow> gatewayUserContext sv r;
          ret (case context of
                 Inl e \<Rightarrow> Inl e
               | Inr (u, userID) \<Rightarrow>
                   if sfield u ''accountId'' \<noteq> accountID then Inl (Fail 403 ''account_scope_forbidden'') else Inr userID) }"

definition computePoolsFromFabricCatalog :: "fabric_package list \<Rightarrow> gov list" where
  "computePoolsFromFabricCatalog packages =
     map (\<lambda>p. GObj [(''id'', GStr (first_text [fp_ComputeProfileID p, ''pool-'' @ fp_ID p])), (''packageId'', GStr (fp_ID p)),
                  (''name'', GStr (first_text [fp_Name p, fp_ID p])), (''available'', GBool (fp_Available p)),
                  (''provider'', GStr (fp_Provider p)), (''cpu'', GInt (fp_CPU p)), (''memoryGb'', GInt (fp_MemoryGB p)),
                  (''diskGb'', GInt (fp_DiskGB p))]) packages"

definition fabricComputePools :: "services \<Rightarrow> (reply, gov list) res act" where
  "fabricComputePools sv =
     do { catalog \<leftarrow> peek ''FabricCatalog'' (sv_FabricCatalog sv);
          ret (case catalog of Inl _ \<Rightarrow> Inl (Fail 502 ''upstream_unavailable'') | Inr ps \<Rightarrow> Inr (computePoolsFromFabricCatalog ps)) }"

definition reconciliationBlocksNewWorkspaces :: "gomap option \<Rightarrow> bool" where
  "reconciliationBlocksNewWorkspaces saved \<longleftrightarrow>
     (case saved of None \<Rightarrow> False | Some row \<Rightarrow> mget (mapField row ''guard'') ''blockNewWorkspaces'' = GBool True)"

section \<open>What is asked for\<close>

record launch_order =
  or_name :: string
  or_packageID :: string
  or_storageGB :: int

text \<open>Renewal cannot be asked for, and a price is never taken from the caller.\<close>

definition launch_order_of :: "gomap \<Rightarrow> (reply, launch_order) res" where
  "launch_order_of input =
     (case (mget input ''name'', mget input ''packageId'') of
        (GStr name, GStr packageID) \<Rightarrow>
          if trim_space name = [] \<or> trim_space packageID = [] then Inl (Fail 400 ''invalid_pricing_input'')
          else
            (case positiveIntegerField input ''sizeGb'' of
               None \<Rightarrow> Inl (Fail 400 ''invalid_pricing_input'')
             | Some storageGB \<Rightarrow>
                 (case mget input ''autoRenew'' of
                    GBool autoRenew \<Rightarrow>
                      if autoRenew then Inl (Fail 409 ''autoRenew_unavailable'')
                      else if map_of input ''priceVersion'' \<noteq> None \<or> map_of input ''totalChargeUsdMicros'' \<noteq> None
                      then Inl (Fail 400 ''client_pricing_forbidden'')
                      else Inr \<lparr>or_name = trim_space name, or_packageID = trim_space packageID, or_storageGB = storageGB\<rparr>
                  | _ \<Rightarrow> Inl (Fail 400 ''autoRenew_required'')))
      | _ \<Rightarrow> Inl (Fail 400 ''invalid_pricing_input''))"

definition order_quote :: "gov list \<Rightarrow> launch_order \<Rightarrow> (pricing_error, gomap) res" where
  "order_quote pools ord =
     pricingPreviewResponse pools
       [(''resourceType'', GStr ''workspace''), (''packageId'', GStr (or_packageID ord)), (''sizeGb'', GInt (or_storageGB ord))]"

definition ordered_operation :: "services \<Rightarrow> instant \<Rightarrow> string \<Rightarrow> gomap \<Rightarrow> launch_order \<Rightarrow> gomap \<Rightarrow> string \<Rightarrow> launch_operation" where
  "ordered_operation sv now accountID user ord quote key =
     newWorkspaceLaunchOperation sv now accountID (sfield user ''id'') (or_name ord) (or_packageID ord) (or_storageGB ord) False
       (sfield quote ''priceVersion'') (number_int quote ''totalChargeUsdMicros'' 0) key"

section \<open>Answers\<close>

definition launch_body :: "services \<Rightarrow> gomap option \<Rightarrow> reply" where
  "launch_body sv row =
     (case workspaceLaunchResponse sv (opt_map row) of None \<Rightarrow> Fail 500 ''state_read_failed'' | Some body \<Rightarrow> Body 202 body)"

definition current_launch_body :: "services \<Rightarrow> string \<Rightarrow> reply act" where
  "current_launch_body sv operationID =
     do { rows \<leftarrow> peek ''ListRuntimeOperations'' (sv_ListRuntimeOperations sv);
          ret (case rows of None \<Rightarrow> Fail 500 ''state_read_failed'' | Some rs \<Rightarrow> launch_body sv (findRecord rs operationID)) }"

definition own_row :: "string \<Rightarrow> gomap \<Rightarrow> bool" where
  "own_row operationID row \<longleftrightarrow> sfield row ''id'' = operationID \<and> sfield row ''action'' = workspaceLaunchAction"

text \<open>A request that was made before: the same one goes on where it stopped.\<close>

definition repeat_launch :: "services \<Rightarrow> launch_request \<Rightarrow> string \<Rightarrow> launch_operation \<Rightarrow> gomap \<Rightarrow> reply act" where
  "repeat_launch sv r accountID op row =
     (case decodeWorkspaceLaunchOperation sv row of
        None \<Rightarrow> ret (Fail 500 ''state_read_failed'')
      | Some persisted \<Rightarrow>
          if lo_AccountID persisted \<noteq> accountID \<or> lo_RequestHash persisted \<noteq> lo_RequestHash op then ret (Fail 409 ''idempotency_conflict'')
          else if lo_Phase persisted = ''key_pending'' then
            do { credential \<leftarrow> account_credential sv r accountID;
                 case credential of
                   Inl e \<Rightarrow> ret e
                 | Inr userID \<Rightarrow>
                     do { converged \<leftarrow> convergeAndPersistWorkspaceLaunchKey sv userID persisted;
                          case converged of Inl e \<Rightarrow> ret (gateway_key_error e) | Inr _ \<Rightarrow> current_launch_body sv (lo_ID op) } }
          else ret (launch_body sv (Some row)))"

text \<open>Both resources are checked; the node pool of the compute check becomes the launch's.\<close>

definition admission_preflights :: "services \<Rightarrow> launch_operation \<Rightarrow> (reply, launch_operation) res act" where
  "admission_preflights sv op =
     (case launch_preflight_inputs (sv_env sv) op of
        [compute, storage] \<Rightarrow>
          do { first \<leftarrow> peek ''MonthlyPreflight'' (\<lambda>log. sv_MonthlyPreflight sv log compute);
               case first of
                 Inl e \<Rightarrow> ret (Inl (upstream_error e))
               | Inr p \<Rightarrow>
                   if \<not> monthlyPreflightConfirmed compute p then ret (Inl (Fail 502 ''fabric_monthly_preflight_invalid''))
                   else
                     do { second \<leftarrow> peek ''MonthlyPreflight'' (\<lambda>log. sv_MonthlyPreflight sv log storage);
                          ret (case second of
                                 Inl e \<Rightarrow> Inl (upstream_error e)
                               | Inr q \<Rightarrow>
                                   if \<not> monthlyPreflightConfirmed storage q then Inl (Fail 502 ''fabric_monthly_preflight_invalid'')
                                   else Inr (op\<lparr>lo_ComputeNodePoolID := pf_NodePoolID p\<rparr>)) } }
      | _ \<Rightarrow> ret (Inl (Fail 502 ''fabric_monthly_preflight_invalid'')))"

text \<open>A claim that lost to another request: the same request's launch is the answer.\<close>

definition lost_claim :: "services \<Rightarrow> string \<Rightarrow> launch_operation \<Rightarrow> svc_error \<Rightarrow> reply act" where
  "lost_claim sv accountID op e =
     (let conflict = (if e = ErrWorkspaceLaunchInProgress then Fail 409 ''workspace_launch_in_progress'' else Fail 409 ''idempotency_conflict'')
      in if e \<noteq> ErrWorkspaceLaunchCASConflict \<and> e \<noteq> ErrWorkspaceLaunchInProgress then ret (Fail 500 ''state_persist_failed'')
         else
           do { rows \<leftarrow> peek ''ListRuntimeOperations'' (sv_ListRuntimeOperations sv);
                ret (case rows of
                       None \<Rightarrow> conflict
                     | Some rs \<Rightarrow>
                         (case find (\<lambda>row. own_row (lo_ID op) row \<and>
                                      (case decodeWorkspaceLaunchOperation sv row of
                                         None \<Rightarrow> False
                                       | Some p \<Rightarrow> lo_AccountID p = accountID \<and> lo_RequestHash p = lo_RequestHash op \<and>
                                                   workspaceLaunchResponse sv row \<noteq> None)) rs of
                            None \<Rightarrow> conflict
                          | Some row \<Rightarrow> launch_body sv (Some row))) })"

section \<open>The handlers\<close>

text \<open>A new launch is written before its key is made; the second component tells whether a run was
  started in the background.\<close>

definition claim_new_launch :: "services \<Rightarrow> string \<Rightarrow> launch_operation \<Rightarrow> int \<Rightarrow> (reply \<times> bool) act" where
  "claim_new_launch sv accountID op userID =
     do { balance \<leftarrow> peek ''Balance'' (\<lambda>log. sv_Balance sv log userID);
          case balance of
            Inl e \<Rightarrow> ret (upstream_error e, False)
          | Inr micros \<Rightarrow>
              if micros \<le> lo_TotalChargeUSDMicros op then ret (Fail 409 ''monthly_balance_insufficient'', False)
              else
                (let op = op\<lparr>lo_Phase := ''key_pending''\<rparr>
                 in do { err \<leftarrow> ask (\<lambda>log. sv_ClaimWorkspaceLaunch sv log [] op) (\<lambda>err. Claim op (err = None));
                         case err of
                           Some e \<Rightarrow> do { reply \<leftarrow> lost_claim sv accountID op e; ret (reply, False) }
                         | None \<Rightarrow>
                             do { converged \<leftarrow> convergeAndPersistWorkspaceLaunchKey sv userID
                                    (op\<lparr>lo_PersistedResult := sv_marshal sv op\<rparr>);
                                  case converged of
                                    Inl e \<Rightarrow> ret (gateway_key_error e, False)
                                  | Inr _ \<Rightarrow>
                                      do { reply \<leftarrow> current_launch_body sv (lo_ID op);
                                           ret (reply, (case reply of Body _ _ \<Rightarrow> sv_workerEnabled sv | _ \<Rightarrow> False)) } } }) }"

definition admit_new_launch :: "services \<Rightarrow> launch_request \<Rightarrow> string \<Rightarrow> launch_operation \<Rightarrow> gomap list \<Rightarrow> (reply \<times> bool) act" where
  "admit_new_launch sv r accountID op operations =
     do { saved \<leftarrow> peek ''BillingReconciliation'' (sv_BillingReconciliation sv);
          if reconciliationBlocksNewWorkspaces saved then ret (Fail 409 ''billing_reconciliation_blocked'', False)
          else if list_ex (\<lambda>row. sfield row ''accountId'' = accountID \<and> isWorkspaceLaunchAction (sfield row ''action'') \<and>
                            \<not> terminalWorkspaceLaunchStatus (sfield row ''status'')) operations
          then ret (Fail 409 ''workspace_launch_in_progress'', False)
          else
            do { checked \<leftarrow> admission_preflights sv op;
                 case checked of
                   Inl reply \<Rightarrow> ret (reply, False)
                 | Inr op \<Rightarrow>
                     do { credential \<leftarrow> account_credential sv r accountID;
                          case credential of
                            Inl reply \<Rightarrow> ret (reply, False)
                          | Inr userID \<Rightarrow> claim_new_launch sv accountID op userID } } }"

definition post_quoted_launch :: "services \<Rightarrow> launch_request \<Rightarrow> string \<Rightarrow> string \<Rightarrow> gomap \<Rightarrow> launch_order \<Rightarrow> gomap \<Rightarrow> (reply \<times> bool) act" where
  "post_quoted_launch sv r key accountID user ord quote =
     do { now \<leftarrow> peek ''now'' (sv_now sv);
          let op = ordered_operation sv now accountID user ord quote key;
          rows \<leftarrow> peek ''ListRuntimeOperations'' (sv_ListRuntimeOperations sv);
          case rows of
            None \<Rightarrow> ret (Fail 500 ''state_read_failed'', False)
          | Some operations \<Rightarrow>
              (case find (own_row (lo_ID op)) operations of
                 Some row \<Rightarrow> do { reply \<leftarrow> repeat_launch sv r accountID op row; ret (reply, False) }
               | None \<Rightarrow> admit_new_launch sv r accountID op operations) }"

definition post_workspace_launch :: "services \<Rightarrow> launch_request \<Rightarrow> (reply \<times> bool) act" where
  "post_workspace_launch sv r =
     (case requiredMutationKey r of
        Inl e \<Rightarrow> ret (e, False)
      | Inr key \<Rightarrow>
          do { account \<leftarrow> scopedAccountID sv r (Some (rq_input r));
               case account of
                 Inl e \<Rightarrow> ret (e, False)
               | Inr accountID \<Rightarrow>
                   do { session \<leftarrow> sessionUser sv;
                        case session of
                          None \<Rightarrow> ret (Fail 401 ''not_authenticated'', False)
                        | Some user \<Rightarrow>
                            (case launch_order_of (rq_input r) of
                               Inl e \<Rightarrow> ret (e, False)
                             | Inr ord \<Rightarrow>
                                 do { pools \<leftarrow> fabricComputePools sv;
                                      case pools of
                                        Inl e \<Rightarrow> ret (e, False)
                                      | Inr ps \<Rightarrow>
                                          (case order_quote ps ord of
                                             Inl e \<Rightarrow> ret (pricing_error_reply e, False)
                                           | Inr quote \<Rightarrow> post_quoted_launch sv r key accountID user ord quote) }) } })"

fun launch_bodies :: "services \<Rightarrow> gomap list \<Rightarrow> gomap list option" where
  "launch_bodies sv [] = Some []"
| "launch_bodies sv (row # rows) =
     (case workspaceLaunchResponse sv row of None \<Rightarrow> None | Some body \<Rightarrow> map_option ((#) body) (launch_bodies sv rows))"

definition list_workspace_launches :: "services \<Rightarrow> launch_request \<Rightarrow> reply act" where
  "list_workspace_launches sv r =
     do { account \<leftarrow> scopedAccountID sv r None;
          case account of
            Inl e \<Rightarrow> ret e
          | Inr accountID \<Rightarrow>
              do { rows \<leftarrow> peek ''ListRuntimeOperations'' (sv_ListRuntimeOperations sv);
                   ret (case rows of
                          None \<Rightarrow> Fail 500 ''state_read_failed''
                        | Some rs \<Rightarrow>
                            (case launch_bodies sv (filter (\<lambda>row. sfield row ''accountId'' = accountID \<and>
                                     sfield row ''action'' = workspaceLaunchAction) rs) of
                               None \<Rightarrow> Fail 500 ''state_read_failed'' | Some bodies \<Rightarrow> Rows 200 bodies)) } }"

definition get_workspace_launch :: "services \<Rightarrow> launch_request \<Rightarrow> string \<Rightarrow> reply act" where
  "get_workspace_launch sv r pathID =
     do { account \<leftarrow> scopedAccountID sv r None;
          case account of
            Inl e \<Rightarrow> ret e
          | Inr accountID \<Rightarrow>
              do { rows \<leftarrow> peek ''ListRuntimeOperations'' (sv_ListRuntimeOperations sv);
                   ret (case rows of
                          None \<Rightarrow> Fail 500 ''state_read_failed''
                        | Some rs \<Rightarrow>
                            (case find (\<lambda>row. own_row pathID row \<and> sfield row ''accountId'' = accountID) rs of
                               None \<Rightarrow> Fail 404 ''workspace_launch_not_found''
                             | Some row \<Rightarrow> (case workspaceLaunchResponse sv row of
                                              None \<Rightarrow> Fail 500 ''state_read_failed'' | Some body \<Rightarrow> Body 200 body))) } }"

end
