(* ===== verification/CP_Launch_Life.thy ===== *)
theory CP_Launch_Life
  imports CP_Launch_Debit_Facts CP_Launch_Admission CP_Pricing_Facts
begin

text \<open>
  The life of a launch: admitted by a request, then run, written, read back and reviewed any number
  of times while the services answer anything at all.
\<close>

section \<open>Admission\<close>

text \<open>The two workspaces of the catalog at their price.\<close>

definition ordered :: "launch_operation \<Rightarrow> bool" where
  "ordered op \<longleftrightarrow>
     (lo_PackageID op, lo_StorageGB op, lo_TotalChargeUSDMicros op) \<in> {(''basic'', 10, 52580000), (''pro'', 100, 240080000)} \<and>
     lo_PriceVersion op = pricingCatalogVersion"

definition named :: "launch_operation \<Rightarrow> bool" where
  "named op \<longleftrightarrow> trim_space (lo_ID op) \<noteq> [] \<and> lo_RefundCode op \<noteq> []"

definition first_launch :: "launch_operation \<Rightarrow> bool" where
  "first_launch op \<longleftrightarrow>
     lo_Phase op = ''key_pending'' \<and> launch_payment op = (False, None, 0, 0, False) \<and> launch_refund op = (False, None) \<and>
     ordered op \<and> named op"

lemma launch_orders:
  assumes "launch_order_of input = Inr ord"
  shows "trim_space (or_packageID ord) = or_packageID ord \<and> 0 < or_storageGB ord \<and> or_storageGB ord \<le> 9007199254740991"
  using assms unfolding launch_order_of_def positiveIntegerField_def by (auto split: gov.splits option.splits if_splits)

lemma customer_quotes:
  "number_int (customerPricingPreviewDTO 2 basic_quote) ''totalChargeUsdMicros'' 0 = 52580000"
  "number_int (customerPricingPreviewDTO 2 pro_quote) ''totalChargeUsdMicros'' 0 = 240080000"
  "sfield (customerPricingPreviewDTO 2 basic_quote) ''priceVersion'' = pricingCatalogVersion"
  "sfield (customerPricingPreviewDTO 2 pro_quote) ''priceVersion'' = pricingCatalogVersion"
  by (simp_all add: numeral_2_eq_2 basic_quote_def pro_quote_def workspace_quote_def preview_map_def customer_fields_def
      pick_def sfield_def Let_def number_int_def numberField_def defaultPricingCatalog_def)

lemma order_quotes:
  assumes "order_quote pools ord = Inr q" and "launch_order_of input = Inr ord"
  shows "(or_packageID ord, or_storageGB ord, number_int q ''totalChargeUsdMicros'' 0)
           \<in> {(''basic'', 10, 52580000), (''pro'', 100, 240080000)} \<and> sfield q ''priceVersion'' = pricingCatalogVersion"
proof -
  let ?i = "[(''resourceType'', GStr ''workspace''), (''packageId'', GStr (or_packageID ord)), (''sizeGb'', GInt (or_storageGB ord))]"
  note ord = launch_orders [OF assms(2)]
  obtain preview where p: "pricingPreviewFromCatalog defaultPricingCatalog ?i = Ok preview" and q: "q = customerPricingPreviewDTO 2 preview"
    using assms(1) unfolding order_quote_def pricingPreviewResponse_def by (auto split: if_splits sum.splits)
  have "trim_space ''workspace'' = ''workspace''" by code_simp
  then have "workspacePricingPreview defaultPricingCatalog ?i = Ok preview"
    using p by (simp add: pricingPreviewFromCatalog_def stringField_def first_text_def)
  moreover have "to_f64 (or_storageGB ord) = or_storageGB ord" using ord by simp
  ultimately show ?thesis
    using ord customer_quotes unfolding workspacePricingPreview_eq q
    by (auto simp: positiveIntegerField_def numberField_def split: if_splits option.splits)
qed

text \<open>What a request may do: claim a launch in its first phase, and nothing that costs money.\<close>

definition admit_call :: "call \<Rightarrow> bool" where
  "admit_call c \<longleftrightarrow>
     (case c of
        Claim p _ \<Rightarrow> first_launch p
      | Read _ \<Rightarrow> True
      | Persist _ _ \<Rightarrow> True
      | CreateKey _ _ _ \<Rightarrow> True
      | _ \<Rightarrow> False)"

lemma admit_call_simps [simp]:
  "admit_call (Read w)" "admit_call (Persist p ok)" "admit_call (CreateKey u n k)" "admit_call (Claim p ok) \<longleftrightarrow> first_launch p"
  by (simp_all add: admit_call_def)

definition ready_to_claim :: "launch_operation \<Rightarrow> bool" where
  "ready_to_claim op \<longleftrightarrow> first_launch (op\<lparr>lo_Phase := ''key_pending''\<rparr>)"

lemma trim_launch_id: "trim_space (''workspace-launch-'' @ s) \<noteq> []"
  using trim_keeps [of "CHR ''w''" "''orkspace-launch-'' @ s"] by (simp add: go_spaces_def)

lemma ordered_operation_ready:
  assumes "order_quote pools ord = Inr q" and "launch_order_of input = Inr ord"
  shows "ready_to_claim (ordered_operation sv now accountID user ord q key)"
  using order_quotes [OF assms] trim_launch_id
  by (simp add: ready_to_claim_def first_launch_def launch_payment_def launch_refund_def ordered_def named_def ordered_operation_def
      newWorkspaceLaunchOperation_def Let_def monthlyRefundCode_def)

lemma does_session [does_rules]: "P (Read ''SessionUser'') \<Longrightarrow> (\<And>r. Q r) \<Longrightarrow> does P (sessionUser sv) Q"
  unfolding sessionUser_def by (intro does_wp)

lemma does_scoped [does_rules]: "(\<And>w. P (Read w)) \<Longrightarrow> (\<And>r. Q r) \<Longrightarrow> does P (scopedAccountID sv r i) Q"
  unfolding scopedAccountID_def Let_def by (intro does_wp does_rules) simp_all

lemma does_credential [does_rules]: "(\<And>w. P (Read w)) \<Longrightarrow> (\<And>r. Q r) \<Longrightarrow> does P (account_credential sv r a) Q"
  unfolding account_credential_def gatewayUserContext_def Let_def by (intro does_wp does_rules) simp_all

lemma does_converge [does_rules]:
  "(\<And>w. P (Read w)) \<Longrightarrow> (\<And>u n k. P (CreateKey u n k)) \<Longrightarrow> (\<And>r. Q r) \<Longrightarrow> does P (convergeWorkspaceAPIKey sv u w k) Q"
  unfolding convergeWorkspaceAPIKey_def Let_def by (intro does_wp does_rules) simp_all

lemma does_converge_persist [does_rules]:
  "(\<And>w. P (Read w)) \<Longrightarrow> (\<And>u n k. P (CreateKey u n k)) \<Longrightarrow>
     (\<And>(k :: workspace_key) ok. P (Persist (op\<lparr>lo_WorkspaceAPIKeyID := wk_ID k, lo_Status := ''debit_pending'', lo_Phase := ''debit_pending'', lo_ErrorCode := []\<rparr>) ok)) \<Longrightarrow>
     (\<And>r. Q r) \<Longrightarrow> does P (convergeAndPersistWorkspaceLaunchKey sv u op) Q"
  unfolding convergeAndPersistWorkspaceLaunchKey_def by (intro does_wp does_rules) simp_all

lemma does_current_body [does_rules]: "(\<And>w. P (Read w)) \<Longrightarrow> (\<And>r. Q r) \<Longrightarrow> does P (current_launch_body sv k) Q"
  unfolding current_launch_body_def by (intro does_wp does_rules) simp_all

lemma does_repeat [does_rules]: "(\<And>r. Q r) \<Longrightarrow> does admit_call (repeat_launch sv r a op row) Q"
  unfolding repeat_launch_def by (intro does_wp does_rules) simp_all

lemma does_lost [does_rules]: "(\<And>w. P (Read w)) \<Longrightarrow> (\<And>r. Q r) \<Longrightarrow> does P (lost_claim sv a op e) Q"
  unfolding lost_claim_def Let_def by (intro does_wp does_rules) simp_all

lemma does_admission_preflights [does_rules]:
  "(\<And>w. P (Read w)) \<Longrightarrow> (\<And>e. Q (Inl e)) \<Longrightarrow> (\<And>pool. Q (Inr (op\<lparr>lo_ComputeNodePoolID := pool\<rparr>))) \<Longrightarrow> does P (admission_preflights sv op) Q"
  unfolding admission_preflights_def launch_preflight_inputs_def list.case by (intro does_wp does_rules) (simp_all split: sum.split)

lemma does_claim_new [does_rules]:
  "ready_to_claim op \<Longrightarrow> (\<And>r. Q r) \<Longrightarrow> does admit_call (claim_new_launch sv a op u) Q"
  unfolding claim_new_launch_def Let_def by (intro does_wp does_rules does_post [OF does_ask]) (simp_all add: ready_to_claim_def)

lemma ready_pool [simp]: "ready_to_claim (op\<lparr>lo_ComputeNodePoolID := pool\<rparr>) = ready_to_claim op"
  by (simp add: ready_to_claim_def first_launch_def launch_payment_def launch_refund_def ordered_def named_def)

lemma does_admit_new [does_rules]:
  "ready_to_claim op \<Longrightarrow> (\<And>r. Q r) \<Longrightarrow> does admit_call (admit_new_launch sv r a op rows) Q"
  unfolding admit_new_launch_def by (intro does_wp does_rules) auto

lemma does_post_launch: "does admit_call (post_workspace_launch sv r) (\<lambda>_. True)"
  unfolding post_workspace_launch_def post_quoted_launch_def fabricComputePools_def Let_def
  by (intro does_wp does_rules) (simp_all add: ordered_operation_ready split: sum.splits)

section \<open>Runs\<close>

text \<open>What holds of an operation between its runs.\<close>

definition sound_launch :: "launch_operation \<Rightarrow> bool" where
  "sound_launch op \<longleftrightarrow>
     ordered op \<and> named op \<and> charge_noted op \<and> lo_RefundConfirmation op \<noteq> Some [] \<and>
     (lo_Phase op = ''key_pending'' \<or> lo_Phase op = ''debit_pending'' \<or> lo_Phase op \<in> paid_phases \<and> paid op)"

lemma identity_sound:
  "launch_identity p = launch_identity op \<Longrightarrow> ordered p = ordered op \<and> named p = named op"
  by (simp add: launch_identity_def ordered_def named_def)

lemma payment_sound:
  "launch_identity p = launch_identity op \<Longrightarrow> launch_payment p = launch_payment op \<Longrightarrow>
     paid p = paid op \<and> charge_noted p = charge_noted op"
  by (simp add: launch_identity_def launch_payment_def paid_def charge_noted_def)

lemma fulfils_sound:
  assumes "sound_launch op" "fulfils s op p" "lo_Phase op \<in> paid_phases \<or> paid op"
  shows "sound_launch p"
  using assms identity_sound [of p op] payment_sound [of p op] unfolding sound_launch_def fulfils_def by auto

lemma debits_sound:
  assumes "sound_launch op" "debits op p"
  shows "sound_launch p"
  using assms identity_sound [of p op] unfolding sound_launch_def debits_def launch_refund_def by auto

definition run_call :: "bool \<Rightarrow> launch_operation \<Rightarrow> call \<Rightarrow> bool" where
  "run_call s op c \<longleftrightarrow>
     (case c of
        Claim p _ \<Rightarrow> \<exists>token expiry. p = op\<lparr>lo_LeaseToken := token, lo_LeaseExpiresAt := expiry\<rparr>
      | _ \<Rightarrow> if lo_Phase op = ''debit_pending'' then debit_call op c else fulfil_call s op c)"

text \<open>A run starts on an operation that was claimed; the claim only changes its lease.\<close>

lemma does_claim:
  assumes "\<And>a b ok. P (Claim (op\<lparr>lo_LeaseToken := a, lo_LeaseExpiresAt := b\<rparr>) ok)" "P (Read ''now'')" "\<And>e. Q (Inl e)"
    "\<And>a b t. Q (Inr (op\<lparr>lo_LeaseToken := a, lo_LeaseExpiresAt := b, lo_PersistedResult := t\<rparr>))"
  shows "does P (claim_launch sv op) Q"
  unfolding claim_launch_def Let_def using assms
  by (intro does_wp does_post [OF does_ask]) (simp_all split: option.split)

lemma debiting_lease:
  "sound_launch op \<Longrightarrow> lo_Phase op = ''debit_pending'' \<Longrightarrow>
     debiting op (op\<lparr>lo_LeaseToken := a, lo_LeaseExpiresAt := b, lo_PersistedResult := t\<rparr>)"
  by (simp add: debit_defs sound_launch_def launch_refund_def)

lemma fulfils_lease:
  assumes "sound_launch op" "lo_Phase op \<in> paid_phases" "s \<Longrightarrow> settled op"
  shows "fulfils s op (op\<lparr>lo_LeaseToken := a, lo_LeaseExpiresAt := b, lo_PersistedResult := t\<rparr>)"
  using assms by (simp add: fulfil_defs sound_launch_def)

lemma run_call_debit: "lo_Phase op = ''debit_pending'' \<Longrightarrow> debit_call op c \<Longrightarrow> run_call s op c"
  by (cases c) (simp_all add: run_call_def debit_call_def)

lemma run_call_fulfil: "lo_Phase op \<noteq> ''debit_pending'' \<Longrightarrow> fulfil_call s op c \<Longrightarrow> run_call s op c"
  by (cases c) (simp_all add: run_call_def fulfil_call_def)

lemma run_call_simps [simp]:
  "run_call s op (Read w)" "run_call s op (Claim (op\<lparr>lo_LeaseToken := a, lo_LeaseExpiresAt := b\<rparr>) ok)"
  unfolding run_call_def by auto

lemma does_run:
  assumes op: "sound_launch op" and s: "s \<Longrightarrow> settled op"
  shows "does (run_call s op) (run_loaded sv op) (\<lambda>_. True)"
proof (cases "lo_Phase op = ''debit_pending''")
  case True
  have d: "debiting op (op\<lparr>lo_LeaseToken := a, lo_LeaseExpiresAt := b, lo_PersistedResult := t\<rparr>)" for a b t
    by (rule debiting_lease [OF op True])
  have "debiting op op"
    using op True by (simp add: debit_defs sound_launch_def)
  then have manual: "does (run_call s op) (manualReviewWorkspaceLaunchDebit sv op code) (\<lambda>_. True)" for code
    by (rule does_calls [OF does_manual_debit]) (auto intro: run_call_debit True)
  have run: "does (run_call s op) (debit_run sv (op\<lparr>lo_LeaseToken := a, lo_LeaseExpiresAt := b, lo_PersistedResult := t\<rparr>)) (\<lambda>_. True)" for a b t
    by (rule does_calls [OF does_debit_run [OF d]]) (auto intro: run_call_debit True)
  have "does (run_call s op) (work_launch sv op) (\<lambda>_. True)"
    unfolding work_launch_def by (intro does_wp does_claim) (simp_all add: True run)
  with manual show ?thesis
    unfolding run_loaded_def by (intro does_wp) simp_all
next
  case False
  show ?thesis
  proof (cases "lo_Phase op = ''key_pending''")
    case True
    then show ?thesis by (simp add: run_loaded_def does_ret)
  next
    case other: False
    with op False have phase: "lo_Phase op \<in> paid_phases" by (auto simp: sound_launch_def)
    have f: "fulfils s op (op\<lparr>lo_LeaseToken := a, lo_LeaseExpiresAt := b, lo_PersistedResult := t\<rparr>)" for a b t
      by (rule fulfils_lease [OF op phase s])
    have "does (fulfil_call s op) (manualReviewWorkspaceLaunchDebit sv op code) (\<lambda>_. True)" for code
      using f [of "[]" "[]" "lo_PersistedResult op"] unfolding manualReviewWorkspaceLaunchDebit_def
      by (intro does_rules) (simp_all add: fulfil_defs releaseWorkspaceLaunchLease_def)
    then have manual: "does (run_call s op) (manualReviewWorkspaceLaunchDebit sv op code) (\<lambda>_. True)" for code
      by (rule does_calls) (rule run_call_fulfil [OF False])
    have run: "does (run_call s op) (fulfillWorkspaceLaunch sv (op\<lparr>lo_LeaseToken := a, lo_LeaseExpiresAt := b, lo_PersistedResult := t\<rparr>)) (\<lambda>_. True)" for a b t
      by (rule does_calls [OF does_fulfil [OF f]]) (auto intro: run_call_fulfil [OF False])
    have "does (run_call s op) (work_launch sv op) (\<lambda>_. True)"
      unfolding work_launch_def by (intro does_wp does_claim) (simp_all add: False run)
    with manual show ?thesis
      unfolding run_loaded_def by (intro does_wp) simp_all
  qed
qed

section \<open>Reviews\<close>

text \<open>The calls that spend, give back or provide anything.\<close>

definition provides :: "call \<Rightarrow> bool" where
  "provides c \<longleftrightarrow>
     (case c of
        CreateCompute _ _ \<Rightarrow> True | CreateStorage _ _ \<Rightarrow> True | CreateAttachment _ _ \<Rightarrow> True | WriteSecret _ _ \<Rightarrow> True
      | CreateRuntime _ _ \<Rightarrow> True | ActivateWorkspace _ \<Rightarrow> True | RecordReceiptCall _ \<Rightarrow> True | Refund _ \<Rightarrow> True | _ \<Rightarrow> False)"

definition review_call :: "launch_operation \<Rightarrow> call \<Rightarrow> bool" where
  "review_call op c \<longleftrightarrow>
     fulfil_call False op c \<and> (provides c \<longrightarrow> paid op) \<and>
     (case c of Persist p _ \<Rightarrow> paid op \<or> lo_Phase p = lo_Phase op | _ \<Rightarrow> True)"

lemma review_call_paid: "paid op \<Longrightarrow> fulfil_call False op c \<Longrightarrow> review_call op c"
  by (cases c) (simp_all add: review_call_def)

lemma review_call_simps [simp]:
  "review_call op (Read w)" "review_call op (SaveCompute r)" "review_call op (SaveStorage r)"
  by (simp_all add: review_call_def provides_def)

lemma charge_confirmed_paid: "workspaceLaunchChargeConfirmed op u \<Longrightarrow> paid op"
  by (cases "lo_ChargeConfirmation op")
     (auto simp: workspaceLaunchChargeConfirmed_def paid_def monthlyChargeConfirmationMatches_def sfield_def mlen_def)

lemma does_operation [does_rules]: "(\<And>w. P (Read w)) \<Longrightarrow> (\<And>r. Q r) \<Longrightarrow> does P (workspaceLaunchOperation sv k) Q"
  unfolding workspaceLaunchOperation_def by (intro does_wp)

lemma does_current_recovery [does_rules]:
  "(\<And>w. P (Read w)) \<Longrightarrow> (\<And>r. Q r) \<Longrightarrow> does P (currentWorkspaceLaunchRecoveryResponse sv k) Q"
  unfolding currentWorkspaceLaunchRecoveryResponse_def by (intro does_wp does_rules) simp_all

lemma does_keep [does_rules]:
  "lo_RefundConfirmation op \<noteq> Some [] \<Longrightarrow> (\<And>r. Q r) \<Longrightarrow> does (review_call op) (keepWorkspaceLaunchReview sv op code) Q"
  unfolding keepWorkspaceLaunchReview_def
  by (intro does_wp does_rules) (simp_all add: review_call_def provides_def fulfil_defs releaseWorkspaceLaunchLease_def)

lemma does_recovery_state [does_rules]:
  "(\<And>r. Q r) \<Longrightarrow> does (review_call op) (workspaceLaunchRecoveryResourceState sv op' ty st facts) Q"
  unfolding workspaceLaunchRecoveryResourceState_def by (intro does_wp does_rules) simp_all

lemma does_recovery_states [does_rules]:
  "(\<And>r. Q r) \<Longrightarrow> does (review_call op) (workspaceLaunchRecoveryResourceStates sv op') Q"
  unfolding workspaceLaunchRecoveryResourceStates_def by (intro does_wp does_rules) simp_all

lemma does_resume [does_rules]:
  assumes "lo_RefundConfirmation op \<noteq> Some []" "phase \<in> paid_phases" "\<And>r. Q r"
  shows "does (fulfil_call False op) (resume_launch sv op phase) Q"
  unfolding resume_launch_def using assms
  by (intro does_wp does_rules) (auto simp: fulfil_defs releaseWorkspaceLaunchLease_def)

lemma does_review_launch [does_rules]:
  assumes "lo_RefundConfirmation op \<noteq> Some []" "\<And>r. Q r"
  shows "does (review_call op) (review_launch sv op) Q"
proof -
  have f: "fulfils False op op" using assms(1) by (simp add: fulfils_refl)
  have resume: "does (review_call op) (resume_launch sv op phase) (\<lambda>_. True)" if "paid op" "phase \<in> paid_phases" for phase
    by (rule does_calls [OF does_resume [OF assms(1) that(2)]]) (simp_all add: review_call_paid that(1))
  have refund: "does (review_call op) (refundWorkspaceLaunch sv op reason) (\<lambda>_. True)" if "paid op" for reason
    by (rule does_calls [OF does_refund [OF f]]) (simp_all add: review_call_paid that)
  note parts = resume [THEN does_post] refund [THEN does_post]
  show ?thesis
    unfolding review_launch_def using assms
    by (intro does_wp does_rules parts) (auto dest: charge_confirmed_paid intro!: does_wp does_rules)
qed

lemma does_review:
  assumes op: "sound_launch op"
  shows "does (review_call op) (review_pending sv op) (\<lambda>_. True)"
proof -
  have r: "lo_RefundConfirmation op \<noteq> Some []" using op by (simp add: sound_launch_def)
  have f: "fulfils False op op" using r by (simp add: fulfils_refl)
  have "paid op" if "lo_Phase op = ''receipt_pending'' \<or> lo_Phase op = ''refund_pending''"
    using op that by (auto simp: sound_launch_def)
  then have parts: "lo_Phase op = ''receipt_pending'' \<Longrightarrow> does (review_call op) (recordWorkspaceLaunchPurchaseReceipt sv op) (\<lambda>_. True)"
    "lo_Phase op = ''refund_pending'' \<Longrightarrow> does (review_call op) (recordWorkspaceLaunchRefundReceipt sv op u) (\<lambda>_. True)" for u
    by (auto intro!: does_calls [OF does_purchase_receipt [OF f]] does_calls [OF does_refund_receipt [OF f]] review_call_paid)
  show ?thesis
    unfolding review_pending_def using r
    by (intro does_wp does_rules parts [THEN does_post]) (auto intro!: does_wp does_rules)
qed

end
