(* ===== verification/CP_Launch_Order.thy ===== *)
theory CP_Launch_Order
  imports CP_Launch_Life
begin

text \<open>
  In which order a run writes and pays: a charge and a refund are written down before they are
  made, and a run makes at most one of them.
\<close>

section \<open>Calls that are guarded by earlier ones\<close>

text \<open>Every call of a kind is the first of its kind, and a condition held of it and the log before it.
  The latest call is the head of a log.\<close>

fun guarded :: "(call \<Rightarrow> bool) \<Rightarrow> (call \<Rightarrow> calls \<Rightarrow> bool) \<Rightarrow> calls \<Rightarrow> bool" where
  "guarded K G [] \<longleftrightarrow> True"
| "guarded K G (c # l) \<longleftrightarrow> guarded K G l \<and> (K c \<longrightarrow> G c l \<and> list_all (\<lambda>d. \<not> K d) l)"

lemma guarded_none: "list_all (\<lambda>d. \<not> K d) l \<Longrightarrow> guarded K G l"
  by (induction l) simp_all

lemma guarded_split:
  "guarded K G l \<Longrightarrow> l = later @ c # earlier \<Longrightarrow> K c \<Longrightarrow> G c earlier \<and> list_all (\<lambda>d. \<not> K d) (later @ earlier)"
  by (induction later arbitrary: l) auto

definition unspending :: "call \<Rightarrow> bool" where
  "unspending c \<longleftrightarrow> (case c of Charge _ \<Rightarrow> False | Refund _ \<Rightarrow> False | _ \<Rightarrow> True)"

lemma unspending_simps [simp]:
  "unspending (Read w)" "unspending (CreateCompute a k)" "unspending (CreateStorage b k)"
  "unspending (CreateAttachment d k)" "unspending (WriteSecret e k)" "unspending (CreateRuntime f k)"
  "unspending (SaveCompute r)" "unspending (SaveStorage r)" "unspending (SaveAttachment r)"
  "unspending (ActivateWorkspace r)" "unspending (SaveWorkspace r)" "unspending (RecordReceiptCall i)"
  "unspending (Persist p ok)" "unspending (Claim p ok)" "unspending (CreateKey u n k)"
  by (simp_all add: unspending_def)

definition spends :: "call \<Rightarrow> bool" where
  "spends c \<longleftrightarrow> \<not> unspending c"

text \<open>A computation is put together from a quiet beginning, a part that may pay, and a quiet end.\<close>

abbreviation fresh_log :: "calls \<Rightarrow> bool" where "fresh_log \<equiv> list_all unspending"

abbreviation pays :: "(call \<Rightarrow> calls \<Rightarrow> bool) \<Rightarrow> 'a act \<Rightarrow> bool" where
  "pays G m \<equiv> runs fresh_log m (\<lambda>_. guarded spends G)"

lemma pays_quiet: "does unspending m Q \<Longrightarrow> pays G m"
  by (rule runs_post, rule does_runs) (auto intro: guarded_none simp: spends_def)

lemma pays_first: "does unspending m R \<Longrightarrow> (\<And>a. R a \<Longrightarrow> pays G (f a)) \<Longrightarrow> pays G (m \<bind> f)"
  by (rule runs_bind, rule does_runs, assumption, simp, rule runs_fact) simp

lemma pays_then: "does unspending m (\<lambda>_. True) \<Longrightarrow> (\<And>a. pays G (f a)) \<Longrightarrow> pays G (m \<bind> f)"
  by (rule pays_first)

lemma pays_last:
  assumes "pays G m" and "\<And>a. does unspending (f a) Q"
  shows "pays G (m \<bind> f)"
  by (rule runs_bind [OF assms(1)], rule runs_post, rule does_runs [OF assms(2)]) (auto simp: spends_def)

lemma pays_ret: "pays G (ret a)"
  by (rule runs_ret) (auto intro: guarded_none simp: spends_def)

lemmas pays_cases = runs_if runs_option runs_sum runs_prod

section \<open>Parts that do not pay\<close>

named_theorems quiet_rules \<open>operations that neither charge nor refund\<close>

lemma quiet_debit_ends [quiet_rules]:
  "(\<And>e. Q e) \<Longrightarrow> does unspending (retryWorkspaceLaunchDebit sv op code cause) Q"
  "(\<And>e. Q e) \<Longrightarrow> does unspending (manualReviewWorkspaceLaunchDebit sv op code) Q"
  "(\<And>r. Q' r) \<Longrightarrow> does unspending (insufficientWorkspaceLaunch sv op) Q'"
  unfolding retryWorkspaceLaunchDebit_def manualReviewWorkspaceLaunchDebit_def insufficientWorkspaceLaunch_def
  by (intro does_rules; simp)+

lemma quiet_confirm [quiet_rules]: "does unspending (confirm_debit sv op u) (\<lambda>_. True)"
  unfolding confirm_debit_def Let_def by (intro does_wp quiet_rules does_rules) simp_all

section \<open>The charge\<close>

text \<open>A launch is recovered when its row notes an attempt, or when an earlier run was put off before it
  could note one (status \<^verbatim>\<open>unknown\<close>). Then the charge is repeated right after the balance history
  was asked for, and only when the answer did not show it: there was no answer, or none of its
  entries was the charge. Otherwise the charge is the launch's first, and the attempt and the balance
  before it were written.\<close>

definition recovering :: "launch_operation \<Rightarrow> bool" where
  "recovering op \<longleftrightarrow> lo_ChargeAttempted op \<or> lo_Status op = ''unknown''"

definition not_shown :: "launch_operation \<Rightarrow> int \<Rightarrow> (svc_error, balance_entry list) res \<Rightarrow> bool" where
  "not_shown op u answer \<longleftrightarrow> (case answer of Inl _ \<Rightarrow> True | Inr h \<Rightarrow> charge_code op u h = ''sub2api_charge_missing'')"

definition charge_unseen :: "services \<Rightarrow> launch_operation \<Rightarrow> int \<Rightarrow> calls \<Rightarrow> bool" where
  "charge_unseen sv op u l \<longleftrightarrow> (\<exists>l0. l = Read ''BalanceHistory'' # l0 \<and> not_shown op u (sv_BalanceHistory sv l0 u))"

definition attempt_written :: "launch_operation \<Rightarrow> calls \<Rightarrow> bool" where
  "attempt_written op l \<longleftrightarrow>
     (\<exists>p. Persist p True \<in> set l \<and> launch_identity p = launch_identity op \<and> lo_ChargeAttempted p \<and>
          lo_PreChargeBalanceUSDMicros p > lo_TotalChargeUSDMicros p)"

definition charge_written :: "services \<Rightarrow> launch_operation \<Rightarrow> call \<Rightarrow> calls \<Rightarrow> bool" where
  "charge_written sv op c l \<longleftrightarrow>
     (case c of
        Charge i \<Rightarrow> lo_ChargeConfirmation op = None \<and>
          (if recovering op then charge_unseen sv op (ci_UserID i) l else attempt_written op l)
      | _ \<Rightarrow> False)"

lemma charge_pays:
  assumes "\<And>l. I l \<Longrightarrow> fresh_log l \<and> G (Charge (launch_charge_input op u)) l"
  shows "runs I (charge_launch sv op u) (\<lambda>_. guarded spends G)"
  unfolding charge_launch_def Let_def using assms
  by (intro runs_tell) (auto intro: guarded_none simp: spends_def)

lemma runs_peek_fresh:
  "runs fresh_log (peek what f) (\<lambda>a l. fresh_log l \<and> (\<exists>l0. l = Read what # l0 \<and> a = f l0))"
  unfolding peek_def by (rule runs_ask) auto

lemma recover_pays:
  assumes "recovering op" "lo_ChargeConfirmation op = None"
  shows "pays (charge_written sv op) (recover_charge sv op u)"
proof -
  let ?I = "\<lambda>a l. fresh_log l \<and> (\<exists>l0. l = Read ''BalanceHistory'' # l0 \<and> a = sv_BalanceHistory sv l0 u)"
  have on: "(case a of Inl _ \<Rightarrow> ''sub2api_charge_missing'' | Inr h \<Rightarrow> charge_code op u h) = ''sub2api_charge_missing'' \<longleftrightarrow> not_shown op u a" for a
    by (simp add: not_shown_def split: sum.split)
  have charge: "runs (?I a) (do { c \<leftarrow> charge_launch sv op u; ret (Inr c) }) (\<lambda>_. guarded spends (charge_written sv op))"
    if "not_shown op u a" for a
    by (rule runs_bind [OF charge_pays runs_ret])
       (use that assms in \<open>auto simp: charge_written_def charge_unseen_def launch_charge_input_def\<close>)
  have other: "runs (?I a) m (\<lambda>_. guarded spends (charge_written sv op))" if "pays (charge_written sv op) m" for a m
    by (rule runs_pre [OF that]) simp
  show ?thesis
    unfolding recover_charge_def Let_def on
    by (rule runs_bind [OF runs_peek_fresh], intro runs_if charge other pays_ret pays_quiet does_wp quiet_rules) simp_all
qed

lemma persist_written:
  "runs fresh_log (persistWorkspaceLaunch sv op)
     (\<lambda>r l. fresh_log l \<and> (\<forall>p. r = Inr p \<longrightarrow> Persist op True \<in> set l))"
  unfolding persistWorkspaceLaunch_def
  by (rule runs_bind [where R = "\<lambda>err l. fresh_log l \<and> Persist op (err = None) \<in> set l"], rule runs_ask, simp, rule runs_ret)
     (auto split: option.splits)

lemma first_charge_pays:
  assumes "lo_ChargeConfirmation op = None" "\<not> recovering op"
  shows "pays (charge_written sv op) (first_charge sv op u)"
proof -
  let ?q = "\<lambda>micros. op\<lparr>lo_PreChargeBalanceUSDMicros := micros, lo_ChargeAttempted := True\<rparr>"
  have charge: "pays (charge_written sv op)
      (persistWorkspaceLaunch sv (?q micros) \<bind>
       (\<lambda>r. case r of Inl e \<Rightarrow> ret (Inl [e]) | Inr op' \<Rightarrow> charge_launch sv op' u \<bind> (\<lambda>c. ret (Inr (op', c)))))"
    if "\<not> micros \<le> lo_TotalChargeUSDMicros op" for micros
  proof (rule runs_bind [OF persist_written], rule runs_sum)
    show "runs (\<lambda>l. fresh_log l \<and> (\<forall>p. r = Inr p \<longrightarrow> Persist (?q micros) True \<in> set l)) (ret (Inl [e])) (\<lambda>_. guarded spends (charge_written sv op))"
      for r :: "(svc_error, launch_operation) res" and e
      by (rule runs_ret) (auto intro: guarded_none simp: spends_def)
    show "runs (\<lambda>l. fresh_log l \<and> (\<forall>p. r = Inr p \<longrightarrow> Persist (?q micros) True \<in> set l))
            (charge_launch sv op' u \<bind> (\<lambda>c. ret (Inr (op', c)))) (\<lambda>_. guarded spends (charge_written sv op))"
      if "r = Inr op'" for r :: "(svc_error, launch_operation) res" and op'
      by (rule runs_bind [OF charge_pays [where G = "charge_written sv op"]], use that \<open>\<not> micros \<le> _\<close> assms in \<open>force simp: charge_written_def attempt_written_def launch_charge_input_def\<close>, rule runs_ret)
  qed
  show ?thesis
    unfolding first_charge_def
    by (rule pays_first [OF does_peek], simp, intro pays_cases charge pays_quiet does_wp quiet_rules) simp_all
qed

lemma obtain_pays: "lo_ChargeConfirmation op = None \<Longrightarrow> pays (charge_written sv op) (obtain_charge sv op u)"
  unfolding obtain_charge_def Let_def
  by (rule pays_last, intro pays_cases pays_last [OF recover_pays] first_charge_pays does_wp quiet_rules does_rules)
     (auto intro!: does_wp does_rules quiet_rules simp: recovering_def split: sum.split)

lemma debit_pays: "pays (charge_written sv op) (debitWorkspaceLaunch sv op)"
  unfolding debitWorkspaceLaunch_def
  by (intro pays_then [OF does_launch_user] pays_then [OF does_key] pays_cases pays_quiet [OF quiet_debit_ends(1)]
        pays_last [where Q = "\<lambda>_. True"] obtain_pays pays_ret does_wp quiet_rules) simp_all

lemma debit_run_pays: "pays (charge_written sv op) (debit_run sv op)"
  unfolding debit_run_def
  by (intro pays_then pays_cases debit_pays pays_quiet [OF quiet_debit_ends(1)] pays_quiet [OF quiet_debit_ends(2)] does_wp does_rules)
     simp_all

section \<open>The refund\<close>

lemma working_unspending [simp]: "working c \<Longrightarrow> unspending c"
  by (cases c) (simp_all add: working_def unspending_def)

text \<open>What a step keeps of the operation a run started on.\<close>

definition carries :: "launch_operation \<Rightarrow> launch_operation \<Rightarrow> bool" where
  "carries op p \<longleftrightarrow> launch_identity p = launch_identity op \<and> lo_RefundAttempted p = lo_RefundAttempted op"

text \<open>The ends of a fulfilment and the receipts, for any kind of call that covers theirs.\<close>

lemma does_any_end:
  "(\<And>p b. P (Persist p b)) \<Longrightarrow> (\<And>e. Q e) \<Longrightarrow> does P (waitWorkspaceLaunchFulfillment sv op) Q"
  "(\<And>p b. P (Persist p b)) \<Longrightarrow> (\<And>e. Q e) \<Longrightarrow> does P (retryWorkspaceLaunchFulfillment sv op code cause) Q"
  "(\<And>p b. P (Persist p b)) \<Longrightarrow> (\<And>e. Q e) \<Longrightarrow> does P (manualReviewWorkspaceLaunchFulfillment sv op code) Q"
  unfolding waitWorkspaceLaunchFulfillment_def retryWorkspaceLaunchFulfillment_def manualReviewWorkspaceLaunchFulfillment_def
  by (intro does_rules; simp)+

lemma does_any_receipt:
  assumes "\<And>w. P (Read w)" "\<And>p b. P (Persist p b)" "\<And>i. P (RecordReceiptCall i)" "\<And>w. P (SaveWorkspace w)" "\<And>e. Q e"
  shows "does P (recordWorkspaceLaunchPurchaseReceipt sv op) Q" "does P (recordWorkspaceLaunchRefundReceipt sv op u) Q"
  unfolding recordWorkspaceLaunchPurchaseReceipt_def recordWorkspaceLaunchRefundReceipt_def Let_def RecordMonthlyReceipt_def using assms
  by (intro does_wp does_any_end does_rules; simp)+

lemmas quiet_ends [quiet_rules] = does_any_end [where P = unspending, OF unspending_simps(13)]
lemmas quiet_receipts [quiet_rules] =
  does_any_receipt [where P = unspending, OF unspending_simps(1) unspending_simps(13) unspending_simps(12) unspending_simps(11)]

lemma quiet_advance [quiet_rules]:
  assumes "carries op0 op" "\<And>e. Q (Inl e)" "\<And>p. carries op0 p \<Longrightarrow> Q (Inr p)"
  shows "does unspending (advance_launch sv op phase) Q"
  unfolding advance_launch_def using assms by (intro does_wp does_rules) (auto simp: carries_def split: sum.split)

lemma quiet_attach [quiet_rules]:
  assumes "\<And>r. Q r" shows "does unspending (attach_launch sv op) Q"
  unfolding attach_launch_def workspaceLaunchAttachment_def Let_def using assms
  by (intro does_wp quiet_rules does_rules) simp_all

lemma refund_pays:
  assumes "\<And>i l. I l \<Longrightarrow> fresh_log l \<and> G (Refund i) l"
  shows "runs I (refund_launch sv op u) (\<lambda>_. guarded spends G)"
  unfolding refund_launch_def Let_def using assms
  by (intro runs_tell) (auto intro: guarded_none simp: spends_def)

text \<open>The refund was attempted before, or the attempt was written.\<close>

definition refund_written :: "launch_operation \<Rightarrow> call \<Rightarrow> calls \<Rightarrow> bool" where
  "refund_written op c l \<longleftrightarrow>
     (case c of
        Refund i \<Rightarrow> lo_RefundAttempted op \<or>
          (\<exists>p. Persist p True \<in> set l \<and> launch_identity p = launch_identity op \<and> lo_RefundAttempted p)
      | _ \<Rightarrow> False)"

lemma recover_refund_pays:
  assumes "lo_RefundAttempted op0"
  shows "pays (refund_written op0) (recover_refund sv op u)"
  unfolding recover_refund_def Let_def
  by (rule pays_then [OF does_peek], simp, rule runs_list)
     (intro pays_last [OF refund_pays] does_wp pays_ret; use assms in \<open>simp add: refund_written_def\<close>)+

lemma quiet_settle [quiet_rules]: "does unspending (settle_refund sv op u answer) (\<lambda>_. True)"
  unfolding settle_refund_def by (intro does_wp quiet_rules does_rules) simp_all

lemma guarded_unspending: "does unspending m Q \<Longrightarrow> runs (guarded spends G) m (\<lambda>_. guarded spends G)"
  by (rule runs_post [OF does_runs [where P = unspending and Q = Q]]) (auto simp: spends_def)

lemma noted_refund [simp]:
  "launch_identity (note_refund reason op) = launch_identity op" "lo_RefundAttempted (note_refund reason op)"
  by (simp_all add: note_refund_def)

lemma first_refund_pays:
  assumes "launch_identity op = launch_identity op0"
  shows "runs (\<lambda>l. fresh_log l \<and> (\<forall>p. r = Inr p \<longrightarrow> Persist (note_refund reason op) True \<in> set l))
     (case r of Inl e \<Rightarrow> ret [e] | Inr op' \<Rightarrow> do { answer \<leftarrow> attempt_refund sv op' False u; settle_refund sv op' u answer })
     (\<lambda>_. guarded spends (refund_written op0))"
proof (cases r)
  case (Inl e)
  then show ?thesis by (auto intro!: runs_ret guarded_none simp: spends_def)
next
  case (Inr p)
  have "Persist (note_refund reason op) True \<in> set l \<Longrightarrow> refund_written op0 (Refund i) l" for i l
    using assms by (auto simp: refund_written_def intro: noted_refund)
  then have "runs (\<lambda>l. fresh_log l \<and> (\<forall>p. r = Inr p \<longrightarrow> Persist (note_refund reason op) True \<in> set l)) (refund_launch sv p u)
      (\<lambda>_. guarded spends (refund_written op0))"
    by (intro refund_pays) (simp add: Inr)
  then show ?thesis
    unfolding Inr sum.case attempt_refund_def if_False
    by (intro runs_bind [where R = "\<lambda>_. guarded spends (refund_written op0)"] guarded_unspending [OF quiet_settle]) (auto intro: runs_ret)
qed

lemma refund_workspace_pays:
  assumes "carries op0 op"
  shows "pays (refund_written op0) (refundWorkspaceLaunch sv op reason)"
proof -
  have again: "pays (refund_written op0) (do { answer \<leftarrow> attempt_refund sv op' True u; settle_refund sv op' u answer })"
    if "lo_RefundAttempted op" for op' u
    using that assms by (intro pays_last [OF _ quiet_settle]) (simp add: attempt_refund_def recover_refund_pays carries_def)
  have first: "pays (refund_written op0) (persistWorkspaceLaunch sv (note_refund reason op) \<bind>
      (\<lambda>r. case r of Inl e \<Rightarrow> ret [e] | Inr op' \<Rightarrow> do { answer \<leftarrow> attempt_refund sv op' False u; settle_refund sv op' u answer }))" for u
    by (rule runs_bind [OF persist_written first_refund_pays]) (use assms in \<open>simp add: carries_def\<close>)
  show ?thesis
  proof (cases "lo_RefundAttempted op")
    case True
    show ?thesis
      unfolding refundWorkspaceLaunch_def
      by (simp only: True if_True) (use True in \<open>intro pays_then [OF does_launch_user] pays_then [OF does_ret] pays_cases again pays_ret
          pays_quiet [OF quiet_ends(3)] pays_quiet [OF quiet_receipts(2)]; simp\<close>)
  next
    case False
    show ?thesis
      unfolding refundWorkspaceLaunch_def
      by (simp only: False if_False) (intro pays_then [OF does_launch_user] pays_cases first pays_quiet [OF quiet_ends(3)] pays_quiet [OF quiet_receipts(2)]; simp)
  qed
qed

section \<open>Fulfilment\<close>

text \<open>A step that goes on has not paid and carries the operation.\<close>

abbreviation steps_on :: "launch_operation \<Rightarrow> (svc_error list, launch_operation) res act \<Rightarrow> bool" where
  "steps_on op0 m \<equiv>
     runs fresh_log m (\<lambda>r l. case r of Inl _ \<Rightarrow> guarded spends (refund_written op0) l | Inr p \<Rightarrow> fresh_log l \<and> carries op0 p)"

lemma steps_quiet: "does unspending m (\<lambda>r. case r of Inl _ \<Rightarrow> True | Inr p \<Rightarrow> carries op0 p) \<Longrightarrow> steps_on op0 m"
  by (rule runs_post [OF does_runs [where P = unspending and Q = "\<lambda>r. case r of Inl _ \<Rightarrow> True | Inr p \<Rightarrow> carries op0 p"]])
     (auto intro: guarded_none simp: spends_def split: sum.splits)

lemma steps_stop: "pays (refund_written op0) m \<Longrightarrow> steps_on op0 (stop_launch m)"
  unfolding stop_launch_def by (rule runs_bind, assumption) (auto intro: runs_ret)

lemma steps_then: "does unspending m (\<lambda>_. True) \<Longrightarrow> (\<And>a. steps_on op0 (f a)) \<Longrightarrow> steps_on op0 (m \<bind> f)"
  by (rule runs_bind, rule does_runs, assumption, simp, rule runs_fact) simp

lemma absent_compute_pays: "carries op0 op \<Longrightarrow> pays (refund_written op0) (absent_compute sv op)"
  unfolding absent_compute_def
  by (intro pays_then [OF does_peekI] pays_cases refund_workspace_pays pays_quiet [OF quiet_ends(3)]) simp_all

lemma runs_outcome: "(x = Ready \<Longrightarrow> runs P a Q) \<Longrightarrow> (x = Absent \<Longrightarrow> runs P b Q) \<Longrightarrow> (x = Waiting \<Longrightarrow> runs P c Q) \<Longrightarrow>
    (x = Unknown \<Longrightarrow> runs P d Q) \<Longrightarrow> runs P (case x of Ready \<Rightarrow> a | Absent \<Rightarrow> b | Waiting \<Rightarrow> c | Unknown \<Rightarrow> d) Q"
  by (cases x) simp_all

lemma resource_steps: "carries op0 op \<Longrightarrow> steps_on op0 (resource_step sv op)"
  unfolding resource_step_def Let_def
  by (intro steps_then [OF does_resource] pays_cases runs_outcome steps_stop absent_compute_pays steps_quiet [OF quiet_advance]
        pays_quiet [OF quiet_ends(1)] pays_quiet [OF quiet_ends(3)] steps_quiet [OF does_ret]) simp_all

lemma carries_fields [simp]:
  "carries op0 (op\<lparr>lo_AttachmentID := a\<rparr>) = carries op0 op"
  "carries op0 (op\<lparr>lo_GatewaySecretRef := b, lo_WorkspaceKeyStatus := c, lo_WorkspaceKeyFingerprint := d\<rparr>) = carries op0 op"
  "carries op0 (note_runtime w op) = carries op0 op"
  by (simp_all add: carries_def note_runtime_def)

lemma quiet_steps:
  assumes "carries op0 op"
  defines "K \<equiv> \<lambda>r. case r of Inl _ \<Rightarrow> True | Inr p \<Rightarrow> carries op0 p"
  shows "does unspending (attaching_step sv op) K" "does unspending (secret_step sv op) K"
    "does unspending (runtime_step sv op) K" "does unspending (activating_step sv op) K"
  unfolding attaching_step_def secret_step_def runtime_step_def activating_step_def K_def using assms(1)
  by (intro does_wp does_stop quiet_rules does_rules; simp)+

lemma step_steps: "carries op0 op \<Longrightarrow> steps_on op0 (fulfill_step sv op)"
  unfolding fulfill_step_def Let_def
  by (intro pays_cases steps_stop resource_steps refund_workspace_pays steps_quiet [OF quiet_advance] steps_quiet [OF quiet_steps(1)]
        steps_quiet [OF quiet_steps(2)] steps_quiet [OF quiet_steps(3)] steps_quiet [OF quiet_steps(4)]
        pays_quiet [OF quiet_receipts(1)] pays_quiet [OF quiet_ends(3)] steps_quiet [OF does_ret]) simp_all

lemma rounds_pay: "carries op0 op \<Longrightarrow> pays (refund_written op0) (fulfill_rounds n sv op)"
proof (induction n arbitrary: op)
  case 0
  show ?case by (simp add: pays_quiet [OF quiet_ends(2)])
next
  case (Suc n)
  have "runs (\<lambda>l. case r of Inl _ \<Rightarrow> guarded spends (refund_written op0) l | Inr p \<Rightarrow> fresh_log l \<and> carries op0 p)
          (case r of Inl errs \<Rightarrow> ret errs | Inr op' \<Rightarrow> fulfill_rounds n sv op') (\<lambda>_. guarded spends (refund_written op0))" for r
  proof (cases r)
    case (Inl errs)
    then show ?thesis by (simp add: runs_ret)
  next
    case (Inr p)
    have "runs (\<lambda>l. carries op0 p \<and> fresh_log l) (fulfill_rounds n sv p) (\<lambda>_. guarded spends (refund_written op0))"
      by (rule runs_fact) (rule Suc.IH)
    with Inr show ?thesis by (simp add: conj_commute)
  qed
  then show ?case by (simp add: runs_bind [OF step_steps [OF Suc.prems]])
qed

section \<open>Whole runs\<close>

definition run_written :: "services \<Rightarrow> launch_operation \<Rightarrow> call \<Rightarrow> calls \<Rightarrow> bool" where
  "run_written sv op = (if lo_Phase op = ''debit_pending'' then charge_written sv op else refund_written op)"

lemma written_leased [simp]:
  fixes op a b t
  defines "p \<equiv> op\<lparr>lo_LeaseToken := a, lo_LeaseExpiresAt := b, lo_PersistedResult := t\<rparr>"
  shows "charge_written sv p = charge_written sv op"
proof -
  have code: "charge_code p = charge_code op" by (simp add: p_def charge_code_def launch_charge_row_def fun_eq_iff)
  have "charge_unseen sv p = charge_unseen sv op" by (intro ext) (unfold charge_unseen_def not_shown_def code, rule refl)
  then show ?thesis
    by (intro ext) (simp add: charge_written_def recovering_def attempt_written_def p_def split: call.split)
qed

lemma run_pays: "pays (run_written sv op) (run_loaded sv op)"
proof -
  have debit: "pays (run_written sv op) (debit_run sv (op\<lparr>lo_LeaseToken := a, lo_LeaseExpiresAt := b, lo_PersistedResult := t\<rparr>))"
    if "lo_Phase op = ''debit_pending''" for a b t
    using debit_run_pays [where sv = sv and op = "op\<lparr>lo_LeaseToken := a, lo_LeaseExpiresAt := b, lo_PersistedResult := t\<rparr>"] that
    by (simp add: run_written_def)
  have fulfil: "pays (run_written sv op) (fulfillWorkspaceLaunch sv (op\<lparr>lo_LeaseToken := a, lo_LeaseExpiresAt := b, lo_PersistedResult := t\<rparr>))"
    if "lo_Phase op \<noteq> ''debit_pending''" for a b t
    using rounds_pay [of op "op\<lparr>lo_LeaseToken := a, lo_LeaseExpiresAt := b, lo_PersistedResult := t\<rparr>" 10 sv] that
    by (simp add: run_written_def fulfillWorkspaceLaunch_def carries_def)
  let ?R = "\<lambda>r. case r of Inl e \<Rightarrow> True | Inr p \<Rightarrow> (\<exists>a b t. p = op\<lparr>lo_LeaseToken := a, lo_LeaseExpiresAt := b, lo_PersistedResult := t\<rparr>)"
  have "does unspending (claim_launch sv op) ?R"
    by (rule does_claim) auto
  then have "pays (run_written sv op) (work_launch sv op)"
    unfolding work_launch_def by (rule pays_first) (auto intro!: pays_cases pays_ret debit fulfil)
  then show ?thesis
    unfolding run_loaded_def by (intro pays_cases pays_then [OF does_peek] pays_ret pays_quiet [OF quiet_debit_ends(2)]) simp_all
qed

lemma run_spends:
  assumes "snd (run_state (run_loaded sv op) []) = later @ c # earlier" and "spends c"
  shows "run_written sv op c earlier \<and> list_all unspending (later @ earlier)"
proof -
  have "guarded spends (run_written sv op) (snd (run_state (run_loaded sv op) []))"
    using run_pays [where op = op and sv = sv] by (simp add: runs_def case_prod_beta)
  from guarded_split [OF this assms] show ?thesis by (simp add: spends_def)
qed

end
