(* ===== verification/CP_Launch_Claims.thy ===== *)
theory CP_Launch_Claims
  imports CP_Launch_Order
begin

text \<open>
  What holds over the whole life of a launch, however often it is run, reviewed and read back, and
  whatever the services answer in each run.
\<close>

section \<open>Lives\<close>

text \<open>The operation a call writes, whether or not the table took it.\<close>

definition written :: "call \<Rightarrow> launch_operation option" where
  "written c = (case c of Claim p _ \<Rightarrow> Some p | Persist p _ \<Rightarrow> Some p | _ \<Rightarrow> None)"

text \<open>JSON keeps every field that is part of the stored text; the two confirmations come back as
  decoded maps, present and not empty when they were.\<close>

definition json_kept :: "gomap option \<Rightarrow> gomap option \<Rightarrow> bool" where
  "json_kept before after \<longleftrightarrow> (before = None \<longleftrightarrow> after = None) \<and> (before \<noteq> Some [] \<longrightarrow> after \<noteq> Some [])"

definition json_keeps :: "services \<Rightarrow> launch_operation \<Rightarrow> bool" where
  "json_keeps sv p \<longleftrightarrow>
     (\<exists>c r. sv_unmarshal sv (sv_marshal sv p) =
        Some (p\<lparr>lo_ID := [], lo_Status := [], lo_CreatedAt := [], lo_PersistedResult := [],
                lo_ChargeConfirmation := c, lo_RefundConfirmation := r\<rparr>) \<and>
        json_kept (lo_ChargeConfirmation p) c \<and> json_kept (lo_RefundConfirmation p) r)"

text \<open>The lives of a launch: claimed by a request, given its key, run under a lease, read back from its
  row, and reviewed when that is allowed. The services differ from step to step.\<close>

inductive life :: "bool \<Rightarrow> launch_operation \<Rightarrow> launch_operation \<Rightarrow> bool" for reviewed op0 where
  claimed: "Claim op0 ok \<in> calls_of (post_workspace_launch sv r) \<Longrightarrow> life reviewed op0 op0"
| keyed: "life reviewed op0 op \<Longrightarrow> lo_Phase op = ''key_pending'' \<Longrightarrow>
     Persist p ok \<in> calls_of (convergeAndPersistWorkspaceLaunchKey sv userID op) \<Longrightarrow> life reviewed op0 p"
| run: "life reviewed op0 op \<Longrightarrow> \<not> resting op \<Longrightarrow> c \<in> calls_of (run_loaded sv op) \<Longrightarrow> written c = Some p \<Longrightarrow>
     life reviewed op0 p"
| reread: "life reviewed op0 p \<Longrightarrow> json_keeps sv p \<Longrightarrow>
     decodeWorkspaceLaunchOperation sv (workspaceLaunchOperationRow sv p) = Some q \<Longrightarrow> life reviewed op0 q"
| review: "reviewed \<Longrightarrow> life reviewed op0 op \<Longrightarrow> lo_Status op = ''manual_review'' \<Longrightarrow> c \<in> calls_of (review_pending sv op) \<Longrightarrow>
     written c = Some p \<Longrightarrow> life reviewed op0 p"

inductive_cases lifeE: "life reviewed op0 op"

section \<open>What every step keeps\<close>

definition keeps_launch :: "bool \<Rightarrow> launch_operation \<Rightarrow> launch_operation \<Rightarrow> bool" where
  "keeps_launch reviewed op0 op \<longleftrightarrow>
     sound_launch op \<and> launch_identity op = launch_identity op0 \<and> (\<not> reviewed \<longrightarrow> settled op)"

lemma first_keeps: "first_launch op \<Longrightarrow> keeps_launch reviewed op op"
  by (auto simp: keeps_launch_def first_launch_def sound_launch_def launch_payment_def launch_refund_def charge_noted_def
      settled_def ordered_def)

lemma keyed_keeps:
  assumes "keeps_launch reviewed op0 op" "lo_Phase op = ''key_pending''"
    and "Persist p ok \<in> calls_of (convergeAndPersistWorkspaceLaunchKey sv userID op)"
  shows "keeps_launch reviewed op0 p"
proof -
  let ?P = "\<lambda>c. case c of Persist p _ \<Rightarrow> (\<exists>k. p = op\<lparr>lo_WorkspaceAPIKeyID := k, lo_Status := ''debit_pending'',
      lo_Phase := ''debit_pending'', lo_ErrorCode := []\<rparr>) | _ \<Rightarrow> True"
  have "does ?P (convergeAndPersistWorkspaceLaunchKey sv userID op) (\<lambda>_. True)"
    by (rule does_converge_persist) auto
  from does_calls_of [OF this assms(3)] obtain k where
    "p = op\<lparr>lo_WorkspaceAPIKeyID := k, lo_Status := ''debit_pending'', lo_Phase := ''debit_pending'', lo_ErrorCode := []\<rparr>" by auto
  with assms(1,2) show ?thesis
    by (auto simp: keeps_launch_def sound_launch_def settled_def refunding_def ordered_def named_def charge_noted_def)
qed

lemma fulfils_keeps:
  assumes "keeps_launch reviewed op0 op" "fulfils (\<not> reviewed) op p" "lo_Phase op \<in> paid_phases \<or> paid op"
  shows "keeps_launch reviewed op0 p"
  using assms fulfils_sound [of op "\<not> reviewed" p] by (simp add: keeps_launch_def fulfils_def)

lemma debits_keeps:
  assumes "keeps_launch reviewed op0 op" "debits op p" "lo_Phase op = ''debit_pending''"
  shows "keeps_launch reviewed op0 p"
proof -
  have "settled op \<Longrightarrow> settled p"
    using assms(2,3) by (auto simp: settled_def refunding_def debits_def launch_refund_def)
  with assms debits_sound [of op p] show ?thesis by (auto simp: keeps_launch_def debits_def)
qed

lemma leased_keeps:
  "keeps_launch reviewed op0 op \<Longrightarrow> keeps_launch reviewed op0 (op\<lparr>lo_LeaseToken := a, lo_LeaseExpiresAt := b\<rparr>)"
  by (simp add: keeps_launch_def sound_launch_def settled_def refunding_def ordered_def named_def charge_noted_def paid_def)

lemma run_keeps:
  assumes "keeps_launch reviewed op0 op" and c: "c \<in> calls_of (run_loaded sv op)" "written c = Some p"
  shows "keeps_launch reviewed op0 p"
proof -
  have op: "sound_launch op" "\<not> reviewed \<Longrightarrow> settled op" using assms(1) by (auto simp: keeps_launch_def)
  have call: "run_call (\<not> reviewed) op c" by (rule does_calls_of [OF does_run [OF op] c(1)])
  have "c \<notin> calls_of (run_loaded sv op)" if "lo_Phase op = ''key_pending''"
    using that by (simp add: run_loaded_def calls_of_def ret_def)
  with c(1) op(1) have "lo_Phase op = ''debit_pending'' \<or> lo_Phase op \<in> paid_phases" by (auto simp: sound_launch_def)
  with call c(2) assms(1) show ?thesis
    unfolding run_call_def written_def
    by (cases "lo_Phase op = ''debit_pending''"; cases c) (auto intro: leased_keeps fulfils_keeps debits_keeps)
qed

lemma review_keeps:
  assumes "keeps_launch True op0 op" and c: "c \<in> calls_of (review_pending sv op)" "written c = Some p"
  shows "keeps_launch True op0 p"
proof -
  have op: "sound_launch op" using assms(1) by (simp add: keeps_launch_def)
  have call: "review_call op c" by (rule does_calls_of [OF does_review [OF op] c(1)])
  then obtain ok where p: "c = Persist p ok" using c(2) by (cases c) (auto simp: written_def review_call_def)
  have f: "fulfils False op p" and phase: "paid op \<or> lo_Phase p = lo_Phase op"
    using call unfolding p by (auto simp: review_call_def)
  show ?thesis
  proof (cases "paid op \<or> lo_Phase op \<in> paid_phases")
    case True
    then show ?thesis using assms(1) f fulfils_keeps [of True op0 op p] by auto
  next
    case False
    with phase have "lo_Phase p = lo_Phase op" by simp
    with False op f assms(1) identity_sound [of p op] payment_sound [of p op] show ?thesis
      by (auto simp: keeps_launch_def sound_launch_def fulfils_def)
  qed
qed

lemma period_keeps [simp]:
  "launch_identity (fill_launch_period op) = launch_identity op" "launch_payment (fill_launch_period op) = launch_payment op"
  "launch_refund (fill_launch_period op) = launch_refund op" "lo_Phase (fill_launch_period op) = lo_Phase op"
  by (auto simp: fill_launch_period_def Let_def launch_identity_def launch_payment_def launch_refund_def split: option.split)

lemma keeps_equal:
  assumes "launch_identity q = launch_identity p" "launch_payment q = launch_payment p" "launch_refund q = launch_refund p"
    "lo_Phase q = lo_Phase p" and p: "keeps_launch reviewed op0 p"
  shows "keeps_launch reviewed op0 q"
proof -
  have "settled q = settled p" using assms(3,4) by (simp add: settled_def refunding_def launch_refund_def)
  moreover have "lo_RefundConfirmation q = lo_RefundConfirmation p" using assms(3) by (simp add: launch_refund_def)
  ultimately show ?thesis
    using p identity_sound [OF assms(1)] payment_sound [OF assms(1,2)] assms(1,4)
    unfolding keeps_launch_def sound_launch_def by simp
qed

lemma reread_keeps:
  assumes keeps: "keeps_launch reviewed op0 p" and json: "json_keeps sv p"
    and q: "decodeWorkspaceLaunchOperation sv (workspaceLaunchOperationRow sv p) = Some q"
  shows "keeps_launch reviewed op0 q"
proof -
  obtain c r where u: "sv_unmarshal sv (sv_marshal sv p) =
        Some (p\<lparr>lo_ID := [], lo_Status := [], lo_CreatedAt := [], lo_PersistedResult := [],
                lo_ChargeConfirmation := c, lo_RefundConfirmation := r\<rparr>)"
    and k: "json_kept (lo_ChargeConfirmation p) c" "json_kept (lo_RefundConfirmation p) r"
    using json by (auto simp: json_keeps_def)
  have named: "trim_space (lo_ID p) \<noteq> []" "lo_RefundCode p \<noteq> []"
    using keeps by (auto simp: keeps_launch_def sound_launch_def named_def)
  let ?s = "p\<lparr>lo_ChargeConfirmation := c, lo_RefundConfirmation := r, lo_PersistedResult := sv_marshal sv p\<rparr>"
  have qs: "q = fill_launch_period ?s"
    using q named unfolding decodeWorkspaceLaunchOperation_def workspaceLaunchOperationRow_def
    by (simp add: sfield_def u first_text_word Let_def split: if_splits)
  have "paid ?s = paid p" "charge_noted p \<Longrightarrow> charge_noted ?s" "settled ?s = settled p"
    using k by (auto simp: json_kept_def paid_def charge_noted_def settled_def refunding_def)
  then have "keeps_launch reviewed op0 ?s"
    using keeps k by (auto simp: keeps_launch_def sound_launch_def json_kept_def ordered_def named_def)
  then show ?thesis
    unfolding qs by (rule keeps_equal [rotated 4]) simp_all
qed

lemma life_keeps: "life reviewed op0 op \<Longrightarrow> keeps_launch reviewed op0 op"
proof (induction rule: life.induct)
  case (claimed ok sv r)
  from does_calls_of [OF does_post_launch claimed] show ?case by (simp add: first_keeps)
next
  case (keyed op p ok sv userID)
  then show ?case by (blast intro: keyed_keeps)
next
  case (run op c sv p)
  then show ?case by (blast intro: run_keeps)
next
  case (reread p sv q)
  then show ?case by (blast intro: reread_keeps)
next
  case (review op c sv p)
  then show ?case using review_keeps by auto
qed

section \<open>Paid before it is provided\<close>

lemma run_provides:
  assumes op: "sound_launch op" and c: "c \<in> calls_of (run_loaded sv op)" "provides c"
  shows "paid op \<and> lo_Phase op \<in> paid_phases"
proof -
  have "run_call False op c" by (rule does_calls_of [OF does_run [OF op] c(1)]) simp
  with c(2) have "lo_Phase op \<noteq> ''debit_pending''" unfolding run_call_def provides_def debit_call_def by (cases c) auto
  moreover have "lo_Phase op \<noteq> ''key_pending''" using c(1) by (auto simp: run_loaded_def calls_of_def ret_def)
  ultimately show ?thesis using op by (auto simp: sound_launch_def)
qed

text \<open>C1: whatever happens in the life of a launch, it stays the launch that was ordered: the same
  account, package, price, codes and resources. It leaves the phases of the debit only when its
  charge is confirmed and the balance has fallen by exactly the price; and no run and no review
  creates a resource, activates the workspace, refunds or writes a receipt before that.\<close>

theorem launch_paid_first:
  assumes "life True op0 op"
  shows "launch_identity op = launch_identity op0 \<and> ordered op \<and>
    (lo_Phase op = ''key_pending'' \<or> lo_Phase op = ''debit_pending'' \<or> lo_Phase op \<in> paid_phases \<and> paid op) \<and>
    (\<forall>sv c. (c \<in> calls_of (run_loaded sv op) \<or> c \<in> calls_of (review_pending sv op)) \<and> provides c \<longrightarrow> paid op)"
proof -
  have k: "keeps_launch True op0 op" by (rule life_keeps [OF assms])
  then have op: "sound_launch op" by (simp add: keeps_launch_def)
  have "paid op" if "c \<in> calls_of (review_pending sv op)" "provides c" for sv c
    using does_calls_of [OF does_review [OF op] that(1)] that(2) by (simp add: review_call_def)
  with k op run_provides [OF op] show ?thesis by (auto simp: keeps_launch_def sound_launch_def)
qed

text \<open>C2: a run makes at most one charge or refund. A charge is for the code and the price of the launch,
  and is made only while no charge is confirmed. For a launch whose row notes no attempt and that no
  earlier run has put off, the attempt, with a balance above the price, was written to the table
  before it, in the same run. A launch whose row notes an attempt, or that was put off (status
  \<^verbatim>\<open>unknown\<close>), is charged on recovery: the call right before the charge asks for the balance history,
  and what it answered did not show the charge, for lack of an answer or of an entry. (The charge of
  a launch put off before its first attempt is one that nothing was written for.) A refund is for the code and the price of the launch,
  and its attempt is noted in the row the run started from or was written before it.\<close>

theorem launch_pays_once:
  assumes "life True op0 op" and "snd (run_state (run_loaded sv op) []) = later @ c # earlier" and "spends c"
  shows "list_all unspending (later @ earlier) \<and>
    (case c of
       Charge i \<Rightarrow> ci_Code i = lo_RedeemCode op0 \<and> ci_USDMicros i = lo_TotalChargeUSDMicros op0 \<and> lo_ChargeConfirmation op = None \<and>
         (if lo_ChargeAttempted op \<or> lo_Status op = ''unknown''
          then \<exists>l. earlier = Read ''BalanceHistory'' # l \<and>
               (case sv_BalanceHistory sv l (ci_UserID i) of Inl _ \<Rightarrow> True
                | Inr history \<Rightarrow> charge_code op (ci_UserID i) history = ''sub2api_charge_missing'')
          else \<exists>p. Persist p True \<in> set earlier \<and> launch_identity p = launch_identity op0 \<and> lo_ChargeAttempted p \<and>
               lo_PreChargeBalanceUSDMicros p > lo_TotalChargeUSDMicros p)
     | Refund i \<Rightarrow> ci_Code i = lo_RefundCode op0 \<and> ci_USDMicros i = lo_TotalChargeUSDMicros op0 \<and>
         (lo_RefundAttempted op \<or>
          (\<exists>p. Persist p True \<in> set earlier \<and> launch_identity p = launch_identity op0 \<and> lo_RefundAttempted p))
     | _ \<Rightarrow> False)"
proof -
  have k: "sound_launch op" "launch_identity op = launch_identity op0"
    using life_keeps [OF assms(1)] by (simp_all add: keeps_launch_def)
  have c: "c \<in> calls_of (run_loaded sv op)" using assms(2) by (simp add: calls_of_def)
  have "run_call False op c" by (rule does_calls_of [OF does_run [OF k(1)] c]) simp
  with assms(3) have "(case c of
       Charge i \<Rightarrow> lo_Phase op = ''debit_pending'' \<and> ci_Code i = lo_RedeemCode op0 \<and> ci_USDMicros i = lo_TotalChargeUSDMicros op0
     | Refund i \<Rightarrow> lo_Phase op \<noteq> ''debit_pending'' \<and> ci_Code i = lo_RefundCode op0 \<and> ci_USDMicros i = lo_TotalChargeUSDMicros op0
     | _ \<Rightarrow> False)"
    using launch_identity_eq [OF k(2)] unfolding run_call_def
    by (cases c) (auto simp: spends_def fulfil_call_def debit_call_def split: if_splits)
  with run_spends [OF assms(2,3)] k(2) show ?thesis
    by (cases c) (auto simp: run_written_def charge_written_def recovering_def charge_unseen_def not_shown_def
        attempt_written_def refund_written_def split: if_splits)
qed

end
