(* ===== verification/CP_Launch_Refund.thy ===== *)
theory CP_Launch_Refund
  imports CP_Launch_Claims
begin

text \<open>
  Refunds are final: a launch whose refund was begun is only refunded further, unless a reviewer
  takes it up again, which the code does not prevent.
\<close>

section \<open>The calls of a refund\<close>

definition refunds :: "launch_operation \<Rightarrow> launch_operation \<Rightarrow> bool" where
  "refunds op p \<longleftrightarrow> launch_identity p = launch_identity op \<and> lo_RefundAttempted p \<and> refunding p"

definition refund_call :: "launch_operation \<Rightarrow> call \<Rightarrow> bool" where
  "refund_call op c \<longleftrightarrow>
     (case c of
        Read _ \<Rightarrow> True
      | Claim p _ \<Rightarrow> refunds op p
      | Persist p _ \<Rightarrow> refunds op p
      | Refund i \<Rightarrow> ci_Code i = lo_RefundCode op \<and> ci_USDMicros i = lo_TotalChargeUSDMicros op
      | RecordReceiptCall r \<Rightarrow> ri_type r = ''billing.workspace_refunded.v1'' \<and> ri_requestId r = lo_ID op \<and> ri_accountId r = lo_AccountID op
      | _ \<Rightarrow> False)"

lemma refund_call_simps [simp]:
  "refund_call op (Read w)" "refund_call op (Persist p b) = refunds op p" "refund_call op (Claim p b) = refunds op p"
  by (simp_all add: refund_call_def)

lemma refunds_update [simp]:
  "refunds op0 (op\<lparr>lo_PersistedResult := t\<rparr>) = refunds op0 op"
  "refunds op0 (op\<lparr>lo_Status := t\<rparr>) = refunds op0 op"
  "refunds op0 (op\<lparr>lo_ErrorCode := t\<rparr>) = refunds op0 op"
  "refunds op0 (op\<lparr>lo_RefundConfirmation := c\<rparr>) = refunds op0 op"
  "refunds op0 (op\<lparr>lo_RefundReceiptID := t\<rparr>) = refunds op0 op"
  "refunds op0 (op\<lparr>lo_ReceiptID := t\<rparr>) = refunds op0 op"
  "refunds op0 (op\<lparr>lo_LeaseToken := t\<rparr>) = refunds op0 op"
  "refunds op0 (op\<lparr>lo_LeaseExpiresAt := t\<rparr>) = refunds op0 op"
  "refunds op0 op \<Longrightarrow> refunds op0 (op\<lparr>lo_Phase := ''refunded''\<rparr>)"
  by (simp_all add: refunds_def refunding_def)

lemma refunds_release [simp]: "refunds op0 (releaseWorkspaceLaunchLease op) = refunds op0 op"
  by (simp add: releaseWorkspaceLaunchLease_def)

lemma refunds_refund [simp]: "refunds op0 op \<Longrightarrow> refund_call op0 (Refund (launch_refund_input op u))"
  by (auto simp: refunds_def refund_call_def launch_refund_input_def dest: launch_identity_eq)

lemma refunds_receipt [simp]: "refunds op0 op \<Longrightarrow> refund_call op0 (RecordReceiptCall (refund_receipt op u cs))"
  by (auto simp: refunds_def refund_call_def refund_receipt_def launch_receipt_def launch_identity_def)

lemma does_refunding:
  assumes op: "refunds op0 op"
  shows "does (refund_call op0) (refundWorkspaceLaunch sv op reason) (\<lambda>_. True)"
proof -
  have a: "lo_RefundAttempted op" using op by (simp add: refunds_def)
  have receipt: "does (refund_call op0) (recordWorkspaceLaunchRefundReceipt sv p u) (\<lambda>_. True)" if "refunds op0 p" for p u
    unfolding recordWorkspaceLaunchRefundReceipt_def manualReviewWorkspaceLaunchFulfillment_def retryWorkspaceLaunchFulfillment_def
      RecordMonthlyReceipt_def Let_def
    using that by (intro does_wp does_finish) simp_all
  show ?thesis
    unfolding refundWorkspaceLaunch_def attempt_refund_def recover_refund_def refund_launch_def settle_refund_def
      manualReviewWorkspaceLaunchFulfillment_def retryWorkspaceLaunchFulfillment_def Let_def
    using op a by (intro does_wp does_rules receipt) (auto simp: rewritten_def)
qed

lemma does_refund_run:
  assumes op: "refunds op op"
  shows "does (refund_call op) (run_loaded sv op) (\<lambda>_. True)"
proof -
  have phase: "lo_Phase op \<noteq> ''debit_pending''" using op by (auto simp: refunds_def refunding_def)
  have step: "does (refund_call op) (fulfill_step sv p) (\<lambda>r. \<exists>e. r = Inl e)" if "refunds op p" for p
  proof -
    have "lo_Phase p = ''refund_pending'' \<or> lo_Phase p = ''refunded''" using that by (simp add: refunds_def refunding_def)
    moreover have "does (refund_call op) (stop_launch (refundWorkspaceLaunch sv p reason)) (\<lambda>r. \<exists>e. r = Inl e)" for reason
      by (rule does_stop, rule does_post [OF does_refunding [OF that]]) simp
    moreover have "does (refund_call op) (ret (Inl [])) (\<lambda>r :: (svc_error list, launch_operation) res. \<exists>e. r = Inl e)"
      by (rule does_ret) simp
    ultimately show ?thesis by (auto simp: fulfill_step_def Let_def)
  qed
  have fulfil: "does (refund_call op) (fulfillWorkspaceLaunch sv p) (\<lambda>_. True)" if "refunds op p" for p
    unfolding fulfillWorkspaceLaunch_def eval_nat_numeral fulfill_rounds.simps
    by (rule does_bind [OF step [OF that]]) (auto intro: does_ret)
  have "does (refund_call op) (work_launch sv op) (\<lambda>_. True)"
    unfolding work_launch_def using op phase by (intro does_wp does_claim fulfil) auto
  then show ?thesis
    unfolding run_loaded_def manualReviewWorkspaceLaunchDebit_def using op by (intro does_wp does_finish) simp_all
qed

text \<open>C3: a refund is final. Once the refund of a launch was begun, the launch stays in the phases
  of a refund, and its runs only refund under the launch's own code and amount and record the
  receipt of the refund: they create nothing, charge nothing and activate nothing, and every
  operation they write is again one whose refund was begun. This is for lives without reviews.\<close>

theorem refund_is_final:
  assumes "life False op0 op" and "lo_RefundAttempted op"
  shows "refunding op \<and> (\<forall>sv. \<forall>c \<in> calls_of (run_loaded sv op). refund_call op0 c)"
proof -
  have k: "settled op" "launch_identity op = launch_identity op0"
    using life_keeps [OF assms(1)] by (simp_all add: keeps_launch_def)
  then have r: "refunding op" using assms(2) by (simp add: settled_def)
  have "refund_call op0 c" if "refund_call op c" for c
    using that k(2) unfolding refund_call_def refunds_def launch_identity_def by (cases c) auto
  moreover have "refunds op op" using r assms(2) by (simp add: refunds_def)
  ultimately show ?thesis using r by (auto dest: does_calls_of [OF does_refund_run])
qed

text \<open>A reviewer may take up a launch whose refund was attempted: when both resources are ready it is
  attached, although its charge may have been given back.\<close>

lemma review_after_refund:
  assumes "lo_Status op = ''manual_review''" and "lo_Phase op = ''refund_pending''" and "lo_RefundConfirmation op = None"
    and "lo_RefundAttempted op" and "sub2APIUserID (sv_ListAccounts sv [] []) (lo_AccountID op) = Inr u"
    and "workspaceLaunchChargeConfirmed op u"
    and "run_state (workspaceLaunchRecoveryResourceStates sv op) [Read ''ListAccounts''] = (Inr (''ready'', ''ready''), log)"
  shows "review_pending sv op = review_launch sv op"
    "snd (run_state (review_launch sv op) []) = snd (run_state (resume_launch sv op ''attaching'') log)"
  using assms by (simp_all add: review_pending_def review_launch_def launch_user_def peek_def ask_def ret_def)

end
