(* ===== verification/CP_Launch_Example.thy ===== *)
theory CP_Launch_Example
  imports CP_Launch_Refund
begin

text \<open>
  A world in which every service does its work, used to show that the hypotheses about lives of a
  launch can hold and that a launch reaches its end.
\<close>

section \<open>A healthy world\<close>

definition ex_now :: instant where "ex_now = date_ns 2026 7 15 10 0 0 0"

definition ex_env :: environment where
  "ex_env = \<lparr>NODE_ENV = ''test'', OPL_TENCENT_ZONE = ''z1'', OPL_PRO_COMPUTE_INSTANCE_TYPE = ''L'', OPL_BASIC_COMPUTE_INSTANCE_TYPE = ''S''\<rparr>"

definition ex_digest :: string where "ex_digest = ''d''"

definition ex_user :: gomap where
  "ex_user = [(''id'', GStr ''u1''), (''accountId'', GStr ''a1''), (''role'', GStr ''owner''), (''status'', GStr ''active'')]"

definition ex_account :: gomap where
  "ex_account = [(''id'', GStr ''a1''), (''ownerUserId'', GStr ''u1''), (''status'', GStr ''active''), (''sub2apiUserId'', GInt 7)]"

definition ex_id :: "string \<Rightarrow> string" where "ex_id prefix = prefix @ ex_digest"

definition ex_key :: workspace_key where
  "ex_key = \<lparr>wk_ID = 3, wk_UserID = 7, wk_Name = workspaceReservedKeyName (\<lambda>_. ex_digest) (ex_id ''ws-''), wk_Key = ''k'', wk_Status = ''active''\<rparr>"

definition ex_redeem :: string where "ex_redeem = ''opl:'' @ ex_digest"

definition charged :: "calls \<Rightarrow> bool" where
  "charged log = list_ex (\<lambda>c. case c of Charge _ \<Rightarrow> True | _ \<Rightarrow> False) log"

definition ex_resource :: "string \<Rightarrow> gomap" where
  "ex_resource ty =
     [(''id'', GStr (ex_id (if ty = ''storage'' then ''vol_'' else ''ca_''))), (''accountId'', GStr ''a1''),
      (''workspaceId'', GStr (ex_id ''ws-'')), (''packageId'', GStr ''basic''),
      (''status'', GStr (if ty = ''storage'' then ''available'' else ''running'')),
      (''providerResourceId'', GStr (if ty = ''storage'' then ''disk-1'' else ''ins-1'')), (''providerRequestId'', GStr ''r1''),
      (''deadline'', GStr ''2026-08-15T12:00:00Z''), (''zone'', GStr ''z1''), (''chargeType'', GStr ''PREPAID''),
      (''renewFlag'', GStr ''NOTIFY_AND_MANUAL_RENEW'')] @
     (if ty = ''storage'' then [(''diskType'', GStr ''CLOUD''), (''cbsStatus'', GStr ''ATTACHED''), (''sizeGb'', GInt 10)]
      else [(''instanceId'', GStr ''ins-1''), (''instanceType'', GStr ''S''), (''providerData'', GObj [(''instanceType'', GStr ''S'')])])"

definition ex_preflight :: "preflight_input \<Rightarrow> preflight" where
  "ex_preflight i =
     \<lparr>pf_ResourceType = pfi_ResourceType i, pf_PackageID = pfi_PackageID i, pf_SizeGB = pfi_SizeGB i, pf_Zone = pfi_Zone i,
      pf_NodePoolID = ''np1'', pf_Available = True, pf_ChargeType = ''PREPAID'', pf_PeriodMonths = 1,
      pf_RenewFlag = ''NOTIFY_AND_MANUAL_RENEW'', pf_ProviderPriceCNY = FFin 1 0,
      pf_ProviderRequestIDs = map (\<lambda>k. (k, ''q'')) [''quota'', ''price'', ''nodePool'', ''subnets'', ''availability'']\<rparr>"

definition ex_runtime :: workspace_runtime where
  "ex_runtime = \<lparr>wr_ID = ''rt1'', wr_WorkspaceID = ex_id ''ws-'', wr_URL = ''https://w'', wr_Status = ''running'', wr_ServiceName = ''svc'',
     wr_Username = ''u'', wr_CredentialStatus = ''configured'', wr_CredentialVersion = ''v1'', wr_SecretRef = ''s1'', wr_Ready = True\<rparr>"

definition activated :: "calls \<Rightarrow> gomap option" where
  "activated log = (case concat (map (\<lambda>c. case c of ActivateWorkspace r \<Rightarrow> [r] | _ \<Rightarrow> []) log) of [] \<Rightarrow> None | r # _ \<Rightarrow> Some r)"

definition ex_sv :: services where
  "ex_sv = \<lparr>sv_env = ex_env, sv_sha = (\<lambda>_. ex_digest), sv_sha256 = (\<lambda>_. ex_digest), sv_marshal = (\<lambda>_. ''stored''),
     sv_unmarshal = (\<lambda>_. None), sv_encodeBillingState = (\<lambda>_. Some ''b''), sv_acceptedBillingState = (\<lambda>_. None),
     sv_workerEnabled = False, sv_now = (\<lambda>_. ex_now), sv_SessionUser = (\<lambda>_. Some ex_user), sv_BillingReconciliation = (\<lambda>_. None),
     sv_FabricCatalog = (\<lambda>_. Ok [\<lparr>fp_ID = ''basic'', fp_Name = ''basic'', fp_ComputeProfileID = ''p'', fp_Provider = ''t'',
       fp_Available = True, fp_CPU = 2, fp_MemoryGB = 4, fp_DiskGB = 10\<rparr>]),
     sv_ListRuntimeOperations = (\<lambda>_. Some []), sv_ListUsers = (\<lambda>_. Some [ex_user]), sv_ListAccounts = (\<lambda>_ _. Some [ex_account]),
     sv_ListOrganizations = (\<lambda>_. Some [[(''id'', GStr ''o1''), (''billingAccountId'', GStr ''a1''), (''status'', GStr ''active'')]]),
     sv_ListMemberships = (\<lambda>_. Some [[(''accountId'', GStr ''a1''), (''userId'', GStr ''u1''), (''organizationId'', GStr ''o1''),
       (''status'', GStr ''active''), (''role'', GStr ''owner'')]]),
     sv_ListComputes = (\<lambda>_. [ex_resource ''compute'']), sv_ListStorages = (\<lambda>_. [ex_resource ''storage'']),
     sv_ListAttachments = (\<lambda>_ _. []), sv_ListWorkspaces = (\<lambda>_. []), sv_Workspace = (\<lambda>log _. activated log),
     sv_ClaimWorkspaceLaunch = (\<lambda>_ _ _. None), sv_PersistWorkspaceLaunch = (\<lambda>_ _ _. None), sv_SaveCompute = (\<lambda>_ _. None),
     sv_SaveStorage = (\<lambda>_ _. None), sv_SaveAttachment = (\<lambda>_ _. None), sv_ActivateWorkspace = (\<lambda>_ _. None),
     sv_SaveWorkspace = (\<lambda>_ _. None), sv_GatewayKeys = (\<lambda>_ _. Ok [ex_key]), sv_GatewayUserKeys = (\<lambda>_ _. Ok [ex_key]),
     sv_CreateGatewayUserKey = (\<lambda>_ _ _ _. (None, 0)), sv_WorkspaceKey = (\<lambda>_ _. Ok ex_key),
     sv_Balance = (\<lambda>log _. Ok (if charged log then 47420000 else 100000000)),
     sv_BalanceHistory = (\<lambda>log _. Ok (if charged log then
       [\<lparr>be_Code = ex_redeem, be_Type = ''balance'', be_ValueUSDMicros = - 52580000, be_Status = ''used'', be_UsedBy = Some 7\<rparr>] else [])),
     sv_Charge = (\<lambda>_ i. Ok \<lparr>ch_Code = ci_Code i, ch_UserID = ci_UserID i, ch_USDMicros = ci_USDMicros i, ch_Status = ''used''\<rparr>),
     sv_Refund = (\<lambda>_ i. Ok \<lparr>ch_Code = ci_Code i, ch_UserID = ci_UserID i, ch_USDMicros = ci_USDMicros i, ch_Status = ''used''\<rparr>),
     sv_MonthlyPreflight = (\<lambda>_ i. Ok (ex_preflight i)), sv_MonthlyProviderTruth = (\<lambda>_ _ _. Err (ErrText ''none'')),
     sv_CreateCompute = (\<lambda>_ _ _. (None, ex_resource ''compute'')), sv_CreateStorage = (\<lambda>_ _ _. (None, ex_resource ''storage'')),
     sv_SyncCompute = (\<lambda>_ _. (None, ex_resource ''compute'')), sv_SyncStorage = (\<lambda>_ _. (None, ex_resource ''storage'')),
     sv_CreateAttachment = (\<lambda>_ i _. Ok \<lparr>sa_ID = ''att1'', sa_WorkspaceID = at_WorkspaceID i, sa_ComputeID = at_ComputeID i,
       sa_VolumeID = at_VolumeID i, sa_Status = ''attached'', sa_Provider = ''t'', sa_ProviderAttachmentID = ''pa1'',
       sa_ProviderRequestID = ''pr1'', sa_MountPath = ''/data''\<rparr>),
     sv_WriteSecret = (\<lambda>_ i _. Ok \<lparr>sr_SecretRef = ''s0'', sr_Version = ''1'', sr_Fingerprint = si_Fingerprint i\<rparr>),
     sv_CreateRuntime = (\<lambda>_ _ _. Ok ex_runtime), sv_RuntimeStatus = (\<lambda>_ _. Ok ex_runtime),
     sv_RecordReceipt = (\<lambda>_ _. Ok ''rcpt1'')\<rparr>"

definition ex_rq :: launch_request where
  "ex_rq = \<lparr>rq_input = [(''name'', GStr ''mine''), (''packageId'', GStr ''basic''), (''sizeGb'', GInt 10), (''autoRenew'', GBool False)],
     rq_idempotencyKey = ''k1'', rq_accountId = [], rq_hasCredential = True\<rparr>"

section \<open>Evaluation\<close>

lemma run_peek: "run_state (peek w f) l = (f l, Read w # l)"
  by (simp add: peek_def run_ask)

lemma run_tell: "run_state (tell c f) l = (f l, c # l)"
  by (simp add: tell_def run_ask)

lemmas run_simps = run_calls run_peek run_tell

lemma ex_sv_simps [simp]:
  "sv_env ex_sv = ex_env" "sv_sha ex_sv = (\<lambda>_. ex_digest)" "sv_sha256 ex_sv = (\<lambda>_. ex_digest)" "sv_marshal ex_sv p = ''stored''"
  "sv_workerEnabled ex_sv = False" "sv_now ex_sv l = ex_now" "sv_SessionUser ex_sv l = Some ex_user"
  "sv_BillingReconciliation ex_sv l = None" "sv_ListRuntimeOperations ex_sv l = Some []" "sv_ListUsers ex_sv l = Some [ex_user]"
  "sv_ListAccounts ex_sv l s = Some [ex_account]" "sv_ClaimWorkspaceLaunch ex_sv l s p = None"
  "sv_PersistWorkspaceLaunch ex_sv l s p = None" "sv_GatewayKeys ex_sv l i = Ok [ex_key]" "sv_GatewayUserKeys ex_sv l i = Ok [ex_key]"
  "sv_MonthlyPreflight ex_sv l pf = Ok (ex_preflight pf)"
  by (simp_all add: ex_sv_def)

definition ex_order :: launch_order where "ex_order = \<lparr>or_name = ''mine'', or_packageID = ''basic'', or_storageGB = 10\<rparr>"

lemma ex_launch_order: "launch_order_of (rq_input ex_rq) = Inr ex_order"
  by code_simp

definition ex_catalog_pools :: "gov list" where "ex_catalog_pools = (case sv_FabricCatalog ex_sv [] of Inr ps \<Rightarrow> computePoolsFromFabricCatalog ps)"

definition ex_quote :: gomap where "ex_quote = (case order_quote ex_catalog_pools ex_order of Inr q \<Rightarrow> q)"

lemma ex_quoted: "order_quote ex_catalog_pools ex_order = Inr ex_quote"
  by code_simp

lemma ex_quote_price: "number_int ex_quote ''totalChargeUsdMicros'' 0 = 52580000"
  by code_simp

lemma ex_catalog [simp]: "(case sv_FabricCatalog ex_sv l of Inl e \<Rightarrow> f e | Inr ps \<Rightarrow> Inr (computePoolsFromFabricCatalog ps)) = Inr ex_catalog_pools"
  by (simp add: ex_sv_def ex_catalog_pools_def)

definition ex_op :: launch_operation where
  "ex_op = (ordered_operation ex_sv ex_now ''a1'' ex_user ex_order ex_quote ''k1'')\<lparr>lo_ComputeNodePoolID := ''np1'', lo_Phase := ''key_pending''\<rparr>"

lemma ex_op_simps [simp]:
  "lo_ID ex_op = ex_id ''workspace-launch-''" "lo_AccountID ex_op = ''a1''" "lo_OwnerUserID ex_op = ''u1''"
  "lo_WorkspaceID ex_op = ex_id ''ws-''" "lo_PackageID ex_op = ''basic''" "lo_StorageGB ex_op = 10"
  "lo_TotalChargeUSDMicros ex_op = 52580000" "lo_Phase ex_op = ''key_pending''" "lo_ComputeNodePoolID ex_op = ''np1''"
  "lo_RedeemCode ex_op = ex_redeem" "lo_ChargeAttempted ex_op = False" "lo_ChargeConfirmation ex_op = None"
  "lo_LeaseExpiresAt ex_op = []" "lo_Status ex_op = ''debit_pending''"
  "lo_ComputeID ex_op = ex_id ''ca_''" "lo_StorageID ex_op = ex_id ''vol_''" "lo_RefundAttempted ex_op = False"
  "lo_RefundConfirmation ex_op = None"
  by (simp_all add: ex_op_def ordered_operation_def newWorkspaceLaunchOperation_def Let_def ex_order_def ex_quote_price
      stableID_def resourceIDForMutation_def ex_id_def ex_digest_def ex_redeem_def monthlyRedeemCode_def ex_user_def sfield_def)

lemma ex_mapped: "sub2APIUserID (Some [ex_account]) ''a1'' = Inr 7"
  by code_simp

lemma ex_scoped: "run_state (scopedAccountID ex_sv ex_rq (Some (rq_input ex_rq))) [] = (Inr ''a1'', [Read ''SessionUser''])"
  apply (simp add: scopedAccountID_def sessionUser_def run_simps ex_user_def ex_rq_def cong: bind_front case_front)
  apply code_simp
  done

lemma ex_ordered: "(ordered_operation ex_sv ex_now ''a1'' ex_user ex_order ex_quote ''k1'')\<lparr>lo_ComputeNodePoolID := ''np1'', lo_Phase := ''key_pending''\<rparr> = ex_op"
  by (simp add: ex_op_def)

definition ex_new :: launch_operation where "ex_new = ordered_operation ex_sv ex_now ''a1'' ex_user ex_order ex_quote ''k1''"

lemma ex_new_simps:
  "lo_PackageID ex_new = ''basic''" "lo_StorageGB ex_new = 10" "lo_TotalChargeUSDMicros ex_new = 52580000"
  by (simp_all add: ex_new_def ordered_operation_def newWorkspaceLaunchOperation_def Let_def ex_order_def ex_quote_price)

lemma ex_zone: "monthlyComputeLaunchZone ex_env = ''z1''"
  by code_simp

lemma ex_confirmed:
  "monthlyPreflightConfirmed \<lparr>pfi_ResourceType = ''compute'', pfi_PackageID = ''basic'', pfi_SizeGB = 0, pfi_Zone = ''z1''\<rparr>
     (ex_preflight \<lparr>pfi_ResourceType = ''compute'', pfi_PackageID = ''basic'', pfi_SizeGB = 0, pfi_Zone = ''z1''\<rparr>)"
  "monthlyPreflightConfirmed \<lparr>pfi_ResourceType = ''storage'', pfi_PackageID = ''basic'', pfi_SizeGB = 10, pfi_Zone = ''z1''\<rparr>
     (ex_preflight \<lparr>pfi_ResourceType = ''storage'', pfi_PackageID = ''basic'', pfi_SizeGB = 10, pfi_Zone = ''z1''\<rparr>)"
  by code_simp+

lemma ex_admission_preflights:
  "run_state (admission_preflights ex_sv ex_new) log =
     (Inr (ex_new\<lparr>lo_ComputeNodePoolID := ''np1''\<rparr>), Read ''MonthlyPreflight'' # Read ''MonthlyPreflight'' # log)"
  by (simp add: admission_preflights_def launch_preflight_inputs_def run_simps ex_new_simps ex_zone ex_confirmed
      ex_preflight_def [THEN arg_cong [of _ _ pf_NodePoolID]] cong: bind_front case_front)

lemma ex_credential: "run_state (account_credential ex_sv ex_rq ''a1'') log = (Inr 7, Read ''ListAccounts'' # Read ''SessionUser'' # log)"
  by (simp add: account_credential_def gatewayUserContext_def sessionUser_def launch_user_def run_simps ex_rq_def ex_mapped
      ex_user_def sfield_def cong: bind_front case_front)

lemma ex_balance: "\<not> charged log \<Longrightarrow> sv_Balance ex_sv log 7 = Ok 100000000"
  by (simp add: ex_sv_def)

definition ex_keyed :: launch_operation where
  "ex_keyed = ex_op\<lparr>lo_WorkspaceAPIKeyID := 3, lo_Status := ''debit_pending'', lo_Phase := ''debit_pending'', lo_ErrorCode := []\<rparr>"

lemma ex_converges:
  "lo_WorkspaceID op = ex_id ''ws-'' \<Longrightarrow>
   run_state (convergeAndPersistWorkspaceLaunchKey ex_sv 7 op) log =
     (let p = op\<lparr>lo_WorkspaceAPIKeyID := 3, lo_Status := ''debit_pending'', lo_Phase := ''debit_pending'', lo_ErrorCode := []\<rparr>
      in (Inr (p\<lparr>lo_PersistedResult := ''stored''\<rparr>), Persist p True # Read ''GatewayUserKeys'' # log))"
  by (simp add: convergeAndPersistWorkspaceLaunchKey_def convergeWorkspaceAPIKey_def persistWorkspaceLaunch_def run_simps Let_def
      workspaceKeysNamed_def usable_key_def ex_key_def cong: bind_front case_front)

lemma ex_claim_made:
  assumes "\<not> charged log"
  shows "Claim ex_op True \<in> set (snd (run_state (claim_new_launch ex_sv ''a1'' (ex_new\<lparr>lo_ComputeNodePoolID := ''np1''\<rparr>) 7) log))"
proof -
  have op: "(ex_new\<lparr>lo_ComputeNodePoolID := ''np1''\<rparr>)\<lparr>lo_Phase := ''key_pending''\<rparr> = ex_op"
    by (simp add: ex_new_def ex_op_def)
  show ?thesis
    by (simp add: claim_new_launch_def run_simps Let_def ex_balance assms ex_new_simps current_launch_body_def op ex_converges launch_body_def cong: bind_front case_front)
qed

lemma ex_charged [simp]: "charged (Read w # log) = charged log" "charged [] = False"
  by (simp_all add: charged_def)

lemma ex_posts: "Claim ex_op True \<in> calls_of (post_workspace_launch ex_sv ex_rq)"
proof -
  have key: "requiredMutationKey ex_rq = Inr ''k1''"
    by code_simp
  show ?thesis
    by (simp add: calls_of_def post_workspace_launch_def key run_simps ex_scoped sessionUser_def ex_launch_order fabricComputePools_def
        ex_quoted post_quoted_launch_def Let_def ex_new_def [symmetric] admit_new_launch_def reconciliationBlocksNewWorkspaces_def
        ex_admission_preflights ex_credential ex_claim_made cong: bind_front case_front run_front)
qed

lemma ex_preflights: "lo_PackageID op = ''basic'' \<Longrightarrow> lo_StorageGB op = 10 \<Longrightarrow> lo_ComputeNodePoolID op = ''np1'' \<Longrightarrow>
    run_state (verifyWorkspaceLaunchPreflight ex_sv op) log = (None, Read ''MonthlyPreflight'' # Read ''MonthlyPreflight'' # log)"
  by (simp add: verifyWorkspaceLaunchPreflight_def launch_preflight_inputs_def ex_zone run_simps ex_confirmed Let_def
      ex_preflight_def [THEN arg_cong [of _ _ pf_NodePoolID]] cong: bind_front case_front)

lemma ex_owner:
  "ownsActiveAccount (findRecord [ex_account] ''a1'') ex_user"
  "membership_active ''a1'' ex_user [[(''id'', GStr ''o1''), (''billingAccountId'', GStr ''a1''), (''status'', GStr ''active'')]]
     [[(''accountId'', GStr ''a1''), (''userId'', GStr ''u1''), (''organizationId'', GStr ''o1''),
       (''status'', GStr ''active''), (''role'', GStr ''owner'')]]"
  "sfield ex_user ''accountId'' = ''a1''" "findRecord [ex_user] ''u1'' = Some ex_user"
  by code_simp+

lemma ex_active: "run_state (hasActiveCustomerMembership ex_sv ex_user) log =
    (Some True, Read ''ListMemberships'' # Read ''ListOrganizations'' # Read ''ListAccounts'' # log)"
proof -
  have *: "sv_ListOrganizations ex_sv l = Some [[(''id'', GStr ''o1''), (''billingAccountId'', GStr ''a1''), (''status'', GStr ''active'')]]"
    "sv_ListMemberships ex_sv l = Some [[(''accountId'', GStr ''a1''), (''userId'', GStr ''u1''), (''organizationId'', GStr ''o1''),
       (''status'', GStr ''active''), (''role'', GStr ''owner'')]]" for l
    by (simp_all add: ex_sv_def)
  show ?thesis
    by (simp add: hasActiveCustomerMembership_def run_simps Let_def ex_owner * cong: bind_front case_front)
qed

definition ex_leased :: launch_operation where
  "ex_leased = ex_keyed\<lparr>lo_LeaseToken := ex_digest, lo_LeaseExpiresAt := format_rfc3339nano (ex_now + leaseDuration), lo_PersistedResult := ''stored''\<rparr>"

lemma ex_leased_simps [simp]:
  "lo_ID ex_leased = ex_id ''workspace-launch-''" "lo_AccountID ex_leased = ''a1''" "lo_OwnerUserID ex_leased = ''u1''"
  "lo_WorkspaceID ex_leased = ex_id ''ws-''" "lo_PackageID ex_leased = ''basic''" "lo_StorageGB ex_leased = 10"
  "lo_TotalChargeUSDMicros ex_leased = 52580000" "lo_Phase ex_leased = ''debit_pending''" "lo_ComputeNodePoolID ex_leased = ''np1''"
  "lo_RedeemCode ex_leased = ex_redeem" "lo_ChargeAttempted ex_leased = False" "lo_ChargeConfirmation ex_leased = None"
  "lo_Status ex_leased = ''debit_pending''" "lo_WorkspaceAPIKeyID ex_leased = 3"
  "lo_ComputeID ex_leased = ex_id ''ca_''" "lo_StorageID ex_leased = ex_id ''vol_''" "lo_RefundAttempted ex_leased = False"
  "lo_RefundConfirmation ex_leased = None"
  by (simp_all add: ex_leased_def ex_keyed_def)

definition ex_charge :: charge where
  "ex_charge = \<lparr>ch_Code = ex_redeem, ch_UserID = 7, ch_USDMicros = 52580000, ch_Status = ''used''\<rparr>"

lemma ex_confirmation: "monthlyChargeConfirmationMatches (charge_confirmation ex_charge) ex_redeem 7 52580000"
  by code_simp

definition ex_history :: "balance_entry list" where
  "ex_history = [\<lparr>be_Code = ex_redeem, be_Type = ''balance'', be_ValueUSDMicros = - 52580000, be_Status = ''used'', be_UsedBy = Some 7\<rparr>]"

lemma ex_after:
  "charged log \<Longrightarrow> sv_Balance ex_sv log 7 = Ok 47420000" "charged log \<Longrightarrow> sv_BalanceHistory ex_sv log 7 = Ok ex_history"
  by (simp_all add: ex_sv_def ex_history_def)

lemma ex_charged_call [simp]: "charged (Charge i # log)" "charged (Persist p b # log) = charged log" "charged (Claim p b # log) = charged log"
  by (simp_all add: charged_def)

definition ex_paid :: launch_operation where
  "ex_paid = ex_leased\<lparr>lo_PreChargeBalanceUSDMicros := 100000000, lo_ChargeAttempted := True\<rparr>"

definition ex_confirmed_op :: launch_operation where
  "ex_confirmed_op = ex_paid\<lparr>lo_ChargeConfirmation := Some (charge_confirmation ex_charge), lo_ErrorCode := []\<rparr>"

definition ex_debited :: launch_operation where
  "ex_debited = ex_confirmed_op\<lparr>lo_PostChargeBalanceKnown := True, lo_PostChargeBalanceUSDMicros := 47420000,
     lo_Status := ''debited'', lo_Phase := ''debited'', lo_ErrorCode := [], lo_LeaseToken := [], lo_LeaseExpiresAt := []\<rparr>"

lemma ex_stored [simp]: "lo_PersistedResult ex_leased = ''stored''"
  by (simp add: ex_leased_def)

lemma ex_leased_same [simp]: "ex_leased\<lparr>lo_PersistedResult := ''stored''\<rparr> = ex_leased"
  by (simp add: ex_leased_def)

lemma ex_paid_simps [simp]:
  "lo_RedeemCode ex_paid = ex_redeem" "lo_TotalChargeUSDMicros ex_paid = 52580000" "lo_WorkspaceID ex_paid = ex_id ''ws-''"
  "lo_PreChargeBalanceUSDMicros ex_paid = 100000000"
  by (simp_all add: ex_paid_def)

lemma ex_paid_same [simp]: "ex_paid\<lparr>lo_PersistedResult := ''stored''\<rparr> = ex_paid"
  by (simp add: ex_paid_def ex_leased_def)

lemma ex_confirmed_simps [simp]:
  "lo_RedeemCode ex_confirmed_op = ex_redeem" "lo_TotalChargeUSDMicros ex_confirmed_op = 52580000"
  "lo_WorkspaceID ex_confirmed_op = ex_id ''ws-''" "lo_PreChargeBalanceUSDMicros ex_confirmed_op = 100000000"
  by (simp_all add: ex_confirmed_op_def)

lemma ex_confirmed_same [simp]: "ex_confirmed_op\<lparr>lo_PersistedResult := ''stored''\<rparr> = ex_confirmed_op"
  by (simp add: ex_confirmed_op_def ex_paid_def ex_leased_def)

lemma ex_charges: "run_state (charge_launch ex_sv ex_paid 7) log = (Ok ex_charge, Charge (launch_charge_input ex_paid 7) # log)"
  by (simp add: charge_launch_def run_simps Let_def ex_charge_def launch_charge_input_def ex_sv_def)

lemma ex_obtain:
  assumes "\<not> charged log"
  shows "run_state (obtain_charge ex_sv ex_leased 7) log =
    (Inr ex_confirmed_op, Persist ex_confirmed_op True # Charge (launch_charge_input ex_paid 7) # Persist ex_paid True # Read ''Balance'' # log)"
  by (simp add: obtain_charge_def first_charge_def run_simps ex_balance assms persistWorkspaceLaunch_def ex_charges
     ex_paid_def [symmetric] ex_confirmation Let_def ex_confirmed_op_def [symmetric] cong: bind_front case_front)

lemma ex_code: "charge_code ex_confirmed_op 7 ex_history = []"
proof -
  have "sub2APIReconciliationCode [(''sub2apiRedeemCode'', GStr ex_redeem), (''chargeUsdMicros'', GInt 52580000)] 7 ex_history = []"
    by code_simp
  then show ?thesis by (simp add: charge_code_def launch_charge_row_def)
qed

lemma ex_confirms:
  assumes "charged log"
  shows "run_state (confirm_debit ex_sv ex_confirmed_op 7) log =
    ([], Persist ex_debited True # Read ''Balance'' # Read ''BalanceHistory'' # log)"
  by (simp add: confirm_debit_def run_simps assms ex_after ex_code Let_def wrap64_def finish_launch_def persistWorkspaceLaunch_def
     releaseWorkspaceLaunchLease_def ex_debited_def [symmetric] errors_of_def cong: bind_front case_front)

definition ex_reads :: calls where
  "ex_reads = [Read ''GatewayKeys'', Read ''ListAccounts'', Read ''MonthlyPreflight'', Read ''MonthlyPreflight'', Read ''ListMemberships'',
     Read ''ListOrganizations'', Read ''ListAccounts'', Read ''ListUsers'']"

lemma ex_debits:
  assumes "\<not> charged log"
  shows "run_state (debit_run ex_sv ex_leased) log =
    ([], [Persist ex_debited True, Read ''Balance'', Read ''BalanceHistory'', Persist ex_confirmed_op True, Charge (launch_charge_input ex_paid 7),
      Persist ex_paid True, Read ''Balance''] @ ex_reads @ log)"
  by (simp add: debit_run_def findUserByID_def debitWorkspaceLaunch_def launch_user_def run_simps ex_mapped Sub2APIWorkspaceKeyByID_def
     ex_key_def ex_preflights ex_active ex_owner ex_obtain ex_confirms assms ex_reads_def cong: bind_front case_front)

definition ex_start :: calls where
  "ex_start = [Claim (ex_keyed\<lparr>lo_LeaseToken := ex_digest, lo_LeaseExpiresAt := format_rfc3339nano (ex_now + leaseDuration)\<rparr>) True,
     Read ''now'', Read ''now'']"

lemma ex_runs:
  "snd (run_state (run_loaded ex_sv ex_keyed) []) =
    [Persist ex_debited True, Read ''Balance'', Read ''BalanceHistory'', Persist ex_confirmed_op True] @ Charge (launch_charge_input ex_paid 7) #
      [Persist ex_paid True, Read ''Balance''] @ ex_reads @ ex_start"
proof -
  have *: "lo_Phase ex_keyed = ''debit_pending''" "lo_LeaseExpiresAt ex_keyed = []" by (simp_all add: ex_keyed_def)
  have "run_state (claim_launch ex_sv ex_keyed) [] = (Ok ex_leased, ex_start)"
    by (simp add: claim_launch_def run_simps Let_def stableID_def ex_leased_def ex_start_def cong: bind_front case_front)
  moreover have "\<not> charged ex_start" by (simp add: ex_start_def)
  ultimately show ?thesis
    by (simp add: run_loaded_def * work_launch_def run_then ex_debits cong: bind_front case_front)
qed

section \<open>Lives\<close>

lemma ex_life: "life reviewed ex_op ex_keyed" "life reviewed ex_op ex_debited"
proof -
  have "Persist ex_keyed True \<in> calls_of (convergeAndPersistWorkspaceLaunchKey ex_sv 7 ex_op)"
    by (simp add: calls_of_def ex_converges Let_def ex_keyed_def)
  with life.claimed [OF ex_posts] show k: "life reviewed ex_op ex_keyed"
    by (metis life.keyed ex_op_simps(8))
  have "Persist ex_debited True \<in> calls_of (run_loaded ex_sv ex_keyed)" by (simp add: calls_of_def ex_runs)
  moreover have "\<not> resting ex_keyed" by (simp add: resting_def terminalWorkspaceLaunchStatus_def ex_keyed_def)
  ultimately show "life reviewed ex_op ex_debited"
    using k by (auto intro: life.run simp: written_def)
qed

lemma ex_debited_phase: "lo_Phase ex_debited = ''debited''"
  by (simp add: ex_debited_def)

text \<open>A debited launch is one whose charge the balance shows.\<close>

lemma launch_paid_first_witness: "lo_Phase ex_debited \<in> paid_phases \<and> paid ex_debited"
  using launch_paid_first [OF ex_life(2)] ex_debited_phase by simp

lemma launch_pays_once_witness:
  "ci_Code (launch_charge_input ex_paid 7) = lo_RedeemCode ex_op \<and> ci_USDMicros (launch_charge_input ex_paid 7) = 52580000 \<and>
   (\<exists>p. Persist p True \<in> set ([Persist ex_paid True, Read ''Balance''] @ ex_reads @ ex_start) \<and> lo_ChargeAttempted p \<and>
      lo_PreChargeBalanceUSDMicros p > lo_TotalChargeUSDMicros p)"
proof -
  have keyed: "lo_Status ex_keyed \<noteq> ''unknown''" "\<not> lo_ChargeAttempted ex_keyed" by (simp_all add: ex_keyed_def)
  have price: "lo_TotalChargeUSDMicros ex_op = 52580000" by simp
  have "spends (Charge (launch_charge_input ex_paid 7))" by (simp add: spends_def unspending_def)
  from launch_pays_once [OF ex_life(1) ex_runs this] keyed price show ?thesis by (simp only: call.case simp_thms if_False) blast
qed

section \<open>A refund\<close>

text \<open>The provider has neither resource, and sub2api does not confirm the refund.\<close>

definition ex_lost :: gomap where
  "ex_lost = [(''id'', GStr (ex_id ''ca_'')), (''accountId'', GStr ''a1''), (''workspaceId'', GStr (ex_id ''ws-'')), (''status'', GStr ''external_deleted'')]"

definition ex_lost_sv :: services where
  "ex_lost_sv = ex_sv\<lparr>sv_SyncCompute := (\<lambda>_ _. (None, ex_lost)), sv_SyncStorage := (\<lambda>_ _. (Some ErrStorageVolumeNotFound, [])),
     sv_Refund := (\<lambda>_ _. Err (ErrText ''down''))\<rparr>"

lemma ex_lost_simps [simp]:
  "sv_env ex_lost_sv = ex_env" "sv_sha ex_lost_sv = (\<lambda>_. ex_digest)" "sv_marshal ex_lost_sv p = ''stored''" "sv_now ex_lost_sv l = ex_now"
  "sv_ListAccounts ex_lost_sv l s = Some [ex_account]" "sv_ClaimWorkspaceLaunch ex_lost_sv l s p = None"
  "sv_PersistWorkspaceLaunch ex_lost_sv l s p = None" "sv_SyncCompute ex_lost_sv l s = (None, ex_lost)"
  "sv_SyncStorage ex_lost_sv l s = (Some ErrStorageVolumeNotFound, [])" "sv_Refund ex_lost_sv l i = Err (ErrText ''down'')"
  "sv_CreateCompute ex_lost_sv l j k = (None, ex_resource ''compute'')" "sv_SaveCompute ex_lost_sv l r = None"
  by (simp_all add: ex_lost_sv_def ex_sv_def)

lemma ex_debited_simps [simp]:
  "lo_Phase ex_debited = ''debited''" "lo_AccountID ex_debited = ''a1''" "lo_WorkspaceID ex_debited = ex_id ''ws-''"
  "lo_ComputeID ex_debited = ex_id ''ca_''" "lo_RefundAttempted ex_debited = False" "lo_RefundConfirmation ex_debited = None"
  "lo_LeaseExpiresAt ex_debited = []"
  by (simp_all add: ex_debited_def ex_confirmed_op_def ex_paid_def)

lemma ex_resource_identity:
  "workspaceLaunchResourceIdentityMatches ''compute'' (ex_resource ''compute'') op \<longleftrightarrow>
     lo_ComputeID op = ex_id ''ca_'' \<and> lo_AccountID op = ''a1'' \<and> lo_WorkspaceID op = ex_id ''ws-''"
  "workspaceLaunchResourceIdentityMatches ''compute'' ex_lost op \<longleftrightarrow>
     lo_ComputeID op = ex_id ''ca_'' \<and> lo_AccountID op = ''a1'' \<and> lo_WorkspaceID op = ex_id ''ws-''"
  by (auto simp: workspaceLaunchResourceIdentityMatches_def launch_resource_id_def ex_resource_def ex_lost_def sfield_def)

lemma mget_strip: "k \<notin> set launch_billing_keys \<Longrightarrow> mget (stripWorkspaceLaunchResourceBilling m) k = mget m k"
  by (induction m) (auto simp: stripWorkspaceLaunchResourceBilling_def mget_def)

lemma ex_lost_absent:
  "monthlyResourceConfirmedAbsent ''compute'' (stripWorkspaceLaunchResourceBilling (mergeMaps row ex_lost))"
  by (simp add: monthlyResourceConfirmedAbsent_def mergeMaps_def ex_lost_def emptyMergeValue_def sfield_def mget_strip
     launch_billing_keys_def)

definition ex_leased_again :: launch_operation where
  "ex_leased_again = ex_debited\<lparr>lo_LeaseToken := ex_digest, lo_LeaseExpiresAt := format_rfc3339nano (ex_now + leaseDuration)\<rparr>"

definition ex_fulfilling :: launch_operation where
  "ex_fulfilling = ex_leased_again\<lparr>lo_PersistedResult := ''stored'', lo_Status := ''preparing'', lo_Phase := ''compute_fulfilling'', lo_ErrorCode := []\<rparr>"

definition ex_refunding :: launch_operation where
  "ex_refunding = note_refund ''fabric_compute_and_storage_confirmed_absent'' ex_fulfilling"

lemma ex_again_simps [simp]:
  "lo_Phase ex_leased_again = ''debited''" "lo_PersistedResult ex_fulfilling = ''stored''"
  "lo_Phase ex_fulfilling = ''compute_fulfilling''" "lo_AccountID ex_fulfilling = ''a1''" "lo_WorkspaceID ex_fulfilling = ex_id ''ws-''"
  "lo_ComputeID ex_fulfilling = ex_id ''ca_''" "lo_RefundAttempted ex_fulfilling = False" "lo_RefundConfirmation ex_fulfilling = None"
  "ex_fulfilling\<lparr>lo_PersistedResult := ''stored''\<rparr> = ex_fulfilling"
  by (simp_all add: ex_leased_again_def ex_fulfilling_def)

lemma ex_lost_outcome:
  "fst (run_state (fulfillWorkspaceLaunchResource ex_lost_sv ex_fulfilling ''compute'') log) = Ok Absent"
  by (simp add: fulfillWorkspaceLaunchResource_def prepare_resource_def sync_resource_def save_resource_def run_simps Let_def
     ex_resource_identity resource_outcome_def ex_lost_absent cong: bind_front case_front)

lemma ex_refund_noted:
  "Persist ex_refunding True \<in> set (snd (run_state (refundWorkspaceLaunch ex_lost_sv ex_fulfilling ''fabric_compute_and_storage_confirmed_absent'') log))"
  by (simp add: refundWorkspaceLaunch_def launch_user_def run_simps ex_mapped persistWorkspaceLaunch_def attempt_refund_def refund_launch_def
     ex_refunding_def [symmetric] settle_refund_def retryWorkspaceLaunchFulfillment_def finish_launch_def Let_def
     cong: bind_front case_front)

lemma ex_absent_compute:
  "Persist ex_refunding True \<in> set (snd (run_state (absent_compute ex_lost_sv ex_fulfilling) log))"
  by (simp add: absent_compute_def run_simps ex_refund_noted cong: bind_front case_front)

lemma ex_lost_step: "\<exists>e l. run_state (fulfill_step ex_lost_sv ex_fulfilling) log = (Inl e, l) \<and> Persist ex_refunding True \<in> set l"
proof -
  obtain l where 1: "run_state (fulfillWorkspaceLaunchResource ex_lost_sv ex_fulfilling ''compute'') log = (Ok Absent, l)"
    using ex_lost_outcome [of log] by (metis prod.collapse)
  obtain e l' where 2: "run_state (absent_compute ex_lost_sv ex_fulfilling) l = (e, l')" "Persist ex_refunding True \<in> set l'"
    using ex_absent_compute [of l] by (metis prod.collapse)
  from 1 2 show ?thesis
    by (simp add: fulfill_step_def resource_step_def stop_launch_def Let_def run_simps cong: bind_front case_front)
qed

lemma ex_lost_fulfils:
  "Persist ex_refunding True \<in> set (snd (run_state (fulfillWorkspaceLaunch ex_lost_sv (ex_leased_again\<lparr>lo_PersistedResult := ''stored''\<rparr>)) log))"
proof -
  have 1: "run_state (fulfill_step ex_lost_sv (ex_leased_again\<lparr>lo_PersistedResult := ''stored''\<rparr>)) log =
      (Inr ex_fulfilling, Persist ex_fulfilling True # log)"
    by (simp add: fulfill_step_def advance_launch_def persistWorkspaceLaunch_def run_simps ex_fulfilling_def [symmetric] Let_def
       cong: bind_front case_front)
  obtain e l where 2: "run_state (fulfill_step ex_lost_sv ex_fulfilling) (Persist ex_fulfilling True # log) = (Inl e, l)"
    "Persist ex_refunding True \<in> set l"
    using ex_lost_step by blast
  have rounds: "fulfill_rounds 10 sv op = fulfill_rounds (Suc (Suc 8)) sv op" for sv op
    by (simp add: numeral_eq_Suc)
  show ?thesis
    unfolding fulfillWorkspaceLaunch_def rounds fulfill_rounds.simps using 2 by (simp add: run_simps 1 cong: bind_front case_front)
qed

lemma ex_refunds: "Persist ex_refunding True \<in> calls_of (run_loaded ex_lost_sv ex_debited)"
proof -
  have "run_state (claim_launch ex_lost_sv ex_debited) [] = (Ok (ex_leased_again\<lparr>lo_PersistedResult := ''stored''\<rparr>),
      [Claim ex_leased_again True, Read ''now'', Read ''now''])"
    by (simp add: claim_launch_def run_simps Let_def stableID_def ex_leased_again_def cong: bind_front case_front)
  then show ?thesis
    by (simp add: calls_of_def run_loaded_def work_launch_def run_then ex_lost_fulfils cong: bind_front case_front)
qed

lemma ex_refund_life: "life reviewed ex_op ex_refunding"
  by (rule life.run [OF ex_life(2) _ ex_refunds]) (simp_all add: written_def resting_def terminalWorkspaceLaunchStatus_def ex_debited_def)

lemma refund_is_final_witness: "refunding ex_refunding \<and> calls_of (run_loaded ex_sv ex_refunding) \<subseteq> Collect (refund_call ex_op)"
  using refund_is_final [OF ex_refund_life] by (auto simp: ex_refunding_def note_refund_def)

end
