(* ===== verification/CP_Wallet_Types.thy ===== *)
theory CP_Wallet_Types
  imports CP_Launch_Admission
begin

text \<open>
  What an adjustment of a customer's wallet works with, after
  \<^verbatim>\<open>services/control-plane/internal/server/wallet_adjustment.go\<close>: requests, the operation, the
  messages of sub2api, and the calls with their answers. Times are kept as the texts the code writes.
\<close>

section \<open>Texts\<close>

definition is_lower :: "char \<Rightarrow> bool" where
  "is_lower c \<longleftrightarrow> 97 \<le> (of_char c :: nat) \<and> (of_char c :: nat) \<le> 122"

text \<open>Letters and digits stay, every run of other characters becomes one dash.\<close>

fun compact_from :: "bool \<Rightarrow> string \<Rightarrow> string" where
  "compact_from lastDash [] = []"
| "compact_from lastDash (c # s) =
     (if is_lower c \<or> is_digit c then c # compact_from False s
      else if lastDash then compact_from True s else CHR ''-'' # compact_from True s)"

definition trim_dashes :: "string \<Rightarrow> string" where
  "trim_dashes s = rev (dropWhile ((=) (CHR ''-'')) (rev (dropWhile ((=) (CHR ''-'')) s)))"

definition compactID :: "string \<Rightarrow> string" where
  "compactID value =
     (let r = trim_dashes (compact_from False (go_lower value));
          r = (if length r > 48 then trim_dashes (take 48 r) else r)
      in if r = [] then ''resource'' else r)"

definition validAccountID :: "string \<Rightarrow> bool" where
  "validAccountID value \<longleftrightarrow> 3 \<le> length value \<and> length value \<le> 48 \<and> value = compactID value"

definition validBillingReviewEvidenceRef :: "string \<Rightarrow> bool" where
  "validBillingReviewEvidenceRef value \<longleftrightarrow>
     take 5 value = ''case-'' \<and> length (take 8 (drop 5 value)) = 8 \<and> list_all is_digit (take 8 (drop 5 value)) \<and>
     take 1 (drop 13 value) = ''-'' \<and> 3 \<le> length (drop 14 value) \<and> length (drop 14 value) \<le> 16 \<and>
     list_all (\<lambda>c. is_lower c \<or> is_digit c) (drop 14 value)"

fun has_part :: "string \<Rightarrow> string \<Rightarrow> bool" where
  "has_part part [] = (part = [])"
| "has_part part (c # s) = (has_prefix (c # s) part \<or> has_part part s)"

definition validBillingReviewOpaqueID :: "string \<Rightarrow> bool" where
  "validBillingReviewOpaqueID value \<longleftrightarrow>
     3 \<le> length value \<and> length value \<le> 48 \<and> value = compactID value \<and>
     \<not> list_ex (\<lambda>part. has_part part (go_lower value))
         [''api-key'', ''apikey'', ''bearer'', ''credential'', ''password'', ''secret'', ''token'']"

definition normalizeEmail :: "string \<Rightarrow> string" where
  "normalizeEmail value = go_lower (trim_space value)"

text \<open>Runes of valid UTF-8, and the control characters among them.\<close>

definition rune_count :: "string \<Rightarrow> nat" where
  "rune_count s = length (filter (\<lambda>c. \<not> (128 \<le> (of_char c :: nat) \<and> (of_char c :: nat) < 192)) s)"

fun has_control :: "string \<Rightarrow> bool" where
  "has_control [] = False"
| "has_control (c # s) =
     ((of_char c :: nat) < 32 \<or> (of_char c :: nat) = 127 \<or>
      (of_char c :: nat) = 194 \<and> (case s of [] \<Rightarrow> False | d # _ \<Rightarrow> 128 \<le> (of_char d :: nat) \<and> (of_char d :: nat) < 160) \<or>
      has_control s)"

section \<open>Amounts\<close>

definition whole_part :: "string \<Rightarrow> string" where "whole_part s = takeWhile (\<lambda>c. c \<noteq> CHR ''.'') s"
definition decimal_part :: "string \<Rightarrow> string" where "decimal_part s = dropWhile (\<lambda>c. c \<noteq> CHR ''.'') s"

text \<open>No leading zero, at most seven digits before the point and one to six after it.\<close>

definition walletAmountPattern :: "string \<Rightarrow> bool" where
  "walletAmountPattern s \<longleftrightarrow>
     whole_part s \<noteq> [] \<and> list_all is_digit (whole_part s) \<and> length (whole_part s) \<le> 7 \<and>
     (whole_part s = ''0'' \<or> hd (whole_part s) \<noteq> CHR ''0'') \<and>
     (decimal_part s = [] \<or>
      list_all is_digit (tl (decimal_part s)) \<and> 1 \<le> length (tl (decimal_part s)) \<and> length (tl (decimal_part s)) \<le> 6)"

text \<open>The millionths of a decimal that matches the pattern.\<close>

definition decimalUSDMicros :: "string \<Rightarrow> int" where
  "decimalUSDMicros s =
     int (read_nat (whole_part s)) * 1000000 + int (read_nat (take 6 (tl (decimal_part s) @ replicate 6 (CHR ''0''))))"

definition zero_padded :: "nat \<Rightarrow> string \<Rightarrow> string" where
  "zero_padded n s = replicate (n - length s) (CHR ''0'') @ s"

definition formatWalletUSD :: "int \<Rightarrow> string" where
  "formatWalletUSD micros =
     (let decimal = rev (dropWhile ((=) (CHR ''0'')) (rev (zero_padded 6 (show_int (micros mod 1000000)))))
      in show_int (micros div 1000000) @ ''.'' @ decimal @ replicate (2 - length decimal) (CHR ''0''))"

section \<open>Requests and the operation\<close>

record wallet_request =
  wq_Kind :: string
  wq_AmountUSD :: string
  wq_Reason :: string
  wq_RelatedOperationID :: string
  wq_ConfirmationAccountID :: string

record wallet_recovery =
  wy_AccountID :: string
  wy_EvidenceRef :: string

record upstream_failure =
  uf_Phase :: string
  uf_HTTPStatus :: int
  uf_ErrorCode :: string
  uf_RequestID :: string

record wallet_operation =
  wo_RequestHash :: string
  wo_Phase :: string
  wo_AccountID :: string
  wo_Sub2APIUserID :: int
  wo_Kind :: string
  wo_AmountUSDMicros :: int
  wo_AmountUSD :: string
  wo_Reason :: string
  wo_RelatedOperationID :: string
  wo_ActorUserID :: string
  wo_CanonicalRedeemCode :: string
  wo_RedeemCodeVersion :: string
  wo_LegacySupersession :: string
  wo_AdjustmentAttempted :: bool
  wo_BeforeBalanceKnown :: bool
  wo_BeforeBalanceMicros :: int
  wo_BeforeBalanceReadAt :: string
  wo_AfterBalanceKnown :: bool
  wo_AfterBalanceMicros :: int
  wo_AfterBalanceReadAt :: string
  wo_BalanceHistoryRef :: string
  wo_BalanceHistoryUsedAt :: string
  wo_ReceiptID :: string
  wo_ErrorCode :: string
  wo_RecoveryRequestHash :: string
  wo_RecoveryAttempted :: bool
  wo_RecoveryEvidenceRef :: string
  wo_RecoveryActorUserID :: string
  wo_RecoveryAuthorizedAt :: string
  wo_UpstreamFailure :: "upstream_failure option"
  wo_CreatedAt :: string
  wo_UpdatedAt :: string
  wo_Status :: string

datatype wallet_error = WalletAccount | WalletConflict | WalletState | WalletUpstream | WalletIdempotency

section \<open>Messages of sub2api\<close>

text \<open>An error as the code looks at it: whether the outcome is unknown or a conflict, and the status,
  code and request it names, if it names any.\<close>

record sub2api_error =
  se_unknown :: bool
  se_conflict :: bool
  se_details :: "(int \<times> string \<times> string) option"

record wallet_balance =
  wb_UserID :: int
  wb_USDMicros :: int
  wb_Status :: string

record wallet_user =
  wu_Email :: string
  wu_Status :: string

text \<open>Times of an entry are the texts its times format to: in UTC for the use, as decoded for the
  creation.\<close>

record wallet_entry =
  we_Code :: string
  we_Type :: string
  we_ValueUSDMicros :: int
  we_Status :: string
  we_UsedBy :: "int option"
  we_UsedAt :: "string option"
  we_CreatedAt :: string

section \<open>Calls and their answers\<close>

datatype wallet_call =
    WRead string
  | WSave wallet_operation bool
  | WCharge charge_input
  | WRefund charge_input
  | WReceipt receipt_input
  | WAudit gomap bool

type_synonym wcalls = "wallet_call list"
type_synonym 'a wact = "(wallet_call, 'a) calling"

record wallet_services =
  ws_sha :: "string \<Rightarrow> string"
  ws_marshal :: "wallet_operation \<Rightarrow> string"
  ws_unmarshal :: "string \<Rightarrow> wallet_operation option"
  ws_unmarshalResult :: "string \<Rightarrow> gomap option"
  ws_now :: "wcalls \<Rightarrow> instant"
  ws_ListRuntimeOperations :: "wcalls \<Rightarrow> gomap list option"
  ws_ListAccounts :: "wcalls \<Rightarrow> string \<Rightarrow> gomap list option"
  ws_ListUsers :: "wcalls \<Rightarrow> gomap list option"
  ws_User :: "wcalls \<Rightarrow> int \<Rightarrow> wallet_user option"
  ws_Balance :: "wcalls \<Rightarrow> int \<Rightarrow> (sub2api_error, wallet_balance) res"
  ws_BalanceHistory :: "wcalls \<Rightarrow> int \<Rightarrow> (sub2api_error, wallet_entry list) res"
  ws_Charge :: "wcalls \<Rightarrow> charge_input \<Rightarrow> sub2api_error option"
  ws_Refund :: "wcalls \<Rightarrow> charge_input \<Rightarrow> sub2api_error option"
  ws_RecordReceipt :: "wcalls \<Rightarrow> receipt_input \<Rightarrow> string option"
  ws_SaveRuntimeOperation :: "wcalls \<Rightarrow> gomap \<Rightarrow> bool"
  ws_SaveAuditEvent :: "wcalls \<Rightarrow> gomap \<Rightarrow> bool"

definition wpeek :: "string \<Rightarrow> (wcalls \<Rightarrow> 'a) \<Rightarrow> 'a wact" where
  "wpeek what answer = ask answer (\<lambda>_. WRead what)"

text \<open>The request of an operator: the key, the user of the session, and what an audit event notes.\<close>

record operator_request =
  oq_idempotencyKey :: string
  oq_user :: "gomap option"
  oq_ip :: string
  oq_userAgent :: string

end
