(* ===== verification/CP_Wallet.thy ===== *)
theory CP_Wallet
  imports CP_Wallet_Types
begin

text \<open>
  The adjustment of a wallet: rows and their decoding, the run through its phases, the recovery of an
  adjustment under review, and the handlers, after
  \<^verbatim>\<open>services/control-plane/internal/server/wallet_adjustment.go\<close>.
\<close>

section \<open>Codes and rows\<close>

definition maxWalletAdjustmentUSDMicros :: int where "maxWalletAdjustmentUSDMicros = 1000000000000"

definition walletAdjustmentAction :: string where "walletAdjustmentAction = ''gateway.wallet_adjustment.v1''"

definition walletAdjustmentRedeemCode :: "(string \<Rightarrow> string) \<Rightarrow> string \<Rightarrow> string" where
  "walletAdjustmentRedeemCode sha operationID = ''opl:'' @ take 28 (stableID sha [''sub2api-wallet-adjustment-v2'', operationID])"

definition legacyWalletAdjustmentRedeemCode :: "(string \<Rightarrow> string) \<Rightarrow> string \<Rightarrow> string" where
  "legacyWalletAdjustmentRedeemCode sha operationID = ''opl:wallet-adjustment:'' @ take 24 (stableID sha [operationID]) @ '':v1''"

definition walletAdjustmentBalanceHistoryRef :: "(string \<Rightarrow> string) \<Rightarrow> int \<Rightarrow> wallet_entry \<Rightarrow> string" where
  "walletAdjustmentBalanceHistoryRef sha userID entry =
     ''sub2api:balance-history:'' @ show_int userID @ '':'' @ take 18 (stableID sha [we_Code entry, we_CreatedAt entry])"

text \<open>The identity of the second version of the code, and that of operations from before it.\<close>

definition v2_identity :: "(string \<Rightarrow> string) \<Rightarrow> string \<Rightarrow> wallet_operation \<Rightarrow> bool" where
  "v2_identity sha operationID op \<longleftrightarrow>
     wo_RedeemCodeVersion op = ''v2'' \<and> wo_CanonicalRedeemCode op = walletAdjustmentRedeemCode sha operationID"

definition decodeWalletAdjustment :: "wallet_services \<Rightarrow> gomap \<Rightarrow> wallet_operation option" where
  "decodeWalletAdjustment sv row =
     (if sfield row ''action'' \<noteq> walletAdjustmentAction then None
      else
        (case ws_unmarshal sv (sfield row ''result'') of
           None \<Rightarrow> None
         | Some parsed \<Rightarrow>
             (let op = parsed\<lparr>wo_Status := sfield row ''status''\<rparr>;
                  v2Identity = v2_identity (ws_sha sv) (sfield row ''id'') op;
                  super = wo_LegacySupersession op;
                  legacyReadOnly = (wo_RedeemCodeVersion op = [] \<and> wo_CanonicalRedeemCode op = [] \<and>
                    (wo_Status op = ''manual_review'' \<or> super = ''legacy_history_confirmed''))
              in if wo_RequestHash op = [] \<or> wo_AccountID op = [] \<or> wo_Sub2APIUserID op \<le> 0 \<or> wo_ActorUserID op = [] \<or>
                    wo_CreatedAt op = [] \<or> wo_UpdatedAt op = [] \<or> wo_AmountUSDMicros op \<le> 0 \<or>
                    wo_AmountUSDMicros op > maxWalletAdjustmentUSDMicros \<or> sfield row ''accountId'' \<noteq> wo_AccountID op \<or>
                    sfield row ''resourceId'' \<noteq> wo_AccountID op \<or> sfield row ''resourceKind'' \<noteq> ''gateway_wallet'' \<or>
                    wo_Status op = [] \<or> (\<not> v2Identity \<and> \<not> legacyReadOnly) \<or>
                    super \<notin> {[], ''legacy_history_confirmed'', ''v2_history_confirmed'', ''v2_adopted''} \<or>
                    (super = ''legacy_history_confirmed'' \<and> \<not> legacyReadOnly) \<or>
                    ((super = ''v2_history_confirmed'' \<or> super = ''v2_adopted'') \<and> \<not> v2Identity) \<or>
                    (super = ''v2_adopted'' \<and> \<not> wo_RecoveryAttempted op) \<or>
                    (wo_RecoveryRequestHash op \<noteq> [] \<and>
                     (wo_RecoveryEvidenceRef op = [] \<or> wo_RecoveryActorUserID op = [] \<or> wo_RecoveryAuthorizedAt op = []))
                 then None else Some op)))"

definition walletAdjustmentRow :: "wallet_services \<Rightarrow> string \<Rightarrow> wallet_operation \<Rightarrow> gomap" where
  "walletAdjustmentRow sv operationID op =
     [(''id'', GStr operationID), (''operationId'', GStr operationID), (''accountId'', GStr (wo_AccountID op)),
      (''resourceId'', GStr (wo_AccountID op)), (''resourceKind'', GStr ''gateway_wallet''), (''action'', GStr walletAdjustmentAction),
      (''status'', GStr (wo_Status op)), (''result'', GStr (ws_marshal sv op)), (''createdAt'', GStr (wo_CreatedAt op))]"

text \<open>The operation that was found, if any; an empty hash matches every operation.\<close>

definition walletAdjustment :: "wallet_services \<Rightarrow> string \<Rightarrow> string \<Rightarrow> (wallet_error, wallet_operation option) res wact" where
  "walletAdjustment sv operationID requestHash =
     (if operationID = [] then ret (Ok None)
      else
        do { rows \<leftarrow> wpeek ''ListRuntimeOperations'' (ws_ListRuntimeOperations sv);
             ret (case rows of
                    None \<Rightarrow> Err WalletState
                  | Some rs \<Rightarrow>
                      (case findRecord rs operationID of
                         None \<Rightarrow> Ok None
                       | Some row \<Rightarrow>
                           (case decodeWalletAdjustment sv row of
                              None \<Rightarrow> Err WalletState
                            | Some op \<Rightarrow>
                                if requestHash \<noteq> [] \<and> wo_RequestHash op \<noteq> requestHash then Err WalletIdempotency else Ok (Some op)))) })"

text \<open>A new operation under no code gets its code; the operation comes back as it was written,
  with whether the table took it.\<close>

definition assign_code :: "(string \<Rightarrow> string) \<Rightarrow> string \<Rightarrow> wallet_operation \<Rightarrow> wallet_operation" where
  "assign_code sha operationID op =
     (if wo_Status op = ''pending'' \<and> wo_CanonicalRedeemCode op = [] \<and> wo_RedeemCodeVersion op = [] \<and>
         wo_LegacySupersession op = [] \<and> wo_RecoveryRequestHash op = []
      then op\<lparr>wo_CanonicalRedeemCode := walletAdjustmentRedeemCode sha operationID, wo_RedeemCodeVersion := ''v2''\<rparr> else op)"

definition now_text :: "wallet_services \<Rightarrow> string wact" where
  "now_text sv = do { now \<leftarrow> wpeek ''now'' (ws_now sv); ret (format_rfc3339nano now) }"

definition persistWalletAdjustment :: "wallet_services \<Rightarrow> string \<Rightarrow> wallet_operation \<Rightarrow> (bool \<times> wallet_operation) wact" where
  "persistWalletAdjustment sv operationID op =
     do { now \<leftarrow> now_text sv;
          let op' = (assign_code (ws_sha sv) operationID op)\<lparr>wo_UpdatedAt := now\<rparr>;
          saved \<leftarrow> ask (\<lambda>log. ws_SaveRuntimeOperation sv log (walletAdjustmentRow sv operationID op')) (WSave op');
          ret (saved, op') }"

section \<open>Balance and history\<close>

definition recordWalletAdjustmentUpstreamFailure ::
    "string \<Rightarrow> sub2api_error option \<Rightarrow> string \<Rightarrow> wallet_operation \<Rightarrow> wallet_operation" where
  "recordWalletAdjustmentUpstreamFailure phase err fallbackCode op =
     (case (case err of None \<Rightarrow> None | Some e \<Rightarrow> se_details e) of
        None \<Rightarrow>
          (if wo_UpstreamFailure op \<noteq> None then op
           else op\<lparr>wo_UpstreamFailure := Some \<lparr>uf_Phase = phase, uf_HTTPStatus = 0, uf_ErrorCode = fallbackCode, uf_RequestID = []\<rparr>\<rparr>)
      | Some (status, code, requestID) \<Rightarrow>
          op\<lparr>wo_UpstreamFailure := Some \<lparr>uf_Phase = phase, uf_HTTPStatus = status,
               uf_ErrorCode = (if code = [] then fallbackCode else code), uf_RequestID = requestID\<rparr>\<rparr>)"

datatype history_state = HistoryAbsent | HistoryConfirmed wallet_entry | HistoryConflict

definition signed_amount :: "wallet_operation \<Rightarrow> int" where
  "signed_amount op = (if wo_Kind op = ''debit'' then - wo_AmountUSDMicros op else wo_AmountUSDMicros op)"

definition inspectWalletAdjustmentHistory :: "wallet_entry list \<Rightarrow> string \<Rightarrow> wallet_operation \<Rightarrow> history_state" where
  "inspectWalletAdjustmentHistory history code op =
     (case filter (\<lambda>e. we_Code e = code) history of
        [] \<Rightarrow> HistoryAbsent
      | [e] \<Rightarrow>
          if we_Type e \<noteq> ''balance'' \<or> we_Status e \<noteq> ''used'' \<or> we_UsedBy e \<noteq> Some (wo_Sub2APIUserID op) \<or> we_UsedAt e = None \<or>
             we_ValueUSDMicros e \<noteq> signed_amount op
          then HistoryConflict else HistoryConfirmed e
      | _ \<Rightarrow> HistoryConflict)"

definition note_history :: "(string \<Rightarrow> string) \<Rightarrow> wallet_entry \<Rightarrow> wallet_operation \<Rightarrow> wallet_operation" where
  "note_history sha e op =
     op\<lparr>wo_BalanceHistoryUsedAt := (case we_UsedAt e of None \<Rightarrow> [] | Some t \<Rightarrow> t),
        wo_BalanceHistoryRef := walletAdjustmentBalanceHistoryRef sha (wo_Sub2APIUserID op) e\<rparr>"

definition balance_usable :: "wallet_operation \<Rightarrow> wallet_balance \<Rightarrow> bool" where
  "balance_usable op b \<longleftrightarrow> wb_UserID b = wo_Sub2APIUserID op \<and> wb_Status b = ''active''"

section \<open>Audit and receipt\<close>

definition walletBalanceEnvelope :: "bool \<Rightarrow> int \<Rightarrow> string \<Rightarrow> gomap" where
  "walletBalanceEnvelope known micros fetchedAt =
     [(''source'', GStr ''sub2api''), (''status'', GStr (if known then ''available'' else ''unavailable'')), (''available'', GBool known),
      (''fetchedAt'', GStr fetchedAt)] @
     (if known then [(''data'', GObj [(''currency'', GStr ''USD''), (''usdMicros'', GInt micros)])] else [])"

text \<open>An audit event with the identifier and the time its caller gives it.\<close>

definition audit_event :: "operator_request \<Rightarrow> string \<Rightarrow> string \<Rightarrow> string \<Rightarrow> string \<Rightarrow> string \<Rightarrow> gov \<Rightarrow> gov \<Rightarrow> string \<Rightarrow> string \<Rightarrow> gomap" where
  "audit_event r eventID action resourceKind resourceID targetAccountID before after result createdAt =
     (let user = opt_map (oq_user r)
      in [(''id'', GStr eventID), (''actorUserId'', GStr (sfield user ''id'')), (''actorRole'', GStr (sfield user ''role'')),
          (''actorAccountId'', GStr (sfield user ''accountId'')), (''targetAccountId'', GStr targetAccountID), (''action'', GStr action),
          (''resourceKind'', GStr resourceKind), (''resourceId'', GStr resourceID), (''ipAddress'', GStr (oq_ip r)),
          (''userAgent'', GStr (oq_userAgent r)), (''before'', before), (''after'', after), (''result'', GStr result),
          (''createdAt'', GStr createdAt)])"

text \<open>\<^verbatim>\<open>time.RFC3339\<close>: whole seconds.\<close>

definition format_rfc3339 :: "instant \<Rightarrow> string" where
  "format_rfc3339 t = format_rfc3339nano (t div ns_per_sec * ns_per_sec)"

definition save_audit :: "wallet_services \<Rightarrow> gomap \<Rightarrow> bool wact" where
  "save_audit sv event = ask (\<lambda>log. ws_SaveAuditEvent sv log event) (WAudit event)"

definition wallet_audit_event :: "wallet_services \<Rightarrow> operator_request \<Rightarrow> string \<Rightarrow> wallet_operation \<Rightarrow> string \<Rightarrow> gomap" where
  "wallet_audit_event sv r operationID op result =
     audit_event r (''audit-'' @ take 12 (stableID (ws_sha sv) [''gateway.wallet_adjustment'', operationID]))
       ''gateway.wallet_adjustment'' ''gateway_wallet'' (wo_AccountID op) (wo_AccountID op)
       (GObj [(''balance'', GObj (walletBalanceEnvelope (wo_BeforeBalanceKnown op) (wo_BeforeBalanceMicros op) (wo_BeforeBalanceReadAt op)))])
       (GObj ([(''kind'', GStr (wo_Kind op)), (''amountUsd'', GStr (wo_AmountUSD op)), (''reason'', GStr (wo_Reason op)),
               (''status'', GStr result),
               (''balance'', GObj (walletBalanceEnvelope (wo_AfterBalanceKnown op) (wo_AfterBalanceMicros op) (wo_AfterBalanceReadAt op)))] @
              (if wo_RelatedOperationID op \<noteq> [] then [(''relatedOperationId'', GStr (wo_RelatedOperationID op))] else []) @
              (if wo_BalanceHistoryRef op \<noteq> [] then [(''balanceHistoryRef'', GStr (wo_BalanceHistoryRef op))] else [])))
       result (wo_UpdatedAt op)"

definition saveWalletAdjustmentAudit :: "wallet_services \<Rightarrow> operator_request \<Rightarrow> string \<Rightarrow> wallet_operation \<Rightarrow> string \<Rightarrow> bool wact" where
  "saveWalletAdjustmentAudit sv r operationID op result = save_audit sv (wallet_audit_event sv r operationID op result)"

definition walletAdjustmentReceipt :: "string \<Rightarrow> wallet_operation \<Rightarrow> receipt_input" where
  "walletAdjustmentReceipt operationID op =
     \<lparr>ri_type = walletAdjustmentAction, ri_status = ''completed'', ri_surface = ''control_plane'', ri_accountId = wo_AccountID op,
      ri_organizationId = [], ri_workspaceId = [], ri_projectId = [], ri_taskId = [], ri_requestId = operationID,
      ri_approvalId = [], ri_jobId = [], ri_artifactId = [], ri_reviewId = [], ri_continuationId = [],
      ri_actor = Some [(''userId'', GStr (wo_ActorUserID op))], ri_plan = None,
      ri_execution = Some [(''operationId'', GStr operationID), (''kind'', GStr (wo_Kind op)),
                           (''amountUsdMicros'', GInt (wo_AmountUSDMicros op))],
      ri_environment = None,
      ri_inputRefs = Some ([(''balanceHistoryRef'', GStr (wo_BalanceHistoryRef op))] @
        (if wo_RelatedOperationID op \<noteq> [] then [(''relatedOperationId'', GStr (wo_RelatedOperationID op))] else [])),
      ri_outputRefs = None, ri_reviewerChecks = None, ri_cost = None,
      ri_owner = Some [(''accountId'', GStr (wo_AccountID op))], ri_continuation = None, ri_supersedesReceiptId = [],
      ri_idempotencyKey = operationID @ '':ledger''\<rparr>"

end
