(* ===== verification/CP_Wallet_Run.thy ===== *)
theory CP_Wallet_Run
  imports CP_Wallet
begin

text \<open>
  The run of a wallet adjustment, one definition per phase, the recovery of an adjustment under
  review, the limit of refunds, and the three handlers of
  \<^verbatim>\<open>services/control-plane/internal/server/wallet_adjustment.go\<close>.
\<close>

section \<open>Phases\<close>

text \<open>A phase ends the run (\<open>Inl\<close>, with the operation and the error) or goes on with the
  operation.\<close>

type_synonym wallet_end = "wallet_operation \<times> wallet_error option"

definition save_phase :: "wallet_services \<Rightarrow> string \<Rightarrow> wallet_operation \<Rightarrow> (wallet_end, wallet_operation) res wact" where
  "save_phase sv operationID op =
     do { (saved, op') \<leftarrow> persistWalletAdjustment sv operationID op;
          ret (if saved then Inr op' else Inl (op', Some WalletState)) }"

definition save_end :: "wallet_services \<Rightarrow> string \<Rightarrow> wallet_operation \<Rightarrow> wallet_error option \<Rightarrow> (wallet_end, wallet_operation) res wact" where
  "save_end sv operationID op e =
     do { (saved, op') \<leftarrow> persistWalletAdjustment sv operationID op;
          ret (Inl (op', if saved then e else Some WalletState)) }"

definition manualReviewWalletAdjustment ::
    "wallet_services \<Rightarrow> operator_request \<Rightarrow> string \<Rightarrow> wallet_operation \<Rightarrow> string \<Rightarrow> (wallet_end, wallet_operation) res wact" where
  "manualReviewWalletAdjustment sv r operationID op errorCode =
     do { noted \<leftarrow> (if wo_Phase op \<noteq> ''manual_review_audit''
                   then save_phase sv operationID (op\<lparr>wo_Status := ''pending'', wo_Phase := ''manual_review_audit'', wo_ErrorCode := errorCode\<rparr>)
                   else ret (Inr op));
          case noted of
            Inl stopped \<Rightarrow> ret (Inl stopped)
          | Inr op' \<Rightarrow>
              do { audited \<leftarrow> saveWalletAdjustmentAudit sv r operationID op' ''manual_review'';
                   if \<not> audited then ret (Inl (op', Some WalletState))
                   else save_end sv operationID (op'\<lparr>wo_Status := ''manual_review'', wo_Phase := ''authoritative_readback''\<rparr>) None } }"

definition before_balance_failed ::
    "wallet_services \<Rightarrow> string \<Rightarrow> wallet_operation \<Rightarrow> sub2api_error option \<Rightarrow> (wallet_end, wallet_operation) res wact" where
  "before_balance_failed sv operationID op err =
     save_end sv operationID (recordWalletAdjustmentUpstreamFailure ''before_balance'' err ''balance_readback_unavailable'' op) (Some WalletUpstream)"

text \<open>A debit needs the money, and a credit must stay within 64 bits.\<close>

definition amount_fits :: "wallet_operation \<Rightarrow> int \<Rightarrow> bool" where
  "amount_fits op balance \<longleftrightarrow>
     (if wo_Kind op = ''debit'' then wo_AmountUSDMicros op \<le> balance else balance \<le> max_int64 - wo_AmountUSDMicros op)"

definition before_balance_phase :: "wallet_services \<Rightarrow> string \<Rightarrow> wallet_operation \<Rightarrow> (wallet_end, wallet_operation) res wact" where
  "before_balance_phase sv operationID op =
     do { answer \<leftarrow> wpeek ''Balance'' (\<lambda>log. ws_Balance sv log (wo_Sub2APIUserID op));
          case answer of
            Inl e \<Rightarrow> before_balance_failed sv operationID op (Some e)
          | Inr b \<Rightarrow>
              if \<not> balance_usable op b \<or> wb_USDMicros b < 0 then before_balance_failed sv operationID op None
              else
                do { now \<leftarrow> now_text sv;
                     let op' = op\<lparr>wo_BeforeBalanceKnown := True, wo_BeforeBalanceMicros := wb_USDMicros b, wo_BeforeBalanceReadAt := now\<rparr>;
                     if \<not> amount_fits op (wb_USDMicros b) then
                       save_end sv operationID
                         (op'\<lparr>wo_Status := ''failed'', wo_Phase := ''complete'', wo_ErrorCode := ''wallet_adjustment_conflict''\<rparr>) (Some WalletConflict)
                     else save_phase sv operationID (op'\<lparr>wo_Phase := ''adjustment''\<rparr>) } }"

definition wallet_charge_input :: "wallet_operation \<Rightarrow> charge_input" where
  "wallet_charge_input op =
     \<lparr>ci_UserID = wo_Sub2APIUserID op, ci_Code = wo_CanonicalRedeemCode op, ci_USDMicros = wo_AmountUSDMicros op, ci_Notes = wo_Reason op\<rparr>"

definition adjust_wallet :: "wallet_services \<Rightarrow> wallet_operation \<Rightarrow> sub2api_error option wact" where
  "adjust_wallet sv op =
     (let input = wallet_charge_input op
      in if wo_Kind op = ''debit'' then ask (\<lambda>log. ws_Charge sv log input) (\<lambda>_. WCharge input)
         else ask (\<lambda>log. ws_Refund sv log input) (\<lambda>_. WRefund input))"

text \<open>The attempt is written before the money moves; an attempt that was made is not made again.\<close>

definition adjustment_phase ::
    "wallet_services \<Rightarrow> operator_request \<Rightarrow> string \<Rightarrow> wallet_operation \<Rightarrow> (wallet_end, wallet_operation) res wact" where
  "adjustment_phase sv r operationID op =
     (if \<not> v2_identity (ws_sha sv) operationID op then ret (Inl (op, Some WalletState))
      else if wo_AdjustmentAttempted op then ret (Inr (op\<lparr>wo_Phase := ''authoritative_readback''\<rparr>))
      else
        do { noted \<leftarrow> save_phase sv operationID (op\<lparr>wo_AdjustmentAttempted := True, wo_Phase := ''authoritative_readback''\<rparr>);
             case noted of
               Inl stopped \<Rightarrow> ret (Inl stopped)
             | Inr op' \<Rightarrow>
                 do { failed \<leftarrow> adjust_wallet sv op';
                      case failed of
                        None \<Rightarrow> ret (Inr op')
                      | Some e \<Rightarrow>
                          (let op2 = recordWalletAdjustmentUpstreamFailure ''adjustment'' (Some e) ''adjustment_unconfirmed'' op'
                           in if \<not> se_unknown e \<and> \<not> se_conflict e
                              then manualReviewWalletAdjustment sv r operationID op2 ''adjustment_unconfirmed'' else ret (Inr op2)) } })"

definition readback_phase ::
    "wallet_services \<Rightarrow> operator_request \<Rightarrow> string \<Rightarrow> wallet_operation \<Rightarrow> (wallet_end, wallet_operation) res wact" where
  "readback_phase sv r operationID op =
     (if \<not> v2_identity (ws_sha sv) operationID op then ret (Inl (op, Some WalletState))
      else
        do { answer \<leftarrow> wpeek ''BalanceHistory'' (\<lambda>log. ws_BalanceHistory sv log (wo_Sub2APIUserID op));
             let found = (case answer of Inl _ \<Rightarrow> HistoryAbsent | Inr h \<Rightarrow> inspectWalletAdjustmentHistory h (wo_CanonicalRedeemCode op) op);
             let err = (case answer of Inl e \<Rightarrow> Some e | Inr _ \<Rightarrow> None);
             case found of
               HistoryConfirmed e \<Rightarrow> save_phase sv operationID ((note_history (ws_sha sv) e op)\<lparr>wo_Phase := ''after_balance''\<rparr>)
             | _ \<Rightarrow> manualReviewWalletAdjustment sv r operationID
                     (recordWalletAdjustmentUpstreamFailure ''authoritative_readback'' err ''balance_history_unavailable'' op)
                     ''authoritative_readback_unavailable'' })"

text \<open>The balance must have moved by exactly the amount; the sum wraps around in 64 bits.\<close>

definition after_balance_phase ::
    "wallet_services \<Rightarrow> operator_request \<Rightarrow> string \<Rightarrow> wallet_operation \<Rightarrow> (wallet_end, wallet_operation) res wact" where
  "after_balance_phase sv r operationID op =
     do { answer \<leftarrow> wpeek ''Balance'' (\<lambda>log. ws_Balance sv log (wo_Sub2APIUserID op));
          let expected = wrap64 (wo_BeforeBalanceMicros op + signed_amount op);
          let review = (\<lambda>err. manualReviewWalletAdjustment sv r operationID
                (recordWalletAdjustmentUpstreamFailure ''after_balance'' err ''balance_readback_mismatch'' op) ''balance_readback_mismatch'');
          case answer of
            Inl e \<Rightarrow> review (Some e)
          | Inr b \<Rightarrow>
              if \<not> balance_usable op b \<or> wb_USDMicros b \<noteq> expected then review None
              else
                do { now \<leftarrow> now_text sv;
                     save_phase sv operationID (op\<lparr>wo_AfterBalanceKnown := True, wo_AfterBalanceMicros := wb_USDMicros b,
                       wo_AfterBalanceReadAt := now, wo_Phase := ''ledger''\<rparr>) } }"

definition ledger_phase :: "wallet_services \<Rightarrow> string \<Rightarrow> wallet_operation \<Rightarrow> (wallet_end, wallet_operation) res wact" where
  "ledger_phase sv operationID op =
     do { receipt \<leftarrow> ask (\<lambda>log. ws_RecordReceipt sv log (walletAdjustmentReceipt operationID op)) (\<lambda>_. WReceipt (walletAdjustmentReceipt operationID op));
          case receipt of
            None \<Rightarrow> ret (Inl (op, Some WalletUpstream))
          | Some rid \<Rightarrow>
              if rid = [] then ret (Inl (op, Some WalletUpstream))
              else save_phase sv operationID (op\<lparr>wo_ReceiptID := rid, wo_Phase := ''audit''\<rparr>) }"

definition audit_phase ::
    "wallet_services \<Rightarrow> operator_request \<Rightarrow> string \<Rightarrow> wallet_operation \<Rightarrow> (wallet_end, wallet_operation) res wact" where
  "audit_phase sv r operationID op =
     do { audited \<leftarrow> saveWalletAdjustmentAudit sv r operationID op ''succeeded'';
          if \<not> audited then ret (Inl (op, Some WalletState))
          else save_phase sv operationID (op\<lparr>wo_Status := ''succeeded'', wo_Phase := ''complete'', wo_ErrorCode := []\<rparr>) }"

definition wallet_phase ::
    "wallet_services \<Rightarrow> operator_request \<Rightarrow> string \<Rightarrow> wallet_operation \<Rightarrow> (wallet_end, wallet_operation) res wact" where
  "wallet_phase sv r operationID op =
     (let phase = wo_Phase op
      in if phase = ''before_balance'' then before_balance_phase sv operationID op
         else if phase = ''adjustment'' then adjustment_phase sv r operationID op
         else if phase = ''authoritative_readback'' then readback_phase sv r operationID op
         else if phase = ''after_balance'' then after_balance_phase sv r operationID op
         else if phase = ''ledger'' then ledger_phase sv operationID op
         else if phase = ''audit'' then audit_phase sv r operationID op
         else if phase = ''manual_review_audit'' then manualReviewWalletAdjustment sv r operationID op (wo_ErrorCode op)
         else if phase = ''complete'' then ret (Inl (op, None))
         else ret (Inl (op, Some WalletState)))"

text \<open>The loop \<^verbatim>\<open>for range 8\<close>: the first argument counts the rounds that are left.\<close>

fun wallet_rounds :: "nat \<Rightarrow> wallet_services \<Rightarrow> operator_request \<Rightarrow> string \<Rightarrow> wallet_operation \<Rightarrow> wallet_end wact" where
  "wallet_rounds 0 sv r operationID op = ret (op, Some WalletState)"
| "wallet_rounds (Suc n) sv r operationID op =
     do { step \<leftarrow> wallet_phase sv r operationID op;
          case step of Inl stopped \<Rightarrow> ret stopped | Inr op' \<Rightarrow> wallet_rounds n sv r operationID op' }"

definition runWalletAdjustment :: "wallet_services \<Rightarrow> operator_request \<Rightarrow> string \<Rightarrow> wallet_operation \<Rightarrow> wallet_end wact" where
  "runWalletAdjustment sv r operationID op = wallet_rounds 8 sv r operationID op"

section \<open>Recovery\<close>

definition end_recovery :: "wallet_services \<Rightarrow> string \<Rightarrow> wallet_operation \<Rightarrow> wallet_error option \<Rightarrow> wallet_end wact" where
  "end_recovery sv operationID op e =
     do { (saved, op') \<leftarrow> persistWalletAdjustment sv operationID op; ret (op', if saved then e else Some WalletState) }"

definition legacy_identity :: "wallet_operation \<Rightarrow> bool" where
  "legacy_identity op \<longleftrightarrow> wo_CanonicalRedeemCode op = [] \<and> wo_RedeemCodeVersion op = [] \<and> wo_LegacySupersession op = []"

definition recovery_eligible :: "(string \<Rightarrow> string) \<Rightarrow> string \<Rightarrow> wallet_operation \<Rightarrow> bool" where
  "recovery_eligible sha operationID op \<longleftrightarrow>
     (legacy_identity op \<or> v2_identity sha operationID op \<and> wo_LegacySupersession op = []) \<and>
     length (legacyWalletAdjustmentRedeemCode sha operationID) > 32 \<and> wo_AdjustmentAttempted op \<and> wo_BeforeBalanceKnown op \<and>
     \<not> wo_RecoveryAttempted op \<and> wo_ReceiptID op = [] \<and> wo_BalanceHistoryRef op = [] \<and> wo_BalanceHistoryUsedAt op = []"

text \<open>One more attempt: only when the balance is what it was before the first one.\<close>

definition retry_recovery :: "wallet_services \<Rightarrow> string \<Rightarrow> wallet_operation \<Rightarrow> wallet_end wact" where
  "retry_recovery sv operationID op =
     (if \<not> recovery_eligible (ws_sha sv) operationID op then
        end_recovery sv operationID (op\<lparr>wo_ErrorCode := ''wallet_adjustment_recovery_exhausted''\<rparr>) (Some WalletConflict)
      else
        do { answer \<leftarrow> wpeek ''Balance'' (\<lambda>log. ws_Balance sv log (wo_Sub2APIUserID op));
             case answer of
               Inl e \<Rightarrow> end_recovery sv operationID
                 ((recordWalletAdjustmentUpstreamFailure ''recovery_balance'' (Some e) ''balance_readback_unavailable'' op)
                   \<lparr>wo_ErrorCode := ''wallet_adjustment_recovery_balance_unavailable''\<rparr>) None
             | Inr b \<Rightarrow>
                 if \<not> balance_usable op b \<or> wb_USDMicros b \<noteq> wo_BeforeBalanceMicros op then
                   end_recovery sv operationID (op\<lparr>wo_ErrorCode := ''wallet_adjustment_recovery_balance_changed''\<rparr>) (Some WalletConflict)
                 else
                   (let op' = (if legacy_identity op
                               then op\<lparr>wo_CanonicalRedeemCode := walletAdjustmentRedeemCode (ws_sha sv) operationID,
                                       wo_RedeemCodeVersion := ''v2'', wo_LegacySupersession := ''v2_adopted''\<rparr> else op)
                    in end_recovery sv operationID (op'\<lparr>wo_RecoveryAttempted := True, wo_AdjustmentAttempted := False,
                         wo_Status := ''pending'', wo_Phase := ''adjustment''\<rparr>) None) })"

text \<open>What the history says under both codes decides how the adjustment goes on.\<close>

definition adopt_history :: "wallet_services \<Rightarrow> string \<Rightarrow> wallet_operation \<Rightarrow> wallet_entry \<Rightarrow> wallet_end wact" where
  "adopt_history sv operationID op e =
     end_recovery sv operationID ((note_history (ws_sha sv) e op)\<lparr>wo_Status := ''pending'', wo_Phase := ''after_balance''\<rparr>) None"

definition recover_by_history :: "wallet_services \<Rightarrow> string \<Rightarrow> wallet_operation \<Rightarrow> wallet_entry list \<Rightarrow> wallet_end wact" where
  "recover_by_history sv operationID op history =
     (let v2Code = walletAdjustmentRedeemCode (ws_sha sv) operationID;
          legacy = inspectWalletAdjustmentHistory history (legacyWalletAdjustmentRedeemCode (ws_sha sv) operationID) op;
          v2 = inspectWalletAdjustmentHistory history v2Code op;
          confirmed = (\<lambda>h. case h of HistoryConfirmed _ \<Rightarrow> True | _ \<Rightarrow> False)
      in if legacy = HistoryConflict \<or> v2 = HistoryConflict \<or> (confirmed legacy \<and> confirmed v2) \<or>
            (confirmed legacy \<and> wo_CanonicalRedeemCode op \<noteq> []) \<or> ((confirmed legacy \<or> confirmed v2) \<and> \<not> wo_BeforeBalanceKnown op)
         then end_recovery sv operationID (op\<lparr>wo_ErrorCode := ''wallet_adjustment_recovery_history_conflict''\<rparr>) (Some WalletConflict)
         else
           (let op = op\<lparr>wo_ErrorCode := []\<rparr>
            in case legacy of
                 HistoryConfirmed e \<Rightarrow> adopt_history sv operationID (op\<lparr>wo_LegacySupersession := ''legacy_history_confirmed''\<rparr>) e
               | _ \<Rightarrow>
                   (case v2 of
                      HistoryConfirmed e \<Rightarrow>
                        (let wasLegacy = (wo_CanonicalRedeemCode op = [] \<and> wo_RedeemCodeVersion op = []);
                             op = op\<lparr>wo_CanonicalRedeemCode := v2Code, wo_RedeemCodeVersion := ''v2''\<rparr>
                         in adopt_history sv operationID
                              (if wasLegacy then op\<lparr>wo_LegacySupersession := ''v2_history_confirmed''\<rparr> else op) e)
                    | _ \<Rightarrow> retry_recovery sv operationID op)))"

definition recovery_readback :: "wallet_services \<Rightarrow> string \<Rightarrow> wallet_operation \<Rightarrow> wallet_end wact" where
  "recovery_readback sv operationID op =
     (if wo_ErrorCode op = ''wallet_adjustment_recovery_history_conflict'' \<or> wo_ErrorCode op = ''wallet_adjustment_recovery_balance_changed''
      then ret (op, Some WalletConflict)
      else
        do { answer \<leftarrow> wpeek ''BalanceHistory'' (\<lambda>log. ws_BalanceHistory sv log (wo_Sub2APIUserID op));
             case answer of
               Inl e \<Rightarrow> end_recovery sv operationID
                 ((recordWalletAdjustmentUpstreamFailure ''recovery_readback'' (Some e) ''balance_history_unavailable'' op)
                   \<lparr>wo_ErrorCode := ''wallet_adjustment_recovery_readback_unavailable''\<rparr>) None
             | Inr history \<Rightarrow> recover_by_history sv operationID op history })"

definition prepareWalletAdjustmentRecovery ::
    "wallet_services \<Rightarrow> string \<Rightarrow> wallet_operation \<Rightarrow> string \<Rightarrow> string \<Rightarrow> string \<Rightarrow> wallet_end wact" where
  "prepareWalletAdjustmentRecovery sv operationID op requestHash evidenceRef actorID =
     (if wo_RecoveryRequestHash op \<noteq> [] \<and> wo_RecoveryRequestHash op \<noteq> requestHash then ret (op, Some WalletConflict)
      else if wo_RecoveryRequestHash op = [] then
        do { now \<leftarrow> now_text sv;
             noted \<leftarrow> save_phase sv operationID (op\<lparr>wo_RecoveryRequestHash := requestHash, wo_RecoveryEvidenceRef := evidenceRef,
               wo_RecoveryActorUserID := actorID, wo_RecoveryAuthorizedAt := now\<rparr>);
             case noted of Inl stopped \<Rightarrow> ret stopped | Inr op' \<Rightarrow> recovery_readback sv operationID op' }
      else recovery_readback sv operationID op)"

end
