(* ===== verification/CP_Wallet_Routes.thy ===== *)
theory CP_Wallet_Routes
  imports CP_Wallet_Run
begin

text \<open>
  The handlers of wallet adjustments: creating one, reading it and recovering it, after
  \<^verbatim>\<open>services/control-plane/internal/server/wallet_adjustment.go\<close>. The decoded body is an
  argument, \<open>None\<close> when it does not decode.
\<close>

section \<open>What may be asked for\<close>

definition walletRelatedOperationPattern :: "string \<Rightarrow> bool" where
  "walletRelatedOperationPattern s \<longleftrightarrow>
     (let alnum = (\<lambda>c. is_digit c \<or> is_lower c \<or> is_lower (lower_byte c))
      in s \<noteq> [] \<and> alnum (hd s) \<and> length s \<le> 200 \<and> list_all (\<lambda>c. alnum c \<or> c \<in> set ''._:-'') (tl s))"

definition validWalletAdjustmentRequest :: "wallet_request \<Rightarrow> string \<Rightarrow> string \<Rightarrow> int option" where
  "validWalletAdjustmentRequest input accountID key =
     (let reason = trim_space (wq_Reason input); related = trim_space (wq_RelatedOperationID input);
          amount = decimalUSDMicros (wq_AmountUSD input)
      in if \<not> validAccountID accountID \<or> wq_ConfirmationAccountID input \<noteq> accountID \<or> trim_space key \<noteq> key \<or> length key > 200 \<or>
            wq_Kind input \<notin> {''recharge'', ''debit'', ''business_refund''} \<or> wq_AmountUSD input \<noteq> trim_space (wq_AmountUSD input) \<or>
            \<not> walletAmountPattern (wq_AmountUSD input) \<or> reason = [] \<or> reason \<noteq> wq_Reason input \<or> rune_count reason > 200 \<or>
            has_control reason then None
         else if (if wq_Kind input = ''business_refund''
                  then related = [] \<or> related \<noteq> wq_RelatedOperationID input \<or> \<not> walletRelatedOperationPattern related
                  else related \<noteq> []) then None
         else if 0 < amount \<and> amount \<le> maxWalletAdjustmentUSDMicros then Some amount else None)"

text \<open>The account must be active, its owner active, and the same person at sub2api.\<close>

definition walletAdjustmentAccount :: "wallet_services \<Rightarrow> string \<Rightarrow> (wallet_error, gomap \<times> int) res wact" where
  "walletAdjustmentAccount sv accountID =
     do { accounts \<leftarrow> wpeek ''ListAccounts'' (\<lambda>log. ws_ListAccounts sv log accountID);
          case accounts of
            None \<Rightarrow> ret (Err WalletState)
          | Some rows \<Rightarrow>
              (case (findRecord rows accountID, positiveIntegerField (opt_map (findRecord rows accountID)) ''sub2apiUserId'') of
                 (Some account, Some remoteUserID) \<Rightarrow>
                   if sfield account ''status'' \<noteq> ''active'' then ret (Err WalletAccount)
                   else
                     do { users \<leftarrow> wpeek ''ListUsers'' (ws_ListUsers sv);
                          case users of
                            None \<Rightarrow> ret (Err WalletState)
                          | Some us \<Rightarrow>
                              (let owner = opt_map (findRecord us (sfield account ''ownerUserId''))
                               in if \<not> ownsActiveAccount (Some account) owner then ret (Err WalletAccount)
                                  else
                                    do { remote \<leftarrow> wpeek ''User'' (\<lambda>log. ws_User sv log remoteUserID);
                                         ret (case remote of
                                                None \<Rightarrow> Err WalletUpstream
                                              | Some u \<Rightarrow>
                                                  if wu_Status u \<noteq> ''active'' \<or>
                                                     normalizeEmail (wu_Email u) \<noteq> normalizeEmail (sfield owner ''email'')
                                                  then Err WalletAccount else Ok (account, remoteUserID)) }) }
               | _ \<Rightarrow> ret (Err WalletAccount)) }"

section \<open>The limit of refunds\<close>

definition refundableWalletOperationAmount :: "wallet_services \<Rightarrow> gomap \<Rightarrow> int option" where
  "refundableWalletOperationAmount sv row =
     (if sfield row ''status'' \<noteq> ''succeeded'' then None
      else
        (case ws_unmarshalResult sv (sfield row ''result'') of
           None \<Rightarrow> None
         | Some result \<Rightarrow>
             (let action = sfield row ''action''
              in if action = ''workspace.launch'' \<or> action = ''workspace.launch.v2''
                 then requiredPositiveInteger result ''totalChargeUsdMicros''
                 else if action = ''workspace.renewal'' then requiredPositiveInteger result ''totalUsdMicros'' else None)))"

text \<open>The amount of the related operation, if it was found, and what was refunded of it so far.\<close>

fun refund_scan :: "wallet_services \<Rightarrow> string \<Rightarrow> string \<Rightarrow> gomap list \<Rightarrow> int option \<Rightarrow> int \<Rightarrow> (wallet_error, int option \<times> int) res" where
  "refund_scan sv accountID related [] original refunded = Ok (original, refunded)"
| "refund_scan sv accountID related (row # rows) original refunded =
     (if sfield row ''accountId'' \<noteq> accountID then refund_scan sv accountID related rows original refunded
      else if sfield row ''id'' = related then
        refund_scan sv accountID related rows (refundableWalletOperationAmount sv row) refunded
      else if sfield row ''action'' \<noteq> walletAdjustmentAction then refund_scan sv accountID related rows original refunded
      else
        (case decodeWalletAdjustment sv row of
           None \<Rightarrow> Err WalletState
         | Some op \<Rightarrow>
             if wo_Kind op \<noteq> ''business_refund'' \<or> wo_RelatedOperationID op \<noteq> related then
               refund_scan sv accountID related rows original refunded
             else if wo_Status op \<noteq> ''succeeded'' \<or> wo_AmountUSDMicros op > max_int64 - refunded then Err WalletConflict
             else refund_scan sv accountID related rows original (refunded + wo_AmountUSDMicros op)))"

definition refund_limit :: "wallet_services \<Rightarrow> string \<Rightarrow> string \<Rightarrow> int \<Rightarrow> gomap list \<Rightarrow> wallet_error option" where
  "refund_limit sv accountID related amount rows =
     (case refund_scan sv accountID related rows None 0 of
        Inl e \<Rightarrow> Some e
      | Inr (found, refunded) \<Rightarrow>
          (case found of
             None \<Rightarrow> Some WalletConflict
           | Some original \<Rightarrow>
               if original \<le> 0 \<or> amount > original \<or> refunded > original - amount then Some WalletConflict else None))"

definition validateWalletRefundLimit :: "wallet_services \<Rightarrow> string \<Rightarrow> string \<Rightarrow> int \<Rightarrow> wallet_error option wact" where
  "validateWalletRefundLimit sv accountID related amount =
     do { rows \<leftarrow> wpeek ''ListRuntimeOperations'' (ws_ListRuntimeOperations sv);
          ret (case rows of None \<Rightarrow> Some WalletState | Some rs \<Rightarrow> refund_limit sv accountID related amount rs) }"

section \<open>Answers\<close>

definition wallet_error_reply :: "wallet_error \<Rightarrow> reply" where
  "wallet_error_reply e =
     (case e of
        WalletIdempotency \<Rightarrow> Fail 409 ''idempotency_conflict''
      | WalletConflict \<Rightarrow> Fail 409 ''wallet_adjustment_conflict''
      | WalletAccount \<Rightarrow> Fail 404 ''wallet_adjustment_account_not_found''
      | WalletState \<Rightarrow> Fail 500 ''state_persist_failed''
      | WalletUpstream \<Rightarrow> Fail 502 ''wallet_adjustment_upstream_unavailable'')"

definition upstream_failure_map :: "upstream_failure \<Rightarrow> gomap" where
  "upstream_failure_map f =
     [(''phase'', GStr (uf_Phase f))] @ (if uf_HTTPStatus f \<noteq> 0 then [(''httpStatus'', GInt (uf_HTTPStatus f))] else []) @
     [(''errorCode'', GStr (uf_ErrorCode f))] @ (if uf_RequestID f \<noteq> [] then [(''requestId'', GStr (uf_RequestID f))] else [])"

definition walletAdjustmentDTO :: "string \<Rightarrow> wallet_operation \<Rightarrow> gomap" where
  "walletAdjustmentDTO operationID op =
     (let readAt = (\<lambda>t. if t = [] then wo_UpdatedAt op else t)
      in [(''operationId'', GStr operationID), (''status'', GStr (wo_Status op)), (''phase'', GStr (wo_Phase op)),
          (''accountId'', GStr (wo_AccountID op)), (''kind'', GStr (wo_Kind op)), (''amountUsd'', GStr (wo_AmountUSD op)),
          (''reason'', GStr (wo_Reason op)),
          (''beforeBalance'', GObj (walletBalanceEnvelope (wo_BeforeBalanceKnown op) (wo_BeforeBalanceMicros op) (readAt (wo_BeforeBalanceReadAt op)))),
          (''afterBalance'', GObj (walletBalanceEnvelope (wo_AfterBalanceKnown op) (wo_AfterBalanceMicros op) (readAt (wo_AfterBalanceReadAt op)))),
          (''actor'', GStr (wo_ActorUserID op)), (''createdAt'', GStr (wo_CreatedAt op)), (''updatedAt'', GStr (wo_UpdatedAt op))] @
         filter (\<lambda>kv. snd kv \<noteq> GStr [])
           [(''relatedOperationId'', GStr (wo_RelatedOperationID op)), (''balanceHistoryRef'', GStr (wo_BalanceHistoryRef op)),
            (''receiptId'', GStr (wo_ReceiptID op)), (''errorCode'', GStr (wo_ErrorCode op))] @
         (case wo_UpstreamFailure op of None \<Rightarrow> [] | Some f \<Rightarrow> [(''upstreamFailure'', GObj (upstream_failure_map f))]) @
         (if wo_Status op = ''manual_review'' then [(''allowedActions'', GStrs [''recover_wallet_adjustment''])] else []))"

section \<open>The handlers\<close>

definition new_wallet_operation ::
    "wallet_services \<Rightarrow> string \<Rightarrow> string \<Rightarrow> string \<Rightarrow> int \<Rightarrow> wallet_request \<Rightarrow> int \<Rightarrow> string \<Rightarrow> string \<Rightarrow> wallet_operation" where
  "new_wallet_operation sv operationID requestHash accountID remoteUserID input amountMicros actorID now =
     \<lparr>wo_RequestHash = requestHash, wo_Phase = ''before_balance'', wo_AccountID = accountID, wo_Sub2APIUserID = remoteUserID,
      wo_Kind = wq_Kind input, wo_AmountUSDMicros = amountMicros, wo_AmountUSD = formatWalletUSD amountMicros,
      wo_Reason = trim_space (wq_Reason input), wo_RelatedOperationID = trim_space (wq_RelatedOperationID input),
      wo_ActorUserID = actorID, wo_CanonicalRedeemCode = walletAdjustmentRedeemCode (ws_sha sv) operationID,
      wo_RedeemCodeVersion = ''v2'', wo_LegacySupersession = [], wo_AdjustmentAttempted = False, wo_BeforeBalanceKnown = False,
      wo_BeforeBalanceMicros = 0, wo_BeforeBalanceReadAt = [], wo_AfterBalanceKnown = False, wo_AfterBalanceMicros = 0,
      wo_AfterBalanceReadAt = [], wo_BalanceHistoryRef = [], wo_BalanceHistoryUsedAt = [], wo_ReceiptID = [], wo_ErrorCode = [],
      wo_RecoveryRequestHash = [], wo_RecoveryAttempted = False, wo_RecoveryEvidenceRef = [], wo_RecoveryActorUserID = [],
      wo_RecoveryAuthorizedAt = [], wo_UpstreamFailure = None, wo_CreatedAt = now, wo_UpdatedAt = now, wo_Status = ''pending''\<rparr>"

definition wallet_request_hash :: "(string \<Rightarrow> string) \<Rightarrow> string \<Rightarrow> string \<Rightarrow> wallet_request \<Rightarrow> int \<Rightarrow> string" where
  "wallet_request_hash sha accountID actorID input amountMicros =
     stableID sha [''wallet-adjustment-v1'', accountID, actorID, wq_Kind input, show_int amountMicros, trim_space (wq_Reason input),
       trim_space (wq_RelatedOperationID input)]"

text \<open>A new adjustment is checked and written before it runs.\<close>

definition open_adjustment ::
    "wallet_services \<Rightarrow> string \<Rightarrow> string \<Rightarrow> string \<Rightarrow> wallet_request \<Rightarrow> int \<Rightarrow> string \<Rightarrow> (reply, wallet_operation) res wact" where
  "open_adjustment sv operationID requestHash accountID input amountMicros actorID =
     do { checked \<leftarrow> walletAdjustmentAccount sv accountID;
          case checked of
            Inl e \<Rightarrow> ret (Inl (wallet_error_reply e))
          | Inr (account, remoteUserID) \<Rightarrow>
              do { limit \<leftarrow> (if wq_Kind input = ''business_refund''
                            then validateWalletRefundLimit sv accountID (wq_RelatedOperationID input) amountMicros else ret None);
                   case limit of
                     Some e \<Rightarrow> ret (Inl (wallet_error_reply e))
                   | None \<Rightarrow>
                       do { now \<leftarrow> now_text sv;
                            if sfield account ''ownerUserId'' = [] then ret (Inl (Fail 500 ''state_persist_failed''))
                            else
                              do { noted \<leftarrow> save_phase sv operationID
                                     (new_wallet_operation sv operationID requestHash accountID remoteUserID input amountMicros actorID now);
                                   ret (case noted of Inl _ \<Rightarrow> Inl (Fail 500 ''state_persist_failed'') | Inr op \<Rightarrow> Inr op) } } } }"

definition finish_adjustment :: "wallet_services \<Rightarrow> operator_request \<Rightarrow> string \<Rightarrow> bool \<Rightarrow> wallet_operation \<Rightarrow> reply wact" where
  "finish_adjustment sv r operationID created op =
     (if wo_Status op = ''failed'' then ret (wallet_error_reply WalletConflict)
      else
        do { (op', err) \<leftarrow> (if wo_Status op \<noteq> ''succeeded'' \<and> wo_Status op \<noteq> ''manual_review''
                            then runWalletAdjustment sv r operationID op else ret (op, None));
             ret (case err of
                    Some e \<Rightarrow> wallet_error_reply e
                  | None \<Rightarrow> Body (if wo_Status op' = ''manual_review'' then 202 else if created then 201 else 200)
                              (walletAdjustmentDTO operationID op')) })"

definition createWalletAdjustment :: "wallet_services \<Rightarrow> operator_request \<Rightarrow> string \<Rightarrow> wallet_request option \<Rightarrow> reply wact" where
  "createWalletAdjustment sv r pathAccountID body =
     (let key = trim_space (oq_idempotencyKey r); accountID = trim_space pathAccountID
      in if key = [] then ret (Fail 400 ''missing Idempotency-Key'')
         else
           (case body of
              None \<Rightarrow> ret (Fail 400 ''invalid_wallet_adjustment'')
            | Some input \<Rightarrow>
                (case validWalletAdjustmentRequest input accountID key of
                   None \<Rightarrow> ret (Fail 400 ''invalid_wallet_adjustment'')
                 | Some amountMicros \<Rightarrow>
                     (let actorID = sfield (opt_map (oq_user r)) ''id'';
                          operationID = ''wallet-adjustment-'' @ take 18 (stableID (ws_sha sv) [accountID, key]);
                          requestHash = wallet_request_hash (ws_sha sv) accountID actorID input amountMicros
                      in do { found \<leftarrow> walletAdjustment sv operationID requestHash;
                              case found of
                                Inl e \<Rightarrow> ret (wallet_error_reply e)
                              | Inr (Some op) \<Rightarrow> finish_adjustment sv r operationID False op
                              | Inr None \<Rightarrow>
                                  do { opened \<leftarrow> open_adjustment sv operationID requestHash accountID input amountMicros actorID;
                                       case opened of
                                         Inl e \<Rightarrow> ret e
                                       | Inr op \<Rightarrow> finish_adjustment sv r operationID True op } }))))"

definition getWalletAdjustment :: "wallet_services \<Rightarrow> string \<Rightarrow> reply wact" where
  "getWalletAdjustment sv pathOperationID =
     (let operationID = trim_space pathOperationID
      in do { found \<leftarrow> walletAdjustment sv operationID [];
              ret (case found of
                     Inl e \<Rightarrow> wallet_error_reply e
                   | Inr None \<Rightarrow> Fail 404 ''wallet_adjustment_not_found''
                   | Inr (Some op) \<Rightarrow> Body 200 (walletAdjustmentDTO operationID op)) })"

definition recovery_event :: "wallet_services \<Rightarrow> operator_request \<Rightarrow> string \<Rightarrow> string \<Rightarrow> wallet_recovery \<Rightarrow> wallet_operation \<Rightarrow> string \<Rightarrow> gomap" where
  "recovery_event sv r operationID key input op now =
     audit_event r (''audit-'' @ take 12 (stableID (ws_sha sv) [''gateway.wallet_adjustment.recover'', operationID, key]))
       ''gateway.wallet_adjustment.recover'' ''gateway_wallet'' (wo_AccountID op) (wo_AccountID op) GNil
       (GObj [(''operationId'', GStr operationID), (''evidenceRef'', GStr (wy_EvidenceRef input)), (''status'', GStr (wo_Status op))])
       (wo_Status op) now"

text \<open>Whether a recovery request fits the state the adjustment is in.\<close>

definition recovery_fits :: "wallet_operation \<Rightarrow> string \<Rightarrow> bool" where
  "recovery_fits op recoveryHash \<longleftrightarrow>
     wo_Status op \<noteq> ''failed'' \<and> (wo_Status op = ''succeeded'' \<longrightarrow> wo_RecoveryRequestHash op = recoveryHash) \<and>
     (wo_Status op = ''succeeded'' \<or> wo_Status op = ''manual_review'' \<or>
      wo_Status op = ''pending'' \<and> wo_RecoveryRequestHash op = recoveryHash)"

definition recover_found ::
    "wallet_services \<Rightarrow> operator_request \<Rightarrow> string \<Rightarrow> string \<Rightarrow> wallet_recovery \<Rightarrow> wallet_operation \<Rightarrow> string \<Rightarrow> reply wact" where
  "recover_found sv r operationID key input op recoveryHash =
     do { (op1, err1) \<leftarrow> (if wo_Status op = ''manual_review''
            then prepareWalletAdjustmentRecovery sv operationID op recoveryHash (wy_EvidenceRef input) (sfield (opt_map (oq_user r)) ''id'')
            else ret (op, None));
          case err1 of
            Some e \<Rightarrow> ret (wallet_error_reply e)
          | None \<Rightarrow>
              do { (op2, err2) \<leftarrow> (if wo_Status op1 = ''pending'' then runWalletAdjustment sv r operationID op1 else ret (op1, None));
                   case err2 of
                     Some e \<Rightarrow> ret (wallet_error_reply e)
                   | None \<Rightarrow>
                       do { now \<leftarrow> wpeek ''now'' (ws_now sv);
                            audited \<leftarrow> save_audit sv (recovery_event sv r operationID key input op2 (format_rfc3339 now));
                            ret (if audited then Body 200 (walletAdjustmentDTO operationID op2) else Fail 500 ''state_persist_failed'') } } }"

definition recoverWalletAdjustment :: "wallet_services \<Rightarrow> operator_request \<Rightarrow> string \<Rightarrow> wallet_recovery option \<Rightarrow> reply wact" where
  "recoverWalletAdjustment sv r pathOperationID body =
     (let key = trim_space (oq_idempotencyKey r); operationID = trim_space pathOperationID
      in if key = [] then ret (Fail 400 ''missing Idempotency-Key'')
         else
           (case body of
              None \<Rightarrow> ret (Fail 400 ''invalid_wallet_adjustment_recovery'')
            | Some input \<Rightarrow>
                if \<not> validAccountID (wy_AccountID input) \<or> wy_AccountID input \<noteq> trim_space (wy_AccountID input) \<or>
                   \<not> validBillingReviewEvidenceRef (wy_EvidenceRef input) \<or> operationID = [] \<or> \<not> validBillingReviewOpaqueID key
                then ret (Fail 400 ''invalid_wallet_adjustment_recovery'')
                else
                  (let recoveryHash = stableID (ws_sha sv)
                         [''wallet-adjustment-recovery-v1'', operationID, wy_AccountID input, wy_EvidenceRef input, key]
                   in do { found \<leftarrow> walletAdjustment sv operationID [];
                           case found of
                             Inl e \<Rightarrow> ret (wallet_error_reply e)
                           | Inr None \<Rightarrow> ret (Fail 404 ''wallet_adjustment_not_found'')
                           | Inr (Some op) \<Rightarrow>
                               if wo_AccountID op \<noteq> wy_AccountID input then ret (Fail 404 ''wallet_adjustment_not_found'')
                               else if \<not> recovery_fits op recoveryHash then ret (wallet_error_reply WalletConflict)
                               else recover_found sv r operationID key input op recoveryHash })))"

end
