(* ===== verification/CP_Wallet_Facts.thy ===== *)
theory CP_Wallet_Facts
  imports CP_Wallet_Routes
begin

text \<open>
  Facts about wallet adjustments: amounts as text, the rounds a run needs, what every run and every
  recovery keeps, and how often money can move.
\<close>

section \<open>Amounts as text\<close>

lemma length_show_nat: "n < 10 ^ Suc k \<Longrightarrow> length (show_nat n) \<le> Suc k"
proof (induction k arbitrary: n)
  case 0
  then show ?case by (simp add: show_nat.simps [of n])
next
  case (Suc k)
  then have "n div 10 < 10 ^ Suc k" by (simp add: less_mult_imp_div_less)
  with Suc.IH [of "n div 10"] show ?case by (simp add: show_nat.simps [of n])
qed

lemma hd_show_nat: "0 < n \<Longrightarrow> hd (show_nat n) \<noteq> CHR ''0''"
proof (induction n rule: show_nat.induct)
  case (1 n)
  show ?case
  proof (cases "n < 10")
    case True
    have "digit_val (digit_char n) = n" using True by simp
    then show ?thesis using 1(2) True by (auto simp: show_nat.simps [of n] digit_val_def)
  next
    case False
    with 1 show ?thesis by (simp add: show_nat.simps [of n])
  qed
qed

lemma digit_not_point: "is_digit c \<Longrightarrow> c \<noteq> CHR ''.''"
  by (auto simp: is_digit_def)

lemma split_decimal:
  assumes "list_all is_digit w"
  shows "whole_part (w @ ''.'' @ d) = w" "decimal_part (w @ ''.'' @ d) = ''.'' @ d"
  using assms digit_not_point
  by (auto simp: whole_part_def decimal_part_def takeWhile_append dropWhile_append list_all_iff)

lemma foldl_zeros: "foldl (\<lambda>a c. 10 * a + digit_val c) 0 (replicate n (CHR ''0'')) = 0"
  by (induction n) (simp_all add: digit_val_def)

lemma padded:
  assumes "n < 1000000"
  shows "length (zero_padded 6 (show_nat n)) = 6" "read_nat (zero_padded 6 (show_nat n)) = n" "list_all is_digit (zero_padded 6 (show_nat n))"
proof -
  show "length (zero_padded 6 (show_nat n)) = 6"
    using length_show_nat [of n 5] assms by (simp add: zero_padded_def)
  show "read_nat (zero_padded 6 (show_nat n)) = n"
    using read_show_nat [of n] by (simp add: zero_padded_def read_nat_def foldl_zeros)
  show "list_all is_digit (zero_padded 6 (show_nat n))"
    using show_nat_digits [of n] by (auto simp: zero_padded_def list_all_iff is_digit_def)
qed

lemma strip_zeros:
  "\<exists>k. s = rev (dropWhile ((=) (CHR ''0'')) (rev s)) @ replicate k (CHR ''0'')"
proof (induction s rule: rev_induct)
  case (snoc c s)
  then obtain k where k: "s = rev (dropWhile ((=) (CHR ''0'')) (rev s)) @ replicate k (CHR ''0'')" by blast
  show ?case
  proof (cases "c = CHR ''0''")
    case True
    then have "s @ [c] = rev (dropWhile ((=) (CHR ''0'')) (rev s)) @ replicate (Suc k) (CHR ''0'')"
      using k by (metis append.assoc replicate_append_same replicate_Suc)
    moreover have "dropWhile ((=) (CHR ''0'')) (rev (s @ [c])) = dropWhile ((=) (CHR ''0'')) (rev s)" using True by simp
    ultimately show ?thesis by metis
  next
    case False
    then show ?thesis by (intro exI [of _ 0]) simp
  qed
qed simp

lemma shown_amount:
  assumes "0 \<le> n" "n \<le> maxWalletAdjustmentUSDMicros"
  shows "walletAmountPattern (formatWalletUSD n) \<and> decimalUSDMicros (formatWalletUSD n) = n"
proof -
  define p where "p = zero_padded 6 (show_nat (nat (n mod 1000000)))"
  define d where "d = rev (dropWhile ((=) (CHR ''0'')) (rev p))"
  define w where "w = show_nat (nat (n div 1000000))"
  have small: "nat (n mod 1000000) < 1000000" by (simp add: nat_less_iff)
  note P = padded [OF small, folded p_def]
  obtain k where k: "p = d @ replicate k (CHR ''0'')" using strip_zeros [of p] by (auto simp: d_def)
  then have len: "length d + k = 6" using P(1) by (metis length_append length_replicate)
  have dd: "list_all is_digit d" using P(3) k by (simp add: list_all_iff)
  have "show_int (n mod 1000000) = show_nat (nat (n mod 1000000))" "show_int (n div 1000000) = w"
    using assms(1) by (simp_all add: show_int_def w_def pos_imp_zdiv_neg_iff not_less)
  then have fmt: "formatWalletUSD n = w @ ''.'' @ (d @ replicate (2 - length d) (CHR ''0''))"
    by (simp add: formatWalletUSD_def d_def p_def Let_def)
  have wd: "list_all is_digit w" "w \<noteq> []" by (simp_all add: w_def show_nat_digits)
  note parts = split_decimal [OF wd(1), of "d @ replicate (2 - length d) (CHR ''0'')", folded fmt]
  have wl: "length w \<le> 7"
    unfolding w_def using assms(2) by (intro length_show_nat [of _ 6, simplified]) (simp add: maxWalletAdjustmentUSDMicros_def nat_less_iff)
  have wz: "w = ''0'' \<or> hd w \<noteq> CHR ''0''"
  proof (cases "nat (n div 1000000) = 0")
    case True
    then show ?thesis by (simp add: w_def show_nat.simps digit_char_def)
  next
    case False
    then show ?thesis using hd_show_nat by (simp add: w_def)
  qed
  have pattern: "walletAmountPattern (formatWalletUSD n)"
    unfolding walletAmountPattern_def parts using wd wl wz dd len by (auto simp: list_all_iff is_digit_def)
  have "take 6 ((d @ replicate (2 - length d) (CHR ''0'')) @ replicate 6 (CHR ''0'')) = p"
    using k len by (auto simp: take_append min_def simp flip: replicate_add)
  then have "decimalUSDMicros (formatWalletUSD n) = int (read_nat w) * 1000000 + int (read_nat p)"
    unfolding decimalUSDMicros_def parts by simp
  also have "\<dots> = n"
    using assms(1) P(2) by (simp add: w_def pos_imp_zdiv_nonneg_iff)
  finally show ?thesis using pattern by simp
qed

text \<open>The text an adjustment keeps of its amount names exactly that amount, in the form in which
  amounts are asked for: up to seven digits, a point, and two to six decimals.\<close>

theorem wallet_amount_text:
  assumes "validWalletAdjustmentRequest input accountID key = Some n"
  shows "0 < n \<and> n \<le> 1000000000000 \<and> walletAmountPattern (formatWalletUSD n) \<and> decimalUSDMicros (formatWalletUSD n) = n \<and>
    decimalUSDMicros (wq_AmountUSD input) = n"
proof -
  have n: "0 < n" "n \<le> maxWalletAdjustmentUSDMicros" "decimalUSDMicros (wq_AmountUSD input) = n"
    using assms by (auto simp: validWalletAdjustmentRequest_def Let_def split: if_splits)
  with shown_amount [of n] show ?thesis by (simp add: maxWalletAdjustmentUSDMicros_def)
qed

definition ex_wallet_request :: wallet_request where
  "ex_wallet_request = \<lparr>wq_Kind = ''recharge'', wq_AmountUSD = ''12.5'', wq_Reason = ''paid'', wq_RelatedOperationID = [], wq_ConfirmationAccountID = ''acct''\<rparr>"

lemma six: "replicate 6 c = [c, c, c, c, c, c]"
  by (simp add: numeral_eq_Suc)

lemma ex_wallet_amount: "validWalletAdjustmentRequest ex_wallet_request ''acct'' ''key'' = Some 12500000"
proof -
  have t: "trim_space ''paid'' = ''paid''" "trim_space ''key'' = ''key''" "trim_space ''12.5'' = ''12.5''" by code_simp+
  have v: "validAccountID ''acct''" "rune_count ''paid'' = 4" "\<not> has_control ''paid''" "walletAmountPattern ''12.5''"
    by (simp_all add: validAccountID_def compactID_def trim_dashes_def is_lower_def lower_byte_def rune_count_def walletAmountPattern_def
        whole_part_def decimal_part_def is_digit_def)
  have a: "decimalUSDMicros ''12.5'' = 12500000"
    by (simp add: decimalUSDMicros_def whole_part_def decimal_part_def read_nat_def digit_val_def six)
  show ?thesis
    by (simp add: validWalletAdjustmentRequest_def ex_wallet_request_def t v a maxWalletAdjustmentUSDMicros_def)
qed

theorem wallet_amount_text_witness: "formatWalletUSD 12500000 = ''12.50'' \<and> decimalUSDMicros (formatWalletUSD 12500000) = 12500000"
proof -
  have c: "char_of (48 :: nat) = CHR ''0''" "char_of (49 :: nat) = CHR ''1''" "char_of (50 :: nat) = CHR ''2''" "char_of (53 :: nat) = CHR ''5''"
    by code_simp+
  have "formatWalletUSD 12500000 = ''12.50''"
    by (simp add: formatWalletUSD_def show_int_def show_nat.simps zero_padded_def digit_char_def c)
  with wallet_amount_text [OF ex_wallet_amount] show ?thesis by simp
qed

section \<open>Rounds\<close>

definition wallet_rank :: "string \<Rightarrow> nat" where
  "wallet_rank phase =
     (if phase = ''before_balance'' then 7 else if phase = ''adjustment'' then 6 else if phase = ''authoritative_readback'' then 5
      else if phase = ''after_balance'' then 4 else if phase = ''ledger'' then 3 else if phase = ''audit'' then 2 else 1)"

definition wallet_lowers :: "wallet_operation \<Rightarrow> (wallet_end, wallet_operation) res \<Rightarrow> bool" where
  "wallet_lowers op r \<longleftrightarrow> (case r of Inl _ \<Rightarrow> True | Inr op' \<Rightarrow> wallet_rank (wo_Phase op') < wallet_rank (wo_Phase op))"

lemma assigned_phase [simp]: "wo_Phase (assign_code sha i op) = wo_Phase op"
  by (simp add: assign_code_def)

lemma gives_save_phase: "(\<And>p. wo_Phase p = wo_Phase op \<Longrightarrow> Q (Inr p)) \<Longrightarrow> (\<And>e. Q (Inl e)) \<Longrightarrow> gives (save_phase sv i op) Q"
  unfolding save_phase_def persistWalletAdjustment_def gives_def
  by (auto simp: run_then run_ret run_ask Let_def split: prod.split)

lemma gives_end:
  "(\<And>e. Q (Inl e)) \<Longrightarrow> gives (save_end sv i op e) Q" "(\<And>e. Q (Inl e)) \<Longrightarrow> gives (manualReviewWalletAdjustment sv r i op code) Q"
  unfolding save_end_def manualReviewWalletAdjustment_def by (intro gives_bind gives_cases gives_ret; simp)+

lemma gives_history: "(\<And>e. x = HistoryConfirmed e \<Longrightarrow> gives (f e) Q) \<Longrightarrow> gives g Q \<Longrightarrow> gives h Q \<Longrightarrow>
    gives (case x of HistoryAbsent \<Rightarrow> g | HistoryConfirmed e \<Rightarrow> f e | HistoryConflict \<Rightarrow> h) Q"
  by (cases x) simp_all

lemma failure_phase [simp]: "wo_Phase (recordWalletAdjustmentUpstreamFailure ph e c op) = wo_Phase op"
  by (auto simp: recordWalletAdjustmentUpstreamFailure_def split: option.split)

lemma gives_adjust: "(\<And>a. Q a) \<Longrightarrow> gives (adjust_wallet sv op) Q"
  by (simp add: gives_def)

lemma adjustment_lowers: "wo_Phase op = ''adjustment'' \<Longrightarrow> gives (adjustment_phase sv r i op) (wallet_lowers op)"
  unfolding adjustment_phase_def Let_def
  by (intro gives_cases gives_ret gives_bindI gives_save_phase gives_adjust gives_end) (auto simp: wallet_lowers_def wallet_rank_def)

lemma wallet_step_lowers: "gives (wallet_phase sv r i op) (wallet_lowers op)"
  unfolding wallet_phase_def Let_def before_balance_phase_def before_balance_failed_def readback_phase_def
    after_balance_phase_def ledger_phase_def audit_phase_def
  by (intro gives_history gives_cases gives_ret gives_bind gives_save_phase gives_end adjustment_lowers)
     (auto simp: wallet_lowers_def wallet_rank_def)

lemma wallet_rounds_enough: "wallet_rank (wo_Phase op) \<le> n \<Longrightarrow> wallet_rounds (n + k) sv r i op = wallet_rounds n sv r i op"
proof (induction n arbitrary: op)
  case 0
  then show ?case by (simp add: wallet_rank_def split: if_splits)
next
  case (Suc n)
  have "gives (wallet_phase sv r i op) (\<lambda>s. (case s of Inl e \<Rightarrow> ret e | Inr p \<Rightarrow> wallet_rounds (n + k) sv r i p) =
                                       (case s of Inl e \<Rightarrow> ret e | Inr p \<Rightarrow> wallet_rounds n sv r i p))"
    using wallet_step_lowers [of sv r i op] Suc unfolding gives_def wallet_lowers_def by (fastforce split: sum.splits)
  then show ?case by (simp add: bind_eqI)
qed

text \<open>A run of an adjustment never uses up its eight rounds: every phase either ends the run or
  brings it forward, so seven rounds do as much as any greater number, and an adjustment is never
  refused for the number of its phases.\<close>

theorem wallet_rounds_suffice:
  "runWalletAdjustment sv r i op = wallet_rounds 7 sv r i op \<and> wallet_rounds (7 + k) sv r i op = wallet_rounds 7 sv r i op"
proof -
  have "wallet_rank (wo_Phase op) \<le> 7" by (simp add: wallet_rank_def)
  then show ?thesis
    using wallet_rounds_enough [of op 7 1 sv r i] wallet_rounds_enough [of op 7 k sv r i] by (simp add: runWalletAdjustment_def)
qed

end
