(* ===== verification/CP_Wallet_Life.thy ===== *)
theory CP_Wallet_Life
  imports CP_Wallet_Facts
begin

text \<open>
  What every run and every recovery of a wallet adjustment keeps, call by call, whatever the
  services answer.
\<close>

section \<open>Adjustments that make sense\<close>

text \<open>What was asked for and under which code: no run changes it.\<close>

definition wallet_identity where
  "wallet_identity op =
     (wo_RequestHash op, wo_AccountID op, wo_Sub2APIUserID op, wo_Kind op, wo_AmountUSDMicros op, wo_AmountUSD op, wo_Reason op,
      wo_RelatedOperationID op, wo_ActorUserID op, wo_CanonicalRedeemCode op, wo_RedeemCodeVersion op, wo_LegacySupersession op)"

definition wallet_asked :: "wallet_operation \<Rightarrow> bool" where
  "wallet_asked op \<longleftrightarrow>
     wo_AccountID op \<noteq> [] \<and> 0 < wo_AmountUSDMicros op \<and> wo_AmountUSDMicros op \<le> maxWalletAdjustmentUSDMicros \<and>
     wo_Kind op \<in> {''recharge'', ''debit'', ''business_refund''} \<and>
     (if wo_Kind op = ''business_refund'' then walletRelatedOperationPattern (wo_RelatedOperationID op) else wo_RelatedOperationID op = [])"

text \<open>The balance before it is known, and the amount fits it.\<close>

definition measured :: "wallet_operation \<Rightarrow> bool" where
  "measured op \<longleftrightarrow>
     wo_BeforeBalanceKnown op \<and> 0 \<le> wo_BeforeBalanceMicros op \<and> wo_BeforeBalanceMicros op \<le> max_int64 \<and>
     amount_fits op (wo_BeforeBalanceMicros op)"

text \<open>An entry of the balance history that is this adjustment: its code was used by the user, for
  the amount with its sign.\<close>

definition confirms :: "wallet_operation \<Rightarrow> wallet_entry \<Rightarrow> bool" where
  "confirms op e \<longleftrightarrow>
     we_Code e = wo_CanonicalRedeemCode op \<and> we_Type e = ''balance'' \<and> we_Status e = ''used'' \<and>
     we_UsedBy e = Some (wo_Sub2APIUserID op) \<and> we_UsedAt e \<noteq> None \<and> we_ValueUSDMicros e = signed_amount op"

definition in_history :: "(string \<Rightarrow> string) \<Rightarrow> wallet_operation \<Rightarrow> bool" where
  "in_history sha op \<longleftrightarrow>
     (\<exists>e. confirms op e \<and> wo_BalanceHistoryRef op = walletAdjustmentBalanceHistoryRef sha (wo_Sub2APIUserID op) e)"

definition balanced :: "wallet_operation \<Rightarrow> bool" where
  "balanced op \<longleftrightarrow> wo_AfterBalanceKnown op \<and> wo_AfterBalanceMicros op = wo_BeforeBalanceMicros op + signed_amount op"

lemmas wallet_facts = wallet_identity_def wallet_asked_def measured_def in_history_def confirms_def balanced_def v2_identity_def amount_fits_def signed_amount_def

lemma inspect_confirmed:
  "inspectWalletAdjustmentHistory h code op = HistoryConfirmed e \<Longrightarrow> code = wo_CanonicalRedeemCode op \<Longrightarrow> confirms op e"
  by (auto simp: inspectWalletAdjustmentHistory_def confirms_def Let_def filter_eq_Cons_iff split: list.splits if_splits)

lemma inspected_confirmed:
  "(case answer of Inl _ \<Rightarrow> HistoryAbsent | Inr h \<Rightarrow> inspectWalletAdjustmentHistory h (wo_CanonicalRedeemCode op) op) = HistoryConfirmed e \<Longrightarrow>
   confirms op e"
  by (auto intro: inspect_confirmed split: sum.splits)

text \<open>The fields each of these does not read.\<close>

lemma identity_update [simp]:
  "wallet_identity (op\<lparr>wo_Status := xStatus\<rparr>) = wallet_identity op"
  "wallet_identity (op\<lparr>wo_Phase := xPhase\<rparr>) = wallet_identity op"
  "wallet_identity (op\<lparr>wo_ErrorCode := xErrorCode\<rparr>) = wallet_identity op"
  "wallet_identity (op\<lparr>wo_UpdatedAt := xUpdatedAt\<rparr>) = wallet_identity op"
  "wallet_identity (op\<lparr>wo_UpstreamFailure := xUpstreamFailure\<rparr>) = wallet_identity op"
  "wallet_identity (op\<lparr>wo_AdjustmentAttempted := xAdjustmentAttempted\<rparr>) = wallet_identity op"
  "wallet_identity (op\<lparr>wo_RecoveryAttempted := xRecoveryAttempted\<rparr>) = wallet_identity op"
  "wallet_identity (op\<lparr>wo_ReceiptID := xReceiptID\<rparr>) = wallet_identity op"
  "wallet_identity (op\<lparr>wo_RecoveryRequestHash := xRecoveryRequestHash\<rparr>) = wallet_identity op"
  "wallet_identity (op\<lparr>wo_RecoveryEvidenceRef := xRecoveryEvidenceRef\<rparr>) = wallet_identity op"
  "wallet_identity (op\<lparr>wo_RecoveryActorUserID := xRecoveryActorUserID\<rparr>) = wallet_identity op"
  "wallet_identity (op\<lparr>wo_RecoveryAuthorizedAt := xRecoveryAuthorizedAt\<rparr>) = wallet_identity op"
  "wallet_identity (op\<lparr>wo_BeforeBalanceReadAt := xBeforeBalanceReadAt\<rparr>) = wallet_identity op"
  "wallet_identity (op\<lparr>wo_AfterBalanceReadAt := xAfterBalanceReadAt\<rparr>) = wallet_identity op"
  "wallet_identity (op\<lparr>wo_BalanceHistoryUsedAt := xBalanceHistoryUsedAt\<rparr>) = wallet_identity op"
  "wallet_identity (op\<lparr>wo_BeforeBalanceKnown := xBeforeBalanceKnown\<rparr>) = wallet_identity op"
  "wallet_identity (op\<lparr>wo_BeforeBalanceMicros := xBeforeBalanceMicros\<rparr>) = wallet_identity op"
  "wallet_identity (op\<lparr>wo_AfterBalanceKnown := xAfterBalanceKnown\<rparr>) = wallet_identity op"
  "wallet_identity (op\<lparr>wo_AfterBalanceMicros := xAfterBalanceMicros\<rparr>) = wallet_identity op"
  "wallet_identity (op\<lparr>wo_BalanceHistoryRef := xBalanceHistoryRef\<rparr>) = wallet_identity op"
  by (simp_all add: wallet_facts)

lemma asked_update [simp]:
  "wallet_asked (op\<lparr>wo_Status := xStatus\<rparr>) = wallet_asked op"
  "wallet_asked (op\<lparr>wo_Phase := xPhase\<rparr>) = wallet_asked op"
  "wallet_asked (op\<lparr>wo_ErrorCode := xErrorCode\<rparr>) = wallet_asked op"
  "wallet_asked (op\<lparr>wo_UpdatedAt := xUpdatedAt\<rparr>) = wallet_asked op"
  "wallet_asked (op\<lparr>wo_UpstreamFailure := xUpstreamFailure\<rparr>) = wallet_asked op"
  "wallet_asked (op\<lparr>wo_AdjustmentAttempted := xAdjustmentAttempted\<rparr>) = wallet_asked op"
  "wallet_asked (op\<lparr>wo_RecoveryAttempted := xRecoveryAttempted\<rparr>) = wallet_asked op"
  "wallet_asked (op\<lparr>wo_ReceiptID := xReceiptID\<rparr>) = wallet_asked op"
  "wallet_asked (op\<lparr>wo_RecoveryRequestHash := xRecoveryRequestHash\<rparr>) = wallet_asked op"
  "wallet_asked (op\<lparr>wo_RecoveryEvidenceRef := xRecoveryEvidenceRef\<rparr>) = wallet_asked op"
  "wallet_asked (op\<lparr>wo_RecoveryActorUserID := xRecoveryActorUserID\<rparr>) = wallet_asked op"
  "wallet_asked (op\<lparr>wo_RecoveryAuthorizedAt := xRecoveryAuthorizedAt\<rparr>) = wallet_asked op"
  "wallet_asked (op\<lparr>wo_BeforeBalanceReadAt := xBeforeBalanceReadAt\<rparr>) = wallet_asked op"
  "wallet_asked (op\<lparr>wo_AfterBalanceReadAt := xAfterBalanceReadAt\<rparr>) = wallet_asked op"
  "wallet_asked (op\<lparr>wo_BalanceHistoryUsedAt := xBalanceHistoryUsedAt\<rparr>) = wallet_asked op"
  "wallet_asked (op\<lparr>wo_BeforeBalanceKnown := xBeforeBalanceKnown\<rparr>) = wallet_asked op"
  "wallet_asked (op\<lparr>wo_BeforeBalanceMicros := xBeforeBalanceMicros\<rparr>) = wallet_asked op"
  "wallet_asked (op\<lparr>wo_AfterBalanceKnown := xAfterBalanceKnown\<rparr>) = wallet_asked op"
  "wallet_asked (op\<lparr>wo_AfterBalanceMicros := xAfterBalanceMicros\<rparr>) = wallet_asked op"
  "wallet_asked (op\<lparr>wo_BalanceHistoryRef := xBalanceHistoryRef\<rparr>) = wallet_asked op"
  by (simp_all add: wallet_facts)

lemma v2_update [simp]:
  "v2_identity sha i (op\<lparr>wo_Status := xStatus\<rparr>) = v2_identity sha i op"
  "v2_identity sha i (op\<lparr>wo_Phase := xPhase\<rparr>) = v2_identity sha i op"
  "v2_identity sha i (op\<lparr>wo_ErrorCode := xErrorCode\<rparr>) = v2_identity sha i op"
  "v2_identity sha i (op\<lparr>wo_UpdatedAt := xUpdatedAt\<rparr>) = v2_identity sha i op"
  "v2_identity sha i (op\<lparr>wo_UpstreamFailure := xUpstreamFailure\<rparr>) = v2_identity sha i op"
  "v2_identity sha i (op\<lparr>wo_AdjustmentAttempted := xAdjustmentAttempted\<rparr>) = v2_identity sha i op"
  "v2_identity sha i (op\<lparr>wo_RecoveryAttempted := xRecoveryAttempted\<rparr>) = v2_identity sha i op"
  "v2_identity sha i (op\<lparr>wo_ReceiptID := xReceiptID\<rparr>) = v2_identity sha i op"
  "v2_identity sha i (op\<lparr>wo_RecoveryRequestHash := xRecoveryRequestHash\<rparr>) = v2_identity sha i op"
  "v2_identity sha i (op\<lparr>wo_RecoveryEvidenceRef := xRecoveryEvidenceRef\<rparr>) = v2_identity sha i op"
  "v2_identity sha i (op\<lparr>wo_RecoveryActorUserID := xRecoveryActorUserID\<rparr>) = v2_identity sha i op"
  "v2_identity sha i (op\<lparr>wo_RecoveryAuthorizedAt := xRecoveryAuthorizedAt\<rparr>) = v2_identity sha i op"
  "v2_identity sha i (op\<lparr>wo_BeforeBalanceReadAt := xBeforeBalanceReadAt\<rparr>) = v2_identity sha i op"
  "v2_identity sha i (op\<lparr>wo_AfterBalanceReadAt := xAfterBalanceReadAt\<rparr>) = v2_identity sha i op"
  "v2_identity sha i (op\<lparr>wo_BalanceHistoryUsedAt := xBalanceHistoryUsedAt\<rparr>) = v2_identity sha i op"
  "v2_identity sha i (op\<lparr>wo_BeforeBalanceKnown := xBeforeBalanceKnown\<rparr>) = v2_identity sha i op"
  "v2_identity sha i (op\<lparr>wo_BeforeBalanceMicros := xBeforeBalanceMicros\<rparr>) = v2_identity sha i op"
  "v2_identity sha i (op\<lparr>wo_AfterBalanceKnown := xAfterBalanceKnown\<rparr>) = v2_identity sha i op"
  "v2_identity sha i (op\<lparr>wo_AfterBalanceMicros := xAfterBalanceMicros\<rparr>) = v2_identity sha i op"
  "v2_identity sha i (op\<lparr>wo_BalanceHistoryRef := xBalanceHistoryRef\<rparr>) = v2_identity sha i op"
  by (simp_all add: wallet_facts)

lemma measured_update [simp]:
  "measured (op\<lparr>wo_Status := xStatus\<rparr>) = measured op"
  "measured (op\<lparr>wo_Phase := xPhase\<rparr>) = measured op"
  "measured (op\<lparr>wo_ErrorCode := xErrorCode\<rparr>) = measured op"
  "measured (op\<lparr>wo_UpdatedAt := xUpdatedAt\<rparr>) = measured op"
  "measured (op\<lparr>wo_UpstreamFailure := xUpstreamFailure\<rparr>) = measured op"
  "measured (op\<lparr>wo_AdjustmentAttempted := xAdjustmentAttempted\<rparr>) = measured op"
  "measured (op\<lparr>wo_RecoveryAttempted := xRecoveryAttempted\<rparr>) = measured op"
  "measured (op\<lparr>wo_ReceiptID := xReceiptID\<rparr>) = measured op"
  "measured (op\<lparr>wo_RecoveryRequestHash := xRecoveryRequestHash\<rparr>) = measured op"
  "measured (op\<lparr>wo_RecoveryEvidenceRef := xRecoveryEvidenceRef\<rparr>) = measured op"
  "measured (op\<lparr>wo_RecoveryActorUserID := xRecoveryActorUserID\<rparr>) = measured op"
  "measured (op\<lparr>wo_RecoveryAuthorizedAt := xRecoveryAuthorizedAt\<rparr>) = measured op"
  "measured (op\<lparr>wo_BeforeBalanceReadAt := xBeforeBalanceReadAt\<rparr>) = measured op"
  "measured (op\<lparr>wo_AfterBalanceReadAt := xAfterBalanceReadAt\<rparr>) = measured op"
  "measured (op\<lparr>wo_BalanceHistoryUsedAt := xBalanceHistoryUsedAt\<rparr>) = measured op"
  "measured (op\<lparr>wo_AfterBalanceKnown := xAfterBalanceKnown\<rparr>) = measured op"
  "measured (op\<lparr>wo_AfterBalanceMicros := xAfterBalanceMicros\<rparr>) = measured op"
  "measured (op\<lparr>wo_BalanceHistoryRef := xBalanceHistoryRef\<rparr>) = measured op"
  by (simp_all add: wallet_facts)

lemma confirms_error [simp]: "confirms (op\<lparr>wo_ErrorCode := x\<rparr>) e = confirms op e"
  by (simp add: confirms_def signed_amount_def)

lemma history_update [simp]:
  "in_history sha (op\<lparr>wo_Status := xStatus\<rparr>) = in_history sha op"
  "in_history sha (op\<lparr>wo_Phase := xPhase\<rparr>) = in_history sha op"
  "in_history sha (op\<lparr>wo_ErrorCode := xErrorCode\<rparr>) = in_history sha op"
  "in_history sha (op\<lparr>wo_UpdatedAt := xUpdatedAt\<rparr>) = in_history sha op"
  "in_history sha (op\<lparr>wo_UpstreamFailure := xUpstreamFailure\<rparr>) = in_history sha op"
  "in_history sha (op\<lparr>wo_AdjustmentAttempted := xAdjustmentAttempted\<rparr>) = in_history sha op"
  "in_history sha (op\<lparr>wo_RecoveryAttempted := xRecoveryAttempted\<rparr>) = in_history sha op"
  "in_history sha (op\<lparr>wo_ReceiptID := xReceiptID\<rparr>) = in_history sha op"
  "in_history sha (op\<lparr>wo_RecoveryRequestHash := xRecoveryRequestHash\<rparr>) = in_history sha op"
  "in_history sha (op\<lparr>wo_RecoveryEvidenceRef := xRecoveryEvidenceRef\<rparr>) = in_history sha op"
  "in_history sha (op\<lparr>wo_RecoveryActorUserID := xRecoveryActorUserID\<rparr>) = in_history sha op"
  "in_history sha (op\<lparr>wo_RecoveryAuthorizedAt := xRecoveryAuthorizedAt\<rparr>) = in_history sha op"
  "in_history sha (op\<lparr>wo_BeforeBalanceReadAt := xBeforeBalanceReadAt\<rparr>) = in_history sha op"
  "in_history sha (op\<lparr>wo_AfterBalanceReadAt := xAfterBalanceReadAt\<rparr>) = in_history sha op"
  "in_history sha (op\<lparr>wo_BalanceHistoryUsedAt := xBalanceHistoryUsedAt\<rparr>) = in_history sha op"
  "in_history sha (op\<lparr>wo_BeforeBalanceKnown := xBeforeBalanceKnown\<rparr>) = in_history sha op"
  "in_history sha (op\<lparr>wo_BeforeBalanceMicros := xBeforeBalanceMicros\<rparr>) = in_history sha op"
  "in_history sha (op\<lparr>wo_AfterBalanceKnown := xAfterBalanceKnown\<rparr>) = in_history sha op"
  "in_history sha (op\<lparr>wo_AfterBalanceMicros := xAfterBalanceMicros\<rparr>) = in_history sha op"
  by (simp_all add: wallet_facts)

lemma balanced_update [simp]:
  "balanced (op\<lparr>wo_Status := xStatus\<rparr>) = balanced op"
  "balanced (op\<lparr>wo_Phase := xPhase\<rparr>) = balanced op"
  "balanced (op\<lparr>wo_ErrorCode := xErrorCode\<rparr>) = balanced op"
  "balanced (op\<lparr>wo_UpdatedAt := xUpdatedAt\<rparr>) = balanced op"
  "balanced (op\<lparr>wo_UpstreamFailure := xUpstreamFailure\<rparr>) = balanced op"
  "balanced (op\<lparr>wo_AdjustmentAttempted := xAdjustmentAttempted\<rparr>) = balanced op"
  "balanced (op\<lparr>wo_RecoveryAttempted := xRecoveryAttempted\<rparr>) = balanced op"
  "balanced (op\<lparr>wo_ReceiptID := xReceiptID\<rparr>) = balanced op"
  "balanced (op\<lparr>wo_RecoveryRequestHash := xRecoveryRequestHash\<rparr>) = balanced op"
  "balanced (op\<lparr>wo_RecoveryEvidenceRef := xRecoveryEvidenceRef\<rparr>) = balanced op"
  "balanced (op\<lparr>wo_RecoveryActorUserID := xRecoveryActorUserID\<rparr>) = balanced op"
  "balanced (op\<lparr>wo_RecoveryAuthorizedAt := xRecoveryAuthorizedAt\<rparr>) = balanced op"
  "balanced (op\<lparr>wo_BeforeBalanceReadAt := xBeforeBalanceReadAt\<rparr>) = balanced op"
  "balanced (op\<lparr>wo_AfterBalanceReadAt := xAfterBalanceReadAt\<rparr>) = balanced op"
  "balanced (op\<lparr>wo_BalanceHistoryUsedAt := xBalanceHistoryUsedAt\<rparr>) = balanced op"
  "balanced (op\<lparr>wo_BalanceHistoryRef := xBalanceHistoryRef\<rparr>) = balanced op"
  by (simp_all add: wallet_facts)

definition wallet_sound :: "(string \<Rightarrow> string) \<Rightarrow> string \<Rightarrow> wallet_operation \<Rightarrow> bool" where
  "wallet_sound sha i op \<longleftrightarrow>
     v2_identity sha i op \<and> wo_LegacySupersession op = [] \<and> wallet_asked op \<and>
     wo_Phase op \<in> {''before_balance'', ''adjustment'', ''authoritative_readback'', ''after_balance'', ''ledger'', ''audit'',
       ''manual_review_audit'', ''complete''} \<and>
     (wo_Phase op \<noteq> ''before_balance'' \<and> wo_Phase op \<noteq> ''complete'' \<or> wo_Status op \<in> {''succeeded'', ''manual_review''} \<longrightarrow> measured op) \<and>
     (wo_Phase op \<in> {''after_balance'', ''ledger'', ''audit''} \<or> wo_Status op = ''succeeded'' \<longrightarrow> in_history sha op) \<and>
     (wo_Phase op \<in> {''ledger'', ''audit''} \<or> wo_Status op = ''succeeded'' \<longrightarrow> balanced op) \<and>
     (wo_Phase op = ''audit'' \<or> wo_Status op = ''succeeded'' \<longrightarrow> wo_ReceiptID op \<noteq> []) \<and>
     (wo_Phase op = ''complete'' \<longleftrightarrow> wo_Status op = ''succeeded'' \<or> wo_Status op = ''failed'') \<and>
     (wo_Phase op = ''before_balance'' \<or> wo_Status op = ''failed'' \<longrightarrow> \<not> wo_AdjustmentAttempted op \<and> \<not> wo_RecoveryAttempted op)"

definition wallet_step :: "(string \<Rightarrow> string) \<Rightarrow> string \<Rightarrow> wallet_operation \<Rightarrow> wallet_operation \<Rightarrow> bool" where
  "wallet_step sha i op p \<longleftrightarrow> wallet_identity p = wallet_identity op \<and> wallet_sound sha i p"

definition wallet_call_ok :: "(string \<Rightarrow> string) \<Rightarrow> string \<Rightarrow> wallet_operation \<Rightarrow> wallet_call \<Rightarrow> bool" where
  "wallet_call_ok sha i op c \<longleftrightarrow>
     (case c of
        WRead _ \<Rightarrow> True
      | WSave p _ \<Rightarrow> wallet_step sha i op p
      | WCharge x \<Rightarrow> wo_Kind op = ''debit'' \<and> x = wallet_charge_input op
      | WRefund x \<Rightarrow> wo_Kind op \<noteq> ''debit'' \<and> x = wallet_charge_input op
      | WReceipt x \<Rightarrow> \<exists>p. wallet_step sha i op p \<and> wo_Phase p = ''ledger'' \<and> x = walletAdjustmentReceipt i p
      | WAudit _ _ \<Rightarrow> True)"

lemma wallet_call_simps [simp]:
  "wallet_call_ok sha i op (WRead w)" "wallet_call_ok sha i op (WAudit e b)" "wallet_call_ok sha i op (WSave p b) = wallet_step sha i op p"
  by (simp_all add: wallet_call_ok_def)

lemma code_nonempty [simp]: "walletAdjustmentRedeemCode sha i \<noteq> []"
  by (simp add: walletAdjustmentRedeemCode_def)

lemma assign_code_v2 [simp]: "v2_identity sha i op \<Longrightarrow> assign_code sha' j op = op"
  by (auto simp: assign_code_def v2_identity_def)

lemma wallet_stepD: "wallet_step sha i op p \<Longrightarrow> v2_identity sha i p"
  by (simp add: wallet_step_def wallet_sound_def)

lemma wallet_step_update [simp]:
  "wallet_step sha i op (p\<lparr>wo_UpdatedAt := t\<rparr>) = wallet_step sha i op p"
  "wallet_step sha i op (p\<lparr>wo_UpstreamFailure := f\<rparr>) = wallet_step sha i op p"
  "wallet_step sha i op (p\<lparr>wo_ErrorCode := t\<rparr>) = wallet_step sha i op p"
  "wallet_step sha i op (p\<lparr>wo_AfterBalanceReadAt := t\<rparr>) = wallet_step sha i op p"
  "wallet_step sha i op (p\<lparr>wo_BeforeBalanceReadAt := t\<rparr>) = wallet_step sha i op p"
  by (simp_all add: wallet_step_def wallet_sound_def)

lemma wallet_step_failure [simp]:
  "wallet_step sha i op (recordWalletAdjustmentUpstreamFailure ph e c p) = wallet_step sha i op p"
  by (auto simp: recordWalletAdjustmentUpstreamFailure_def split: option.split)

section \<open>Writing\<close>

lemma does_wpeekI: "P (WRead what) \<Longrightarrow> (\<And>a. Q a) \<Longrightarrow> does P (wpeek what answer) Q"
  unfolding wpeek_def by (rule does_ask) simp_all

lemma does_now [does_rules]: "P (WRead ''now'') \<Longrightarrow> (\<And>t. Q t) \<Longrightarrow> does P (now_text sv) Q"
  unfolding now_text_def by (intro does_bindI does_wpeekI does_ret)

lemma does_askI: "(\<And>a. P (e a)) \<Longrightarrow> (\<And>a. Q a) \<Longrightarrow> does P (ask f e) Q"
  by (rule does_ask)

lemma does_history: "(x = HistoryAbsent \<Longrightarrow> does P a Q) \<Longrightarrow> (\<And>e. x = HistoryConfirmed e \<Longrightarrow> does P (f e) Q) \<Longrightarrow> (x = HistoryConflict \<Longrightarrow> does P b Q) \<Longrightarrow>
    does P (case x of HistoryAbsent \<Rightarrow> a | HistoryConfirmed e \<Rightarrow> f e | HistoryConflict \<Rightarrow> b) Q"
  by (cases x) simp_all

lemmas wallet_wp = does_bindI does_ret does_wpeekI does_askI does_cases does_history

lemma does_write:
  assumes "wallet_step sha i op p" "\<And>ok t. Q (ok, p\<lparr>wo_UpdatedAt := t\<rparr>)"
  shows "does (wallet_call_ok sha i op) (persistWalletAdjustment sv j p) Q"
  unfolding persistWalletAdjustment_def Let_def using assms wallet_stepD [OF assms(1)]
  by (intro wallet_wp does_now) simp_all

lemma does_save_phase [does_rules]:
  assumes "wallet_step sha i op p" "\<And>t. Q (Inr (p\<lparr>wo_UpdatedAt := t\<rparr>))" "\<And>t. Q (Inl (p\<lparr>wo_UpdatedAt := t\<rparr>, Some WalletState))"
  shows "does (wallet_call_ok sha i op) (save_phase sv j p) Q"
  unfolding save_phase_def using assms by (intro does_bindI does_write) (auto intro: does_ret)

lemma does_save_end [does_rules]:
  assumes "wallet_step sha i op p" "\<And>t e. Q (Inl (p\<lparr>wo_UpdatedAt := t\<rparr>, e))"
  shows "does (wallet_call_ok sha i op) (save_end sv j p e) Q"
  unfolding save_end_def using assms by (intro does_bindI does_write) (auto intro: does_ret)

lemma does_end_recovery [does_rules]:
  assumes "wallet_step sha i op p" "\<And>t e. Q (p\<lparr>wo_UpdatedAt := t\<rparr>, e)"
  shows "does (wallet_call_ok sha i op) (end_recovery sv j p e) Q"
  unfolding end_recovery_def using assms by (intro does_bindI does_write) (auto intro: does_ret)

text \<open>What a phase leaves: an operation that makes sense again.\<close>

definition leaves :: "(string \<Rightarrow> string) \<Rightarrow> string \<Rightarrow> wallet_operation \<Rightarrow> (wallet_end, wallet_operation) res \<Rightarrow> bool" where
  "leaves sha i op r \<longleftrightarrow> (case r of Inl (p, _) \<Rightarrow> wallet_step sha i op p | Inr p \<Rightarrow> wallet_step sha i op p)"

lemma leaves_simps [simp]: "leaves sha i op (Inl (p, e)) = wallet_step sha i op p" "leaves sha i op (Inr p) = wallet_step sha i op p"
  by (simp_all add: leaves_def)

lemma wallet_step_measured:
  "wallet_step sha i op p \<Longrightarrow> wo_Phase p \<noteq> ''before_balance'' \<Longrightarrow> wo_Phase p \<noteq> ''complete'' \<Longrightarrow> measured p"
  by (simp add: wallet_step_def wallet_sound_def)

lemma review_step:
  assumes "wallet_step sha i op p" "measured p"
  shows "wallet_step sha i op (p\<lparr>wo_Status := ''pending'', wo_Phase := ''manual_review_audit'', wo_ErrorCode := code\<rparr>)"
    "wallet_step sha i op (p\<lparr>wo_Status := ''manual_review'', wo_Phase := ''authoritative_readback''\<rparr>)"
  using assms by (simp_all add: wallet_step_def wallet_sound_def)

lemma does_manual_review [does_rules]:
  assumes p: "wallet_step sha i op p" "measured p"
  shows "does (wallet_call_ok sha i op) (manualReviewWalletAdjustment sv r j p code) (leaves sha i op)"
proof -
  have noted: "wallet_step sha i op q \<and> measured q \<Longrightarrow>
      does (wallet_call_ok sha i op) (save_end sv j (q\<lparr>wo_Status := ''manual_review'', wo_Phase := ''authoritative_readback''\<rparr>) e) (leaves sha i op)" for q e
    using review_step(2) [of sha i op q] by (intro does_rules) simp_all
  have "does (wallet_call_ok sha i op) (if wo_Phase p \<noteq> ''manual_review_audit''
      then save_phase sv j (p\<lparr>wo_Status := ''pending'', wo_Phase := ''manual_review_audit'', wo_ErrorCode := code\<rparr>) else ret (Inr p))
    (\<lambda>x. case x of Inl (q, _) \<Rightarrow> wallet_step sha i op q | Inr q \<Rightarrow> wallet_step sha i op q \<and> measured q)"
    using p review_step [OF p] by (intro wallet_wp does_rules) simp_all
  then show ?thesis
    unfolding manualReviewWalletAdjustment_def saveWalletAdjustmentAudit_def save_audit_def
    by (rule does_bind) (auto intro!: wallet_wp noted split: sum.splits)
qed

lemma noted_simps [simp]:
  "measured (note_history sha e p) = measured p" "wallet_asked (note_history sha e p) = wallet_asked p"
  "v2_identity sha' i (note_history sha e p) = v2_identity sha' i p" "wallet_identity (note_history sha e p) = wallet_identity p"
  "wo_LegacySupersession (note_history sha e p) = wo_LegacySupersession p" "wo_AdjustmentAttempted (note_history sha e p) = wo_AdjustmentAttempted p"
  "wo_RecoveryAttempted (note_history sha e p) = wo_RecoveryAttempted p" "wo_Status (note_history sha e p) = wo_Status p"
  by (simp_all add: note_history_def)

lemma noted_history [simp]: "confirms p e \<Longrightarrow> in_history sha (note_history sha e p)"
  by (auto simp: in_history_def note_history_def confirms_def signed_amount_def)

section \<open>Phases\<close>

lemma failure_measured [simp]: "measured (recordWalletAdjustmentUpstreamFailure ph e c p) = measured p"
  by (auto simp: recordWalletAdjustmentUpstreamFailure_def split: option.split)

lemma does_before_balance:
  assumes p: "wallet_step sha i op p" "wo_Phase p = ''before_balance''" and b: "\<And>l u b. ws_Balance sv l u = Inr b \<Longrightarrow> wb_USDMicros b \<le> max_int64"
  shows "does (wallet_call_ok sha i op) (before_balance_phase sv j p) (leaves sha i op)"
proof -
  have failed: "does (wallet_call_ok sha i op) (before_balance_failed sv j p e) (leaves sha i op)" for e
    unfolding before_balance_failed_def using p by (intro does_rules) simp_all
  have asked: "wallet_sound sha i p" "wallet_identity p = wallet_identity op" using p by (simp_all add: wallet_step_def)
  have fits: "wallet_step sha i op (p\<lparr>wo_BeforeBalanceKnown := True, wo_BeforeBalanceMicros := m, wo_BeforeBalanceReadAt := t, wo_Phase := ''adjustment''\<rparr>)"
    if "0 \<le> m" "m \<le> max_int64" "amount_fits p m" for m t
    using asked p(2) that by (simp add: wallet_step_def wallet_sound_def measured_def amount_fits_def)
  have refused: "wallet_step sha i op (p\<lparr>wo_BeforeBalanceKnown := True, wo_BeforeBalanceMicros := m, wo_BeforeBalanceReadAt := t,
      wo_Status := ''failed'', wo_Phase := ''complete'', wo_ErrorCode := c\<rparr>)" for m t c
    using asked p(2) by (simp add: wallet_step_def wallet_sound_def)
  have ask: "does (wallet_call_ok sha i op) (wpeek ''Balance'' (\<lambda>log. ws_Balance sv log (wo_Sub2APIUserID p)))
      (\<lambda>a. \<forall>b. a = Inr b \<longrightarrow> wb_USDMicros b \<le> max_int64)"
    by (auto simp: does_def wpeek_def ask_def intro: b)
  show ?thesis
    unfolding before_balance_phase_def Let_def
    by (rule does_bind [OF ask]) (use failed fits refused in \<open>intro wallet_wp does_rules; simp add: not_less\<close>)
qed

lemma does_adjust:
  assumes "wallet_identity p = wallet_identity op" "\<And>a. Q a"
  shows "does (wallet_call_ok sha i op) (adjust_wallet sv p) Q"
proof -
  have "wallet_charge_input p = wallet_charge_input op" "wo_Kind p = wo_Kind op"
    using assms(1) by (simp_all add: wallet_charge_input_def wallet_identity_def)
  then show ?thesis
    unfolding adjust_wallet_def Let_def using assms(2) by (intro wallet_wp) (simp_all add: wallet_call_ok_def)
qed

lemma does_adjustment:
  assumes p: "wallet_step sha i op p" "wo_Phase p = ''adjustment''"
  shows "does (wallet_call_ok sha i op) (adjustment_phase sv r j p) (leaves sha i op)"
proof -
  have m: "measured p" using wallet_step_measured [OF p(1)] p(2) by simp
  have on: "wallet_step sha i op (p\<lparr>wo_Phase := ''authoritative_readback''\<rparr>)"
    "wallet_step sha i op (p\<lparr>wo_AdjustmentAttempted := True, wo_Phase := ''authoritative_readback''\<rparr>)"
    using p m by (simp_all add: wallet_step_def wallet_sound_def)
  have id: "wallet_identity p = wallet_identity op" using p(1) by (simp add: wallet_step_def)
  show ?thesis
    unfolding adjustment_phase_def Let_def using p m on id
    by (intro wallet_wp does_rules does_adjust) auto
qed

lemma does_readback:
  assumes p: "wallet_step sha i op p" "wo_Phase p = ''authoritative_readback''" and sha: "ws_sha sv = sha"
  shows "does (wallet_call_ok sha i op) (readback_phase sv r j p) (leaves sha i op)"
proof -
  have m: "measured p" using wallet_step_measured [OF p(1)] p(2) by simp
  have found: "wallet_step sha i op ((note_history sha e p)\<lparr>wo_Phase := ''after_balance''\<rparr>)" if "confirms p e" for e
    using p m that by (simp add: wallet_step_def wallet_sound_def)
  show ?thesis
    unfolding readback_phase_def Let_def sha using p m found
    by (intro wallet_wp does_rules) (simp_all add: inspected_confirmed)
qed

text \<open>The expected balance never leaves 64 bits, so it does not wrap around.\<close>

lemma measured_expected: "measured p \<Longrightarrow> wallet_asked p \<Longrightarrow> wrap64 (wo_BeforeBalanceMicros p + signed_amount p) = wo_BeforeBalanceMicros p + signed_amount p"
  by (intro wrap64_id)
     (auto simp: measured_def wallet_asked_def amount_fits_def signed_amount_def int64_range_def min_int64_def max_int64_def
       maxWalletAdjustmentUSDMicros_def split: if_splits)

lemma does_after_balance:
  assumes p: "wallet_step sha i op p" "wo_Phase p = ''after_balance''"
  shows "does (wallet_call_ok sha i op) (after_balance_phase sv r j p) (leaves sha i op)"
proof -
  have m: "measured p" using wallet_step_measured [OF p(1)] p(2) by simp
  have e: "wrap64 (wo_BeforeBalanceMicros p + signed_amount p) = wo_BeforeBalanceMicros p + signed_amount p"
    using m p(1) by (intro measured_expected) (simp_all add: wallet_step_def wallet_sound_def)
  have found: "wallet_step sha i op (p\<lparr>wo_AfterBalanceKnown := True, wo_AfterBalanceMicros := wo_BeforeBalanceMicros p + signed_amount p,
      wo_AfterBalanceReadAt := t, wo_Phase := ''ledger''\<rparr>)" for t
    using p m by (auto simp: wallet_step_def wallet_sound_def balanced_def signed_amount_def)
  show ?thesis
    unfolding after_balance_phase_def Let_def e using p m found
    by (intro wallet_wp does_rules) simp_all
qed

lemma does_ledger:
  assumes p: "wallet_step sha i op p" "wo_Phase p = ''ledger''"
  shows "does (wallet_call_ok sha i op) (ledger_phase sv i p) (leaves sha i op)"
proof -
  have "wallet_step sha i op (p\<lparr>wo_ReceiptID := rid, wo_Phase := ''audit''\<rparr>)" if "rid \<noteq> []" for rid
    using p that by (auto simp: wallet_step_def wallet_sound_def)
  moreover have "wallet_call_ok sha i op (WReceipt (walletAdjustmentReceipt i p))"
    using p by (auto simp: wallet_call_ok_def)
  ultimately show ?thesis
    unfolding ledger_phase_def using p by (intro wallet_wp does_rules) simp_all
qed

lemma does_audit:
  assumes p: "wallet_step sha i op p" "wo_Phase p = ''audit''"
  shows "does (wallet_call_ok sha i op) (audit_phase sv r j p) (leaves sha i op)"
proof -
  have "wallet_step sha i op (p\<lparr>wo_Status := ''succeeded'', wo_Phase := ''complete'', wo_ErrorCode := []\<rparr>)"
    using p by (auto simp: wallet_step_def wallet_sound_def)
  then show ?thesis
    unfolding audit_phase_def saveWalletAdjustmentAudit_def save_audit_def using p by (intro wallet_wp does_rules) simp_all
qed

text \<open>A balance is \<^verbatim>\<open>int64\<close>, and the digest stays the same function.\<close>

definition int64_balances :: "wallet_services \<Rightarrow> bool" where
  "int64_balances sv \<longleftrightarrow> (\<forall>l u b. ws_Balance sv l u = Inr b \<longrightarrow> wb_USDMicros b \<le> max_int64)"

lemma does_phase:
  assumes "wallet_step sha i op p" "ws_sha sv = sha" "int64_balances sv"
  shows "does (wallet_call_ok sha i op) (wallet_phase sv r i p) (leaves sha i op)"
  unfolding wallet_phase_def Let_def using assms
  by (intro does_if does_before_balance does_adjustment does_readback does_after_balance does_ledger does_audit does_manual_review does_ret)
     (simp_all add: int64_balances_def wallet_step_measured)

lemma does_wallet_rounds:
  assumes "ws_sha sv = sha" "int64_balances sv"
  shows "wallet_step sha i op p \<Longrightarrow> does (wallet_call_ok sha i op) (wallet_rounds n sv r i p) (\<lambda>(q, _). wallet_step sha i op q)"
proof (induction n arbitrary: p)
  case 0
  then show ?case by (simp add: does_ret)
next
  case (Suc n)
  show ?case
    unfolding wallet_rounds.simps
    by (rule does_bind [OF does_phase [OF Suc.prems assms]]) (auto intro!: does_ret Suc.IH split: sum.splits)
qed

section \<open>Recovery\<close>

text \<open>A recovery is for an adjustment under review, whose balance before is known.\<close>

definition reviewed_step :: "(string \<Rightarrow> string) \<Rightarrow> string \<Rightarrow> wallet_operation \<Rightarrow> wallet_operation \<Rightarrow> bool" where
  "reviewed_step sha i op p \<longleftrightarrow> wallet_step sha i op p \<and> measured p"

lemma reviewed_update [simp]:
  "reviewed_step sha i op (p\<lparr>wo_UpdatedAt := t\<rparr>) = reviewed_step sha i op p"
  "reviewed_step sha i op (p\<lparr>wo_ErrorCode := t\<rparr>) = reviewed_step sha i op p"
  "reviewed_step sha i op (recordWalletAdjustmentUpstreamFailure ph e c p) = reviewed_step sha i op p"
  "reviewed_step sha i op (p\<lparr>wo_RecoveryRequestHash := a, wo_RecoveryEvidenceRef := b, wo_RecoveryActorUserID := d, wo_RecoveryAuthorizedAt := t\<rparr>) =
   reviewed_step sha i op p"
  by (simp_all add: reviewed_step_def) (simp add: wallet_step_def wallet_sound_def)

lemma does_end_reviewed:
  assumes "reviewed_step sha i op p" "\<And>q e. wallet_step sha i op q \<Longrightarrow> Q (q, e)"
  shows "does (wallet_call_ok sha i op) (end_recovery sv j p e) Q"
  using assms by (intro does_rules) (simp_all add: reviewed_step_def)

lemma adopted_code [simp]: "v2_identity sha i p \<Longrightarrow> p\<lparr>wo_CanonicalRedeemCode := walletAdjustmentRedeemCode sha i, wo_RedeemCodeVersion := ''v2''\<rparr> = p"
  by (simp add: v2_identity_def)

lemma reviewed_measured: "wallet_step sha i op p \<Longrightarrow> wo_Status p = ''manual_review'' \<Longrightarrow> measured p"
  unfolding wallet_step_def wallet_sound_def by simp

lemma adopt_step: "reviewed_step sha i op p \<Longrightarrow> confirms p e \<Longrightarrow> wallet_step sha i op ((note_history sha e p)\<lparr>wo_Status := ''pending'', wo_Phase := ''after_balance''\<rparr>)"
  by (simp add: reviewed_step_def wallet_step_def wallet_sound_def)

lemma retry_step: "reviewed_step sha i op p \<Longrightarrow>
    wallet_step sha i op (p\<lparr>wo_RecoveryAttempted := True, wo_AdjustmentAttempted := False, wo_Status := ''pending'', wo_Phase := ''adjustment''\<rparr>)"
  by (simp add: reviewed_step_def wallet_step_def wallet_sound_def)

lemma reviewed_code: "reviewed_step sha i op p \<Longrightarrow> wo_CanonicalRedeemCode p \<noteq> [] \<and> v2_identity sha i p"
  by (auto simp: reviewed_step_def wallet_step_def wallet_sound_def v2_identity_def)

lemma does_retry_recovery:
  assumes p: "reviewed_step sha i op p" and sha: "ws_sha sv = sha" and Q: "\<And>q e. wallet_step sha i op q \<Longrightarrow> Q (q, e)"
  shows "does (wallet_call_ok sha i op) (retry_recovery sv i p) Q"
proof -
  have "\<not> legacy_identity p" using reviewed_code [OF p] by (simp add: legacy_identity_def)
  then show ?thesis
    unfolding retry_recovery_def Let_def using p Q retry_step [OF p]
    by (intro wallet_wp does_end_recovery) (simp_all add: reviewed_step_def)
qed

lemma does_recovery_readback:
  assumes p: "reviewed_step sha i op p" and sha: "ws_sha sv = sha" and Q: "\<And>q e. wallet_step sha i op q \<Longrightarrow> Q (q, e)"
  shows "does (wallet_call_ok sha i op) (recovery_readback sv i p) Q"
proof -
  note code = reviewed_code [OF p]
  have adopt: "does (wallet_call_ok sha i op) (adopt_history sv i q e) Q" if "reviewed_step sha i op q" "confirms q e" for q e
    unfolding adopt_history_def sha using adopt_step [OF that] Q by (intro does_end_recovery) simp_all
  have found: "inspectWalletAdjustmentHistory h (walletAdjustmentRedeemCode sha i) p = HistoryConfirmed e \<Longrightarrow> confirms p e" for h e
    using code by (intro inspect_confirmed) (simp_all add: v2_identity_def)
  have history: "does (wallet_call_ok sha i op) (recover_by_history sv i p h) Q" for h
    unfolding recover_by_history_def Let_def sha
    using code p Q sha by (intro does_if does_history does_end_reviewed adopt does_retry_recovery) (simp_all add: found)
  show ?thesis
    unfolding recovery_readback_def using p Q
    by (intro wallet_wp does_end_reviewed history) (simp_all add: reviewed_step_def)
qed

lemma does_prepare:
  assumes p: "wallet_step sha i op p" "wo_Status p = ''manual_review''" and sha: "ws_sha sv = sha"
  shows "does (wallet_call_ok sha i op) (prepareWalletAdjustmentRecovery sv i p h e a) (\<lambda>(q, _). wallet_step sha i op q)"
proof -
  have r: "reviewed_step sha i op p" using p(1) reviewed_measured [OF p] by (simp add: reviewed_step_def)
  then have n: "reviewed_step sha i op (p\<lparr>wo_RecoveryRequestHash := h, wo_RecoveryEvidenceRef := e, wo_RecoveryActorUserID := a, wo_RecoveryAuthorizedAt := t\<rparr>)" for t
    by simp
  then have w: "wallet_step sha i op (p\<lparr>wo_RecoveryRequestHash := h, wo_RecoveryEvidenceRef := e, wo_RecoveryActorUserID := a, wo_RecoveryAuthorizedAt := t\<rparr>)" for t
    by (simp add: reviewed_step_def)
  show ?thesis
    unfolding prepareWalletAdjustmentRecovery_def using p(1) r n w sha
    by (intro wallet_wp does_rules does_recovery_readback) auto
qed

end
