(* ===== verification/CP_Wallet_Claims.thy ===== *)
theory CP_Wallet_Claims
  imports CP_Wallet_Life Ledger_Rules
begin

text \<open>
  How often an adjustment can move money, over its whole life: it is opened, run and recovered any
  number of times, and each run and each recovery may be cut off after any call.
\<close>

section \<open>What the table holds after a log\<close>

fun latest :: "wallet_operation \<Rightarrow> wcalls \<Rightarrow> wallet_operation" where
  "latest op [] = op"
| "latest op (c # log) = (case c of WSave p True \<Rightarrow> p | _ \<Rightarrow> latest op log)"

text \<open>A write that was refused may have reached the table or not.\<close>

fun stored :: "wallet_operation \<Rightarrow> wcalls \<Rightarrow> wallet_operation \<Rightarrow> bool" where
  "stored op [] q \<longleftrightarrow> q = op"
| "stored op (c # log) q \<longleftrightarrow>
     (case c of WSave p ok \<Rightarrow> q = p \<or> \<not> ok \<and> stored op log q | _ \<Rightarrow> stored op log q)"

definition moves_money :: "wallet_call \<Rightarrow> bool" where
  "moves_money c \<longleftrightarrow> (case c of WCharge _ \<Rightarrow> True | WRefund _ \<Rightarrow> True | _ \<Rightarrow> False)"

definition moves :: "wcalls \<Rightarrow> nat" where
  "moves log = length (filter moves_money log)"

lemma moves_simps [simp]:
  "moves [] = 0" "moves (WRead w # l) = moves l" "moves (WSave p b # l) = moves l" "moves (WReceipt x # l) = moves l"
  "moves (WAudit e b # l) = moves l" "moves (WCharge i # l) = Suc (moves l)" "moves (WRefund i # l) = Suc (moves l)"
  by (simp_all add: moves_def moves_money_def)

text \<open>Logs in which money moves only after a write that notes the attempt, and only if none was
  noted before; no write takes an attempt back.\<close>

fun fair :: "wallet_operation \<Rightarrow> wcalls \<Rightarrow> bool" where
  "fair op [] = True"
| "fair op (c # log) =
     (fair op log \<and>
      (case c of
         WSave p _ \<Rightarrow> (wo_AdjustmentAttempted (latest op log) \<longrightarrow> wo_AdjustmentAttempted p) \<and>
                       wo_RecoveryAttempted p = wo_RecoveryAttempted op
       | WCharge _ \<Rightarrow> \<not> wo_AdjustmentAttempted op \<and> moves log = 0 \<and> wo_AdjustmentAttempted (latest op log)
       | WRefund _ \<Rightarrow> \<not> wo_AdjustmentAttempted op \<and> moves log = 0 \<and> wo_AdjustmentAttempted (latest op log)
       | _ \<Rightarrow> True))"

lemma fair_suffix: "fair op (later @ earlier) \<Longrightarrow> fair op earlier"
  by (induction later) auto

lemma stored_noted: "fair op log \<Longrightarrow> wo_AdjustmentAttempted (latest op log) \<Longrightarrow> stored op log q \<Longrightarrow> wo_AdjustmentAttempted q"
  by (induction op log rule: fair.induct) (auto split: wallet_call.splits bool.splits)

lemma moved_noted: "fair op log \<Longrightarrow> 0 < moves log \<Longrightarrow> wo_AdjustmentAttempted (latest op log)"
  by (induction op log rule: fair.induct) (auto split: wallet_call.splits bool.splits)

lemma latest_noted: "fair op log \<Longrightarrow> wo_AdjustmentAttempted op \<Longrightarrow> wo_AdjustmentAttempted (latest op log)"
  by (induction op log rule: fair.induct) (auto split: wallet_call.splits bool.splits)

lemma stored_recovery: "fair op log \<Longrightarrow> stored op log q \<Longrightarrow> wo_RecoveryAttempted q = wo_RecoveryAttempted op"
  by (induction op log rule: fair.induct) (auto split: wallet_call.splits)

lemma fair_moves: "fair op log \<Longrightarrow> moves log \<le> (if wo_AdjustmentAttempted op then 0 else 1)"
  by (induction op log rule: fair.induct) (auto split: wallet_call.splits)

text \<open>The attempts an operation has noted.\<close>

definition attempts :: "wallet_operation \<Rightarrow> nat" where
  "attempts op = (if wo_AdjustmentAttempted op then 1 else 0) + (if wo_RecoveryAttempted op then 1 else 0)"

lemma fair_attempts:
  assumes "fair op log" "stored op log q" "k \<le> attempts op"
  shows "k + moves log \<le> attempts q"
proof -
  have r: "wo_RecoveryAttempted q = wo_RecoveryAttempted op" by (rule stored_recovery [OF assms(1,2)])
  have q: "wo_AdjustmentAttempted op \<or> 0 < moves log \<Longrightarrow> wo_AdjustmentAttempted q"
    using stored_noted [OF assms(1) _ assms(2)] moved_noted [OF assms(1)] latest_noted [OF assms(1)] by blast
  show ?thesis
    using assms(3) fair_moves [OF assms(1)] q r unfolding attempts_def
    by (cases "wo_AdjustmentAttempted op"; cases "moves log") (auto split: if_splits)
qed

section \<open>Runs are fair\<close>

text \<open>What is known of the operation in hand while the log grows.\<close>

definition in_hand :: "wallet_operation \<Rightarrow> wallet_operation \<Rightarrow> wcalls \<Rightarrow> bool" where
  "in_hand op p log \<longleftrightarrow>
     fair op log \<and> wo_RecoveryAttempted p = wo_RecoveryAttempted op \<and>
     (wo_AdjustmentAttempted (latest op log) \<longrightarrow> wo_AdjustmentAttempted p)"

definition same_flags :: "wallet_operation \<Rightarrow> wallet_operation \<Rightarrow> bool" where
  "same_flags p q \<longleftrightarrow> wo_AdjustmentAttempted q = wo_AdjustmentAttempted p \<and> wo_RecoveryAttempted q = wo_RecoveryAttempted p"

definition quiet :: "wallet_operation \<Rightarrow> wallet_call \<Rightarrow> bool" where
  "quiet p c \<longleftrightarrow> (case c of WSave q _ \<Rightarrow> same_flags p q | WCharge _ \<Rightarrow> False | WRefund _ \<Rightarrow> False | _ \<Rightarrow> True)"

lemma quiet_simps [simp]:
  "quiet p (WRead w)" "quiet p (WReceipt x)" "quiet p (WAudit e b)" "quiet p (WSave q b) = same_flags p q"
  by (simp_all add: quiet_def)

lemma quiet_in_hand: "quiet p c \<Longrightarrow> in_hand op p l \<Longrightarrow> in_hand op p (c # l)"
  by (auto simp: quiet_def in_hand_def same_flags_def split: wallet_call.splits bool.splits)

lemma in_hand_flags: "same_flags p q \<Longrightarrow> in_hand op p l \<Longrightarrow> in_hand op q l"
  by (simp add: in_hand_def same_flags_def)

lemma same_flags_update [simp]:
  "same_flags p p" "same_flags p (q\<lparr>wo_UpdatedAt := t\<rparr>) = same_flags p q" "same_flags p (q\<lparr>wo_Status := t\<rparr>) = same_flags p q"
  "same_flags p (q\<lparr>wo_Phase := t\<rparr>) = same_flags p q" "same_flags p (q\<lparr>wo_ErrorCode := t\<rparr>) = same_flags p q"
  "same_flags p (q\<lparr>wo_ReceiptID := t\<rparr>) = same_flags p q" "same_flags p (q\<lparr>wo_BeforeBalanceKnown := b\<rparr>) = same_flags p q"
  "same_flags p (q\<lparr>wo_BeforeBalanceMicros := n\<rparr>) = same_flags p q" "same_flags p (q\<lparr>wo_BeforeBalanceReadAt := t\<rparr>) = same_flags p q"
  "same_flags p (q\<lparr>wo_AfterBalanceKnown := b\<rparr>) = same_flags p q" "same_flags p (q\<lparr>wo_AfterBalanceMicros := n\<rparr>) = same_flags p q"
  "same_flags p (q\<lparr>wo_AfterBalanceReadAt := t\<rparr>) = same_flags p q" "same_flags p (note_history sha e q) = same_flags p q"
  "same_flags p (recordWalletAdjustmentUpstreamFailure ph err c q) = same_flags p q"
  "same_flags p (assign_code sha i q) = same_flags p q"
  by (auto simp: same_flags_def note_history_def recordWalletAdjustmentUpstreamFailure_def assign_code_def split: option.split)

definition quiet_end :: "wallet_operation \<Rightarrow> (wallet_end, wallet_operation) res \<Rightarrow> bool" where
  "quiet_end p r \<longleftrightarrow> (case r of Inl _ \<Rightarrow> True | Inr q \<Rightarrow> same_flags p q)"

lemma quiet_end_simps [simp]: "quiet_end p (Inl e)" "quiet_end p (Inr q) = same_flags p q"
  by (simp_all add: quiet_end_def)

lemma does_quiet_save:
  "same_flags p q \<Longrightarrow> (\<And>x. Q (Inl x)) \<Longrightarrow> (\<And>r. same_flags p r \<Longrightarrow> Q (Inr r)) \<Longrightarrow> does (quiet p) (save_phase sv j q) Q"
  unfolding save_phase_def persistWalletAdjustment_def Let_def by (intro wallet_wp does_now) auto

lemma does_quiet_end: "same_flags p q \<Longrightarrow> (\<And>x. Q (Inl x)) \<Longrightarrow> does (quiet p) (save_end sv j q e) Q"
  unfolding save_end_def persistWalletAdjustment_def Let_def by (intro wallet_wp does_now) auto

lemma does_quiet_review: "same_flags p q \<Longrightarrow> (\<And>x. Q (Inl x)) \<Longrightarrow> does (quiet p) (manualReviewWalletAdjustment sv r j q code) Q"
  unfolding manualReviewWalletAdjustment_def saveWalletAdjustmentAudit_def save_audit_def
  by (intro wallet_wp does_quiet_save does_quiet_end) auto

lemmas quiet_rules = wallet_wp does_now does_quiet_save does_quiet_end does_quiet_review

lemma does_quiet_phase:
  assumes "wo_Phase p \<noteq> ''adjustment''"
  shows "does (quiet p) (wallet_phase sv r i p) (quiet_end p)"
  unfolding wallet_phase_def Let_def before_balance_phase_def before_balance_failed_def readback_phase_def after_balance_phase_def
    ledger_phase_def audit_phase_def saveWalletAdjustmentAudit_def save_audit_def
  using assms by (intro quiet_rules) (auto intro: does_ret)

lemma runs_at: "(\<And>l0. P l0 \<Longrightarrow> runs (\<lambda>l. l = l0) m Q) \<Longrightarrow> runs P m Q"
  by (auto simp: runs_def)

text \<open>Between the write that notes the attempt and the money.\<close>

definition about_to_move :: "wallet_operation \<Rightarrow> wallet_operation \<Rightarrow> wallet_operation \<Rightarrow> wcalls \<Rightarrow> bool" where
  "about_to_move op p q l \<longleftrightarrow>
     fair op l \<and> same_flags p q \<and> latest op l = q \<and> moves l = 0 \<and> \<not> wo_AdjustmentAttempted op \<and>
     wo_AdjustmentAttempted p \<and> wo_RecoveryAttempted p = wo_RecoveryAttempted op"

lemma runs_save_attempt:
  assumes "\<not> wo_AdjustmentAttempted p"
  defines "p' \<equiv> p\<lparr>wo_AdjustmentAttempted := True, wo_Phase := ''authoritative_readback''\<rparr>"
  shows "runs (in_hand op p) (save_phase sv j p') (\<lambda>r l. fair op l \<and> (case r of Inl _ \<Rightarrow> True | Inr q \<Rightarrow> about_to_move op p' q l))"
proof (rule runs_at)
  fix l0
  assume l0: "in_hand op p l0"
  then have "\<not> wo_AdjustmentAttempted (latest op l0)" using assms(1) by (auto simp: in_hand_def)
  then have "moves l0 = 0" "\<not> wo_AdjustmentAttempted op" "fair op l0" "wo_RecoveryAttempted p = wo_RecoveryAttempted op"
    using l0 moved_noted [of op l0] latest_noted [of op l0] by (auto simp: in_hand_def)
  then show "runs (\<lambda>l. l = l0) (save_phase sv j p') (\<lambda>r l. fair op l \<and> (case r of Inl _ \<Rightarrow> True | Inr q \<Rightarrow> about_to_move op p' q l))"
    unfolding p'_def
    by (auto simp: runs_def save_phase_def persistWalletAdjustment_def now_text_def wpeek_def run_calls Let_def about_to_move_def
        same_flags_def assign_code_def)
qed

lemma runs_adjust: "runs (about_to_move op p q) (adjust_wallet sv q) (\<lambda>_. in_hand op q)"
  unfolding adjust_wallet_def Let_def
  by (intro runs_if runs_ask) (auto simp: about_to_move_def in_hand_def same_flags_def)

text \<open>A phase in hand: it goes on in hand, and wherever it is cut off the log is fair.\<close>

definition goes_on :: "wallet_operation \<Rightarrow> (wallet_end, wallet_operation) res \<Rightarrow> wcalls \<Rightarrow> bool" where
  "goes_on op r l \<longleftrightarrow> fair op l \<and> (case r of Inl _ \<Rightarrow> True | Inr q \<Rightarrow> in_hand op q l)"

lemma goes_on_simps [simp]: "goes_on op (Inl e) l = fair op l" "goes_on op (Inr q) l = in_hand op q l"
  by (auto simp: goes_on_def in_hand_def)

lemma quiet_goes_on:
  assumes "does (quiet p) m (quiet_end p)"
  shows "runs (in_hand op p) m (goes_on op)"
proof -
  have "runs (in_hand op p) m (\<lambda>r l. quiet_end p r \<and> in_hand op p l)"
    using assms by (rule does_runs) (rule quiet_in_hand)
  then show ?thesis
    by (rule runs_post) (auto simp: goes_on_def in_hand_def quiet_end_def same_flags_def split: sum.splits)
qed

lemma runs_adjustment: "runs (in_hand op p) (adjustment_phase sv r i p) (goes_on op)"
proof -
  have after: "runs (in_hand op q) (case failed of None \<Rightarrow> ret (Inr q) | Some e \<Rightarrow>
      let op2 = recordWalletAdjustmentUpstreamFailure ''adjustment'' (Some e) ''adjustment_unconfirmed'' q
      in if \<not> se_unknown e \<and> \<not> se_conflict e then manualReviewWalletAdjustment sv r i op2 ''adjustment_unconfirmed'' else ret (Inr op2)) (goes_on op)" for q failed
    unfolding Let_def by (rule quiet_goes_on) (intro does_cases does_ret does_quiet_review; simp)
  have attempt: "runs (in_hand op p) (do { noted \<leftarrow> save_phase sv i (p\<lparr>wo_AdjustmentAttempted := True, wo_Phase := ''authoritative_readback''\<rparr>);
      case noted of Inl stopped \<Rightarrow> ret (Inl stopped) | Inr q \<Rightarrow> do { failed \<leftarrow> adjust_wallet sv q; case failed of None \<Rightarrow> ret (Inr q) | Some e \<Rightarrow>
      let op2 = recordWalletAdjustmentUpstreamFailure ''adjustment'' (Some e) ''adjustment_unconfirmed'' q
      in if \<not> se_unknown e \<and> \<not> se_conflict e then manualReviewWalletAdjustment sv r i op2 ''adjustment_unconfirmed'' else ret (Inr op2) } }) (goes_on op)"
    if "\<not> wo_AdjustmentAttempted p"
    by (rule runs_bind [OF runs_save_attempt [OF that]], rule runs_sum)
       (auto intro!: runs_ret runs_bind [OF runs_adjust after] runs_pre [OF runs_bind [OF runs_adjust after]])
  show ?thesis
    unfolding adjustment_phase_def
    by (intro runs_if runs_ret attempt) (auto simp: in_hand_def)
qed

lemma phase_in_hand: "runs (in_hand op p) (wallet_phase sv r i p) (goes_on op)"
proof (cases "wo_Phase p = ''adjustment''")
  case True
  then show ?thesis unfolding wallet_phase_def Let_def by (simp add: runs_adjustment)
next
  case False
  then show ?thesis by (intro quiet_goes_on does_quiet_phase)
qed

lemma rounds_in_hand: "runs (in_hand op p) (wallet_rounds n sv r i p) (\<lambda>_ l. fair op l)"
proof (induction n arbitrary: p)
  case 0
  then show ?case by (auto intro: runs_ret simp: in_hand_def)
next
  case (Suc n)
  show ?case
    unfolding wallet_rounds.simps
    by (rule runs_bind [OF phase_in_hand], rule runs_sum)
       (auto intro!: runs_ret runs_pre [OF Suc.IH] simp: goes_on_def)
qed

lemma run_is_fair: "snd (run_state (runWalletAdjustment sv r i op) []) = later @ earlier \<Longrightarrow> fair op earlier"
proof -
  assume l: "snd (run_state (runWalletAdjustment sv r i op) []) = later @ earlier"
  have "fair op (snd (run_state (runWalletAdjustment sv r i op) []))"
    using runsD [OF rounds_in_hand [of op op 8 sv r i], of "[]"] unfolding runWalletAdjustment_def
    by (cases "run_state (wallet_rounds 8 sv r i op) []") (simp add: in_hand_def)
  then show "fair op earlier" unfolding l by (rule fair_suffix)
qed

end
