(* ===== verification/CP_Wallet_Lives.thy ===== *)
theory CP_Wallet_Lives
  imports CP_Wallet_Claims
begin

text \<open>
  Whole lives of a wallet adjustment: it is opened by a valid request, run and recovered any number of
  times, each run and each recovery cut off after any call. Two attempts to move money at the most, the
  second only behind a recovery that saw neither an entry nor a changed balance; and success only with
  an entry, a matching balance and a receipt.
\<close>

section \<open>Recoveries move no money\<close>

text \<open>A write that opens a second attempt: some answer of the history had no entry under either
  code, and some answer of the balance was what it had been before the first attempt.\<close>

definition retry_checked :: "wallet_services \<Rightarrow> string \<Rightarrow> wallet_operation \<Rightarrow> wallet_operation \<Rightarrow> bool" where
  "retry_checked sv i p q \<longleftrightarrow>
     (wo_RecoveryAttempted q \<and> \<not> wo_RecoveryAttempted p \<longrightarrow>
      (\<exists>l h. ws_BalanceHistory sv l (wo_Sub2APIUserID p) = Inr h \<and>
         walletAdjustmentRedeemCode (ws_sha sv) i \<notin> we_Code ` set h \<and> legacyWalletAdjustmentRedeemCode (ws_sha sv) i \<notin> we_Code ` set h) \<and>
      (\<exists>l b. ws_Balance sv l (wo_Sub2APIUserID p) = Inr b \<and> balance_usable p b \<and> wb_USDMicros b = wo_BeforeBalanceMicros p))"

definition recovery_write :: "wallet_services \<Rightarrow> string \<Rightarrow> wallet_operation \<Rightarrow> wallet_operation \<Rightarrow> bool" where
  "recovery_write sv i p q \<longleftrightarrow> attempts q = attempts p \<and> retry_checked sv i p q"

definition recovery_call :: "wallet_services \<Rightarrow> string \<Rightarrow> wallet_operation \<Rightarrow> wallet_call \<Rightarrow> bool" where
  "recovery_call sv i p c \<longleftrightarrow>
     (case c of WSave q _ \<Rightarrow> recovery_write sv i p q | WCharge _ \<Rightarrow> False | WRefund _ \<Rightarrow> False | _ \<Rightarrow> True)"

lemma recovery_call_simps [simp]:
  "recovery_call sv i p (WRead w)" "recovery_call sv i p (WSave q b) = recovery_write sv i p q"
  by (simp_all add: recovery_call_def)

lemma same_flags_write: "same_flags p q \<Longrightarrow> recovery_write sv i p q"
  by (simp add: recovery_write_def same_flags_def attempts_def retry_checked_def)

lemma recovery_write_update [simp]:
  "recovery_write sv i p (q\<lparr>wo_UpdatedAt := t\<rparr>) = recovery_write sv i p q"
  "recovery_write sv i p (assign_code sha j q) = recovery_write sv i p q"
  by (simp_all add: recovery_write_def attempts_def retry_checked_def assign_code_def)

lemma does_recovery_end: "recovery_write sv i p q \<Longrightarrow> does (recovery_call sv i p) (end_recovery sv' j q e) (\<lambda>_. True)"
  unfolding end_recovery_def persistWalletAdjustment_def Let_def by (intro wallet_wp does_now) auto

lemma does_answer: "P (WRead what) \<Longrightarrow> (\<And>l. Q (f l)) \<Longrightarrow> does P (wpeek what f) Q"
  by (auto simp: does_def wpeek_def ask_def)

text \<open>What a recovery works on differs from the stored adjustment in notes only.\<close>

definition noted_from :: "wallet_operation \<Rightarrow> wallet_operation \<Rightarrow> bool" where
  "noted_from p q \<longleftrightarrow> same_flags p q \<and> wo_Sub2APIUserID q = wo_Sub2APIUserID p \<and> wo_BeforeBalanceMicros q = wo_BeforeBalanceMicros p"

lemma noted_from_update [simp]:
  "noted_from p p" "noted_from p (q\<lparr>wo_ErrorCode := t\<rparr>) = noted_from p q" "noted_from p (q\<lparr>wo_UpdatedAt := t\<rparr>) = noted_from p q"
  "noted_from p (q\<lparr>wo_RecoveryRequestHash := a, wo_RecoveryEvidenceRef := b, wo_RecoveryActorUserID := c, wo_RecoveryAuthorizedAt := t\<rparr>) = noted_from p q"
  "noted_from p (assign_code sha i q) = noted_from p q"
  by (auto simp: noted_from_def same_flags_def assign_code_def)

lemma noted_from_flags: "noted_from p q \<Longrightarrow> same_flags p q"
  by (simp add: noted_from_def)

lemma inspect_absent: "inspectWalletAdjustmentHistory h code op = HistoryAbsent \<Longrightarrow> code \<notin> we_Code ` set h"
  by (auto simp: inspectWalletAdjustmentHistory_def filter_empty_conv Let_def split: list.splits if_splits)

lemma does_retry_checked:
  assumes q: "noted_from p q" and h: "ws_BalanceHistory sv l (wo_Sub2APIUserID p) = Inr h"
    and absent: "walletAdjustmentRedeemCode (ws_sha sv) i \<notin> we_Code ` set h" "legacyWalletAdjustmentRedeemCode (ws_sha sv) i \<notin> we_Code ` set h"
  shows "does (recovery_call sv i p) (retry_recovery sv i q) (\<lambda>_. True)"
proof -
  have kept: "same_flags p q" using q by (rule noted_from_flags)
  have retried: "recovery_write sv i p (q'\<lparr>wo_RecoveryAttempted := True, wo_AdjustmentAttempted := False, wo_Status := s, wo_Phase := ph\<rparr>)"
    if "ws_Balance sv l' (wo_Sub2APIUserID q) = Inr b" "balance_usable q b" "wb_USDMicros b = wo_BeforeBalanceMicros q"
      "wo_AdjustmentAttempted q" "\<not> wo_RecoveryAttempted q" for q' b l' s ph
    using q h absent that
    by (auto simp: recovery_write_def attempts_def retry_checked_def noted_from_def same_flags_def balance_usable_def)
  have read: "does (recovery_call sv i p) (wpeek ''Balance'' (\<lambda>log. ws_Balance sv log (wo_Sub2APIUserID q)))
      (\<lambda>a. \<exists>l'. a = ws_Balance sv l' (wo_Sub2APIUserID q))"
    by (rule does_answer) auto
  have on: "does (recovery_call sv i p) (case a of
        Inl e \<Rightarrow> end_recovery sv i ((recordWalletAdjustmentUpstreamFailure ''recovery_balance'' (Some e) ''balance_readback_unavailable'' q)
                   \<lparr>wo_ErrorCode := ''wallet_adjustment_recovery_balance_unavailable''\<rparr>) None
      | Inr b \<Rightarrow>
          if \<not> balance_usable q b \<or> wb_USDMicros b \<noteq> wo_BeforeBalanceMicros q then
            end_recovery sv i (q\<lparr>wo_ErrorCode := ''wallet_adjustment_recovery_balance_changed''\<rparr>) (Some WalletConflict)
          else let q' = (if legacy_identity q then q\<lparr>wo_CanonicalRedeemCode := walletAdjustmentRedeemCode (ws_sha sv) i,
                             wo_RedeemCodeVersion := ''v2'', wo_LegacySupersession := ''v2_adopted''\<rparr> else q)
               in end_recovery sv i (q'\<lparr>wo_RecoveryAttempted := True, wo_AdjustmentAttempted := False,
                    wo_Status := ''pending'', wo_Phase := ''adjustment''\<rparr>) None) (\<lambda>_. True)"
    if a: "\<exists>l'. a = ws_Balance sv l' (wo_Sub2APIUserID q)" and e: "recovery_eligible (ws_sha sv) i q" for a
  proof -
    have flags: "wo_AdjustmentAttempted q" "\<not> wo_RecoveryAttempted q" using e by (simp_all add: recovery_eligible_def)
    obtain l' where l': "a = ws_Balance sv l' (wo_Sub2APIUserID q)" using a ..
    show ?thesis
    proof (cases a)
      case (Inl x)
      then show ?thesis using kept by (auto intro!: does_recovery_end same_flags_write)
    next
      case (Inr b)
      then have "ws_Balance sv l' (wo_Sub2APIUserID q) = Inr b" using l' by simp
      from retried [OF this _ _ flags] show ?thesis
        unfolding Inr sum.case Let_def using kept by (intro does_if does_recovery_end) (auto intro: same_flags_write)
    qed
  qed
  show ?thesis
    unfolding retry_recovery_def
    by (intro does_if does_recovery_end same_flags_write does_bind [OF read] on) (use kept in auto)
qed

lemma does_recovery_checked:
  assumes q: "noted_from p q"
  shows "does (recovery_call sv i p) (recovery_readback sv i q) (\<lambda>_. True)"
proof -
  have kept: "same_flags p q" using q by (rule noted_from_flags)
  have read: "does (recovery_call sv i p) (wpeek ''BalanceHistory'' (\<lambda>log. ws_BalanceHistory sv log (wo_Sub2APIUserID q)))
      (\<lambda>a. \<exists>l. a = ws_BalanceHistory sv l (wo_Sub2APIUserID p))"
    by (rule does_answer) (use q in \<open>auto simp: noted_from_def\<close>)
  have adopted: "does (recovery_call sv i p) (adopt_history sv i q' e) (\<lambda>_. True)" if "same_flags p q'" for q' e
    unfolding adopt_history_def using that by (intro does_recovery_end same_flags_write) simp
  have history: "does (recovery_call sv i p) (recover_by_history sv i q h) (\<lambda>_. True)"
    if known: "\<exists>l. Inr h = ws_BalanceHistory sv l (wo_Sub2APIUserID p)" for h
  proof -
    obtain l where h: "ws_BalanceHistory sv l (wo_Sub2APIUserID p) = Inr h" using known by metis
    have retry: "does (recovery_call sv i p) (retry_recovery sv i (q\<lparr>wo_ErrorCode := []\<rparr>)) (\<lambda>_. True)"
      if "inspectWalletAdjustmentHistory h (walletAdjustmentRedeemCode (ws_sha sv) i) q = HistoryAbsent"
        "inspectWalletAdjustmentHistory h (legacyWalletAdjustmentRedeemCode (ws_sha sv) i) q = HistoryAbsent"
      using that [THEN inspect_absent] q by (intro does_retry_checked [OF _ h]) simp_all
    show ?thesis
      unfolding recover_by_history_def Let_def
      by (intro does_if does_history does_recovery_end same_flags_write adopted retry)
         (use kept in \<open>auto simp: same_flags_def\<close>)
  qed
  show ?thesis
    unfolding recovery_readback_def
    by (rule does_if [OF does_ret], simp, rule does_bind [OF read], rule does_sum)
       (use kept in \<open>auto intro!: does_recovery_end same_flags_write history\<close>)
qed

lemma does_recovery: "does (recovery_call sv i p) (prepareWalletAdjustmentRecovery sv i p h e a) (\<lambda>_. True)"
proof -
  have save: "does (recovery_call sv i p) (save_phase sv i q) (\<lambda>r. case r of Inl _ \<Rightarrow> True | Inr q' \<Rightarrow> noted_from p q')"
    if "noted_from p q" for q
    unfolding save_phase_def persistWalletAdjustment_def Let_def using that noted_from_flags [OF that]
    by (intro wallet_wp does_now) (auto intro: same_flags_write)
  show ?thesis
    unfolding prepareWalletAdjustmentRecovery_def
    by (intro does_if does_ret does_bindI does_now does_recovery_checked does_bind [OF save]) (auto split: sum.split intro!: does_ret does_recovery_checked)
qed

section \<open>Opening\<close>

definition opening_call :: "(string \<Rightarrow> string) \<Rightarrow> string \<Rightarrow> wallet_call \<Rightarrow> bool" where
  "opening_call sha i c \<longleftrightarrow> (case c of WRead _ \<Rightarrow> True | WSave q _ \<Rightarrow> wallet_sound sha i q \<and> attempts q = 0 | _ \<Rightarrow> False)"

lemma opening_call_simps [simp]:
  "opening_call sha i (WRead w)" "opening_call sha i (WSave q b) = (wallet_sound sha i q \<and> attempts q = 0)"
  by (simp_all add: opening_call_def)

lemma does_account: "does (opening_call sha i) (walletAdjustmentAccount sv accountID) (\<lambda>_. True)"
  unfolding walletAdjustmentAccount_def Let_def by (intro wallet_wp) simp_all

lemma does_limit: "does (opening_call sha i) (validateWalletRefundLimit sv accountID related amount) (\<lambda>_. True)"
  unfolding validateWalletRefundLimit_def by (intro wallet_wp) simp_all

lemma valid_account_nonempty: "validAccountID a \<Longrightarrow> a \<noteq> []"
  by (auto simp: validAccountID_def)

lemma new_operation_sound:
  assumes "validWalletAdjustmentRequest input accountID key = Some amount"
  shows "wallet_sound (ws_sha sv) i (new_wallet_operation sv i hash accountID userID input amount actor now)"
    "attempts (new_wallet_operation sv i hash accountID userID input amount actor now) = 0"
proof -
  have "wallet_asked (new_wallet_operation sv i hash accountID userID input amount actor now)"
    using assms valid_account_nonempty [of accountID]
    by (auto simp: validWalletAdjustmentRequest_def wallet_asked_def new_wallet_operation_def Let_def split: if_splits)
  then show "wallet_sound (ws_sha sv) i (new_wallet_operation sv i hash accountID userID input amount actor now)"
    "attempts (new_wallet_operation sv i hash accountID userID input amount actor now) = 0"
    by (simp_all add: wallet_sound_def attempts_def v2_identity_def new_wallet_operation_def)
qed

lemma sound_update [simp]: "wallet_sound sha i (op\<lparr>wo_UpdatedAt := t\<rparr>) = wallet_sound sha i op" "attempts (op\<lparr>wo_UpdatedAt := t\<rparr>) = attempts op"
  by (simp_all add: wallet_sound_def attempts_def)

lemma does_open:
  assumes valid: "validWalletAdjustmentRequest input accountID key = Some amount"
  shows "does (opening_call (ws_sha sv) i) (open_adjustment sv i hash accountID input amount actor) (\<lambda>_. True)"
proof -
  have save: "does (opening_call (ws_sha sv) i) (save_phase sv i p) (\<lambda>_. True)" if "wallet_sound (ws_sha sv) i p" "attempts p = 0" for p
  proof -
    have "assign_code (ws_sha sv) i p = p" using that(1) by (intro assign_code_v2 [of "ws_sha sv" i]) (simp add: wallet_sound_def)
    then show ?thesis unfolding save_phase_def persistWalletAdjustment_def Let_def using that by (intro wallet_wp does_now) simp_all
  qed
  have written: "does (opening_call (ws_sha sv) i) (do { noted \<leftarrow> save_phase sv i p; ret (f noted) }) (\<lambda>_. True)"
    if "wallet_sound (ws_sha sv) i p" "attempts p = 0" for p and f :: "(wallet_end, wallet_operation) res \<Rightarrow> (reply, wallet_operation) res"
    by (rule does_bind [OF save [OF that]]) (rule does_ret, simp)
  have limited: "does (opening_call (ws_sha sv) i)
      (if wq_Kind input = ''business_refund'' then validateWalletRefundLimit sv accountID (wq_RelatedOperationID input) amount else ret None) (\<lambda>_. True)"
    by (simp add: does_limit does_ret)
  show ?thesis
    unfolding open_adjustment_def
    by (rule does_bind [OF does_account], intro does_cases does_ret TrueI, rule does_bind [OF limited],
        intro does_cases does_ret TrueI, rule does_bindI, rule does_now, simp, intro does_if does_ret TrueI written new_operation_sound [OF valid])
qed

section \<open>Lives\<close>

text \<open>What is in the table for an adjustment, from the row its opening wrote, with the number of
  times money was moved. A run and a recovery start from the stored adjustment; what they wrote last
  before they were cut off is what the next one finds, and a write that was reported as failed may have
  reached the table. \<open>create\<close> and \<open>recover\<close> hold the wallet's lock, so runs and
  recoveries of one adjustment do not overlap. The services differ from step to step; \<open>W\<close> holds of
  each of them, so a life under \<open>W\<close> heard only such services.\<close>

inductive wallet_life_by ::
    "(wallet_services \<Rightarrow> bool) \<Rightarrow> (string \<Rightarrow> string) \<Rightarrow> string \<Rightarrow> wallet_operation \<Rightarrow> wallet_operation \<Rightarrow> nat \<Rightarrow> bool" for W sha i where
  opened: "validWalletAdjustmentRequest input accountID key = Some amount \<Longrightarrow> ws_sha sv = sha \<Longrightarrow> W sv \<Longrightarrow>
    WSave op ok \<in> calls_of (open_adjustment sv i hash accountID input amount actor) \<Longrightarrow> wallet_life_by W sha i op op 0"
| ran: "wallet_life_by W sha i first op k \<Longrightarrow> ws_sha sv = sha \<Longrightarrow> int64_balances sv \<Longrightarrow> W sv \<Longrightarrow>
    snd (run_state (runWalletAdjustment sv r i op) []) = later @ earlier \<Longrightarrow> stored op earlier q \<Longrightarrow>
    wallet_life_by W sha i first q (k + moves earlier)"
| recovered: "wallet_life_by W sha i first op k \<Longrightarrow> ws_sha sv = sha \<Longrightarrow> W sv \<Longrightarrow> wo_Status op = ''manual_review'' \<Longrightarrow>
    snd (run_state (prepareWalletAdjustmentRecovery sv i op h e a) []) = later @ earlier \<Longrightarrow> stored op earlier q \<Longrightarrow>
    wallet_life_by W sha i first q (k + moves earlier)"

abbreviation wallet_life :: "(string \<Rightarrow> string) \<Rightarrow> string \<Rightarrow> wallet_operation \<Rightarrow> wallet_operation \<Rightarrow> nat \<Rightarrow> bool" where
  "wallet_life \<equiv> wallet_life_by (\<lambda>_. True)"

lemma stored_written: "stored op log q \<Longrightarrow> q = op \<or> (\<exists>ok. WSave q ok \<in> set log)"
  by (induction op log q rule: stored.induct) (auto split: wallet_call.splits)

lemma does_log: "does P m Q \<Longrightarrow> snd (run_state m []) = later @ earlier \<Longrightarrow> list_all P earlier"
  by (rule doesE [of P m Q "[]"]) (auto simp: list_all_iff)

lemma stored_step:
  assumes "does (wallet_call_ok sha i op) m Q" and "snd (run_state m []) = later @ earlier" and "stored op earlier q" and "wallet_sound sha i op"
  shows "wallet_step sha i op q"
  using stored_written [OF assms(3)] does_log [OF assms(1,2)] assms(4) by (auto simp: list_all_iff wallet_step_def)

lemma no_moves: "list_all (recovery_call sv i p) log \<Longrightarrow> moves log = 0"
  by (induction log) (auto simp: moves_def moves_money_def recovery_call_def split: wallet_call.splits)

lemma does_wallet_run:
  assumes "ws_sha sv = sha" "int64_balances sv" "wallet_sound sha i op"
  shows "does (wallet_call_ok sha i op) (runWalletAdjustment sv r i op) (\<lambda>(q, _). wallet_step sha i op q)"
  unfolding runWalletAdjustment_def using does_wallet_rounds [OF assms(1,2)] assms(3) by (simp add: wallet_step_def)

lemma wallet_life_sound: "wallet_life_by W sha i first op k \<Longrightarrow> wallet_sound sha i op \<and> wallet_identity op = wallet_identity first"
proof (induction rule: wallet_life_by.induct)
  case (opened input accountID key amount sv op ok hash actor)
  then show ?case using does_calls_of [OF does_open [OF opened(1)], of "WSave op ok" sv i] by auto
next
  case (ran first op k sv r later earlier q)
  from stored_step [OF does_wallet_run [OF ran(2,3)] ran(5,6)] ran(7) show ?case by (simp add: wallet_step_def)
next
  case (recovered first op k sv h e a later earlier q)
  from stored_step [OF does_prepare [OF _ recovered(4,2)] recovered(5,6)] recovered(7) show ?case by (simp add: wallet_step_def)
qed

lemma wallet_life_attempts: "wallet_life_by W sha i first op k \<Longrightarrow> k \<le> attempts op"
proof (induction rule: wallet_life_by.induct)
  case (ran first op k sv r later earlier q)
  then show ?case by (intro fair_attempts [OF run_is_fair])
next
  case (recovered first op k sv h e a later earlier q)
  have log: "list_all (recovery_call sv i op) earlier" by (rule does_log [OF does_recovery recovered(5)])
  then have "attempts q = attempts op"
    using stored_written [OF recovered(6)] by (auto simp: list_all_iff recovery_write_def)
  then show ?case using recovered(7) no_moves [OF log] by simp
qed simp

end
