(* ===== verification/CP_Wallet_Live.thy ===== *)
theory CP_Wallet_Live
  imports CP_Wallet_Lives
begin

text \<open>
  An adjustment completes: when the tables take every write, the Ledger and sub2api answer, and
  balance and history show the money once it was moved, a run goes from its first phase to success.
\<close>

section \<open>Services that answer\<close>

text \<open>The balance is \<open>before\<close> until money is moved and has changed by the signed amount from then
  on; from then on the history has exactly one entry under the code, and it is this adjustment.\<close>

definition answering :: "wallet_services \<Rightarrow> wallet_operation \<Rightarrow> int \<Rightarrow> bool" where
  "answering sv op before \<longleftrightarrow>
     (\<forall>l row. ws_SaveRuntimeOperation sv l row) \<and> (\<forall>l e. ws_SaveAuditEvent sv l e) \<and>
     (\<forall>l x. ws_Charge sv l x = None) \<and> (\<forall>l x. ws_Refund sv l x = None) \<and>
     (\<forall>l x. \<exists>rid. ws_RecordReceipt sv l x = Some rid \<and> rid \<noteq> []) \<and>
     (\<forall>l. ws_Balance sv l (wo_Sub2APIUserID op) =
        Inr \<lparr>wb_UserID = wo_Sub2APIUserID op, wb_USDMicros = before + (if moves l = 0 then 0 else signed_amount op), wb_Status = ''active''\<rparr>) \<and>
     (\<forall>l. moves l \<noteq> 0 \<longrightarrow> (\<exists>h e. ws_BalanceHistory sv l (wo_Sub2APIUserID op) = Inr h \<and>
        filter (\<lambda>e. we_Code e = wo_CanonicalRedeemCode op) h = [e] \<and> confirms op e))"

text \<open>How often money was moved and how often a receipt was sent.\<close>

definition receipts :: "wcalls \<Rightarrow> nat" where
  "receipts log = length (filter (\<lambda>c. case c of WReceipt _ \<Rightarrow> True | _ \<Rightarrow> False) log)"

lemma receipts_simps [simp]:
  "receipts [] = 0" "receipts (WRead w # l) = receipts l" "receipts (WSave p b # l) = receipts l" "receipts (WReceipt x # l) = Suc (receipts l)"
  "receipts (WAudit e b # l) = receipts l" "receipts (WCharge i # l) = receipts l" "receipts (WRefund i # l) = receipts l"
  by (simp_all add: receipts_def)

definition tally :: "wcalls \<Rightarrow> nat \<times> nat" where
  "tally log = (moves log, receipts log)"

lemma tally_simps [simp]:
  "tally (WRead w # l) = tally l" "tally (WSave p b # l) = tally l" "tally (WAudit e b # l) = tally l"
  "tally (WCharge c # l) = (Suc (moves l), receipts l)" "tally (WRefund c # l) = (Suc (moves l), receipts l)"
  "tally (WReceipt x # l) = (moves l, Suc (receipts l))" "tally [] = (0, 0)"
  by (simp_all add: tally_def)

lemma tally_iff [simp]: "tally l' = (a, b) \<longleftrightarrow> moves l' = a \<and> receipts l' = b"
  by (simp add: tally_def)

lemma saved_now:
  assumes "answering sv op0 b" "v2_identity (ws_sha sv) i op"
  shows "\<exists>t. run_state (save_phase sv i op) l = (Inr (op\<lparr>wo_UpdatedAt := t\<rparr>), WSave (op\<lparr>wo_UpdatedAt := t\<rparr>) True # WRead ''now'' # l)"
  using assms
  by (simp add: save_phase_def persistWalletAdjustment_def now_text_def wpeek_def run_calls Let_def answering_def) auto

lemma saved:
  assumes "answering sv op0 b" "v2_identity (ws_sha sv) i op"
  shows "\<exists>t l'. run_state (save_phase sv i op) l = (Inr (op\<lparr>wo_UpdatedAt := t\<rparr>), l') \<and> tally l' = tally l \<and> (\<forall>first. latest first l' = op\<lparr>wo_UpdatedAt := t\<rparr>)"
  using saved_now [OF assms, of l] by fastforce

lemma audited: "answering sv op0 b \<Longrightarrow> \<exists>l'. run_state (saveWalletAdjustmentAudit sv r i op res) l = (True, l') \<and> tally l' = tally l"
  by (auto simp: saveWalletAdjustmentAudit_def save_audit_def run_calls answering_def)

section \<open>Phase by phase\<close>

text \<open>The operation in the middle of such a run: in a phase, for the same user, kind, amount and code,
  with the balance from before.\<close>

definition midway :: "wallet_services \<Rightarrow> string \<Rightarrow> wallet_operation \<Rightarrow> int \<Rightarrow> string \<Rightarrow> wallet_operation \<Rightarrow> bool" where
  "midway sv i op before phase p \<longleftrightarrow>
     wo_Phase p = phase \<and> wallet_identity p = wallet_identity op \<and> v2_identity (ws_sha sv) i p \<and> wo_BeforeBalanceMicros p = before"

definition steps :: "wallet_services \<Rightarrow> operator_request \<Rightarrow> string \<Rightarrow> wallet_operation \<Rightarrow> wcalls \<Rightarrow> (wallet_operation \<Rightarrow> bool) \<Rightarrow> nat \<times> nat \<Rightarrow> bool" where
  "steps sv r i p l Q n \<longleftrightarrow> (\<exists>q l'. run_state (wallet_phase sv r i p) l = (Inr q, l') \<and> Q q \<and> tally l' = (moves l + fst n, receipts l + snd n) \<and> (\<forall>first. latest first l' = q))"

lemma same_identity:
  "wallet_identity p = wallet_identity op \<Longrightarrow>
     wo_Sub2APIUserID p = wo_Sub2APIUserID op \<and> wo_CanonicalRedeemCode p = wo_CanonicalRedeemCode op \<and> signed_amount p = signed_amount op \<and>
     wo_AmountUSDMicros p = wo_AmountUSDMicros op \<and> amount_fits p b = amount_fits op b \<and> confirms p e = confirms op e"
  by (simp add: wallet_identity_def signed_amount_def amount_fits_def confirms_def)

lemma live_before_balance:
  assumes a: "answering sv op before" and p: "wallet_identity p = wallet_identity op" "v2_identity (ws_sha sv) i p" "wo_Phase p = ''before_balance''"
    and b: "0 \<le> before" "amount_fits op before" and l: "moves l = 0" and att: "\<not> wo_AdjustmentAttempted p"
  shows "steps sv r i p l (\<lambda>q. midway sv i op before ''adjustment'' q \<and> \<not> wo_AdjustmentAttempted q) (0, 0)"
proof -
  note s = same_identity [OF p(1)]
  let ?q = "\<lambda>t. p\<lparr>wo_BeforeBalanceKnown := True, wo_BeforeBalanceMicros := before, wo_BeforeBalanceReadAt := t, wo_Phase := ''adjustment''\<rparr>"
  have "\<exists>t' l'. run_state (save_phase sv i (?q t)) m = (Inr (?q t\<lparr>wo_UpdatedAt := t'\<rparr>), l') \<and> tally l' = tally m \<and> (\<forall>first. latest first l' = ?q t\<lparr>wo_UpdatedAt := t'\<rparr>)" for t m
    using p(2) by (intro saved [OF a]) simp
  then have sv: "\<exists>q l'. run_state (save_phase sv i (?q t)) m = (Inr q, l') \<and> midway sv i op before ''adjustment'' q \<and> \<not> wo_AdjustmentAttempted q \<and> tally l' = tally m \<and> (\<forall>first. latest first l' = q)" for t m
    using p att by (fastforce simp: midway_def)
  have u: "wo_Sub2APIUserID p = wo_Sub2APIUserID op" "amount_fits p before" using s b by simp_all
  have bal: "ws_Balance sv l (wo_Sub2APIUserID op) = Inr \<lparr>wb_UserID = wo_Sub2APIUserID op, wb_USDMicros = before, wb_Status = ''active''\<rparr>"
    using a l by (simp add: answering_def)
  show ?thesis
    using sv [of _ "WRead ''now'' # WRead ''Balance'' # l"] b(1) p(3) u
    by (simp add: steps_def tally_def wallet_phase_def before_balance_phase_def Let_def wpeek_def now_text_def run_calls bal balance_usable_def)
qed

lemma live_adjustment:
  assumes a: "answering sv op before" and p: "midway sv i op before ''adjustment'' p" "\<not> wo_AdjustmentAttempted p"
  shows "steps sv r i p l (midway sv i op before ''authoritative_readback'') (1, 0)"
proof -
  let ?q = "p\<lparr>wo_AdjustmentAttempted := True, wo_Phase := ''authoritative_readback''\<rparr>"
  have v2: "v2_identity (ws_sha sv) i ?q" using p(1) by (simp add: midway_def)
  obtain t l' where s: "run_state (save_phase sv i ?q) l = (Inr (?q\<lparr>wo_UpdatedAt := t\<rparr>), l')" "tally l' = tally l" "\<And>first. latest first l' = ?q\<lparr>wo_UpdatedAt := t\<rparr>"
    using saved [OF a v2] by blast
  have m: "midway sv i op before ''authoritative_readback'' (?q\<lparr>wo_UpdatedAt := t\<rparr>)" using p(1) by (simp add: midway_def)
  have "\<exists>c. run_state (adjust_wallet sv (?q\<lparr>wo_UpdatedAt := t\<rparr>)) l' = (None, c # l') \<and> tally (c # l') = (Suc (moves l'), receipts l') \<and> (\<forall>first. latest first (c # l') = latest first l')"
    using a by (simp add: adjust_wallet_def run_calls Let_def answering_def)
  with s m p show ?thesis
    by (auto simp: steps_def tally_def wallet_phase_def adjustment_phase_def Let_def run_calls midway_def)
qed

lemma live_readback:
  assumes a: "answering sv op before" and p: "midway sv i op before ''authoritative_readback'' p" and l: "moves l \<noteq> 0"
  shows "steps sv r i p l (midway sv i op before ''after_balance'') (0, 0)"
proof -
  note s = same_identity [of p op]
  obtain h e where h: "ws_BalanceHistory sv l (wo_Sub2APIUserID op) = Inr h" "filter (\<lambda>e. we_Code e = wo_CanonicalRedeemCode op) h = [e]" "confirms op e"
    using a l unfolding answering_def by blast
  have id: "wallet_identity p = wallet_identity op" "wo_Phase p = ''authoritative_readback''" "v2_identity (ws_sha sv) i p" using p by (simp_all add: midway_def)
  have c: "confirms p e" "filter (\<lambda>e. we_Code e = wo_CanonicalRedeemCode p) h = [e]" using h s [OF id(1)] by simp_all
  then have f: "inspectWalletAdjustmentHistory h (wo_CanonicalRedeemCode p) p = HistoryConfirmed e"
    by (simp add: inspectWalletAdjustmentHistory_def Let_def confirms_def)
  let ?q = "(note_history (ws_sha sv) e p)\<lparr>wo_Phase := ''after_balance''\<rparr>"
  have v2: "v2_identity (ws_sha sv) i ?q" using id by simp
  obtain t l' where w: "run_state (save_phase sv i ?q) (WRead ''BalanceHistory'' # l) = (Inr (?q\<lparr>wo_UpdatedAt := t\<rparr>), l')" "tally l' = tally l" "\<And>first. latest first l' = ?q\<lparr>wo_UpdatedAt := t\<rparr>"
    using saved [OF a v2, of "WRead ''BalanceHistory'' # l"] by auto
  have m: "midway sv i op before ''after_balance'' (?q\<lparr>wo_UpdatedAt := t\<rparr>)" using p by (simp add: midway_def) (simp add: note_history_def)
  have "wo_Sub2APIUserID p = wo_Sub2APIUserID op" using s [OF id(1)] by simp
  then show ?thesis
    using w m h(1) id(2,3) f
    by (simp add: steps_def tally_def wallet_phase_def readback_phase_def Let_def wpeek_def run_calls)
qed

lemma live_after_balance:
  assumes a: "answering sv op before" and p: "midway sv i op before ''after_balance'' p" and l: "moves l \<noteq> 0"
    and w: "wrap64 (before + signed_amount op) = before + signed_amount op"
  shows "steps sv r i p l (midway sv i op before ''ledger'') (0, 0)"
proof -
  note s = same_identity [of p op]
  have id: "wallet_identity p = wallet_identity op" "wo_Phase p = ''after_balance''" "v2_identity (ws_sha sv) i p" "wo_BeforeBalanceMicros p = before"
    using p by (simp_all add: midway_def)
  let ?q = "\<lambda>t. p\<lparr>wo_AfterBalanceKnown := True, wo_AfterBalanceMicros := before + signed_amount op, wo_AfterBalanceReadAt := t, wo_Phase := ''ledger''\<rparr>"
  have "\<exists>t' l'. run_state (save_phase sv i (?q t)) m = (Inr (?q t\<lparr>wo_UpdatedAt := t'\<rparr>), l') \<and> tally l' = tally m \<and> (\<forall>first. latest first l' = ?q t\<lparr>wo_UpdatedAt := t'\<rparr>)" for t m
    using id(3) by (intro saved [OF a]) simp
  then have sv: "\<exists>q l'. run_state (save_phase sv i (?q t)) m = (Inr q, l') \<and> midway sv i op before ''ledger'' q \<and> tally l' = tally m \<and> (\<forall>first. latest first l' = q)" for t m
    using p by (fastforce simp: midway_def)
  have u: "wo_Sub2APIUserID p = wo_Sub2APIUserID op" "signed_amount p = signed_amount op" using s [OF id(1)] by simp_all
  have bal: "ws_Balance sv l (wo_Sub2APIUserID op) = Inr \<lparr>wb_UserID = wo_Sub2APIUserID op, wb_USDMicros = before + signed_amount op, wb_Status = ''active''\<rparr>"
    using a l by (simp add: answering_def)
  show ?thesis
    using sv [of _ "WRead ''now'' # WRead ''Balance'' # l"] id(2,4) u w
    by (simp add: steps_def tally_def wallet_phase_def after_balance_phase_def Let_def wpeek_def now_text_def run_calls bal balance_usable_def)
qed

lemma live_ledger:
  assumes a: "answering sv op before" and p: "midway sv i op before ''ledger'' p"
  shows "steps sv r i p l (midway sv i op before ''audit'') (0, 1)"
proof -
  let ?x = "walletAdjustmentReceipt i p"
  obtain rid where rid: "ws_RecordReceipt sv l ?x = Some rid" "rid \<noteq> []" using a unfolding answering_def by blast
  let ?q = "p\<lparr>wo_ReceiptID := rid, wo_Phase := ''audit''\<rparr>"
  have v2: "v2_identity (ws_sha sv) i ?q" using p by (simp add: midway_def)
  obtain t l' where w: "run_state (save_phase sv i ?q) (WReceipt ?x # l) = (Inr (?q\<lparr>wo_UpdatedAt := t\<rparr>), l')" "tally l' = (moves l, Suc (receipts l))" "\<And>first. latest first l' = ?q\<lparr>wo_UpdatedAt := t\<rparr>"
    using saved [OF a v2, of "WReceipt ?x # l"] by auto
  have "midway sv i op before ''audit'' (?q\<lparr>wo_UpdatedAt := t\<rparr>)" "wo_Phase p = ''ledger''" using p by (simp_all add: midway_def)
  then show ?thesis
    using w rid by (simp add: steps_def tally_def wallet_phase_def ledger_phase_def Let_def run_calls)
qed

lemma live_audit:
  assumes a: "answering sv op before" and p: "midway sv i op before ''audit'' p"
  shows "steps sv r i p l (\<lambda>q. wo_Status q = ''succeeded'' \<and> wo_Phase q = ''complete'') (0, 0)"
proof -
  let ?q = "p\<lparr>wo_Status := ''succeeded'', wo_Phase := ''complete'', wo_ErrorCode := []\<rparr>"
  obtain m where m: "run_state (saveWalletAdjustmentAudit sv r i p ''succeeded'') l = (True, m)" "tally m = tally l"
    using audited [OF a, of r i p "''succeeded''" l] by auto
  have v2: "v2_identity (ws_sha sv) i ?q" using p by (simp add: midway_def)
  obtain t l' where w: "run_state (save_phase sv i ?q) m = (Inr (?q\<lparr>wo_UpdatedAt := t\<rparr>), l')" "tally l' = tally m" "\<And>first. latest first l' = ?q\<lparr>wo_UpdatedAt := t\<rparr>"
    using saved [OF a v2, of m] by auto
  have "wo_Phase p = ''audit''" using p by (simp add: midway_def)
  then show ?thesis
    using w m by (simp add: steps_def tally_def wallet_phase_def audit_phase_def Let_def run_calls)
qed

lemma rounds_step:
  assumes "steps sv r i p l Q n"
    and "\<And>q l'. Q q \<Longrightarrow> tally l' = (moves l + fst n, receipts l + snd n) \<Longrightarrow> (\<And>first. latest first l' = q) \<Longrightarrow> \<exists>q' m. run_state (wallet_rounds k sv r i q) l' = ((q', None), m) \<and> G q' m"
  shows "\<exists>q' m. run_state (wallet_rounds (Suc k) sv r i p) l = ((q', None), m) \<and> G q' m"
  using assms unfolding steps_def by (auto simp: run_then)

lemma rounds_complete: "wo_Phase p = ''complete'' \<Longrightarrow> run_state (wallet_rounds (Suc k) sv r i p) l = ((p, None), l)"
  by (simp add: wallet_phase_def run_calls)

lemma rounds_succeed:
  assumes "answering sv op before" and "wallet_sound (ws_sha sv) i op" and "wo_Phase op = ''before_balance''"
    and "0 \<le> before" and "before \<le> max_int64" and "amount_fits op before"
  shows "\<exists>op' log. run_state (wallet_rounds 8 sv r i op) [] = ((op', None), log) \<and> wo_Status op' = ''succeeded'' \<and> latest op log = op' \<and> tally log = (1, 1)"
proof -
  have op: "v2_identity (ws_sha sv) i op" "\<not> wo_AdjustmentAttempted op" "wallet_asked op" using assms(2,3) by (simp_all add: wallet_sound_def)
  have w: "wrap64 (before + signed_amount op) = before + signed_amount op"
    using measured_expected [of "op\<lparr>wo_BeforeBalanceKnown := True, wo_BeforeBalanceMicros := before\<rparr>"] op(3) assms(4-6)
    by (auto simp: measured_def amount_fits_def signed_amount_def split: if_splits)
  have "\<exists>q' m. run_state (wallet_rounds (Suc (Suc (Suc (Suc (Suc (Suc (Suc (Suc 0)))))))) sv r i op) [] = ((q', None), m) \<and>
      wo_Status q' = ''succeeded'' \<and> latest op m = q' \<and> tally m = (1, 1)"
    apply (rule rounds_step [OF live_before_balance [OF assms(1) refl op(1) assms(3,4,6) _ op(2)]], simp)
    apply (rule rounds_step [OF live_adjustment [OF assms(1)]], simp, simp)
    apply (rule rounds_step [OF live_readback [OF assms(1)]], assumption, simp)
    apply (rule rounds_step [OF live_after_balance [OF assms(1)]], assumption, simp, rule w)
    apply (rule rounds_step [OF live_ledger [OF assms(1)]], assumption)
    apply (rule rounds_step [OF live_audit [OF assms(1)]], assumption)
    apply (simp add: rounds_complete del: wallet_rounds.simps)
    done
  then show ?thesis by (auto simp: numeral_eq_Suc simp del: wallet_rounds.simps)
qed

end
