(* ===== verification/CP_Wallet_Answers.thy ===== *)
theory CP_Wallet_Answers
  imports CP_Wallet_Lives
begin

text \<open>
  Where what is stored of a wallet adjustment comes from: each balance, the entry of the history and
  the receipt are answers that services of its life gave, whatever else was cut off or refused.
\<close>

section \<open>Answers\<close>

definition balance_answered :: "(wallet_services \<Rightarrow> bool) \<Rightarrow> int \<Rightarrow> int \<Rightarrow> bool" where
  "balance_answered W user micros \<longleftrightarrow>
     (\<exists>sv l b. W sv \<and> ws_Balance sv l user = Inr b \<and> wb_UserID b = user \<and> wb_Status b = ''active'' \<and> wb_USDMicros b = micros)"

definition entry_answered :: "(wallet_services \<Rightarrow> bool) \<Rightarrow> (string \<Rightarrow> string) \<Rightarrow> wallet_operation \<Rightarrow> bool" where
  "entry_answered W sha op \<longleftrightarrow>
     (\<exists>sv l h e. W sv \<and> ws_BalanceHistory sv l (wo_Sub2APIUserID op) = Inr h \<and> e \<in> set h \<and> confirms op e \<and>
        wo_BalanceHistoryRef op = walletAdjustmentBalanceHistoryRef sha (wo_Sub2APIUserID op) e)"

definition receipt_answered :: "(wallet_services \<Rightarrow> bool) \<Rightarrow> string \<Rightarrow> wallet_operation \<Rightarrow> bool" where
  "receipt_answered W i op \<longleftrightarrow>
     (\<exists>sv l p. W sv \<and> wallet_identity p = wallet_identity op \<and>
        ws_RecordReceipt sv l (walletAdjustmentReceipt i p) = Some (wo_ReceiptID op))"

text \<open>What is stored is what was answered; the code is the one of the identifier.\<close>

definition backed :: "(wallet_services \<Rightarrow> bool) \<Rightarrow> (string \<Rightarrow> string) \<Rightarrow> string \<Rightarrow> wallet_operation \<Rightarrow> bool" where
  "backed W sha i op \<longleftrightarrow>
     v2_identity sha i op \<and>
     (wo_BeforeBalanceKnown op \<longrightarrow> balance_answered W (wo_Sub2APIUserID op) (wo_BeforeBalanceMicros op)) \<and>
     (wo_AfterBalanceKnown op \<longrightarrow> balance_answered W (wo_Sub2APIUserID op) (wo_AfterBalanceMicros op)) \<and>
     (wo_BalanceHistoryRef op \<noteq> [] \<longrightarrow> entry_answered W sha op) \<and>
     (wo_ReceiptID op \<noteq> [] \<longrightarrow> receipt_answered W i op)"

lemma backed_code: "backed W sha i op \<Longrightarrow> v2_identity sha i op"
  by (simp add: backed_def)

lemmas answer_defs = backed_def entry_answered_def receipt_answered_def confirms_def signed_amount_def v2_identity_def wallet_identity_def

lemma backed_update [simp]:
  "backed W sha i (op\<lparr>wo_Status := xs\<rparr>) = backed W sha i op"
  "backed W sha i (op\<lparr>wo_Phase := xp\<rparr>) = backed W sha i op"
  "backed W sha i (op\<lparr>wo_ErrorCode := xe\<rparr>) = backed W sha i op"
  "backed W sha i (op\<lparr>wo_UpdatedAt := xu\<rparr>) = backed W sha i op"
  "backed W sha i (op\<lparr>wo_UpstreamFailure := xf\<rparr>) = backed W sha i op"
  "backed W sha i (op\<lparr>wo_AdjustmentAttempted := xa\<rparr>) = backed W sha i op"
  "backed W sha i (op\<lparr>wo_RecoveryAttempted := xr\<rparr>) = backed W sha i op"
  "backed W sha i (op\<lparr>wo_RecoveryRequestHash := xh\<rparr>) = backed W sha i op"
  "backed W sha i (op\<lparr>wo_RecoveryEvidenceRef := xv\<rparr>) = backed W sha i op"
  "backed W sha i (op\<lparr>wo_RecoveryActorUserID := xc\<rparr>) = backed W sha i op"
  "backed W sha i (op\<lparr>wo_RecoveryAuthorizedAt := xt\<rparr>) = backed W sha i op"
  "backed W sha i (op\<lparr>wo_BeforeBalanceReadAt := xb\<rparr>) = backed W sha i op"
  "backed W sha i (op\<lparr>wo_AfterBalanceReadAt := xn\<rparr>) = backed W sha i op"
  by (simp_all add: answer_defs)

lemma backed_failure [simp]: "backed W sha i (recordWalletAdjustmentUpstreamFailure ph e c op) = backed W sha i op"
  by (auto simp: recordWalletAdjustmentUpstreamFailure_def split: option.split)

lemma answered_update [simp]:
  "entry_answered W sha (op\<lparr>wo_BeforeBalanceKnown := xk\<rparr>) = entry_answered W sha op"
  "entry_answered W sha (op\<lparr>wo_BeforeBalanceMicros := xm\<rparr>) = entry_answered W sha op"
  "entry_answered W sha (op\<lparr>wo_AfterBalanceKnown := xn\<rparr>) = entry_answered W sha op"
  "entry_answered W sha (op\<lparr>wo_AfterBalanceMicros := xo\<rparr>) = entry_answered W sha op"
  "receipt_answered W i (op\<lparr>wo_BeforeBalanceKnown := xk\<rparr>) = receipt_answered W i op"
  "receipt_answered W i (op\<lparr>wo_BeforeBalanceMicros := xm\<rparr>) = receipt_answered W i op"
  "receipt_answered W i (op\<lparr>wo_AfterBalanceKnown := xn\<rparr>) = receipt_answered W i op"
  "receipt_answered W i (op\<lparr>wo_AfterBalanceMicros := xo\<rparr>) = receipt_answered W i op"
  by (simp_all add: entry_answered_def receipt_answered_def confirms_def signed_amount_def wallet_identity_def)

lemma backed_before:
  "backed W sha i op \<Longrightarrow> balance_answered W (wo_Sub2APIUserID op) m \<Longrightarrow>
   backed W sha i (op\<lparr>wo_BeforeBalanceKnown := True, wo_BeforeBalanceMicros := m\<rparr>)"
  by (simp add: backed_def v2_identity_def)

lemma backed_after:
  "backed W sha i op \<Longrightarrow> balance_answered W (wo_Sub2APIUserID op) m \<Longrightarrow>
   backed W sha i (op\<lparr>wo_AfterBalanceKnown := True, wo_AfterBalanceMicros := m\<rparr>)"
  by (simp add: backed_def v2_identity_def)

lemma entry_receipt [simp]: "entry_answered W sha (op\<lparr>wo_ReceiptID := rid\<rparr>) = entry_answered W sha op"
  by (simp add: entry_answered_def confirms_def signed_amount_def)

lemma backed_receipt:
  assumes "backed W sha i op" "W sv" "ws_RecordReceipt sv l (walletAdjustmentReceipt i op) = Some rid"
  shows "backed W sha i (op\<lparr>wo_ReceiptID := rid\<rparr>)"
proof -
  have "receipt_answered W i (op\<lparr>wo_ReceiptID := rid\<rparr>)" using assms(2,3) unfolding receipt_answered_def by auto
  with assms(1) show ?thesis by (simp add: backed_def v2_identity_def)
qed

lemma inspect_found: "inspectWalletAdjustmentHistory h code op = HistoryConfirmed e \<Longrightarrow> e \<in> set h"
  by (auto simp: inspectWalletAdjustmentHistory_def Let_def filter_eq_Cons_iff split: list.splits if_splits)

lemma backed_entry:
  assumes op: "backed W sha i op" and W: "W sv" "ws_BalanceHistory sv l (wo_Sub2APIUserID op) = Inr h"
    and e: "inspectWalletAdjustmentHistory h (wo_CanonicalRedeemCode op) op = HistoryConfirmed e"
  shows "backed W sha i (note_history sha e op)"
proof -
  have "entry_answered W sha (note_history sha e op)"
    unfolding entry_answered_def
    by (intro exI [of _ sv] exI [of _ l] exI [of _ h] exI [of _ e])
       (use W inspect_found [OF e] inspect_confirmed [OF e refl] in \<open>simp add: note_history_def confirms_def signed_amount_def\<close>)
  moreover have f: "wo_ReceiptID (note_history sha e op) = wo_ReceiptID op" "wo_BeforeBalanceKnown (note_history sha e op) = wo_BeforeBalanceKnown op"
    "wo_AfterBalanceKnown (note_history sha e op) = wo_AfterBalanceKnown op" "wo_Sub2APIUserID (note_history sha e op) = wo_Sub2APIUserID op"
    "wo_BeforeBalanceMicros (note_history sha e op) = wo_BeforeBalanceMicros op" "wo_AfterBalanceMicros (note_history sha e op) = wo_AfterBalanceMicros op"
    by (simp_all add: note_history_def)
  moreover have "receipt_answered W i (note_history sha e op) = receipt_answered W i op" by (simp add: receipt_answered_def f(1))
  ultimately show ?thesis using op by (simp add: backed_def)
qed

section \<open>Runs\<close>

definition backs :: "(wallet_services \<Rightarrow> bool) \<Rightarrow> (string \<Rightarrow> string) \<Rightarrow> string \<Rightarrow> wallet_call \<Rightarrow> bool" where
  "backs W sha i c \<longleftrightarrow> (case c of WSave q _ \<Rightarrow> backed W sha i q | _ \<Rightarrow> True)"

lemma backs_simps [simp]:
  "backs W sha i (WRead w)" "backs W sha i (WSave q ok) = backed W sha i q" "backs W sha i (WReceipt x)" "backs W sha i (WAudit e b)"
  "backs W sha i (WCharge c)" "backs W sha i (WRefund c)"
  by (simp_all add: backs_def)

text \<open>What a phase leaves, and what a recovery ends with.\<close>

definition hands :: "(wallet_services \<Rightarrow> bool) \<Rightarrow> (string \<Rightarrow> string) \<Rightarrow> string \<Rightarrow> (wallet_end, wallet_operation) res \<Rightarrow> bool" where
  "hands W sha i r \<longleftrightarrow> (case r of Inl (p, _) \<Rightarrow> backed W sha i p | Inr p \<Rightarrow> backed W sha i p)"

lemma hands_simps [simp]: "hands W sha i (Inl (p, e)) = backed W sha i p" "hands W sha i (Inr p) = backed W sha i p"
  by (simp_all add: hands_def)

lemma does_asked: "(\<And>a. P (e a)) \<Longrightarrow> (\<And>l. Q (f l)) \<Longrightarrow> does P (ask f e) Q"
  by (auto simp: does_def ask_def)

lemma does_backed_write:
  "backed W sha i p \<Longrightarrow> (\<And>ok t. Q (ok, p\<lparr>wo_UpdatedAt := t\<rparr>)) \<Longrightarrow> does (backs W sha i) (persistWalletAdjustment sv j p) Q"
  unfolding persistWalletAdjustment_def Let_def using assign_code_v2 [OF backed_code]
  by (intro wallet_wp does_now) simp_all

lemma does_backed_save: "backed W sha i p \<Longrightarrow> does (backs W sha i) (save_phase sv j p) (hands W sha i)"
  unfolding save_phase_def by (rule does_bindI, rule does_backed_write) (auto intro: does_ret)

lemma does_backed_end: "backed W sha i p \<Longrightarrow> does (backs W sha i) (save_end sv j p e) (hands W sha i)"
  unfolding save_end_def by (rule does_bindI, rule does_backed_write) (auto intro: does_ret)

lemma does_backed_audit: "does (backs W sha i) (saveWalletAdjustmentAudit sv r j p t) (\<lambda>_. True)"
  unfolding saveWalletAdjustmentAudit_def save_audit_def by (intro wallet_wp) simp_all

lemma does_backed_review:
  assumes "backed W sha i p" shows "does (backs W sha i) (manualReviewWalletAdjustment sv r j p code) (hands W sha i)"
proof -
  have noted: "does (backs W sha i) (if wo_Phase p \<noteq> ''manual_review_audit''
      then save_phase sv j (p\<lparr>wo_Status := ''pending'', wo_Phase := ''manual_review_audit'', wo_ErrorCode := code\<rparr>) else ret (Inr p)) (hands W sha i)"
    using assms by (intro does_if does_backed_save does_ret) simp_all
  show ?thesis
    unfolding manualReviewWalletAdjustment_def
    by (rule does_bind [OF noted], rule does_sum) (auto intro!: does_ret does_if does_bind [OF does_backed_audit] does_backed_end)
qed

lemma does_backed_before:
  assumes W: "W sv" and p: "backed W sha i p" shows "does (backs W sha i) (before_balance_phase sv j p) (hands W sha i)"
proof -
  have failed: "does (backs W sha i) (before_balance_failed sv j p e) (hands W sha i)" for e
    unfolding before_balance_failed_def using p by (intro does_backed_end) simp
  have read: "balance_answered W (wo_Sub2APIUserID p) (wb_USDMicros b)" if "ws_Balance sv l (wo_Sub2APIUserID p) = Inr b" "balance_usable p b" for l b
    using that W by (auto simp: balance_answered_def balance_usable_def)
  show ?thesis
    unfolding before_balance_phase_def Let_def
    by (intro does_bindI does_answer does_cases failed does_now does_backed_end does_backed_save)
       (use backed_before [OF p] read in auto)
qed

lemma does_backed_adjustment:
  assumes "backed W sha i p" shows "does (backs W sha i) (adjustment_phase sv r j p) (hands W sha i)"
proof -
  have moved: "does (backs W sha i) (adjust_wallet sv q) (\<lambda>_. True)" for q
    unfolding adjust_wallet_def Let_def by (intro wallet_wp) simp_all
  have after: "does (backs W sha i) (case failed of None \<Rightarrow> ret (Inr q) | Some e \<Rightarrow>
      let op2 = recordWalletAdjustmentUpstreamFailure ''adjustment'' (Some e) ''adjustment_unconfirmed'' q
      in if \<not> se_unknown e \<and> \<not> se_conflict e then manualReviewWalletAdjustment sv r j op2 ''adjustment_unconfirmed'' else ret (Inr op2)) (hands W sha i)"
    if "backed W sha i q" for q failed
    unfolding Let_def using that by (intro does_cases does_ret does_backed_review) simp_all
  show ?thesis
    unfolding adjustment_phase_def
    by (intro does_if does_ret, use assms in simp, use assms in simp, rule does_bind [OF does_backed_save [where W = W and sha = sha and i = i]],
        use assms in simp, rule does_sum) (auto intro!: does_ret does_bind [OF moved after])
qed

lemma does_backed_readback:
  assumes W: "W sv" and sha: "ws_sha sv = sha" and p: "backed W sha i p"
  shows "does (backs W sha i) (readback_phase sv r j p) (hands W sha i)"
proof -
  have found: "backed W sha i ((note_history sha e p)\<lparr>wo_Phase := ''after_balance''\<rparr>)"
    if "(case ws_BalanceHistory sv l (wo_Sub2APIUserID p) of Inl x \<Rightarrow> HistoryAbsent
         | Inr h \<Rightarrow> inspectWalletAdjustmentHistory h (wo_CanonicalRedeemCode p) p) = HistoryConfirmed e" for l e
    using that backed_entry [OF p W] by (auto split: sum.splits)
  show ?thesis
    unfolding readback_phase_def Let_def sha
    by (intro does_if does_ret does_bindI does_answer does_history does_backed_save does_backed_review)
       (use p found in auto)
qed

lemma does_backed_after:
  assumes W: "W sv" and p: "backed W sha i p" shows "does (backs W sha i) (after_balance_phase sv r j p) (hands W sha i)"
proof -
  have read: "backed W sha i (p\<lparr>wo_AfterBalanceKnown := True, wo_AfterBalanceMicros := m\<rparr>)"
    if "ws_Balance sv l (wo_Sub2APIUserID p) = Inr b" "balance_usable p b" "wb_USDMicros b = m" for l b m
    using that W by (intro backed_after [OF p]) (auto simp: balance_answered_def balance_usable_def)
  show ?thesis
    unfolding after_balance_phase_def Let_def
    by (intro does_bindI does_answer does_cases does_now does_backed_review does_backed_save)
       (use p in \<open>auto intro: read\<close>)
qed

lemma does_backed_ledger:
  assumes W: "W sv" and p: "backed W sha i p" shows "does (backs W sha i) (ledger_phase sv i p) (hands W sha i)"
  unfolding ledger_phase_def
  by (intro does_bindI does_asked does_cases does_ret does_backed_save) (use p backed_receipt [OF p W] in auto)

lemma does_backed_phase:
  assumes "W sv" "ws_sha sv = sha" "backed W sha i p"
  shows "does (backs W sha i) (wallet_phase sv r i p) (hands W sha i)"
  unfolding wallet_phase_def Let_def audit_phase_def
  using assms
  by (intro does_if does_backed_before does_backed_adjustment does_backed_readback does_backed_after does_backed_ledger does_backed_review
        does_ret does_bind [OF does_backed_audit] does_backed_save) simp_all

lemma does_backed_rounds:
  assumes "W sv" "ws_sha sv = sha"
  shows "backed W sha i p \<Longrightarrow> does (backs W sha i) (wallet_rounds n sv r i p) (\<lambda>_. True)"
proof (induction n arbitrary: p)
  case 0
  then show ?case by (simp add: does_ret)
next
  case (Suc n)
  show ?case
    unfolding wallet_rounds.simps
    by (rule does_bind [OF does_backed_phase [OF assms Suc.prems]]) (auto intro!: does_ret Suc.IH split: sum.splits)
qed

section \<open>Recoveries and openings\<close>

lemma does_backed_close: "backed W sha i p \<Longrightarrow> does (backs W sha i) (end_recovery sv j p e) (\<lambda>_. True)"
  unfolding end_recovery_def by (rule does_bindI, rule does_backed_write) (auto intro: does_ret)

lemma backed_named: "backed W sha i p \<Longrightarrow> wo_CanonicalRedeemCode p \<noteq> [] \<and> \<not> legacy_identity p"
  by (auto simp: backed_def v2_identity_def legacy_identity_def walletAdjustmentRedeemCode_def)

lemma does_backed_retry: "backed W sha i p \<Longrightarrow> does (backs W sha i) (retry_recovery sv i p) (\<lambda>_. True)"
  unfolding retry_recovery_def Let_def using backed_named
  by (intro wallet_wp does_backed_close) simp_all

lemma does_backed_history:
  assumes W: "W sv" "ws_BalanceHistory sv l (wo_Sub2APIUserID p) = Inr h" and sha: "ws_sha sv = sha" and p: "backed W sha i p"
  shows "does (backs W sha i) (recover_by_history sv i p h) (\<lambda>_. True)"
proof -
  have v2: "v2_identity sha i p" by (rule backed_code [OF p])
  then have code: "walletAdjustmentRedeemCode sha i = wo_CanonicalRedeemCode p" by (simp add: v2_identity_def)
  have adopt: "does (backs W sha i) (adopt_history sv i (p\<lparr>wo_ErrorCode := []\<rparr>) e) (\<lambda>_. True)"
    if "inspectWalletAdjustmentHistory h (walletAdjustmentRedeemCode sha i) p = HistoryConfirmed e" for e
  proof -
    have "note_history sha e (p\<lparr>wo_ErrorCode := []\<rparr>) = (note_history sha e p)\<lparr>wo_ErrorCode := []\<rparr>" by (simp add: note_history_def)
    with backed_entry [OF p W that [unfolded code]] show ?thesis
      unfolding adopt_history_def sha by (intro does_backed_close) simp
  qed
  show ?thesis
    unfolding recover_by_history_def Let_def sha
    by (intro does_if does_history does_backed_close does_backed_retry) (use p v2 backed_named [OF p] adopt in simp_all)
qed

lemma does_backed_readback_recovery:
  assumes W: "W sv" and sha: "ws_sha sv = sha" and p: "backed W sha i p"
  shows "does (backs W sha i) (recovery_readback sv i p) (\<lambda>_. True)"
  unfolding recovery_readback_def
  by (intro does_if does_ret does_bindI does_answer does_cases does_backed_close does_backed_history [OF W _ sha p]) (use p in simp_all)

lemma does_backed_recovery:
  assumes W: "W sv" and sha: "ws_sha sv = sha" and p: "backed W sha i p"
  shows "does (backs W sha i) (prepareWalletAdjustmentRecovery sv i p h e a) (\<lambda>_. True)"
proof -
  have noted: "does (backs W sha i) (save_phase sv i (p\<lparr>wo_RecoveryRequestHash := h, wo_RecoveryEvidenceRef := e,
      wo_RecoveryActorUserID := a, wo_RecoveryAuthorizedAt := t\<rparr>)) (hands W sha i)" for t
    using p by (intro does_backed_save) simp
  have resumed: "does (backs W sha i) (case r of Inl stopped \<Rightarrow> ret stopped | Inr q \<Rightarrow> recovery_readback sv i q) (\<lambda>_. True)"
    if "hands W sha i r" for r
    using that W sha does_backed_readback_recovery [of W sv sha i] by (cases r) (auto intro: does_ret)
  show ?thesis
    unfolding prepareWalletAdjustmentRecovery_def
    by (intro does_if does_ret TrueI does_bindI [where m = "now_text sv"] does_now does_bind [OF noted resumed] does_backed_readback_recovery W sha p) simp_all
qed

lemma does_backed_open:
  assumes sha: "ws_sha sv = sha"
  shows "does (backs W sha i) (open_adjustment sv i hash accountID input amount actor) (\<lambda>_. True)"
proof -
  have account: "does (backs W sha i) (walletAdjustmentAccount sv accountID) (\<lambda>_. True)"
    unfolding walletAdjustmentAccount_def Let_def by (intro wallet_wp) simp_all
  have limit: "does (backs W sha i) (validateWalletRefundLimit sv accountID c d) (\<lambda>_. True)" for c d
    unfolding validateWalletRefundLimit_def by (intro wallet_wp) simp_all
  have limited: "does (backs W sha i)
      (if wq_Kind input = ''business_refund'' then validateWalletRefundLimit sv accountID (wq_RelatedOperationID input) amount else ret None) (\<lambda>_. True)"
    by (simp add: limit does_ret)
  have new: "backed W sha i (new_wallet_operation sv i hash accountID u input amount actor t)" for u t
    by (simp add: backed_def new_wallet_operation_def v2_identity_def sha)
  have written: "does (backs W sha i) (do { noted \<leftarrow> save_phase sv i (new_wallet_operation sv i hash accountID u input amount actor t); ret (f noted) }) (\<lambda>_. True)"
    for u t and f :: "(wallet_end, wallet_operation) res \<Rightarrow> (reply, wallet_operation) res"
    by (rule does_bind [OF does_backed_save [OF new]]) (rule does_ret, simp)
  show ?thesis
    unfolding open_adjustment_def
    by (rule does_bind [OF account], intro does_cases does_ret TrueI, rule does_bind [OF limited],
        intro does_cases does_ret TrueI, rule does_bindI, rule does_now, simp, intro does_if does_ret TrueI written)
qed

section \<open>Lives\<close>

lemma wallet_life_backed: "wallet_life_by W sha i first op k \<Longrightarrow> backed W sha i op"
proof (induction rule: wallet_life_by.induct)
  case (opened input accountID key amount sv op ok hash actor)
  from does_calls_of [OF does_backed_open [OF opened(2)] opened(4)] show ?case by simp
next
  case (ran first op k sv r later earlier q)
  have "list_all (backs W sha i) earlier"
    by (rule does_log [OF does_backed_rounds [OF ran(4,2,7)]]) (use ran(5) in \<open>simp add: runWalletAdjustment_def\<close>)
  with stored_written [OF ran(6)] ran(7) show ?case by (auto simp: list_all_iff)
next
  case (recovered first op k sv h e a later earlier q)
  have "list_all (backs W sha i) earlier"
    by (rule does_log [OF does_backed_recovery [OF recovered(3,2,7)] recovered(5)])
  with stored_written [OF recovered(6)] recovered(7) show ?case by (auto simp: list_all_iff)
qed

end
