(* ===== verification/CP_Wallet_Safety.thy ===== *)
theory CP_Wallet_Safety
  imports CP_Wallet_Live CP_Wallet_Answers
begin

text \<open>
  The claims about whole lives of a wallet adjustment, and one life they are applied to: a debit of
  twelve dollars and a half that is opened, runs to its end and is recorded.
\<close>

section \<open>The claims' parts\<close>

definition asked_transfer :: "(string \<Rightarrow> string) \<Rightarrow> string \<Rightarrow> wallet_operation \<Rightarrow> wallet_call" where
  "asked_transfer sha i first =
     (let input = \<lparr>ci_UserID = wo_Sub2APIUserID first, ci_Code = walletAdjustmentRedeemCode sha i,
                   ci_USDMicros = wo_AmountUSDMicros first, ci_Notes = wo_Reason first\<rparr>
      in if wo_Kind first = ''debit'' then WCharge input else WRefund input)"

lemma transfer_asked:
  assumes life: "wallet_life sha i first op k" and c: "wallet_call_ok sha i op c" "moves_money c"
  shows "c = asked_transfer sha i first"
proof -
  from wallet_life_sound [OF life] have s: "v2_identity sha i op" "wallet_identity op = wallet_identity first"
    by (simp_all add: wallet_sound_def)
  then have "wallet_charge_input op = \<lparr>ci_UserID = wo_Sub2APIUserID first, ci_Code = walletAdjustmentRedeemCode sha i,
      ci_USDMicros = wo_AmountUSDMicros first, ci_Notes = wo_Reason first\<rparr>" "wo_Kind op = wo_Kind first"
    by (simp_all add: wallet_charge_input_def wallet_identity_def v2_identity_def)
  then show ?thesis
    using c by (auto simp: wallet_call_ok_def moves_money_def asked_transfer_def Let_def split: wallet_call.splits)
qed

lemma failed_unattempted: "wallet_sound sha i op \<Longrightarrow> wo_Status op = ''failed'' \<Longrightarrow> attempts op = 0"
  by (simp add: wallet_sound_def attempts_def)

lemma attempts_two: "attempts op \<le> 2" "2 \<le> attempts op \<Longrightarrow> wo_RecoveryAttempted op"
  by (simp_all add: attempts_def split: if_splits)

section \<open>A life\<close>

definition ex_wallet_request :: wallet_request where
  "ex_wallet_request = \<lparr>wq_Kind = ''debit'', wq_AmountUSD = ''12.5'', wq_Reason = ''correction'', wq_RelatedOperationID = [],
     wq_ConfirmationAccountID = ''acct-1''\<rparr>"

definition ex_operator :: operator_request where
  "ex_operator = \<lparr>oq_idempotencyKey = ''k-1'', oq_user = Some [(''id'', GStr ''usr-admin''), (''role'', GStr ''admin'')],
     oq_ip = ''10.0.0.1'', oq_userAgent = []\<rparr>"

text \<open>Services that answer, for an adjustment under a code, for a signed amount.\<close>

definition ex_account :: gomap where
  "ex_account = [(''id'', GStr ''acct-1''), (''status'', GStr ''active''), (''ownerUserId'', GStr ''usr-1''), (''sub2apiUserId'', GInt 7)]"

definition ex_owner :: gomap where
  "ex_owner = [(''id'', GStr ''usr-1''), (''accountId'', GStr ''acct-1''), (''role'', GStr ''owner''), (''status'', GStr ''active''), (''email'', GStr ''a@b'')]"

definition paying_services :: "string \<Rightarrow> int \<Rightarrow> int \<Rightarrow> wallet_services" where
  "paying_services code amount before =
     \<lparr>ws_sha = (\<lambda>_. replicate 64 (CHR ''0'')), ws_marshal = (\<lambda>_. []), ws_unmarshal = (\<lambda>_. None), ws_unmarshalResult = (\<lambda>_. None),
      ws_now = (\<lambda>_. unix_epoch), ws_ListRuntimeOperations = (\<lambda>_. Some []),
      ws_ListAccounts = (\<lambda>_ _. Some [ex_account]),
      ws_ListUsers = (\<lambda>_. Some [ex_owner]),
      ws_User = (\<lambda>_ _. Some \<lparr>wu_Email = ''a@b'', wu_Status = ''active''\<rparr>),
      ws_Balance = (\<lambda>l u. Inr \<lparr>wb_UserID = u, wb_USDMicros = before + (if moves l = 0 then 0 else amount), wb_Status = ''active''\<rparr>),
      ws_BalanceHistory = (\<lambda>l u. Inr (if moves l = 0 then [] else [\<lparr>we_Code = code, we_Type = ''balance'',
         we_ValueUSDMicros = amount, we_Status = ''used'', we_UsedBy = Some u, we_UsedAt = Some ''t'', we_CreatedAt = ''t''\<rparr>])),
      ws_Charge = (\<lambda>_ _. None), ws_Refund = (\<lambda>_ _. None), ws_RecordReceipt = (\<lambda>_ _. Some ''receipt-1''),
      ws_SaveRuntimeOperation = (\<lambda>_ _. True), ws_SaveAuditEvent = (\<lambda>_ _. True)\<rparr>"

lemma paying_answers: "answering (paying_services (wo_CanonicalRedeemCode op) (signed_amount op) b) op b"
  by (simp add: answering_def paying_services_def confirms_def)

abbreviation ex_wallet_id :: string where "ex_wallet_id \<equiv> ''wallet-adjustment-1''"
abbreviation ex_digest :: "string \<Rightarrow> string" where "ex_digest \<equiv> \<lambda>_. replicate 64 (CHR ''0'')"

definition ex_services :: wallet_services where
  "ex_services = paying_services (walletAdjustmentRedeemCode ex_digest ex_wallet_id) (-12500000) 20000000"

definition ex_wallet_op :: wallet_operation where
  "ex_wallet_op = new_wallet_operation ex_services ex_wallet_id ''hash'' ''acct-1'' 7 ex_wallet_request 12500000 ''usr-2'' (format_rfc3339nano unix_epoch)"

lemma ex_services_simps [simp]:
  "ws_sha ex_services = ex_digest" "int64_balances ex_services"
  by (simp_all add: ex_services_def paying_services_def int64_balances_def max_int64_def)

lemma ex_valid: "validWalletAdjustmentRequest ex_wallet_request ''acct-1'' ''key-1'' = Some 12500000"
proof -
  have parts: "whole_part ''12.5'' = ''12''" "take 6 (tl (decimal_part ''12.5'') @ replicate 6 (CHR ''0'')) = ''500000''" by code_simp+
  have "decimalUSDMicros ''12.5'' = 12500000"
    unfolding decimalUSDMicros_def parts by (simp add: read_nat_def digit_val_def)
  moreover have "validAccountID ''acct-1''" "trim_space ''key-1'' = ''key-1''" "walletAmountPattern ''12.5''" "trim_space ''12.5'' = ''12.5''"
    "trim_space ''correction'' = ''correction''" "rune_count ''correction'' = 10" "\<not> has_control ''correction''" "trim_space [] = []"
    by code_simp+
  ultimately show ?thesis
    by (simp add: validWalletAdjustmentRequest_def ex_wallet_request_def Let_def maxWalletAdjustmentUSDMicros_def)
qed

lemma ex_account_simps:
  "findRecord [ex_account] ''acct-1'' = Some ex_account" "positiveIntegerField ex_account ''sub2apiUserId'' = Some 7"
  "sfield ex_account ''status'' = ''active''" "sfield ex_account ''ownerUserId'' = ''usr-1''" "findRecord [ex_owner] ''usr-1'' = Some ex_owner"
  "ownsActiveAccount (Some ex_account) ex_owner" "normalizeEmail (sfield ex_owner ''email'') = normalizeEmail ''a@b''"
  by code_simp+

lemma ex_checked: "\<exists>l'. run_state (walletAdjustmentAccount ex_services ''acct-1'') l = (Inr (ex_account, 7), l')"
  by (simp add: walletAdjustmentAccount_def wpeek_def run_calls ex_services_def paying_services_def ex_account_simps)

lemma ex_opened: "WSave ex_wallet_op True \<in> calls_of (open_adjustment ex_services ex_wallet_id ''hash'' ''acct-1'' ex_wallet_request 12500000 ''usr-2'')"
proof -
  obtain l' where a: "run_state (walletAdjustmentAccount ex_services ''acct-1'') [] = (Inr (ex_account, 7), l')" using ex_checked by blast
  have now: "ws_now ex_services = (\<lambda>_. unix_epoch)" "ws_SaveRuntimeOperation ex_services = (\<lambda>_ _. True)" "wq_Kind ex_wallet_request = ''debit''"
    by (simp_all add: ex_services_def paying_services_def ex_wallet_request_def)
  have kept: "(assign_code ex_digest ex_wallet_id ex_wallet_op)\<lparr>wo_UpdatedAt := format_rfc3339nano unix_epoch\<rparr> = ex_wallet_op"
    by (simp add: ex_wallet_op_def new_wallet_operation_def assign_code_def)
  show ?thesis
    by (simp add: calls_of_def open_adjustment_def wpeek_def now_text_def save_phase_def persistWalletAdjustment_def run_calls a now
        ex_account_simps Let_def kept flip: ex_wallet_op_def)
qed

lemma ex_life_by: "W ex_services \<Longrightarrow> wallet_life_by W ex_digest ex_wallet_id ex_wallet_op ex_wallet_op 0"
  by (rule opened [OF ex_valid _ _ ex_opened]) simp_all

lemma ex_wallet_life: "wallet_life ex_digest ex_wallet_id ex_wallet_op ex_wallet_op 0"
  by (rule ex_life_by) simp

lemma ex_answering: "answering ex_services ex_wallet_op 20000000"
proof -
  have "wo_CanonicalRedeemCode ex_wallet_op = walletAdjustmentRedeemCode ex_digest ex_wallet_id" "signed_amount ex_wallet_op = -12500000"
    by (simp_all add: ex_wallet_op_def new_wallet_operation_def signed_amount_def ex_wallet_request_def)
  then show ?thesis using paying_answers [of ex_wallet_op 20000000] by (simp add: ex_services_def)
qed

lemma ex_sound: "wallet_sound (ws_sha ex_services) ex_wallet_id ex_wallet_op"
  using wallet_life_sound [OF ex_wallet_life] by simp

lemma ex_starts:
  "wo_Phase ex_wallet_op = ''before_balance''" "(0::int) \<le> 20000000" "(20000000::int) \<le> max_int64" "amount_fits ex_wallet_op 20000000"
  by (simp_all add: ex_wallet_op_def new_wallet_operation_def amount_fits_def ex_wallet_request_def max_int64_def)

lemma stored_latest: "stored op log (latest op log)"
  by (induction op log rule: latest.induct) (auto split: wallet_call.split bool.split)

lemma ex_succeeded_by: "\<exists>op. wallet_life_by (\<lambda>sv. sv = ex_services) ex_digest ex_wallet_id ex_wallet_op op 1 \<and> wo_Status op = ''succeeded''"
proof -
  obtain op' log where run: "run_state (runWalletAdjustment ex_services ex_operator ex_wallet_id ex_wallet_op) [] = ((op', None), log)"
    and op': "wo_Status op' = ''succeeded''" "latest ex_wallet_op log = op'" "tally log = (1, 1)"
    using rounds_succeed [OF ex_answering ex_sound ex_starts] unfolding runWalletAdjustment_def by blast
  have "wallet_life_by (\<lambda>sv. sv = ex_services) ex_digest ex_wallet_id ex_wallet_op op' (0 + moves log)"
    by (rule ran [OF ex_life_by, of _ ex_services ex_operator "[]"]) (use run op'(2) stored_latest [of ex_wallet_op log] in simp_all)
  then show ?thesis using op' by (auto simp: tally_iff)
qed

lemma ex_succeeded: "\<exists>op. wallet_life ex_digest ex_wallet_id ex_wallet_op op 1 \<and> wo_Status op = ''succeeded''"
proof -
  have "wallet_life_by W sha i first op k \<Longrightarrow> wallet_life sha i first op k" for W sha i first op k
    by (induction rule: wallet_life_by.induct) (auto intro: wallet_life_by.intros)
  with ex_succeeded_by show ?thesis by blast
qed

text \<open>The same adjustment, under review after an attempt of which nothing is known.\<close>

definition ex_reviewed :: wallet_operation where
  "ex_reviewed = ex_wallet_op\<lparr>wo_AdjustmentAttempted := True, wo_BeforeBalanceKnown := True, wo_BeforeBalanceMicros := 20000000,
     wo_Status := ''manual_review'', wo_Phase := ''authoritative_readback''\<rparr>"

definition ex_retried :: wallet_operation where
  "ex_retried = ex_reviewed\<lparr>wo_RecoveryRequestHash := ''hash-2'', wo_RecoveryEvidenceRef := ''evidence'', wo_RecoveryActorUserID := ''usr-2'',
     wo_RecoveryAuthorizedAt := format_rfc3339nano unix_epoch, wo_RecoveryAttempted := True, wo_AdjustmentAttempted := False,
     wo_Status := ''pending'', wo_Phase := ''adjustment''\<rparr>"

lemma ex_retry: "WSave ex_retried True \<in> calls_of (prepareWalletAdjustmentRecovery ex_services ex_wallet_id ex_reviewed ''hash-2'' ''evidence'' ''usr-2'')"
  by (simp add: calls_of_def prepareWalletAdjustmentRecovery_def recovery_readback_def recover_by_history_def retry_recovery_def end_recovery_def
     wpeek_def now_text_def save_phase_def persistWalletAdjustment_def run_calls Let_def
        ex_retried_def ex_reviewed_def ex_wallet_op_def new_wallet_operation_def ex_services_def paying_services_def assign_code_def inspectWalletAdjustmentHistory_def
   recovery_eligible_def legacy_identity_def v2_identity_def legacyWalletAdjustmentRedeemCode_def walletAdjustmentRedeemCode_def stableID_def balance_usable_def)

lemma ex_retried_flags: "wo_RecoveryAttempted ex_retried" "\<not> wo_RecoveryAttempted ex_reviewed"
  by (simp_all add: ex_retried_def ex_reviewed_def ex_wallet_op_def new_wallet_operation_def)

section \<open>The claims\<close>

text \<open>C10: over the whole life of an adjustment money is moved at most as often as attempts were noted,
  hence at most twice, the second time only behind a recovery, and never for an adjustment that is
  reported as failed; and every movement a run makes is the one that was asked for, for the user,
  amount and reason of the row that opened it, under the code of its identifier.\<close>

theorem wallet_moves_twice:
  assumes "wallet_life sha i first op k" and "ws_sha sv = sha" and "int64_balances sv"
  shows "k \<le> attempts op \<and> attempts op \<le> 2 \<and> (wo_Status op = ''failed'' \<longrightarrow> k = 0) \<and> (k = 2 \<longrightarrow> wo_RecoveryAttempted op) \<and>
    Set.filter moves_money (calls_of (runWalletAdjustment sv r i op)) \<subseteq> {asked_transfer sha i first}"
proof (intro conjI impI)
  have sound: "wallet_sound sha i op" using wallet_life_sound [OF assms(1)] by simp
  show k: "k \<le> attempts op" by (rule wallet_life_attempts [OF assms(1)])
  show "attempts op \<le> 2" by (rule attempts_two)
  show "k = 0" if "wo_Status op = ''failed''" using k failed_unattempted [OF sound that] by simp
  show "wo_RecoveryAttempted op" if "k = 2" using k that by (intro attempts_two) simp
  show "Set.filter moves_money (calls_of (runWalletAdjustment sv r i op)) \<subseteq> {asked_transfer sha i first}"
    using does_calls_of [OF does_wallet_run [OF assms(2,3) sound]] transfer_asked [OF assms(1)] by auto
qed

theorem wallet_moves_twice_witness:
  "\<exists>op. wallet_life ex_digest ex_wallet_id ex_wallet_op op 1 \<and> 1 \<le> attempts op \<and> attempts op \<le> 2 \<and>
     Set.filter moves_money (calls_of (runWalletAdjustment ex_services ex_operator ex_wallet_id op)) \<subseteq> {asked_transfer ex_digest ex_wallet_id ex_wallet_op}"
proof -
  obtain op where "wallet_life ex_digest ex_wallet_id ex_wallet_op op 1" using ex_succeeded by blast
  with wallet_moves_twice [OF this ex_services_simps] show ?thesis by (intro exI [of _ op]) auto
qed

text \<open>C11: an adjustment is recorded as succeeded only with answers for all of it, from services of its own
  life (\<open>W\<close> is any property those services have): an answer of the balance history holds an entry
  of type balance under its code, used by its user for its signed amount, whose reference is stored;
  the balance before and the balance after are answers of the balance, for its user, active; and a
  receipt of the adjustment was answered with the identifier that is stored. The balance moved by
  exactly the signed amount and within 64 bits; and from then on a run changes nothing.\<close>

theorem wallet_success_confirmed:
  assumes "wallet_life_by W sha i first op k" and "wo_Status op = ''succeeded''"
  shows "(\<exists>sv l h e. W sv \<and> ws_BalanceHistory sv l (wo_Sub2APIUserID first) = Inr h \<and> e \<in> set h \<and>
       we_Code e = walletAdjustmentRedeemCode sha i \<and> we_Type e = ''balance'' \<and> we_Status e = ''used'' \<and>
       we_UsedBy e = Some (wo_Sub2APIUserID first) \<and> we_ValueUSDMicros e = signed_amount first \<and>
       wo_BalanceHistoryRef op = walletAdjustmentBalanceHistoryRef sha (wo_Sub2APIUserID first) e) \<and>
    balance_answered W (wo_Sub2APIUserID first) (wo_BeforeBalanceMicros op) \<and>
    balance_answered W (wo_Sub2APIUserID first) (wo_AfterBalanceMicros op) \<and>
    (\<exists>sv l p. W sv \<and> wallet_identity p = wallet_identity first \<and>
       ws_RecordReceipt sv l (walletAdjustmentReceipt i p) = Some (wo_ReceiptID op)) \<and> wo_ReceiptID op \<noteq> [] \<and>
    wo_AfterBalanceMicros op = wo_BeforeBalanceMicros op + signed_amount first \<and> 0 \<le> wo_AfterBalanceMicros op \<and>
    wo_AfterBalanceMicros op \<le> max_int64 \<and> run_state (runWalletAdjustment sv r i op) l = ((op, None), l)"
proof -
  from wallet_life_sound [OF assms(1)] have sound: "wallet_sound sha i op" and id: "wallet_identity op = wallet_identity first" by simp_all
  have s: "v2_identity sha i op" "wallet_asked op" "measured op" "in_history sha op" "balanced op" "wo_ReceiptID op \<noteq> []" "wo_Phase op = ''complete''"
    using sound assms(2) by (simp_all add: wallet_sound_def)
  have f: "signed_amount op = signed_amount first" "wo_Sub2APIUserID op = wo_Sub2APIUserID first"
    using id by (simp_all add: wallet_identity_def signed_amount_def)
  have known: "wo_BeforeBalanceKnown op" "wo_AfterBalanceKnown op" "wo_BalanceHistoryRef op \<noteq> []"
    using s(3,4,5) by (auto simp: measured_def balanced_def in_history_def walletAdjustmentBalanceHistoryRef_def)
  with wallet_life_backed [OF assms(1)] s(6) have b: "balance_answered W (wo_Sub2APIUserID first) (wo_BeforeBalanceMicros op)"
    "balance_answered W (wo_Sub2APIUserID first) (wo_AfterBalanceMicros op)" "entry_answered W sha op" "receipt_answered W i op"
    by (simp_all add: backed_def f)
  have "0 \<le> wo_BeforeBalanceMicros op + signed_amount op \<and> wo_BeforeBalanceMicros op + signed_amount op \<le> max_int64"
    using s(2,3) by (auto simp: measured_def amount_fits_def signed_amount_def wallet_asked_def split: if_splits)
  moreover have "wo_AfterBalanceMicros op = wo_BeforeBalanceMicros op + signed_amount op" using s(5) by (simp add: balanced_def)
  moreover have "run_state (runWalletAdjustment sv r i op) l = ((op, None), l)"
    unfolding runWalletAdjustment_def using rounds_complete [OF s(7), of 7] by simp
  moreover have "\<exists>sv l h e. W sv \<and> ws_BalanceHistory sv l (wo_Sub2APIUserID first) = Inr h \<and> e \<in> set h \<and>
       we_Code e = walletAdjustmentRedeemCode sha i \<and> we_Type e = ''balance'' \<and> we_Status e = ''used'' \<and>
       we_UsedBy e = Some (wo_Sub2APIUserID first) \<and> we_ValueUSDMicros e = signed_amount first \<and>
       wo_BalanceHistoryRef op = walletAdjustmentBalanceHistoryRef sha (wo_Sub2APIUserID first) e"
    using b(3) s(1) unfolding entry_answered_def confirms_def v2_identity_def f by metis
  ultimately show ?thesis
    using b(1,2,4) s(6) id f unfolding receipt_answered_def by simp
qed

text \<open>In the life of the example there is one kind of services, so the answers are theirs.\<close>

theorem wallet_success_confirmed_witness:
  "\<exists>op. wallet_life_by (\<lambda>sv. sv = ex_services) ex_digest ex_wallet_id ex_wallet_op op 1 \<and>
     (\<exists>l h e. ws_BalanceHistory ex_services l 7 = Inr h \<and> e \<in> set h \<and> we_ValueUSDMicros e = -12500000) \<and>
     (\<exists>l x. ws_RecordReceipt ex_services l x = Some (wo_ReceiptID op)) \<and>
     wo_AfterBalanceMicros op = wo_BeforeBalanceMicros op - 12500000"
proof -
  obtain op where op: "wallet_life_by (\<lambda>sv. sv = ex_services) ex_digest ex_wallet_id ex_wallet_op op 1" "wo_Status op = ''succeeded''"
    using ex_succeeded_by by blast
  have "signed_amount ex_wallet_op = -12500000" "wo_Sub2APIUserID ex_wallet_op = 7"
    by (simp_all add: ex_wallet_op_def new_wallet_operation_def signed_amount_def ex_wallet_request_def)
  with wallet_success_confirmed [OF op] op(1) show ?thesis by (intro exI [of _ op] conjI) (force+)
qed

text \<open>C12: a recovery opens a second attempt only when an answer of the history had no entry under
  either code of the adjustment, and an answer of the balance, for the active user of the adjustment,
  was the one read before the first attempt.\<close>

theorem wallet_retry_checked:
  assumes "WSave q ok \<in> calls_of (prepareWalletAdjustmentRecovery sv i op h e a)"
    and "wo_RecoveryAttempted q" and "\<not> wo_RecoveryAttempted op"
  shows "(\<exists>l entries. ws_BalanceHistory sv l (wo_Sub2APIUserID op) = Inr entries \<and>
       {walletAdjustmentRedeemCode (ws_sha sv) i, legacyWalletAdjustmentRedeemCode (ws_sha sv) i} \<inter> we_Code ` set entries = {}) \<and>
    (\<exists>l b. ws_Balance sv l (wo_Sub2APIUserID op) = Inr b \<and> wb_UserID b = wo_Sub2APIUserID op \<and> wb_Status b = ''active'' \<and>
       wb_USDMicros b = wo_BeforeBalanceMicros op) \<and> attempts q = attempts op"
proof -
  have "retry_checked sv i op q" "attempts q = attempts op"
    using does_calls_of [OF does_recovery assms(1)] by (simp_all add: recovery_write_def)
  then show ?thesis using assms(2,3) unfolding retry_checked_def balance_usable_def by auto
qed

theorem wallet_retry_checked_witness:
  "(\<exists>l b. ws_Balance ex_services l (wo_Sub2APIUserID ex_reviewed) = Inr b \<and> wb_USDMicros b = wo_BeforeBalanceMicros ex_reviewed) \<and>
     attempts ex_retried = attempts ex_reviewed"
  using wallet_retry_checked [OF ex_retry ex_retried_flags] by blast

text \<open>C15: a new adjustment completes in one run when the services answer and the amount fits the
  balance: the run ends without an error, the adjustment is succeeded and in the table, and money was
  moved exactly once and exactly one receipt sent.\<close>

theorem wallet_completes:
  assumes "answering sv op before" and "wallet_sound (ws_sha sv) i op" and "wo_Phase op = ''before_balance''"
    and "0 \<le> before" and "before \<le> max_int64" and "amount_fits op before"
  shows "\<exists>op' log. run_state (runWalletAdjustment sv r i op) [] = ((op', None), log) \<and> wo_Status op' = ''succeeded'' \<and> latest op log = op' \<and> tally log = (1, 1)"
  unfolding runWalletAdjustment_def using rounds_succeed [OF assms] .

theorem wallet_completes_witness:
  "\<exists>op' log. run_state (runWalletAdjustment ex_services ex_operator ex_wallet_id ex_wallet_op) [] = ((op', None), log) \<and>
     wo_Status op' = ''succeeded'' \<and> latest ex_wallet_op log = op' \<and> tally log = (1, 1)"
  using wallet_completes [OF ex_answering ex_sound ex_starts] .

end
