(* ===== verification/CP_Wallet_Receipts.thy ===== *)
theory CP_Wallet_Receipts
  imports CP_Wallet_Safety Ledger_Invariant
begin

text \<open>
  Wallet adjustments against the Ledger and against one another: the receipt of an adjustment is
  accepted and recorded by the Ledger, and refunds never exceed what they refund.
\<close>

section \<open>The receipt on its way\<close>

text \<open>The body of the request: every map of the input went through JSON.\<close>

definition delivered :: "receipt_input \<Rightarrow> receipt_input option" where
  "delivered x = do {
     actor \<leftarrow> clone_field (ri_actor x); plan \<leftarrow> clone_field (ri_plan x); execution \<leftarrow> clone_field (ri_execution x);
     environment \<leftarrow> clone_field (ri_environment x); inputRefs \<leftarrow> clone_field (ri_inputRefs x);
     outputRefs \<leftarrow> clone_field (ri_outputRefs x); checks \<leftarrow> clone_field (ri_reviewerChecks x);
     cost \<leftarrow> clone_field (ri_cost x); owner \<leftarrow> clone_field (ri_owner x); continuation \<leftarrow> clone_field (ri_continuation x);
     Some (x\<lparr>ri_actor := actor, ri_plan := plan, ri_execution := execution, ri_environment := environment,
             ri_inputRefs := inputRefs, ri_outputRefs := outputRefs, ri_reviewerChecks := checks, ri_cost := cost,
             ri_owner := owner, ri_continuation := continuation\<rparr>)
   }"

text \<open>A digest in hexadecimal.\<close>

definition hex_digest :: "(string \<Rightarrow> string) \<Rightarrow> bool" where
  "hex_digest sha \<longleftrightarrow> (\<forall>s. length (sha s) = 64 \<and> list_all opaque_char (sha s))"

lemma digit_opaque: "is_digit c \<Longrightarrow> opaque_char c"
  by (simp add: is_digit_def opaque_char_def)

lemma show_int_opaque: "list_all opaque_char (show_int n)"
  using show_nat_digits [of "nat \<bar>n\<bar>"] by (auto simp: show_int_def list_all_iff digit_opaque) (simp add: opaque_char_def)

lemma list_all_take: "list_all P xs \<Longrightarrow> list_all P (take n xs)"
  by (auto simp: list_all_iff dest: in_set_takeD)

lemma short_show_int:
  assumes "int64_range n"
  shows "length (show_int n) \<le> 20"
proof -
  have "\<bar>n\<bar> < 10 ^ Suc 18" using assms by (auto simp: int64_range_def min_int64_def max_int64_def abs_if)
  then have "nat \<bar>n\<bar> < 10 ^ Suc 18" by (simp add: nat_less_iff)
  from length_show_nat [OF this] show ?thesis by (cases "n < 0") (simp_all add: show_int_def)
qed

lemma history_ref_opaque:
  assumes "hex_digest sha" "int64_range u"
  shows "isOpaqueReference (walletAdjustmentBalanceHistoryRef sha u e)"
proof -
  have "list_all opaque_char ''sub2api:balance-history:''" "opaque_char CHR '':''" by code_simp+
  then show ?thesis
    using assms short_show_int [OF assms(2)] show_int_opaque [of u]
    by (simp add: isOpaqueReference_def walletAdjustmentBalanceHistoryRef_def stableID_def hex_digest_def list_all_take)
qed

lemma related_opaque: "walletRelatedOperationPattern s \<Longrightarrow> isOpaqueReference s"
  by (cases s)
     (auto simp: walletRelatedOperationPattern_def isOpaqueReference_def Let_def list_all_iff opaque_char_def is_digit_def is_lower_def lower_byte_def)

section \<open>The receipt is accepted\<close>

text \<open>The adjustments whose receipts are meant: a user of 64 bits, and an actor that is an opaque
  reference, as the identifiers of users are.\<close>

definition receiptable :: "wallet_operation \<Rightarrow> bool" where
  "receiptable op \<longleftrightarrow> int64_range (wo_Sub2APIUserID op) \<and> isOpaqueReference (wo_ActorUserID op)"

definition delivered_receipt :: "string \<Rightarrow> wallet_operation \<Rightarrow> receipt_input" where
  "delivered_receipt i op = (walletAdjustmentReceipt i op)
     \<lparr>ri_execution := Some [(''amountUsdMicros'', GNum (show_int (wo_AmountUSDMicros op))), (''kind'', GStr (wo_Kind op)), (''operationId'', GStr i)]\<rparr>"

lemma asked_range: "wallet_asked op \<Longrightarrow> int64_range (wo_AmountUSDMicros op)"
  by (simp add: wallet_asked_def maxWalletAdjustmentUSDMicros_def int64_range_def min_int64_def max_int64_def)

lemma receipt_delivered: "wallet_asked op \<Longrightarrow> delivered (walletAdjustmentReceipt i op) = Some (delivered_receipt i op)"
  using asked_range [of op]
  by (simp add: delivered_def walletAdjustmentReceipt_def delivered_receipt_def clone_field_def)

lemma receipt_keys_allowed:
  "list_all (\<lambda>k. go_lower k \<notin> set forbidden_keys) [''userId'', ''operationId'', ''kind'', ''amountUsdMicros'', ''balanceHistoryRef'', ''relatedOperationId'', ''accountId'']"
  by code_simp

lemma wallet_receipt_type:
  "has_prefix walletAdjustmentAction ''billing.'' = False" "''completed'' \<in> set allowed_receipt_status"
  "walletAdjustmentAction \<noteq> ''workspace.gateway_key_rotated.v1''" "walletAdjustmentAction = ''gateway.wallet_adjustment.v1''"
  "walletAdjustmentAction \<noteq> []"
  by code_simp+

lemma num_allowed: "int64_range n \<Longrightarrow> \<not> containsForbiddenReceiptKey (GNum (show_int n))"
  using json_norm_idem [of "GInt n"] by (simp add: containsForbiddenReceiptKey_def normalizedJSONValue_def)

lemma delivered_fields:
  "ri_actor (delivered_receipt i op) = Some [(''userId'', GStr (wo_ActorUserID op))]" "ri_plan (delivered_receipt i op) = None"
  "ri_execution (delivered_receipt i op) =
     Some [(''amountUsdMicros'', GNum (show_int (wo_AmountUSDMicros op))), (''kind'', GStr (wo_Kind op)), (''operationId'', GStr i)]"
  "ri_environment (delivered_receipt i op) = None"
  "ri_inputRefs (delivered_receipt i op) = Some ((''balanceHistoryRef'', GStr (wo_BalanceHistoryRef op)) #
     (if wo_RelatedOperationID op \<noteq> [] then [(''relatedOperationId'', GStr (wo_RelatedOperationID op))] else []))"
  "ri_outputRefs (delivered_receipt i op) = None" "ri_reviewerChecks (delivered_receipt i op) = None" "ri_cost (delivered_receipt i op) = None"
  "ri_owner (delivered_receipt i op) = Some [(''accountId'', GStr (wo_AccountID op))]" "ri_continuation (delivered_receipt i op) = None"
  by (simp_all add: delivered_receipt_def walletAdjustmentReceipt_def)

lemma receipt_valid:
  assumes op: "wallet_asked op" "receiptable op" and ref: "isOpaqueReference (wo_BalanceHistoryRef op)" and i: "isOpaqueReference i"
  shows "validateReceiptInput (delivered_receipt i op) = None"
proof -
  let ?x = "delivered_receipt i op"
  have allowed: "\<not> containsForbiddenReceiptKey (GObj (receipt_input_json ?x))"
    using receipt_keys_allowed num_allowed [OF asked_range [OF op(1)]]
    unfolding forbidden_receipt by (simp add: delivered_fields field_json_def forbidden_obj del: go_lower.simps)
  have "validWalletAdjustmentReceipt ?x"
    using op ref i asked_range [OF op(1)] related_opaque
    by (auto simp: validWalletAdjustmentReceipt_def delivered_receipt_def walletAdjustmentReceipt_def Let_def mlen_def int_where_def opaque_str_def
        wallet_asked_def receiptable_def isOpaqueReference_def parse_show_int64)
  with allowed i show ?thesis
    using wallet_receipt_type
    by (simp add: validateReceiptInput_def billingCostValid_def delivered_receipt_def walletAdjustmentReceipt_def mlen_def Let_def)
qed

lemma receipt_hashes: "wallet_asked op \<Longrightarrow> \<exists>h. hash_receipt_input hx (delivered_receipt i op) = Some h"
proof -
  assume op: "wallet_asked op"
  have "json_norm_kvs (receipt_input_json ((delivered_receipt i op)\<lparr>ri_idempotencyKey := []\<rparr>)) \<noteq> None"
    unfolding json_norm_kvs_defined
    by (simp add: receipt_input_json_def delivered_receipt_def walletAdjustmentReceipt_def field_json_def show_int_nonempty)
  then show ?thesis by (auto simp: hash_receipt_input_def hashJSON_def)
qed

text \<open>C13: every receipt that a run of an adjustment sends is taken by the Ledger, on its way through JSON,
  the first time its key is used: the Ledger answers with a new receipt, so the run goes on to the
  audit.\<close>

theorem wallet_receipt_accepted:
  assumes "wallet_life sha i first op k" and "ws_sha sv = sha" and "int64_balances sv"
    and "WReceipt x \<in> calls_of (runWalletAdjustment sv r i op)"
    and "hex_digest sha" and "receiptable first" and "isOpaqueReference i"
    and "ls_idempotency s (i @ '':ledger'') = None" and "clock_ok now"
  shows "\<exists>x' rcpt s'. delivered x = Some x' \<and> RecordReceipt hx now x' s = (Ok rcpt, s') \<and> rc_receiptId rcpt \<noteq> [] \<and>
     ri_type rcpt = ''gateway.wallet_adjustment.v1'' \<and> ri_accountId rcpt = wo_AccountID first \<and> ri_requestId rcpt = i"
proof -
  from wallet_life_sound [OF assms(1)] have op: "wallet_sound sha i op" "wallet_identity op = wallet_identity first" by simp_all
  from does_calls_of [OF does_wallet_run [OF assms(2,3) op(1)] assms(4)] obtain p where
    p: "wallet_step sha i op p" "wo_Phase p = ''ledger''" "x = walletAdjustmentReceipt i p" by (auto simp: wallet_call_ok_def)
  then have s: "wallet_asked p" "in_history sha p" "wallet_identity p = wallet_identity first"
    using op(2) by (simp_all add: wallet_step_def wallet_sound_def)
  have f: "receiptable p" "wo_AccountID p = wo_AccountID first"
    using assms(6) s(3) by (simp_all add: receiptable_def wallet_identity_def)
  have ref: "isOpaqueReference (wo_BalanceHistoryRef p)"
    using s(2) f(1) history_ref_opaque [OF assms(5)] by (auto simp: in_history_def receiptable_def)
  let ?x = "delivered_receipt i p"
  obtain h where h: "hash_receipt_input hx ?x = Some h" using receipt_hashes [OF s(1)] by blast
  have key: "ri_idempotencyKey ?x = i @ '':ledger''" by (simp add: delivered_receipt_def walletAdjustmentReceipt_def)
  have rec: "RecordReceipt hx now ?x s =
      (Ok (clone_receipt (clone_receipt (new_receipt now ?x s))), add_receipt (ri_idempotencyKey ?x) h (clone_receipt (new_receipt now ?x s)) s)"
    by (rule RecordReceipt_new [OF receipt_valid [OF s(1) f(1) ref assms(7)] h]) (simp add: key assms(8))
  from new_receipt_clones [OF h assms(9), of s] obtain c where c: "clone_receipt_opt (new_receipt now ?x s) = Some c" by blast
  have same: "clone_receipt (clone_receipt (new_receipt now ?x s)) = c"
    using c clone_stored [OF clone_receipt_opt_stored [OF c]] by (simp add: clone_receipt_def)
  have "rc_receiptId c = receipt_id (Suc (ls_nextID s))" "ri_type c = ''gateway.wallet_adjustment.v1''" "ri_accountId c = wo_AccountID first" "ri_requestId c = i"
    unfolding clone_receipt_opt_fields [OF c]
    by (simp_all add: new_receipt_def delivered_receipt_def walletAdjustmentReceipt_def wallet_receipt_type f(2))
  then show ?thesis
    using rec same receipt_delivered [OF s(1), of i] p(3) by (auto simp: receipt_id_def)
qed

lemma receipt_sent: "receipts log \<noteq> 0 \<Longrightarrow> \<exists>x. WReceipt x \<in> set log"
  by (induction log) (auto simp: receipts_def split: wallet_call.splits if_splits)

lemma ex_sent: "\<exists>x. WReceipt x \<in> calls_of (runWalletAdjustment ex_services ex_operator ex_wallet_id ex_wallet_op)"
proof -
  obtain op' log where "run_state (runWalletAdjustment ex_services ex_operator ex_wallet_id ex_wallet_op) [] = ((op', None), log)" "receipts log = 1"
    using rounds_succeed [OF ex_answering ex_sound ex_starts] unfolding runWalletAdjustment_def tally_iff by blast
  then show ?thesis using receipt_sent [of log] by (simp add: calls_of_def)
qed

theorem wallet_receipt_accepted_witness:
  "\<exists>x x' rcpt s'. WReceipt x \<in> calls_of (runWalletAdjustment ex_services ex_operator ex_wallet_id ex_wallet_op) \<and> delivered x = Some x' \<and>
     RecordReceipt \<lparr>hx_bytes = id, hx_json = (\<lambda>_. [])\<rparr> unix_epoch x' NewMemoryStore = (Ok rcpt, s') \<and> rc_receiptId rcpt \<noteq> []"
proof -
  obtain x where x: "WReceipt x \<in> calls_of (runWalletAdjustment ex_services ex_operator ex_wallet_id ex_wallet_op)" using ex_sent by blast
  have h: "hex_digest ex_digest" by (simp add: hex_digest_def opaque_char_def list_all_length)
  have r: "receiptable ex_wallet_op" "isOpaqueReference ex_wallet_id"
    by (simp_all add: receiptable_def ex_wallet_op_def new_wallet_operation_def isOpaqueReference_def opaque_char_def int64_range_def min_int64_def max_int64_def)
  have e: "ls_idempotency NewMemoryStore (ex_wallet_id @ '':ledger'') = None" by (simp add: NewMemoryStore_def)
  have c: "clock_ok unix_epoch" by code_simp
  from wallet_receipt_accepted [OF ex_wallet_life ex_services_simps x h r e c] x show ?thesis by blast
qed

section \<open>Refunds\<close>

text \<open>The refunds of an operation that a table holds: the adjustments of the account, of that kind, that
  name the operation; the row of the operation itself is not one of them.\<close>

definition refund_rows :: "string \<Rightarrow> string \<Rightarrow> gomap list \<Rightarrow> gomap list" where
  "refund_rows accountID related rows =
     filter (\<lambda>row. sfield row ''accountId'' = accountID \<and> sfield row ''id'' \<noteq> related \<and> sfield row ''action'' = walletAdjustmentAction) rows"

definition refunds_of :: "wallet_services \<Rightarrow> string \<Rightarrow> string \<Rightarrow> gomap list \<Rightarrow> wallet_operation list" where
  "refunds_of sv accountID related rows =
     filter (\<lambda>op. wo_Kind op = ''business_refund'' \<and> wo_RelatedOperationID op = related)
       (List.map_filter (decodeWalletAdjustment sv) (refund_rows accountID related rows))"

lemma refund_scan_sum:
  assumes "refund_scan sv accountID related rows original refunded = Ok (found, tot)"
  shows "tot = refunded + sum_list (map wo_AmountUSDMicros (refunds_of sv accountID related rows)) \<and>
    (\<forall>op \<in> set (refunds_of sv accountID related rows). wo_Status op = ''succeeded'') \<and>
    (found = original \<or> (\<exists>row \<in> set rows. sfield row ''accountId'' = accountID \<and> sfield row ''id'' = related \<and>
       refundableWalletOperationAmount sv row = found)) \<and> (refunded \<le> max_int64 \<longrightarrow> tot \<le> max_int64)"
  using assms
proof (induction rows arbitrary: original refunded)
  case (Cons row rows)
  then show ?case
    by (force simp: refunds_of_def refund_rows_def map_filter_simps split: if_splits option.splits)
qed (simp add: refunds_of_def refund_rows_def map_filter_simps)

text \<open>What the limit means: the operation is there and was paid, every earlier refund of it has
  succeeded, and with the new one they stay within what was paid.\<close>

definition refund_covered :: "wallet_services \<Rightarrow> string \<Rightarrow> string \<Rightarrow> int \<Rightarrow> gomap list \<Rightarrow> bool" where
  "refund_covered sv accountID related amount rows \<longleftrightarrow>
     (\<exists>row \<in> set rows. \<exists>paid. sfield row ''accountId'' = accountID \<and> sfield row ''id'' = related \<and>
        refundableWalletOperationAmount sv row = Some paid \<and>
        sum_list (map wo_AmountUSDMicros (refunds_of sv accountID related rows)) + amount \<le> paid) \<and>
     (\<forall>op \<in> set (refunds_of sv accountID related rows). wo_Status op = ''succeeded'')"

lemma refund_limit_covers: "refund_limit sv accountID related amount rows = None \<Longrightarrow> refund_covered sv accountID related amount rows"
  by (auto simp: refund_limit_def refund_covered_def split: sum.splits option.splits if_splits dest!: refund_scan_sum)

definition covered_call :: "wallet_services \<Rightarrow> string \<Rightarrow> wallet_request \<Rightarrow> int \<Rightarrow> wallet_call \<Rightarrow> bool" where
  "covered_call sv accountID input amount c \<longleftrightarrow>
     (case c of WSave _ _ \<Rightarrow> wq_Kind input = ''business_refund'' \<longrightarrow>
        (\<exists>l rows. ws_ListRuntimeOperations sv l = Some rows \<and> refund_covered sv accountID (wq_RelatedOperationID input) amount rows)
      | _ \<Rightarrow> True)"

lemma covered_simps [simp]: "covered_call sv a input n (WRead w)"
  by (simp add: covered_call_def)

lemma does_covered: "does (covered_call sv accountID input amount) (open_adjustment sv i hash accountID input amount actor) (\<lambda>_. True)"
proof -
  let ?P = "covered_call sv accountID input amount"
  let ?known = "\<lambda>limit. limit = None \<longrightarrow> wq_Kind input = ''business_refund'' \<longrightarrow>
        (\<exists>l rows. ws_ListRuntimeOperations sv l = Some rows \<and> refund_covered sv accountID (wq_RelatedOperationID input) amount rows)"
  have account: "does ?P (walletAdjustmentAccount sv accountID) (\<lambda>_. True)"
    unfolding walletAdjustmentAccount_def Let_def by (intro wallet_wp) simp_all
  have read: "does ?P (wpeek ''ListRuntimeOperations'' (ws_ListRuntimeOperations sv)) (\<lambda>rs. \<exists>l. rs = ws_ListRuntimeOperations sv l)"
    by (rule does_answer) auto
  have limit: "does ?P (if wq_Kind input = ''business_refund'' then validateWalletRefundLimit sv accountID (wq_RelatedOperationID input) amount else ret None) ?known"
    unfolding validateWalletRefundLimit_def
    by (intro does_if does_bind [OF read] does_ret) (auto split: option.splits dest!: sym [of "Some _"] intro: refund_limit_covers)
  have save: "does ?P (do { noted \<leftarrow> save_phase sv i p; ret (f noted) }) (\<lambda>_. True)" if "?known None"
    for p and f :: "(wallet_end, wallet_operation) res \<Rightarrow> (reply, wallet_operation) res"
    unfolding save_phase_def persistWalletAdjustment_def Let_def using that
    by (intro wallet_wp does_now) (simp_all add: covered_call_def)
  show ?thesis
    unfolding open_adjustment_def
    by (rule does_bind [OF account], intro does_cases does_ret TrueI, rule does_bind [OF limit],
        intro does_cases does_ret TrueI, rule does_bindI, rule does_now, simp, intro does_if does_ret TrueI save) simp
qed

text \<open>C14: a refund is opened only against a table in which the operation it names was paid on the same
  account and every earlier refund of that operation has succeeded, and all of them together with the
  new one do not exceed what was paid; the sums are exact.\<close>

theorem wallet_refunds_covered:
  assumes "WSave op ok \<in> calls_of (open_adjustment sv i hash accountID input amount actor)" and "wq_Kind input = ''business_refund''"
  shows "\<exists>l rows row paid. ws_ListRuntimeOperations sv l = Some rows \<and> row \<in> set rows \<and> sfield row ''accountId'' = accountID \<and>
     sfield row ''id'' = wq_RelatedOperationID input \<and> refundableWalletOperationAmount sv row = Some paid \<and>
     sum_list (map wo_AmountUSDMicros (refunds_of sv accountID (wq_RelatedOperationID input) rows)) + amount \<le> paid \<and>
     set (refunds_of sv accountID (wq_RelatedOperationID input) rows) \<subseteq> Collect (\<lambda>r. wo_Status r = ''succeeded'')"
  using does_calls_of [OF does_covered assms(1)] assms(2) unfolding covered_call_def refund_covered_def by fastforce

text \<open>A launch that was paid, and an earlier refund of a part of it.\<close>

definition ex_paid_row :: gomap where
  "ex_paid_row = [(''id'', GStr ''op-1''), (''accountId'', GStr ''acct-1''), (''action'', GStr ''workspace.launch.v2''), (''status'', GStr ''succeeded'')]"

definition ex_refund_row :: gomap where
  "ex_refund_row = [(''id'', GStr ''wallet-adjustment-0''), (''accountId'', GStr ''acct-1''), (''resourceId'', GStr ''acct-1''),
     (''resourceKind'', GStr ''gateway_wallet''), (''action'', GStr walletAdjustmentAction), (''status'', GStr ''succeeded'')]"

definition ex_refund_request :: wallet_request where
  "ex_refund_request = ex_wallet_request\<lparr>wq_Kind := ''business_refund'', wq_RelatedOperationID := ''op-1''\<rparr>"

definition ex_refunded :: wallet_operation where
  "ex_refunded = new_wallet_operation ex_services ''wallet-adjustment-0'' ''hash'' ''acct-1'' 7 ex_refund_request 12500000 ''usr-2'' ''t''"

definition ex_refund_services :: wallet_services where
  "ex_refund_services = ex_services\<lparr>ws_ListRuntimeOperations := (\<lambda>_. Some [ex_paid_row, ex_refund_row]),
     ws_unmarshal := (\<lambda>_. Some ex_refunded), ws_unmarshalResult := (\<lambda>_. Some [(''totalChargeUsdMicros'', GInt 52580000)])\<rparr>"

definition ex_new_refund :: wallet_operation where
  "ex_new_refund = new_wallet_operation ex_refund_services ex_wallet_id ''hash'' ''acct-1'' 7 ex_refund_request 40080000 ''usr-2'' (format_rfc3339nano unix_epoch)"

lemma ex_rows:
  "sfield ex_paid_row ''id'' = ''op-1''" "sfield ex_paid_row ''accountId'' = ''acct-1''" "sfield ex_paid_row ''action'' = ''workspace.launch.v2''"
  "sfield ex_paid_row ''status'' = ''succeeded''" "sfield ex_refund_row ''id'' = ''wallet-adjustment-0''" "sfield ex_refund_row ''accountId'' = ''acct-1''"
  "sfield ex_refund_row ''action'' = walletAdjustmentAction" "sfield ex_refund_row ''status'' = ''succeeded''" "sfield ex_refund_row ''resourceId'' = ''acct-1''"
  "sfield ex_refund_row ''resourceKind'' = ''gateway_wallet''" "walletAdjustmentAction \<noteq> ''workspace.launch''" "walletAdjustmentAction \<noteq> ''workspace.launch.v2''"
  by code_simp+

lemma ex_decoded: "decodeWalletAdjustment ex_refund_services ex_refund_row = Some (ex_refunded\<lparr>wo_Status := ''succeeded''\<rparr>)"
  by (simp add: decodeWalletAdjustment_def ex_rows Let_def v2_identity_def ex_refund_services_def ex_refunded_def new_wallet_operation_def
      maxWalletAdjustmentUSDMicros_def ex_wallet_request_def ex_refund_request_def)

lemma ex_paid: "refundableWalletOperationAmount ex_refund_services ex_paid_row = Some 52580000"
proof -
  have "requiredPositiveInteger [(''totalChargeUsdMicros'', GInt 52580000)] ''totalChargeUsdMicros'' = Some 52580000" by code_simp
  then show ?thesis by (simp add: refundableWalletOperationAmount_def ex_rows ex_refund_services_def Let_def)
qed

lemma ex_limit: "refund_limit ex_refund_services ''acct-1'' ''op-1'' 40080000 [ex_paid_row, ex_refund_row] = None"
proof -
  have "wo_Kind ex_refunded = ''business_refund''" "wo_RelatedOperationID ex_refunded = ''op-1''" "wo_AmountUSDMicros ex_refunded = 12500000"
  proof -
    have "trim_space ''op-1'' = ''op-1''" by code_simp
    then show "wo_Kind ex_refunded = ''business_refund''" "wo_RelatedOperationID ex_refunded = ''op-1''" "wo_AmountUSDMicros ex_refunded = 12500000"
      by (simp_all add: ex_refunded_def new_wallet_operation_def ex_refund_request_def)
  qed
  then show ?thesis by (simp add: refund_limit_def ex_rows ex_paid ex_decoded max_int64_def)
qed

lemma ex_refund_opened:
  "WSave ex_new_refund True \<in> calls_of (open_adjustment ex_refund_services ex_wallet_id ''hash'' ''acct-1'' ex_refund_request 40080000 ''usr-2'')"
proof -
  have a: "\<exists>l'. run_state (walletAdjustmentAccount ex_refund_services ''acct-1'') [] = (Inr (ex_account, 7), l')"
    by (simp add: walletAdjustmentAccount_def wpeek_def run_calls ex_refund_services_def ex_services_def paying_services_def ex_account_simps)
  then obtain l' where a: "run_state (walletAdjustmentAccount ex_refund_services ''acct-1'') [] = (Inr (ex_account, 7), l')" by blast
  have now: "ws_now ex_refund_services = (\<lambda>_. unix_epoch)" "ws_SaveRuntimeOperation ex_refund_services = (\<lambda>_ _. True)"
    "ws_ListRuntimeOperations ex_refund_services = (\<lambda>_. Some [ex_paid_row, ex_refund_row])"
    "wq_Kind ex_refund_request = ''business_refund''" "wq_RelatedOperationID ex_refund_request = ''op-1''" "ws_sha ex_refund_services = ex_digest"
    by (simp_all add: ex_refund_services_def ex_services_def paying_services_def ex_refund_request_def)
  have kept: "(assign_code ex_digest ex_wallet_id ex_new_refund)\<lparr>wo_UpdatedAt := format_rfc3339nano unix_epoch\<rparr> = ex_new_refund"
    by (simp add: ex_new_refund_def new_wallet_operation_def assign_code_def)
  show ?thesis
    by (simp add: calls_of_def open_adjustment_def validateWalletRefundLimit_def wpeek_def now_text_def save_phase_def persistWalletAdjustment_def
        run_calls a now ex_limit ex_account_simps Let_def kept flip: ex_new_refund_def)
qed

theorem wallet_refunds_covered_witness:
  "\<exists>l rows row paid. ws_ListRuntimeOperations ex_refund_services l = Some rows \<and> row \<in> set rows \<and>
     refundableWalletOperationAmount ex_refund_services row = Some paid \<and>
     sum_list (map wo_AmountUSDMicros (refunds_of ex_refund_services ''acct-1'' ''op-1'' rows)) + 40080000 \<le> paid"
proof -
  have k: "wq_Kind ex_refund_request = ''business_refund''" "wq_RelatedOperationID ex_refund_request = ''op-1''" by (simp_all add: ex_refund_request_def)
  from wallet_refunds_covered [OF ex_refund_opened k(1)] k(2) show ?thesis by auto
qed

end
