(* ===== verification/CP_Billing_State.thy ===== *)
theory CP_Billing_State
  imports CP_Monthly
begin

text \<open>
  The billing state that a workspace row carries, after
  \<^verbatim>\<open>services/control-plane/internal/server/ent_state_store.go\<close>: when a row has one, when it is
  valid, its normal form, and the two ways in which rows are merged: saving a workspace over the row
  in the table, and the patch of a renewal (\<^verbatim>\<open>workspace_renewal.go\<close>). An invalid state is
  \<open>None\<close>, a row without one \<open>Some None\<close>.
\<close>

section \<open>The state\<close>

record billing_state =
  bs_AutoRenew :: bool
  bs_AuthorizedBy :: string
  bs_AuthorizedAt :: string
  bs_PackageID :: string
  bs_StorageGB :: int
  bs_PriceVersion :: string
  bs_Currency :: string
  bs_BillingUnit :: string
  bs_ComputeUSDMicros :: int
  bs_StorageUSDMicros :: int
  bs_TotalUSDMicros :: int
  bs_PeriodStart :: string
  bs_PaidThrough :: string
  bs_NextRenewalAt :: string
  bs_BillingAnchorDay :: int
  bs_RenewalStatus :: string
  bs_ComputeAllocationID :: string
  bs_StorageID :: string
  bs_ManualReviewReason :: string

definition workspaceBillingStateRequiredKeys :: "string list" where
  "workspaceBillingStateRequiredKeys =
     [''autoRenew'', ''authorizedBy'', ''authorizedAt'', ''packageId'', ''storageGb'', ''priceVersion'', ''currency'', ''billingUnit'',
      ''computeUsdMicros'', ''storageUsdMicros'', ''totalUsdMicros'', ''periodStart'', ''paidThrough'',
      ''nextRenewalAt'', ''billingAnchorDay'', ''renewalStatus'', ''computeAllocationId'', ''storageId'']"

definition workspaceBillingStateExclusiveKeys :: "string list" where
  "workspaceBillingStateExclusiveKeys =
     [''authorizedBy'', ''authorizedAt'', ''storageGb'', ''priceVersion'', ''currency'', ''billingUnit'',
      ''computeUsdMicros'', ''storageUsdMicros'', ''totalUsdMicros'', ''periodStart'', ''paidThrough'', ''nextRenewalAt'', ''billingAnchorDay'']"

definition workspaceBillingLegacyMismatch :: string where
  "workspaceBillingLegacyMismatch = ''legacy_billing_state_mismatch''"

section \<open>Validity\<close>

definition legacy_state :: "gomap \<Rightarrow> billing_state option option" where
  "legacy_state row =
     (if list_ex (has_key row) workspaceBillingStateExclusiveKeys \<or> mget row ''autoRenew'' \<noteq> GBool False \<or>
         mget row ''manualReviewReason'' \<noteq> GStr workspaceBillingLegacyMismatch then None
      else Some (Some
        \<lparr>bs_AutoRenew = False, bs_AuthorizedBy = [], bs_AuthorizedAt = [], bs_PackageID = [], bs_StorageGB = 0, bs_PriceVersion = [],
         bs_Currency = [], bs_BillingUnit = [], bs_ComputeUSDMicros = 0, bs_StorageUSDMicros = 0, bs_TotalUSDMicros = 0,
         bs_PeriodStart = [], bs_PaidThrough = [], bs_NextRenewalAt = [], bs_BillingAnchorDay = 0,
         bs_RenewalStatus = ''manual_review'', bs_ComputeAllocationID = [], bs_StorageID = [],
         bs_ManualReviewReason = workspaceBillingLegacyMismatch\<rparr>))"

text \<open>The fields that must be texts.\<close>

definition billing_texts :: "string list" where
  "billing_texts =
     [''authorizedBy'', ''authorizedAt'', ''packageId'', ''priceVersion'', ''currency'', ''billingUnit'', ''periodStart'', ''paidThrough'',
      ''nextRenewalAt'', ''renewalStatus'', ''computeAllocationId'', ''storageId'']"

text \<open>The prices are those of the current catalog for the package and the size, and add up.\<close>

definition billing_prices :: "gomap \<Rightarrow> (int \<times> int \<times> int \<times> int \<times> int) option" where
  "billing_prices row =
     (case (requiredPositiveInteger row ''storageGb'', requiredPositiveInteger row ''computeUsdMicros'',
            requiredPositiveInteger row ''storageUsdMicros'', requiredPositiveInteger row ''totalUsdMicros'',
            requiredPositiveInteger row ''billingAnchorDay'') of
        (Some storageGB, Some compute, Some storage, Some whole, Some anchor) \<Rightarrow>
          if anchor > 31 then None
          else
            (case workspacePricingPreview defaultPricingCatalog
                    [(''packageId'', GStr (sfield row ''packageId'')), (''sizeGb'', GInt storageGB)] of
               Inl _ \<Rightarrow> None
             | Inr quote \<Rightarrow>
                 if requiredPositiveInteger (mapField quote ''compute'') ''chargeUsdMicros'' \<noteq> Some compute \<or>
                    requiredPositiveInteger (mapField quote ''storage'') ''chargeUsdMicros'' \<noteq> Some storage \<or>
                    requiredPositiveInteger quote ''totalChargeUsdMicros'' \<noteq> Some whole \<or>
                    checkedAddInt64 compute storage \<noteq> Some whole \<or> sfield row ''priceVersion'' \<noteq> pricingCatalogVersion \<or>
                    sfield row ''currency'' \<noteq> pricingCurrency \<or> sfield row ''billingUnit'' \<noteq> pricingBillingUnit
                 then None else Some (storageGB, compute, storage, whole, anchor))
      | _ \<Rightarrow> None)"

definition day_before :: "instant \<Rightarrow> instant" where "day_before t = t - 24 * 3600 * ns_per_sec"

text \<open>The period ends after it starts, and its renewal is due one day before its end.\<close>

definition billing_period :: "gomap \<Rightarrow> (instant \<times> instant \<times> instant) option" where
  "billing_period row =
     (case (parse_rfc3339 (sfield row ''periodStart''), parse_rfc3339 (sfield row ''paidThrough''), parse_rfc3339 (sfield row ''nextRenewalAt'')) of
        (Some (start, _), Some (paid, _), Some (due, _)) \<Rightarrow>
          if paid > start \<and> due = day_before paid then Some (start, paid, due) else None
      | _ \<Rightarrow> None)"

definition billing_resources_ok :: "gomap \<Rightarrow> string \<Rightarrow> string \<Rightarrow> bool" where
  "billing_resources_ok row expectedComputeID expectedStorageID \<longleftrightarrow>
     (sfield row ''renewalStatus'' = ''active'' \<or> sfield row ''renewalStatus'' = ''expired_unpaid'') \<and>
     trim_space (sfield row ''computeAllocationId'') \<noteq> [] \<and> trim_space (sfield row ''storageId'') \<noteq> [] \<and>
     (expectedComputeID = [] \<or> sfield row ''computeAllocationId'' = expectedComputeID) \<and>
     expectedStorageID \<noteq> [] \<and> sfield row ''storageId'' = expectedStorageID"

definition billing_authorization_ok :: "gomap \<Rightarrow> string \<Rightarrow> bool" where
  "billing_authorization_ok row expectedOwnerID \<longleftrightarrow>
     (let autoRenew = (mget row ''autoRenew'' = GBool True); by = sfield row ''authorizedBy''; at' = sfield row ''authorizedAt''
      in \<not> (sfield row ''renewalStatus'' = ''expired_unpaid'' \<and> autoRenew) \<and> \<not> (autoRenew \<and> (by = [] \<or> at' = [])) \<and>
         (by = [] \<or> by = expectedOwnerID) \<and> (by = []) = (at' = []) \<and> (at' = [] \<or> parse_rfc3339 at' \<noteq> None))"

definition normal_time :: "string \<Rightarrow> string" where
  "normal_time s = (case parse_rfc3339 s of None \<Rightarrow> s | Some t \<Rightarrow> format_rfc3339nano (fst t))"

definition normalizeWorkspaceBillingState :: "gomap \<Rightarrow> string \<Rightarrow> string \<Rightarrow> string \<Rightarrow> billing_state option option" where
  "normalizeWorkspaceBillingState row expectedComputeID expectedStorageID expectedOwnerID =
     (if \<not> has_key row ''renewalStatus'' \<and> \<not> has_key row ''autoRenew'' \<and> \<not> has_key row ''priceVersion'' then Some None
      else if mget row ''renewalStatus'' = GStr ''manual_review'' then legacy_state row
      else if \<not> list_all (has_key row) workspaceBillingStateRequiredKeys \<or>
              (mget row ''autoRenew'' \<noteq> GBool True \<and> mget row ''autoRenew'' \<noteq> GBool False) \<or>
              \<not> list_all (\<lambda>k. as_str (mget row k) \<noteq> None) billing_texts then None
      else
        (case (billing_prices row, billing_period row) of
           (Some (storageGB, compute, storage, whole, anchor), Some (start, paid, due)) \<Rightarrow>
             if \<not> billing_resources_ok row expectedComputeID expectedStorageID \<or>
                \<not> billing_authorization_ok row expectedOwnerID \<or> has_key row ''manualReviewReason'' then None
             else Some (Some
               \<lparr>bs_AutoRenew = (mget row ''autoRenew'' = GBool True), bs_AuthorizedBy = sfield row ''authorizedBy'',
                bs_AuthorizedAt = normal_time (sfield row ''authorizedAt''), bs_PackageID = sfield row ''packageId'',
                bs_StorageGB = storageGB, bs_PriceVersion = sfield row ''priceVersion'', bs_Currency = sfield row ''currency'',
                bs_BillingUnit = sfield row ''billingUnit'', bs_ComputeUSDMicros = compute, bs_StorageUSDMicros = storage,
                bs_TotalUSDMicros = whole, bs_PeriodStart = format_rfc3339nano start, bs_PaidThrough = format_rfc3339nano paid,
                bs_NextRenewalAt = format_rfc3339nano due, bs_BillingAnchorDay = anchor,
                bs_RenewalStatus = sfield row ''renewalStatus'', bs_ComputeAllocationID = sfield row ''computeAllocationId'',
                bs_StorageID = sfield row ''storageId'', bs_ManualReviewReason = []\<rparr>)
         | _ \<Rightarrow> None))"

text \<open>A workspace without a current compute allocation renews nothing and is out of service.\<close>

definition normalizeWorkspaceBillingStateForWorkspace :: "gomap \<Rightarrow> gomap \<Rightarrow> billing_state option option" where
  "normalizeWorkspaceBillingStateForWorkspace row workspace =
     (let current = sfield workspace ''currentComputeAllocationId''
      in case normalizeWorkspaceBillingState row current (sfield workspace ''storageId'') (sfield workspace ''ownerUserId'') of
           None \<Rightarrow> None
         | Some None \<Rightarrow> Some None
         | Some (Some state) \<Rightarrow>
             if bs_RenewalStatus state = ''manual_review'' \<or> current \<noteq> [] then Some (Some state)
             else if bs_AutoRenew state then None
             else if first_text [sfield workspace ''state'', sfield workspace ''status''] \<in> {''suspended'', ''data_deleted'', ''unrecoverable''}
             then Some (Some state) else None)"

definition validateWorkspaceBillingState :: "gomap \<Rightarrow> bool" where
  "validateWorkspaceBillingState row \<longleftrightarrow> normalizeWorkspaceBillingStateForWorkspace row row \<noteq> None"

section \<open>Rows\<close>

definition billing_record :: "billing_state \<Rightarrow> gomap" where
  "billing_record state =
     (if bs_RenewalStatus state = ''manual_review''
      then [(''autoRenew'', GBool False), (''renewalStatus'', GStr (bs_RenewalStatus state)),
            (''manualReviewReason'', GStr (bs_ManualReviewReason state))]
      else
        [(''autoRenew'', GBool (bs_AutoRenew state)), (''authorizedBy'', GStr (bs_AuthorizedBy state)),
         (''authorizedAt'', GStr (bs_AuthorizedAt state)), (''packageId'', GStr (bs_PackageID state)),
         (''storageGb'', GInt (bs_StorageGB state)), (''priceVersion'', GStr (bs_PriceVersion state)),
         (''currency'', GStr (bs_Currency state)), (''billingUnit'', GStr (bs_BillingUnit state)),
         (''computeUsdMicros'', GInt (bs_ComputeUSDMicros state)), (''storageUsdMicros'', GInt (bs_StorageUSDMicros state)),
         (''totalUsdMicros'', GInt (bs_TotalUSDMicros state)), (''periodStart'', GStr (bs_PeriodStart state)),
         (''paidThrough'', GStr (bs_PaidThrough state)), (''nextRenewalAt'', GStr (bs_NextRenewalAt state)),
         (''billingAnchorDay'', GInt (bs_BillingAnchorDay state)), (''renewalStatus'', GStr (bs_RenewalStatus state)),
         (''computeAllocationId'', GStr (bs_ComputeAllocationID state)), (''storageId'', GStr (bs_StorageID state))])"

definition workspaceAcceptedBillingState :: "gomap \<Rightarrow> gomap option" where
  "workspaceAcceptedBillingState row =
     (case normalizeWorkspaceBillingStateForWorkspace row row of
        Some (Some state) \<Rightarrow> if bs_RenewalStatus state = ''active'' then Some (billing_record state) else None
      | _ \<Rightarrow> None)"

definition workspaceLifecycleInactive :: "gomap \<Rightarrow> bool" where
  "workspaceLifecycleInactive row \<longleftrightarrow>
     first_text [sfield row ''state'', sfield row ''status'']
       \<in> {''suspended'', ''stopped'', ''data_deleted'', ''unrecoverable'', ''storage_missing'', ''destroyed''}"

definition set_all :: "gomap \<Rightarrow> gomap \<Rightarrow> gomap" where
  "set_all updates row = fold (\<lambda>(k, v). mset_key k v) updates row"

text \<open>Saving over an existing row: the identity and the accepted resources stay, automatic renewal is not
  switched on, and an inactive workspace is not revived. \<open>None\<close> is the conflict.\<close>

definition mergeWorkspaceForSave :: "gomap option \<Rightarrow> gomap \<Rightarrow> gomap option" where
  "mergeWorkspaceForSave existing incoming =
     (case existing of
        None \<Rightarrow> Some incoming
      | Some old \<Rightarrow>
          (let oldBilling = workspaceAcceptedBillingState old; newBilling = workspaceAcceptedBillingState incoming;
               turnsOn = (mget old ''autoRenew'' = GBool False \<and> mget incoming ''autoRenew'' = GBool True)
           in if list_ex (\<lambda>k. sfield old k \<noteq> [] \<and> sfield incoming k \<noteq> sfield old k) [''accountId'', ''ownerAccountId'', ''ownerUserId''] then None
              else if oldBilling \<noteq> None \<and> newBilling \<noteq> None \<and>
                      list_ex (\<lambda>k. mget (opt_map oldBilling) k \<noteq> mget (opt_map newBilling) k)
                        [''computeAllocationId'', ''storageId'', ''packageId'', ''priceVersion''] then None
              else if turnsOn \<and> oldBilling = None then None
              else
                (let row = (if turnsOn then set_all (opt_map oldBilling) incoming else incoming)
                 in if \<not> workspaceLifecycleInactive old \<or> workspaceLifecycleInactive row then Some row
                    else Some (set_all (opt_map oldBilling)
                      (fold (\<lambda>k. mset_key k (mget old k)) [''state'', ''status'', ''currentComputeAllocationId'', ''currentAttachmentId''] row)))))"

section \<open>The patch of a renewal\<close>

definition workspaceRenewalPatchFields :: "string list" where
  "workspaceRenewalPatchFields =
     [''periodStart'', ''paidThrough'', ''nextRenewalAt'', ''renewalStatus'',
      ''autoRenew'', ''authorizedBy'', ''authorizedAt'', ''state'', ''status'', ''currentComputeAllocationId'']"

datatype patch_error = PatchFields | PatchBillingState

definition mergeWorkspaceRenewalPatch :: "gomap option \<Rightarrow> gomap \<Rightarrow> (patch_error, gomap) res" where
  "mergeWorkspaceRenewalPatch current patch =
     (case current of
        None \<Rightarrow> Err PatchFields
      | Some row \<Rightarrow>
          if patch = [] \<or> \<not> list_all (\<lambda>(k, _). k \<in> set workspaceRenewalPatchFields) patch then Err PatchFields
          else if validateWorkspaceBillingState (set_all patch row) then Ok (set_all patch row) else Err PatchBillingState)"

definition workspaceRenewalExpectedFieldsMatch :: "gomap \<Rightarrow> (string \<times> string) list \<Rightarrow> bool" where
  "workspaceRenewalExpectedFieldsMatch current expected \<longleftrightarrow> list_all (\<lambda>(k, v). sfield current k = v) expected"

end
