(* ===== verification/CP_Renewal_Types.thy ===== *)
theory CP_Renewal_Types
  imports CP_Billing_State CP_Launch "HOL-Library.List_Lexorder" "HOL-Library.Char_ord"
begin

text \<open>
  What the renewal of a workspace works with, after
  \<^verbatim>\<open>services/control-plane/internal/server/workspace_renewal.go\<close>: the operation, the errors, the
  calls and their answers. The operation extends the part of it that the reconciliation reads; a nil
  map of the code is the empty one, as both are written alike. Facts of the provider come as the maps
  that \<^verbatim>\<open>structToMap\<close> makes of the answers.
\<close>

section \<open>The operation\<close>

record renewal_state = renewal_operation +
  ro_CreatedAt :: string
  ro_PersistedResult :: string
  ro_Phase :: string
  ro_OwnerUserID :: string
  ro_PackageID :: string
  ro_PeriodStart :: string
  ro_RefundCode :: string
  ro_ComputePreflightConfirmed :: bool
  ro_StoragePreflightConfirmed :: bool
  ro_ChargeAttempted :: bool
  ro_PreChargeBalanceUSDMicros :: int
  ro_PostChargeBalanceKnown :: bool
  ro_RefundAttempted :: bool
  ro_RefundConfirmation :: gomap
  ro_RefundReason :: string
  ro_RefundReceiptID :: string
  ro_ComputeRenewal :: gomap
  ro_StorageRenewal :: gomap
  ro_ErrorCode :: string
  ro_PriorStatus :: string
  ro_PriorErrorCode :: string
  ro_ExpiryStatus :: string
  ro_ExpiryPhase :: string
  ro_ExpiryErrorCode :: string
  ro_ExpiryReceiptID :: string
  ro_ExpiryPeriodStart :: string
  ro_ExpiryPaidThrough :: string
  ro_LeaseToken :: string
  ro_LeaseExpiresAt :: string
  ro_ReviewResolutionKey :: string
  ro_ReviewResolutionFingerprint :: string
  ro_ReviewResolutionDecision :: string
  ro_ReviewResolutionEvidenceRef :: string
  ro_ReviewResolutionReviewer :: string
  ro_ReviewResolutionPhase :: string
  ro_ReviewResolutionResolvedAt :: string
  ro_ReviewResolutionResult :: gomap

text \<open>The write of a renewal: the row, and with it a patch of the workspace when there is one.\<close>

record workspace_patch =
  xp_ExpectedPaidThrough :: string
  xp_ExpectedFields :: "(string \<times> string) list"
  xp_Fields :: gomap

record renewal_claim =
  rc_WorkspaceID :: string
  rc_AccountID :: string
  rc_ExpectedPaidThrough :: string
  rc_ExpectedAutoRenew :: bool
  rc_ExpectedOperationsVersion :: string
  rc_ExpectedOperationResult :: string
  rc_DesiredOperation :: gomap

record renewal_write =
  ru_OperationID :: string
  ru_ExpectedOperationResult :: string
  ru_DesiredOperation :: gomap
  ru_WorkspaceID :: string
  ru_ExpectedWorkspacePaidThrough :: string
  ru_ExpectedWorkspaceFields :: "(string \<times> string) list"
  ru_WorkspacePatch :: "gomap option"

section \<open>Errors\<close>

text \<open>The errors that are told apart, and those of the services; a returned error is the list of the
  joined ones, empty for nil.\<close>

datatype renewal_error =
    ErrRenewalCASConflict | ErrInvalidBillingState | ErrInvalidRenewalPatch | ErrRenewalIdempotencyConflict
  | ErrInvalidRenewalReview | ErrRenewalReviewNotFound | ErrRenewalReviewIdentity | ErrRenewalReviewNotPending
  | ErrRenewalReviewChargeFact | ErrRenewalReviewProviderFact | ErrRenewalReviewReceipt
  | ErrService svc_error

abbreviation ErrTexts :: "string \<Rightarrow> renewal_error" where "ErrTexts s \<equiv> ErrService (ErrText s)"

section \<open>Calls and their answers\<close>

datatype renew_call =
    RRead string
  | RClaim renewal_state bool
  | RPersist renewal_state "workspace_patch option" bool
  | RCharge charge_input
  | RRefund charge_input
  | RRenew string string string
  | RSave string gomap
  | RReceipt receipt_input

type_synonym rcalls = "renew_call list"
type_synonym 'a ract = "(renew_call, 'a) calling"

record renew_services =
  rv_env :: environment
  rv_sha :: "string \<Rightarrow> string"
  rv_json :: "gov \<Rightarrow> string"
  rv_marshal :: "renewal_state \<Rightarrow> string"
  rv_unmarshal :: "string \<Rightarrow> renewal_state option"
  rv_now :: "rcalls \<Rightarrow> instant"
  rv_ListWorkspaces :: "rcalls \<Rightarrow> gomap list option"
  rv_Workspace :: "rcalls \<Rightarrow> string \<Rightarrow> gomap option"
  rv_ListComputes :: "rcalls \<Rightarrow> gomap list"
  rv_ListStorages :: "rcalls \<Rightarrow> gomap list"
  rv_ListAccounts :: "rcalls \<Rightarrow> gomap list option"
  rv_ListRuntimeOperations :: "rcalls \<Rightarrow> gomap list option"
  rv_ClaimWorkspaceRenewal :: "rcalls \<Rightarrow> renewal_claim \<Rightarrow> renewal_error option"
  rv_PersistWorkspaceRenewal :: "rcalls \<Rightarrow> renewal_write \<Rightarrow> renewal_error option"
  rv_SaveResource :: "rcalls \<Rightarrow> string \<Rightarrow> gomap \<Rightarrow> svc_error option"
  rv_WorkspaceKey :: "rcalls \<Rightarrow> int \<Rightarrow> svc_error option"
  rv_Balance :: "rcalls \<Rightarrow> int \<Rightarrow> (svc_error, int) res"
  rv_BalanceHistory :: "rcalls \<Rightarrow> int \<Rightarrow> (svc_error, balance_entry list) res"
  rv_Charge :: "rcalls \<Rightarrow> charge_input \<Rightarrow> (svc_error, charge) res"
  rv_Refund :: "rcalls \<Rightarrow> charge_input \<Rightarrow> (svc_error, charge) res"
  rv_Preflight :: "rcalls \<Rightarrow> preflight_input \<Rightarrow> (svc_error, preflight) res"
  rv_Renew :: "rcalls \<Rightarrow> string \<Rightarrow> string \<Rightarrow> string \<Rightarrow> svc_error option \<times> gomap"
  rv_Sync :: "rcalls \<Rightarrow> string \<Rightarrow> string \<Rightarrow> svc_error option \<times> gomap"
  rv_RecordReceipt :: "rcalls \<Rightarrow> receipt_input \<Rightarrow> (svc_error, string) res"

definition rpeek :: "string \<Rightarrow> (rcalls \<Rightarrow> 'a) \<Rightarrow> 'a ract" where
  "rpeek what answer = ask answer (\<lambda>_. RRead what)"

definition rtell :: "renew_call \<Rightarrow> (rcalls \<Rightarrow> 'a) \<Rightarrow> 'a ract" where
  "rtell c answer = ask answer (\<lambda>_. c)"

lemma does_rpeekI: "P (RRead what) \<Longrightarrow> (\<And>a. Q a) \<Longrightarrow> does P (rpeek what answer) Q"
  unfolding rpeek_def by (rule does_ask)

lemma does_rtellI: "P c \<Longrightarrow> (\<And>a. Q a) \<Longrightarrow> does P (rtell c answer) Q"
  unfolding rtell_def by (rule does_ask)

lemmas does_rwp = does_bindI does_ret does_rpeekI does_rtellI does_cases

section \<open>The account's user\<close>

definition renewal_user :: "renew_services \<Rightarrow> string \<Rightarrow> (account_error, int) res ract" where
  "renewal_user sv accountID =
     do { accounts \<leftarrow> rpeek ''ListAccounts'' (rv_ListAccounts sv); ret (sub2APIUserID accounts accountID) }"

text \<open>A compute allocation or a storage volume by its kind and id.\<close>

definition get_resource :: "renew_services \<Rightarrow> string \<Rightarrow> string \<Rightarrow> gomap option ract" where
  "get_resource sv resourceType rid =
     (if resourceType = ''storage''
      then do { rows \<leftarrow> rpeek ''ListStorages'' (rv_ListStorages sv); ret (findRecord rows rid) }
      else do { rows \<leftarrow> rpeek ''ListComputes'' (rv_ListComputes sv); ret (findRecord rows rid) })"

lemma does_renewal_user [does_rules]: "P (RRead ''ListAccounts'') \<Longrightarrow> (\<And>r. Q r) \<Longrightarrow> does P (renewal_user sv a) Q"
  unfolding renewal_user_def by (intro does_rwp)

lemma does_get_resource [does_rules]:
  "P (RRead ''ListStorages'') \<Longrightarrow> P (RRead ''ListComputes'') \<Longrightarrow> (\<And>r. Q r) \<Longrightarrow> does P (get_resource sv k i) Q"
  unfolding get_resource_def by (intro does_rwp)

end
