(* ===== verification/CP_Renewal.thy ===== *)
theory CP_Renewal
  imports CP_Renewal_Types
begin

text \<open>
  The parts of the renewal of a workspace, after
  \<^verbatim>\<open>workspace_renewal.go\<close> and \<^verbatim>\<open>renewal_worker.go\<close>: the operation of a
  period and its row, what a provider answer must say, the writes, the receipts and the expiry.
\<close>

section \<open>Operations\<close>

definition workspaceRenewalLeaseDuration :: int where "workspaceRenewalLeaseDuration = 5 * 60 * ns_per_sec"

definition workspaceRenewalOperationID :: "(string \<Rightarrow> string) \<Rightarrow> string \<Rightarrow> instant \<Rightarrow> string" where
  "workspaceRenewalOperationID sha workspaceID paidThrough =
     ''workspace-renewal-'' @ take 18 (stableID sha [workspaceID, format_rfc3339nano paidThrough])"

definition renewal_request_hash :: "(string \<Rightarrow> string) \<Rightarrow> renewal_state \<Rightarrow> string" where
  "renewal_request_hash sha op =
     stableID sha
       [''workspace-renewal-v1'', ro_AccountID op, ro_OwnerUserID op, ro_WorkspaceID op, ro_PackageID op,
        ro_ComputeID op, ro_StorageID op, ro_PriceVersion op, show_int (ro_StorageGB op),
        show_int (ro_ComputeUSDMicros op), show_int (ro_StorageUSDMicros op), show_int (ro_TotalUSDMicros op), ro_PeriodStart op, ro_PaidThrough op]"

text \<open>The anchor of a workspace without one is the day its period ends, in the zone of the text.\<close>

definition renewal_anchor :: "gomap \<Rightarrow> instant \<times> int \<Rightarrow> int" where
  "renewal_anchor workspace paid = number_int workspace ''billingAnchorDay'' (time_day (local_clock paid))"

definition fresh_renewal :: "renew_services \<Rightarrow> gomap \<Rightarrow> instant \<Rightarrow> instant \<times> int \<Rightarrow> renewal_state" where
  "fresh_renewal sv workspace now paid =
     (let rid = workspaceRenewalOperationID (rv_sha sv) (sfield workspace ''id'') (fst paid)
      in \<lparr>ro_ID = rid, ro_Status = ''claimed'', ro_RequestHash = [], ro_AccountID = sfield workspace ''accountId'',
          ro_WorkspaceID = sfield workspace ''id'', ro_StorageGB = number_int workspace ''storageGb'' 0,
          ro_ComputeID = sfield workspace ''computeAllocationId'', ro_StorageID = sfield workspace ''storageId'',
          ro_PriceVersion = sfield workspace ''priceVersion'', ro_ComputeUSDMicros = number_int workspace ''computeUsdMicros'' 0,
          ro_StorageUSDMicros = number_int workspace ''storageUsdMicros'' 0, ro_TotalUSDMicros = number_int workspace ''totalUsdMicros'' 0,
          ro_PaidThrough = format_rfc3339nano (fst paid),
          ro_RenewedThrough = format_rfc3339nano (nextBillingMonth (fst paid) (renewal_anchor workspace paid)),
          ro_RedeemCode = monthlyRedeemCode (rv_sha sv) (NODE_ENV (rv_env sv)) rid, ro_ChargeConfirmation = [],
          ro_PostChargeBalanceUSDMicros = 0, ro_ComputeReadback = [], ro_StorageReadback = [], ro_EntitlementCommitted = False,
          ro_ReceiptID = [], ro_CreatedAt = format_rfc3339nano now, ro_PersistedResult = [], ro_Phase = ''preflight_compute'',
          ro_OwnerUserID = sfield workspace ''ownerUserId'', ro_PackageID = sfield workspace ''packageId'',
          ro_PeriodStart = sfield workspace ''periodStart'', ro_RefundCode = monthlyRefundCode (rv_sha sv) (NODE_ENV (rv_env sv)) rid,
          ro_ComputePreflightConfirmed = False, ro_StoragePreflightConfirmed = False, ro_ChargeAttempted = False,
          ro_PreChargeBalanceUSDMicros = 0, ro_PostChargeBalanceKnown = False, ro_RefundAttempted = False, ro_RefundConfirmation = [],
          ro_RefundReason = [], ro_RefundReceiptID = [], ro_ComputeRenewal = [], ro_StorageRenewal = [], ro_ErrorCode = [],
          ro_PriorStatus = [], ro_PriorErrorCode = [], ro_ExpiryStatus = [], ro_ExpiryPhase = [], ro_ExpiryErrorCode = [],
          ro_ExpiryReceiptID = [], ro_ExpiryPeriodStart = [], ro_ExpiryPaidThrough = [], ro_LeaseToken = [], ro_LeaseExpiresAt = [],
          ro_ReviewResolutionKey = [], ro_ReviewResolutionFingerprint = [], ro_ReviewResolutionDecision = [],
          ro_ReviewResolutionEvidenceRef = [], ro_ReviewResolutionReviewer = [], ro_ReviewResolutionPhase = [],
          ro_ReviewResolutionResolvedAt = [], ro_ReviewResolutionResult = []\<rparr>)"

definition renewal_complete :: "renewal_state \<Rightarrow> bool" where
  "renewal_complete op \<longleftrightarrow>
     ro_AccountID op \<noteq> [] \<and> ro_OwnerUserID op \<noteq> [] \<and> ro_WorkspaceID op \<noteq> [] \<and> ro_PackageID op \<noteq> [] \<and> ro_ComputeID op \<noteq> [] \<and>
     ro_StorageID op \<noteq> [] \<and> 0 < ro_StorageGB op \<and> 0 < ro_ComputeUSDMicros op \<and> 0 < ro_StorageUSDMicros op \<and> 0 < ro_TotalUSDMicros op"

definition newWorkspaceRenewalOperation :: "renew_services \<Rightarrow> gomap \<Rightarrow> instant \<Rightarrow> renewal_state option" where
  "newWorkspaceRenewalOperation sv workspace now =
     (case parse_rfc3339 (sfield workspace ''paidThrough'') of
        None \<Rightarrow> None
      | Some paid \<Rightarrow>
          (let op = fresh_renewal sv workspace now paid;
               op = op\<lparr>ro_RequestHash := renewal_request_hash (rv_sha sv) op\<rparr>
           in if renewal_complete op then Some op else None))"

definition decode_renewal :: "renew_services \<Rightarrow> gomap \<Rightarrow> renewal_state option" where
  "decode_renewal sv row =
     map_option (\<lambda>op. op\<lparr>ro_CreatedAt := sfield row ''createdAt'', ro_PersistedResult := sfield row ''result''\<rparr>)
       (decodeWorkspaceRenewalOperation (rv_unmarshal sv) row)"

definition workspaceRenewalOperationRow :: "renew_services \<Rightarrow> renewal_state \<Rightarrow> gomap" where
  "workspaceRenewalOperationRow sv op =
     [(''id'', GStr (ro_ID op)), (''operationId'', GStr (ro_ID op)), (''accountId'', GStr (ro_AccountID op)),
      (''workspaceId'', GStr (ro_WorkspaceID op)), (''resourceId'', GStr (ro_WorkspaceID op)),
      (''resourceKind'', GStr ''workspace_renewal''), (''action'', GStr ''workspace.renewal''), (''status'', GStr (ro_Status op)),
      (''result'', GStr (rv_marshal sv op)), (''computeAllocationId'', GStr (ro_ComputeID op)), (''storageId'', GStr (ro_StorageID op)),
      (''createdAt'', GStr (ro_CreatedAt op))]"

definition workspaceRenewalClaimIdentityMatches :: "renew_services \<Rightarrow> gomap \<Rightarrow> gomap \<Rightarrow> bool" where
  "workspaceRenewalClaimIdentityMatches sv current desired \<longleftrightarrow>
     (case (decode_renewal sv current, decode_renewal sv desired) of
        (Some e, Some n) \<Rightarrow> ro_ID e = ro_ID n \<and> ro_AccountID e = ro_AccountID n \<and> ro_WorkspaceID e = ro_WorkspaceID n \<and>
                            ro_PaidThrough e = ro_PaidThrough n \<and> ro_RequestHash e = ro_RequestHash n
      | _ \<Rightarrow> False)"

definition terminalWorkspaceRenewal :: "renewal_state \<Rightarrow> bool" where
  "terminalWorkspaceRenewal op \<longleftrightarrow>
     (let status = ro_Status op
      in (status = ''active'' \<or> status = ''cancelled'' \<or> status = ''manual_review'' \<or>
          (status = ''refunded'' \<and> ro_Phase op = ''complete'') \<or>
          (status = ''expired_unpaid'' \<and> (ro_ExpiryStatus op = ''expired_unpaid'' \<or> ro_Phase op = ''complete''))) \<and>
         (ro_ExpiryStatus op = [] \<or> ro_ExpiryPhase op = ''complete''))"

definition workspaceRenewalFinancialRecoveryRequired :: "renewal_state \<Rightarrow> bool" where
  "workspaceRenewalFinancialRecoveryRequired op \<longleftrightarrow>
     ro_Status op = ''manual_review'' \<or> ro_ChargeAttempted op \<or> ro_ChargeConfirmation op \<noteq> [] \<or>
     ro_RefundAttempted op \<or> ro_RefundConfirmation op \<noteq> [] \<or> ro_EntitlementCommitted op"

text \<open>A digest of the rows of a workspace; the JSON of a row's four fields is \<open>rv_json\<close>.\<close>

definition runtimeOperationsVersion :: "renew_services \<Rightarrow> gomap list \<Rightarrow> string \<Rightarrow> string" where
  "runtimeOperationsVersion sv rows workspaceID =
     stableID (rv_sha sv)
       (sort (map (\<lambda>row. rv_json sv (GObj [(''action'', mget row ''action''), (''id'', mget row ''id''), (''result'', mget row ''result''), (''status'', mget row ''status'')]))
               (filter (\<lambda>row. sfield row ''workspaceId'' = workspaceID) rows)))"

section \<open>Facts of the provider\<close>

definition monthlyProviderFactMatches :: "gomap \<Rightarrow> string \<Rightarrow> string \<Rightarrow> bool" where
  "monthlyProviderFactMatches row key expected \<longleftrightarrow>
     (let value = trim_space (sfield row key); provider = trim_space (providerDataValue row key)
      in (value = [] \<or> value = expected) \<and> (provider = [] \<or> provider = expected) \<and> (value = expected \<or> provider = expected))"

fun float_whole :: "gofloat \<Rightarrow> bool" where
  "float_whole (FFin m e) \<longleftrightarrow> 0 \<le> e \<or> pow_dvd (nat (- e)) m"
| "float_whole (FInf _) \<longleftrightarrow> True"
| "float_whole FNaN \<longleftrightarrow> False"

text \<open>The time of day a provider states must be the deadline itself.\<close>

definition provider_deadline_agrees :: "gomap \<Rightarrow> instant \<Rightarrow> bool" where
  "provider_deadline_agrees row deadline \<longleftrightarrow>
     (let stated = trim_space (providerDataValue row ''deadline'')
      in stated = [] \<or> (case parse_rfc3339 stated of None \<Rightarrow> False | Some t \<Rightarrow> fst t = deadline))"

definition monthlyRenewalProviderTruth :: "environment \<Rightarrow> string \<Rightarrow> gomap \<Rightarrow> instant option" where
  "monthlyRenewalProviderTruth env resourceType row =
     (case (monthlyProviderDeadline row, parse_rfc3339 (sfield row ''paidThrough'')) of
        (Some deadline, Some paid) \<Rightarrow>
          (let zone = trim_space (sfield row ''zone''); providerZone = trim_space (providerDataValue row ''zone'');
               providerID = sfield row ''providerResourceId''; instanceID = sfield row ''instanceId''; cvm = sfield row ''cvmInstanceId''
           in if deadline < fst paid \<or> \<not> monthlyPurchaseReadbackConfirmed env resourceType row row then None
              else if \<not> provider_deadline_agrees row deadline then None
              else if zone = [] \<or> (providerZone \<noteq> [] \<and> providerZone \<noteq> zone) then None
              else if \<not> monthlyProviderFactMatches row ''chargeType'' ''PREPAID'' \<or>
                      \<not> monthlyProviderFactMatches row ''renewFlag'' ''NOTIFY_AND_MANUAL_RENEW'' then None
              else if resourceType = ''storage'' then
                (let size = numberField row ''sizeGb'' (FFin 0 0) in if float_positive size \<and> float_whole size then Some deadline else None)
              else if providerID = [] \<or> first_text [instanceID, cvm] \<noteq> providerID \<or> (instanceID \<noteq> [] \<and> instanceID \<noteq> providerID) \<or>
                      (cvm \<noteq> [] \<and> cvm \<noteq> providerID) then None
              else Some deadline)
      | _ \<Rightarrow> None)"

definition renewed_by_provider :: "gomap \<Rightarrow> instant \<Rightarrow> instant \<Rightarrow> bool" where
  "renewed_by_provider result oldDeadline paidThrough \<longleftrightarrow>
     (case monthlyProviderDeadline result of
        None \<Rightarrow> False
      | Some deadline \<Rightarrow> deadline > oldDeadline \<and> \<not> deadline < paidThrough) \<and>
     first_text [sfield result ''chargeType'', providerDataValue result ''chargeType''] = ''PREPAID'' \<and>
     first_text [sfield result ''renewFlag'', providerDataValue result ''renewFlag''] = ''NOTIFY_AND_MANUAL_RENEW'' \<and>
     (providerDataValue result ''renewalResult'' = ''renewed'' \<or> providerDataValue result ''renewalResult'' = ''already_renewed'')"

definition monthlyRenewalReadbackConfirmed ::
    "environment \<Rightarrow> string \<Rightarrow> gomap \<Rightarrow> gomap \<Rightarrow> gomap \<Rightarrow> instant \<Rightarrow> instant \<Rightarrow> bool" where
  "monthlyRenewalReadbackConfirmed env resourceType expected row result oldDeadline paidThrough \<longleftrightarrow>
     (let zone = first_text [sfield result ''zone'', providerDataValue result ''zone'']
      in monthlyReadbackIdentityMatches expected (sfield result ''id'') (sfield result ''accountId'') (sfield result ''workspaceId'') \<and>
         sfield result ''providerRequestId'' \<noteq> [] \<and>
         sfield result ''providerResourceId'' \<noteq> [] \<and> sfield result ''providerResourceId'' = sfield expected ''providerResourceId'' \<and>
         zone \<noteq> [] \<and> zone = sfield expected ''zone'' \<and>
         renewed_by_provider result oldDeadline paidThrough \<and> monthlyResourcePrepared resourceType row \<and>
         (if resourceType = ''storage'' then
            number_int result ''sizeGb'' 0 = number_int expected ''sizeGb'' 0 \<and>
            (sfield result ''cbsStatus'' = ''UNATTACHED'' \<or> sfield result ''cbsStatus'' = ''ATTACHED'')
          else
            (let instanceType = monthlyComputeInstanceType env (sfield expected ''packageId'');
                 instanceID = first_text [sfield result ''instanceId'', sfield result ''cvmInstanceId'']
             in sfield result ''packageId'' = sfield expected ''packageId'' \<and> instanceType \<noteq> [] \<and>
                sfield result ''instanceType'' = instanceType \<and> providerDataValue result ''instanceType'' = instanceType \<and>
                instanceID \<noteq> [] \<and> instanceID = first_text [sfield expected ''instanceId'', sfield expected ''cvmInstanceId'']))) "

section \<open>Reading and writing\<close>

definition loadWorkspaceRenewalOperation :: "renew_services \<Rightarrow> string \<Rightarrow> (renewal_error, renewal_state) res ract" where
  "loadWorkspaceRenewalOperation sv operationID =
     do { rows \<leftarrow> rpeek ''ListRuntimeOperations'' (rv_ListRuntimeOperations sv);
          ret (case rows of
                 None \<Rightarrow> Err (ErrTexts ''state_read_failed'')
               | Some rs \<Rightarrow>
                   (case find (\<lambda>row. sfield row ''action'' = ''workspace.renewal'' \<and>
                                     first_text [sfield row ''operationId'', sfield row ''id''] = operationID) rs of
                      None \<Rightarrow> Err ErrRenewalReviewNotFound
                    | Some row \<Rightarrow> (case decode_renewal sv row of
                                     None \<Rightarrow> Err (ErrTexts ''invalid_workspace_renewal_operation'')
                                   | Some op \<Rightarrow> Ok op))) }"

definition renewal_update :: "renew_services \<Rightarrow> renewal_state \<Rightarrow> workspace_patch option \<Rightarrow> renewal_write" where
  "renewal_update sv op patch =
     (let u = \<lparr>ru_OperationID = ro_ID op, ru_ExpectedOperationResult = ro_PersistedResult op,
               ru_DesiredOperation = workspaceRenewalOperationRow sv op, ru_WorkspaceID = [], ru_ExpectedWorkspacePaidThrough = [],
               ru_ExpectedWorkspaceFields = [], ru_WorkspacePatch = None\<rparr>
      in case patch of
           None \<Rightarrow> u
         | Some p \<Rightarrow> u\<lparr>ru_WorkspaceID := ro_WorkspaceID op, ru_ExpectedWorkspacePaidThrough := xp_ExpectedPaidThrough p,
                       ru_ExpectedWorkspaceFields := xp_ExpectedFields p, ru_WorkspacePatch := Some (xp_Fields p)\<rparr>)"

text \<open>An operation comes back as the caller's pointer holds it: changed, and with the text of the
  last write when that succeeded.\<close>

type_synonym renewal_end = "renewal_state \<times> renewal_error list"

definition persistWorkspaceRenewal :: "renew_services \<Rightarrow> renewal_state \<Rightarrow> workspace_patch option \<Rightarrow> renewal_end ract" where
  "persistWorkspaceRenewal sv op patch =
     do { err \<leftarrow> ask (\<lambda>log. rv_PersistWorkspaceRenewal sv log (renewal_update sv op patch)) (\<lambda>err. RPersist op patch (err = None));
          ret (case err of None \<Rightarrow> (op\<lparr>ro_PersistedResult := rv_marshal sv op\<rparr>, []) | Some e \<Rightarrow> (op, [e])) }"

text \<open>What \<^verbatim>\<open>if err := ...; err != nil { return err }\<close> does in a loop: \<open>Inl\<close> leaves it.\<close>

definition checked :: "renewal_end ract \<Rightarrow> (renewal_end, renewal_state) res ract" where
  "checked m = do { (op, errs) \<leftarrow> m; ret (if errs = [] then Inr op else Inl (op, errs)) }"

definition leave :: "renewal_end ract \<Rightarrow> (renewal_end, renewal_state) res ract" where
  "leave m = do { ended \<leftarrow> m; ret (Inl ended) }"

definition releaseWorkspaceRenewalLease :: "renewal_state \<Rightarrow> renewal_state" where
  "releaseWorkspaceRenewalLease op = op\<lparr>ro_LeaseToken := [], ro_LeaseExpiresAt := []\<rparr>"

text \<open>An end of a run that is tried again: the cause, and the error of the write if it fails too.\<close>

definition end_renewal :: "renew_services \<Rightarrow> renewal_state \<Rightarrow> renewal_error list \<Rightarrow> renewal_end ract" where
  "end_renewal sv op causes =
     do { (op', errs) \<leftarrow> persistWorkspaceRenewal sv (releaseWorkspaceRenewalLease op) None; ret (op', causes @ errs) }"

definition retryWorkspaceRenewal :: "renew_services \<Rightarrow> renewal_state \<Rightarrow> string \<Rightarrow> renewal_error list \<Rightarrow> renewal_end ract" where
  "retryWorkspaceRenewal sv op code cause =
     end_renewal sv (op\<lparr>ro_ErrorCode := code\<rparr>) (if cause = [] then [ErrTexts code] else cause)"

definition manualReviewWorkspaceRenewal :: "renew_services \<Rightarrow> renewal_state \<Rightarrow> string \<Rightarrow> renewal_end ract" where
  "manualReviewWorkspaceRenewal sv op code = end_renewal sv (op\<lparr>ro_Status := ''manual_review'', ro_ErrorCode := code\<rparr>) []"

section \<open>Receipts\<close>

definition workspaceRenewalReceiptCost :: "renewal_state \<Rightarrow> int option \<Rightarrow> gomap" where
  "workspaceRenewalReceiptCost op charged =
     (let (periodStart, paidThrough) =
            (case charged of None \<Rightarrow> (ro_PeriodStart op, ro_PaidThrough op) | Some _ \<Rightarrow> (ro_PaidThrough op, ro_RenewedThrough op))
      in [(''priceVersion'', GStr (ro_PriceVersion op)), (''currency'', GStr pricingCurrency), (''billingUnit'', GStr pricingBillingUnit),
          (''totalUsdMicros'', GInt (ro_TotalUSDMicros op)), (''periodStart'', GStr periodStart), (''paidThrough'', GStr paidThrough),
          (''resourceType'', GStr ''workspace''), (''resourceId'', GStr (ro_WorkspaceID op)),
          (''components'', GObj
             [(''compute'', GObj [(''resourceType'', GStr ''compute''), (''resourceId'', GStr (ro_ComputeID op)),
                                  (''chargeUsdMicros'', GInt (ro_ComputeUSDMicros op))]),
              (''storage'', GObj [(''resourceType'', GStr ''storage''), (''resourceId'', GStr (ro_StorageID op)),
                                  (''sizeGb'', GInt (ro_StorageGB op)), (''chargeUsdMicros'', GInt (ro_StorageUSDMicros op))])])] @
         (case charged of
            None \<Rightarrow> []
          | Some userID \<Rightarrow> [(''sub2apiUserId'', GInt userID), (''sub2apiRedeemCode'', GStr (ro_RedeemCode op)),
                             (''postChargeBalanceUsdMicros'', GInt (ro_PostChargeBalanceUSDMicros op))]))"

definition renewal_receipt :: "renewal_state \<Rightarrow> string \<Rightarrow> gomap \<Rightarrow> gomap \<Rightarrow> string \<Rightarrow> receipt_input" where
  "renewal_receipt op ty execution cost key =
     \<lparr>ri_type = ty, ri_status = ''completed'', ri_surface = ''control_plane'', ri_accountId = ro_AccountID op,
      ri_organizationId = [], ri_workspaceId = ro_WorkspaceID op, ri_projectId = [], ri_taskId = [], ri_requestId = ro_ID op,
      ri_approvalId = [], ri_jobId = [], ri_artifactId = [], ri_reviewId = [], ri_continuationId = [], ri_actor = None,
      ri_plan = None, ri_execution = Some execution, ri_environment = None, ri_inputRefs = None, ri_outputRefs = None,
      ri_reviewerChecks = None, ri_cost = Some cost,
      ri_owner = Some [(''accountId'', GStr (ro_AccountID op)), (''workspaceId'', GStr (ro_WorkspaceID op)),
                       (''ownerUserId'', GStr (ro_OwnerUserID op))],
      ri_continuation = None, ri_supersedesReceiptId = [], ri_idempotencyKey = key\<rparr>"

definition renewal_refund_receipt :: "renewal_state \<Rightarrow> int \<Rightarrow> receipt_input" where
  "renewal_refund_receipt op userID =
     renewal_receipt op ''billing.workspace_refunded.v1''
       [(''resourceType'', GStr ''workspace''), (''resourceId'', GStr (ro_WorkspaceID op)), (''reason'', GStr (ro_RefundReason op)),
        (''computeAllocationId'', GStr (ro_ComputeID op)), (''storageId'', GStr (ro_StorageID op)),
        (''refundConfirmation'', GObj (ro_RefundConfirmation op))]
       (set_all [(''periodStart'', GStr (ro_PaidThrough op)), (''paidThrough'', GStr (ro_RenewedThrough op)),
                 (''sub2apiUserId'', GInt userID), (''sub2apiRedeemCode'', GStr (ro_RedeemCode op)),
                 (''sub2apiRefundCode'', GStr (ro_RefundCode op)), (''refundUsdMicros'', GInt (ro_TotalUSDMicros op))]
          (workspaceRenewalReceiptCost op None))
       (ro_ID op @ '':refund-receipt'')"

definition renewed_receipt :: "renewal_state \<Rightarrow> int \<Rightarrow> receipt_input" where
  "renewed_receipt op userID =
     (let input = renewal_receipt op ''billing.workspace_renewed.v1''
            [(''resourceType'', GStr ''workspace''), (''resourceId'', GStr (ro_WorkspaceID op)),
             (''computeAllocationId'', GStr (ro_ComputeID op)), (''storageId'', GStr (ro_StorageID op)),
             (''computeReadback'', GObj (ro_ComputeReadback op)), (''storageReadback'', GObj (ro_StorageReadback op))]
            (workspaceRenewalReceiptCost op (Some userID)) (ro_ID op @ '':receipt'')
      in if ro_ReviewResolutionKey op = [] then input
         else input\<lparr>ri_inputRefs := Some [(''evidenceRef'', GStr (ro_ReviewResolutionEvidenceRef op))],
                    ri_reviewerChecks := Some
                      [(''decision'', GStr (ro_ReviewResolutionDecision op)), (''reviewer'', GStr (ro_ReviewResolutionReviewer op)),
                       (''evidenceRef'', GStr (ro_ReviewResolutionEvidenceRef op)), (''resolvedAt'', GStr (ro_ReviewResolutionResolvedAt op))]\<rparr>)"

definition expiry_receipt :: "renewal_state \<Rightarrow> receipt_input" where
  "expiry_receipt op =
     renewal_receipt op ''billing.workspace_expired.v1''
       ([(''resourceType'', GStr ''workspace''), (''resourceId'', GStr (ro_WorkspaceID op)), (''reason'', GStr ''expired_unpaid''),
         (''computeAllocationId'', GStr (ro_ComputeID op)), (''storageId'', GStr (ro_StorageID op)),
         (''providerAction'', GStr ''none_expire_by_provider'')] @
        (if ro_PriorStatus op \<noteq> [] then [(''priorStatus'', GStr (ro_PriorStatus op))] else []) @
        (if ro_PriorErrorCode op \<noteq> [] then [(''priorErrorCode'', GStr (ro_PriorErrorCode op))] else []))
       (set_all [(''periodStart'', GStr (ro_ExpiryPeriodStart op)), (''paidThrough'', GStr (ro_ExpiryPaidThrough op))]
          (workspaceRenewalReceiptCost op None))
       (ro_ID op @ '':expiry-receipt'')"

definition send_receipt :: "renew_services \<Rightarrow> receipt_input \<Rightarrow> (svc_error, string) res ract" where
  "send_receipt sv input = rtell (RReceipt input) (\<lambda>log. rv_RecordReceipt sv log input)"

definition recordWorkspaceRefundReceipt :: "renew_services \<Rightarrow> renewal_state \<Rightarrow> renewal_end ract" where
  "recordWorkspaceRefundReceipt sv op =
     do { user \<leftarrow> renewal_user sv (ro_AccountID op);
          case user of
            Inl e \<Rightarrow> retryWorkspaceRenewal sv op ''sub2api_account_mapping_required'' [ErrService (ErrAccount e)]
          | Inr userID \<Rightarrow>
              do { receipt \<leftarrow> send_receipt sv (renewal_refund_receipt op userID);
                   case receipt of
                     Inl e \<Rightarrow> retryWorkspaceRenewal sv op ''ledger_refund_receipt_pending'' [ErrService e]
                   | Inr rid \<Rightarrow>
                       if rid = [] then retryWorkspaceRenewal sv op ''ledger_refund_receipt_invalid'' [ErrTexts ''Ledger refund receipt ID missing'']
                       else end_renewal sv (op\<lparr>ro_RefundReceiptID := rid, ro_Phase := ''complete'', ro_ErrorCode := []\<rparr>) [] } }"

definition recordWorkspaceRenewalReceipt :: "renew_services \<Rightarrow> renewal_state \<Rightarrow> renewal_end ract" where
  "recordWorkspaceRenewalReceipt sv op =
     do { user \<leftarrow> renewal_user sv (ro_AccountID op);
          case user of
            Inl e \<Rightarrow> retryWorkspaceRenewal sv op ''sub2api_account_mapping_required'' [ErrService (ErrAccount e)]
          | Inr userID \<Rightarrow>
              do { receipt \<leftarrow> send_receipt sv (renewed_receipt op userID);
                   case receipt of
                     Inl e \<Rightarrow> retryWorkspaceRenewal sv op ''ledger_receipt_pending'' [ErrService e]
                   | Inr rid \<Rightarrow>
                       if rid = [] then retryWorkspaceRenewal sv op ''ledger_receipt_invalid'' [ErrTexts ''ledger receipt ID missing'']
                       else end_renewal sv (op\<lparr>ro_ReceiptID := rid, ro_Status := ''active'', ro_Phase := ''complete'', ro_ErrorCode := []\<rparr>) [] } }"

section \<open>Expiry\<close>

definition suspend_fields :: "renewal_state \<Rightarrow> gomap" where
  "suspend_fields op =
     (if ro_ExpiryStatus op = ''past_due'' then [(''state'', GStr ''suspended''), (''status'', GStr ''suspended'')]
      else [(''renewalStatus'', GStr ''expired_unpaid''), (''state'', GStr ''suspended''), (''status'', GStr ''suspended''),
            (''autoRenew'', GBool False), (''authorizedBy'', GStr []), (''authorizedAt'', GStr [])])"

definition unpaid_fields :: gomap where
  "unpaid_fields = [(''autoRenew'', GBool False), (''authorizedBy'', GStr []), (''authorizedAt'', GStr []), (''renewalStatus'', GStr ''expired_unpaid'')]"

definition expiry_patch :: "renewal_state \<Rightarrow> gomap \<Rightarrow> workspace_patch" where
  "expiry_patch op patch = \<lparr>xp_ExpectedPaidThrough = ro_ExpiryPaidThrough op, xp_ExpectedFields = [], xp_Fields = patch\<rparr>"

text \<open>One round of the loop of the expiry.\<close>

definition expiry_round :: "renew_services \<Rightarrow> renewal_state \<Rightarrow> (renewal_end, renewal_state) res ract" where
  "expiry_round sv op =
     (let phase = ro_ExpiryPhase op
      in if phase = ''suspend'' then
           do { workspace \<leftarrow> rpeek ''Workspace'' (\<lambda>log. rv_Workspace sv log (ro_WorkspaceID op));
                if workspace = None then ret (Inl (op, [ErrTexts ''workspace_expiry_workspace_missing'']))
                else checked (persistWorkspaceRenewal sv
                       (op\<lparr>ro_ExpiryPhase := (if ro_ExpiryStatus op = ''past_due'' then ''financial'' else ''receipt''), ro_ExpiryErrorCode := []\<rparr>)
                       (Some (expiry_patch op (suspend_fields op)))) }
         else if phase = ''financial'' then
           (if ro_Status op \<noteq> ''refunded'' \<and> ro_Status op \<noteq> ''expired_unpaid'' then ret (Inl (op, []))
            else checked (persistWorkspaceRenewal sv
                   (op\<lparr>ro_ExpiryStatus := ''expired_unpaid'', ro_ExpiryPhase := ''receipt'', ro_ExpiryErrorCode := []\<rparr>)
                   (Some (expiry_patch op unpaid_fields))))
         else if phase = ''compute'' then leave (persistWorkspaceRenewal sv (op\<lparr>ro_ExpiryPhase := ''receipt'', ro_ExpiryErrorCode := []\<rparr>) None)
         else if phase = ''receipt'' \<or> phase = ''complete'' then ret (Inl (op, []))
         else ret (Inl (op, [ErrTexts ''invalid Workspace expiry phase''])))"

fun expiry_rounds :: "nat \<Rightarrow> renew_services \<Rightarrow> renewal_state \<Rightarrow> renewal_end ract" where
  "expiry_rounds 0 sv op = ret (op, [])"
| "expiry_rounds (Suc n) sv op =
     do { step \<leftarrow> expiry_round sv op;
          case step of Inl ended \<Rightarrow> ret ended | Inr op' \<Rightarrow> expiry_rounds n sv op' }"

definition progressWorkspaceRenewalExpiry :: "renew_services \<Rightarrow> renewal_state \<Rightarrow> renewal_end ract" where
  "progressWorkspaceRenewalExpiry sv op = expiry_rounds 2 sv op"

definition recordWorkspaceRenewalExpiryReceipt :: "renew_services \<Rightarrow> renewal_state \<Rightarrow> renewal_end ract" where
  "recordWorkspaceRenewalExpiryReceipt sv op =
     (if ro_ExpiryStatus op \<noteq> ''expired_unpaid'' \<or> ro_ExpiryPhase op \<noteq> ''receipt'' then ret (op, [])
      else
        do { receipt \<leftarrow> send_receipt sv (expiry_receipt op);
             case receipt of
               Inl e \<Rightarrow> end_renewal sv (op\<lparr>ro_ExpiryErrorCode := ''ledger_expiry_receipt_pending''\<rparr>) [ErrService e]
             | Inr rid \<Rightarrow>
                 if rid = [] then end_renewal sv (op\<lparr>ro_ExpiryErrorCode := ''ledger_expiry_receipt_invalid''\<rparr>) [ErrTexts ''Ledger expiry receipt ID missing'']
                 else end_renewal sv (op\<lparr>ro_ExpiryReceiptID := rid, ro_ExpiryPhase := ''complete'', ro_ExpiryErrorCode := [],
                        ro_ReceiptID := (if ro_ReceiptID op = [] then rid else ro_ReceiptID op)\<rparr>) [] })"

end
