(* ===== verification/CP_Renewal_Run.thy ===== *)
theory CP_Renewal_Run
  imports CP_Renewal
begin

text \<open>
  The run of a renewal, after \<^verbatim>\<open>workspace_renewal.go\<close>: the debit, the provider, the refund, the
  entitlement and the loop over them.
\<close>

section \<open>Resources\<close>

definition resources_match :: "renewal_state \<Rightarrow> gomap \<Rightarrow> gomap \<Rightarrow> bool" where
  "resources_match op compute storage \<longleftrightarrow>
     sfield compute ''accountId'' = ro_AccountID op \<and> sfield storage ''accountId'' = ro_AccountID op \<and>
     sfield compute ''workspaceId'' = ro_WorkspaceID op \<and> sfield storage ''workspaceId'' = ro_WorkspaceID op \<and>
     sfield compute ''providerResourceId'' \<noteq> [] \<and> sfield storage ''providerResourceId'' \<noteq> [] \<and>
     sfield compute ''packageId'' = ro_PackageID op \<and> number_int storage ''sizeGb'' 0 = ro_StorageGB op \<and>
     sfield storage ''computeAllocationId'' = ro_ComputeID op"

definition period_of_renewal :: "renewal_state \<Rightarrow> gomap \<Rightarrow> gomap" where
  "period_of_renewal op row = mset_key ''paidThrough'' (GStr (ro_PaidThrough op)) (mset_key ''periodStart'' (GStr (ro_PeriodStart op)) row)"

definition workspaceRenewalResources :: "renew_services \<Rightarrow> renewal_state \<Rightarrow> (string, gomap \<times> gomap) res ract" where
  "workspaceRenewalResources sv op =
     do { compute \<leftarrow> get_resource sv ''compute'' (ro_ComputeID op);
          storage \<leftarrow> get_resource sv ''storage'' (ro_StorageID op);
          ret (case (compute, storage) of
                 (Some c, Some s) \<Rightarrow>
                   if \<not> resources_match op c s then Inl ''workspace_renewal_resource_identity_mismatch''
                   else if monthlyRenewalProviderTruth (rv_env sv) ''compute'' (period_of_renewal op c) = None
                   then Inl ''workspace_renewal_compute_provider_truth_invalid''
                   else if monthlyRenewalProviderTruth (rv_env sv) ''storage'' (period_of_renewal op s) = None
                   then Inl ''workspace_renewal_storage_provider_truth_invalid''
                   else Inr (c, s)
               | _ \<Rightarrow> Inl ''workspace_renewal_resource_identity_mismatch'') }"

definition preflight_renewal ::
    "renew_services \<Rightarrow> renewal_state \<Rightarrow> preflight_input \<Rightarrow> string \<Rightarrow> renewal_state \<Rightarrow> (renewal_end, renewal_state) res ract" where
  "preflight_renewal sv op input code op' =
     do { answer \<leftarrow> rpeek ''Preflight'' (\<lambda>log. rv_Preflight sv log input);
          case answer of
            Inl e \<Rightarrow> leave (retryWorkspaceRenewal sv op code [ErrService e])
          | Inr preflight \<Rightarrow>
              if \<not> monthlyPreflightConfirmed input preflight then leave (retryWorkspaceRenewal sv op code [])
              else checked (persistWorkspaceRenewal sv op' None) }"

definition claimed_step :: "renew_services \<Rightarrow> renewal_state \<Rightarrow> (renewal_end, renewal_state) res ract" where
  "claimed_step sv op =
     do { resources \<leftarrow> workspaceRenewalResources sv op;
          case resources of
            Inl code \<Rightarrow> leave (manualReviewWorkspaceRenewal sv op code)
          | Inr (compute, storage) \<Rightarrow>
              if ro_ChargeAttempted op \<or> ro_ChargeConfirmation op \<noteq> [] then
                checked (persistWorkspaceRenewal sv (op\<lparr>ro_Status := ''debit_pending'', ro_Phase := ''debit''\<rparr>) None)
              else if ro_Phase op = ''preflight_compute'' then
                preflight_renewal sv op
                  \<lparr>pfi_ResourceType = ''compute'', pfi_PackageID = ro_PackageID op, pfi_SizeGB = 0, pfi_Zone = sfield compute ''zone''\<rparr>
                  ''fabric_compute_preflight_failed'' (op\<lparr>ro_ComputePreflightConfirmed := True, ro_Phase := ''preflight_storage''\<rparr>)
              else if ro_Phase op = ''preflight_storage'' then
                preflight_renewal sv op
                  \<lparr>pfi_ResourceType = ''storage'', pfi_PackageID = ro_PackageID op, pfi_SizeGB = ro_StorageGB op, pfi_Zone = sfield storage ''zone''\<rparr>
                  ''fabric_storage_preflight_failed''
                  (op\<lparr>ro_StoragePreflightConfirmed := True, ro_Status := ''debit_pending'', ro_Phase := ''debit''\<rparr>)
              else leave (manualReviewWorkspaceRenewal sv op ''workspace_renewal_phase_invalid'') }"

section \<open>The debit\<close>

definition renewal_charge_input :: "renewal_state \<Rightarrow> int \<Rightarrow> charge_input" where
  "renewal_charge_input op userID =
     \<lparr>ci_UserID = userID, ci_Code = ro_RedeemCode op, ci_USDMicros = ro_TotalUSDMicros op,
      ci_Notes = ''OPL Workspace monthly '' @ ro_WorkspaceID op\<rparr>"

definition charge_renewal :: "renew_services \<Rightarrow> renewal_state \<Rightarrow> int \<Rightarrow> (svc_error, charge) res ract" where
  "charge_renewal sv op userID =
     (let input = renewal_charge_input op userID in rtell (RCharge input) (\<lambda>log. rv_Charge sv log input))"

definition renewal_charge_code :: "renewal_state \<Rightarrow> int \<Rightarrow> balance_entry list \<Rightarrow> string" where
  "renewal_charge_code op userID history =
     sub2APIReconciliationCode [(''sub2apiRedeemCode'', GStr (ro_RedeemCode op)), (''chargeUsdMicros'', GInt (ro_TotalUSDMicros op))] userID history"

text \<open>After an attempt: a charge the history shows is taken as made, a missing one is made again under
  the same code.\<close>

definition recover_renewal_charge :: "renew_services \<Rightarrow> renewal_state \<Rightarrow> int \<Rightarrow> (renewal_end, (svc_error, charge) res) res ract" where
  "recover_renewal_charge sv op userID =
     do { history \<leftarrow> rpeek ''BalanceHistory'' (\<lambda>log. rv_BalanceHistory sv log userID);
          let code = (case history of Inl _ \<Rightarrow> ''sub2api_charge_missing'' | Inr h \<Rightarrow> renewal_charge_code op userID h);
          if code = ''sub2api_charge_missing'' then do { c \<leftarrow> charge_renewal sv op userID; ret (Inr c) }
          else if code \<noteq> [] then do { ended \<leftarrow> manualReviewWorkspaceRenewal sv op code; ret (Inl ended) }
          else ret (Inr (Ok \<lparr>ch_Code = ro_RedeemCode op, ch_UserID = userID, ch_USDMicros = ro_TotalUSDMicros op, ch_Status = ''used''\<rparr>)) }"

definition insufficient_renewal :: "renew_services \<Rightarrow> renewal_state \<Rightarrow> renewal_end ract" where
  "insufficient_renewal sv op =
     do { (op', errs) \<leftarrow> persistWorkspaceRenewal sv
            (releaseWorkspaceRenewalLease (op\<lparr>ro_Status := ''insufficient'', ro_ErrorCode := ''monthly_balance_insufficient''\<rparr>)) None;
          ret (op', if errs = [] then [ErrService ErrMonthlyInsufficientBalance] else errs) }"

definition first_renewal_charge ::
    "renew_services \<Rightarrow> renewal_state \<Rightarrow> int \<Rightarrow> (renewal_end, renewal_state \<times> (svc_error, charge) res) res ract" where
  "first_renewal_charge sv op userID =
     do { balance \<leftarrow> rpeek ''Balance'' (\<lambda>log. rv_Balance sv log userID);
          case balance of
            Inl e \<Rightarrow> do { ended \<leftarrow> retryWorkspaceRenewal sv op ''sub2api_balance_unavailable'' [ErrService e]; ret (Inl ended) }
          | Inr micros \<Rightarrow>
              if micros \<le> ro_TotalUSDMicros op then do { ended \<leftarrow> insufficient_renewal sv op; ret (Inl ended) }
              else
                do { (op', errs) \<leftarrow> persistWorkspaceRenewal sv (op\<lparr>ro_PreChargeBalanceUSDMicros := micros, ro_ChargeAttempted := True\<rparr>) None;
                     if errs \<noteq> [] then ret (Inl (op', errs)) else do { c \<leftarrow> charge_renewal sv op' userID; ret (Inr (op', c)) } } }"

definition settle_renewal_charge :: "renew_services \<Rightarrow> renewal_state \<Rightarrow> int \<Rightarrow> (svc_error, charge) res \<Rightarrow> (renewal_end, renewal_state) res ract" where
  "settle_renewal_charge sv op userID result =
     (case result of
        Inl e \<Rightarrow>
          if e = ErrSub2APIChargeUnknown then leave (retryWorkspaceRenewal sv op ''sub2api_charge_unconfirmed'' [ErrService e])
          else leave (manualReviewWorkspaceRenewal sv op ''sub2api_charge_unconfirmed'')
      | Inr charge \<Rightarrow>
          (let confirmation = charge_confirmation charge
           in if \<not> monthlyChargeConfirmationMatches confirmation (ro_RedeemCode op) userID (ro_TotalUSDMicros op)
              then leave (manualReviewWorkspaceRenewal sv op ''sub2api_charge_confirmation_invalid'')
              else checked (persistWorkspaceRenewal sv (op\<lparr>ro_ChargeConfirmation := confirmation, ro_ErrorCode := []\<rparr>) None)))"

definition obtain_renewal_charge :: "renew_services \<Rightarrow> renewal_state \<Rightarrow> int \<Rightarrow> (renewal_end, renewal_state) res ract" where
  "obtain_renewal_charge sv op userID =
     do { key \<leftarrow> rpeek ''WorkspaceKey'' (\<lambda>log. rv_WorkspaceKey sv log userID);
          case key of
            Some e \<Rightarrow> leave (retryWorkspaceRenewal sv op ''gateway_key_unavailable'' [ErrService e])
          | None \<Rightarrow>
              do { attempt \<leftarrow>
                     (if ro_ChargeAttempted op \<or> ro_ErrorCode op = ''sub2api_charge_unconfirmed''
                      then do { r \<leftarrow> recover_renewal_charge sv op userID; ret (case r of Inl ended \<Rightarrow> Inl ended | Inr c \<Rightarrow> Inr (op, c)) }
                      else first_renewal_charge sv op userID);
                   case attempt of
                     Inl ended \<Rightarrow> ret (Inl ended)
                   | Inr (op', result) \<Rightarrow> settle_renewal_charge sv op' userID result } }"

text \<open>The balance must have fallen by exactly the amount; the difference of two \<^verbatim>\<open>int64\<close> wraps.\<close>

definition confirm_renewal_debit :: "renew_services \<Rightarrow> renewal_state \<Rightarrow> int \<Rightarrow> renewal_end ract" where
  "confirm_renewal_debit sv op userID =
     do { post \<leftarrow> rpeek ''Balance'' (\<lambda>log. rv_Balance sv log userID);
          case post of
            Inl e \<Rightarrow> retryWorkspaceRenewal sv op ''post_charge_balance_unavailable'' [ErrService e]
          | Inr micros \<Rightarrow>
              (let op = op\<lparr>ro_PostChargeBalanceKnown := True, ro_PostChargeBalanceUSDMicros := micros\<rparr>
               in if ro_PreChargeBalanceUSDMicros op \<le> ro_TotalUSDMicros op \<or> micros < 0 \<or>
                     micros \<noteq> wrap64 (ro_PreChargeBalanceUSDMicros op - ro_TotalUSDMicros op)
                  then manualReviewWorkspaceRenewal sv op ''post_charge_balance_invalid''
                  else persistWorkspaceRenewal sv (op\<lparr>ro_Status := ''debited'', ro_Phase := ''provider_compute'', ro_ErrorCode := []\<rparr>) None) }"

text \<open>A review that was written without an error ends the debit without one: the loop then finds it.\<close>

definition debitWorkspaceRenewal :: "renew_services \<Rightarrow> renewal_state \<Rightarrow> renewal_end ract" where
  "debitWorkspaceRenewal sv op =
     do { user \<leftarrow> renewal_user sv (ro_AccountID op);
          case user of
            Inl e \<Rightarrow> retryWorkspaceRenewal sv op ''sub2api_account_mapping_required'' [ErrService (ErrAccount e)]
          | Inr userID \<Rightarrow>
              if ro_ChargeConfirmation op = [] then
                do { charged \<leftarrow> obtain_renewal_charge sv op userID;
                     case charged of Inl ended \<Rightarrow> ret ended | Inr op' \<Rightarrow> confirm_renewal_debit sv op' userID }
              else confirm_renewal_debit sv op userID }"

section \<open>The refund\<close>

definition renewal_refund_input :: "renewal_state \<Rightarrow> int \<Rightarrow> charge_input" where
  "renewal_refund_input op userID =
     \<lparr>ci_UserID = userID, ci_Code = ro_RefundCode op, ci_USDMicros = ro_TotalUSDMicros op,
      ci_Notes = ''OPL Workspace renewal refund '' @ ro_WorkspaceID op\<rparr>"

definition refund_renewal :: "renew_services \<Rightarrow> renewal_state \<Rightarrow> int \<Rightarrow> (svc_error, charge) res ract" where
  "refund_renewal sv op userID =
     (let input = renewal_refund_input op userID in rtell (RRefund input) (\<lambda>log. rv_Refund sv log input))"

definition recover_renewal_refund :: "renew_services \<Rightarrow> renewal_state \<Rightarrow> int \<Rightarrow> (renewal_end, (svc_error, charge) res) res ract" where
  "recover_renewal_refund sv op userID =
     do { history \<leftarrow> rpeek ''BalanceHistory'' (\<lambda>log. rv_BalanceHistory sv log userID);
          case (case history of Inl _ \<Rightarrow> [] | Inr h \<Rightarrow> filter (\<lambda>e. be_Code e = ro_RefundCode op) h) of
            [] \<Rightarrow> do { c \<leftarrow> refund_renewal sv op userID; ret (Inr c) }
          | e # rest \<Rightarrow>
              if rest \<noteq> [] \<or> be_Type e \<noteq> ''balance'' \<or> be_Status e \<noteq> ''used'' \<or> be_UsedBy e \<noteq> Some userID \<or>
                 be_ValueUSDMicros e \<noteq> ro_TotalUSDMicros op
              then do { ended \<leftarrow> manualReviewWorkspaceRenewal sv op ''sub2api_refund_mismatch''; ret (Inl ended) }
              else ret (Inr (Ok \<lparr>ch_Code = ro_RefundCode op, ch_UserID = userID, ch_USDMicros = ro_TotalUSDMicros op, ch_Status = ''used''\<rparr>)) }"

definition renewal_refund_confirmation :: "charge \<Rightarrow> gomap" where
  "renewal_refund_confirmation c =
     [(''code'', GStr (ch_Code c)), (''userId'', GInt (ch_UserID c)), (''refundUsdMicros'', GInt (ch_USDMicros c)), (''status'', GStr (ch_Status c))]"

definition settle_renewal_refund :: "renew_services \<Rightarrow> renewal_state \<Rightarrow> int \<Rightarrow> (svc_error, charge) res \<Rightarrow> renewal_end ract" where
  "settle_renewal_refund sv op userID result =
     (case result of
        Inl e \<Rightarrow> retryWorkspaceRenewal sv op ''sub2api_refund_unconfirmed'' [ErrService e, ErrService ErrSub2APIChargeUnknown]
      | Inr c \<Rightarrow>
          if ch_Code c \<noteq> ro_RefundCode op \<or> ch_UserID c \<noteq> userID \<or> ch_USDMicros c \<noteq> ro_TotalUSDMicros op \<or> ch_Status c \<noteq> ''used''
          then retryWorkspaceRenewal sv op ''sub2api_refund_unconfirmed'' [ErrService ErrSub2APIChargeUnknown]
          else
            do { (op', errs) \<leftarrow> persistWorkspaceRenewal sv (op\<lparr>ro_RefundConfirmation := renewal_refund_confirmation c, ro_Status := ''refunded'',
                   ro_Phase := ''refund_receipt'', ro_ErrorCode := []\<rparr>) None;
                 if errs \<noteq> [] then ret (op', errs) else recordWorkspaceRefundReceipt sv op' })"

text \<open>The attempt is written before the refund is made; one that was made is looked for first.\<close>

definition refundWorkspaceRenewal :: "renew_services \<Rightarrow> renewal_state \<Rightarrow> string \<Rightarrow> renewal_end ract" where
  "refundWorkspaceRenewal sv op reason =
     do { user \<leftarrow> renewal_user sv (ro_AccountID op);
          case user of
            Inl _ \<Rightarrow> manualReviewWorkspaceRenewal sv op ''workspace_renewal_refund_account_unmapped''
          | Inr userID \<Rightarrow>
              if ro_RefundAttempted op then
                do { r \<leftarrow> recover_renewal_refund sv op userID;
                     case r of Inl ended \<Rightarrow> ret ended | Inr result \<Rightarrow> settle_renewal_refund sv op userID result }
              else
                do { (op', errs) \<leftarrow> persistWorkspaceRenewal sv (op\<lparr>ro_Status := ''refund_pending'', ro_Phase := ''refund'',
                       ro_RefundAttempted := True, ro_RefundReason := reason, ro_ErrorCode := []\<rparr>) None;
                     if errs \<noteq> [] then ret (op', errs)
                     else do { result \<leftarrow> refund_renewal sv op' userID; settle_renewal_refund sv op' userID result } } }"

section \<open>The provider\<close>

definition resource_of :: "renewal_state \<Rightarrow> string \<Rightarrow> string" where
  "resource_of op resourceType = (if resourceType = ''storage'' then ro_StorageID op else ro_ComputeID op)"

definition note_readback :: "string \<Rightarrow> gomap \<Rightarrow> renewal_state \<Rightarrow> renewal_state" where
  "note_readback resourceType facts op =
     (if resourceType = ''storage'' then op\<lparr>ro_StorageReadback := facts\<rparr> else op\<lparr>ro_ComputeReadback := facts\<rparr>)"

text \<open>The row with the facts, whether the resource is confirmed absent, and whether the answer is valid.\<close>

definition workspaceRenewalProviderReadback ::
    "renew_services \<Rightarrow> string \<Rightarrow> renewal_state \<Rightarrow> gomap \<Rightarrow> svc_error option \<Rightarrow> (gomap \<times> bool \<times> bool) ract" where
  "workspaceRenewalProviderReadback sv resourceType op facts readErr =
     do { existing \<leftarrow> get_resource sv resourceType (resource_of op resourceType);
          ret (case existing of
                 None \<Rightarrow> ([], False, False)
               | Some row \<Rightarrow>
                   (let candidate = mergeMaps row facts
                    in if monthlyResourceConfirmedAbsent resourceType candidate then (candidate, True, True)
                       else
                         (candidate, False, readErr = None \<and>
                            (case (parse_rfc3339 (ro_PaidThrough op), parse_rfc3339 (ro_RenewedThrough op)) of
                               (Some old, Some renewed) \<Rightarrow>
                                 monthlyRenewalReadbackConfirmed (rv_env sv) resourceType row candidate facts (fst old) (fst renewed)
                             | _ \<Rightarrow> False)))) }"

definition save_renewed :: "renew_services \<Rightarrow> string \<Rightarrow> gomap \<Rightarrow> svc_error option ract" where
  "save_renewed sv resourceType row = rtell (RSave resourceType row) (\<lambda>log. rv_SaveResource sv log resourceType row)"

text \<open>Reading the provider: the operation with the answer noted, and the readback of it.\<close>

definition sync_renewal :: "renew_services \<Rightarrow> string \<Rightarrow> renewal_state \<Rightarrow> (renewal_state \<times> gomap \<times> bool \<times> bool) ract" where
  "sync_renewal sv resourceType op =
     do { (readErr, facts) \<leftarrow> rpeek ''Sync'' (\<lambda>log. rv_Sync sv log resourceType (resource_of op resourceType));
          let op' = note_readback resourceType facts op;
          readback \<leftarrow> workspaceRenewalProviderReadback sv resourceType op' facts readErr;
          ret (op', readback) }"

definition renew_resource :: "renew_services \<Rightarrow> string \<Rightarrow> renewal_state \<Rightarrow> renewal_end ract" where
  "renew_resource sv resourceType op =
     do { (err, result) \<leftarrow> ask (\<lambda>log. rv_Renew sv log resourceType (resource_of op resourceType) (ro_ID op @ '':'' @ resourceType))
            (\<lambda>_. RRenew resourceType (resource_of op resourceType) (ro_ID op @ '':'' @ resourceType));
          let op' = (if resourceType = ''storage'' then op\<lparr>ro_StorageRenewal := result, ro_Phase := ''verify_storage''\<rparr>
                     else op\<lparr>ro_ComputeRenewal := result, ro_Phase := ''verify_compute''\<rparr>);
          persistWorkspaceRenewal sv
            (if err \<noteq> None then op'\<lparr>ro_ErrorCode := ''fabric_'' @ resourceType @ ''_renewal_unconfirmed''\<rparr> else op') None }"

definition verify_compute_phase :: "renew_services \<Rightarrow> renewal_state \<Rightarrow> renewal_end ract" where
  "verify_compute_phase sv op =
     do { (op', row, absent, valid) \<leftarrow> sync_renewal sv ''compute'' op;
          if absent then refundWorkspaceRenewal sv op' ''fabric_compute_confirmed_absent''
          else if \<not> valid then manualReviewWorkspaceRenewal sv op' ''fabric_compute_renewal_unconfirmed''
          else
            do { saved \<leftarrow> save_renewed sv ''compute'' row;
                 case saved of
                   Some e \<Rightarrow> ret (op', [ErrService e])
                 | None \<Rightarrow> persistWorkspaceRenewal sv (op'\<lparr>ro_Phase := ''provider_storage'', ro_ErrorCode := []\<rparr>) None } }"

definition verify_storage_phase :: "renew_services \<Rightarrow> renewal_state \<Rightarrow> renewal_end ract" where
  "verify_storage_phase sv op =
     do { (op', row, absent, valid) \<leftarrow> sync_renewal sv ''storage'' op;
          if absent then manualReviewWorkspaceRenewal sv op' ''fabric_storage_confirmed_absent_after_compute_renewed''
          else if \<not> valid then manualReviewWorkspaceRenewal sv op' ''fabric_storage_renewal_unconfirmed''
          else
            do { saved \<leftarrow> save_renewed sv ''storage'' row;
                 case saved of
                   Some e \<Rightarrow> ret (op', [ErrService e])
                 | None \<Rightarrow> persistWorkspaceRenewal sv (op'\<lparr>ro_Status := ''verifying'', ro_Phase := ''entitlement'', ro_ErrorCode := []\<rparr>) None } }"

definition renewWorkspaceProvider :: "renew_services \<Rightarrow> renewal_state \<Rightarrow> renewal_end ract" where
  "renewWorkspaceProvider sv op =
     (let phase = ro_Phase op
      in if phase = ''provider_compute'' then renew_resource sv ''compute'' op
         else if phase = ''verify_compute'' then verify_compute_phase sv op
         else if phase = ''provider_storage'' then renew_resource sv ''storage'' op
         else if phase = ''verify_storage'' then verify_storage_phase sv op
         else manualReviewWorkspaceRenewal sv op ''workspace_renewal_provider_phase_invalid'')"

definition verify_renewed :: "renew_services \<Rightarrow> string \<Rightarrow> renewal_state \<Rightarrow> (renewal_state \<times> bool) ract" where
  "verify_renewed sv resourceType op =
     do { (op', row, absent, valid) \<leftarrow> sync_renewal sv resourceType op;
          if absent \<or> \<not> valid then ret (op', False)
          else do { saved \<leftarrow> save_renewed sv resourceType row; ret (op', saved = None) } }"

text \<open>Both resources are read once more before the period is granted; the flag says whether both are
  as they must be, otherwise the error is \<^verbatim>\<open>workspace_renewal_provider_truth_invalid\<close>.\<close>

definition verifyWorkspaceRenewalProviderReadback :: "renew_services \<Rightarrow> renewal_state \<Rightarrow> (renewal_state \<times> bool) ract" where
  "verifyWorkspaceRenewalProviderReadback sv op =
     do { (op', ok) \<leftarrow> verify_renewed sv ''compute'' op;
          if ok then verify_renewed sv ''storage'' op' else ret (op', False) }"

section \<open>The entitlement\<close>

definition renewal_covers_expiry :: "renewal_state \<Rightarrow> bool" where
  "renewal_covers_expiry op \<longleftrightarrow> ro_ExpiryStatus op = ''past_due'' \<and> ro_ExpiryPaidThrough op = ro_PaidThrough op"

definition entitlement_fields :: "renewal_state \<Rightarrow> zoned_time \<Rightarrow> gomap" where
  "entitlement_fields op renewed =
     [(''periodStart'', GStr (ro_PaidThrough op)), (''paidThrough'', GStr (ro_RenewedThrough op)),
      (''nextRenewalAt'', GStr (format_zoned (day_before (fst renewed), snd renewed))), (''renewalStatus'', GStr ''active'')] @
     (if renewal_covers_expiry op
      then [(''state'', GStr ''running''), (''status'', GStr ''running''), (''currentComputeAllocationId'', GStr (ro_ComputeID op))] else [])"

definition clear_expiry :: "renewal_state \<Rightarrow> renewal_state" where
  "clear_expiry op =
     op\<lparr>ro_PriorStatus := [], ro_PriorErrorCode := [], ro_ExpiryStatus := [], ro_ExpiryPhase := [], ro_ExpiryErrorCode := [],
        ro_ExpiryReceiptID := [], ro_ExpiryPeriodStart := [], ro_ExpiryPaidThrough := []\<rparr>"

definition suspended_as_expected :: "gomap \<Rightarrow> renewal_state \<Rightarrow> bool" where
  "suspended_as_expected workspace op \<longleftrightarrow>
     sfield workspace ''state'' = ''suspended'' \<and> sfield workspace ''status'' = ''suspended'' \<and>
     sfield workspace ''currentComputeAllocationId'' = ro_ComputeID op \<and> sfield workspace ''currentAttachmentId'' \<noteq> []"

definition recovery_fields :: "gomap \<Rightarrow> renewal_state \<Rightarrow> (string \<times> string) list" where
  "recovery_fields workspace op =
     [(''state'', ''suspended''), (''status'', ''suspended''), (''computeAllocationId'', ro_ComputeID op),
      (''currentComputeAllocationId'', ro_ComputeID op), (''storageId'', ro_StorageID op),
      (''currentAttachmentId'', sfield workspace ''currentAttachmentId'')]"

definition entitlement_write :: "renewal_state \<Rightarrow> gomap \<Rightarrow> zoned_time \<Rightarrow> renewal_state \<times> workspace_patch" where
  "entitlement_write op workspace renewed =
     (let patch = \<lparr>xp_ExpectedPaidThrough = ro_PaidThrough op,
                   xp_ExpectedFields = (if renewal_covers_expiry op then recovery_fields workspace op else []),
                   xp_Fields = entitlement_fields op renewed\<rparr>;
          op' = (if renewal_covers_expiry op then clear_expiry op else op)
      in (op'\<lparr>ro_Status := ''verifying'', ro_Phase := ''receipt'', ro_EntitlementCommitted := True\<rparr>, patch))"

definition commitWorkspaceRenewalEntitlement :: "renew_services \<Rightarrow> renewal_state \<Rightarrow> renewal_end ract" where
  "commitWorkspaceRenewalEntitlement sv op =
     do { found \<leftarrow> rpeek ''Workspace'' (\<lambda>log. rv_Workspace sv log (ro_WorkspaceID op));
          case found of
            None \<Rightarrow> manualReviewWorkspaceRenewal sv op ''workspace_renewal_identity_mismatch''
          | Some w \<Rightarrow>
              if sfield w ''accountId'' \<noteq> ro_AccountID op \<or> sfield w ''computeAllocationId'' \<noteq> ro_ComputeID op \<or> sfield w ''storageId'' \<noteq> ro_StorageID op
              then manualReviewWorkspaceRenewal sv op ''workspace_renewal_identity_mismatch''
              else if sfield w ''paidThrough'' \<noteq> ro_PaidThrough op \<and> sfield w ''paidThrough'' \<noteq> ro_RenewedThrough op
              then manualReviewWorkspaceRenewal sv op ''workspace_renewal_period_mismatch''
              else
                (case parse_rfc3339 (ro_RenewedThrough op) of
                   None \<Rightarrow> manualReviewWorkspaceRenewal sv op ''workspace_renewal_period_invalid''
                 | Some renewed \<Rightarrow>
                     if renewal_covers_expiry op \<and> \<not> suspended_as_expected w op
                     then manualReviewWorkspaceRenewal sv op ''workspace_renewal_recovery_state_mismatch''
                     else (let (op', patch) = entitlement_write op w renewed in persistWorkspaceRenewal sv op' (Some patch))) }"

section \<open>The loop\<close>

definition verifying_step :: "renew_services \<Rightarrow> renewal_state \<Rightarrow> (renewal_end, renewal_state) res ract" where
  "verifying_step sv op =
     (if ro_Phase op = ''receipt'' then leave (recordWorkspaceRenewalReceipt sv op)
      else
        do { (op', ok) \<leftarrow> verifyWorkspaceRenewalProviderReadback sv op;
             if \<not> ok then leave (manualReviewWorkspaceRenewal sv op' ''workspace_renewal_provider_truth_invalid'')
             else checked (commitWorkspaceRenewalEntitlement sv op') })"

definition renewal_step :: "renew_services \<Rightarrow> renewal_state \<Rightarrow> (renewal_end, renewal_state) res ract" where
  "renewal_step sv op =
     (let status = ro_Status op
      in if status = ''expired_unpaid'' then ret (Inl (op, []))
         else if status = ''insufficient'' then
           checked (persistWorkspaceRenewal sv (op\<lparr>ro_Status := ''debit_pending'', ro_Phase := ''debit'', ro_ErrorCode := []\<rparr>) None)
         else if status = ''claimed'' then claimed_step sv op
         else if status = ''debit_pending'' then checked (debitWorkspaceRenewal sv op)
         else if status = ''refund_pending'' then leave (refundWorkspaceRenewal sv op (ro_RefundReason op))
         else if status = ''debited'' then
           checked (persistWorkspaceRenewal sv (op\<lparr>ro_Status := ''provider_renewing'', ro_Phase := ''provider_compute''\<rparr>) None)
         else if status = ''provider_renewing'' then checked (renewWorkspaceProvider sv op)
         else if status = ''verifying'' then verifying_step sv op
         else if status = ''refunded'' then
           (if ro_Phase op = ''refund_receipt'' then leave (recordWorkspaceRefundReceipt sv op) else ret (Inl (op, [])))
         else if status = ''active'' \<or> status = ''manual_review'' \<or> status = ''cancelled'' then ret (Inl (op, []))
         else leave (manualReviewWorkspaceRenewal sv op ''workspace_renewal_status_invalid''))"

text \<open>The loop \<^verbatim>\<open>for range 16\<close>: the first argument counts the rounds that are left.\<close>

fun renewal_rounds :: "nat \<Rightarrow> renew_services \<Rightarrow> renewal_state \<Rightarrow> renewal_end ract" where
  "renewal_rounds 0 sv op = retryWorkspaceRenewal sv op ''workspace_renewal_iteration_limit'' [ErrTexts ''workspace renewal iteration limit'']"
| "renewal_rounds (Suc n) sv op =
     do { step \<leftarrow> renewal_step sv op;
          case step of Inl ended \<Rightarrow> ret ended | Inr op' \<Rightarrow> renewal_rounds n sv op' }"

definition runWorkspaceRenewal :: "renew_services \<Rightarrow> renewal_state \<Rightarrow> renewal_error list ract" where
  "runWorkspaceRenewal sv op = do { (_, errs) \<leftarrow> renewal_rounds 16 sv op; ret errs }"

end
