(* ===== verification/CP_Renewal_Process.thy ===== *)
theory CP_Renewal_Process
  imports CP_Renewal_Run
begin

text \<open>
  Who runs a renewal: the claim of one, the worker over all workspaces, and the resolution of a
  review (\<^verbatim>\<open>workspace_renewal.go\<close>, \<^verbatim>\<open>renewal_worker.go\<close>). Locks only serialise
  and are not modelled.
\<close>

section \<open>The claim\<close>

definition monthlyRenewalLead :: int where "monthlyRenewalLead = 24 * 3600 * ns_per_sec"

definition covers_current_expiry :: "renewal_state \<Rightarrow> string \<Rightarrow> bool" where
  "covers_current_expiry op paidThrough \<longleftrightarrow>
     (ro_ExpiryStatus op = ''past_due'' \<or> ro_ExpiryStatus op = ''expired_unpaid'') \<and> ro_ExpiryPaidThrough op = paidThrough"

text \<open>The operation to go on with: the first that is unfinished or covers the expiry of this period,
  else the last one of this period. \<open>Inl\<close> is a row that does not decode.\<close>

fun pick_renewal :: "renew_services \<Rightarrow> string \<Rightarrow> string \<Rightarrow> string \<Rightarrow> renewal_state option \<Rightarrow> gomap list \<Rightarrow> (renewal_error, renewal_state option) res" where
  "pick_renewal sv workspaceID paidThrough expectedID found [] = Ok found"
| "pick_renewal sv workspaceID paidThrough expectedID found (row # rows) =
     (if sfield row ''action'' \<noteq> ''workspace.renewal'' \<or> sfield row ''workspaceId'' \<noteq> workspaceID
      then pick_renewal sv workspaceID paidThrough expectedID found rows
      else
        (case decode_renewal sv row of
           None \<Rightarrow> Err (ErrTexts ''invalid_workspace_renewal_operation'')
         | Some candidate \<Rightarrow>
             if \<not> terminalWorkspaceRenewal candidate \<or> covers_current_expiry candidate paidThrough then Ok (Some candidate)
             else if ro_ID candidate = expectedID then pick_renewal sv workspaceID paidThrough expectedID (Some candidate) rows
             else pick_renewal sv workspaceID paidThrough expectedID found rows))"

definition note_expiry :: "gomap \<Rightarrow> renewal_state \<Rightarrow> renewal_state" where
  "note_expiry workspace op =
     (let op = op\<lparr>ro_PriorStatus := ro_Status op, ro_PriorErrorCode := ro_ErrorCode op, ro_ExpiryStatus := ''expired_unpaid'',
                  ro_ExpiryPhase := ''suspend'', ro_ExpiryPeriodStart := sfield workspace ''periodStart'',
                  ro_ExpiryPaidThrough := sfield workspace ''paidThrough''\<rparr>
      in if workspaceRenewalFinancialRecoveryRequired op \<and> ro_PaidThrough op = ro_ExpiryPaidThrough op then op\<lparr>ro_ExpiryStatus := ''past_due''\<rparr>
         else if \<not> workspaceRenewalFinancialRecoveryRequired op then op\<lparr>ro_Status := ''expired_unpaid''\<rparr> else op)"

text \<open>What the state of the tables calls for: nothing (\<open>Inr None\<close>), an error, or work on an operation.\<close>

definition renewal_due ::
    "renew_services \<Rightarrow> string \<Rightarrow> gomap \<Rightarrow> instant \<times> int \<Rightarrow> gomap list \<Rightarrow> instant \<Rightarrow> (renewal_error, renewal_state option) res" where
  "renewal_due sv workspaceID workspace paid rows now =
     (let expired = (fst paid \<le> now)
      in case newWorkspaceRenewalOperation sv workspace now of
           None \<Rightarrow> Err ErrInvalidBillingState
         | Some expected \<Rightarrow>
             (case pick_renewal sv workspaceID (sfield workspace ''paidThrough'') (ro_ID expected) None rows of
                Inl e \<Rightarrow> Err e
              | Inr None \<Rightarrow>
                  if \<not> expired \<and> (mget workspace ''autoRenew'' \<noteq> GBool True \<or> now < fst paid - monthlyRenewalLead) then Ok None
                  else Ok (Some (if expired then note_expiry workspace expected else expected))
              | Inr (Some op) \<Rightarrow>
                  if terminalWorkspaceRenewal op \<and> (\<not> expired \<or> ro_ExpiryStatus op = ''expired_unpaid'' \<and> ro_ExpiryPhase op = ''complete'') then Ok None
                  else if ro_RequestHash op \<noteq> ro_RequestHash expected \<and> \<not> ro_EntitlementCommitted op then Err ErrRenewalIdempotencyConflict
                  else Ok (Some (if expired \<and> ro_ExpiryStatus op = [] then note_expiry workspace op else op))))"

definition renewal_leased :: "renewal_state \<Rightarrow> instant \<Rightarrow> (renewal_error, bool) res" where
  "renewal_leased op now =
     (if ro_LeaseExpiresAt op = [] then Ok False
      else (case parse_rfc3339 (ro_LeaseExpiresAt op) of
              None \<Rightarrow> Err (ErrTexts ''invalid_workspace_renewal_lease'') | Some t \<Rightarrow> Ok (fst t > now)))"

definition lease_renewal :: "renew_services \<Rightarrow> renewal_state \<Rightarrow> instant \<Rightarrow> instant \<Rightarrow> renewal_state" where
  "lease_renewal sv op now clock =
     op\<lparr>ro_LeaseToken := stableID (rv_sha sv) [ro_ID op, format_rfc3339nano now, format_rfc3339nano clock],
        ro_LeaseExpiresAt := format_rfc3339nano (now + workspaceRenewalLeaseDuration)\<rparr>"

definition renewal_claim_of :: "renew_services \<Rightarrow> string \<Rightarrow> gomap \<Rightarrow> gomap list \<Rightarrow> renewal_state \<Rightarrow> renewal_claim" where
  "renewal_claim_of sv workspaceID workspace rows op =
     \<lparr>rc_WorkspaceID = workspaceID, rc_AccountID = sfield workspace ''accountId'',
      rc_ExpectedPaidThrough = sfield workspace ''paidThrough'', rc_ExpectedAutoRenew = (mget workspace ''autoRenew'' = GBool True),
      rc_ExpectedOperationsVersion = runtimeOperationsVersion sv rows workspaceID,
      rc_ExpectedOperationResult = ro_PersistedResult op, rc_DesiredOperation = workspaceRenewalOperationRow sv op\<rparr>"

section \<open>Work on a claimed operation\<close>

text \<open>A failed reading keeps the operation in hand.\<close>

definition reload_renewal :: "renew_services \<Rightarrow> renewal_state \<Rightarrow> renewal_state ract" where
  "reload_renewal sv op =
     do { r \<leftarrow> loadWorkspaceRenewalOperation sv (ro_ID op); ret (case r of Inl _ \<Rightarrow> op | Inr current \<Rightarrow> current) }"

definition progress_and_reload :: "renew_services \<Rightarrow> bool \<Rightarrow> renewal_state \<Rightarrow> renewal_end ract" where
  "progress_and_reload sv due op =
     (if \<not> due then ret (op, [])
      else do { (op', errs) \<leftarrow> progressWorkspaceRenewalExpiry sv op; current \<leftarrow> reload_renewal sv op'; ret (current, errs) })"

definition work_renewal :: "renew_services \<Rightarrow> renewal_state \<Rightarrow> bool \<Rightarrow> renewal_error list ract" where
  "work_renewal sv op expired =
     do { let pending = (expired \<and> ro_ExpiryStatus op = ''past_due'');
          (op1, expiryErrs) \<leftarrow> progress_and_reload sv expired op;
          (op2, renewalErrs) \<leftarrow>
            (if ro_Status op1 \<noteq> ''expired_unpaid''
             then do { errs \<leftarrow> runWorkspaceRenewal sv op1; current \<leftarrow> reload_renewal sv op1; ret (current, errs) }
             else ret (op1, []));
          if \<not> expired then ret (renewalErrs @ expiryErrs)
          else
            do { (op3, moreErrs) \<leftarrow> progress_and_reload sv (pending \<and> ro_ExpiryStatus op2 \<noteq> []) op2;
                 (_, receiptErrs) \<leftarrow> recordWorkspaceRenewalExpiryReceipt sv op3;
                 ret (renewalErrs @ expiryErrs @ moreErrs @ receiptErrs) } }"

text \<open>One attempt: \<open>None\<close> when another claim came first.\<close>

definition claim_and_work ::
    "renew_services \<Rightarrow> string \<Rightarrow> gomap \<Rightarrow> gomap list \<Rightarrow> renewal_state \<Rightarrow> bool \<Rightarrow> instant \<Rightarrow> renewal_error list option ract" where
  "claim_and_work sv workspaceID workspace rows op expired now =
     do { clock \<leftarrow> rpeek ''Now'' (rv_now sv);
          let op' = lease_renewal sv op now clock;
          err \<leftarrow> ask (\<lambda>log. rv_ClaimWorkspaceRenewal sv log (renewal_claim_of sv workspaceID workspace rows op')) (\<lambda>err. RClaim op' (err = None));
          case err of
            Some e \<Rightarrow> ret (if e = ErrRenewalCASConflict then None else Some [e])
          | None \<Rightarrow> do { errs \<leftarrow> work_renewal sv (op'\<lparr>ro_PersistedResult := rv_marshal sv op'\<rparr>) expired; ret (Some errs) } }"

definition renewal_attempt :: "renew_services \<Rightarrow> string \<Rightarrow> instant \<Rightarrow> renewal_error list option ract" where
  "renewal_attempt sv workspaceID now =
     do { found \<leftarrow> rpeek ''Workspace'' (\<lambda>log. rv_Workspace sv log workspaceID);
          case found of
            None \<Rightarrow> ret (Some [])
          | Some workspace \<Rightarrow>
              (case parse_rfc3339 (sfield workspace ''paidThrough'') of
                 None \<Rightarrow> ret (Some [ErrInvalidBillingState])
               | Some paid \<Rightarrow>
                   do { listed \<leftarrow> rpeek ''ListRuntimeOperations'' (rv_ListRuntimeOperations sv);
                        case listed of
                          None \<Rightarrow> ret (Some [ErrTexts ''state_read_failed''])
                        | Some rows \<Rightarrow>
                            (case renewal_due sv workspaceID workspace paid rows now of
                               Inl e \<Rightarrow> ret (Some [e])
                             | Inr None \<Rightarrow> ret (Some [])
                             | Inr (Some op) \<Rightarrow>
                                 (case renewal_leased op now of
                                    Inl e \<Rightarrow> ret (Some [e])
                                  | Inr True \<Rightarrow> ret (Some [])
                                  | Inr False \<Rightarrow> claim_and_work sv workspaceID workspace rows op (fst paid \<le> now) now)) }) }"

fun renewal_attempts :: "nat \<Rightarrow> renew_services \<Rightarrow> string \<Rightarrow> instant \<Rightarrow> renewal_error list ract" where
  "renewal_attempts 0 sv workspaceID now = ret [ErrRenewalCASConflict]"
| "renewal_attempts (Suc n) sv workspaceID now =
     do { r \<leftarrow> renewal_attempt sv workspaceID now;
          case r of Some errs \<Rightarrow> ret errs | None \<Rightarrow> renewal_attempts n sv workspaceID now }"

definition processWorkspaceRenewal :: "renew_services \<Rightarrow> string \<Rightarrow> instant \<Rightarrow> renewal_error list ract" where
  "processWorkspaceRenewal sv workspaceID now = renewal_attempts 3 sv workspaceID now"

section \<open>The worker\<close>

definition monthlyBusinessOutcome :: "renewal_error list \<Rightarrow> bool" where
  "monthlyBusinessOutcome errs \<longleftrightarrow>
     ErrService ErrMonthlyInsufficientBalance \<in> set errs \<or> ErrService (ErrAccount ErrMonthlyAccountUnmapped) \<in> set errs"

fun bill_workspaces :: "renew_services \<Rightarrow> gomap list \<Rightarrow> instant \<Rightarrow> renewal_error list ract" where
  "bill_workspaces sv [] now = ret []"
| "bill_workspaces sv (workspace # rest) now =
     (case normalizeWorkspaceBillingStateForWorkspace workspace workspace of
        None \<Rightarrow> do { errs \<leftarrow> bill_workspaces sv rest now; ret (ErrInvalidBillingState # errs) }
      | Some None \<Rightarrow> bill_workspaces sv rest now
      | Some (Some _) \<Rightarrow>
          do { own \<leftarrow> processWorkspaceRenewal sv (sfield workspace ''id'') now;
               errs \<leftarrow> bill_workspaces sv rest now;
               ret ((if monthlyBusinessOutcome own then [] else own) @ errs) })"

definition runMonthlyBillingOnce :: "renew_services \<Rightarrow> instant \<Rightarrow> renewal_error list ract" where
  "runMonthlyBillingOnce sv now =
     do { listed \<leftarrow> rpeek ''ListWorkspaces'' (rv_ListWorkspaces sv);
          case listed of None \<Rightarrow> ret [ErrTexts ''state_read_failed''] | Some workspaces \<Rightarrow> bill_workspaces sv workspaces now }"

section \<open>The resolution of a review\<close>

record renewal_resolution = resolution_input +
  bi_Decision :: string
  bi_EvidenceRef :: string

definition billingReviewActivateCharged :: string where "billingReviewActivateCharged = ''activate_charged_resource''"

definition resolution_fingerprint :: "(string \<Rightarrow> string) \<Rightarrow> renewal_resolution \<Rightarrow> string" where
  "resolution_fingerprint sha i =
     stableID sha [bi_ResourceType i, bi_ResourceID i, bi_AccountID i, bi_BillingOperationID i, bi_Decision i, bi_EvidenceRef i, bi_Reviewer i]"

definition note_resolution :: "renew_services \<Rightarrow> renewal_resolution \<Rightarrow> instant \<Rightarrow> renewal_state \<Rightarrow> renewal_state" where
  "note_resolution sv i now op =
     op\<lparr>ro_ReviewResolutionKey := bi_IdempotencyKey i, ro_ReviewResolutionFingerprint := resolution_fingerprint (rv_sha sv) i,
        ro_ReviewResolutionDecision := bi_Decision i, ro_ReviewResolutionEvidenceRef := bi_EvidenceRef i,
        ro_ReviewResolutionReviewer := bi_Reviewer i, ro_ReviewResolutionPhase := ''verify_compute'',
        ro_ReviewResolutionResolvedAt := format_rfc3339nano now\<rparr>"

definition resolution_result :: "renewal_state \<Rightarrow> gomap" where
  "resolution_result op =
     [(''resourceType'', GStr ''workspace''), (''resourceId'', GStr (ro_WorkspaceID op)), (''accountId'', GStr (ro_AccountID op)),
      (''billingOperationId'', GStr (ro_ID op)), (''decision'', GStr (ro_ReviewResolutionDecision op)),
      (''evidenceRef'', GStr (ro_ReviewResolutionEvidenceRef op)), (''reviewer'', GStr (ro_ReviewResolutionReviewer op)),
      (''billingStatus'', GStr (ro_Status op)), (''status'', GStr (ro_Status op)), (''providerStatus'', GStr ''renewed''),
      (''receiptId'', GStr (ro_ReceiptID op)), (''resolvedAt'', GStr (ro_ReviewResolutionResolvedAt op))]"

type_synonym 'a reviewing = "(renewal_error list, 'a) res"

text \<open>A write of the resolution; the operation goes on with the text of the write.\<close>

definition review_write :: "renew_services \<Rightarrow> renewal_state \<Rightarrow> renewal_state reviewing ract" where
  "review_write sv op =
     do { (op', errs) \<leftarrow> persistWorkspaceRenewal sv op None; ret (if errs = [] then Inr op' else Inl errs) }"

text \<open>One resource is read and must be as a renewed one is; the next phase is written.\<close>

definition review_resource :: "renew_services \<Rightarrow> string \<Rightarrow> (renewal_state \<Rightarrow> renewal_state) \<Rightarrow> renewal_state \<Rightarrow> renewal_state reviewing ract" where
  "review_resource sv resourceType next' op =
     do { (op', row, absent, valid) \<leftarrow> sync_renewal sv resourceType op;
          if absent \<or> \<not> valid then
            do { r \<leftarrow> review_write sv op'; ret (case r of Inl errs \<Rightarrow> Inl errs | Inr _ \<Rightarrow> Inl [ErrRenewalReviewProviderFact]) }
          else
            do { saved \<leftarrow> save_renewed sv resourceType row;
                 case saved of Some e \<Rightarrow> ret (Inl [ErrService e]) | None \<Rightarrow> review_write sv (next' op') } }"

definition compute_reviewed :: "renewal_state \<Rightarrow> renewal_state" where
  "compute_reviewed op = op\<lparr>ro_ReviewResolutionPhase := ''verify_storage''\<rparr>"

definition storage_reviewed :: "renewal_state \<Rightarrow> renewal_state" where
  "storage_reviewed op =
     op\<lparr>ro_Status := ''verifying'', ro_Phase := ''entitlement'', ro_ErrorCode := [], ro_ReviewResolutionPhase := ''entitlement''\<rparr>"

definition review_verified :: "renew_services \<Rightarrow> renewal_state \<Rightarrow> renewal_state reviewing ract" where
  "review_verified sv op =
     do { first \<leftarrow> (if ro_Status op = ''manual_review'' \<and> ro_ReviewResolutionPhase op = ''verify_compute''
                   then review_resource sv ''compute'' compute_reviewed op else ret (Inr op));
          case first of
            Inl errs \<Rightarrow> ret (Inl errs)
          | Inr op' \<Rightarrow>
              if ro_Status op' = ''manual_review'' \<and> ro_ReviewResolutionPhase op' = ''verify_storage''
              then review_resource sv ''storage'' storage_reviewed op' else ret (Inr op') }"

definition review_run :: "renew_services \<Rightarrow> renewal_state \<Rightarrow> renewal_state reviewing ract" where
  "review_run sv op =
     (if ro_Status op \<noteq> ''verifying'' then ret (Inr op)
      else
        do { errs \<leftarrow> runWorkspaceRenewal sv op;
             loaded \<leftarrow> loadWorkspaceRenewalOperation sv (ro_ID op);
             if errs = [] then ret (case loaded of Inl e \<Rightarrow> Inl [e] | Inr current \<Rightarrow> Inr current)
             else
               (case loaded of
                  Inl _ \<Rightarrow> ret (Inl errs)
                | Inr current \<Rightarrow>
                    if ro_Phase current \<noteq> ''receipt'' then ret (Inl errs)
                    else
                      do { r \<leftarrow> review_write sv (current\<lparr>ro_ReviewResolutionPhase := ''receipt''\<rparr>);
                           ret (case r of Inl es \<Rightarrow> Inl es | Inr _ \<Rightarrow> Inl [ErrRenewalReviewReceipt]) }) })"

definition complete_review :: "renew_services \<Rightarrow> renewal_state \<Rightarrow> gomap reviewing ract" where
  "complete_review sv op =
     (if ro_Status op \<noteq> ''active'' \<or> ro_ReceiptID op = [] then ret (Inl [ErrRenewalReviewNotPending])
      else
        do { r \<leftarrow> review_write sv (op\<lparr>ro_ReviewResolutionPhase := ''completed'', ro_ReviewResolutionResult := resolution_result op\<rparr>);
             ret (case r of Inl errs \<Rightarrow> Inl errs | Inr op' \<Rightarrow> Inr (ro_ReviewResolutionResult op')) })"

definition resume_review :: "renew_services \<Rightarrow> renewal_state \<Rightarrow> gomap reviewing ract" where
  "resume_review sv op =
     do { verified \<leftarrow> review_verified sv op;
          case verified of
            Inl errs \<Rightarrow> ret (Inl errs)
          | Inr op1 \<Rightarrow>
              do { finished \<leftarrow> review_run sv op1;
                   case finished of Inl errs \<Rightarrow> ret (Inl errs) | Inr op2 \<Rightarrow> complete_review sv op2 } }"

definition renewal_charge_fact :: "renewal_state \<Rightarrow> int \<Rightarrow> bool" where
  "renewal_charge_fact op userID \<longleftrightarrow>
     ro_PostChargeBalanceKnown op \<and> 0 \<le> ro_PostChargeBalanceUSDMicros op \<and>
     monthlyChargeConfirmationMatches (ro_ChargeConfirmation op) (ro_RedeemCode op) userID (ro_TotalUSDMicros op)"

definition decide_review :: "renew_services \<Rightarrow> renewal_resolution \<Rightarrow> renewal_state \<Rightarrow> gomap reviewing ract" where
  "decide_review sv i op =
     do { user \<leftarrow> renewal_user sv (bi_AccountID i);
          case user of
            Inl e \<Rightarrow> ret (Inl [ErrService (ErrAccount e)])
          | Inr userID \<Rightarrow>
              if \<not> renewal_charge_fact op userID then ret (Inl [ErrRenewalReviewChargeFact])
              else if ro_ReviewResolutionKey op \<noteq> [] then resume_review sv op
              else
                do { now \<leftarrow> rpeek ''Now'' (rv_now sv);
                     noted \<leftarrow> review_write sv (note_resolution sv i now op);
                     case noted of Inl errs \<Rightarrow> ret (Inl errs) | Inr op' \<Rightarrow> resume_review sv op' } }"

definition resolveWorkspaceRenewalReview :: "renew_services \<Rightarrow> renewal_resolution \<Rightarrow> gomap reviewing ract" where
  "resolveWorkspaceRenewalReview sv i =
     (if bi_ResourceType i \<noteq> ''workspace'' \<or> bi_Decision i \<noteq> billingReviewActivateCharged \<or> bi_ResourceID i = [] \<or> bi_AccountID i = [] \<or>
         bi_BillingOperationID i = [] \<or> bi_IdempotencyKey i = [] \<or> bi_Reviewer i = [] then ret (Inl [ErrInvalidRenewalReview])
      else
        do { loaded \<leftarrow> loadWorkspaceRenewalOperation sv (bi_BillingOperationID i);
             case loaded of
               Inl e \<Rightarrow> ret (Inl [e])
             | Inr op \<Rightarrow>
                 (let resolved = (ro_ReviewResolutionKey op \<noteq> [])
                  in if resolved \<and> (ro_ReviewResolutionKey op \<noteq> bi_IdempotencyKey i \<or>
                                    ro_ReviewResolutionFingerprint op \<noteq> resolution_fingerprint (rv_sha sv) i)
                     then ret (Inl [ErrRenewalIdempotencyConflict])
                     else if resolved \<and> ro_ReviewResolutionPhase op = ''completed'' \<and> ro_ReviewResolutionResult op \<noteq> []
                     then ret (Inr (ro_ReviewResolutionResult op))
                     else if ro_WorkspaceID op \<noteq> bi_ResourceID i \<or> ro_AccountID op \<noteq> bi_AccountID i \<or> ro_ID op \<noteq> bi_BillingOperationID i
                     then ret (Inl [ErrRenewalReviewIdentity])
                     else if (\<not> resolved \<and> ro_Status op \<noteq> ''manual_review'') \<or>
                             (ro_Status op \<noteq> ''manual_review'' \<and> ro_Status op \<noteq> ''verifying'' \<and> ro_Status op \<noteq> ''active'')
                     then ret (Inl [ErrRenewalReviewNotPending])
                     else decide_review sv i op) })"

end
