(* ===== verification/CP_Renewal_Facts.thy ===== *)
theory CP_Renewal_Facts
  imports CP_Renewal_Process CP_Monthly_Facts
begin

text \<open>
  What holds of every operation of a renewal that is ever written: an invariant of the record, kept by
  each step, and what each step may write and call.
\<close>

section \<open>The invariant\<close>

text \<open>A confirmation for the code and the amount; and the balance after it, exact unless a reviewer
  stands for it. The difference of two \<^verbatim>\<open>int64\<close> wraps around.\<close>

definition charge_confirmed :: "gomap \<Rightarrow> string \<Rightarrow> int \<Rightarrow> bool" where
  "charge_confirmed confirmation code amount \<longleftrightarrow> (\<exists>u. monthlyChargeConfirmationMatches confirmation code u amount)"

definition balance_fell :: "int \<Rightarrow> int \<Rightarrow> int \<Rightarrow> bool" where
  "balance_fell before after amount \<longleftrightarrow> amount < before \<and> after = wrap64 (before - amount)"

definition charge_settled :: "bool \<Rightarrow> int \<Rightarrow> bool \<Rightarrow> bool \<Rightarrow> bool" where
  "charge_settled confirmed after exact reviewed \<longleftrightarrow> confirmed \<and> 0 \<le> after \<and> (exact \<or> reviewed)"

definition renewal_charged :: "renewal_state \<Rightarrow> bool" where
  "renewal_charged op \<longleftrightarrow> charge_confirmed (ro_ChargeConfirmation op) (ro_RedeemCode op) (ro_TotalUSDMicros op)"

definition balance_exact :: "renewal_state \<Rightarrow> bool" where
  "balance_exact op \<longleftrightarrow> balance_fell (ro_PreChargeBalanceUSDMicros op) (ro_PostChargeBalanceUSDMicros op) (ro_TotalUSDMicros op)"

definition renewal_settled :: "renewal_state \<Rightarrow> bool" where
  "renewal_settled op \<longleftrightarrow>
     ro_PostChargeBalanceKnown op \<and>
     charge_settled (renewal_charged op) (ro_PostChargeBalanceUSDMicros op) (balance_exact op) (ro_ReviewResolutionKey op \<noteq> [])"

definition refund_recorded :: "gomap \<Rightarrow> string \<Rightarrow> int \<Rightarrow> bool" where
  "refund_recorded confirmation code amount \<longleftrightarrow>
     sfield confirmation ''code'' = code \<and> mget confirmation ''refundUsdMicros'' = GInt amount \<and> sfield confirmation ''status'' = ''used''"

definition refund_confirmed :: "renewal_state \<Rightarrow> bool" where
  "refund_confirmed op \<longleftrightarrow> refund_recorded (ro_RefundConfirmation op) (ro_RefundCode op) (ro_TotalUSDMicros op)"

definition early_status :: "string \<Rightarrow> bool" where
  "early_status s \<longleftrightarrow> s \<in> {''claimed'', ''insufficient'', ''debit_pending'', ''debited'', ''provider_renewing'', ''expired_unpaid''}"

definition paid_status :: "string \<Rightarrow> bool" where
  "paid_status s \<longleftrightarrow> s \<in> {''debited'', ''provider_renewing'', ''verifying'', ''active'', ''refund_pending'', ''refunded''}"

definition refunding_status :: "string \<Rightarrow> bool" where
  "refunding_status s \<longleftrightarrow> s \<in> {''refund_pending'', ''refunded''}"

lemma statuses [simp]:
  "early_status ''claimed''" "early_status ''insufficient''" "early_status ''debit_pending''" "early_status ''debited''"
  "early_status ''provider_renewing''" "early_status ''expired_unpaid''" "\<not> early_status ''verifying''" "\<not> early_status ''active''"
  "\<not> early_status ''refund_pending''" "\<not> early_status ''refunded''" "\<not> early_status ''manual_review''"
  "\<not> paid_status ''claimed''" "\<not> paid_status ''insufficient''" "\<not> paid_status ''debit_pending''" "paid_status ''debited''"
  "paid_status ''provider_renewing''" "\<not> paid_status ''expired_unpaid''" "paid_status ''verifying''" "paid_status ''active''"
  "paid_status ''refund_pending''" "paid_status ''refunded''" "\<not> paid_status ''manual_review''"
  "refunding_status ''refund_pending''" "refunding_status ''refunded''" "\<not> refunding_status ''manual_review''" "\<not> refunding_status ''claimed''"
  "\<not> refunding_status ''insufficient''" "\<not> refunding_status ''debit_pending''" "\<not> refunding_status ''debited''" "\<not> refunding_status ''active''"
  "\<not> refunding_status ''provider_renewing''" "\<not> refunding_status ''expired_unpaid''" "\<not> refunding_status ''verifying''"
  by (simp_all add: early_status_def paid_status_def refunding_status_def)

definition renewal_codes :: "renew_services \<Rightarrow> string \<Rightarrow> string \<Rightarrow> string \<Rightarrow> bool" where
  "renewal_codes sv rid redeem refund \<longleftrightarrow>
     redeem = monthlyRedeemCode (rv_sha sv) (NODE_ENV (rv_env sv)) rid \<and> refund = monthlyRefundCode (rv_sha sv) (NODE_ENV (rv_env sv)) rid"

definition charge_sound :: "renewal_state \<Rightarrow> bool" where
  "charge_sound op \<longleftrightarrow>
     (ro_ErrorCode op = ''sub2api_charge_unconfirmed'' \<longrightarrow> ro_ChargeAttempted op) \<and>
     (ro_ChargeAttempted op \<longrightarrow> ro_TotalUSDMicros op < ro_PreChargeBalanceUSDMicros op) \<and>
     (ro_ChargeConfirmation op \<noteq> [] \<longrightarrow> ro_ChargeAttempted op \<and> renewal_charged op) \<and>
     (paid_status (ro_Status op) \<longrightarrow> renewal_settled op) \<and>
     (ro_Status op = ''expired_unpaid'' \<longrightarrow> \<not> ro_ChargeAttempted op)"

definition refund_sound :: "renewal_state \<Rightarrow> bool" where
  "refund_sound op \<longleftrightarrow>
     (ro_RefundAttempted op \<longrightarrow> renewal_settled op) \<and>
     (refunding_status (ro_Status op) \<longrightarrow> ro_RefundAttempted op) \<and>
     (ro_Status op = ''refunded'' \<longrightarrow> refund_confirmed op) \<and>
     (early_status (ro_Status op) \<longrightarrow> \<not> ro_RefundAttempted op) \<and>
     (ro_RefundAttempted op \<and> (ro_EntitlementCommitted op \<or> ro_Status op = ''verifying'') \<longrightarrow> ro_ReviewResolutionKey op \<noteq> [])"

definition entitlement_sound :: "renewal_state \<Rightarrow> bool" where
  "entitlement_sound op \<longleftrightarrow>
     (ro_EntitlementCommitted op \<longrightarrow> renewal_settled op) \<and>
     (ro_Status op = ''active'' \<longrightarrow> ro_EntitlementCommitted op \<and> ro_ReceiptID op \<noteq> []) \<and>
     (ro_Status op = ''verifying'' \<and> ro_Phase op = ''receipt'' \<longrightarrow> ro_EntitlementCommitted op) \<and>
     (early_status (ro_Status op) \<or> refunding_status (ro_Status op) \<longrightarrow> \<not> ro_EntitlementCommitted op) \<and>
     (ro_ExpiryPhase op = ''suspend'' \<longrightarrow> ro_ExpiryStatus op = ''past_due'' \<or> ro_ExpiryStatus op = ''expired_unpaid'')"

definition renewal_sound :: "renew_services \<Rightarrow> renewal_state \<Rightarrow> bool" where
  "renewal_sound sv op \<longleftrightarrow> renewal_codes sv (ro_ID op) (ro_RedeemCode op) (ro_RefundCode op) \<and> charge_sound op \<and> refund_sound op \<and> entitlement_sound op"

lemmas sound_defs =
  renewal_sound_def charge_sound_def refund_sound_def entitlement_sound_def
  renewal_settled_def renewal_charged_def balance_exact_def refund_confirmed_def

text \<open>The writes of a run keep it.\<close>

lemma sound_rewritten [simp]: "renewal_sound sv (op\<lparr>ro_PersistedResult := t\<rparr>) = renewal_sound sv op"
  by (simp add: sound_defs)

lemma sound_lease [simp]: "renewal_sound sv (releaseWorkspaceRenewalLease op) = renewal_sound sv op"
  by (simp add: sound_defs releaseWorkspaceRenewalLease_def)

lemma sound_leased [simp]: "renewal_sound sv (lease_renewal sv' op now clock) = renewal_sound sv op"
  by (simp add: sound_defs lease_renewal_def)

lemma sound_error: "renewal_sound sv op \<Longrightarrow> (code = ''sub2api_charge_unconfirmed'' \<longrightarrow> ro_ChargeAttempted op) \<Longrightarrow> renewal_sound sv (op\<lparr>ro_ErrorCode := code\<rparr>)"
  by (simp add: sound_defs)

lemma sound_review:
  "renewal_sound sv op \<Longrightarrow> (code = ''sub2api_charge_unconfirmed'' \<longrightarrow> ro_ChargeAttempted op) \<Longrightarrow>
   renewal_sound sv (op\<lparr>ro_Status := ''manual_review'', ro_ErrorCode := code\<rparr>)"
  by (simp add: sound_defs)

text \<open>Between states in which nothing is paid for.\<close>

lemma sound_unpaid:
  assumes "renewal_sound sv op" "early_status (ro_Status op)" "\<not> paid_status s" "early_status s" "s \<noteq> ''expired_unpaid''"
  shows "renewal_sound sv (op\<lparr>ro_Status := s, ro_Phase := ph\<rparr>)" and "renewal_sound sv (op\<lparr>ro_Status := s, ro_Phase := ph, ro_ErrorCode := []\<rparr>)"
    and "renewal_sound sv (op\<lparr>ro_StoragePreflightConfirmed := True, ro_Status := s, ro_Phase := ph\<rparr>)"
    and "renewal_sound sv (op\<lparr>ro_Status := s, ro_ErrorCode := ''monthly_balance_insufficient''\<rparr>)"
proof -
  have "s \<noteq> ''active''" "s \<noteq> ''verifying''" "s \<noteq> ''refunded''" "\<not> refunding_status s"
    using assms(3,4) by (auto simp: refunding_status_def)
  then show "renewal_sound sv (op\<lparr>ro_Status := s, ro_Phase := ph\<rparr>)" and "renewal_sound sv (op\<lparr>ro_Status := s, ro_Phase := ph, ro_ErrorCode := []\<rparr>)"
    and "renewal_sound sv (op\<lparr>ro_StoragePreflightConfirmed := True, ro_Status := s, ro_Phase := ph\<rparr>)"
    and "renewal_sound sv (op\<lparr>ro_Status := s, ro_ErrorCode := ''monthly_balance_insufficient''\<rparr>)"
    using assms by (simp_all add: sound_defs)
qed

lemma sound_preflight: "renewal_sound sv op \<Longrightarrow> ro_Status op = ''claimed'' \<Longrightarrow> renewal_sound sv (op\<lparr>ro_ComputePreflightConfirmed := True, ro_Phase := ph\<rparr>)"
  by (simp add: sound_defs)

lemma sound_attempt:
  "renewal_sound sv op \<Longrightarrow> ro_Status op = ''debit_pending'' \<Longrightarrow> ro_TotalUSDMicros op < n \<Longrightarrow> ro_ChargeConfirmation op = [] \<Longrightarrow>
   renewal_sound sv (op\<lparr>ro_PreChargeBalanceUSDMicros := n, ro_ChargeAttempted := True\<rparr>)"
  by (simp add: sound_defs)

lemma sound_confirmed:
  "renewal_sound sv op \<Longrightarrow> ro_Status op = ''debit_pending'' \<Longrightarrow> ro_ChargeAttempted op \<Longrightarrow>
   monthlyChargeConfirmationMatches c (ro_RedeemCode op) u (ro_TotalUSDMicros op) \<Longrightarrow>
   renewal_sound sv (op\<lparr>ro_ChargeConfirmation := c, ro_ErrorCode := []\<rparr>)"
  by (auto simp: sound_defs charge_confirmed_def)

lemma sound_balance:
  "renewal_sound sv op \<Longrightarrow> ro_Status op = ''debit_pending'' \<Longrightarrow>
   renewal_sound sv (op\<lparr>ro_PostChargeBalanceKnown := True, ro_PostChargeBalanceUSDMicros := n\<rparr>)"
  by (simp add: sound_defs)

lemma sound_debited:
  assumes "renewal_sound sv op" "ro_Status op = ''debit_pending''" "ro_ChargeConfirmation op \<noteq> []" "ro_PostChargeBalanceKnown op"
    "0 \<le> ro_PostChargeBalanceUSDMicros op" "balance_exact op"
  shows "renewal_sound sv (op\<lparr>ro_Status := ''debited'', ro_Phase := ph, ro_ErrorCode := []\<rparr>)"
  using assms by (simp add: sound_defs charge_settled_def)

lemma sound_renewing:
  "renewal_sound sv op \<Longrightarrow> ro_Status op = ''debited'' \<Longrightarrow> renewal_sound sv (op\<lparr>ro_Status := ''provider_renewing'', ro_Phase := ph\<rparr>)"
  by (simp add: sound_defs)

lemma sound_provider:
  assumes "renewal_sound sv op" "ro_Status op = ''provider_renewing''"
  shows "renewal_sound sv (op\<lparr>ro_ComputeRenewal := m, ro_Phase := ph\<rparr>)" "renewal_sound sv (op\<lparr>ro_StorageRenewal := m, ro_Phase := ph\<rparr>)"
    "renewal_sound sv (op\<lparr>ro_Phase := ph, ro_ErrorCode := []\<rparr>)"
    "ph \<noteq> ''receipt'' \<Longrightarrow> renewal_sound sv (op\<lparr>ro_Status := ''verifying'', ro_Phase := ph, ro_ErrorCode := []\<rparr>)"
  using assms by (simp_all add: sound_defs)

lemma sound_readback: "renewal_sound sv op \<Longrightarrow> renewal_sound sv (note_readback kind m op)"
  by (simp add: sound_defs note_readback_def)

lemma sound_refunding:
  "renewal_sound sv op \<Longrightarrow> ro_Status op = ''provider_renewing'' \<Longrightarrow>
   renewal_sound sv (op\<lparr>ro_Status := ''refund_pending'', ro_Phase := ''refund'', ro_RefundAttempted := True, ro_RefundReason := r, ro_ErrorCode := []\<rparr>)"
  by (simp add: sound_defs)

lemma sound_refunded:
  "renewal_sound sv op \<Longrightarrow> ro_Status op = ''refund_pending'' \<Longrightarrow> refund_recorded c (ro_RefundCode op) (ro_TotalUSDMicros op) \<Longrightarrow>
   renewal_sound sv (op\<lparr>ro_RefundConfirmation := c, ro_Status := ''refunded'', ro_Phase := ph, ro_ErrorCode := []\<rparr>)"
  by (simp add: sound_defs)

lemma sound_refund_receipt:
  "renewal_sound sv op \<Longrightarrow> ro_Status op = ''refunded'' \<Longrightarrow>
   renewal_sound sv (op\<lparr>ro_RefundReceiptID := r, ro_Phase := ''complete'', ro_ErrorCode := []\<rparr>)"
  by (simp add: sound_defs)

lemma sound_committed:
  assumes "renewal_sound sv op" "ro_Status op = ''verifying''"
  shows "renewal_sound sv (fst (entitlement_write op w t))"
  using assms by (auto simp: sound_defs entitlement_write_def clear_expiry_def Let_def)

lemma sound_active:
  "renewal_sound sv op \<Longrightarrow> ro_Status op = ''verifying'' \<Longrightarrow> ro_Phase op = ''receipt'' \<Longrightarrow> r \<noteq> [] \<Longrightarrow>
   renewal_sound sv (op\<lparr>ro_ReceiptID := r, ro_Status := ''active'', ro_Phase := ''complete'', ro_ErrorCode := []\<rparr>)"
  by (auto simp: sound_defs)

lemma sound_expiry:
  assumes "renewal_sound sv op"
  shows "ph \<noteq> ''suspend'' \<Longrightarrow> renewal_sound sv (op\<lparr>ro_ExpiryPhase := ph, ro_ExpiryErrorCode := e\<rparr>)"
    "ph \<noteq> ''suspend'' \<Longrightarrow> renewal_sound sv (op\<lparr>ro_ExpiryStatus := s, ro_ExpiryPhase := ph, ro_ExpiryErrorCode := e\<rparr>)"
    "renewal_sound sv (op\<lparr>ro_ExpiryErrorCode := e\<rparr>)"
    "rid \<noteq> [] \<Longrightarrow> renewal_sound sv (op\<lparr>ro_ExpiryReceiptID := rid, ro_ExpiryPhase := ''complete'', ro_ExpiryErrorCode := [],
       ro_ReceiptID := (if ro_ReceiptID op = [] then rid else ro_ReceiptID op)\<rparr>)"
  using assms by (simp_all add: sound_defs)

lemma sound_past_due: "renewal_sound sv op \<Longrightarrow> renewal_sound sv (op\<lparr>ro_ExpiryStatus := ''past_due''\<rparr>)"
  by (simp add: sound_defs)

lemma sound_expired:
  "renewal_sound sv op \<Longrightarrow> \<not> workspaceRenewalFinancialRecoveryRequired op \<Longrightarrow> renewal_sound sv (op\<lparr>ro_Status := ''expired_unpaid''\<rparr>)"
  by (simp add: sound_defs workspaceRenewalFinancialRecoveryRequired_def)

lemma sound_note_expiry:
  assumes "renewal_sound sv op"
  shows "renewal_sound sv (note_expiry w op)"
proof -
  let ?op = "op\<lparr>ro_PriorStatus := ro_Status op, ro_PriorErrorCode := ro_ErrorCode op, ro_ExpiryStatus := ''expired_unpaid'',
    ro_ExpiryPhase := ''suspend'', ro_ExpiryPeriodStart := sfield w ''periodStart'', ro_ExpiryPaidThrough := sfield w ''paidThrough''\<rparr>"
  have s: "renewal_sound sv ?op" using assms by (simp add: sound_defs)
  show ?thesis
    unfolding note_expiry_def Let_def
    by (cases "workspaceRenewalFinancialRecoveryRequired ?op"; simp only: if_True if_False simp_thms split: if_split)
       (use s sound_past_due [OF s] sound_expired [OF s] in blast)+
qed

lemma sound_fresh: "renewal_sound sv (fresh_renewal sv w now paid)"
  by (simp add: sound_defs fresh_renewal_def renewal_codes_def Let_def)

lemma sound_hashed: "renewal_sound sv (op\<lparr>ro_RequestHash := h\<rparr>) = renewal_sound sv op"
  by (simp add: sound_defs)

lemma sound_new: "newWorkspaceRenewalOperation sv w now = Some op \<Longrightarrow> renewal_sound sv op"
  using sound_fresh [of sv w now] by (auto simp: newWorkspaceRenewalOperation_def sound_hashed Let_def split: option.splits if_splits)

lemma sound_resolution:
  assumes "renewal_sound sv op"
  shows "bi_IdempotencyKey i \<noteq> [] \<Longrightarrow> renewal_sound sv (note_resolution sv' i now op)"
    "renewal_sound sv (op\<lparr>ro_ReviewResolutionPhase := ph\<rparr>)"
    "renewal_sound sv (op\<lparr>ro_ReviewResolutionPhase := ph, ro_ReviewResolutionResult := m\<rparr>)"
  using assms by (simp_all add: sound_defs note_resolution_def charge_settled_def)

lemma sound_storage_reviewed:
  assumes "renewal_sound sv op" "renewal_charge_fact op u" "ro_ReviewResolutionKey op \<noteq> []"
  shows "renewal_sound sv (storage_reviewed op)"
  using assms by (auto simp: sound_defs storage_reviewed_def charge_settled_def renewal_charge_fact_def charge_confirmed_def)

end
