(* ===== verification/CP_Renewal_Books.thy ===== *)
theory CP_Renewal_Books
  imports CP_Renewal_Facts
begin

text \<open>
  The calls of a renewal as a ledger of their own: what each may be, given the operations written
  before it. Money moves, and a receipt goes out, only for an operation that was written first.
\<close>

section \<open>Calls against what was written\<close>

definition written :: "rcalls \<Rightarrow> renewal_state set" where
  "written log = {q. RClaim q True \<in> set log \<or> (\<exists>patch. RPersist q patch True \<in> set log)}"

text \<open>A patch of the workspace: it grants the paid period, or it takes away.\<close>

definition grants :: "renewal_state \<Rightarrow> workspace_patch \<Rightarrow> bool" where
  "grants q p \<longleftrightarrow>
     renewal_settled q \<and> ro_EntitlementCommitted q \<and> xp_ExpectedPaidThrough p = ro_PaidThrough q \<and>
     mget (xp_Fields p) ''periodStart'' = GStr (ro_PaidThrough q) \<and> mget (xp_Fields p) ''paidThrough'' = GStr (ro_RenewedThrough q) \<and>
     mget (xp_Fields p) ''renewalStatus'' = GStr ''active'' \<and> mget (xp_Fields p) ''autoRenew'' = GNil"

definition takes :: "renewal_state \<Rightarrow> workspace_patch \<Rightarrow> bool" where
  "takes q p \<longleftrightarrow>
     mget (xp_Fields p) ''paidThrough'' = GNil \<and> mget (xp_Fields p) ''state'' \<noteq> GStr ''running'' \<and>
     mget (xp_Fields p) ''autoRenew'' \<noteq> GBool True \<and> mget (xp_Fields p) ''renewalStatus'' \<noteq> GStr ''active'' \<and>
     (mget (xp_Fields p) ''autoRenew'' = GBool False \<longrightarrow> ro_ExpiryStatus q = ''expired_unpaid'')"

definition patch_ok :: "renewal_state \<Rightarrow> workspace_patch option \<Rightarrow> bool" where
  "patch_ok q patch \<longleftrightarrow> (case patch of None \<Rightarrow> True | Some p \<Rightarrow> grants q p \<or> takes q p)"

definition receipt_of :: "renewal_state \<Rightarrow> receipt_input \<Rightarrow> bool" where
  "receipt_of q i \<longleftrightarrow>
     ri_requestId i = ro_ID q \<and> ri_accountId i = ro_AccountID q \<and> ri_workspaceId i = ro_WorkspaceID q \<and>
     mget (opt_map (ri_cost i)) ''totalUsdMicros'' = GInt (ro_TotalUSDMicros q) \<and>
     (ri_type i = ''billing.workspace_renewed.v1'' \<and> ro_EntitlementCommitted q \<or>
      ri_type i = ''billing.workspace_refunded.v1'' \<and> ro_RefundAttempted q \<or>
      ri_type i = ''billing.workspace_expired.v1'')"

definition entry_ok :: "renew_services \<Rightarrow> renewal_state set \<Rightarrow> renew_call \<Rightarrow> bool" where
  "entry_ok sv W c \<longleftrightarrow>
     (case c of
        RPersist q patch _ \<Rightarrow> renewal_sound sv q \<and> patch_ok q patch
      | RClaim q _ \<Rightarrow> renewal_sound sv q
      | RCharge i \<Rightarrow> (\<exists>q \<in> W. \<exists>u. i = renewal_charge_input q u \<and> ro_ChargeAttempted q)
      | RRefund i \<Rightarrow> (\<exists>q \<in> W. \<exists>u. i = renewal_refund_input q u \<and> ro_RefundAttempted q)
      | RReceipt i \<Rightarrow> (\<exists>q \<in> W. receipt_of q i)
      | _ \<Rightarrow> True)"

lemma entry_ok_simps [simp]:
  "entry_ok sv W (RRead s)" "entry_ok sv W (RRenew x y z)" "entry_ok sv W (RSave x r)"
  "entry_ok sv W (RPersist q patch b) = (renewal_sound sv q \<and> patch_ok q patch)" "entry_ok sv W (RClaim q b) = renewal_sound sv q"
  by (simp_all add: entry_ok_def)

fun accounted :: "renew_services \<Rightarrow> renewal_state set \<Rightarrow> rcalls \<Rightarrow> bool" where
  "accounted sv past [] \<longleftrightarrow> True"
| "accounted sv past (c # log) \<longleftrightarrow> accounted sv past log \<and> entry_ok sv (past \<union> written log) c"

section \<open>The operation in hand\<close>

text \<open>What calls say of an operation; of the one in hand, some written operation says the same.\<close>

definition money ::
    "renewal_state \<Rightarrow> (string \<times> string \<times> string \<times> int \<times> string \<times> string) \<times> bool \<times> bool \<times> bool" where
  "money op = ((ro_ID op, ro_RedeemCode op, ro_RefundCode op, ro_TotalUSDMicros op, ro_WorkspaceID op, ro_AccountID op),
     ro_ChargeAttempted op, ro_RefundAttempted op, ro_EntitlementCommitted op)"

definition backed :: "renewal_state set \<Rightarrow> renewal_state \<Rightarrow> bool" where
  "backed W op \<longleftrightarrow> (\<exists>q \<in> W. money q = money op)"

definition hand :: "renew_services \<Rightarrow> renewal_state set \<Rightarrow> renewal_state \<Rightarrow> rcalls \<Rightarrow> bool" where
  "hand sv past op log \<longleftrightarrow> accounted sv past log \<and> renewal_sound sv op \<and> backed (past \<union> written log) op"

text \<open>How a computation ends: with good books, and if it goes on, with an operation in hand.\<close>

definition end_ok :: "renew_services \<Rightarrow> renewal_state set \<Rightarrow> renewal_end \<Rightarrow> rcalls \<Rightarrow> bool" where
  "end_ok sv past e log \<longleftrightarrow> accounted sv past log \<and> (snd e = [] \<longrightarrow> hand sv past (fst e) log)"

definition step_ok :: "renew_services \<Rightarrow> renewal_state set \<Rightarrow> ('e, renewal_state) res \<Rightarrow> rcalls \<Rightarrow> bool" where
  "step_ok sv past r log \<longleftrightarrow> accounted sv past log \<and> (case r of Inl _ \<Rightarrow> True | Inr op \<Rightarrow> hand sv past op log)"

lemma written_Cons: "written (c # log) = (case c of RClaim q True \<Rightarrow> {q} | RPersist q patch True \<Rightarrow> {q} | _ \<Rightarrow> {}) \<union> written log"
  by (auto simp: written_def split: renew_call.splits bool.splits)

lemma backed_mono: "backed W op \<Longrightarrow> W \<subseteq> V \<Longrightarrow> backed V op"
  by (auto simp: backed_def)

lemma backed_money: "backed W op \<Longrightarrow> money op' = money op \<Longrightarrow> backed W op'"
  by (auto simp: backed_def)

lemma money_rewritten [simp]: "money (op\<lparr>ro_PersistedResult := t\<rparr>) = money op"
  by (simp add: money_def)

lemma hand_rewritten [simp]: "hand sv past (op\<lparr>ro_PersistedResult := t\<rparr>) log = hand sv past op log"
  by (simp add: hand_def backed_def)

lemma hand_accounted: "hand sv past op log \<Longrightarrow> accounted sv past log"
  by (simp add: hand_def)

lemma end_ok_simps [simp]:
  "end_ok sv past (op, []) log = hand sv past op log" "e \<noteq> [] \<Longrightarrow> end_ok sv past (op, e) log = accounted sv past log"
  by (auto simp: end_ok_def hand_def)

lemma step_ok_simps [simp]:
  "step_ok sv past (Inl e) log = accounted sv past log" "step_ok sv past (Inr op) log = hand sv past op log"
  by (auto simp: step_ok_def hand_def)

section \<open>Calls that only read and prepare\<close>

definition idle :: "renew_call \<Rightarrow> bool" where
  "idle c \<longleftrightarrow> (case c of RRead _ \<Rightarrow> True | RRenew _ _ _ \<Rightarrow> True | RSave _ _ \<Rightarrow> True | _ \<Rightarrow> False)"

lemma idle_simps [simp]: "idle (RRead s)" "idle (RRenew a b c)" "idle (RSave a r)"
  by (simp_all add: idle_def)

lemma hand_idle: "idle c \<Longrightarrow> hand sv past op log \<Longrightarrow> hand sv past op (c # log)"
  by (cases c) (simp_all add: hand_def written_Cons idle_def)

lemma accounted_idle: "idle c \<Longrightarrow> accounted sv past log \<Longrightarrow> accounted sv past (c # log)"
  by (cases c) (simp_all add: idle_def)

lemma runs_hand_first: "does idle m R \<Longrightarrow> (\<And>a. R a \<Longrightarrow> runs (hand sv past op) (f a) Q) \<Longrightarrow> runs (hand sv past op) (m \<bind> f) Q"
  by (rule runs_bind, rule does_runs, assumption, rule hand_idle, assumption, assumption, rule runs_fact) simp

lemma runs_books_first:
  "does idle m R \<Longrightarrow> (\<And>a. R a \<Longrightarrow> runs (accounted sv past) (f a) Q) \<Longrightarrow> runs (accounted sv past) (m \<bind> f) Q"
  by (rule runs_bind, rule does_runs, assumption, rule accounted_idle, assumption, assumption, rule runs_fact) simp

section \<open>Writing\<close>

lemma persist_books:
  assumes "renewal_sound sv q" "patch_ok q patch"
  shows "runs (accounted sv past) (persistWorkspaceRenewal sv q patch) (end_ok sv past)"
  unfolding persistWorkspaceRenewal_def
  by (rule runs_bind [where R = "\<lambda>err log. accounted sv past log \<and> (err = None \<longrightarrow> hand sv past q log)"], rule runs_ask)
     (use assms in \<open>auto intro!: runs_ret simp: hand_def backed_def written_Cons split: option.split\<close>)

lemma runs_checked: "runs P m (end_ok sv past) \<Longrightarrow> runs P (checked m) (step_ok sv past)"
  unfolding checked_def by (rule runs_bind, assumption, rule runs_prod, rule runs_ret) (auto simp: end_ok_def step_ok_def)

lemma runs_leave: "runs P m (end_ok sv past) \<Longrightarrow> runs P (leave m) (step_ok sv past)"
  unfolding leave_def by (rule runs_bind, assumption, rule runs_ret) (auto simp: end_ok_def)

lemma write_books: "renewal_sound sv q \<Longrightarrow> runs (accounted sv past) (persistWorkspaceRenewal sv q None) (end_ok sv past)"
  by (rule persist_books) (simp_all add: patch_ok_def)

lemma end_books: "renewal_sound sv op \<Longrightarrow> runs (accounted sv past) (end_renewal sv op causes) (end_ok sv past)"
  unfolding end_renewal_def
  by (rule runs_bind, rule write_books) (auto intro!: runs_prod runs_ret simp: end_ok_def)

lemma retry_books:
  "renewal_sound sv op \<Longrightarrow> (code = ''sub2api_charge_unconfirmed'' \<longrightarrow> ro_ChargeAttempted op) \<Longrightarrow>
   runs (accounted sv past) (retryWorkspaceRenewal sv op code cause) (end_ok sv past)"
  unfolding retryWorkspaceRenewal_def by (intro end_books sound_error)

lemma review_books:
  "renewal_sound sv op \<Longrightarrow> (code = ''sub2api_charge_unconfirmed'' \<longrightarrow> ro_ChargeAttempted op) \<Longrightarrow>
   runs (accounted sv past) (manualReviewWorkspaceRenewal sv op code) (end_ok sv past)"
  unfolding manualReviewWorkspaceRenewal_def by (intro end_books sound_review)

text \<open>With an operation in hand, the books are good and it is sound.\<close>

lemma runs_hand: "(renewal_sound sv op \<Longrightarrow> runs (accounted sv past) m Q) \<Longrightarrow> runs (hand sv past op) m Q"
  by (auto simp: runs_def hand_def)

text \<open>The ends of a step that has an operation in hand.\<close>

lemmas hand_ends = runs_hand [OF retry_books] runs_hand [OF review_books] runs_hand [OF end_books] runs_hand [OF write_books]

section \<open>Money and receipts\<close>

lemma money_inputs: "money q = money op \<Longrightarrow> renewal_charge_input op u = renewal_charge_input q u \<and> renewal_refund_input op u = renewal_refund_input q u"
  by (simp add: money_def renewal_charge_input_def renewal_refund_input_def)

lemma money_receipt: "money q = money op \<Longrightarrow> receipt_of op i \<Longrightarrow> receipt_of q i"
  by (auto simp: money_def receipt_of_def)

lemma money_flags:
  "money q = money op \<Longrightarrow> ro_ChargeAttempted q = ro_ChargeAttempted op \<and> ro_RefundAttempted q = ro_RefundAttempted op \<and>
     ro_EntitlementCommitted q = ro_EntitlementCommitted op"
  by (simp add: money_def)

lemma hand_entry:
  assumes "hand sv past op log" "written [c] = {}" and "\<And>W q. q \<in> W \<Longrightarrow> money q = money op \<Longrightarrow> entry_ok sv W c"
  shows "hand sv past op (c # log)"
proof -
  have "written (c # log) = written log" using assms(2) by (auto simp: written_def)
  moreover obtain q where "q \<in> past \<union> written log" "money q = money op" using assms(1) by (auto simp: hand_def backed_def)
  then have "entry_ok sv (past \<union> written log) c" by (rule assms(3))
  ultimately show ?thesis using assms(1) by (simp add: hand_def)
qed

lemma charge_entry:
  assumes "q \<in> W" "money q = money op" "ro_ChargeAttempted op"
  shows "entry_ok sv W (RCharge (renewal_charge_input op u))"
proof -
  have "renewal_charge_input op u = renewal_charge_input q u" "ro_ChargeAttempted q"
    using money_inputs [OF assms(2), of u] money_flags [OF assms(2)] assms(3) by simp_all
  then show ?thesis using assms(1) unfolding entry_ok_def renew_call.case by blast
qed

lemma refund_entry:
  assumes "q \<in> W" "money q = money op" "ro_RefundAttempted op"
  shows "entry_ok sv W (RRefund (renewal_refund_input op u))"
proof -
  have "renewal_refund_input op u = renewal_refund_input q u" "ro_RefundAttempted q"
    using money_inputs [OF assms(2), of u] money_flags [OF assms(2)] assms(3) by simp_all
  then show ?thesis using assms(1) unfolding entry_ok_def renew_call.case by blast
qed

lemma hand_charge: "hand sv past op log \<Longrightarrow> ro_ChargeAttempted op \<Longrightarrow> hand sv past op (RCharge (renewal_charge_input op u) # log)"
  by (erule hand_entry) (simp add: written_def, rule charge_entry)

lemma hand_refund: "hand sv past op log \<Longrightarrow> ro_RefundAttempted op \<Longrightarrow> hand sv past op (RRefund (renewal_refund_input op u) # log)"
  by (erule hand_entry) (simp add: written_def, rule refund_entry)

lemma hand_receipt: "hand sv past op log \<Longrightarrow> receipt_of op i \<Longrightarrow> hand sv past op (RReceipt i # log)"
  by (erule hand_entry) (auto simp: written_def entry_ok_def intro: money_receipt)

lemma charge_books: "ro_ChargeAttempted op \<Longrightarrow> runs (hand sv past op) (charge_renewal sv op u) (\<lambda>_. hand sv past op)"
  unfolding charge_renewal_def Let_def rtell_def by (rule runs_ask) (rule hand_charge)

lemma refund_books: "ro_RefundAttempted op \<Longrightarrow> runs (hand sv past op) (refund_renewal sv op u) (\<lambda>_. hand sv past op)"
  unfolding refund_renewal_def Let_def rtell_def by (rule runs_ask) (rule hand_refund)

lemma receipt_books: "receipt_of op i \<Longrightarrow> runs (hand sv past op) (send_receipt sv i) (\<lambda>_. hand sv past op)"
  unfolding send_receipt_def rtell_def by (rule runs_ask) (rule hand_receipt)

end
