(* ===== verification/CP_Renewal_Accounts.thy ===== *)
theory CP_Renewal_Accounts
  imports CP_Renewal_Books
begin

text \<open>
  Each part of a renewal keeps good books: from an operation in hand to the end of the part, and to
  the operation it goes on with.
\<close>

section \<open>Receipts and expiry\<close>

lemma runs_sound: "(renewal_sound sv op \<Longrightarrow> runs (hand sv past op) m Q) \<Longrightarrow> runs (hand sv past op) m Q"
  by (auto simp: runs_def hand_def)

lemma runs_hand_user: "(\<And>r. runs (hand sv past op) (f r) Q) \<Longrightarrow> runs (hand sv past op) (renewal_user sv' a \<bind> f) Q"
  by (rule runs_hand_first [where R = "\<lambda>_. True"], rule does_renewal_user) simp_all

lemma runs_hand_peek: "(\<And>r. runs (hand sv past op) (f r) Q) \<Longrightarrow> runs (hand sv past op) (rpeek what answer \<bind> f) Q"
  by (rule runs_hand_first [where R = "\<lambda>_. True"], rule does_rpeekI) simp_all

lemma receipts_of:
  "receipt_of op (renewed_receipt op u) = ro_EntitlementCommitted op" "receipt_of op (renewal_refund_receipt op u) = ro_RefundAttempted op"
  "receipt_of op (expiry_receipt op)"
  by (auto simp: receipt_of_def renewed_receipt_def renewal_refund_receipt_def expiry_receipt_def renewal_receipt_def
        workspaceRenewalReceiptCost_def set_all_def Let_def split: if_splits)

text \<open>What the invariant says in the states in which it is used.\<close>

lemma sound_refund_state: "renewal_sound sv op \<Longrightarrow> ro_Status op = ''refunded'' \<or> ro_Status op = ''refund_pending'' \<Longrightarrow> ro_RefundAttempted op"
  by (auto simp: renewal_sound_def refund_sound_def)

lemma sound_receipt_state: "renewal_sound sv op \<Longrightarrow> ro_Status op = ''verifying'' \<Longrightarrow> ro_Phase op = ''receipt'' \<Longrightarrow> ro_EntitlementCommitted op"
  by (simp add: renewal_sound_def entitlement_sound_def)

lemma sound_committed_settled: "renewal_sound sv op \<Longrightarrow> ro_EntitlementCommitted op \<Longrightarrow> renewal_settled op"
  by (simp add: renewal_sound_def entitlement_sound_def)

lemma sound_unconfirmed: "renewal_sound sv op \<Longrightarrow> ro_ErrorCode op = ''sub2api_charge_unconfirmed'' \<Longrightarrow> ro_ChargeAttempted op"
  by (simp add: renewal_sound_def charge_sound_def)

lemma sound_suspending: "renewal_sound sv op \<Longrightarrow> ro_ExpiryPhase op = ''suspend'' \<Longrightarrow> ro_ExpiryStatus op \<noteq> ''past_due'' \<Longrightarrow> ro_ExpiryStatus op = ''expired_unpaid''"
  by (simp add: renewal_sound_def entitlement_sound_def)

lemmas sound_uses = sound_refund_state sound_receipt_state sound_committed_settled sound_unconfirmed

lemma refund_receipt_books: "ro_Status op = ''refunded'' \<Longrightarrow> runs (hand sv past op) (recordWorkspaceRefundReceipt sv op) (end_ok sv past)"
  unfolding recordWorkspaceRefundReceipt_def
  by (rule runs_sound, rule runs_hand_user, rule runs_sum, rule hand_ends(1), assumption, simp, rule runs_bind, rule receipt_books)
     (auto simp: receipts_of intro!: runs_sum runs_if hand_ends sound_refund_receipt sound_refund_state)

lemma renewed_receipt_books:
  "ro_Status op = ''verifying'' \<Longrightarrow> ro_Phase op = ''receipt'' \<Longrightarrow> runs (hand sv past op) (recordWorkspaceRenewalReceipt sv op) (end_ok sv past)"
  unfolding recordWorkspaceRenewalReceipt_def
  by (rule runs_sound, rule runs_hand_user, rule runs_sum, rule hand_ends(1), assumption, simp, rule runs_bind, rule receipt_books)
     (auto simp: receipts_of intro!: runs_sum runs_if hand_ends sound_active sound_receipt_state)

text \<open>The receipt of an expiry is sent for the operation in hand, also after its last write failed.\<close>

lemma expiry_receipt_books: "runs (hand sv past op) (recordWorkspaceRenewalExpiryReceipt sv op) (end_ok sv past)"
  unfolding recordWorkspaceRenewalExpiryReceipt_def
  by (rule runs_sound, rule runs_if, rule runs_ret, simp, rule runs_bind, rule receipt_books)
     (auto simp: receipts_of simp del: if_split intro!: runs_sum runs_if hand_ends sound_expiry)

section \<open>Expiry\<close>

text \<open>A failed write leaves an operation of which the tables still say the same about money.\<close>

definition kept :: "renew_services \<Rightarrow> renewal_state set \<Rightarrow> renewal_state \<Rightarrow> renewal_state \<Rightarrow> rcalls \<Rightarrow> bool" where
  "kept sv past op op' log \<longleftrightarrow> ro_ID op' = ro_ID op \<and> hand sv past op' log"

lemma persist_kept:
  assumes "renewal_sound sv q" "patch_ok q patch" "money q = money op"
  shows "runs (hand sv past op) (persistWorkspaceRenewal sv q patch) (\<lambda>(op', errs). kept sv past op op')"
proof -
  have id: "ro_ID q = ro_ID op" using assms(3) by (simp add: money_def)
  show ?thesis
    unfolding persistWorkspaceRenewal_def
    by (rule runs_bind [where R = "\<lambda>_. hand sv past q"], rule runs_ask)
       (use assms id in \<open>auto intro!: runs_ret simp: kept_def hand_def written_Cons backed_def split: option.split\<close>)
qed

lemma expiry_patches:
  "ro_ExpiryStatus op = ''past_due'' \<or> ro_ExpiryStatus op = ''expired_unpaid'' \<Longrightarrow> ro_ExpiryStatus q = ro_ExpiryStatus op \<Longrightarrow>
     patch_ok q (Some (expiry_patch op (suspend_fields op)))"
  "ro_ExpiryStatus q = ''expired_unpaid'' \<Longrightarrow> patch_ok q (Some (expiry_patch op unpaid_fields))"
  by (auto simp: patch_ok_def takes_def expiry_patch_def suspend_fields_def unpaid_fields_def mget_def)

definition step_kept :: "renew_services \<Rightarrow> renewal_state set \<Rightarrow> renewal_state \<Rightarrow> (renewal_end, renewal_state) res \<Rightarrow> rcalls \<Rightarrow> bool" where
  "step_kept sv past op r = (case r of Inl (op', _) \<Rightarrow> kept sv past op op' | Inr op' \<Rightarrow> kept sv past op op')"

lemma checked_kept: "runs P m (\<lambda>(op', errs). kept sv past op op') \<Longrightarrow> runs P (checked m) (step_kept sv past op)"
  unfolding checked_def by (rule runs_bind, assumption) (auto intro!: runs_prod runs_ret simp: step_kept_def)

lemma leave_kept: "runs P m (\<lambda>(op', errs). kept sv past op op') \<Longrightarrow> runs P (leave m) (step_kept sv past op)"
  unfolding leave_def by (rule runs_bind, assumption) (auto intro!: runs_ret simp: step_kept_def split: prod.splits)

lemma kept_refl: "runs (hand sv past op) (ret (Inl (op, e))) (step_kept sv past op)"
  by (rule runs_ret) (simp add: step_kept_def kept_def)

lemma suspend_kept:
  assumes "renewal_sound sv op" "ro_ExpiryPhase op = ''suspend''"
  shows "runs (hand sv past op) (persistWorkspaceRenewal sv
      (op\<lparr>ro_ExpiryPhase := (if ro_ExpiryStatus op = ''past_due'' then ''financial'' else ''receipt''), ro_ExpiryErrorCode := []\<rparr>)
      (Some (expiry_patch op (suspend_fields op)))) (\<lambda>(op', errs). kept sv past op op')"
proof (rule persist_kept)
  show "renewal_sound sv (op\<lparr>ro_ExpiryPhase := (if ro_ExpiryStatus op = ''past_due'' then ''financial'' else ''receipt''), ro_ExpiryErrorCode := []\<rparr>)"
    by (rule sound_expiry(1) [OF assms(1)]) simp
  show "patch_ok (op\<lparr>ro_ExpiryPhase := (if ro_ExpiryStatus op = ''past_due'' then ''financial'' else ''receipt''), ro_ExpiryErrorCode := []\<rparr>)
      (Some (expiry_patch op (suspend_fields op)))"
    by (rule expiry_patches(1)) (use sound_suspending [OF assms] in auto)
qed (simp add: money_def)

lemma unpaid_kept:
  assumes "renewal_sound sv op"
  shows "runs (hand sv past op) (persistWorkspaceRenewal sv
      (op\<lparr>ro_ExpiryStatus := ''expired_unpaid'', ro_ExpiryPhase := ''receipt'', ro_ExpiryErrorCode := []\<rparr>)
      (Some (expiry_patch op unpaid_fields))) (\<lambda>(op', errs). kept sv past op op')"
  by (rule persist_kept, rule sound_expiry(2) [OF assms], simp, rule expiry_patches(2)) (simp_all add: money_def)

lemma expiry_round_kept: "runs (hand sv past op) (expiry_round sv op) (step_kept sv past op)"
  unfolding expiry_round_def Let_def
  by (rule runs_sound, intro runs_if runs_hand_peek kept_refl checked_kept leave_kept suspend_kept unpaid_kept persist_kept sound_expiry(1))
     (simp_all add: patch_ok_def money_def)

lemma expiry_rounds_kept: "runs (hand sv past op) (expiry_rounds n sv op) (\<lambda>(op', errs). kept sv past op op')"
proof (induction n arbitrary: op)
  case 0
  show ?case by (auto intro!: runs_ret simp: kept_def)
next
  case (Suc n)
  have next': "runs (kept sv past op op') (expiry_rounds n sv op') (\<lambda>(q, errs). kept sv past op q)" for op'
    unfolding kept_def by (rule runs_fact, rule runs_post, rule Suc.IH) (auto simp: kept_def)
  show ?case
    unfolding expiry_rounds.simps
    by (rule runs_bind, rule expiry_round_kept, rule runs_sum) (auto simp: step_kept_def intro!: runs_ret runs_pre [OF next'])
qed

section \<open>The steps of a run\<close>

lemma runs_hand_resource: "(\<And>r. runs (hand sv past op) (f r) Q) \<Longrightarrow> runs (hand sv past op) (get_resource sv' k i \<bind> f) Q"
  by (rule runs_hand_first [where R = "\<lambda>_. True"], rule does_get_resource) simp_all

lemma runs_ret_books: "runs (hand sv past op) (ret (Inl e)) (step_ok sv past)"
  by (rule runs_ret) (simp add: hand_accounted)

lemma preflight_books:
  "renewal_sound sv op' \<Longrightarrow> code \<noteq> ''sub2api_charge_unconfirmed'' \<Longrightarrow> runs (hand sv past op) (preflight_renewal sv op input code op') (step_ok sv past)"
  unfolding preflight_renewal_def
  by (rule runs_sound, intro runs_hand_peek runs_sum runs_if runs_leave runs_checked hand_ends) simp_all

lemma claimed_books:
  assumes "ro_Status op = ''claimed''"
  shows "runs (hand sv past op) (claimed_step sv op) (step_ok sv past)"
proof -
  have steps: "runs (hand sv past op) (case r of Inl code \<Rightarrow> leave (manualReviewWorkspaceRenewal sv op code) | Inr (compute, storage) \<Rightarrow>
      if ro_ChargeAttempted op \<or> ro_ChargeConfirmation op \<noteq> [] then
        checked (persistWorkspaceRenewal sv (op\<lparr>ro_Status := ''debit_pending'', ro_Phase := ''debit''\<rparr>) None)
      else if ro_Phase op = ''preflight_compute'' then
        preflight_renewal sv op
          \<lparr>pfi_ResourceType = ''compute'', pfi_PackageID = ro_PackageID op, pfi_SizeGB = 0, pfi_Zone = sfield compute ''zone''\<rparr>
          ''fabric_compute_preflight_failed'' (op\<lparr>ro_ComputePreflightConfirmed := True, ro_Phase := ''preflight_storage''\<rparr>)
      else if ro_Phase op = ''preflight_storage'' then
        preflight_renewal sv op
          \<lparr>pfi_ResourceType = ''storage'', pfi_PackageID = ro_PackageID op, pfi_SizeGB = ro_StorageGB op, pfi_Zone = sfield storage ''zone''\<rparr>
          ''fabric_storage_preflight_failed''
          (op\<lparr>ro_StoragePreflightConfirmed := True, ro_Status := ''debit_pending'', ro_Phase := ''debit''\<rparr>)
      else leave (manualReviewWorkspaceRenewal sv op ''workspace_renewal_phase_invalid'')) (step_ok sv past)"
    if "\<And>code. r = Inl code \<Longrightarrow> code \<noteq> ''sub2api_charge_unconfirmed''" for r
    by (rule runs_sound, intro runs_sum runs_prod runs_if runs_leave runs_checked preflight_books hand_ends sound_unpaid sound_preflight)
       (use that assms in auto)
  have "does idle (workspaceRenewalResources sv op) (\<lambda>r. \<forall>code. r = Inl code \<longrightarrow> code \<noteq> ''sub2api_charge_unconfirmed'')"
    unfolding workspaceRenewalResources_def
    by (intro does_bindI does_get_resource does_ret) (auto split: option.split)
  then show ?thesis unfolding claimed_step_def by (rule runs_hand_first) (rule steps, blast)
qed

section \<open>The debit\<close>

definition stored_as :: "renewal_state \<Rightarrow> renewal_state \<Rightarrow> bool" where
  "stored_as q op \<longleftrightarrow> (\<exists>t. op = q\<lparr>ro_PersistedResult := t\<rparr>)"

lemma stored_as_text: "stored_as q (q\<lparr>ro_PersistedResult := t\<rparr>)"
  unfolding stored_as_def by (rule exI) (rule refl)

lemma stored_as_fields:
  assumes "stored_as q op"
  shows "ro_Status op = ro_Status q \<and> ro_Phase op = ro_Phase q \<and> ro_ChargeAttempted op = ro_ChargeAttempted q \<and>
    ro_ChargeConfirmation op = ro_ChargeConfirmation q \<and> ro_RefundAttempted op = ro_RefundAttempted q"
proof -
  obtain t where "op = q\<lparr>ro_PersistedResult := t\<rparr>" using assms unfolding stored_as_def by (elim exE)
  then show ?thesis by simp
qed

definition noted :: "renew_services \<Rightarrow> renewal_state set \<Rightarrow> renewal_state \<Rightarrow> renewal_end \<Rightarrow> rcalls \<Rightarrow> bool" where
  "noted sv past q e log \<longleftrightarrow> end_ok sv past e log \<and> (snd e = [] \<longrightarrow> stored_as q (fst e))"

lemma write_noted: "renewal_sound sv q \<Longrightarrow> runs (accounted sv past) (persistWorkspaceRenewal sv q None) (noted sv past q)"
proof -
  assume "renewal_sound sv q"
  from write_books [OF this] have "runs (accounted sv past) (persistWorkspaceRenewal sv q None) (end_ok sv past)" .
  moreover have "runs (\<lambda>_. True) (persistWorkspaceRenewal sv q None) (\<lambda>e _. snd e = [] \<longrightarrow> stored_as q (fst e))"
    unfolding persistWorkspaceRenewal_def
    by (rule runs_bind [where R = "\<lambda>_ _. True"], rule runs_ask, simp, rule runs_ret)
       (auto simp: stored_as_text split: option.split)
  ultimately have "runs (\<lambda>l. accounted sv past l \<and> True) (persistWorkspaceRenewal sv q None)
      (\<lambda>e l. end_ok sv past e l \<and> (snd e = [] \<longrightarrow> stored_as q (fst e)))"
    by (rule runs_conj)
  then show ?thesis by (simp add: noted_def [abs_def])
qed

text \<open>A charge that was asked for; and a charge that is confirmed and written.\<close>

definition asked_ok :: "renew_services \<Rightarrow> renewal_state set \<Rightarrow> (renewal_end, renewal_state \<times> 'a) res \<Rightarrow> rcalls \<Rightarrow> bool" where
  "asked_ok sv past r log \<longleftrightarrow>
     (case r of Inl e \<Rightarrow> end_ok sv past e log | Inr (op, _) \<Rightarrow> hand sv past op log \<and> ro_Status op = ''debit_pending'' \<and> ro_ChargeAttempted op)"

definition confirmed_ok :: "renew_services \<Rightarrow> renewal_state set \<Rightarrow> (renewal_end, renewal_state) res \<Rightarrow> rcalls \<Rightarrow> bool" where
  "confirmed_ok sv past r log \<longleftrightarrow>
     (case r of Inl e \<Rightarrow> end_ok sv past e log | Inr op \<Rightarrow> hand sv past op log \<and> ro_Status op = ''debit_pending'' \<and> ro_ChargeConfirmation op \<noteq> [])"

lemma ended_books: "runs P m (end_ok sv past) \<Longrightarrow> runs P (m \<bind> (\<lambda>e. ret (Inl e))) (asked_ok sv past)"
  "runs P m (end_ok sv past) \<Longrightarrow> runs P (leave m) (confirmed_ok sv past)"
  unfolding leave_def by (rule runs_bind, assumption, rule runs_ret, auto simp: asked_ok_def confirmed_ok_def)+

lemma recover_charge_books:
  assumes "ro_Status op = ''debit_pending''" "ro_ChargeAttempted op"
  shows "runs (hand sv past op) (recover_renewal_charge sv op u \<bind> (\<lambda>r. ret (case r of Inl e \<Rightarrow> Inl e | Inr c \<Rightarrow> Inr (op, c)))) (asked_ok sv past)"
proof -
  have code: "renewal_charge_code op u h \<noteq> ''sub2api_charge_unconfirmed''" for h
    by (auto simp: renewal_charge_code_def sub2APIReconciliationCode_def split: list.splits option.splits)
  have "runs (hand sv past op) (recover_renewal_charge sv op u)
      (\<lambda>r log. case r of Inl e \<Rightarrow> end_ok sv past e log | Inr _ \<Rightarrow> hand sv past op log)"
    unfolding recover_renewal_charge_def Let_def
    by (rule runs_sound, intro runs_hand_peek runs_if runs_bind [OF charge_books] runs_bind [OF hand_ends(2)])
       (use assms code in \<open>auto intro!: runs_ret simp: hand_accounted split: sum.splits\<close>)
  then show ?thesis by (rule runs_bind) (auto intro!: runs_ret simp: asked_ok_def assms split: sum.splits)
qed

lemma insufficient_books: "ro_Status op = ''debit_pending'' \<Longrightarrow> runs (hand sv past op) (insufficient_renewal sv op) (end_ok sv past)"
  unfolding insufficient_renewal_def
  by (rule runs_sound, rule runs_bind, rule hand_ends(4), simp add: sound_unpaid, rule runs_prod, rule runs_ret) (auto simp: end_ok_def)

lemma first_charge_books:
  assumes "ro_Status op = ''debit_pending''" "ro_ChargeConfirmation op = []"
  shows "runs (hand sv past op) (first_renewal_charge sv op u) (asked_ok sv past)"
proof -
  have charge: "runs (hand sv past op) (persistWorkspaceRenewal sv (op\<lparr>ro_PreChargeBalanceUSDMicros := n, ro_ChargeAttempted := True\<rparr>) None \<bind>
      (\<lambda>(op', errs). if errs \<noteq> [] then ret (Inl (op', errs)) else charge_renewal sv op' u \<bind> (\<lambda>c. ret (Inr (op', c))))) (asked_ok sv past)"
    if "\<not> n \<le> ro_TotalUSDMicros op" for n
  proof (rule runs_bind, rule runs_hand, rule write_noted, rule sound_attempt, assumption, rule assms, use that in simp, rule assms, rule runs_prod)
    fix e :: renewal_end and op' errs
    assume e: "e = (op', errs)"
    show "runs (noted sv past (op\<lparr>ro_PreChargeBalanceUSDMicros := n, ro_ChargeAttempted := True\<rparr>) e)
        (if errs \<noteq> [] then ret (Inl (op', errs)) else charge_renewal sv op' u \<bind> (\<lambda>c. ret (Inr (op', c)))) (asked_ok sv past)"
    proof (cases "errs = []")
      case True
      have "runs (\<lambda>l. (ro_Status op' = ''debit_pending'' \<and> ro_ChargeAttempted op') \<and> hand sv past op' l)
          (charge_renewal sv op' u \<bind> (\<lambda>c. ret (Inr (op', c)))) (asked_ok sv past)"
        by (rule runs_fact, rule runs_bind, rule charge_books, simp, rule runs_ret) (simp add: asked_ok_def hand_accounted)
      then have "runs (noted sv past (op\<lparr>ro_PreChargeBalanceUSDMicros := n, ro_ChargeAttempted := True\<rparr>) e)
          (charge_renewal sv op' u \<bind> (\<lambda>c. ret (Inr (op', c)))) (asked_ok sv past)"
        by (rule runs_pre) (use True in \<open>auto simp: e noted_def assms dest: stored_as_fields\<close>)
      then show ?thesis using True by simp
    next
      case False
      then show ?thesis by (auto intro!: runs_ret simp: e noted_def asked_ok_def)
    qed
  qed
  show ?thesis
    unfolding first_renewal_charge_def
    by (rule runs_sound, intro runs_hand_peek runs_sum runs_if charge ended_books(1) hand_ends(1) insufficient_books) (use assms in auto)
qed

lemma settle_charge_books:
  assumes "ro_Status op = ''debit_pending''" "ro_ChargeAttempted op"
  shows "runs (hand sv past op) (settle_renewal_charge sv op u result) (confirmed_ok sv past)"
proof -
  have "runs (hand sv past op) (checked (persistWorkspaceRenewal sv (op\<lparr>ro_ChargeConfirmation := charge_confirmation c, ro_ErrorCode := []\<rparr>) None)) (confirmed_ok sv past)"
    if "monthlyChargeConfirmationMatches (charge_confirmation c) (ro_RedeemCode op) u (ro_TotalUSDMicros op)" for c
    unfolding checked_def
    by (rule runs_bind, rule runs_hand, rule write_noted, rule sound_confirmed [OF _ assms that], assumption)
       (auto intro!: runs_prod runs_ret simp: noted_def confirmed_ok_def end_ok_def assms charge_confirmation_def dest!: stored_as_fields)
  then show ?thesis
    unfolding settle_renewal_charge_def Let_def
    by (intro runs_sum runs_if ended_books(2) hand_ends) (use assms in auto)
qed

lemma obtain_charge_books:
  assumes "ro_Status op = ''debit_pending''" "ro_ChargeConfirmation op = []"
  shows "runs (hand sv past op) (obtain_renewal_charge sv op u) (confirmed_ok sv past)"
proof -
  have settle: "runs (asked_ok sv past r) (case r of Inl ended \<Rightarrow> ret (Inl ended) | Inr (op', result) \<Rightarrow> settle_renewal_charge sv op' u result)
      (confirmed_ok sv past)" for r :: "(renewal_end, renewal_state \<times> (svc_error, charge) res) res"
  proof (rule runs_sum; (rule runs_prod)?)
    show "runs (asked_ok sv past r) (ret (Inl e)) (confirmed_ok sv past)" if "r = Inl e" for e
      by (rule runs_ret) (simp add: that asked_ok_def confirmed_ok_def)
    show "runs (asked_ok sv past r) (settle_renewal_charge sv op' u result) (confirmed_ok sv past)"
      if "r = Inr a" "a = (op', result)" for a op' result
    proof -
      have "runs (\<lambda>l. (ro_Status op' = ''debit_pending'' \<and> ro_ChargeAttempted op') \<and> hand sv past op' l)
          (settle_renewal_charge sv op' u result) (confirmed_ok sv past)"
        by (rule runs_fact, rule settle_charge_books) simp_all
      then show ?thesis by (rule runs_pre) (auto simp: that asked_ok_def)
    qed
  qed
  show ?thesis
    unfolding obtain_renewal_charge_def
    by (rule runs_sound, intro runs_hand_peek runs_option ended_books(2) hand_ends(1) runs_bind [OF _ settle] runs_if
          recover_charge_books first_charge_books) (use assms in \<open>auto dest: sound_unconfirmed\<close>)
qed

lemma confirm_debit_books:
  assumes "ro_Status op = ''debit_pending''" "ro_ChargeConfirmation op \<noteq> []"
  shows "runs (hand sv past op) (confirm_renewal_debit sv op u) (end_ok sv past)"
proof (rule runs_sound)
  assume s: "renewal_sound sv op"
  let ?op = "\<lambda>n. op\<lparr>ro_PostChargeBalanceKnown := True, ro_PostChargeBalanceUSDMicros := n\<rparr>"
  have noted: "renewal_sound sv (?op n)" for n by (rule sound_balance [OF s assms(1)])
  have debited: "renewal_sound sv ((?op n)\<lparr>ro_Status := ''debited'', ro_Phase := ''provider_compute'', ro_ErrorCode := []\<rparr>)"
    if "\<not> (ro_PreChargeBalanceUSDMicros (?op n) \<le> ro_TotalUSDMicros (?op n) \<or> n < 0 \<or>
        n \<noteq> wrap64 (ro_PreChargeBalanceUSDMicros (?op n) - ro_TotalUSDMicros (?op n)))" for n
    by (rule sound_debited [OF noted]) (use that assms in \<open>simp_all add: balance_exact_def balance_fell_def\<close>)
  show "runs (hand sv past op) (confirm_renewal_debit sv op u) (end_ok sv past)"
    unfolding confirm_renewal_debit_def Let_def
    by (intro runs_hand_peek runs_sum runs_if hand_ends debited noted) (use s in auto)
qed

lemma debit_books:
  assumes "ro_Status op = ''debit_pending''"
  shows "runs (hand sv past op) (debitWorkspaceRenewal sv op) (end_ok sv past)"
proof -
  have confirm: "runs (confirmed_ok sv past r) (case r of Inl ended \<Rightarrow> ret ended | Inr op' \<Rightarrow> confirm_renewal_debit sv op' u) (end_ok sv past)" for r u
  proof (rule runs_sum)
    show "runs (confirmed_ok sv past r) (ret e) (end_ok sv past)" if "r = Inl e" for e
      by (rule runs_ret) (simp add: that confirmed_ok_def)
    show "runs (confirmed_ok sv past r) (confirm_renewal_debit sv op' u) (end_ok sv past)" if "r = Inr op'" for op'
    proof -
      have "runs (\<lambda>l. (ro_Status op' = ''debit_pending'' \<and> ro_ChargeConfirmation op' \<noteq> []) \<and> hand sv past op' l)
          (confirm_renewal_debit sv op' u) (end_ok sv past)"
        by (rule runs_fact, rule confirm_debit_books) simp_all
      then show ?thesis by (rule runs_pre) (simp add: that confirmed_ok_def)
    qed
  qed
  show ?thesis
    unfolding debitWorkspaceRenewal_def
    by (rule runs_sound, intro runs_hand_user runs_sum runs_if hand_ends(1) runs_bind [OF _ confirm] obtain_charge_books confirm_debit_books)
       (use assms in auto)
qed

section \<open>The refund\<close>

text \<open>Going on with the operation that a write gave back.\<close>

lemma noted_then:
  assumes "\<And>op'. stored_as q op' \<Longrightarrow> runs (hand sv past op') (f op') (end_ok sv past)"
  shows "runs (noted sv past q e) (case e of (op', errs) \<Rightarrow> if errs \<noteq> [] then ret (op', errs) else f op') (end_ok sv past)"
proof (cases e)
  case (Pair op' errs)
  show ?thesis
  proof (cases "errs = []")
    case True
    have "runs (\<lambda>l. stored_as q op' \<and> hand sv past op' l) (f op') (end_ok sv past)"
      by (rule runs_fact) (rule assms)
    then have "runs (noted sv past q e) (f op') (end_ok sv past)"
      by (rule runs_pre) (use True in \<open>simp add: noted_def Pair\<close>)
    then show ?thesis using True by (simp add: Pair)
  qed (auto intro!: runs_ret simp: Pair noted_def)
qed

lemma settle_refund_books:
  assumes "ro_Status op = ''refund_pending''"
  shows "runs (hand sv past op) (settle_renewal_refund sv op u result) (end_ok sv past)"
proof -
  have refunded: "runs (hand sv past op) (persistWorkspaceRenewal sv (op\<lparr>ro_RefundConfirmation := renewal_refund_confirmation c, ro_Status := ''refunded'',
        ro_Phase := ''refund_receipt'', ro_ErrorCode := []\<rparr>) None \<bind>
      (\<lambda>(op', errs). if errs \<noteq> [] then ret (op', errs) else recordWorkspaceRefundReceipt sv op')) (end_ok sv past)"
    if "\<not> (ch_Code c \<noteq> ro_RefundCode op \<or> ch_UserID c \<noteq> u \<or> ch_USDMicros c \<noteq> ro_TotalUSDMicros op \<or> ch_Status c \<noteq> ''used'')" for c
  proof (rule runs_bind, rule runs_hand, rule write_noted, rule sound_refunded, assumption, rule assms)
    show "refund_recorded (renewal_refund_confirmation c) (ro_RefundCode op) (ro_TotalUSDMicros op)"
      using that by (simp add: refund_recorded_def renewal_refund_confirmation_def sfield_def mget_def str_of_def)
  qed (rule noted_then, rule refund_receipt_books, simp add: stored_as_fields)
  show ?thesis
    unfolding settle_renewal_refund_def
    by (rule runs_sound, intro runs_sum runs_if hand_ends(1) refunded) auto
qed

lemma recover_refund_books:
  assumes "ro_RefundAttempted op"
  shows "runs (hand sv past op) (recover_renewal_refund sv op u) (\<lambda>r log. case r of Inl e \<Rightarrow> end_ok sv past e log | Inr _ \<Rightarrow> hand sv past op log)"
  unfolding recover_renewal_refund_def
  by (rule runs_sound, intro runs_hand_peek runs_list runs_if runs_bind [OF refund_books] runs_bind [OF hand_ends(2)])
     (use assms in \<open>auto intro!: runs_ret\<close>)

lemma runs_result: "(\<And>e. runs (P e) (f e) Q) \<Longrightarrow> (\<And>a. runs R (g a) Q) \<Longrightarrow>
    runs (\<lambda>log. case r of Inl e \<Rightarrow> P e log | Inr _ \<Rightarrow> R log) (case r of Inl e \<Rightarrow> f e | Inr a \<Rightarrow> g a) Q"
  by (cases r) simp_all

lemma refund_renewal_books:
  assumes "ro_Status op = ''provider_renewing'' \<or> ro_Status op = ''refund_pending''"
  shows "runs (hand sv past op) (refundWorkspaceRenewal sv op reason) (end_ok sv past)"
proof (rule runs_sound)
  assume s: "renewal_sound sv op"
  have attempted: "ro_Status op = (if ro_RefundAttempted op then ''refund_pending'' else ''provider_renewing'')"
    using s assms by (auto simp: renewal_sound_def refund_sound_def)
  have first: "runs (hand sv past op) (persistWorkspaceRenewal sv (op\<lparr>ro_Status := ''refund_pending'', ro_Phase := ''refund'',
        ro_RefundAttempted := True, ro_RefundReason := reason, ro_ErrorCode := []\<rparr>) None \<bind>
      (\<lambda>(op', errs). if errs \<noteq> [] then ret (op', errs)
         else do { result \<leftarrow> refund_renewal sv op' u; settle_renewal_refund sv op' u result })) (end_ok sv past)"
    if "\<not> ro_RefundAttempted op" for u
    by (rule runs_bind, rule runs_hand, rule write_noted, rule sound_refunding, assumption, use that attempted in simp,
        rule noted_then, rule runs_bind, rule refund_books, simp add: stored_as_fields, rule settle_refund_books, simp add: stored_as_fields)
  show "runs (hand sv past op) (refundWorkspaceRenewal sv op reason) (end_ok sv past)"
    unfolding refundWorkspaceRenewal_def
    by (intro runs_hand_user runs_sum runs_if hand_ends(2) runs_bind [OF recover_refund_books runs_result] settle_refund_books first)
       (use s attempted in \<open>auto intro: runs_ret\<close>)
qed

section \<open>The provider\<close>

lemma money_readback [simp]: "money (note_readback k m op) = money op" "ro_Status (note_readback k m op) = ro_Status op" "ro_Phase (note_readback k m op) = ro_Phase op"
  by (simp_all add: note_readback_def money_def)

lemma hand_readback: "hand sv past op log \<Longrightarrow> hand sv past (note_readback k m op) log"
  by (simp add: hand_def sound_readback backed_def)

lemma does_renewal_sync: "does idle (sync_renewal sv k op) (\<lambda>(op', readback). \<exists>m. op' = note_readback k m op)"
  unfolding sync_renewal_def workspaceRenewalProviderReadback_def Let_def
  by (intro does_rwp does_get_resource) (auto simp: case_prod_beta)

lemma runs_sync:
  assumes "\<And>m row absent valid. runs (hand sv past (note_readback k m op)) (f (note_readback k m op, row, absent, valid)) Q"
  shows "runs (hand sv past op) (sync_renewal sv k op \<bind> f) Q"
proof (rule runs_hand_first [OF does_renewal_sync])
  fix a :: "renewal_state \<times> gomap \<times> bool \<times> bool"
  assume "case a of (op', readback) \<Rightarrow> \<exists>m. op' = note_readback k m op"
  then obtain m row absent valid where a: "a = (note_readback k m op, row, absent, valid)" by (cases a) auto
  show "runs (hand sv past op) (f a) Q" unfolding a by (rule runs_pre [OF assms]) (rule hand_readback)
qed

lemma runs_hand_save: "(\<And>r. runs (hand sv past op) (f r) Q) \<Longrightarrow> runs (hand sv past op) (save_renewed sv' k row \<bind> f) Q"
  unfolding save_renewed_def by (rule runs_hand_first [where R = "\<lambda>_. True"], rule does_rtellI) simp_all

lemma verify_compute_books:
  assumes "ro_Status op = ''provider_renewing''"
  shows "runs (hand sv past op) (verify_compute_phase sv op) (end_ok sv past)"
  unfolding verify_compute_phase_def
  by (rule runs_sync, rule runs_sound, simp, intro conjI impI refund_renewal_books runs_hand_save runs_option hand_ends sound_provider)
     (use assms in \<open>auto intro!: runs_ret simp: hand_accounted\<close>)

lemma verify_storage_books:
  assumes "ro_Status op = ''provider_renewing''"
  shows "runs (hand sv past op) (verify_storage_phase sv op) (end_ok sv past)"
  unfolding verify_storage_phase_def
  by (rule runs_sync, rule runs_sound, simp, intro conjI impI runs_hand_save runs_option hand_ends sound_provider)
     (use assms in \<open>auto intro!: runs_ret simp: hand_accounted\<close>)

lemma renew_resource_books:
  assumes "ro_Status op = ''provider_renewing''" "k = ''compute'' \<or> k = ''storage''"
  shows "runs (hand sv past op) (renew_resource sv k op) (end_ok sv past)"
proof (rule runs_sound)
  assume s: "renewal_sound sv op"
  have code: "''fabric_'' @ k @ ''_renewal_unconfirmed'' \<noteq> ''sub2api_charge_unconfirmed''" by simp
  note sound = sound_provider(1,2) [OF s assms(1)] sound_error [OF sound_provider(1) [OF s assms(1)]] sound_error [OF sound_provider(2) [OF s assms(1)]]
  show "runs (hand sv past op) (renew_resource sv k op) (end_ok sv past)"
    unfolding renew_resource_def Let_def
    by (rule runs_hand_first [where R = "\<lambda>_. True"], rule does_ask, simp, simp, rule runs_prod, rule hand_ends(4))
       (use sound code assms(2) in auto)
qed

lemma provider_books: "ro_Status op = ''provider_renewing'' \<Longrightarrow> runs (hand sv past op) (renewWorkspaceProvider sv op) (end_ok sv past)"
  unfolding renewWorkspaceProvider_def Let_def
  by (intro runs_if renew_resource_books verify_compute_books verify_storage_books hand_ends(2)) simp_all

section \<open>The entitlement\<close>

lemma verify_renewed_books:
  "runs (hand sv past op) (verify_renewed sv k op) (\<lambda>(op', ok) log. hand sv past op' log \<and> ro_Status op' = ro_Status op \<and> ro_Phase op' = ro_Phase op)"
  unfolding verify_renewed_def
  by (rule runs_sync) (auto intro!: runs_hand_save runs_ret)

definition same_phase :: "renew_services \<Rightarrow> renewal_state set \<Rightarrow> renewal_state \<Rightarrow> renewal_state \<times> bool \<Rightarrow> rcalls \<Rightarrow> bool" where
  "same_phase sv past op r log \<longleftrightarrow> (ro_Status (fst r) = ro_Status op \<and> ro_Phase (fst r) = ro_Phase op) \<and> hand sv past (fst r) log"

lemma verify_renewed_same: "runs (hand sv past op) (verify_renewed sv k op) (same_phase sv past op)"
  by (rule runs_post [OF verify_renewed_books]) (auto simp: same_phase_def)

lemma verify_readback_books: "runs (hand sv past op) (verifyWorkspaceRenewalProviderReadback sv op) (same_phase sv past op)"
  unfolding verifyWorkspaceRenewalProviderReadback_def
proof (rule runs_bind [OF verify_renewed_same], rule runs_prod, rule runs_if)
  fix r :: "renewal_state \<times> bool" and op' ok
  assume r: "r = (op', ok)"
  have "runs (\<lambda>l. (ro_Status op' = ro_Status op \<and> ro_Phase op' = ro_Phase op) \<and> hand sv past op' l) (verify_renewed sv ''storage'' op') (same_phase sv past op)"
    by (rule runs_fact, rule runs_post, rule verify_renewed_same) (simp add: same_phase_def)
  then show "runs (same_phase sv past op r) (verify_renewed sv ''storage'' op') (same_phase sv past op)"
    by (rule runs_pre) (simp add: same_phase_def r)
  show "runs (same_phase sv past op r) (ret (op', False)) (same_phase sv past op)"
    by (rule runs_ret) (simp add: same_phase_def r)
qed

lemma entitlement_patch:
  assumes "renewal_sound sv op" "ro_Status op = ''verifying''"
  shows "patch_ok (fst (entitlement_write op w t)) (Some (snd (entitlement_write op w t)))"
proof -
  let ?q = "fst (entitlement_write op w t)"
  have e: "ro_EntitlementCommitted ?q" "ro_PaidThrough ?q = ro_PaidThrough op" "ro_RenewedThrough ?q = ro_RenewedThrough op"
    by (simp_all add: entitlement_write_def clear_expiry_def Let_def)
  then have "renewal_settled ?q" using sound_committed_settled [OF sound_committed [OF assms]] by blast
  with e show ?thesis
    unfolding patch_ok_def grants_def by (simp add: entitlement_write_def entitlement_fields_def Let_def mget_def)
qed

lemma commit_books:
  assumes "ro_Status op = ''verifying''"
  shows "runs (hand sv past op) (commitWorkspaceRenewalEntitlement sv op) (end_ok sv past)"
proof -
  have commit: "runs (hand sv past op) (case entitlement_write op w t of (op', patch) \<Rightarrow> persistWorkspaceRenewal sv op' (Some patch)) (end_ok sv past)" for w t
  proof (rule runs_prod, rule runs_hand)
    fix q p
    assume "entitlement_write op w t = (q, p)" and s: "renewal_sound sv op"
    then have "renewal_sound sv q" "patch_ok q (Some p)"
      using sound_committed [OF s assms, of w t] entitlement_patch [OF s assms, of w t] by simp_all
    then show "runs (accounted sv past) (persistWorkspaceRenewal sv q (Some p)) (end_ok sv past)" by (rule persist_books)
  qed
  show ?thesis
    unfolding commitWorkspaceRenewalEntitlement_def
    by (intro runs_hand_peek runs_option runs_if hand_ends(2) commit) (simp_all add: Let_def commit)
qed

section \<open>A run\<close>

lemma verifying_books:
  assumes "ro_Status op = ''verifying''"
  shows "runs (hand sv past op) (verifying_step sv op) (step_ok sv past)"
proof -
  have next': "runs (same_phase sv past op r) (case r of (op', ok) \<Rightarrow>
      if \<not> ok then leave (manualReviewWorkspaceRenewal sv op' ''workspace_renewal_provider_truth_invalid'')
      else checked (commitWorkspaceRenewalEntitlement sv op')) (step_ok sv past)" for r
  proof (rule runs_prod)
    fix op' ok
    assume r: "r = (op', ok)"
    have "runs (\<lambda>l. (ro_Status op' = ro_Status op \<and> ro_Phase op' = ro_Phase op) \<and> hand sv past op' l)
        (if \<not> ok then leave (manualReviewWorkspaceRenewal sv op' ''workspace_renewal_provider_truth_invalid'')
         else checked (commitWorkspaceRenewalEntitlement sv op')) (step_ok sv past)"
      by (rule runs_fact, intro runs_if runs_leave runs_checked hand_ends(2) commit_books) (simp_all add: assms)
    then show "runs (same_phase sv past op r) (if \<not> ok then leave (manualReviewWorkspaceRenewal sv op' ''workspace_renewal_provider_truth_invalid'')
         else checked (commitWorkspaceRenewalEntitlement sv op')) (step_ok sv past)"
      by (rule runs_pre) (simp add: same_phase_def r)
  qed
  show ?thesis
    unfolding verifying_step_def
    by (intro runs_if runs_leave renewed_receipt_books runs_bind [OF verify_readback_books next']) (simp_all add: assms)
qed

lemma step_books: "runs (hand sv past op) (renewal_step sv op) (step_ok sv past)"
  unfolding renewal_step_def Let_def
  by (rule runs_sound, intro runs_if runs_ret_books runs_checked runs_leave claimed_books debit_books refund_renewal_books provider_books verifying_books
        refund_receipt_books hand_ends sound_unpaid sound_renewing) simp_all

lemma rounds_books: "runs (hand sv past op) (renewal_rounds n sv op) (\<lambda>_. accounted sv past)"
proof (induction n arbitrary: op)
  case 0
  show ?case unfolding renewal_rounds.simps by (rule runs_post, rule hand_ends(1)) (simp_all add: end_ok_def)
next
  case (Suc n)
  show ?case
    unfolding renewal_rounds.simps
    by (rule runs_bind, rule step_books, rule runs_sum) (auto intro!: runs_ret runs_pre [OF Suc.IH])
qed

lemma run_books: "runs (hand sv past op) (runWorkspaceRenewal sv op) (\<lambda>_. accounted sv past)"
  unfolding runWorkspaceRenewal_def by (rule runs_bind, rule rounds_books) (auto intro!: runs_prod runs_ret)

end
