(* ===== verification/CP_Renewal_Lives.thy ===== *)
theory CP_Renewal_Lives
  imports CP_Renewal_Accounts
begin

text \<open>
  Whole lives of renewals: the worker and the reviewers at any times, over tables that give back what
  was written. Every call of every run is accounted for by what was written before it.
\<close>

section \<open>Logs only grow\<close>

abbreviation grows :: "'a ract \<Rightarrow> bool" where "grows m \<equiv> does (\<lambda>_. True) m (\<lambda>_. True)"

lemma grows_bind: "grows m \<Longrightarrow> (\<And>a. grows (f a)) \<Longrightarrow> grows (m \<bind> f)"
  by (rule does_bind)

lemma grows_calls: "grows (ret a)" "grows (ask f e)" "grows (rpeek w g)" "grows (rtell c h)"
  unfolding rpeek_def rtell_def by (auto intro: does_ret does_ask)

named_theorems growing \<open>computations that only add calls\<close>

lemmas grows_rules = grows_bind grows_calls does_cases

lemma grows_reads [growing]: "grows (renewal_user sv a)" "grows (get_resource sv k i)" "grows (workspaceRenewalResources sv op)"
  unfolding renewal_user_def get_resource_def workspaceRenewalResources_def by (intro grows_rules)+

lemma grows_persist [growing]: "grows (persistWorkspaceRenewal sv op p)"
  unfolding persistWorkspaceRenewal_def by (intro grows_rules)

lemma grows_ends [growing]:
  "grows (end_renewal sv op c)" "grows (retryWorkspaceRenewal sv op code c)" "grows (manualReviewWorkspaceRenewal sv op code)"
  unfolding end_renewal_def retryWorkspaceRenewal_def manualReviewWorkspaceRenewal_def by (intro grows_rules growing)+

lemma grows_checked [growing]: "grows m \<Longrightarrow> grows (checked m)" "grows m \<Longrightarrow> grows (leave m)"
  unfolding checked_def leave_def by (intro grows_rules | assumption)+

lemma grows_receipts [growing]:
  "grows (send_receipt sv i)" "grows (recordWorkspaceRefundReceipt sv op)" "grows (recordWorkspaceRenewalReceipt sv op)"
  "grows (recordWorkspaceRenewalExpiryReceipt sv op)"
  unfolding send_receipt_def recordWorkspaceRefundReceipt_def recordWorkspaceRenewalReceipt_def recordWorkspaceRenewalExpiryReceipt_def
  by (intro grows_rules growing)+

lemma grows_debit [growing]: "grows (debitWorkspaceRenewal sv op)"
  unfolding debitWorkspaceRenewal_def obtain_renewal_charge_def recover_renewal_charge_def first_renewal_charge_def settle_renewal_charge_def
    confirm_renewal_debit_def charge_renewal_def insufficient_renewal_def Let_def
  by (intro grows_rules growing)

lemma grows_refund [growing]: "grows (refundWorkspaceRenewal sv op r)"
  unfolding refundWorkspaceRenewal_def recover_renewal_refund_def settle_renewal_refund_def refund_renewal_def Let_def
  by (intro grows_rules growing)

lemma grows_sync [growing]: "grows (sync_renewal sv k op)" "grows (save_renewed sv k row)"
  unfolding sync_renewal_def workspaceRenewalProviderReadback_def save_renewed_def Let_def by (intro grows_rules growing)+

lemma grows_provider [growing]: "grows (renewWorkspaceProvider sv op)"
  unfolding renewWorkspaceProvider_def renew_resource_def verify_compute_phase_def verify_storage_phase_def Let_def
  by (intro grows_rules growing)

lemma grows_step [growing]: "grows (renewal_step sv op)"
  unfolding renewal_step_def claimed_step_def preflight_renewal_def verifying_step_def verifyWorkspaceRenewalProviderReadback_def
    verify_renewed_def commitWorkspaceRenewalEntitlement_def Let_def
  by (intro grows_rules growing)

lemma grows_rounds [growing]: "grows (renewal_rounds n sv op)"
proof (induction n arbitrary: op)
  case 0
  show ?case unfolding renewal_rounds.simps by (intro growing)
next
  case (Suc n)
  show ?case unfolding renewal_rounds.simps by (intro grows_rules growing Suc.IH)
qed

lemma grows_run [growing]: "grows (runWorkspaceRenewal sv op)"
  unfolding runWorkspaceRenewal_def by (intro grows_rules growing)

lemma written_append: "written (new @ log) = written new \<union> written log"
  by (auto simp: written_def)

lemma hand_grows:
  assumes "grows m" and "runs (hand sv past op) m (\<lambda>_. accounted sv past)"
  shows "runs (hand sv past op) m (\<lambda>_. hand sv past op)"
  unfolding runs_def
proof (intro allI impI)
  fix log
  assume h: "hand sv past op log"
  obtain new where new: "snd (run_state m log) = new @ log" by (rule doesE [OF assms(1)])
  have a: "accounted sv past (snd (run_state m log))"
    using assms(2) h unfolding runs_def by (auto simp: case_prod_beta)
  have "backed (past \<union> written (new @ log)) op"
    by (rule backed_mono [of "past \<union> written log"]) (use h in \<open>auto simp: hand_def written_append\<close>)
  with a h show "case run_state m log of (a, log') \<Rightarrow> hand sv past op log'"
    by (simp add: case_prod_beta hand_def new)
qed

section \<open>Reading what was written\<close>

text \<open>Tables that give back what was written: a row of a renewal reads as an operation that some claim
  or write stored, before or in this run.\<close>

definition remembers :: "renew_services \<Rightarrow> renewal_state set \<Rightarrow> bool" where
  "remembers sv past \<longleftrightarrow>
     (\<forall>log rows row op. rv_ListRuntimeOperations sv log = Some rows \<longrightarrow> row \<in> set rows \<longrightarrow> decode_renewal sv row = Some op \<longrightarrow>
        (\<exists>q \<in> past \<union> written log. stored_as q op))"

lemma accounted_written: "accounted sv past log \<Longrightarrow> q \<in> written log \<Longrightarrow> renewal_sound sv q"
proof (induction log)
  case (Cons c log)
  then show ?case by (cases c) (auto simp: written_Cons split: bool.splits)
qed (simp add: written_def)

lemma stored_as_same: "stored_as q op \<Longrightarrow> renewal_sound sv op = renewal_sound sv q \<and> money op = money q"
  unfolding stored_as_def by (elim exE) simp

definition tables_sound :: "renew_services \<Rightarrow> renewal_state set \<Rightarrow> bool" where
  "tables_sound sv past \<longleftrightarrow> remembers sv past \<and> (\<forall>q \<in> past. renewal_sound sv q)"

lemma read_hand:
  assumes "tables_sound sv past" "accounted sv past log"
    "rv_ListRuntimeOperations sv log = Some rows" "row \<in> set rows" "decode_renewal sv row = Some op"
  shows "hand sv past op log"
proof -
  obtain q where q: "q \<in> past \<union> written log" "stored_as q op"
    using assms(1,3,4,5) unfolding tables_sound_def remembers_def by blast
  then have "renewal_sound sv q" using assms(1) accounted_written [OF assms(2)] unfolding tables_sound_def by blast
  with q show ?thesis using assms(2) stored_as_same [OF q(2), of sv] by (auto simp: hand_def backed_def)
qed

text \<open>What a listing of the table may give.\<close>

definition listed_ok :: "renew_services \<Rightarrow> renewal_state set \<Rightarrow> gomap list option \<Rightarrow> rcalls \<Rightarrow> bool" where
  "listed_ok sv past listed log \<longleftrightarrow> accounted sv past log \<and>
     (\<forall>rows. listed = Some rows \<longrightarrow> (\<forall>row op. row \<in> set rows \<longrightarrow> decode_renewal sv row = Some op \<longrightarrow> hand sv past op log))"

lemma list_books: "tables_sound sv past \<Longrightarrow> runs (accounted sv past) (rpeek w (rv_ListRuntimeOperations sv)) (listed_ok sv past)"
  unfolding rpeek_def by (rule runs_ask) (auto simp: listed_ok_def intro!: hand_idle intro: read_hand)

definition loaded_ok :: "renew_services \<Rightarrow> renewal_state set \<Rightarrow> ('e, renewal_state) res \<Rightarrow> rcalls \<Rightarrow> bool" where
  "loaded_ok sv past r log \<longleftrightarrow> accounted sv past log \<and> (case r of Inl _ \<Rightarrow> True | Inr op \<Rightarrow> hand sv past op log)"

lemma find_member: "find P xs = Some x \<Longrightarrow> x \<in> set xs"
  by (auto simp: find_Some_iff)

lemma load_books: "tables_sound sv past \<Longrightarrow> runs (accounted sv past) (loadWorkspaceRenewalOperation sv i) (loaded_ok sv past)"
  unfolding loadWorkspaceRenewalOperation_def
  by (rule runs_bind, rule list_books, assumption, rule runs_ret)
     (auto simp: listed_ok_def loaded_ok_def split: option.split dest: find_member)

section \<open>The worker\<close>

lemma grows_load [growing]: "grows (loadWorkspaceRenewalOperation sv i)" "grows (reload_renewal sv op)"
  unfolding reload_renewal_def loadWorkspaceRenewalOperation_def by (intro grows_rules)+

lemma reload_books:
  assumes "tables_sound sv past"
  shows "runs (hand sv past op) (reload_renewal sv op) (hand sv past)"
proof -
  have "runs (hand sv past op) (loadWorkspaceRenewalOperation sv (ro_ID op)) (\<lambda>_. hand sv past op)"
    by (rule hand_grows [OF grows_load(1)], rule runs_hand, rule runs_post [OF load_books [OF assms]]) (simp add: loaded_ok_def)
  from runs_conj [OF this runs_hand [OF load_books [OF assms]]]
  have "runs (\<lambda>l. hand sv past op l \<and> hand sv past op l) (loadWorkspaceRenewalOperation sv (ro_ID op))
      (\<lambda>r l. hand sv past op l \<and> loaded_ok sv past r l)" .
  then show ?thesis
    unfolding reload_renewal_def
    by (intro runs_bind [OF runs_pre]) (assumption | auto intro!: runs_ret simp: loaded_ok_def split: sum.splits)+
qed

lemma progress_books:
  assumes "tables_sound sv past"
  shows "runs (hand sv past op) (progress_and_reload sv due op) (\<lambda>(op', errs). hand sv past op')"
  unfolding progress_and_reload_def progressWorkspaceRenewalExpiry_def
  by (intro runs_if runs_bind [OF expiry_rounds_kept] runs_prod)
     (auto intro!: runs_ret runs_bind [OF runs_pre [OF reload_books [OF assms]]] simp: kept_def)

lemma work_run_books:
  assumes "tables_sound sv past"
  shows "runs (hand sv past op)
    (if ro_Status op \<noteq> ''expired_unpaid'' then do { errs \<leftarrow> runWorkspaceRenewal sv op; current \<leftarrow> reload_renewal sv op; ret (current, errs) }
     else ret (op, [])) (\<lambda>(op', errs). hand sv past op')"
  by (intro runs_if runs_bind [OF hand_grows [OF grows_run run_books]] runs_bind [OF reload_books [OF assms]]) (auto intro!: runs_ret)

lemma work_books:
  assumes "tables_sound sv past"
  shows "runs (hand sv past op) (work_renewal sv op expired) (\<lambda>_. accounted sv past)"
proof -
  have last: "runs (hand sv past q) (do { (op3, more) \<leftarrow> progress_and_reload sv b q; (_, errs) \<leftarrow> recordWorkspaceRenewalExpiryReceipt sv op3; ret (xs @ ys @ more @ errs) })
      (\<lambda>_. accounted sv past)" for q b xs ys
    by (intro runs_bind [OF progress_books [OF assms]] runs_prod runs_bind [OF runs_pre [OF expiry_receipt_books]])
       (auto intro!: runs_ret simp: end_ok_def)
  show ?thesis
    unfolding work_renewal_def Let_def
    by (intro runs_bind [OF progress_books [OF assms]] runs_prod runs_bind [OF runs_pre [OF work_run_books [OF assms]]] runs_if)
       (auto intro!: runs_ret runs_pre [OF last] simp: hand_accounted)
qed

lemma pick_member:
  "pick_renewal sv w t e found rows = Inr (Some op) \<Longrightarrow> found = Some op \<or> (\<exists>row \<in> set rows. decode_renewal sv row = Some op)"
  by (induction sv w t e found rows rule: pick_renewal.induct) (auto split: if_splits option.splits)

lemma due_sound:
  assumes "renewal_due sv w workspace paid rows now = Inr (Some op)"
    and "\<And>row q. row \<in> set rows \<Longrightarrow> decode_renewal sv row = Some q \<Longrightarrow> renewal_sound sv q"
  shows "renewal_sound sv op"
  using assms(1) unfolding renewal_due_def Let_def
  by (auto split: option.splits sum.splits if_splits dest!: pick_member intro: sound_note_expiry sound_new assms(2))

lemma claim_books:
  assumes "tables_sound sv past" "renewal_sound sv op"
  shows "runs (accounted sv past) (claim_and_work sv w workspace rows op expired now) (\<lambda>_. accounted sv past)"
proof -
  have claim: "runs (accounted sv past) (ask (\<lambda>log. rv_ClaimWorkspaceRenewal sv log c) (\<lambda>err. RClaim q (err = None)) \<bind>
      (\<lambda>err. case err of
         Some e \<Rightarrow> ret (if e = ErrRenewalCASConflict then None else Some [e])
       | None \<Rightarrow> do { errs \<leftarrow> work_renewal sv (q\<lparr>ro_PersistedResult := t\<rparr>) expired; ret (Some errs) })) (\<lambda>_. accounted sv past)"
    if "renewal_sound sv q" for c q t
  proof (rule runs_bind)
    show "runs (accounted sv past) (ask (\<lambda>log. rv_ClaimWorkspaceRenewal sv log c) (\<lambda>err. RClaim q (err = None)))
        (\<lambda>err log. accounted sv past log \<and> (err = None \<longrightarrow> hand sv past q log))"
      by (rule runs_ask) (use that in \<open>auto simp: hand_def backed_def written_Cons\<close>)
  next
    fix err :: "renewal_error option"
    show "runs (\<lambda>log. accounted sv past log \<and> (err = None \<longrightarrow> hand sv past q log))
        (case err of
           Some e \<Rightarrow> ret (if e = ErrRenewalCASConflict then None else Some [e])
         | None \<Rightarrow> do { errs \<leftarrow> work_renewal sv (q\<lparr>ro_PersistedResult := t\<rparr>) expired; ret (Some errs) }) (\<lambda>_. accounted sv past)"
      by (cases err) (auto intro!: runs_ret runs_bind [OF runs_pre [OF work_books [OF assms(1)]]])
  qed
  show ?thesis
    unfolding claim_and_work_def Let_def
    by (rule runs_books_first [where R = "\<lambda>_. True"], rule does_rpeekI, simp, simp, rule claim) (simp add: assms)
qed

lemma attempt_books:
  assumes "tables_sound sv past"
  shows "runs (accounted sv past) (renewal_attempt sv w now) (\<lambda>_. accounted sv past)"
proof -
  have work: "runs (listed_ok sv past (Some rows)) (case renewal_due sv w workspace paid rows now of
        Inl e \<Rightarrow> ret (Some [e])
      | Inr None \<Rightarrow> ret (Some [])
      | Inr (Some op) \<Rightarrow>
          (case renewal_leased op now of
             Inl e \<Rightarrow> ret (Some [e])
           | Inr True \<Rightarrow> ret (Some [])
           | Inr False \<Rightarrow> claim_and_work sv w workspace rows op (fst paid \<le> now) now)) (\<lambda>_. accounted sv past)" for rows workspace paid
  proof -
    have claim: "runs (listed_ok sv past (Some rows)) (claim_and_work sv w workspace rows op expired now) (\<lambda>_. accounted sv past)"
      if due: "renewal_due sv w workspace paid rows now = Inr (Some op)" for op expired
    proof -
      have "runs (\<lambda>l. renewal_sound sv op \<and> accounted sv past l) (claim_and_work sv w workspace rows op expired now) (\<lambda>_. accounted sv past)"
        by (rule runs_fact) (rule claim_books [OF assms])
      then show ?thesis
        by (rule runs_pre) (auto simp: listed_ok_def hand_def intro: due_sound [OF due])
    qed
    show ?thesis
      by (auto intro!: runs_ret claim split: sum.split option.split bool.split simp: listed_ok_def)
  qed
  show ?thesis
    unfolding renewal_attempt_def
    by (rule runs_books_first [where R = "\<lambda>_. True"], rule does_rpeekI, simp, simp, intro runs_option runs_bind [OF list_books [OF assms]])
       (auto intro!: runs_ret work simp: listed_ok_def)
qed

lemma process_books:
  assumes "tables_sound sv past"
  shows "runs (accounted sv past) (processWorkspaceRenewal sv w now) (\<lambda>_. accounted sv past)"
proof -
  have "runs (accounted sv past) (renewal_attempts n sv w now) (\<lambda>_. accounted sv past)" for n
    by (induction n) (auto intro!: runs_ret runs_bind [OF attempt_books [OF assms]] runs_option)
  then show ?thesis by (simp add: processWorkspaceRenewal_def)
qed

lemma bill_books: "tables_sound sv past \<Longrightarrow> runs (accounted sv past) (bill_workspaces sv ws now) (\<lambda>_. accounted sv past)"
proof (induction ws)
  case (Cons w ws)
  then show ?case
    unfolding bill_workspaces.simps
    by (intro runs_option runs_bind [OF Cons.IH] runs_bind [OF process_books] runs_ret) auto
qed (auto intro!: runs_ret)

lemma worker_books: "tables_sound sv past \<Longrightarrow> runs (accounted sv past) (runMonthlyBillingOnce sv now) (\<lambda>_. accounted sv past)"
  unfolding runMonthlyBillingOnce_def
  by (rule runs_books_first [where R = "\<lambda>_. True"], rule does_rpeekI, simp, simp, intro runs_option runs_ret bill_books)

section \<open>The reviewer\<close>

text \<open>An operation under review whose charge is a fact.\<close>

definition in_review :: "int \<Rightarrow> renewal_state \<Rightarrow> bool" where
  "in_review u op \<longleftrightarrow> renewal_charge_fact op u \<and> ro_ReviewResolutionKey op \<noteq> []"

definition reviewed_ok :: "renew_services \<Rightarrow> renewal_state set \<Rightarrow> (renewal_state \<Rightarrow> bool) \<Rightarrow> ('e, renewal_state) res \<Rightarrow> rcalls \<Rightarrow> bool" where
  "reviewed_ok sv past K r log \<longleftrightarrow> accounted sv past log \<and> (case r of Inl _ \<Rightarrow> True | Inr op \<Rightarrow> K op \<and> hand sv past op log)"

lemma reviewed_ok_simps [simp]:
  "reviewed_ok sv past K (Inl e) log = accounted sv past log" "reviewed_ok sv past K (Inr op) log = (K op \<and> hand sv past op log)"
  by (auto simp: reviewed_ok_def hand_def)

lemma in_review_updates [simp]:
  "in_review u (note_readback k m op) = in_review u op" "in_review u (compute_reviewed op) = in_review u op" "in_review u (storage_reviewed op) = in_review u op"
  by (simp_all add: in_review_def renewal_charge_fact_def note_readback_def compute_reviewed_def storage_reviewed_def)

lemma in_review_stored: "stored_as q op \<Longrightarrow> in_review u op = in_review u q"
  unfolding stored_as_def by (elim exE) (simp add: in_review_def renewal_charge_fact_def)

lemma in_review_noted: "renewal_charge_fact op u \<Longrightarrow> bi_IdempotencyKey i \<noteq> [] \<Longrightarrow> in_review u (note_resolution sv i now op)"
  by (simp add: in_review_def renewal_charge_fact_def note_resolution_def)

lemma review_write_books: "renewal_sound sv q \<Longrightarrow> runs (accounted sv past) (review_write sv q) (reviewed_ok sv past (stored_as q))"
  unfolding review_write_def
  by (rule runs_bind, rule write_noted, assumption) (auto intro!: runs_prod runs_ret simp: noted_def)

lemma runs_reviewed:
  assumes "\<And>e. runs (accounted sv past) (f e) Q" and "\<And>op. K op \<Longrightarrow> runs (hand sv past op) (g op) Q"
  shows "runs (reviewed_ok sv past K r) (case r of Inl e \<Rightarrow> f e | Inr op \<Rightarrow> g op) Q"
proof (cases r)
  case (Inr op)
  have "runs (\<lambda>l. K op \<and> hand sv past op l) (g op) Q" by (rule runs_fact) (rule assms(2))
  with Inr show ?thesis by (simp add: reviewed_ok_def runs_def hand_def)
next
  case (Inl e)
  have "reviewed_ok sv past K (Inl e) = accounted sv past" by (rule ext) simp
  with Inl assms(1) show ?thesis by simp
qed

lemma review_resource_books:
  assumes "in_review u op" and "\<And>q. renewal_sound sv q \<Longrightarrow> in_review u q \<Longrightarrow> renewal_sound sv (next' q) \<and> in_review u (next' q)"
  shows "runs (hand sv past op) (review_resource sv k next' op) (reviewed_ok sv past (in_review u))"
proof -
  have on: "runs (hand sv past q) (save_renewed sv k row \<bind> (\<lambda>saved. case saved of Some e \<Rightarrow> ret (Inl [ErrService e]) | None \<Rightarrow> review_write sv (next' q)))
      (reviewed_ok sv past (in_review u))" if q: "in_review u q" for q row
    by (rule runs_hand_save, rule runs_option, rule runs_hand, rule runs_post, rule review_write_books)
       (use assms(2) [OF _ q] in \<open>auto intro!: runs_ret simp: hand_accounted in_review_stored reviewed_ok_def split: sum.splits\<close>)
  have off: "runs (hand sv past q) (review_write sv q \<bind> (\<lambda>r. ret (case r of Inl errs \<Rightarrow> Inl errs | Inr _ \<Rightarrow> Inl [ErrRenewalReviewProviderFact])))
      (reviewed_ok sv past (in_review u))" for q
    by (rule runs_bind, rule runs_hand, rule review_write_books) (auto intro!: runs_ret simp: reviewed_ok_def split: sum.splits)
  show ?thesis
    unfolding review_resource_def
    by (rule runs_sync) (auto intro!: off on simp: assms(1))
qed

lemma review_verified_books:
  assumes "in_review u op"
  shows "runs (hand sv past op) (review_verified sv op) (reviewed_ok sv past (in_review u))"
proof -
  have compute: "renewal_sound sv q \<Longrightarrow> in_review u q \<Longrightarrow> renewal_sound sv (compute_reviewed q) \<and> in_review u (compute_reviewed q)" for q
    using sound_resolution(2) [of sv q] unfolding in_review_updates by (simp add: compute_reviewed_def)
  have storage: "renewal_sound sv q \<Longrightarrow> in_review u q \<Longrightarrow> renewal_sound sv (storage_reviewed q) \<and> in_review u (storage_reviewed q)" for q
    by (auto simp: in_review_def intro: sound_storage_reviewed) (simp_all add: renewal_charge_fact_def storage_reviewed_def)
  have same: "runs (hand sv past q) (ret (Inr q)) (reviewed_ok sv past (in_review u))" if "in_review u q" for q
    by (rule runs_ret) (simp add: that)
  show ?thesis
    unfolding review_verified_def
    by (rule runs_bind [where R = "reviewed_ok sv past (in_review u)"])
       (auto intro!: runs_if runs_reviewed runs_ret review_resource_books compute storage same assms)
qed

lemma runs_loaded:
  assumes "runs (accounted sv past) (f r) Q" and "\<And>op. r = Inr op \<Longrightarrow> runs (hand sv past op) (f r) Q"
  shows "runs (loaded_ok sv past r) (f r) Q"
  using assms by (cases r) (auto simp: runs_def loaded_ok_def)

lemma review_run_books:
  assumes "tables_sound sv past"
  shows "runs (hand sv past op) (review_run sv op) (reviewed_ok sv past (\<lambda>_. True))"
proof -
  have ended: "runs (loaded_ok sv past r) (if errs = [] then ret (case r of Inl e \<Rightarrow> Inl [e] | Inr current \<Rightarrow> Inr current)
      else (case r of
              Inl _ \<Rightarrow> ret (Inl errs)
            | Inr current \<Rightarrow>
                if ro_Phase current \<noteq> ''receipt'' then ret (Inl errs)
                else do { w \<leftarrow> review_write sv (current\<lparr>ro_ReviewResolutionPhase := ''receipt''\<rparr>);
                          ret (case w of Inl es \<Rightarrow> Inl es | Inr _ \<Rightarrow> Inl [ErrRenewalReviewReceipt]) }))
      (reviewed_ok sv past (\<lambda>_. True))" for r errs
  proof (cases r)
    case (Inr current)
    have "runs (hand sv past current) (do { w \<leftarrow> review_write sv (current\<lparr>ro_ReviewResolutionPhase := ''receipt''\<rparr>);
        ret (case w of Inl es \<Rightarrow> Inl es | Inr _ \<Rightarrow> Inl [ErrRenewalReviewReceipt]) }) (reviewed_ok sv past (\<lambda>_. True))"
      by (rule runs_bind, rule runs_hand, rule review_write_books, erule sound_resolution(2))
         (auto intro!: runs_ret simp: reviewed_ok_def split: sum.splits)
    then have "runs (loaded_ok sv past (Inr current)) (do { w \<leftarrow> review_write sv (current\<lparr>ro_ReviewResolutionPhase := ''receipt''\<rparr>);
        ret (case w of Inl es \<Rightarrow> Inl es | Inr _ \<Rightarrow> Inl [ErrRenewalReviewReceipt]) }) (reviewed_ok sv past (\<lambda>_. True))"
      by (rule runs_pre) (simp add: loaded_ok_def)
    then show ?thesis by (auto intro!: runs_ret simp: Inr loaded_ok_def)
  qed (auto intro!: runs_ret simp: loaded_ok_def)
  have same: "runs (hand sv past op) (ret (Inr op)) (reviewed_ok sv past (\<lambda>_. True))"
    by (rule runs_ret) simp
  show ?thesis
    unfolding review_run_def
    by (intro runs_if same runs_bind [OF run_books runs_bind [OF load_books [OF assms] ended]])
qed

lemma complete_review_books: "runs (hand sv past op) (complete_review sv op) (\<lambda>_. accounted sv past)"
  unfolding complete_review_def
  by (rule runs_if, rule runs_ret, erule hand_accounted, rule runs_bind, rule runs_hand, rule review_write_books, erule sound_resolution(3))
     (auto intro!: runs_ret simp: reviewed_ok_def)

lemma resume_review_books:
  assumes "tables_sound sv past" "in_review u op"
  shows "runs (hand sv past op) (resume_review sv op) (\<lambda>_. accounted sv past)"
  unfolding resume_review_def
  by (rule runs_bind [OF review_verified_books [OF assms(2)]], rule runs_reviewed, rule runs_ret, assumption,
      rule runs_bind [OF review_run_books [OF assms(1)]], rule runs_reviewed, rule runs_ret, assumption, rule complete_review_books)

lemma decide_books:
  assumes "tables_sound sv past" "bi_IdempotencyKey i \<noteq> []"
  shows "runs (hand sv past op) (decide_review sv i op) (\<lambda>_. accounted sv past)"
proof -
  have resume: "runs (hand sv past op) (resume_review sv op) (\<lambda>_. accounted sv past)" if "renewal_charge_fact op u" "ro_ReviewResolutionKey op \<noteq> []" for u
    by (rule resume_review_books [OF assms(1), of u]) (simp add: in_review_def that)
  have first: "runs (hand sv past op) (review_write sv (note_resolution sv i now op) \<bind>
      (\<lambda>r. case r of Inl errs \<Rightarrow> ret (Inl errs) | Inr op' \<Rightarrow> resume_review sv op')) (\<lambda>_. accounted sv past)"
    if fact: "renewal_charge_fact op u" for u now
    by (rule runs_bind, rule runs_hand, rule review_write_books, erule sound_resolution(1) [OF _ assms(2)],
        rule runs_reviewed, rule runs_ret, assumption, rule resume_review_books [OF assms(1), of u])
       (simp add: in_review_stored in_review_noted [OF fact assms(2)])
  show ?thesis
    unfolding decide_review_def
    by (rule runs_hand_user, intro runs_sum runs_if runs_hand_peek first) (auto intro!: runs_ret resume simp: hand_accounted)
qed

lemma resolve_books:
  assumes "tables_sound sv past"
  shows "runs (accounted sv past) (resolveWorkspaceRenewalReview sv i) (\<lambda>_. accounted sv past)"
proof -
  have decide: "runs (loaded_ok sv past (Inr op)) (decide_review sv i op) (\<lambda>_. accounted sv past)" if "bi_IdempotencyKey i \<noteq> []" for op
    by (rule runs_pre [OF decide_books [OF assms that]]) (simp add: loaded_ok_def)
  show ?thesis
    unfolding resolveWorkspaceRenewalReview_def Let_def
    by (rule runs_if, rule runs_ret, assumption, rule runs_bind, rule load_books [OF assms])
       (auto intro!: runs_ret decide split: sum.split simp: loaded_ok_def)
qed

section \<open>Lives\<close>

text \<open>What has been written by all runs so far. A run may have been cut off anywhere: tables may give
  back any part of what was written.\<close>

inductive renewal_life :: "(string \<Rightarrow> string) \<Rightarrow> environment \<Rightarrow> renewal_state set \<Rightarrow> bool" for sha env where
  start: "renewal_life sha env {}"
| worker: "renewal_life sha env past \<Longrightarrow> rv_sha sv = sha \<Longrightarrow> rv_env sv = env \<Longrightarrow> remembers sv past \<Longrightarrow>
    renewal_life sha env (past \<union> written (snd (run_state (runMonthlyBillingOnce sv now) [])))"
| reviewer: "renewal_life sha env past \<Longrightarrow> rv_sha sv = sha \<Longrightarrow> rv_env sv = env \<Longrightarrow> remembers sv past \<Longrightarrow>
    renewal_life sha env (past \<union> written (snd (run_state (resolveWorkspaceRenewalReview sv i) [])))"

text \<open>The invariant depends on the services only for the two codes.\<close>

lemma sound_services: "rv_sha sv = rv_sha sv' \<Longrightarrow> rv_env sv = rv_env sv' \<Longrightarrow> renewal_sound sv = renewal_sound sv'"
  by (rule ext) (simp add: renewal_sound_def renewal_codes_def)

lemma runs_end: "runs P m (\<lambda>_. Q) \<Longrightarrow> P log \<Longrightarrow> Q (snd (run_state m log))"
  by (auto simp: runs_def case_prod_beta)

lemma life_sound: "renewal_life sha env past \<Longrightarrow> rv_sha sv = sha \<Longrightarrow> rv_env sv = env \<Longrightarrow> q \<in> past \<Longrightarrow> renewal_sound sv q"
proof (induction arbitrary: sv q rule: renewal_life.induct)
  case (worker past sv' now)
  have "tables_sound sv' past" using worker by (simp add: tables_sound_def)
  from runs_end [OF worker_books [OF this]] have "accounted sv' past (snd (run_state (runMonthlyBillingOnce sv' now) []))" by simp
  with worker show ?case using sound_services [of sv' sv] by (auto dest: accounted_written)
next
  case (reviewer past sv' i)
  have "tables_sound sv' past" using reviewer by (simp add: tables_sound_def)
  from runs_end [OF resolve_books [OF this]] have "accounted sv' past (snd (run_state (resolveWorkspaceRenewalReview sv' i) []))" by simp
  with reviewer show ?case using sound_services [of sv' sv] by (auto dest: accounted_written)
qed simp

end
