(* ===== verification/CP_Renewal_Live.thy ===== *)
theory CP_Renewal_Live
  imports CP_Renewal_Lives
begin

text \<open>
  A renewal completes: when the tables take every write and the services answer as they should, a
  workspace that is due is charged once, renewed by the provider and extended, with one receipt.
\<close>

section \<open>Services that answer\<close>

text \<open>How often money was charged or refunded, and how often a receipt was sent.\<close>

definition renewal_tally :: "rcalls \<Rightarrow> nat \<times> nat" where
  "renewal_tally log =
     (length (filter (\<lambda>c. case c of RCharge _ \<Rightarrow> True | RRefund _ \<Rightarrow> True | _ \<Rightarrow> False) log),
      length (filter (\<lambda>c. case c of RReceipt _ \<Rightarrow> True | _ \<Rightarrow> False) log))"

lemma renewal_tally_simps [simp]:
  "renewal_tally [] = (0, 0)" "renewal_tally (RRead w # l) = renewal_tally l" "renewal_tally (RClaim q b # l) = renewal_tally l"
  "renewal_tally (RPersist q p b # l) = renewal_tally l" "renewal_tally (RRenew x y z # l) = renewal_tally l" "renewal_tally (RSave x r # l) = renewal_tally l"
  "renewal_tally (RCharge ch # l) = (Suc (fst (renewal_tally l)), snd (renewal_tally l))"
  "renewal_tally (RRefund ch # l) = (Suc (fst (renewal_tally l)), snd (renewal_tally l))"
  "renewal_tally (RReceipt rc # l) = (fst (renewal_tally l), Suc (snd (renewal_tally l)))"
  by (simp_all add: renewal_tally_def)

definition rows_of :: "renew_services \<Rightarrow> string \<Rightarrow> rcalls \<Rightarrow> gomap list" where
  "rows_of sv k = (if k = ''storage'' then rv_ListStorages sv else rv_ListComputes sv)"

text \<open>Reading the provider after a renewal: whenever it is asked, and whatever the row then is, the
  answer is one of a renewed resource.\<close>

definition resource_renewed :: "renew_services \<Rightarrow> renewal_state \<Rightarrow> string \<Rightarrow> bool" where
  "resource_renewed sv op k \<longleftrightarrow>
     (\<forall>l l'. \<exists>facts row old renewed. rv_Sync sv l k (resource_of op k) = (None, facts) \<and>
        findRecord (rows_of sv k l') (resource_of op k) = Some row \<and> \<not> monthlyResourceConfirmedAbsent k (mergeMaps row facts) \<and>
        parse_rfc3339 (ro_PaidThrough op) = Some old \<and> parse_rfc3339 (ro_RenewedThrough op) = Some renewed \<and>
        monthlyRenewalReadbackConfirmed (rv_env sv) k row (mergeMaps row facts) facts (fst old) (fst renewed))"

text \<open>Before it: the resources are those of the operation, paid by the provider until now, and can be renewed.\<close>

definition resources_ready :: "renew_services \<Rightarrow> renewal_state \<Rightarrow> bool" where
  "resources_ready sv op \<longleftrightarrow>
     (\<forall>l. \<exists>c s pc ps. fst (run_state (workspaceRenewalResources sv op) l) = Inr (c, s) \<and>
        (let i = \<lparr>pfi_ResourceType = ''compute'', pfi_PackageID = ro_PackageID op, pfi_SizeGB = 0, pfi_Zone = sfield c ''zone''\<rparr>;
             j = \<lparr>pfi_ResourceType = ''storage'', pfi_PackageID = ro_PackageID op, pfi_SizeGB = ro_StorageGB op, pfi_Zone = sfield s ''zone''\<rparr>
         in (\<forall>l'. rv_Preflight sv l' i = Inr pc) \<and> monthlyPreflightConfirmed i pc \<and> (\<forall>l'. rv_Preflight sv l' j = Inr ps) \<and> monthlyPreflightConfirmed j ps))"

definition workspace_matches :: "renew_services \<Rightarrow> renewal_state \<Rightarrow> bool" where
  "workspace_matches sv op \<longleftrightarrow>
     (\<forall>l. \<exists>w. rv_Workspace sv l (ro_WorkspaceID op) = Some w \<and> sfield w ''accountId'' = ro_AccountID op \<and>
        sfield w ''computeAllocationId'' = ro_ComputeID op \<and> sfield w ''storageId'' = ro_StorageID op \<and> sfield w ''paidThrough'' = ro_PaidThrough op)"

text \<open>The money: the account's user has the balance, pays what is asked, and has that much less from then on.\<close>

definition money_answers :: "renew_services \<Rightarrow> renewal_state \<Rightarrow> int \<Rightarrow> int \<Rightarrow> bool" where
  "money_answers sv op u before \<longleftrightarrow>
     (\<forall>l. sub2APIUserID (rv_ListAccounts sv l) (ro_AccountID op) = Inr u) \<and> (\<forall>l. rv_WorkspaceKey sv l u = None) \<and>
     (\<forall>l. rv_Balance sv l u = Inr (if fst (renewal_tally l) = 0 then before else before - ro_TotalUSDMicros op)) \<and>
     (\<forall>l i. rv_Charge sv l i = Inr \<lparr>ch_Code = ci_Code i, ch_UserID = ci_UserID i, ch_USDMicros = ci_USDMicros i, ch_Status = ''used''\<rparr>) \<and>
     (\<forall>l i. \<exists>rid. rv_RecordReceipt sv l i = Inr rid \<and> rid \<noteq> [])"

definition renewal_answering :: "renew_services \<Rightarrow> renewal_state \<Rightarrow> int \<Rightarrow> int \<Rightarrow> bool" where
  "renewal_answering sv op u before \<longleftrightarrow>
     (\<forall>l x. rv_PersistWorkspaceRenewal sv l x = None) \<and> (\<forall>l k r. rv_SaveResource sv l k r = None) \<and>
     money_answers sv op u before \<and> resources_ready sv op \<and> workspace_matches sv op \<and>
     (\<forall>l k i key. fst (rv_Renew sv l k i key) = None) \<and> resource_renewed sv op ''compute'' \<and> resource_renewed sv op ''storage''"

section \<open>The operation on its way\<close>

definition plan ::
    "renewal_state \<Rightarrow> (string \<times> string \<times> string \<times> string \<times> int) \<times> (string \<times> string \<times> int \<times> string) \<times> (string \<times> string \<times> string \<times> string)" where
  "plan op = ((ro_ID op, ro_AccountID op, ro_WorkspaceID op, ro_PackageID op, ro_StorageGB op),
     (ro_ComputeID op, ro_StorageID op, ro_TotalUSDMicros op, ro_RedeemCode op),
     (ro_PeriodStart op, ro_PaidThrough op, ro_RenewedThrough op, ro_ExpiryStatus op))"

definition on_way :: "renewal_state \<Rightarrow> string \<Rightarrow> string \<Rightarrow> renewal_state \<Rightarrow> bool" where
  "on_way op status phase p \<longleftrightarrow> plan p = plan op \<and> ro_Status p = status \<and> ro_Phase p = phase"

definition uncharged :: "renewal_state \<Rightarrow> bool" where
  "uncharged p \<longleftrightarrow> \<not> ro_ChargeAttempted p \<and> ro_ChargeConfirmation p = [] \<and> ro_ErrorCode p \<noteq> ''sub2api_charge_unconfirmed''"

lemma same_plan:
  assumes "plan p = plan op"
  shows "ro_ID p = ro_ID op" "ro_AccountID p = ro_AccountID op" "ro_WorkspaceID p = ro_WorkspaceID op" "ro_PackageID p = ro_PackageID op"
    "ro_StorageGB p = ro_StorageGB op" "ro_ComputeID p = ro_ComputeID op" "ro_StorageID p = ro_StorageID op"
    "ro_TotalUSDMicros p = ro_TotalUSDMicros op" "ro_RedeemCode p = ro_RedeemCode op" "ro_PeriodStart p = ro_PeriodStart op"
    "ro_PaidThrough p = ro_PaidThrough op" "ro_RenewedThrough p = ro_RenewedThrough op" "ro_ExpiryStatus p = ro_ExpiryStatus op"
    "resource_of p k = resource_of op k"
  using assms by (simp_all add: plan_def resource_of_def)

lemma same_resources:
  assumes "plan p = plan op"
  shows "workspaceRenewalResources sv p = workspaceRenewalResources sv op"
  unfolding workspaceRenewalResources_def resources_match_def period_of_renewal_def by (simp only: same_plan [OF assms])

text \<open>One step goes on, with so many charges and receipts.\<close>

definition goes :: "renew_services \<Rightarrow> renewal_state \<Rightarrow> rcalls \<Rightarrow> (renewal_state \<Rightarrow> rcalls \<Rightarrow> bool) \<Rightarrow> nat \<Rightarrow> bool" where
  "goes sv p l Q n \<longleftrightarrow> (\<exists>q l'. run_state (renewal_step sv p) l = (Inr q, l') \<and> Q q l' \<and> set l \<subseteq> set l' \<and>
     renewal_tally l' = (fst (renewal_tally l) + n, snd (renewal_tally l)))"

lemma persisted:
  "\<forall>l x. rv_PersistWorkspaceRenewal sv l x = None \<Longrightarrow>
   run_state (persistWorkspaceRenewal sv q p) l = ((q\<lparr>ro_PersistedResult := rv_marshal sv q\<rparr>, []), RPersist q p True # l)"
  by (simp add: persistWorkspaceRenewal_def run_calls)

lemma checked_persisted:
  "\<forall>l x. rv_PersistWorkspaceRenewal sv l x = None \<Longrightarrow>
   run_state (checked (persistWorkspaceRenewal sv q p)) l = (Inr (q\<lparr>ro_PersistedResult := rv_marshal sv q\<rparr>), RPersist q p True # l)"
  by (simp add: checked_def run_then persisted run_ret)

lemma resources_read: "\<exists>l'. run_state (workspaceRenewalResources sv op) l = (fst (run_state (workspaceRenewalResources sv op) l), l') \<and> renewal_tally l' = renewal_tally l \<and> set l \<subseteq> set l'"
  by (auto simp: workspaceRenewalResources_def get_resource_def rpeek_def run_calls)

section \<open>Step by step\<close>

lemmas going = goes_def on_way_def run_then run_ret run_ask rpeek_def rtell_def

lemma answering_writes: "renewal_answering sv op u b \<Longrightarrow> \<forall>l x. rv_PersistWorkspaceRenewal sv l x = None"
  by (simp add: renewal_answering_def)

lemma plan_updates [simp]:
  "plan (p\<lparr>ro_PersistedResult := t\<rparr>) = plan p" "plan (p\<lparr>ro_Status := s\<rparr>) = plan p" "plan (p\<lparr>ro_Phase := s\<rparr>) = plan p"
  "plan (p\<lparr>ro_ErrorCode := t\<rparr>) = plan p" "plan (p\<lparr>ro_ComputePreflightConfirmed := b\<rparr>) = plan p" "plan (p\<lparr>ro_StoragePreflightConfirmed := b\<rparr>) = plan p"
  "plan (p\<lparr>ro_ChargeAttempted := b\<rparr>) = plan p" "plan (p\<lparr>ro_PreChargeBalanceUSDMicros := n\<rparr>) = plan p" "plan (p\<lparr>ro_ChargeConfirmation := c\<rparr>) = plan p"
  "plan (p\<lparr>ro_PostChargeBalanceUSDMicros := n\<rparr>) = plan p" "plan (p\<lparr>ro_PostChargeBalanceKnown := b\<rparr>) = plan p" "plan (p\<lparr>ro_ComputeRenewal := c\<rparr>) = plan p"
  "plan (p\<lparr>ro_StorageRenewal := c\<rparr>) = plan p" "plan (p\<lparr>ro_ComputeReadback := c\<rparr>) = plan p" "plan (p\<lparr>ro_StorageReadback := c\<rparr>) = plan p"
  "plan (p\<lparr>ro_EntitlementCommitted := b\<rparr>) = plan p" "plan (note_readback k c p) = plan p" "plan (p\<lparr>ro_LeaseToken := t\<rparr>) = plan p" "plan (p\<lparr>ro_LeaseExpiresAt := t\<rparr>) = plan p"
  "plan (p\<lparr>ro_ReceiptID := t\<rparr>) = plan p"
  by (simp_all add: plan_def note_readback_def)

lemma go_preflights:
  assumes a: "renewal_answering sv op u b" and p: "on_way op ''claimed'' phase p" "uncharged p"
  shows "phase = ''preflight_compute'' \<Longrightarrow> goes sv p l (\<lambda>q _. on_way op ''claimed'' ''preflight_storage'' q \<and> uncharged q) 0"
    and "phase = ''preflight_storage'' \<Longrightarrow> goes sv p l (\<lambda>q _. on_way op ''debit_pending'' ''debit'' q \<and> uncharged q) 0"
proof -
  note s = same_plan [of p op]
  have pl: "plan p = plan op" "ro_Status p = ''claimed''" "ro_Phase p = phase" using p(1) by (simp_all add: on_way_def)
  obtain l' where r: "run_state (workspaceRenewalResources sv op) l = (fst (run_state (workspaceRenewalResources sv op) l), l')" "renewal_tally l' = renewal_tally l" "set l \<subseteq> set l'"
    using resources_read by blast
  have "resources_ready sv op" using a by (simp add: renewal_answering_def)
  then obtain c s pc ps where ready: "fst (run_state (workspaceRenewalResources sv op) l) = Inr (c, s)"
    and c: "\<forall>l'. rv_Preflight sv l' \<lparr>pfi_ResourceType = ''compute'', pfi_PackageID = ro_PackageID op, pfi_SizeGB = 0, pfi_Zone = sfield c ''zone''\<rparr> = Inr pc"
      "monthlyPreflightConfirmed \<lparr>pfi_ResourceType = ''compute'', pfi_PackageID = ro_PackageID op, pfi_SizeGB = 0, pfi_Zone = sfield c ''zone''\<rparr> pc"
    and st: "\<forall>l'. rv_Preflight sv l' \<lparr>pfi_ResourceType = ''storage'', pfi_PackageID = ro_PackageID op, pfi_SizeGB = ro_StorageGB op, pfi_Zone = sfield s ''zone''\<rparr> = Inr ps"
      "monthlyPreflightConfirmed \<lparr>pfi_ResourceType = ''storage'', pfi_PackageID = ro_PackageID op, pfi_SizeGB = ro_StorageGB op, pfi_Zone = sfield s ''zone''\<rparr> ps"
    unfolding resources_ready_def Let_def by blast
  have read: "run_state (workspaceRenewalResources sv op) l = (Inr (c, s), l')" using r(1) ready by simp
  note run = pl same_plan [OF pl(1)] same_resources [OF pl(1)] read checked_persisted [OF answering_writes [OF a]] r(2)
  show "phase = ''preflight_compute'' \<Longrightarrow> goes sv p l (\<lambda>q _. on_way op ''claimed'' ''preflight_storage'' q \<and> uncharged q) 0"
    using p(2) r(3) by (auto simp: goes_def on_way_def renewal_step_def claimed_step_def preflight_renewal_def rpeek_def uncharged_def run_calls run c)
  show "phase = ''preflight_storage'' \<Longrightarrow> goes sv p l (\<lambda>q _. on_way op ''debit_pending'' ''debit'' q \<and> uncharged q) 0"
    using p(2) r(3) by (auto simp: goes_def on_way_def renewal_step_def claimed_step_def preflight_renewal_def rpeek_def uncharged_def run_calls run st)
qed

lemma confirmation_matches: "code \<noteq> [] \<Longrightarrow> 0 < n \<Longrightarrow>
    monthlyChargeConfirmationMatches (charge_confirmation \<lparr>ch_Code = code, ch_UserID = u, ch_USDMicros = n, ch_Status = ''used''\<rparr>) code u n"
  by (simp add: monthlyChargeConfirmationMatches_def charge_confirmation_def mlen_def sfield_def mget_def str_of_def numberField_def)

lemma go_debit:
  assumes a: "renewal_answering sv op u b" and p: "on_way op ''debit_pending'' ''debit'' p" "uncharged p" and l: "fst (renewal_tally l) = 0"
    and b: "ro_TotalUSDMicros op < b" "0 < ro_TotalUSDMicros op" "b \<le> max_int64" "ro_RedeemCode op \<noteq> []"
  shows "goes sv p l (\<lambda>q _. on_way op ''debited'' ''provider_compute'' q) 1"
proof -
  have pl: "plan p = plan op" "ro_Status p = ''debit_pending''" using p(1) by (simp_all add: on_way_def)
  note same = same_plan [OF pl(1)]
  have m: "money_answers sv op u b" using a by (simp add: renewal_answering_def)
  have w: "wrap64 (b - ro_TotalUSDMicros op) = b - ro_TotalUSDMicros op"
    using b by (intro wrap64_id) (auto simp: int64_range_def max_int64_def min_int64_def)
  have "\<exists>q l'. run_state (debitWorkspaceRenewal sv p) l = ((q, []), l') \<and> on_way op ''debited'' ''provider_compute'' q \<and> set l \<subseteq> set l' \<and>
      renewal_tally l' = (1, snd (renewal_tally l))"
    using m p(2) l b w confirmation_matches [OF b(4,2), of u]
    by (auto simp: debitWorkspaceRenewal_def obtain_renewal_charge_def first_renewal_charge_def settle_renewal_charge_def confirm_renewal_debit_def
        charge_renewal_def renewal_user_def renewal_charge_input_def rpeek_def rtell_def Let_def run_calls money_answers_def uncharged_def same
        persisted [OF answering_writes [OF a]] checked_persisted [OF answering_writes [OF a]] on_way_def pl)
  then show ?thesis by (auto simp: goes_def renewal_step_def pl checked_def run_calls l)
qed

lemma go_debited:
  assumes a: "renewal_answering sv op u b" and p: "on_way op ''debited'' ph p"
  shows "goes sv p l (\<lambda>q _. on_way op ''provider_renewing'' ''provider_compute'' q) 0"
  using p by (auto simp: goes_def on_way_def renewal_step_def Let_def checked_persisted [OF answering_writes [OF a]])

lemma go_renewed:
  assumes a: "renewal_answering sv op u b"
  shows "on_way op ''provider_renewing'' ''provider_compute'' p \<Longrightarrow> goes sv p l (\<lambda>q _. on_way op ''provider_renewing'' ''verify_compute'' q) 0"
    and "on_way op ''provider_renewing'' ''provider_storage'' p \<Longrightarrow> goes sv p l (\<lambda>q _. on_way op ''provider_renewing'' ''verify_storage'' q) 0"
proof -
  have "\<forall>l k i key. fst (rv_Renew sv l k i key) = None" using a by (simp add: renewal_answering_def)
  then have r: "\<exists>m. rv_Renew sv l k i key = (None, m)" for l k i key by (metis prod.collapse)
  show "on_way op ''provider_renewing'' ''provider_compute'' p \<Longrightarrow> goes sv p l (\<lambda>q _. on_way op ''provider_renewing'' ''verify_compute'' q) 0"
    using r [of l "''compute''" "resource_of p ''compute''" "ro_ID p @ '':'' @ ''compute''"]
    by (auto simp: goes_def on_way_def renewal_step_def renewWorkspaceProvider_def renew_resource_def checked_def run_calls persisted [OF answering_writes [OF a]])
  show "on_way op ''provider_renewing'' ''provider_storage'' p \<Longrightarrow> goes sv p l (\<lambda>q _. on_way op ''provider_renewing'' ''verify_storage'' q) 0"
    using r [of l "''storage''" "resource_of p ''storage''" "ro_ID p @ '':'' @ ''storage''"]
    by (auto simp: goes_def on_way_def renewal_step_def renewWorkspaceProvider_def renew_resource_def checked_def run_calls persisted [OF answering_writes [OF a]])
qed

lemma synced:
  assumes "resource_renewed sv op k" "plan p = plan op" "k = ''compute'' \<or> k = ''storage''"
  shows "\<exists>facts row l'. run_state (sync_renewal sv k p) l = ((note_readback k facts p, row, False, True), l') \<and> renewal_tally l' = renewal_tally l \<and> set l \<subseteq> set l'"
proof -
  let ?l' = "RRead ''Sync'' # l"
  obtain facts row old renewed where f: "rv_Sync sv l k (resource_of op k) = (None, facts)"
    "findRecord (rows_of sv k ?l') (resource_of op k) = Some row" "\<not> monthlyResourceConfirmedAbsent k (mergeMaps row facts)"
    "parse_rfc3339 (ro_PaidThrough op) = Some old" "parse_rfc3339 (ro_RenewedThrough op) = Some renewed"
    "monthlyRenewalReadbackConfirmed (rv_env sv) k row (mergeMaps row facts) facts (fst old) (fst renewed)"
    using assms(1) unfolding resource_renewed_def by blast
  have pl: "plan (note_readback k facts p) = plan op" using assms(2) by simp
  have g: "\<exists>l''. run_state (get_resource sv k (resource_of op k)) ?l' = (Some row, l'') \<and> renewal_tally l'' = renewal_tally l \<and> set l \<subseteq> set l''"
    using f(2) assms(3) by (auto simp: get_resource_def rows_of_def rpeek_def run_calls)
  show ?thesis
    using g f assms(3) same_plan [OF assms(2)] same_plan [OF pl]
    by (auto simp: sync_renewal_def workspaceRenewalProviderReadback_def rpeek_def run_calls Let_def)
qed

lemma saved_renewed: "renewal_answering sv op u b \<Longrightarrow> run_state (save_renewed sv k row) l = (None, RSave k row # l)"
  by (simp add: save_renewed_def rtell_def run_calls renewal_answering_def)

lemma go_verified:
  assumes a: "renewal_answering sv op u b"
  shows "on_way op ''provider_renewing'' ''verify_compute'' p \<Longrightarrow> goes sv p l (\<lambda>q _. on_way op ''provider_renewing'' ''provider_storage'' q) 0"
    and "on_way op ''provider_renewing'' ''verify_storage'' p \<Longrightarrow> goes sv p l (\<lambda>q _. on_way op ''verifying'' ''entitlement'' q) 0"
proof -
  have r: "resource_renewed sv op ''compute''" "resource_renewed sv op ''storage''" using a by (simp_all add: renewal_answering_def)
  show "on_way op ''provider_renewing'' ''verify_compute'' p \<Longrightarrow> goes sv p l (\<lambda>q _. on_way op ''provider_renewing'' ''provider_storage'' q) 0"
    using synced [OF r(1), of p l]
    by (auto simp: goes_def on_way_def renewal_step_def renewWorkspaceProvider_def verify_compute_phase_def checked_def run_calls saved_renewed [OF a]
        persisted [OF answering_writes [OF a]])
  show "on_way op ''provider_renewing'' ''verify_storage'' p \<Longrightarrow> goes sv p l (\<lambda>q _. on_way op ''verifying'' ''entitlement'' q) 0"
    using synced [OF r(2), of p l]
    by (auto simp: goes_def on_way_def renewal_step_def renewWorkspaceProvider_def verify_storage_phase_def checked_def run_calls saved_renewed [OF a]
        persisted [OF answering_writes [OF a]])
qed

text \<open>The write that extends the workspace, and the one that ends the renewal.\<close>

definition extended :: "renewal_state \<Rightarrow> rcalls \<Rightarrow> bool" where
  "extended op l \<longleftrightarrow> (\<exists>q patch. RPersist q (Some patch) True \<in> set l \<and> ro_ID q = ro_ID op \<and>
     mget (xp_Fields patch) ''paidThrough'' = GStr (ro_RenewedThrough op))"

definition ended_active :: "renewal_state \<Rightarrow> rcalls \<Rightarrow> bool" where
  "ended_active op l \<longleftrightarrow> (\<exists>q. RPersist q None True \<in> set l \<and> ro_ID q = ro_ID op \<and> ro_Status q = ''active'')"

lemma verified_again:
  assumes a: "renewal_answering sv op u b" and p: "plan p = plan op"
  shows "\<exists>q l'. run_state (verifyWorkspaceRenewalProviderReadback sv p) l = ((q, True), l') \<and> plan q = plan op \<and>
    ro_Status q = ro_Status p \<and> renewal_tally l' = renewal_tally l \<and> set l \<subseteq> set l'"
proof -
  have r: "resource_renewed sv op ''compute''" "resource_renewed sv op ''storage''" using a by (simp_all add: renewal_answering_def)
  have one: "\<exists>q l'. run_state (verify_renewed sv k x) m = ((q, True), l') \<and> plan q = plan op \<and> ro_Status q = ro_Status x \<and> renewal_tally l' = renewal_tally m \<and> set m \<subseteq> set l'"
    if "resource_renewed sv op k" "plan x = plan op" "k = ''compute'' \<or> k = ''storage''" for k x m
    using synced [OF that(1,2,3), of m] that(2)
    by (auto simp: verify_renewed_def run_calls saved_renewed [OF a] note_readback_def)
  obtain q l' where 1: "run_state (verify_renewed sv ''compute'' p) l = ((q, True), l')" "plan q = plan op" "ro_Status q = ro_Status p"
    "renewal_tally l' = renewal_tally l" "set l \<subseteq> set l'"
    using one [OF r(1) p, of l] by auto
  obtain q' l'' where 2: "run_state (verify_renewed sv ''storage'' q) l' = ((q', True), l'')" "plan q' = plan op" "ro_Status q' = ro_Status q"
    "renewal_tally l'' = renewal_tally l'" "set l' \<subseteq> set l''"
    using one [OF r(2) 1(2), of l'] by auto
  show ?thesis using 1 2 by (auto simp: verifyWorkspaceRenewalProviderReadback_def run_calls)
qed

lemma go_entitled:
  assumes a: "renewal_answering sv op u b" and p: "on_way op ''verifying'' ''entitlement'' p" and e: "ro_ExpiryStatus op = []"
  shows "goes sv p l (\<lambda>q l'. on_way op ''verifying'' ''receipt'' q \<and> extended op l') 0"
proof -
  have pl: "plan p = plan op" "ro_Status p = ''verifying''" "ro_Phase p = ''entitlement''" using p by (simp_all add: on_way_def)
  obtain q m where v: "run_state (verifyWorkspaceRenewalProviderReadback sv p) l = ((q, True), m)" "plan q = plan op" "renewal_tally m = renewal_tally l" "set l \<subseteq> set m"
    using verified_again [OF a pl(1), of l] by auto
  note same = same_plan [OF v(2)]
  have "workspace_matches sv op" using a by (simp add: renewal_answering_def)
  then obtain w where w: "rv_Workspace sv m (ro_WorkspaceID op) = Some w" "sfield w ''accountId'' = ro_AccountID op"
    "sfield w ''computeAllocationId'' = ro_ComputeID op" "sfield w ''storageId'' = ro_StorageID op" "sfield w ''paidThrough'' = ro_PaidThrough op"
    unfolding workspace_matches_def by blast
  have "resource_renewed sv op ''compute''" using a by (simp add: renewal_answering_def)
  then obtain renewed where t: "parse_rfc3339 (ro_RenewedThrough op) = Some renewed" unfolding resource_renewed_def by blast
  have nc: "\<not> renewal_covers_expiry q" using e same by (simp add: renewal_covers_expiry_def)
  let ?q = "q\<lparr>ro_Status := ''verifying'', ro_Phase := ''receipt'', ro_EntitlementCommitted := True\<rparr>"
  let ?patch = "\<lparr>xp_ExpectedPaidThrough = ro_PaidThrough q, xp_ExpectedFields = [], xp_Fields = entitlement_fields q renewed\<rparr>"
  have ew: "entitlement_write q w renewed = (?q, ?patch)" using nc by (simp add: entitlement_write_def Let_def)
  have paid: "mget (entitlement_fields q renewed) ''paidThrough'' = GStr (ro_RenewedThrough op)" by (simp add: entitlement_fields_def mget_def same)
  have c: "run_state (commitWorkspaceRenewalEntitlement sv q) m = ((?q\<lparr>ro_PersistedResult := rv_marshal sv ?q\<rparr>, []), RPersist ?q (Some ?patch) True # RRead ''Workspace'' # m)"
    using w t nc by (simp add: commitWorkspaceRenewalEntitlement_def rpeek_def run_calls same ew persisted [OF answering_writes [OF a]])
  have x: "extended op (RPersist ?q (Some ?patch) True # RRead ''Workspace'' # m)"
    unfolding extended_def by (intro exI [of _ ?q] exI [of _ ?patch]) (simp add: paid same)
  show ?thesis
    unfolding goes_def
    using v(2,3,4) x by (auto simp: renewal_step_def verifying_step_def checked_def run_calls pl v(1) c on_way_def)
qed

lemma go_receipt:
  assumes a: "renewal_answering sv op u b" and p: "on_way op ''verifying'' ''receipt'' p"
  shows "\<exists>q l'. run_state (renewal_step sv p) l = (Inl (q, []), l') \<and> ended_active op l' \<and> set l \<subseteq> set l' \<and>
    renewal_tally l' = (fst (renewal_tally l), Suc (snd (renewal_tally l)))"
proof -
  have pl: "plan p = plan op" "ro_Status p = ''verifying''" "ro_Phase p = ''receipt''" using p by (simp_all add: on_way_def)
  have m: "money_answers sv op u b" using a by (simp add: renewal_answering_def)
  let ?m = "RRead ''ListAccounts'' # l"
  let ?i = "renewed_receipt p u"
  obtain rid where rid: "rv_RecordReceipt sv ?m ?i = Inr rid" "rid \<noteq> []" using m unfolding money_answers_def by blast
  let ?q = "releaseWorkspaceRenewalLease (p\<lparr>ro_ReceiptID := rid, ro_Status := ''active'', ro_Phase := ''complete'', ro_ErrorCode := []\<rparr>)"
  have r: "run_state (recordWorkspaceRenewalReceipt sv p) l = ((?q\<lparr>ro_PersistedResult := rv_marshal sv ?q\<rparr>, []), RPersist ?q None True # RReceipt ?i # ?m)"
    using m rid same_plan [OF pl(1)]
    by (simp add: recordWorkspaceRenewalReceipt_def renewal_user_def send_receipt_def rpeek_def rtell_def run_calls money_answers_def end_renewal_def
        persisted [OF answering_writes [OF a]])
  have "ended_active op (RPersist ?q None True # RReceipt ?i # ?m)"
    unfolding ended_active_def by (rule exI [of _ ?q]) (simp add: releaseWorkspaceRenewalLease_def same_plan [OF pl(1)])
  then show ?thesis by (auto simp: renewal_step_def verifying_step_def leave_def run_calls pl r)
qed

section \<open>The run\<close>

lemma go_on:
  assumes "goes sv p l Q n"
    and "\<And>q l'. Q q l' \<Longrightarrow> set l \<subseteq> set l' \<Longrightarrow> renewal_tally l' = (fst (renewal_tally l) + n, snd (renewal_tally l)) \<Longrightarrow>
      \<exists>q' m. run_state (renewal_rounds k sv q) l' = ((q', []), m) \<and> G m"
  shows "\<exists>q' m. run_state (renewal_rounds (Suc k) sv p) l = ((q', []), m) \<and> G m"
  using assms unfolding goes_def by (fastforce simp: run_then)

lemma go_end:
  assumes "\<exists>q l'. run_state (renewal_step sv p) l = (Inl (q, []), l') \<and> R l'" and "\<And>l'. R l' \<Longrightarrow> G l'"
  shows "\<exists>q' m. run_state (renewal_rounds (Suc k) sv p) l = ((q', []), m) \<and> G m"
  using assms by (auto simp: run_calls)

lemma extended_mono: "extended op l \<Longrightarrow> set l \<subseteq> set l' \<Longrightarrow> extended op l'"
  unfolding extended_def by blast

lemma renewal_runs_through:
  assumes a: "renewal_answering sv op u b" and p: "on_way op ''claimed'' ''preflight_compute'' p" "uncharged p" and l: "renewal_tally l = (0, 0)"
    and b: "ro_TotalUSDMicros op < b" "0 < ro_TotalUSDMicros op" "b \<le> max_int64" "ro_RedeemCode op \<noteq> []" and e: "ro_ExpiryStatus op = []"
  shows "\<exists>q l'. run_state (renewal_rounds 16 sv p) l = ((q, []), l') \<and> (renewal_tally l' = (1, 1) \<and> extended op l' \<and> ended_active op l')"
proof -
  have "\<exists>q l'. run_state (renewal_rounds (Suc (Suc (Suc (Suc (Suc (Suc (Suc (Suc (Suc (Suc k)))))))))) sv p) l = ((q, []), l') \<and>
      (renewal_tally l' = (1, 1) \<and> extended op l' \<and> ended_active op l')" for k
    apply (rule go_on [OF go_preflights(1) [OF a p]], rule refl)
    apply (erule conjE, rule go_on [OF go_preflights(2) [OF a]], assumption, assumption, rule refl)
    apply (erule conjE, rule go_on [OF go_debit [OF a _ _ _ b]], assumption, assumption, simp add: l)
    apply (rule go_on [OF go_debited [OF a]], assumption)
    apply (rule go_on [OF go_renewed(1) [OF a]], assumption)
    apply (rule go_on [OF go_verified(1) [OF a]], assumption)
    apply (rule go_on [OF go_renewed(2) [OF a]], assumption)
    apply (rule go_on [OF go_verified(2) [OF a]], assumption)
    apply (rule go_on [OF go_entitled [OF a _ e]], assumption)
    apply (erule conjE, rule go_end [OF go_receipt [OF a]], assumption)
    apply (auto simp: l elim: extended_mono)
    done
  from this [of 6] show ?thesis by (simp add: numeral_eq_Suc del: renewal_rounds.simps)
qed

section \<open>The worker\<close>

lemma pick_none: "list_all (\<lambda>row. sfield row ''action'' \<noteq> ''workspace.renewal'' \<or> sfield row ''workspaceId'' \<noteq> w) rows \<Longrightarrow>
    pick_renewal sv w t i None rows = Inr None"
  by (induction rows) auto

lemma new_renewal:
  assumes "newWorkspaceRenewalOperation sv w now = Some op"
  shows "on_way op ''claimed'' ''preflight_compute'' op" "uncharged op" "ro_ExpiryStatus op = []" "ro_LeaseExpiresAt op = []" "0 < ro_TotalUSDMicros op"
    "ro_RedeemCode op \<noteq> []"
proof -
  obtain paid where op: "op = (fresh_renewal sv w now paid)\<lparr>ro_RequestHash := renewal_request_hash (rv_sha sv) (fresh_renewal sv w now paid)\<rparr>"
    "renewal_complete op"
    using assms unfolding newWorkspaceRenewalOperation_def Let_def by (auto split: option.splits if_splits)
  show "on_way op ''claimed'' ''preflight_compute'' op" "uncharged op" "ro_ExpiryStatus op = []" "ro_LeaseExpiresAt op = []" "ro_RedeemCode op \<noteq> []"
    unfolding op(1) by (simp_all add: on_way_def uncharged_def fresh_renewal_def Let_def monthlyRedeemCode_def)
  show "0 < ro_TotalUSDMicros op" using op(2) by (simp add: renewal_complete_def)
qed

lemma worked:
  assumes "renewal_answering sv op u b" "on_way op ''claimed'' ''preflight_compute'' p" "uncharged p" "renewal_tally l = (0, 0)"
    "ro_TotalUSDMicros op < b" "0 < ro_TotalUSDMicros op" "b \<le> max_int64" "ro_RedeemCode op \<noteq> []" "ro_ExpiryStatus op = []"
  shows "\<exists>l'. run_state (work_renewal sv p False) l = ([], l') \<and> renewal_tally l' = (1, 1) \<and> extended op l' \<and> ended_active op l'"
proof -
  obtain q m where r: "run_state (renewal_rounds 16 sv p) l = ((q, []), m)" "renewal_tally m = (1, 1)" "extended op m" "ended_active op m"
    using renewal_runs_through [OF assms] by blast
  have st: "ro_Status p = ''claimed''" using assms(2) by (simp add: on_way_def)
  have run: "run_state (runWorkspaceRenewal sv p) l = ([], m)" by (simp add: runWorkspaceRenewal_def run_calls r(1))
  have x: "extended op (RRead s # m)" "ended_active op (RRead s # m)" for s using r(3,4) by (auto simp: extended_def ended_active_def)
  show ?thesis
    by (simp add: work_renewal_def Let_def progress_and_reload_def reload_renewal_def loadWorkspaceRenewalOperation_def rpeek_def run_calls st run r(2) x)
qed

definition due_for_renewal :: "renew_services \<Rightarrow> string \<Rightarrow> gomap \<Rightarrow> instant \<Rightarrow> bool" where
  "due_for_renewal sv w workspace now \<longleftrightarrow>
     (\<forall>l. rv_Workspace sv l w = Some workspace) \<and> mget workspace ''autoRenew'' = GBool True \<and>
     (\<exists>paid. parse_rfc3339 (sfield workspace ''paidThrough'') = Some paid \<and> fst paid - monthlyRenewalLead \<le> now \<and> now < fst paid) \<and>
     (\<forall>l. \<exists>rows. rv_ListRuntimeOperations sv l = Some rows \<and>
        list_all (\<lambda>row. sfield row ''action'' \<noteq> ''workspace.renewal'' \<or> sfield row ''workspaceId'' \<noteq> w) rows)"

lemma process_completes:
  assumes d: "due_for_renewal sv w workspace now" and new: "newWorkspaceRenewalOperation sv workspace now = Some op"
    and c: "\<forall>l c. rv_ClaimWorkspaceRenewal sv l c = None" and l: "renewal_tally l = (0, 0)"
    and a: "renewal_answering sv op u before" "ro_TotalUSDMicros op < before" "before \<le> max_int64"
  shows "\<exists>log. run_state (processWorkspaceRenewal sv w now) l = ([], log) \<and> renewal_tally log = (1, 1) \<and> extended op log \<and> ended_active op log"
proof -
  note n = new_renewal [OF new]
  obtain paid where t: "parse_rfc3339 (sfield workspace ''paidThrough'') = Some paid" "fst paid - monthlyRenewalLead \<le> now" "now < fst paid"
    using d unfolding due_for_renewal_def by blast
  obtain rows where rows: "rv_ListRuntimeOperations sv (RRead ''Workspace'' # l) = Some rows"
    "list_all (\<lambda>row. sfield row ''action'' \<noteq> ''workspace.renewal'' \<or> sfield row ''workspaceId'' \<noteq> w) rows"
    using d unfolding due_for_renewal_def by blast
  have w: "rv_Workspace sv l w = Some workspace" for l using d by (simp add: due_for_renewal_def)
  have due: "renewal_due sv w workspace paid rows now = Inr (Some op)"
    using d t new by (simp add: renewal_due_def pick_none [OF rows(2)] Let_def due_for_renewal_def)
  let ?m = "RRead ''ListRuntimeOperations'' # RRead ''Workspace'' # l"
  let ?op = "lease_renewal sv op now (rv_now sv ?m)"
  let ?p = "?op\<lparr>ro_PersistedResult := rv_marshal sv ?op\<rparr>"
  have p: "on_way op ''claimed'' ''preflight_compute'' ?p" "uncharged ?p"
    using n(1,2) by (simp_all add: on_way_def lease_renewal_def uncharged_def)
  obtain l' where l': "run_state (work_renewal sv ?p False) (RClaim ?op True # RRead ''Now'' # ?m) = ([], l')" "renewal_tally l' = (1, 1)"
    "extended op l'" "ended_active op l'"
    using worked [OF a(1) p _ a(2) n(5) a(3) n(6,3), of "RClaim ?op True # RRead ''Now'' # ?m"] l by auto
  have attempt: "run_state (renewal_attempt sv w now) l = (Some [], l')"
    using t rows c l'(1) n(4)
    by (simp add: renewal_attempt_def rpeek_def run_calls w due renewal_leased_def claim_and_work_def Let_def)
  show ?thesis
    using l'(2-4) by (simp add: processWorkspaceRenewal_def numeral_eq_Suc run_calls attempt)
qed

text \<open>C8: A workspace that renews automatically and is due within a day is renewed: when sub2api, the Fabric, the Ledger and
  the tables answer as they should and the balance exceeds the price, the worker charges once, extends the workspace to
  the end of the next period, leaves one receipt and ends the operation as active, without an error.\<close>

theorem renewal_completes:
  assumes "due_for_renewal sv w workspace now" and "newWorkspaceRenewalOperation sv workspace now = Some op"
    and "\<forall>l c. rv_ClaimWorkspaceRenewal sv l c = None"
    and "renewal_answering sv op u before" and "ro_TotalUSDMicros op < before" and "before \<le> max_int64"
  shows "\<exists>log. run_state (processWorkspaceRenewal sv w now) [] = ([], log) \<and> renewal_tally log = (1, 1) \<and> extended op log \<and> ended_active op log"
  using process_completes [OF assms(1-3) _ assms(4-6)] by simp

end
