(* ===== verification/CP_Renewal_Example.thy ===== *)
theory CP_Renewal_Example
  imports CP_Renewal_Live CP_Pricing_Facts
begin

text \<open>
  A workspace that is due in a world in which every service does its work; used to show that what is
  supposed of lives of renewals can hold.
\<close>

section \<open>The world\<close>

definition due_now :: instant where "due_now = date_ns 2026 8 14 10 0 0 0"

definition due_env :: environment where
  "due_env = \<lparr>NODE_ENV = ''test'', OPL_TENCENT_ZONE = ''z1'', OPL_PRO_COMPUTE_INSTANCE_TYPE = ''L'', OPL_BASIC_COMPUTE_INSTANCE_TYPE = ''S''\<rparr>"

abbreviation due_sha :: "string \<Rightarrow> string" where "due_sha \<equiv> \<lambda>_. ''d''"

definition due_workspace :: gomap where
  "due_workspace =
     [(''id'', GStr ''ws1''), (''accountId'', GStr ''a1''), (''ownerUserId'', GStr ''u1''), (''state'', GStr ''running''), (''status'', GStr ''running''),
      (''autoRenew'', GBool True), (''authorizedBy'', GStr ''u1''), (''authorizedAt'', GStr ''2026-07-15T00:00:00Z''), (''packageId'', GStr ''basic''),
      (''storageGb'', GInt 10), (''priceVersion'', GStr pricingCatalogVersion), (''currency'', GStr pricingCurrency), (''billingUnit'', GStr pricingBillingUnit),
      (''computeUsdMicros'', GInt 50000000), (''storageUsdMicros'', GInt 2580000), (''totalUsdMicros'', GInt 52580000),
      (''periodStart'', GStr ''2026-07-15T00:00:00Z''), (''paidThrough'', GStr ''2026-08-15T00:00:00Z''), (''nextRenewalAt'', GStr ''2026-08-14T00:00:00Z''),
      (''billingAnchorDay'', GInt 15), (''renewalStatus'', GStr ''active''), (''computeAllocationId'', GStr ''c1''), (''storageId'', GStr ''s1''),
      (''currentComputeAllocationId'', GStr ''c1'')]"

definition due_resource :: "string \<Rightarrow> string \<Rightarrow> string \<Rightarrow> gomap" where
  "due_resource k deadline renewal =
     [(''id'', GStr (if k = ''storage'' then ''s1'' else ''c1'')), (''accountId'', GStr ''a1''), (''workspaceId'', GStr ''ws1''),
      (''packageId'', GStr ''basic''), (''status'', GStr (if k = ''storage'' then ''available'' else ''running'')),
      (''providerResourceId'', GStr (if k = ''storage'' then ''disk-1'' else ''ins-1'')), (''providerRequestId'', GStr ''r1''),
      (''deadline'', GStr deadline), (''zone'', GStr ''z1''), (''chargeType'', GStr ''PREPAID''), (''renewFlag'', GStr ''NOTIFY_AND_MANUAL_RENEW''),
      (''providerData'', GObj [(''instanceType'', GStr ''S''), (''renewalResult'', GStr renewal)])] @
     (if k = ''storage'' then [(''diskType'', GStr ''CLOUD''), (''cbsStatus'', GStr ''ATTACHED''), (''sizeGb'', GInt 10), (''computeAllocationId'', GStr ''c1'')]
      else [(''instanceId'', GStr ''ins-1''), (''instanceType'', GStr ''S'')])"

definition due_preflight :: "preflight_input \<Rightarrow> preflight" where
  "due_preflight i =
     \<lparr>pf_ResourceType = pfi_ResourceType i, pf_PackageID = pfi_PackageID i, pf_SizeGB = pfi_SizeGB i, pf_Zone = pfi_Zone i,
      pf_NodePoolID = ''np1'', pf_Available = True, pf_ChargeType = ''PREPAID'', pf_PeriodMonths = 1,
      pf_RenewFlag = ''NOTIFY_AND_MANUAL_RENEW'', pf_ProviderPriceCNY = FFin 1 0,
      pf_ProviderRequestIDs = map (\<lambda>k. (k, ''q'')) [''quota'', ''price'', ''nodePool'', ''subnets'', ''availability'']\<rparr>"

definition due_account :: gomap where
  "due_account = [(''id'', GStr ''a1''), (''ownerUserId'', GStr ''u1''), (''status'', GStr ''active''), (''sub2apiUserId'', GInt 7)]"

definition due_sv :: renew_services where
  "due_sv = \<lparr>rv_env = due_env, rv_sha = due_sha, rv_json = (\<lambda>_. []), rv_marshal = (\<lambda>_. ''stored''), rv_unmarshal = (\<lambda>_. None), rv_now = (\<lambda>_. due_now),
     rv_ListWorkspaces = (\<lambda>_. Some [due_workspace]), rv_Workspace = (\<lambda>_ _. Some due_workspace),
     rv_ListComputes = (\<lambda>_. [due_resource ''compute'' ''2026-08-15T00:00:00Z'' []]), rv_ListStorages = (\<lambda>_. [due_resource ''storage'' ''2026-08-15T00:00:00Z'' []]),
     rv_ListAccounts = (\<lambda>_. Some [due_account]), rv_ListRuntimeOperations = (\<lambda>_. Some []), rv_ClaimWorkspaceRenewal = (\<lambda>_ _. None),
     rv_PersistWorkspaceRenewal = (\<lambda>_ _. None), rv_SaveResource = (\<lambda>_ _ _. None), rv_WorkspaceKey = (\<lambda>_ _. None),
     rv_Balance = (\<lambda>l _. Inr (if fst (renewal_tally l) = 0 then 100000000 else 47420000)), rv_BalanceHistory = (\<lambda>_ _. Inr []),
     rv_Charge = (\<lambda>_ i. Inr \<lparr>ch_Code = ci_Code i, ch_UserID = ci_UserID i, ch_USDMicros = ci_USDMicros i, ch_Status = ''used''\<rparr>),
     rv_Refund = (\<lambda>_ i. Inr \<lparr>ch_Code = ci_Code i, ch_UserID = ci_UserID i, ch_USDMicros = ci_USDMicros i, ch_Status = ''used''\<rparr>),
     rv_Preflight = (\<lambda>_ i. Inr (due_preflight i)), rv_Renew = (\<lambda>_ _ _ _. (None, [])),
     rv_Sync = (\<lambda>_ k _. (None, due_resource k ''2026-09-15T00:00:00Z'' ''renewed'')), rv_RecordReceipt = (\<lambda>_ _. Inr ''receipt-1'')\<rparr>"

section \<open>Times\<close>

lemma pad_nat_numeral: "pad_nat (numeral k) n = pad_nat (pred_numeral k) (n div 10) @ [digit_char (n mod 10)]"
  by (simp only: numeral_eq_Suc [of k] pad_nat.simps)

lemma due_digits:
  "digit_char 0 = CHR ''0''" "digit_char 1 = CHR ''1''" "digit_char (Suc 0) = CHR ''1''" "digit_char 2 = CHR ''2''" "digit_char 5 = CHR ''5''" "digit_char 6 = CHR ''6''"
  "digit_char 8 = CHR ''8''" "digit_char 9 = CHR ''9''"
  by code_simp+

lemmas reading_times = parse_rfc3339_def get_num_def expect_def get_hour_def get_frac_def get_zone_def read_nat_def digit_val_def is_digit_def Let_def

lemma due_dates: "valid_date 2026 7 15" "valid_date 2026 8 14" "valid_date 2026 8 15" "valid_date 2026 9 15"
  by code_simp+

lemma due_times:
  "parse_rfc3339 ''2026-07-15T00:00:00Z'' = Some (date_ns 2026 7 15 0 0 0 0, 0)" "parse_rfc3339 ''2026-08-14T00:00:00Z'' = Some (date_ns 2026 8 14 0 0 0 0, 0)"
  "parse_rfc3339 ''2026-08-15T00:00:00Z'' = Some (date_ns 2026 8 15 0 0 0 0, 0)" "parse_rfc3339 ''2026-09-15T00:00:00Z'' = Some (date_ns 2026 9 15 0 0 0 0, 0)"
  by (simp_all add: reading_times due_dates)

lemma due_fields:
  "time_year (date_ns 2026 8 15 0 0 0 0) = 2026" "time_month (date_ns 2026 8 15 0 0 0 0) = 8" "time_day (date_ns 2026 8 15 0 0 0 0) = 15"
  "time_hour (date_ns 2026 8 15 0 0 0 0) = 0" "time_minute (date_ns 2026 8 15 0 0 0 0) = 0" "time_second (date_ns 2026 8 15 0 0 0 0) = 0"
  "time_nanos (date_ns 2026 8 15 0 0 0 0) = 0"
  "time_year (date_ns 2026 9 15 0 0 0 0) = 2026" "time_month (date_ns 2026 9 15 0 0 0 0) = 9" "time_day (date_ns 2026 9 15 0 0 0 0) = 15"
  "time_hour (date_ns 2026 9 15 0 0 0 0) = 0" "time_minute (date_ns 2026 9 15 0 0 0 0) = 0" "time_second (date_ns 2026 9 15 0 0 0 0) = 0"
  "time_nanos (date_ns 2026 9 15 0 0 0 0) = 0"
  by code_simp+

lemma due_texts: "format_rfc3339nano (date_ns 2026 8 15 0 0 0 0) = ''2026-08-15T00:00:00Z''" "format_rfc3339nano (date_ns 2026 9 15 0 0 0 0) = ''2026-09-15T00:00:00Z''"
  by (simp_all add: format_rfc3339nano_def local_text_def due_fields frac_text_def pad_nat_numeral due_digits)

lemma due_next: "nextBillingMonth (date_ns 2026 8 15 0 0 0 0) 15 = date_ns 2026 9 15 0 0 0 0"
  by code_simp

section \<open>The operation\<close>

definition due_op :: renewal_state where
  "due_op = (case newWorkspaceRenewalOperation due_sv due_workspace due_now of Some op \<Rightarrow> op)"

lemma due_sv_simps [simp]:
  "rv_env due_sv = due_env" "rv_sha due_sv = due_sha" "rv_marshal due_sv p = ''stored''" "rv_now due_sv l = due_now"
  "rv_ListWorkspaces due_sv l = Some [due_workspace]" "rv_Workspace due_sv l w = Some due_workspace"
  "rv_ListRuntimeOperations due_sv l = Some []" "rv_ClaimWorkspaceRenewal due_sv l c = None" "rv_PersistWorkspaceRenewal due_sv l u = None"
  "rv_SaveResource due_sv l k r = None" "rv_WorkspaceKey due_sv l n = None" "rv_ListAccounts due_sv l = Some [due_account]"
  by (simp_all add: due_sv_def)

lemma due_row:
  "sfield due_workspace ''id'' = ''ws1''" "sfield due_workspace ''accountId'' = ''a1''" "sfield due_workspace ''ownerUserId'' = ''u1''"
  "sfield due_workspace ''packageId'' = ''basic''" "sfield due_workspace ''computeAllocationId'' = ''c1''" "sfield due_workspace ''storageId'' = ''s1''"
  "sfield due_workspace ''paidThrough'' = ''2026-08-15T00:00:00Z''" "sfield due_workspace ''periodStart'' = ''2026-07-15T00:00:00Z''"
  "mget due_workspace ''autoRenew'' = GBool True"
  by code_simp+

lemma due_numbers:
  "number_int due_workspace ''storageGb'' n = 10" "number_int due_workspace ''computeUsdMicros'' n = 50000000" "number_int due_workspace ''storageUsdMicros'' n = 2580000"
  "number_int due_workspace ''totalUsdMicros'' n = 52580000" "number_int due_workspace ''billingAnchorDay'' n = 15"
  by (simp_all add: due_workspace_def number_int_def numberField_def mget_def)

lemma due_fresh:
  "ro_AccountID (fresh_renewal due_sv due_workspace due_now (date_ns 2026 8 15 0 0 0 0, 0)) = ''a1''"
  "renewal_complete (fresh_renewal due_sv due_workspace due_now (date_ns 2026 8 15 0 0 0 0, 0))"
  by (simp_all add: fresh_renewal_def Let_def renewal_complete_def due_row due_numbers)

lemma due_created: "newWorkspaceRenewalOperation due_sv due_workspace due_now = Some due_op"
proof -
  have "newWorkspaceRenewalOperation due_sv due_workspace due_now \<noteq> None"
    using due_fresh(2) by (simp add: newWorkspaceRenewalOperation_def due_row due_times Let_def renewal_complete_def)
  then show ?thesis by (auto simp: due_op_def)
qed

lemma due_op_simps [simp]:
  "ro_AccountID due_op = ''a1''" "ro_WorkspaceID due_op = ''ws1''" "ro_PackageID due_op = ''basic''" "ro_StorageGB due_op = 10"
  "ro_ComputeID due_op = ''c1''" "ro_StorageID due_op = ''s1''" "ro_TotalUSDMicros due_op = 52580000" "ro_PaidThrough due_op = ''2026-08-15T00:00:00Z''"
  "ro_RenewedThrough due_op = ''2026-09-15T00:00:00Z''" "ro_PeriodStart due_op = ''2026-07-15T00:00:00Z''" "ro_RequestHash due_op = ''d''"
proof -
  let ?f = "fresh_renewal due_sv due_workspace due_now (date_ns 2026 8 15 0 0 0 0, 0)"
  have op: "due_op = ?f\<lparr>ro_RequestHash := renewal_request_hash due_sha ?f\<rparr>"
    using due_created by (simp add: newWorkspaceRenewalOperation_def due_row due_times Let_def split: if_splits)
  show "ro_AccountID due_op = ''a1''" "ro_WorkspaceID due_op = ''ws1''" "ro_PackageID due_op = ''basic''" "ro_StorageGB due_op = 10"
    "ro_ComputeID due_op = ''c1''" "ro_StorageID due_op = ''s1''" "ro_TotalUSDMicros due_op = 52580000" "ro_PaidThrough due_op = ''2026-08-15T00:00:00Z''"
    "ro_RenewedThrough due_op = ''2026-09-15T00:00:00Z''" "ro_PeriodStart due_op = ''2026-07-15T00:00:00Z''" "ro_RequestHash due_op = ''d''"
    unfolding op by (simp_all add: fresh_renewal_def Let_def due_row due_numbers renewal_anchor_def due_texts due_next renewal_request_hash_def stableID_def)
qed

lemma due_mapped: "sub2APIUserID (Some [due_account]) ''a1'' = Inr 7"
  by code_simp

lemma due_is_due: "due_for_renewal due_sv ''ws1'' due_workspace due_now"
proof -
  have "date_ns 2026 8 15 0 0 0 0 - monthlyRenewalLead \<le> due_now" "due_now < date_ns 2026 8 15 0 0 0 0"
    by code_simp+
  then show ?thesis by (simp add: due_for_renewal_def due_times due_row)
qed

lemma due_rows:
  "rv_ListComputes due_sv l = [due_resource ''compute'' ''2026-08-15T00:00:00Z'' []]" "rv_ListStorages due_sv l = [due_resource ''storage'' ''2026-08-15T00:00:00Z'' []]"
  "findRecord [due_resource ''compute'' ''2026-08-15T00:00:00Z'' []] ''c1'' = Some (due_resource ''compute'' ''2026-08-15T00:00:00Z'' [])"
  "findRecord [due_resource ''storage'' ''2026-08-15T00:00:00Z'' []] ''s1'' = Some (due_resource ''storage'' ''2026-08-15T00:00:00Z'' [])"
  by (simp_all add: due_sv_def) code_simp+

lemma due_renewed: "k = ''compute'' \<or> k = ''storage'' \<Longrightarrow> resource_renewed due_sv due_op k"
proof -
  have c: "\<not> monthlyResourceConfirmedAbsent ''compute'' (mergeMaps (due_resource ''compute'' ''2026-08-15T00:00:00Z'' []) (due_resource ''compute'' ''2026-09-15T00:00:00Z'' ''renewed''))"
    "monthlyRenewalReadbackConfirmed due_env ''compute'' (due_resource ''compute'' ''2026-08-15T00:00:00Z'' [])
       (mergeMaps (due_resource ''compute'' ''2026-08-15T00:00:00Z'' []) (due_resource ''compute'' ''2026-09-15T00:00:00Z'' ''renewed''))
       (due_resource ''compute'' ''2026-09-15T00:00:00Z'' ''renewed'') (date_ns 2026 8 15 0 0 0 0) (date_ns 2026 9 15 0 0 0 0)"
    by code_simp+
  have s: "\<not> monthlyResourceConfirmedAbsent ''storage'' (mergeMaps (due_resource ''storage'' ''2026-08-15T00:00:00Z'' []) (due_resource ''storage'' ''2026-09-15T00:00:00Z'' ''renewed''))"
    "monthlyRenewalReadbackConfirmed due_env ''storage'' (due_resource ''storage'' ''2026-08-15T00:00:00Z'' [])
       (mergeMaps (due_resource ''storage'' ''2026-08-15T00:00:00Z'' []) (due_resource ''storage'' ''2026-09-15T00:00:00Z'' ''renewed''))
       (due_resource ''storage'' ''2026-09-15T00:00:00Z'' ''renewed'') (date_ns 2026 8 15 0 0 0 0) (date_ns 2026 9 15 0 0 0 0)"
    by code_simp+
  have y: "rv_Sync due_sv l k i = (None, due_resource k ''2026-09-15T00:00:00Z'' ''renewed'')" for l k i by (simp add: due_sv_def)
  show "k = ''compute'' \<or> k = ''storage'' \<Longrightarrow> resource_renewed due_sv due_op k"
    by (elim disjE) (simp_all add: resource_renewed_def rows_of_def resource_of_def due_rows y due_times c s)
qed

lemma due_ready: "resources_ready due_sv due_op"
proof -
  let ?c = "due_resource ''compute'' ''2026-08-15T00:00:00Z'' []" and ?s = "due_resource ''storage'' ''2026-08-15T00:00:00Z'' []"
  have m: "resources_match due_op ?c ?s"
    by (simp add: resources_match_def) code_simp
  have t: "monthlyRenewalProviderTruth due_env k (mset_key ''paidThrough'' (GStr ''2026-08-15T00:00:00Z'') (mset_key ''periodStart'' (GStr ''2026-07-15T00:00:00Z'')
      (due_resource k ''2026-08-15T00:00:00Z'' []))) \<noteq> None" if "k = ''compute'' \<or> k = ''storage''" for k
    using that by (elim disjE) (hypsubst, code_simp)+
  have ok: "resources_match due_op ?c ?s" "monthlyRenewalProviderTruth due_env ''compute'' (period_of_renewal due_op ?c) \<noteq> None"
    "monthlyRenewalProviderTruth due_env ''storage'' (period_of_renewal due_op ?s) \<noteq> None"
    using m t by (simp_all add: period_of_renewal_def)
  have r: "fst (run_state (workspaceRenewalResources due_sv due_op) l) = Inr (?c, ?s)" for l
    using ok by (simp add: workspaceRenewalResources_def get_resource_def rpeek_def run_calls due_rows)
  have p: "rv_Preflight due_sv l i = Inr (due_preflight i)" for l i by (simp add: due_sv_def)
  have z: "sfield ?c ''zone'' = ''z1''" "sfield ?s ''zone'' = ''z1''" by code_simp+
  have pf: "monthlyPreflightConfirmed i (due_preflight i)"
    if "i = \<lparr>pfi_ResourceType = ''compute'', pfi_PackageID = ''basic'', pfi_SizeGB = 0, pfi_Zone = ''z1''\<rparr> \<or>
        i = \<lparr>pfi_ResourceType = ''storage'', pfi_PackageID = ''basic'', pfi_SizeGB = 10, pfi_Zone = ''z1''\<rparr>" for i
    using that by (elim disjE) (hypsubst, code_simp)+
  show ?thesis by (simp add: resources_ready_def r p z pf Let_def)
qed

lemma due_answering: "renewal_answering due_sv due_op 7 100000000"
proof -
  have "workspace_matches due_sv due_op"
    by (simp add: workspace_matches_def due_row)
  moreover have "money_answers due_sv due_op 7 100000000"
    by (simp add: money_answers_def due_mapped) (simp add: due_sv_def)
  ultimately show ?thesis
    by (simp add: renewal_answering_def due_ready due_renewed) (simp add: due_sv_def)
qed

theorem renewal_completes_witness:
  "\<exists>log. run_state (processWorkspaceRenewal due_sv ''ws1'' due_now) [] = ([], log) \<and> renewal_tally log = (1, 1) \<and> extended due_op log \<and> ended_active due_op log"
  by (rule renewal_completes [OF due_is_due due_created _ due_answering]) (simp_all add: max_int64_def)

section \<open>The worker\<close>

lemma due_prices: "billing_prices due_workspace = Some (10, 50000000, 2580000, 52580000, 15)"
proof -
  have q: "workspacePricingPreview defaultPricingCatalog [(''packageId'', GStr ''basic''), (''sizeGb'', GInt 10)] = Inr basic_quote"
    by (subst workspacePricingPreview_eq) code_simp
  have r: "requiredPositiveInteger (mapField basic_quote ''compute'') ''chargeUsdMicros'' = Some 50000000"
    "requiredPositiveInteger (mapField basic_quote ''storage'') ''chargeUsdMicros'' = Some 2580000" "requiredPositiveInteger basic_quote ''totalChargeUsdMicros'' = Some 52580000"
    by code_simp+
  have w: "requiredPositiveInteger due_workspace ''storageGb'' = Some 10" "requiredPositiveInteger due_workspace ''computeUsdMicros'' = Some 50000000"
    "requiredPositiveInteger due_workspace ''storageUsdMicros'' = Some 2580000" "requiredPositiveInteger due_workspace ''totalUsdMicros'' = Some 52580000"
    "requiredPositiveInteger due_workspace ''billingAnchorDay'' = Some 15" "checkedAddInt64 50000000 2580000 = Some 52580000"
    "sfield due_workspace ''priceVersion'' = pricingCatalogVersion" "sfield due_workspace ''currency'' = pricingCurrency" "sfield due_workspace ''billingUnit'' = pricingBillingUnit"
    by code_simp+
  show ?thesis by (simp add: billing_prices_def w due_row q r)
qed

lemma due_period: "billing_period due_workspace \<noteq> None"
proof -
  have "sfield due_workspace ''nextRenewalAt'' = ''2026-08-14T00:00:00Z''" "date_ns 2026 7 15 0 0 0 0 < date_ns 2026 8 15 0 0 0 0"
    "date_ns 2026 8 14 0 0 0 0 = day_before (date_ns 2026 8 15 0 0 0 0)"
    by code_simp+
  then show ?thesis by (simp add: billing_period_def due_row due_times)
qed

lemma due_billed: "\<exists>st. normalizeWorkspaceBillingStateForWorkspace due_workspace due_workspace = Some (Some st)"
proof -
  have k: "has_key due_workspace ''renewalStatus''" "mget due_workspace ''renewalStatus'' = GStr ''active''" "list_all (has_key due_workspace) workspaceBillingStateRequiredKeys"
    "list_all (\<lambda>k. as_str (mget due_workspace k) \<noteq> None) billing_texts" "billing_resources_ok due_workspace ''c1'' ''s1''" "\<not> has_key due_workspace ''manualReviewReason''"
    "sfield due_workspace ''currentComputeAllocationId'' = ''c1''"
    by code_simp+
  have t: "sfield due_workspace ''authorizedAt'' = ''2026-07-15T00:00:00Z''" "sfield due_workspace ''authorizedBy'' = ''u1''" "sfield due_workspace ''renewalStatus'' = ''active''"
    by code_simp+
  have "billing_authorization_ok due_workspace ''u1''" by (simp add: billing_authorization_ok_def t due_row due_times Let_def)
  with k due_period show ?thesis
    by (auto simp: normalizeWorkspaceBillingStateForWorkspace_def normalizeWorkspaceBillingState_def due_row due_prices t Let_def)
qed

lemma due_remembers: "remembers due_sv past"
  by (simp add: remembers_def)

text \<open>One round of the worker over this one workspace.\<close>

lemma due_round: "\<exists>log. run_state (runMonthlyBillingOnce due_sv due_now) [] = ([], log) \<and> renewal_tally log = (1, 1) \<and> extended due_op log \<and> ended_active due_op log"
proof -
  obtain st where st: "normalizeWorkspaceBillingStateForWorkspace due_workspace due_workspace = Some (Some st)" using due_billed by blast
  obtain log where "run_state (processWorkspaceRenewal due_sv ''ws1'' due_now) [RRead ''ListWorkspaces''] = ([], log)" "renewal_tally log = (1, 1)"
    "extended due_op log" "ended_active due_op log"
    using process_completes [OF due_is_due due_created _ _ due_answering, of "[RRead ''ListWorkspaces'']"] by (auto simp: max_int64_def)
  then show ?thesis
    by (simp add: runMonthlyBillingOnce_def rpeek_def run_calls st due_row monthlyBusinessOutcome_def)
qed

end
