(* ===== verification/CP_Renewal_Rounds.thy ===== *)
theory CP_Renewal_Rounds
  imports CP_Renewal_Run
begin

text \<open>
  The sixteen rounds of a renewal are never used up: what a status and a phase are from the end, and
  that every step which goes on comes nearer, whatever the services answer.
\<close>

definition provider_rank :: "string \<Rightarrow> nat" where
  "provider_rank phase =
     (if phase = ''provider_compute'' then 6 else if phase = ''verify_compute'' then 5 else if phase = ''provider_storage'' then 4
      else if phase = ''verify_storage'' then 3 else 2)"

definition status_rank :: "string \<Rightarrow> string \<Rightarrow> nat" where
  "status_rank status phase =
     (if status = ''claimed'' then (if phase = ''preflight_compute'' then 10 else 9)
      else if status = ''insufficient'' then 9 else if status = ''debit_pending'' then 8 else if status = ''debited'' then 7
      else if status = ''provider_renewing'' then provider_rank phase
      else if status = ''verifying'' then (if phase = ''receipt'' then 1 else 2) else 1)"

definition renewal_rank :: "renewal_state \<Rightarrow> nat" where
  "renewal_rank op = status_rank (ro_Status op) (ro_Phase op)"

lemma renewal_rank_bounds: "0 < renewal_rank op" "renewal_rank op \<le> 10"
  by (simp_all add: renewal_rank_def status_rank_def provider_rank_def)

lemma gives_seq: "gives m R \<Longrightarrow> (\<And>a. R a \<Longrightarrow> gives (f a) Q) \<Longrightarrow> gives (m \<bind> f) Q"
  unfolding gives_def run_bind by blast

text \<open>An end without an error, or an operation that a step hands on, is nearer than \<open>n\<close>.\<close>

definition nearer :: "nat \<Rightarrow> renewal_end \<Rightarrow> bool" where
  "nearer n e \<longleftrightarrow> (snd e = [] \<longrightarrow> renewal_rank (fst e) < n)"

definition step_nearer :: "nat \<Rightarrow> ('e, renewal_state) res \<Rightarrow> bool" where
  "step_nearer n r \<longleftrightarrow> (case r of Inl _ \<Rightarrow> True | Inr op \<Rightarrow> renewal_rank op < n)"

lemma nearer_simps [simp]: "nearer n (op, e # es)" "nearer n (op, []) = (renewal_rank op < n)" "step_nearer n (Inl x)" "step_nearer n (Inr op) = (renewal_rank op < n)"
  by (simp_all add: nearer_def step_nearer_def)

lemma nearer_errors: "e \<noteq> [] \<Longrightarrow> nearer n (op, e)"
  by (simp add: nearer_def)

lemma renewal_rank_rewritten [simp]:
  "renewal_rank (op\<lparr>ro_PersistedResult := t\<rparr>) = renewal_rank op" "renewal_rank (releaseWorkspaceRenewalLease op) = renewal_rank op"
  by (simp_all add: renewal_rank_def releaseWorkspaceRenewalLease_def)

lemma gives_persist: "renewal_rank op < n \<Longrightarrow> gives (persistWorkspaceRenewal sv op p) (nearer n)"
  unfolding persistWorkspaceRenewal_def
  by (intro gives_bind gives_ret) (simp split: option.split)

lemma gives_ended: "renewal_rank op < n \<or> causes \<noteq> [] \<Longrightarrow> gives (end_renewal sv op causes) (nearer n)"
  using gives_persist [of "releaseWorkspaceRenewalLease op" n sv None]
  unfolding end_renewal_def by (auto simp: gives_def run_bind nearer_def ret_def case_prod_beta simp del: run_state_bind)

lemma gives_retry: "gives (retryWorkspaceRenewal sv op code cause) (nearer n)"
  unfolding retryWorkspaceRenewal_def by (rule gives_ended) simp

lemma gives_review: "1 < n \<Longrightarrow> gives (manualReviewWorkspaceRenewal sv op code) (nearer n)"
  unfolding manualReviewWorkspaceRenewal_def by (rule gives_ended) (simp add: renewal_rank_def status_rank_def)

lemma gives_checked: "gives m (nearer n) \<Longrightarrow> gives (checked m) (step_nearer n)"
  unfolding checked_def by (erule gives_seq) (auto intro!: gives_ret simp: nearer_def)

lemma gives_leave: "gives (leave m) (step_nearer n)"
  unfolding leave_def by (intro gives_bind gives_ret) simp

text \<open>A part that stops the step stops it with an end.\<close>

definition left_nearer :: "nat \<Rightarrow> (renewal_end, 'a) res \<Rightarrow> bool" where
  "left_nearer n r \<longleftrightarrow> (case r of Inl e \<Rightarrow> nearer n e | Inr _ \<Rightarrow> True)"

lemma left_nearer_simps [simp]: "left_nearer n (Inl e) = nearer n e" "left_nearer n (Inr x)"
  by (simp_all add: left_nearer_def)

lemma gives_then_left: "gives m (nearer n) \<Longrightarrow> gives (m \<bind> (\<lambda>e. ret (Inl e))) (left_nearer n)"
  by (erule gives_seq) (rule gives_ret, simp)

lemma gives_left: "gives m (nearer n) \<Longrightarrow> gives (leave m) (left_nearer n)"
  unfolding leave_def by (rule gives_then_left)

lemma gives_checked_left: "gives (checked m) (left_nearer n)"
  unfolding checked_def by (intro gives_bind, rule gives_cases(4), rule gives_ret) (simp add: nearer_errors)

lemma gives_on: "gives m (left_nearer n) \<Longrightarrow> (\<And>x. gives (f x) (nearer n)) \<Longrightarrow> gives (m \<bind> (\<lambda>r. case r of Inl e \<Rightarrow> ret e | Inr x \<Rightarrow> f x)) (nearer n)"
  by (erule gives_seq) (auto intro!: gives_ret split: sum.split)

lemmas gives_near = gives_bind gives_cases gives_retry gives_review gives_checked gives_leave gives_ret

section \<open>The debit\<close>

lemma gives_insufficient: "gives (insufficient_renewal sv op) (nearer n)"
  unfolding insufficient_renewal_def by (intro gives_bind gives_cases gives_ret) (simp add: nearer_def)

lemma gives_recovered: "1 < n \<Longrightarrow> gives (recover_renewal_charge sv op u) (left_nearer n)"
  unfolding recover_renewal_charge_def Let_def
  by (intro gives_bind gives_cases gives_then_left gives_review) (auto intro: gives_ret gives_bind)

lemma gives_first: "gives (first_renewal_charge sv op u) (left_nearer n)"
proof -
  have "gives (do { (op', errs) \<leftarrow> persistWorkspaceRenewal sv q p; if errs \<noteq> [] then ret (Inl (op', errs)) else do { c \<leftarrow> charge_renewal sv op' u; ret (Inr (op', c)) } })
      (left_nearer n)" for q p
    by (intro gives_bind gives_cases gives_ret) (auto intro: gives_ret gives_bind simp: nearer_errors)
  then show ?thesis
    unfolding first_renewal_charge_def
    by (intro gives_bind) (auto intro!: gives_cases gives_then_left gives_retry gives_insufficient)
qed

lemma gives_settled: "1 < n \<Longrightarrow> gives (settle_renewal_charge sv op u r) (left_nearer n)"
  unfolding settle_renewal_charge_def Let_def
  by (intro gives_cases gives_left gives_retry gives_review gives_checked_left)

lemma gives_obtained: "1 < n \<Longrightarrow> gives (obtain_renewal_charge sv op u) (left_nearer n)"
proof -
  assume n: "1 < n"
  have first: "gives (if b then do { r \<leftarrow> recover_renewal_charge sv op u; ret (case r of Inl ended \<Rightarrow> Inl ended | Inr c \<Rightarrow> Inr (op, c)) } else first_renewal_charge sv op u)
      (left_nearer n)" for b
    by (rule gives_cases(1), rule gives_seq [OF gives_recovered [OF n]], rule gives_ret) (auto intro: gives_first split: sum.split)
  have on: "gives (case r of Inl ended \<Rightarrow> ret (Inl ended) | Inr (op', result) \<Rightarrow> settle_renewal_charge sv op' u result) (left_nearer n)"
    if "left_nearer n r" for r
    using that by (auto intro!: gives_ret gives_settled n split: sum.split prod.split)
  show ?thesis
    unfolding obtain_renewal_charge_def
    by (rule gives_bind, rule gives_cases(2), rule gives_seq [OF first], erule on, rule gives_left, rule gives_retry)
qed

lemma gives_confirmed: "7 < n \<Longrightarrow> gives (confirm_renewal_debit sv op u) (nearer n)" for n
  unfolding confirm_renewal_debit_def Let_def
  by (intro gives_near gives_persist) (simp_all add: renewal_rank_def status_rank_def)

lemma gives_debit: "gives (debitWorkspaceRenewal sv op) (nearer 8)"
  unfolding debitWorkspaceRenewal_def
  by (rule gives_bind, rule gives_cases(3), rule gives_retry, rule gives_cases(1), rule gives_on [OF gives_obtained])
     (simp_all add: gives_confirmed)

section \<open>The provider\<close>

lemma gives_refund_receipt: "ro_Status op = ''refunded'' \<Longrightarrow> 1 < n \<Longrightarrow> gives (recordWorkspaceRefundReceipt sv op) (nearer n)"
  unfolding recordWorkspaceRefundReceipt_def
  by (intro gives_bind gives_cases gives_retry gives_ended) (simp_all add: renewal_rank_def status_rank_def)

lemma gives_refund_settled: "1 < n \<Longrightarrow> gives (settle_renewal_refund sv op u r) (nearer n)"
proof -
  assume n: "1 < n"
  have "gives (do { (op', errs) \<leftarrow> persistWorkspaceRenewal sv q p; if errs \<noteq> [] then ret (op', errs) else recordWorkspaceRefundReceipt sv op' }) (nearer n)"
    if "ro_Status q = ''refunded''" for q p
  proof (rule gives_seq)
    show "gives (persistWorkspaceRenewal sv q p) (\<lambda>(op', errs). errs = [] \<longrightarrow> ro_Status op' = ''refunded'')"
      unfolding persistWorkspaceRenewal_def by (intro gives_bind gives_ret) (simp add: that split: option.split)
  qed (auto intro!: gives_ret gives_refund_receipt n simp: nearer_errors)
  then show ?thesis
    unfolding settle_renewal_refund_def by (intro gives_cases gives_retry) simp
qed

lemma gives_list: "(x = [] \<Longrightarrow> gives m Q) \<Longrightarrow> (\<And>a b. x = a # b \<Longrightarrow> gives (f a b) Q) \<Longrightarrow> gives (case x of [] \<Rightarrow> m | a # b \<Rightarrow> f a b) Q"
  by (cases x) simp_all

lemma gives_refund_recovered: "1 < n \<Longrightarrow> gives (recover_renewal_refund sv op u) (left_nearer n)"
  unfolding recover_renewal_refund_def
  by (rule gives_bind, rule gives_list, rule gives_bind, rule gives_ret, simp, rule gives_cases(1), rule gives_then_left, erule gives_review)
     (simp add: gives_ret)

lemma gives_refund: "1 < n \<Longrightarrow> gives (refundWorkspaceRenewal sv op r) (nearer n)"
  unfolding refundWorkspaceRenewal_def
  by (rule gives_bind, rule gives_cases(3), erule gives_review, rule gives_cases(1), rule gives_on [OF gives_refund_recovered])
     (auto intro!: gives_refund_settled gives_bind gives_ret nearer_errors)

definition same_place :: "renewal_state \<Rightarrow> renewal_state \<Rightarrow> bool" where
  "same_place op op' \<longleftrightarrow> ro_Status op' = ro_Status op \<and> ro_Phase op' = ro_Phase op"

lemma same_place_readback [simp]: "same_place op (note_readback k m op)"
  by (simp add: same_place_def note_readback_def)

lemma gives_sync: "gives (sync_renewal sv k op) (\<lambda>(op', readback). same_place op op')"
  unfolding sync_renewal_def Let_def by (intro gives_bind gives_cases gives_ret) simp

lemma gives_renewed: "5 < n \<or> k = ''storage'' \<and> 3 < n \<Longrightarrow> ro_Status op = ''provider_renewing'' \<Longrightarrow> gives (renew_resource sv k op) (nearer n)"
  unfolding renew_resource_def Let_def
  by (intro gives_bind gives_cases gives_persist) (auto simp: renewal_rank_def status_rank_def provider_rank_def)

lemma gives_compute: "ro_Status op = ''provider_renewing'' \<Longrightarrow> gives (verify_compute_phase sv op) (nearer 5)"
  unfolding verify_compute_phase_def
  by (rule gives_seq [OF gives_sync])
     (auto intro!: gives_cases gives_refund gives_review gives_bind gives_ret gives_persist simp: same_place_def renewal_rank_def status_rank_def provider_rank_def)

lemma gives_storage: "ro_Status op = ''provider_renewing'' \<Longrightarrow> gives (verify_storage_phase sv op) (nearer 3)"
  unfolding verify_storage_phase_def
  by (rule gives_seq [OF gives_sync])
     (auto intro!: gives_cases gives_review gives_bind gives_ret gives_persist simp: same_place_def renewal_rank_def status_rank_def provider_rank_def)

lemma gives_provider: "ro_Status op = ''provider_renewing'' \<Longrightarrow> gives (renewWorkspaceProvider sv op) (nearer (provider_rank (ro_Phase op)))"
  unfolding renewWorkspaceProvider_def Let_def
  by (intro gives_cases gives_renewed gives_compute gives_storage gives_review) (simp_all add: provider_rank_def gives_compute gives_storage)

section \<open>Every step\<close>

lemma gives_commit: "gives (commitWorkspaceRenewalEntitlement sv op) (nearer 2)"
  unfolding commitWorkspaceRenewalEntitlement_def
  by (intro gives_bind gives_cases gives_review gives_persist)
     (auto intro!: gives_persist simp: entitlement_write_def Let_def renewal_rank_def status_rank_def)

lemma gives_preflight: "renewal_rank op' < n \<Longrightarrow> gives (preflight_renewal sv op i c op') (step_nearer n)"
  unfolding preflight_renewal_def by (intro gives_bind gives_cases gives_leave gives_checked gives_persist)

lemma gives_claimed: "ro_Status op = ''claimed'' \<Longrightarrow> gives (claimed_step sv op) (step_nearer (renewal_rank op))"
  unfolding claimed_step_def
  by (intro gives_bind gives_cases gives_leave gives_checked gives_persist gives_preflight) (simp_all add: renewal_rank_def status_rank_def)

lemma gives_verifying: "gives (verifying_step sv op) (step_nearer 2)"
  unfolding verifying_step_def by (intro gives_bind gives_cases gives_leave gives_checked gives_commit)

lemma gives_step: "gives (renewal_step sv op) (step_nearer (renewal_rank op))"
proof -
  have ranks: "ro_Status op = ''insufficient'' \<Longrightarrow> renewal_rank op = 9" "ro_Status op = ''debit_pending'' \<Longrightarrow> renewal_rank op = 8"
    "ro_Status op = ''debited'' \<Longrightarrow> renewal_rank op = 7" "ro_Status op = ''provider_renewing'' \<Longrightarrow> renewal_rank op = provider_rank (ro_Phase op)"
    by (simp_all add: renewal_rank_def status_rank_def)
  have verifying: "ro_Status op = ''verifying'' \<Longrightarrow> gives (verifying_step sv op) (step_nearer (renewal_rank op))"
  proof (cases "ro_Phase op = ''receipt''")
    case True
    then show ?thesis by (simp add: verifying_step_def gives_leave)
  next
    case False
    assume "ro_Status op = ''verifying''"
    with False have "renewal_rank op = 2" by (simp add: renewal_rank_def status_rank_def)
    then show ?thesis by (simp add: gives_verifying)
  qed
  show ?thesis
    unfolding renewal_step_def Let_def
    by (intro gives_cases gives_ret gives_leave gives_claimed verifying gives_checked gives_persist)
       (simp_all add: ranks gives_debit gives_provider, simp_all add: renewal_rank_def status_rank_def provider_rank_def)
qed

lemma renewal_rounds_enough: "renewal_rank op \<le> n \<Longrightarrow> renewal_rounds (n + k) sv op = renewal_rounds n sv op"
proof (induction n arbitrary: op)
  case 0
  then show ?case using renewal_rank_bounds(1) [of op] by simp
next
  case (Suc n)
  have "gives (renewal_step sv op) (\<lambda>r. (case r of Inl e \<Rightarrow> ret e | Inr p \<Rightarrow> renewal_rounds (n + k) sv p) =
                                       (case r of Inl e \<Rightarrow> ret e | Inr p \<Rightarrow> renewal_rounds n sv p))"
    using gives_step [of sv op] Suc unfolding gives_def step_nearer_def by (fastforce split: sum.splits)
  then show ?case by (simp add: bind_eqI)
qed

text \<open>C9: A run of a renewal never runs into its limit of sixteen rounds: every step either ends the run or brings
  the operation nearer to its end, so ten rounds do as much as any greater number, whatever is answered.\<close>

theorem renewal_rounds_suffice:
  "runWorkspaceRenewal sv op = do { (_, errs) \<leftarrow> renewal_rounds 10 sv op; ret errs } \<and>
   renewal_rounds (10 + k) sv op = renewal_rounds 10 sv op"
  using renewal_rounds_enough [of op 10 6 sv] renewal_rounds_enough [of op 10 k sv] renewal_rank_bounds(2) [of op]
  by (simp add: runWorkspaceRenewal_def)

end
