(* ===== verification/CP_Renewal_Claims.thy ===== *)
theory CP_Renewal_Claims
  imports CP_Renewal_Example CP_Renewal_Rounds
begin

text \<open>
  The claims about whole lives of renewals: what every charge and refund answers to, what every
  operation that was written has behind it, what extends a workspace, and a review that is stuck.
\<close>

section \<open>A run in a life\<close>

inductive renewal_run :: "(string \<Rightarrow> string) \<Rightarrow> environment \<Rightarrow> renewal_state set \<Rightarrow> rcalls \<Rightarrow> bool" for sha env where
  by_worker: "renewal_life sha env past \<Longrightarrow> rv_sha sv = sha \<Longrightarrow> rv_env sv = env \<Longrightarrow> remembers sv past \<Longrightarrow>
    renewal_run sha env past (snd (run_state (runMonthlyBillingOnce sv now) []))"
| by_reviewer: "renewal_life sha env past \<Longrightarrow> rv_sha sv = sha \<Longrightarrow> rv_env sv = env \<Longrightarrow> remembers sv past \<Longrightarrow>
    renewal_run sha env past (snd (run_state (resolveWorkspaceRenewalReview sv i) []))"

lemma run_accounted:
  assumes "renewal_run sha env past log"
  obtains sv where "rv_sha sv = sha" "rv_env sv = env" "accounted sv past log" "\<forall>q \<in> past. renewal_sound sv q"
  using assms
proof (cases rule: renewal_run.cases)
  case (by_worker sv now)
  have s: "\<forall>q \<in> past. renewal_sound sv q" using life_sound by_worker(2-4) by blast
  then have "accounted sv past log"
    using runs_end [OF worker_books [of sv past now], of "[]"] by_worker(1,5) by (simp add: tables_sound_def)
  with s by_worker(3,4) show ?thesis using that by blast
next
  case (by_reviewer sv i)
  have s: "\<forall>q \<in> past. renewal_sound sv q" using life_sound by_reviewer(2-4) by blast
  then have "accounted sv past log"
    using runs_end [OF resolve_books [of sv past i], of "[]"] by_reviewer(1,5) by (simp add: tables_sound_def)
  with s by_reviewer(3,4) show ?thesis using that by blast
qed

lemma accounted_split: "accounted sv past (later @ c # earlier) \<Longrightarrow> accounted sv past earlier \<and> entry_ok sv (past \<union> written earlier) c"
  by (induction later) auto

lemma accounted_entry: "accounted sv past log \<Longrightarrow> c \<in> set log \<Longrightarrow> \<exists>W. entry_ok sv W c"
  by (induction log) auto

section \<open>Money\<close>

text \<open>C5: Whatever fails and however often the worker and the reviewers run, each charge and each refund of a renewal is made for
  an operation that was written before it with the attempt noted, for that operation's price and under the code that
  belongs to its identifier alone: a charge only when the balance that was read exceeds the price, a refund only when the
  charge was confirmed.\<close>

theorem renewal_money_noted:
  assumes "renewal_run sha env past (later @ c # earlier)" and "c = RCharge i \<or> c = RRefund i"
  shows "\<exists>q \<in> past \<union> written earlier. ci_USDMicros i = ro_TotalUSDMicros q \<and>
    (c = RCharge i \<and> ci_Code i = monthlyRedeemCode sha (NODE_ENV env) (ro_ID q) \<and> ro_ChargeAttempted q \<and> ro_TotalUSDMicros q < ro_PreChargeBalanceUSDMicros q \<or>
     c = RRefund i \<and> ci_Code i = monthlyRefundCode sha (NODE_ENV env) (ro_ID q) \<and> ro_RefundAttempted q \<and> renewal_settled q)"
proof -
  obtain sv where sv: "rv_sha sv = sha" "rv_env sv = env" "accounted sv past (later @ c # earlier)" "\<forall>q \<in> past. renewal_sound sv q"
    using run_accounted [OF assms(1)] by blast
  from accounted_split [OF sv(3)] have e: "accounted sv past earlier" "entry_ok sv (past \<union> written earlier) c" by simp_all
  have sound: "renewal_sound sv q" if "q \<in> past \<union> written earlier" for q
    using that sv(4) accounted_written [OF e(1)] by blast
  obtain q u where q: "q \<in> past \<union> written earlier"
    "c = RCharge i \<and> i = renewal_charge_input q u \<and> ro_ChargeAttempted q \<or> c = RRefund i \<and> i = renewal_refund_input q u \<and> ro_RefundAttempted q"
    using e(2) assms(2) unfolding entry_ok_def by fastforce
  show ?thesis
  proof (rule bexI [OF _ q(1)])
    have "renewal_codes sv (ro_ID q) (ro_RedeemCode q) (ro_RefundCode q)" "charge_sound q" "refund_sound q"
      using sound [OF q(1)] by (simp_all add: renewal_sound_def)
    then have codes: "ro_RedeemCode q = monthlyRedeemCode sha (NODE_ENV env) (ro_ID q)" "ro_RefundCode q = monthlyRefundCode sha (NODE_ENV env) (ro_ID q)"
      and paid: "ro_ChargeAttempted q \<Longrightarrow> ro_TotalUSDMicros q < ro_PreChargeBalanceUSDMicros q" "ro_RefundAttempted q \<Longrightarrow> renewal_settled q"
      by (simp_all add: renewal_codes_def sv charge_sound_def refund_sound_def)
    from q(2) show "ci_USDMicros i = ro_TotalUSDMicros q \<and>
      (c = RCharge i \<and> ci_Code i = monthlyRedeemCode sha (NODE_ENV env) (ro_ID q) \<and> ro_ChargeAttempted q \<and> ro_TotalUSDMicros q < ro_PreChargeBalanceUSDMicros q \<or>
       c = RRefund i \<and> ci_Code i = monthlyRefundCode sha (NODE_ENV env) (ro_ID q) \<and> ro_RefundAttempted q \<and> renewal_settled q)"
      by (elim disjE conjE) (simp_all add: renewal_charge_input_def renewal_refund_input_def codes paid)
  qed
qed

text \<open>The worker's round over the workspace that is due.\<close>

lemma due_run: "\<exists>log. renewal_run due_sha due_env {} log \<and> renewal_tally log = (1, 1) \<and> extended due_op log \<and> ended_active due_op log"
proof -
  obtain log where log: "run_state (runMonthlyBillingOnce due_sv due_now) [] = ([], log)" "renewal_tally log = (1, 1)" "extended due_op log" "ended_active due_op log"
    using due_round by blast
  have "renewal_run due_sha due_env {} (snd (run_state (runMonthlyBillingOnce due_sv due_now) []))"
    by (rule by_worker) (simp_all add: start due_remembers)
  with log show ?thesis by auto
qed

lemma tally_money: "fst (renewal_tally log) = Suc n \<Longrightarrow> \<exists>i later c earlier. log = later @ c # earlier \<and> (c = RCharge i \<or> c = RRefund i)"
proof -
  assume "fst (renewal_tally log) = Suc n"
  then obtain c where "c \<in> set log" "case c of RCharge _ \<Rightarrow> True | RRefund _ \<Rightarrow> True | _ \<Rightarrow> False"
    by (fastforce simp: renewal_tally_def dest: length_pos_if_in_set filter_eq_ConsD simp: length_Suc_conv)
  moreover from this(1) obtain later earlier where "log = later @ c # earlier" by (auto dest: split_list)
  moreover have "\<exists>i. c = RCharge i \<or> c = RRefund i" using calculation(2) by (cases c) auto
  ultimately show ?thesis by blast
qed

theorem renewal_money_noted_witness:
  "\<exists>later c earlier i q. renewal_run due_sha due_env {} (later @ c # earlier) \<and> (c = RCharge i \<or> c = RRefund i) \<and>
     q \<in> {} \<union> written earlier \<and> ci_USDMicros i = ro_TotalUSDMicros q"
proof -
  obtain log where log: "renewal_run due_sha due_env {} log" "renewal_tally log = (1, 1)" using due_run by blast
  obtain i later c earlier where c: "log = later @ c # earlier" "c = RCharge i \<or> c = RRefund i" using tally_money [of log 0] log(2) by auto
  from renewal_money_noted [OF log(1) [unfolded c(1)] c(2)]
  obtain q where "q \<in> {} \<union> written earlier" "ci_USDMicros i = ro_TotalUSDMicros q" by blast
  with log(1) c show ?thesis by blast
qed

section \<open>Operations\<close>

text \<open>C6: Every operation of a renewal that was ever written has behind it what its status says: from debited on the charge is
  confirmed and the balance fell by exactly the price, or a reviewer decided; an active one was extended and has a receipt;
  a refunded one has a confirmed refund; one that was refunded or is being refunded is only ever extended by a reviewer's decision; one that
  ended unpaid was never charged.\<close>

theorem renewal_paid_first:
  assumes "renewal_life sha env past" and "q \<in> past"
  shows "(paid_status (ro_Status q) \<longrightarrow> renewal_charged q \<and> 0 \<le> ro_PostChargeBalanceUSDMicros q \<and> (balance_exact q \<or> ro_ReviewResolutionKey q \<noteq> [])) \<and>
    (ro_Status q = ''active'' \<longrightarrow> ro_EntitlementCommitted q \<and> ro_ReceiptID q \<noteq> []) \<and>
    (ro_Status q = ''refunded'' \<longrightarrow> refund_confirmed q) \<and>
    (ro_RefundAttempted q \<and> ro_EntitlementCommitted q \<longrightarrow> ro_ReviewResolutionKey q \<noteq> []) \<and>
    (ro_Status q = ''expired_unpaid'' \<longrightarrow> \<not> ro_ChargeAttempted q)"
proof -
  have "renewal_sound (due_sv\<lparr>rv_sha := sha, rv_env := env\<rparr>) q" by (rule life_sound [OF assms(1) _ _ assms(2)]) simp_all
  then show ?thesis
    by (auto simp: renewal_sound_def charge_sound_def refund_sound_def entitlement_sound_def renewal_settled_def charge_settled_def)
qed

lemma due_life: "\<exists>past q. renewal_life due_sha due_env past \<and> q \<in> past \<and> ro_Status q = ''active''"
proof -
  obtain log where log: "run_state (runMonthlyBillingOnce due_sv due_now) [] = ([], log)" "ended_active due_op log" using due_round by blast
  then obtain q where q: "RPersist q None True \<in> set log" "ro_Status q = ''active''" unfolding ended_active_def by blast
  have "renewal_life due_sha due_env ({} \<union> written (snd (run_state (runMonthlyBillingOnce due_sv due_now) [])))"
    by (rule worker) (simp_all add: start due_remembers)
  then have "renewal_life due_sha due_env (written log)" using log(1) by simp
  moreover have "q \<in> written log" using q(1) by (auto simp: written_def)
  ultimately show ?thesis using q(2) by blast
qed

theorem renewal_paid_first_witness:
  "\<exists>past q. renewal_life due_sha due_env past \<and> q \<in> past \<and> ro_Status q = ''active'' \<and> renewal_charged q \<and> ro_EntitlementCommitted q"
proof -
  obtain past q where q: "renewal_life due_sha due_env past" "q \<in> past" "ro_Status q = ''active''" using due_life by blast
  from renewal_paid_first [OF q(1,2)] q show ?thesis by auto
qed

section \<open>The workspace\<close>

text \<open>C7: Only a paid renewal extends a workspace: a write that moves the paid period, starts the workspace or makes its renewal
  active is that of an operation with a confirmed charge, replaces exactly the period that was read by the next one, and
  leaves the customer's choice alone; and no renewal ever switches automatic renewal on.\<close>

theorem renewal_extension_paid:
  assumes "renewal_run sha env past log" and "RPersist q (Some p) b \<in> set log"
  shows "(mget (xp_Fields p) ''paidThrough'' \<noteq> GNil \<or> mget (xp_Fields p) ''state'' = GStr ''running'' \<or> mget (xp_Fields p) ''renewalStatus'' = GStr ''active'' \<longrightarrow>
      renewal_settled q \<and> ro_EntitlementCommitted q \<and> xp_ExpectedPaidThrough p = ro_PaidThrough q \<and>
      mget (xp_Fields p) ''periodStart'' = GStr (ro_PaidThrough q) \<and> mget (xp_Fields p) ''paidThrough'' = GStr (ro_RenewedThrough q) \<and>
      mget (xp_Fields p) ''autoRenew'' = GNil) \<and>
    mget (xp_Fields p) ''autoRenew'' \<noteq> GBool True"
proof -
  obtain sv where "accounted sv past log" using run_accounted [OF assms(1)] by blast
  then obtain W where "entry_ok sv W (RPersist q (Some p) b)" using accounted_entry assms(2) by blast
  then have "grants q p \<or> takes q p" by (simp add: patch_ok_def)
  then show ?thesis by (auto simp: grants_def takes_def)
qed

theorem renewal_extension_paid_witness:
  "\<exists>log q p. renewal_run due_sha due_env {} log \<and> RPersist q (Some p) True \<in> set log \<and>
     mget (xp_Fields p) ''paidThrough'' = GStr (ro_RenewedThrough due_op) \<and> renewal_settled q \<and> xp_ExpectedPaidThrough p = ro_PaidThrough q"
proof -
  obtain log where log: "renewal_run due_sha due_env {} log" "extended due_op log" using due_run by blast
  obtain q p where q: "RPersist q (Some p) True \<in> set log" "mget (xp_Fields p) ''paidThrough'' = GStr (ro_RenewedThrough due_op)"
    using log(2) unfolding extended_def by blast
  from renewal_extension_paid [OF log(1) q(1)] q(2) have "renewal_settled q" "xp_ExpectedPaidThrough p = ro_PaidThrough q" by simp_all
  with log(1) q show ?thesis by blast
qed

section \<open>A stuck review\<close>

text \<open>C40: A resolution that got as far as the extension and then fell back into review can never be resolved: every further
  call with its key is refused, and none of them changes anything.\<close>

theorem review_stuck:
  assumes "\<forall>l. rv_ListRuntimeOperations sv l = Some rows"
    and "find (\<lambda>row. sfield row ''action'' = ''workspace.renewal'' \<and> first_text [sfield row ''operationId'', sfield row ''id''] = bi_BillingOperationID i) rows = Some row"
    and "decode_renewal sv row = Some op"
    and "ro_Status op = ''manual_review''" and "ro_ReviewResolutionKey op \<noteq> []" and "ro_ReviewResolutionPhase op = ''entitlement''"
  shows "\<exists>e new. run_state (resolveWorkspaceRenewalReview sv i) log = (Inl e, new @ log) \<and> list_all (\<lambda>c. \<exists>w. c = RRead w) new"
proof -
  have loaded: "run_state (loadWorkspaceRenewalOperation sv (bi_BillingOperationID i)) log = (Inr op, RRead ''ListRuntimeOperations'' # log)"
    using assms(1-3) by (simp add: loadWorkspaceRenewalOperation_def rpeek_def run_calls)
  have resumed: "run_state (resume_review sv op) l = (Inl [ErrRenewalReviewNotPending], l)" for l
    using assms(4,6) by (simp add: resume_review_def review_verified_def review_run_def complete_review_def run_calls)
  have decided: "\<exists>e new. run_state (decide_review sv i op) l = (Inl e, new @ l) \<and> list_all (\<lambda>c. \<exists>w. c = RRead w) new" for l
    using assms(5) by (cases "sub2APIUserID (rv_ListAccounts sv l) (bi_AccountID i)")
      (auto simp: decide_review_def renewal_user_def rpeek_def run_calls resumed intro!: exI [of _ "[RRead ''ListAccounts'']"])
  obtain e new where d: "run_state (decide_review sv i op) (RRead ''ListRuntimeOperations'' # log) = (Inl e, new @ RRead ''ListRuntimeOperations'' # log)"
    "list_all (\<lambda>c. \<exists>w. c = RRead w) new"
    using decided by blast
  have "\<exists>e new. run_state (decide_review sv i op) (RRead ''ListRuntimeOperations'' # log) = (Inl e, new @ log) \<and> list_all (\<lambda>c. \<exists>w. c = RRead w) new"
    using d by (intro exI [of _ e] exI [of _ "new @ [RRead ''ListRuntimeOperations'']"]) simp
  then show ?thesis
    using assms(4-6)
    by (auto simp: resolveWorkspaceRenewalReview_def run_calls loaded Let_def intro: exI [of _ "[]"] exI [of _ "[RRead ''ListRuntimeOperations'']"])
qed

text \<open>How it comes about: the review was good enough to go on, but when both resources are read once more, one
  of them is not as it must be. The phase of the resolution stays where it was.\<close>

lemma gives_post: "gives m R \<Longrightarrow> (\<And>a. R a \<Longrightarrow> Q a) \<Longrightarrow> gives m Q"
  by (simp add: gives_def)

lemma readback_keeps_resolution:
  "gives (verifyWorkspaceRenewalProviderReadback sv op)
     (\<lambda>(q, ok). ro_ReviewResolutionKey q = ro_ReviewResolutionKey op \<and> ro_ReviewResolutionPhase q = ro_ReviewResolutionPhase op)"
proof -
  let ?K = "\<lambda>a b. ro_ReviewResolutionKey b = ro_ReviewResolutionKey a \<and> ro_ReviewResolutionPhase b = ro_ReviewResolutionPhase (a :: renewal_state)"
  have one: "gives (verify_renewed sv k x) (\<lambda>(q, ok). ?K x q)" for k x
    unfolding verify_renewed_def sync_renewal_def Let_def
    by (intro gives_seq [where R = "\<lambda>(q, r). ?K x q"]) (auto intro!: gives_bind gives_ret gives_cases simp: note_readback_def)
  show ?thesis
    unfolding verifyWorkspaceRenewalProviderReadback_def
    by (rule gives_seq [OF one]) (auto intro!: gives_cases(1) gives_ret gives_post [OF one])
qed

lemma review_falls_back:
  assumes "ro_Status op = ''verifying''" "ro_Phase op = ''entitlement''" "\<forall>l x. rv_PersistWorkspaceRenewal sv l x = None"
    and "run_state (verifyWorkspaceRenewalProviderReadback sv op) l = ((q, False), l')"
  shows "\<exists>q'. snd (run_state (renewal_step sv op) l) = RPersist q' None True # l' \<and> ro_Status q' = ''manual_review'' \<and>
    ro_ReviewResolutionKey q' = ro_ReviewResolutionKey op \<and> ro_ReviewResolutionPhase q' = ro_ReviewResolutionPhase op"
  using readback_keeps_resolution [of sv op] assms(1,2,4)
  by (auto simp: gives_def renewal_step_def verifying_step_def leave_def manualReviewWorkspaceRenewal_def end_renewal_def run_calls
      persisted [OF assms(3)] releaseWorkspaceRenewalLease_def dest!: spec [of _ l])

definition stuck_op :: renewal_state where
  "stuck_op = due_op\<lparr>ro_Status := ''manual_review'', ro_ReviewResolutionKey := ''k'', ro_ReviewResolutionPhase := ''entitlement''\<rparr>"

definition stuck_row :: gomap where
  "stuck_row = [(''id'', GStr ''op1''), (''action'', GStr ''workspace.renewal''), (''status'', GStr ''manual_review''), (''result'', GStr ''r'')]"

definition stuck_sv :: renew_services where
  "stuck_sv = due_sv\<lparr>rv_ListRuntimeOperations := (\<lambda>_. Some [stuck_row]), rv_unmarshal := (\<lambda>_. Some stuck_op)\<rparr>"

definition stuck_input :: renewal_resolution where
  "stuck_input = \<lparr>bi_ResourceType = ''workspace'', bi_ResourceID = ''ws1'', bi_AccountID = ''a1'', bi_BillingOperationID = ''op1'',
     bi_IdempotencyKey = ''k'', bi_Reviewer = ''rev'', bi_Decision = billingReviewActivateCharged, bi_EvidenceRef = ''e''\<rparr>"

theorem review_stuck_witness:
  "\<exists>e new. run_state (resolveWorkspaceRenewalReview stuck_sv stuck_input) [] = (Inl e, new @ []) \<and> list_all (\<lambda>c. \<exists>w. c = RRead w) new"
proof -
  let ?op = "stuck_op\<lparr>ro_ID := ''op1'', ro_Status := ''manual_review'', ro_CreatedAt := [], ro_PersistedResult := ''r''\<rparr>"
  have t: "trim_space ''op1'' \<noteq> []" by code_simp
  have d: "decode_renewal stuck_sv stuck_row = Some ?op"
    by (simp add: decode_renewal_def decodeWorkspaceRenewalOperation_def stuck_sv_def stuck_row_def stuck_op_def sfield_def mget_def str_of_def first_text_def Let_def t)
  show ?thesis
    by (rule review_stuck [OF _ _ d, where rows = "[stuck_row]"])
       (simp_all add: stuck_sv_def stuck_row_def stuck_op_def stuck_input_def sfield_def mget_def str_of_def first_text_def t)
qed

end
