(* ===== verification/Spec2Isabelle.thy ===== *)
theory Spec2Isabelle
  imports Ledger_Gate Ledger_Commands Ledger_Policies Ledger_Pages Ledger_Reconcile Fabric_Job_Claims Fabric_Store_Facts Fabric_Transfer_Facts
    CP_Pricing_Facts CP_Monthly_Facts CP_Reconcile_Facts Reconcile_Contract CP_Launch_Example
    CP_Wallet_Receipts CP_Wallet_Routes CP_Renewal_Claims
begin

text \<open>
  A verification library for the services of medopl, three Go programs under
  \<^verbatim>\<open>services/\<close> that sell workspaces by the month.

  \<^bold>\<open>The parts.\<close> The \<^emph>\<open>control plane\<close> (\<^verbatim>\<open>services/control-plane\<close>) answers customers and
  operators. Money is held outside, by sub2api; the control plane charges and refunds it there, has
  computes, storages and workspaces provided by the \<^emph>\<open>Fabric\<close> (\<^verbatim>\<open>services/fabric\<close>) and leaves a
  receipt for everything that was paid with the \<^emph>\<open>Ledger\<close> (\<^verbatim>\<open>services/ledger\<close>). None of these
  calls is atomic with another, so what takes several of them is a saga: an operation is kept as a row of
  \<^verbatim>\<open>runtimeOperations\<close>, every step is written before and after it is made, and a later run goes on
  from the row. Most of the development is about what such rows guarantee when calls fail, answer
  anything at all, or are cut off.

  \<^bold>\<open>The language.\<close> \<open>Go_Prelude\<close> (strings as byte lists, decimal numbers, \<^verbatim>\<open>int64\<close> as \<open>int\<close>
  with \<open>wrap64\<close> wherever a sum can leave the range), \<open>Go_Values\<close> (\<^verbatim>\<open>map[string]any\<close> as association
  lists, floats as \<open>m * 2 ^ e\<close>, the detour through JSON as \<open>json_norm\<close>), \<open>Go_Time\<close> and
  \<open>Go_RFC3339\<close> (instants, civil dates, time texts), \<open>Go_Base64\<close> (the URL alphabet without padding), \<open>Go_Hash\<close> (digests). SHA-1, SHA-256 and
  the text \<^verbatim>\<open>encoding/json\<close> prints are arguments; nothing assumes that digests do not collide.

  \<^bold>\<open>The Ledger.\<close> \<open>Ledger_Types\<close> and \<open>Ledger_Rules\<close> model
  \<^verbatim>\<open>internal/ledger/types.go\<close> (receipts, reviews, policies, their validation, the review gate),
  \<open>Ledger_Store\<close> and \<open>Ledger_Evidence\<close> model \<^verbatim>\<open>internal/ledger/memory_store.go\<close>: a record for the
  store, one function per method, Go's unspecified map order as an argument. \<open>Ledger_Invariant\<close>
  holds the transitions and the invariant; \<open>Ledger_Commands\<close> shows that receipts only grow, that a
  repeated command is answered from the store and a changed payload refused, through the locale
  \<open>Idempotent_Command\<close>, which is interpreted on the store's commands; \<open>Ledger_Policies\<close>,
  \<open>Ledger_Gate\<close>, \<open>Ledger_Pages\<close> and \<open>Ledger_Reconcile\<close> show one active policy per identity, what
  opens a gate, that pages neither skip nor repeat, and which sums of money are accepted. The cursor of a
  page is base64 of the JSON the library prints; of that JSON only the text of the cursors the store
  issues is assumed to be read back (\<open>cursor_json_ok\<close>), and \<open>text_json\<close> is such a codec.

  \<^bold>\<open>The Fabric.\<close> \<open>Fabric_Types\<close>, \<open>Fabric_Store\<close> (\<^verbatim>\<open>operation_store.go\<close>: ownership of machines, claims of
  runtime commands), \<open>Fabric_Jobs\<close> (the job commands of \<^verbatim>\<open>service.go\<close> over the operation log) and
  \<open>Fabric_Transfer\<close> (\<^verbatim>\<open>transfer.go\<close>). \<open>Fabric_Job_Facts\<close> says what each call does to the phase of its
  job; \<open>Fabric_Job_Claims\<close> states it for every log that calls of the job methods and entries of other
  kinds build, with no condition on the identifiers that creations derive. \<open>Fabric_Store_Facts\<close> and
  \<open>Fabric_Transfer_Facts\<close> hold exclusive ownership, single claims, fencing of stale claims, and the round
  trip of uploads. The steps of the store (\<open>claim_step\<close>) take as an argument what may be appended beside
  claims and results: for fencing anything, for single claims what \<^verbatim>\<open>service.go\<close> and
  \<^verbatim>\<open>pool_allocator.go\<close> append (\<open>service_logs\<close>), which of the four actions that are claimed is a rejection only.

  \<^bold>\<open>The control plane.\<close> \<open>CP_Values\<close> reads rows as \<^verbatim>\<open>app_state.go\<close> and \<^verbatim>\<open>server.go\<close> do. \<open>CP_Pricing\<close>
  (\<^verbatim>\<open>pricing.go\<close>), \<open>CP_Monthly\<close> (\<^verbatim>\<open>monthly_billing.go\<close>) and \<open>CP_Reconcile\<close>
  (\<^verbatim>\<open>billing_projection.go\<close>) are pure or read-only; the theories with the suffix \<open>_Facts\<close> hold what
  they guarantee, and \<open>Reconcile_Contract\<close> that the Ledger records the control plane's report.

  \<^bold>\<open>Sagas.\<close> \<open>CP_Calls\<close> is a state monad over the log of all calls, in which every answer is a function
  of the log so far, that is, any answer; it has three calculi: \<open>runs\<close> (triples over the log), \<open>does\<close>
  (what every call satisfies) and \<open>gives\<close> (what is returned). Three sagas use it.
  The launch of a workspace: \<open>CP_Launch_Types\<close>, \<open>CP_Launch_Debit\<close>, \<open>CP_Launch_Fulfil\<close>,
  \<open>CP_Launch_Run\<close>, \<open>CP_Launch\<close> and \<open>CP_Launch_Admission\<close> follow \<^verbatim>\<open>workspace_launch.go\<close> and
  \<^verbatim>\<open>routes_workspace_launch.go\<close> phase by phase; \<open>CP_Launch_Rules\<close>, \<open>CP_Launch_Facts\<close>,
  \<open>CP_Launch_Debit_Facts\<close> and \<open>CP_Launch_Order\<close> hold what each step keeps, \<open>CP_Launch_Life\<close> whole lives of
  a launch as an inductive relation, \<open>CP_Launch_Claims\<close> and \<open>CP_Launch_Refund\<close> the claims over them and
  \<open>CP_Launch_Example\<close> a world they are applied to.
  The adjustment of a wallet: \<open>CP_Wallet_Types\<close>, \<open>CP_Wallet\<close>, \<open>CP_Wallet_Run\<close> and \<open>CP_Wallet_Routes\<close>
  follow \<^verbatim>\<open>wallet_adjustment.go\<close>; \<open>CP_Wallet_Facts\<close> and \<open>CP_Wallet_Life\<close> hold what every call keeps,
  \<open>CP_Wallet_Claims\<close> in which order runs write and move money, \<open>CP_Wallet_Lives\<close> lives with any number of
  interrupted runs and recoveries, \<open>CP_Wallet_Answers\<close> from which answers of which services the facts a
  row records come, \<open>CP_Wallet_Live\<close> that a run completes when the services answer,
  \<open>CP_Wallet_Safety\<close> the claims, and \<open>CP_Wallet_Receipts\<close> that the Ledger takes the receipts and that refunds
  stay within what was paid.
  The renewal of a workspace: \<open>CP_Billing_State\<close> is the billing state a workspace row carries
  (\<^verbatim>\<open>ent_state_store.go\<close>: validity, normal form, merging), \<open>CP_Renewal_Types\<close>, \<open>CP_Renewal\<close>,
  \<open>CP_Renewal_Run\<close> and \<open>CP_Renewal_Process\<close> follow \<^verbatim>\<open>workspace_renewal.go\<close> and
  \<^verbatim>\<open>renewal_worker.go\<close>: the operation, its run through preflight, debit, provider and entitlement, the
  refund, the expiry, the claim, the worker and the resolution of a review. \<open>CP_Renewal_Facts\<close> holds the
  invariant of the operation, \<open>CP_Renewal_Books\<close> and \<open>CP_Renewal_Accounts\<close> what each call must answer to and
  that every step keeps to it, \<open>CP_Renewal_Lives\<close> lives with any number of rounds of the worker and of
  reviews, \<open>CP_Renewal_Rounds\<close> that the loop ends, \<open>CP_Renewal_Live\<close> that a renewal completes when the
  services answer, \<open>CP_Renewal_Example\<close> a workspace that is due, and \<open>CP_Renewal_Claims\<close> the claims.

  \<^bold>\<open>Interruption.\<close> A run may be cut off after any call: properties of lives speak of every suffix of a
  log (logs are kept latest first), and a write that was reported as failed may or may not have
  reached the table. The locks of the code (\<^verbatim>\<open>lockResource\<close>) serialise the runs of one operation;
  this is why a life is a sequence of runs. In the lives of renewals the tables may give back any
  operation that a claim or a write stored (\<open>remembers\<close>), old or new, but a write that was reported as
  failed is taken not to have been stored.

  \<^bold>\<open>Bounds and fuel.\<close> Fulfilment has the code's ten rounds and needs eight
  (\<open>launch_rounds_suffice\<close>); the run of an adjustment has eight and needs seven
  (\<open>wallet_rounds_suffice\<close>); that of a renewal has sixteen and needs ten (\<open>renewal_rounds_suffice\<close>); receipts are read through as many pages as the code allows
  (\<open>receipts_complete\<close>). Everything else is structural recursion.

  \<^bold>\<open>Parameters.\<close> The clients of sub2api, the Fabric and the Ledger, the tables, the clock, the
  decoding of the JSON a row holds, and the bearer tokens are arguments of the definitions
  (\<open>services\<close>, \<open>wallet_services\<close>, \<open>renew_services\<close>, \<open>hashing\<close>), since they lie behind HTTP, SQL or the standard library.

  \<^bold>\<open>Not modelled.\<close> The PostgreSQL stores and the code generated by ent (SQL against a database; the
  memory stores have the same contract); the drivers for the cloud and for Kubernetes; HTTP routing, the
  decoding of request bodies and sessions, beyond the handlers of launches and wallet adjustments; the
  customer's switch for automatic renewal and the tables behind the renewal's claims and writes, which
  are parameters here; the ticker that starts the worker; the migrations; the console, which is not Go.
\<close>

end
